(* ===== verification/Prelude.thy ===== *)
theory Prelude
  imports Complex_Main "HOL-Library.Word" "HOL-Library.AList" "HOL-Library.List_Lexorder"
    "HOL-Library.Char_ord" "HOL-Library.Product_Lexorder"
begin

text \<open>
  The shared vocabulary of the development: the machine-integer types of the source, the
  carrier for fallible operations, the keyed tables that stand for the source's
  \<^verbatim>\<open>std::unordered_map\<close> and \<^verbatim>\<open>std::map\<close> members, and the few list facts that several
  components use.
\<close>

section \<open>Machine integers and identities\<close>

unbundle bit_operations_syntax

type_synonym u8 = "8 word"
type_synonym u16 = "16 word"
type_synonym u32 = "32 word"
type_synonym u64 = "64 word"

text \<open>
  \<^verbatim>\<open>identity.hpp\<close>: every \<^verbatim>\<open>StrongId\<close> wraps a 64-bit unsigned integer; the tag exists only
  at compile time. An identity is valid when it is not zero.
\<close>

type_synonym ident = u64

definition id_valid :: "ident \<Rightarrow> bool" where
  "id_valid i \<longleftrightarrow> i \<noteq> 0"

text \<open>Time points are nanoseconds and durations of policies are milliseconds.\<close>

type_synonym time_ns = int
type_synonym millis = int

section \<open>Generation counters\<close>

text \<open>\<^verbatim>\<open>advance\<close> is a 64-bit increment (it wraps); \<^verbatim>\<open>observe\<close> adopts only newer values.\<close>

definition gen_advance :: "ident \<Rightarrow> ident" where
  "gen_advance g = g + 1"

definition gen_observe :: "ident \<Rightarrow> ident \<Rightarrow> ident" where
  "gen_observe current candidate = (if current < candidate then candidate else current)"

named_theorems gen_simps \<open>facts on generation counters\<close>

lemma gen_observe_ge [gen_simps]: "current \<le> gen_observe current candidate"
  by (auto simp: gen_observe_def)

lemma gen_observe_max [gen_simps]: "gen_observe current candidate = max current candidate"
  by (auto simp: gen_observe_def max_def)

lemma gen_advance_neq [gen_simps]: "gen_advance g \<noteq> g"
  by (simp add: gen_advance_def)

lemma gen_advance_gt [gen_simps]: "g \<noteq> - 1 \<Longrightarrow> g < gen_advance g"
  unfolding gen_advance_def
  by (metis inc_less_eq_triv_imp linorder_less_linear word_le_less_eq)

section \<open>Keyed tables\<close>

text \<open>
  A hash map is kept as an association list with distinct keys: \<open>find\<close> is \<open>map_of\<close>,
  \<open>operator[]\<close> assignment is \<open>AList.update\<close>. No observable result of the source depends on
  the iteration order, because every loop whose order matters sorts first.
\<close>

type_synonym 'v table = "(u64 \<times> 'v) list"

definition table_ok :: "('k \<times> 'v) list \<Rightarrow> bool" where
  "table_ok t \<longleftrightarrow> distinct (map fst t)"

definition map_values :: "('v \<Rightarrow> 'v) \<Rightarrow> ('k \<times> 'v) list \<Rightarrow> ('k \<times> 'v) list" where
  "map_values f t = map (\<lambda>(k, v). (k, f v)) t"

named_theorems table_simps \<open>lookup laws of the keyed tables\<close>

lemma table_find_update [table_simps]:
  "map_of (AList.update k v t) k' = (if k' = k then Some v else map_of t k')"
  by (simp add: update_conv')

lemma table_keys_update [table_simps]:
  "fst ` set (AList.update k v t) = insert k (fst ` set t)"
  by (simp add: dom_update)

lemma table_ok_update [table_simps, intro]: "table_ok t \<Longrightarrow> table_ok (AList.update k v t)"
  by (simp add: table_ok_def distinct_update)

lemma table_ok_delete [table_simps, intro]: "table_ok t \<Longrightarrow> table_ok (AList.delete k t)"
  by (simp add: table_ok_def distinct_delete)

lemma table_find_delete [table_simps]:
  "map_of (AList.delete k t) k' = (if k' = k then None else map_of t k')"
  by (simp add: delete_conv')

lemma table_ok_Nil [table_simps, simp]: "table_ok []"
  by (simp add: table_ok_def)

lemma map_values_keys [table_simps, simp]: "map fst (map_values f t) = map fst t"
  by (induction t) (auto simp: map_values_def)

lemma map_values_find [table_simps, simp]:
  "map_of (map_values f t) k = map_option f (map_of t k)"
  by (induction t) (auto simp: map_values_def)

lemma map_values_ok [table_simps, simp]: "table_ok (map_values f t) = table_ok t"
  by (simp add: table_ok_def)

lemma table_ok_find_iff: "table_ok t \<Longrightarrow> map_of t k = Some v \<longleftrightarrow> (k, v) \<in> set t"
  by (auto simp: table_ok_def)

text \<open>
  A keyed table holds every value under the key the value itself carries, as the source's
  containers do.
\<close>

definition keyed :: "('v \<Rightarrow> 'k) \<Rightarrow> ('k \<times> 'v) list \<Rightarrow> bool" where
  "keyed key t \<longleftrightarrow> table_ok t \<and> (\<forall>(k, v) \<in> set t. k = key v)"

definition all_values :: "('v \<Rightarrow> bool) \<Rightarrow> ('k \<times> 'v) list \<Rightarrow> bool" where
  "all_values P t \<longleftrightarrow> (\<forall>(k, v) \<in> set t. P v)"

lemma set_table_update: "set (AList.update k v t) \<subseteq> insert (k, v) (set t)"
  by (induction t) auto

lemma keyed_Nil [simp]: "keyed key []"
  by (simp add: keyed_def)

lemma keyed_ok: "keyed key t \<Longrightarrow> table_ok t"
  by (simp add: keyed_def)

lemma keyed_update: "keyed key t \<Longrightarrow> key v = k \<Longrightarrow> keyed key (AList.update k v t)"
  using set_table_update [of k v t] by (fastforce simp: keyed_def table_ok_update)

lemma keyed_map_values: "keyed key t \<Longrightarrow> (\<And>v. key (f v) = key v) \<Longrightarrow> keyed key (map_values f t)"
  unfolding keyed_def map_values_ok by (auto simp: map_values_def)

lemma keyed_find: "keyed key t \<Longrightarrow> map_of t k = Some v \<Longrightarrow> key v = k"
  by (auto simp: keyed_def dest: map_of_SomeD)

lemma keyed_foldl_update:
  "keyed key t \<Longrightarrow> (\<And>v. key (f v) = key v) \<Longrightarrow>
     keyed key (foldl (\<lambda>t v. AList.update (key v) (f v) t) t vs)"
  by (induction vs arbitrary: t) (simp_all add: keyed_update)

lemma all_values_Nil [simp]: "all_values P []"
  by (simp add: all_values_def)

lemma all_values_update: "all_values P t \<Longrightarrow> P v \<Longrightarrow> all_values P (AList.update k v t)"
  using set_table_update [of k v t] by (fastforce simp: all_values_def)

lemma all_values_map_values: "all_values P t \<Longrightarrow> (\<And>v. P v \<Longrightarrow> P (f v)) \<Longrightarrow> all_values P (map_values f t)"
  by (auto simp: all_values_def map_values_def)

lemma all_values_find: "all_values P t \<Longrightarrow> map_of t k = Some v \<Longrightarrow> P v"
  by (auto simp: all_values_def dest: map_of_SomeD)

lemma all_values_foldl_update:
  "all_values P t \<Longrightarrow> (\<And>v. v \<in> set vs \<Longrightarrow> P (f v)) \<Longrightarrow>
     all_values P (foldl (\<lambda>t v. AList.update (key v) (f v) t) t vs)"
  by (induction vs arbitrary: t) (simp_all add: all_values_update)

section \<open>Fallible operations\<close>

text \<open>
  \<^verbatim>\<open>Result<T>\<close> and \<^verbatim>\<open>Status\<close> become a sum whose left side carries the error;
  an early return of the source is a branch that yields \<open>Inl\<close>.
\<close>

definition is_ok :: "'e + 'a \<Rightarrow> bool" where
  "is_ok r = (case r of Inl _ \<Rightarrow> False | Inr _ \<Rightarrow> True)"

lemma is_ok_simps [simp]: "is_ok (Inr x)" "\<not> is_ok (Inl e)"
  by (simp_all add: is_ok_def)

lemma is_ok_iff: "is_ok r \<longleftrightarrow> (\<exists>x. r = Inr x)"
  by (cases r) auto

text \<open>A guard with an early error return succeeds when it is passed and the rest succeeds.\<close>

lemma guard_ok: "(if b then Inl e else r) = Inr x \<longleftrightarrow> \<not> b \<and> r = Inr x"
  by simp

lemma guard_is_ok [simp]: "is_ok (if b then Inl e else r) \<longleftrightarrow> \<not> b \<and> is_ok r"
  by simp

section \<open>Sequences\<close>

text \<open>\<^verbatim>\<open>std::unique\<close> keeps the first element of every run of equivalent neighbours.\<close>

fun unique_by :: "('a \<Rightarrow> 'a \<Rightarrow> bool) \<Rightarrow> 'a list \<Rightarrow> 'a list" where
  "unique_by eq [] = []"
| "unique_by eq [x] = [x]"
| "unique_by eq (x # y # ys) =
     (if eq x y then unique_by eq (x # ys) else x # unique_by eq (y # ys))"

lemma unique_by_eq: "unique_by (=) xs = remdups_adj xs"
  by (induction "(=) :: 'a \<Rightarrow> 'a \<Rightarrow> bool" xs rule: unique_by.induct) auto

lemma set_unique_by: "set (unique_by eq xs) \<subseteq> set xs"
  by (induction eq xs rule: unique_by.induct) auto

lemma unique_by_Nil_iff [simp]: "unique_by eq xs = [] \<longleftrightarrow> xs = []"
  by (induction eq xs rule: unique_by.induct) auto

lemma hd_unique_by [simp]: "xs \<noteq> [] \<Longrightarrow> hd (unique_by eq xs) = hd xs"
  by (induction eq xs rule: unique_by.induct) auto

lemma unique_by_repr:
  "reflp eq \<Longrightarrow> transp eq \<Longrightarrow> \<forall>x \<in> set xs. \<exists>y \<in> set (unique_by eq xs). eq y x"
proof (induction eq xs rule: unique_by.induct)
  case (2 eq x')
  then show ?case by (auto dest: reflpD)
next
  case (3 eq x' y' ys)
  show ?case
  proof (cases "eq x' y'")
    case True
    with 3 have IH: "\<forall>x \<in> set (x' # ys). \<exists>z \<in> set (unique_by eq (x' # ys)). eq z x" by blast
    then obtain z where "z \<in> set (unique_by eq (x' # ys))" "eq z x'" by auto
    with True have "\<exists>z \<in> set (unique_by eq (x' # ys)). eq z y'" using 3(4) by (meson transpD)
    with True IH show ?thesis by simp
  next
    case False
    with 3 have "\<forall>x \<in> set (y' # ys). \<exists>z \<in> set (unique_by eq (y' # ys)). eq z x" by blast
    with False 3(3) show ?thesis by (auto dest: reflpD)
  qed
qed simp

text \<open>Sorting identities and dropping repeats, as the source does before it iterates.\<close>

definition sort_unique :: "'a::linorder list \<Rightarrow> 'a list" where
  "sort_unique xs = remdups_adj (sort xs)"

lemma set_sort_unique [simp]: "set (sort_unique xs) = set xs"
  by (simp add: sort_unique_def)

lemma sorted_sort_unique [simp]: "sorted (sort_unique xs)"
  by (simp add: sort_unique_def sorted_remdups_adj)

lemma distinct_remdups_adj_sorted: "sorted xs \<Longrightarrow> distinct (remdups_adj xs)"
  by (induction xs rule: remdups_adj.induct) (auto simp: order.antisym)

lemma distinct_sort_unique [simp]: "distinct (sort_unique xs)"
  by (simp add: sort_unique_def distinct_remdups_adj_sorted)

end
