(* ===== verification/Float64.thy ===== *)
theory Float64
  imports Prelude
begin

text \<open>
  The source computes with \<^verbatim>\<open>double\<close>. This theory models the binary64 values and the
  operations the source uses on them, with round-to-nearest-even, gradual underflow, overflow
  to infinity, both zeros and NaN. A finite value is carried as the rational it denotes, so
  comparisons are comparisons of rationals; \<open>rnd64\<close> is the only source of rounding.
  NaN payloads are not kept apart: no operation of the source reads one.
\<close>

section \<open>Rounding a non-negative rational\<close>

text \<open>The number of binary digits of a positive integer.\<close>

fun bits :: "int \<Rightarrow> int" where
  "bits n = (if n \<le> 0 then 0 else 1 + bits (n div 2))"

declare bits.simps [simp del]

text \<open>\<open>ilog2 x\<close> is the exponent of the leading binary digit of \<open>x > 0\<close>.\<close>

definition ilog2 :: "rat \<Rightarrow> int" where
  "ilog2 x = (let (n, d) = quotient_of x; l = bits n - bits d
     in if 2 powi l \<le> x then l else l - 1)"

text \<open>Round to the nearest integer, ties to even.\<close>

definition rhe :: "rat \<Rightarrow> int" where
  "rhe y = (let f = \<lfloor>y\<rfloor>; r = y - of_int f
     in if r < 1 / 2 then f else if 1 / 2 < r then f + 1 else if even f then f else f + 1)"

text \<open>The exponent of the unit in the last place; subnormals share the smallest one.\<close>

definition ulp_exp :: "rat \<Rightarrow> int" where
  "ulp_exp x = max (- 1074) (ilog2 x - 52)"

definition quant :: "int \<Rightarrow> rat \<Rightarrow> rat" where
  "quant e x = of_int (rhe (x / 2 powi e)) * 2 powi e"

definition rnd_pos :: "rat \<Rightarrow> rat" where
  "rnd_pos x = (if x \<le> 0 then 0 else quant (ulp_exp x) x)"

definition rnd64 :: "rat \<Rightarrow> rat" where
  "rnd64 x = (if x < 0 then - rnd_pos (- x) else rnd_pos x)"

section \<open>Values and operations\<close>

datatype f64 = Fin rat | NegZero | PosInf | NegInf | NaN

definition is_nan :: "f64 \<Rightarrow> bool" where
  "is_nan x \<longleftrightarrow> x = NaN"

text \<open>\<^verbatim>\<open>std::isfinite\<close>\<close>

definition is_finite :: "f64 \<Rightarrow> bool" where
  "is_finite x = (case x of Fin _ \<Rightarrow> True | NegZero \<Rightarrow> True | _ \<Rightarrow> False)"

definition fnum :: "f64 \<Rightarrow> rat" where
  "fnum x = (case x of Fin r \<Rightarrow> r | _ \<Rightarrow> 0)"

text \<open>
  Rounding with overflow: a rounded magnitude of \<open>2 ^ 1024\<close> or more is an infinity. The
  exponent test says the same without building the power.
\<close>

definition overflows :: "rat \<Rightarrow> bool" where
  "overflows m \<longleftrightarrow> 0 < m \<and> 1024 \<le> ilog2 m"

definition rne :: "rat \<Rightarrow> f64" where
  "rne x = (let m = rnd64 x
     in if overflows \<bar>m\<bar> then (if x < 0 then NegInf else PosInf)
        else if m = 0 \<and> x < 0 then NegZero
        else Fin m)"

text \<open>Comparisons of the source: every comparison with NaN is false.\<close>

definition flt :: "f64 \<Rightarrow> f64 \<Rightarrow> bool" where
  "flt x y \<longleftrightarrow> \<not> is_nan x \<and> \<not> is_nan y \<and>
     (if x = NegInf then y \<noteq> NegInf
      else if y = PosInf then x \<noteq> PosInf
      else if x = PosInf \<or> y = NegInf then False
      else fnum x < fnum y)"

definition fle :: "f64 \<Rightarrow> f64 \<Rightarrow> bool" where
  "fle x y \<longleftrightarrow> \<not> is_nan x \<and> \<not> is_nan y \<and> \<not> flt y x"

definition feq :: "f64 \<Rightarrow> f64 \<Rightarrow> bool" where
  "feq x y \<longleftrightarrow> fle x y \<and> fle y x"

definition fneg :: "f64 \<Rightarrow> f64" where
  "fneg x = (case x of NaN \<Rightarrow> NaN | PosInf \<Rightarrow> NegInf | NegInf \<Rightarrow> PosInf | NegZero \<Rightarrow> Fin 0
     | Fin r \<Rightarrow> if r = 0 then NegZero else Fin (- r))"

definition fadd :: "f64 \<Rightarrow> f64 \<Rightarrow> f64" where
  "fadd x y =
     (if is_nan x \<or> is_nan y then NaN
      else if x = PosInf then (if y = NegInf then NaN else PosInf)
      else if x = NegInf then (if y = PosInf then NaN else NegInf)
      else if \<not> is_finite y then y
      else if x = NegZero \<and> y = NegZero then NegZero
      else rne (fnum x + fnum y))"

definition fsub :: "f64 \<Rightarrow> f64 \<Rightarrow> f64" where
  "fsub x y = fadd x (fneg y)"

definition sign_bit :: "f64 \<Rightarrow> bool" where
  "sign_bit x = (case x of Fin r \<Rightarrow> r < 0 | NegZero \<Rightarrow> True | NegInf \<Rightarrow> True | _ \<Rightarrow> False)"

definition signed_zero :: "bool \<Rightarrow> f64" where
  "signed_zero s = (if s then NegZero else Fin 0)"

definition signed_inf :: "bool \<Rightarrow> f64" where
  "signed_inf s = (if s then NegInf else PosInf)"

definition fmul :: "f64 \<Rightarrow> f64 \<Rightarrow> f64" where
  "fmul x y =
     (let s = (sign_bit x \<noteq> sign_bit y)
      in if is_nan x \<or> is_nan y then NaN
         else if \<not> is_finite x then (if is_finite y \<and> fnum y = 0 then NaN else signed_inf s)
         else if \<not> is_finite y then (if fnum x = 0 then NaN else signed_inf s)
         else if fnum x * fnum y = 0 then signed_zero s
         else rne (fnum x * fnum y))"

definition fdiv :: "f64 \<Rightarrow> f64 \<Rightarrow> f64" where
  "fdiv x y =
     (let s = (sign_bit x \<noteq> sign_bit y)
      in if is_nan x \<or> is_nan y then NaN
         else if \<not> is_finite x then (if is_finite y then signed_inf s else NaN)
         else if \<not> is_finite y then signed_zero s
         else if fnum y = 0 then (if fnum x = 0 then NaN else signed_inf s)
         else if fnum x = 0 then signed_zero s
         else rne (fnum x / fnum y))"

text \<open>\<^verbatim>\<open>std::clamp\<close>, with its order of comparisons (a NaN passes through).\<close>

definition fclamp :: "f64 \<Rightarrow> f64 \<Rightarrow> f64 \<Rightarrow> f64" where
  "fclamp v lo hi = (if flt v lo then lo else if flt hi v then hi else v)"

text \<open>A conversion to an unsigned integer truncates; it is only defined in range.\<close>

definition f64_to_u32 :: "f64 \<Rightarrow> u32" where
  "f64_to_u32 x = of_int \<lfloor>fnum x\<rfloor>"

definition u32_to_f64 :: "u32 \<Rightarrow> f64" where
  "u32_to_f64 w = Fin (of_int (uint w))"

text \<open>The values a \<^verbatim>\<open>double\<close> variable can hold.\<close>

definition is_double :: "f64 \<Rightarrow> bool" where
  "is_double x = (case x of Fin r \<Rightarrow> rnd64 r = r \<and> \<not> overflows \<bar>r\<bar> | _ \<Rightarrow> True)"

section \<open>Binary exponents\<close>


lemma bits_bounds: "0 < n \<Longrightarrow> 2 powi (bits n - 1) \<le> (of_int n :: rat) \<and> (of_int n :: rat) < 2 powi (bits n) \<and> 0 < bits n"
proof (induction n rule: bits.induct)
  case (1 n)
  show ?case
  proof (cases "n = 1")
    case True
    have "bits 1 = 1" by (simp add: bits.simps)
    with True show ?thesis by simp
  next
    case False
    with 1 have d: "0 < n div 2" by linarith
    with 1 have IH: "2 powi (bits (n div 2) - 1) \<le> (of_int (n div 2) :: rat)"
      "(of_int (n div 2) :: rat) < 2 powi (bits (n div 2))" "0 < bits (n div 2)"
      by auto
    have b: "bits n = 1 + bits (n div 2)" using 1 by (simp add: bits.simps)
    have p1: "(2::rat) powi (bits n - 1) = 2 * 2 powi (bits (n div 2) - 1)"
      using b power_int_add_1' [of "2::rat" "bits (n div 2) - 1"] by simp
    have p2: "(2::rat) powi (bits n) = 2 * 2 powi (bits (n div 2))"
      using b power_int_add_1' [of "2::rat" "bits (n div 2)"] by (simp add: add.commute)
    have "2 * (n div 2) \<le> n" by linarith
    then have lo: "2 * (of_int (n div 2) :: rat) \<le> of_int n"
      by (metis of_int_le_iff of_int_mult of_int_numeral)
    have "\<exists>k. (2::rat) powi (bits (n div 2)) = of_int k"
      by (rule exI [of _ "2 ^ nat (bits (n div 2))"]) (use IH(3) in \<open>simp add: power_int_def\<close>)
    then obtain k where k: "(2::rat) powi (bits (n div 2)) = of_int k" by blast
    with IH(2) have "n div 2 < k" by simp
    then have "n < 2 * k" by linarith
    then have hi: "(of_int n :: rat) < 2 * of_int k"
      by (metis of_int_less_iff of_int_mult of_int_numeral)
    show ?thesis using p1 p2 lo hi IH k b by auto
  qed
qed

lemma ilog2_bounds:
  assumes "0 < x"
  shows "2 powi (ilog2 x) \<le> x \<and> x < 2 powi (ilog2 x + 1)"
proof -
  obtain n d where q: "quotient_of x = (n, d)" by (cases "quotient_of x")
  have d: "0 < d" and x: "x = of_int n / of_int d"
    using q quotient_of_denom_pos quotient_of_div by auto
  with assms have n: "0 < n" by (simp add: zero_less_divide_iff)
  have bn: "2 powi (bits n - 1) \<le> (of_int n :: rat)" "(of_int n :: rat) < 2 powi (bits n)"
    using bits_bounds [OF n] by auto
  have bd: "2 powi (bits d - 1) \<le> (of_int d :: rat)" "(of_int d :: rat) < 2 powi (bits d)"
    using bits_bounds [OF d] by auto
  let ?l = "bits n - bits d"
  have dp: "(0::rat) < of_int d" using d by simp
  have "(2::rat) powi (?l - 1) = 2 powi (bits n - 1) / 2 powi (bits d)"
    by (simp add: power_int_diff)
  also have "\<dots> < x"
  proof -
    have "2 powi (bits n - 1) * of_int d < (of_int n :: rat) * 2 powi (bits d)"
      using bn(1) bd(2) dp by (intro mult_le_less_imp_less) auto
    then show ?thesis unfolding x using dp by (simp add: divide_simps mult.commute)
  qed
  finally have lo: "2 powi (?l - 1) < x" .
  have "x < 2 powi (bits n) / 2 powi (bits d - 1)"
  proof -
    have "(of_int n :: rat) * 2 powi (bits d - 1) < 2 powi (bits n) * of_int d"
      using bn(2) bd(1) n by (intro mult_less_le_imp_less) auto
    then show ?thesis unfolding x using dp by (simp add: divide_simps mult.commute)
  qed
  also have "\<dots> = (2::rat) powi (?l + 1)"
    by (simp add: power_int_diff power_int_add)
  finally have hi: "x < 2 powi (?l + 1)" .
  show ?thesis using lo hi q by (auto simp: ilog2_def Let_def)
qed

lemma powi2_le_iff [simp]: "(2::rat) powi a \<le> 2 powi b \<longleftrightarrow> a \<le> b"
  by (meson one_less_numeral_iff power_int_increasing power_int_strict_increasing linorder_not_less order_less_imp_le semiring_norm(76))

lemma powi2_less_iff [simp]: "(2::rat) powi a < 2 powi b \<longleftrightarrow> a < b"
  by (meson powi2_le_iff linorder_not_less)

lemma powi2_pos [simp]: "(0::rat) < 2 powi k" "\<not> (2::rat) powi k \<le> 0" "\<not> (2::rat) powi k < 0"
  by (simp_all add: linorder_not_le linorder_not_less order_less_imp_le)

lemma ilog2_unique:
  assumes "2 powi l \<le> x" "x < 2 powi (l + 1)"
  shows "ilog2 x = l"
proof -
  have "0 < x" using assms(1) by (meson order_less_le_trans zero_less_numeral zero_less_power_int)
  then have b: "2 powi (ilog2 x) \<le> x" "x < 2 powi (ilog2 x + 1)" using ilog2_bounds by auto
  have "(2::rat) powi (ilog2 x) < 2 powi (l + 1)" using b(1) assms(2) by linarith
  moreover have "(2::rat) powi l < 2 powi (ilog2 x + 1)" using b(2) assms(1) by linarith
  ultimately show ?thesis by simp
qed

lemma ilog2_mono: "0 < x \<Longrightarrow> x \<le> y \<Longrightarrow> ilog2 x \<le> ilog2 y"
proof -
  assume "0 < x" "x \<le> y"
  then have "(2::rat) powi (ilog2 x) < 2 powi (ilog2 y + 1)"
    using ilog2_bounds [of x] ilog2_bounds [of y] by linarith
  then show ?thesis by simp
qed

lemma ilog2_less: "0 < x \<Longrightarrow> x < 2 powi k \<Longrightarrow> ilog2 x < k"
  using ilog2_bounds [of x] by (meson le_less_trans powi2_less_iff)

lemma ilog2_powi [simp]: "ilog2 (2 powi k) = k"
  by (rule ilog2_unique) auto

section \<open>Rounding is monotone and stable\<close>

lemma rhe_of_int [simp]: "rhe (of_int n) = n"
  by (simp add: rhe_def Let_def)

lemma rhe_cases: "rhe y = \<lfloor>y\<rfloor> \<or> rhe y = \<lfloor>y\<rfloor> + 1"
  by (auto simp: rhe_def Let_def)

lemma rhe_mono: "x \<le> y \<Longrightarrow> rhe x \<le> rhe y"
proof (cases "\<lfloor>x\<rfloor> = \<lfloor>y\<rfloor>")
  case True
  assume "x \<le> y"
  with True show ?thesis by (auto simp: rhe_def Let_def)
next
  case False
  assume "x \<le> y"
  with False have "\<lfloor>x\<rfloor> + 1 \<le> \<lfloor>y\<rfloor>" using floor_mono by (metis add1_zle_eq order_less_le)
  then show ?thesis using rhe_cases [of x] rhe_cases [of y] by linarith
qed

lemma quant_mono: "x \<le> y \<Longrightarrow> quant e x \<le> quant e y"
  by (simp add: quant_def rhe_mono divide_right_mono)

lemma quant_grid: "e \<le> k \<Longrightarrow> quant e (of_int n * 2 powi k) = of_int n * 2 powi k"
proof -
  assume "e \<le> k"
  then have q: "(2::rat) powi k / 2 powi e = of_int (2 ^ nat (k - e))"
    by (simp flip: power_int_diff add: power_int_nonneg_exp)
  from q have "of_int n * 2 powi k / (2::rat) powi e = of_int (n * 2 ^ nat (k - e))"
    by (metis of_int_mult times_divide_eq_right)
  then have "quant e (of_int n * 2 powi k) = of_int (n * 2 ^ nat (k - e)) * 2 powi e"
    unfolding quant_def by (metis rhe_of_int)
  also have "\<dots> = of_int n * ((2::rat) powi k / 2 powi e) * 2 powi e"
    using q by simp
  finally show ?thesis by simp
qed

lemma ulp_exp_mono: "0 < x \<Longrightarrow> x \<le> y \<Longrightarrow> ulp_exp x \<le> ulp_exp y"
  using ilog2_mono by (force simp: ulp_exp_def)

lemma rnd_pos_mono:
  assumes "x \<le> y"
  shows "rnd_pos x \<le> rnd_pos y"
proof (cases "0 < x")
  case False
  have "0 \<le> quant e y" if "0 < y" for e y
    using quant_mono [of 0 y e] that by (simp add: quant_def rhe_of_int [of 0, simplified])
  then show ?thesis using False by (auto simp: rnd_pos_def)
next
  case True
  with assms have y: "0 < y" by simp
  have le: "ulp_exp x \<le> ulp_exp y" using True assms by (rule ulp_exp_mono)
  show ?thesis
  proof (cases "ulp_exp x = ulp_exp y")
    case True
    then show ?thesis using quant_mono assms y \<open>0 < x\<close> by (simp add: rnd_pos_def)
  next
    case False
    define E where "E = ulp_exp y"
    have E: "E = ilog2 y - 52" "ilog2 x - 52 \<le> ulp_exp x" "ulp_exp x < E"
      using False le by (auto simp: E_def ulp_exp_def)
    have yB: "2 powi (E + 52) \<le> y" using ilog2_bounds [OF y] E by simp
    have "x < 2 powi (ilog2 x + 1)" using ilog2_bounds [OF \<open>0 < x\<close>] by simp
    also have "(2::rat) powi (ilog2 x + 1) \<le> 2 powi (E + 52)" using E by simp
    finally have xB: "x \<le> 2 powi (E + 52)" by simp
    have "quant (ulp_exp x) x \<le> quant (ulp_exp x) (2 powi (E + 52))" by (rule quant_mono [OF xB])
    also have "\<dots> = 2 powi (E + 52)" using quant_grid [of "ulp_exp x" "E + 52" 1] E by simp
    also have "\<dots> = quant E (2 powi (E + 52))" using quant_grid [of E "E + 52" 1] by simp
    also have "\<dots> \<le> quant E y" by (rule quant_mono [OF yB])
    finally show ?thesis using y \<open>0 < x\<close> by (simp add: rnd_pos_def E_def)
  qed
qed


lemma rhe_le_of_int: "y \<le> of_int n \<Longrightarrow> rhe y \<le> n"
  using rhe_mono [of y "of_int n"] by simp

lemma rhe_nonneg: "0 \<le> y \<Longrightarrow> 0 \<le> rhe y"
  using rhe_mono [of 0 y] rhe_of_int [of 0] by simp

text \<open>Multiples of a unit in the last place with at most 53 digits are not rounded.\<close>

lemma rnd_pos_grid:
  assumes "0 \<le> k" "k \<le> 2 ^ 53" "- 1074 \<le> e"
  shows "rnd_pos (of_int k * 2 powi e) = of_int k * 2 powi e"
proof (cases "k = 0")
  case True
  then show ?thesis by (simp add: rnd_pos_def)
next
  case False
  let ?x = "of_int k * (2::rat) powi e"
  have pos: "0 < ?x" using False assms by simp
  show ?thesis
  proof (cases "k = 2 ^ 53")
    case True
    have "?x = 2 powi (53 + e)" by (simp add: True power_int_add)
    then show ?thesis using assms quant_grid [of "ulp_exp ?x" "53 + e" 1] pos
      by (simp add: rnd_pos_def ulp_exp_def)
  next
    case False
    with assms have "(of_int k :: rat) < 2 ^ 53"
      by (metis of_int_less_numeral_power_cancel_iff order_less_le)
    then have "?x < 2 ^ 53 * 2 powi e" by simp
    then have "?x < 2 powi (53 + e)" by (simp add: power_int_add)
    then have "ilog2 ?x < 53 + e" using pos ilog2_less by blast
    then have "ulp_exp ?x \<le> e" using assms by (simp add: ulp_exp_def)
    then show ?thesis using quant_grid [of "ulp_exp ?x" e k] pos by (simp add: rnd_pos_def)
  qed
qed

text \<open>Every rounded value lies on such a grid.\<close>

lemma rnd_pos_on_grid:
  obtains k e where "0 \<le> k" "k \<le> 2 ^ 53" "- 1074 \<le> e" "rnd_pos x = of_int k * 2 powi e"
proof (cases "0 < x")
  case False
  then show ?thesis using that [of 0 0] by (simp add: rnd_pos_def)
next
  case True
  let ?e = "ulp_exp x"
  have "x < 2 powi (ilog2 x + 1)" using ilog2_bounds [OF True] by simp
  also have "(2::rat) powi (ilog2 x + 1) \<le> 2 powi (53 + ?e)" by (simp add: ulp_exp_def)
  finally have "x \<le> of_int (2 ^ 53) * 2 powi ?e" by (simp add: power_int_add)
  then have "x / 2 powi ?e \<le> of_int (2 ^ 53)" by (simp add: divide_simps)
  then have "rhe (x / 2 powi ?e) \<le> 2 ^ 53" by (rule rhe_le_of_int)
  moreover have "0 \<le> rhe (x / 2 powi ?e)" using True by (intro rhe_nonneg) simp
  moreover have "- 1074 \<le> ?e" by (simp add: ulp_exp_def)
  ultimately show ?thesis using that True by (simp add: rnd_pos_def quant_def)
qed

lemma rnd_pos_idem: "rnd_pos (rnd_pos x) = rnd_pos x"
  by (rule rnd_pos_on_grid [of x]) (simp add: rnd_pos_grid)

lemma rnd_pos_nonneg: "0 \<le> rnd_pos x"
  by (rule rnd_pos_on_grid [of x]) simp

lemma rnd64_mono: "x \<le> y \<Longrightarrow> rnd64 x \<le> rnd64 y"
proof -
  assume "x \<le> y"
  then have "rnd_pos x \<le> rnd_pos y" "rnd_pos (- y) \<le> rnd_pos (- x)"
    by (auto intro: rnd_pos_mono)
  then show ?thesis
    using rnd_pos_nonneg [of "- x"] rnd_pos_nonneg [of y] \<open>x \<le> y\<close>
    by (auto simp: rnd64_def)
qed

lemma rnd64_zero [simp]: "rnd64 0 = 0"
  by (simp add: rnd64_def rnd_pos_def)

lemma rnd64_minus: "rnd64 (- x) = - rnd64 x"
  by (simp add: rnd64_def rnd_pos_def)

lemma rnd64_grid:
  assumes "\<bar>k\<bar> \<le> 2 ^ 53" "- 1074 \<le> e"
  shows "rnd64 (of_int k * 2 powi e) = of_int k * 2 powi e"
proof (cases "0 \<le> k")
  case True
  then show ?thesis using assms rnd_pos_grid [of k e] by (simp add: rnd64_def mult_less_0_iff)
next
  case False
  then show ?thesis using assms rnd_pos_grid [of "- k" e]
    by (simp add: rnd64_def mult_less_0_iff)
qed

lemma rnd64_on_grid:
  obtains k e where "\<bar>k\<bar> \<le> 2 ^ 53" "- 1074 \<le> e" "rnd64 x = of_int k * 2 powi e"
proof (cases "x < 0")
  case True
  obtain k e where "0 \<le> k" "k \<le> 2 ^ 53" "- 1074 \<le> e" "rnd_pos (- x) = of_int k * 2 powi e"
    using rnd_pos_on_grid by blast
  then show ?thesis using that [of "- k" e] True by (simp add: rnd64_def)
next
  case False
  obtain k e where "0 \<le> k" "k \<le> 2 ^ 53" "- 1074 \<le> e" "rnd_pos x = of_int k * 2 powi e"
    using rnd_pos_on_grid by blast
  then show ?thesis using that [of k e] False by (simp add: rnd64_def)
qed

lemma rnd64_idem: "rnd64 (rnd64 x) = rnd64 x"
  by (rule rnd64_on_grid [of x]) (simp add: rnd64_grid)

lemma rnd64_of_int: "\<bar>k\<bar> \<le> 2 ^ 53 \<Longrightarrow> rnd64 (of_int k) = of_int k"
  using rnd64_grid [of k 0] by simp

text \<open>Gradual underflow: distinct values on the grid have a non-zero rounded difference.\<close>

lemma grid_multiple:
  assumes "- 1074 \<le> e"
  obtains m where "(of_int k :: rat) * 2 powi e = of_int m * 2 powi (- 1074)"
proof
  have "(2::rat) powi e = 2 powi (e + 1074) * 2 powi (- 1074)"
    by (subst power_int_add [symmetric]) (auto simp only: add.assoc add_neg_numeral_simps
      add.right_neutral right_minus zero_neq_numeral)
  also have "(2::rat) powi (e + 1074) = of_int (2 ^ nat (e + 1074))"
    using assms by (simp add: power_int_nonneg_exp)
  finally show "(of_int k :: rat) * 2 powi e = of_int (k * 2 ^ nat (e + 1074)) * 2 powi (- 1074)"
    by (simp add: mult.assoc)
qed

lemma rnd64_diff_pos:
  assumes "rnd64 a = a" "rnd64 b = b" "b < a"
  shows "0 < rnd64 (a - b)"
proof -
  let ?u = "(2::rat) powi (- 1074)"
  obtain m where m: "a = of_int m * ?u"
    by (metis assms(1) rnd64_on_grid grid_multiple)
  obtain n where n: "b = of_int n * ?u"
    by (metis assms(2) rnd64_on_grid grid_multiple)
  have "n < m" using assms(3) m n by simp
  then have "(1::rat) \<le> of_int (m - n)" by linarith
  then have "?u \<le> of_int (m - n) * ?u" by (simp add: mult_le_cancel_right1)
  then have "?u \<le> a - b" using m n by (simp add: algebra_simps)
  then have "rnd64 ?u \<le> rnd64 (a - b)" by (rule rnd64_mono)
  moreover have "rnd64 ?u = ?u" using rnd64_grid [of 1 "- 1074"] by simp
  ultimately show ?thesis by (metis zero_less_numeral zero_less_power_int order_less_le_trans)
qed

section \<open>The rounding contract\<close>

text \<open>
  What the rest of the development needs from rounding: monotone, odd, stable. The client
  lemmas below hold for any such rounding.
\<close>


locale rounding_mode =
  fixes rnd :: "rat \<Rightarrow> rat"
  assumes rnd_mono: "x \<le> y \<Longrightarrow> rnd x \<le> rnd y"
    and rnd_odd: "rnd (- x) = - rnd x"
    and rnd_stable: "rnd (rnd x) = rnd x"
begin

lemma rnd_0: "rnd 0 = 0"
  using rnd_odd [of 0] by simp

lemma rnd_nonneg: "0 \<le> x \<Longrightarrow> 0 \<le> rnd x"
  using rnd_mono [of 0 x] by (simp add: rnd_0)

lemma rnd_nonpos: "x \<le> 0 \<Longrightarrow> rnd x \<le> 0"
  using rnd_mono [of x 0] by (simp add: rnd_0)

lemma sub_le_self: "rnd a = a \<Longrightarrow> 0 \<le> b \<Longrightarrow> rnd (a - b) \<le> a"
  using rnd_mono [of "a - b" a] by simp

lemma self_le_add: "rnd a = a \<Longrightarrow> 0 \<le> b \<Longrightarrow> a \<le> rnd (a + b)"
  using rnd_mono [of a "a + b"] by simp

lemma sub_mono: "a \<le> b \<Longrightarrow> d \<le> c \<Longrightarrow> rnd (a - c) \<le> rnd (b - d)"
  by (rule rnd_mono) linarith

lemma abs_rnd: "\<bar>rnd x\<bar> = rnd \<bar>x\<bar>"
  by (cases "0 \<le> x") (auto simp: rnd_odd rnd_nonneg rnd_nonpos abs_if not_le order_less_imp_le
      dest: rnd_nonneg rnd_nonpos intro: antisym)

end

interpretation binary64: rounding_mode rnd64
  by unfold_locales (auto intro: rnd64_mono rnd64_minus rnd64_idem)

section \<open>Comparisons\<close>

named_theorems f64_simps \<open>evaluation of comparisons and operations on finite values\<close>

lemma finite_simps [f64_simps, simp]:
  "is_finite (Fin r)" "is_finite NegZero" "\<not> is_finite PosInf" "\<not> is_finite NegInf" "\<not> is_finite NaN"
  "\<not> is_nan (Fin r)" "\<not> is_nan NegZero" "\<not> is_nan PosInf" "\<not> is_nan NegInf" "is_nan NaN"
  "fnum (Fin r) = r" "fnum NegZero = 0"
  by (simp_all add: is_finite_def is_nan_def fnum_def)

lemma flt_Fin [f64_simps, simp]: "flt (Fin a) (Fin b) \<longleftrightarrow> a < b"
  by (simp add: flt_def)

lemma fle_Fin [f64_simps, simp]: "fle (Fin a) (Fin b) \<longleftrightarrow> a \<le> b"
  by (auto simp: fle_def)

lemma feq_Fin [f64_simps, simp]: "feq (Fin a) (Fin b) \<longleftrightarrow> a = b"
  by (auto simp: feq_def)

lemma fle_refl_iff [simp]: "fle x x \<longleftrightarrow> \<not> is_nan x"
  by (cases x) (auto simp: fle_def flt_def)

lemma flt_irrefl [simp]: "\<not> flt x x"
  by (cases x) (auto simp: flt_def)

lemma nan_compare [simp]:
  "\<not> flt NaN x" "\<not> flt x NaN" "\<not> fle NaN x" "\<not> fle x NaN"
  by (auto simp: flt_def fle_def)

lemma flt_imp_fle: "flt x y \<Longrightarrow> fle x y"
  by (cases x; cases y) (auto simp: fle_def flt_def)

lemma not_flt_iff: "\<not> is_nan x \<Longrightarrow> \<not> is_nan y \<Longrightarrow> \<not> flt x y \<longleftrightarrow> fle y x"
  by (simp add: fle_def)

lemma fle_trans: "fle x y \<Longrightarrow> fle y z \<Longrightarrow> fle x z"
  by (cases x; cases y; cases z) (auto simp: fle_def flt_def)

lemma flt_fle_trans: "flt x y \<Longrightarrow> fle y z \<Longrightarrow> flt x z"
  by (cases x; cases y; cases z) (auto simp: fle_def flt_def)

lemma fle_flt_trans: "fle x y \<Longrightarrow> flt y z \<Longrightarrow> flt x z"
  by (cases x; cases y; cases z) (auto simp: fle_def flt_def)

lemma flt_trans: "flt x y \<Longrightarrow> flt y z \<Longrightarrow> flt x z"
  by (meson flt_imp_fle flt_fle_trans)

lemma flt_not_fle: "flt x y \<Longrightarrow> \<not> fle y x"
  by (simp add: fle_def)

lemma overflows_mono: "overflows m \<Longrightarrow> m \<le> n \<Longrightarrow> overflows n"
  using ilog2_mono [of m n] by (auto simp: overflows_def)

lemma rne_not_nan [simp]: "\<not> is_nan (rne x)" "rne x \<noteq> NaN"
  by (auto simp: rne_def Let_def is_nan_def)

lemma rne_mono: "x \<le> y \<Longrightarrow> fle (rne x) (rne y)"
proof -
  assume le: "x \<le> y"
  have m: "rnd64 x \<le> rnd64 y" using le by (rule rnd64_mono)
  have s: "x < 0 \<Longrightarrow> rnd64 x \<le> 0" "y < 0 \<Longrightarrow> rnd64 y \<le> 0" "\<not> x < 0 \<Longrightarrow> 0 \<le> rnd64 x"
    "\<not> y < 0 \<Longrightarrow> 0 \<le> rnd64 y"
    by (auto intro: binary64.rnd_nonpos binary64.rnd_nonneg)
  have a: "0 \<le> rnd64 x \<Longrightarrow> overflows \<bar>rnd64 x\<bar> \<Longrightarrow> overflows \<bar>rnd64 y\<bar>"
    "rnd64 y \<le> 0 \<Longrightarrow> overflows \<bar>rnd64 y\<bar> \<Longrightarrow> overflows \<bar>rnd64 x\<bar>"
    using m by (auto elim!: overflows_mono)
  show ?thesis
    unfolding rne_def Let_def fle_def flt_def is_nan_def fnum_def
    using m s a le by (auto split: if_splits)
qed

lemma rne_Fin: "rnd64 r = r \<Longrightarrow> \<not> overflows \<bar>r\<bar> \<Longrightarrow> rne r = Fin r"
  by (auto simp: rne_def Let_def)

lemma rne_of_int [f64_simps]: "\<bar>k\<bar> \<le> 2 ^ 53 \<Longrightarrow> rne (of_int k) = Fin (of_int k)"
proof -
  assume k: "\<bar>k\<bar> \<le> 2 ^ 53"
  have "\<not> overflows \<bar>of_int k\<bar>"
  proof (cases "k = 0")
    case False
    have "(of_int \<bar>k\<bar> :: rat) \<le> of_int (2 ^ 53)" using k by (simp only: of_int_le_iff)
    then have "ilog2 (of_int \<bar>k\<bar>) \<le> ilog2 (2 powi 53)"
      using False by (intro ilog2_mono) auto
    then show ?thesis by (simp add: overflows_def del: power_int_numeral)
  qed (simp add: overflows_def)
  then show ?thesis using k by (intro rne_Fin rnd64_of_int) auto
qed

lemma overflows_0 [simp]: "\<not> overflows 0"
  by (simp add: overflows_def)

section \<open>Results are doubles\<close>

lemma is_double_simps [simp]:
  "is_double NegZero" "is_double PosInf" "is_double NegInf" "is_double NaN" "is_double (Fin 0)"
  by (simp_all add: is_double_def overflows_def)

lemma is_double_Fin: "is_double (Fin r) \<longleftrightarrow> rnd64 r = r \<and> \<not> overflows \<bar>r\<bar>"
  by (simp add: is_double_def)

lemma is_double_rne [simp]: "is_double (rne x)"
  by (auto simp: rne_def Let_def is_double_def rnd64_idem overflows_def)

lemma is_double_fneg [simp]: "is_double (fneg x) = is_double x"
  by (cases x) (auto simp: fneg_def is_double_def rnd64_minus)

text \<open>Both zeros compare alike.\<close>

lemma NegZero_compare [simp]:
  "flt NegZero x = flt (Fin 0) x" "flt x NegZero = flt x (Fin 0)"
  "fle NegZero x = fle (Fin 0) x" "fle x NegZero = fle x (Fin 0)"
  by (cases x; simp add: flt_def fle_def)+

lemma is_double_fadd [simp]: "is_double x \<Longrightarrow> is_double y \<Longrightarrow> is_double (fadd x y)"
  by (auto simp: fadd_def)

lemma is_double_fsub [simp]: "is_double x \<Longrightarrow> is_double y \<Longrightarrow> is_double (fsub x y)"
  by (simp add: fsub_def)

lemma is_double_fmul [simp]: "is_double (fmul x y)"
  by (auto simp: fmul_def Let_def signed_zero_def signed_inf_def)

lemma is_double_fdiv [simp]: "is_double (fdiv x y)"
  by (auto simp: fdiv_def Let_def signed_zero_def signed_inf_def)

lemma fsub_finite:
  "is_finite x \<Longrightarrow> is_finite y \<Longrightarrow>
     fsub x y = (if x = NegZero \<and> y = Fin 0 then NegZero else rne (fnum x - fnum y))"
  by (cases x; cases y) (auto simp: fsub_def fadd_def fneg_def)

lemma fadd_finite:
  "is_finite x \<Longrightarrow> is_finite y \<Longrightarrow>
     fadd x y = (if x = NegZero \<and> y = NegZero then NegZero else rne (fnum x + fnum y))"
  by (cases x; cases y) (auto simp: fadd_def)

lemma fsub_Fin [f64_simps, simp]: "fsub (Fin a) (Fin b) = rne (a - b)"
  by (simp add: fsub_finite)

lemma fadd_Fin [f64_simps, simp]: "fadd (Fin a) (Fin b) = rne (a + b)"
  by (simp add: fadd_finite)

lemma rne_0 [simp]: "rne 0 = Fin 0"
  by (simp add: rne_def Let_def overflows_def)

lemma rne_eq_Fin_self: "is_double (Fin r) \<Longrightarrow> rne r = Fin r"
  by (auto simp: is_double_Fin intro: rne_Fin)

text \<open>The sign of a rounded difference is the sign of the comparison.\<close>

lemma fsub_flt_zero_finite:
  assumes "rnd64 a = a" "rnd64 b = b"
  shows "flt (rne (a - b)) (Fin 0) \<longleftrightarrow> a < b"
proof -
  consider "a < b" | "a = b" | "b < a" by linarith
  then show ?thesis
  proof cases
    case 1
    have "0 < rnd64 (b - a)" using assms 1 by (intro rnd64_diff_pos)
    then have "rnd64 (a - b) < 0" using rnd64_minus [of "b - a"] by simp
    then show ?thesis using 1 by (auto simp: rne_def Let_def flt_def)
  next
    case 2 then show ?thesis by simp
  next
    case 3
    have "0 < rnd64 (a - b)" using assms 3 by (intro rnd64_diff_pos)
    then show ?thesis using 3 by (auto simp: rne_def Let_def flt_def)
  qed
qed

lemma fsub_flt_zero:
  assumes "is_double a" "is_double b"
  shows "flt (fsub a b) (Fin 0) \<longleftrightarrow> flt a b"
proof (cases "is_finite a \<and> is_finite b")
  case True
  have "rnd64 (fnum a) = fnum a" "rnd64 (fnum b) = fnum b"
    using assms True by (cases a; cases b; simp add: is_double_Fin)+
  from fsub_flt_zero_finite [OF this] True show ?thesis
    by (cases a; cases b) (auto simp: fsub_finite flt_def)
next
  case False
  then show ?thesis by (cases a; cases b) (auto simp: fsub_def fadd_def fneg_def flt_def)
qed

lemma fsub_zero_flt:
  assumes "is_double a" "is_double b"
  shows "flt (Fin 0) (fsub a b) \<longleftrightarrow> flt b a"
proof (cases "is_finite a \<and> is_finite b")
  case True
  have d: "rnd64 (fnum a) = fnum a" "rnd64 (fnum b) = fnum b"
    using assms True by (cases a; cases b; simp add: is_double_Fin)+
  have "flt (Fin 0) (rne (fnum a - fnum b)) \<longleftrightarrow> fnum b < fnum a"
  proof (cases "fnum b < fnum a")
    case True
    have "0 < rnd64 (fnum a - fnum b)" using d True by (intro rnd64_diff_pos)
    then show ?thesis using True by (auto simp: rne_def Let_def flt_def)
  next
    case False
    then have "fle (rne (fnum a - fnum b)) (rne 0)" by (intro rne_mono) simp
    then show ?thesis using False by (auto dest: flt_not_fle)
  qed
  then show ?thesis using True
    by (cases a; cases b) (auto simp: fsub_finite flt_def)
next
  case False
  then show ?thesis by (cases a; cases b) (auto simp: fsub_def fadd_def fneg_def flt_def)
qed

lemma fsub_compare:
  assumes "is_finite x" "is_finite y"
  shows "fle (fsub x y) z = fle (rne (fnum x - fnum y)) z"
    "fle z (fsub x y) = fle z (rne (fnum x - fnum y))"
    "flt (fsub x y) z = flt (rne (fnum x - fnum y)) z"
    "flt z (fsub x y) = flt z (rne (fnum x - fnum y))"
  using assms by (simp_all add: fsub_finite)

lemma finite_compare: "is_finite x \<Longrightarrow> is_finite y \<Longrightarrow> fle x y \<longleftrightarrow> fnum x \<le> fnum y"
  by (cases x; cases y) auto

lemma rne_fnum: "is_double x \<Longrightarrow> is_finite x \<Longrightarrow> fle (rne (fnum x)) z = fle x z"
  "is_double x \<Longrightarrow> is_finite x \<Longrightarrow> fle z (rne (fnum x)) = fle z x"
  by (cases x; simp add: rne_eq_Fin_self)+

lemma fsub_le_self:
  assumes "is_double a" "is_finite a" "fle (Fin 0) b"
  shows "fle (fsub a b) a"
proof (cases "is_finite b")
  case True
  have b: "0 \<le> fnum b" using assms(3) True by (cases b) auto
  have "fle (rne (fnum a - fnum b)) (rne (fnum a))" using b by (intro rne_mono) simp
  then show ?thesis using assms True by (simp add: fsub_compare rne_fnum)
next
  case False
  then show ?thesis using assms
    by (cases a; cases b) (auto simp: fsub_def fadd_def fneg_def fle_def flt_def)
qed

lemma fsub_pos_imp_pos:
  assumes "is_double a" "fle (Fin 0) b" "flt (Fin 0) (fsub a b)"
  shows "flt (Fin 0) a"
proof (cases a)
  case PosInf
  then show ?thesis by (simp add: flt_def)
next
  case NegInf
  then have "fsub a b = NegInf \<or> fsub a b = NaN"
    by (auto simp: fsub_def fadd_def)
  then show ?thesis using assms(3) by (auto simp: flt_def)
next
  case NaN
  then show ?thesis using assms(3) by (simp add: fsub_def fadd_def)
next
  case (Fin r)
  then have "is_finite a" by simp
  then show ?thesis using assms fsub_le_self flt_fle_trans by blast
next
  case NegZero
  then have "is_finite a" by simp
  then show ?thesis using assms fsub_le_self flt_fle_trans by blast
qed

lemma fsub_mono:
  assumes "is_finite a" "is_finite b" "is_finite c" "fle a b"
  shows "fle (fsub a c) (fsub b c)"
  using assms by (simp add: fsub_compare finite_compare rne_mono)


text \<open>Small integers are exact, so decisions at integral thresholds evaluate by rewriting.\<close>

lemma rne_numeral [f64_simps, simp]:
  "numeral w \<le> (2 ^ 53 :: int) \<Longrightarrow> rne (numeral w) = Fin (numeral w)"
  using rne_of_int [of "numeral w"] by simp

lemma rne_neg_numeral [f64_simps, simp]:
  "numeral w \<le> (2 ^ 53 :: int) \<Longrightarrow> rne (- numeral w) = Fin (- numeral w)"
  using rne_of_int [of "- numeral w"] by simp

lemma rne_one [f64_simps, simp]: "rne 1 = Fin 1" "rne (- 1) = Fin (- 1)"
  using rne_of_int [of 1] rne_of_int [of "- 1"] by simp_all

lemma is_double_of_int: "\<bar>k\<bar> \<le> 2 ^ 53 \<Longrightarrow> is_double (Fin (of_int k))"
  by (metis is_double_rne rne_of_int)

lemma is_double_numeral [simp]:
  "numeral w \<le> (2 ^ 53 :: int) \<Longrightarrow> is_double (Fin (numeral w))"
  "numeral w \<le> (2 ^ 53 :: int) \<Longrightarrow> is_double (Fin (- numeral w))"
  "is_double (Fin 1)"
  using is_double_of_int [of "numeral w"] is_double_of_int [of "- numeral w"] is_double_of_int [of 1]
  by simp_all

end
