(* ===== verification/Errors.thy ===== *)
theory Errors
  imports Prelude
begin

text \<open>
  \<^verbatim>\<open>error.hpp\<close>: the typed error codes. \<^verbatim>\<open>Result<T>\<close> is \<open>error_code + 'a\<close> and
  \<^verbatim>\<open>Status\<close> is \<open>error_code + unit\<close>. The constant diagnostic text that accompanies a code
  is never read back by the program and is not carried, except where it becomes the detail of
  a mitigation action, which is kept as text.
\<close>

datatype (plugins only: code size) error_code =
    E_NONE
  | E_STALE_EPOCH
  | E_STALE_WORKER
  | E_STALE_DEVICE_GENERATION
  | E_STALE_DOMAIN_GENERATION
  | E_STALE_TELEMETRY
  | E_STALE_POLICY
  | E_STALE_ACTION
  | E_STALE_TOPOLOGY
  | E_STALE_CAPABILITY
  | E_STALE_VERIFICATION
  | E_UNKNOWN_DEVICE
  | E_UNKNOWN_DOMAIN
  | E_UNKNOWN_WORKLOAD
  | E_UNKNOWN_NODE
  | E_UNKNOWN_RACK
  | E_UNKNOWN_ACTION
  | E_UNKNOWN_POLICY
  | E_UNKNOWN_COORDINATOR
  | E_CAPABILITY_UNSUPPORTED
  | E_EVIDENCE_UNKNOWN
  | E_EVIDENCE_STALE
  | E_EVIDENCE_CONFLICT
  | E_TEMPERATURE_INVALID
  | E_EVIDENCE_DUPLICATE
  | E_POLICY_INVALID
  | E_POLICY_CYCLE
  | E_POLICY_LIMIT_EXCEEDED
  | E_THERMAL_WARNING
  | E_THERMAL_DERATING_REQUIRED
  | E_THERMAL_CRITICAL
  | E_NO_SAFE_THERMAL_ENVELOPE
  | E_RECOVERY_FORBIDDEN
  | E_REVALIDATION_REQUIRED
  | E_ACTION_INFEASIBLE
  | E_ACTION_INEFFECTIVE
  | E_ACTION_SUPERSEDED
  | E_ACTION_CANCELLED
  | E_BACKEND_FAILURE
  | E_SECONDARY_VIOLATION
  | E_PERSISTENCE_CORRUPT
  | E_PERSISTENCE_UNSUPPORTED_VERSION
  | E_PERSISTENCE_IO
  | E_PERSISTENCE_TRUNCATED
  | E_PERSISTENCE_TRAILING_GARBAGE
  | E_PERSISTENCE_INTEGRITY
  | E_FRAME_CORRUPT
  | E_FRAME_TOO_LARGE
  | E_FRAME_TRUNCATED
  | E_PROTOCOL_UNSUPPORTED
  | E_TRANSPORT_IO
  | E_TRANSPORT_CLOSED
  | E_DUPLICATE_CONFLICT
  | E_RESOURCE_EXHAUSTED
  | E_OUTCOME_UNKNOWN
  | E_INVALID_ARGUMENT
  | E_NOT_IMPLEMENTED
  | E_INTERNAL

primrec to_string_error_code :: "error_code \<Rightarrow> string" where
    "to_string_error_code E_NONE = ''NONE''"
  | "to_string_error_code E_STALE_EPOCH = ''STALE_EPOCH''"
  | "to_string_error_code E_STALE_WORKER = ''STALE_WORKER''"
  | "to_string_error_code E_STALE_DEVICE_GENERATION = ''STALE_DEVICE_GENERATION''"
  | "to_string_error_code E_STALE_DOMAIN_GENERATION = ''STALE_DOMAIN_GENERATION''"
  | "to_string_error_code E_STALE_TELEMETRY = ''STALE_TELEMETRY''"
  | "to_string_error_code E_STALE_POLICY = ''STALE_POLICY''"
  | "to_string_error_code E_STALE_ACTION = ''STALE_ACTION''"
  | "to_string_error_code E_STALE_TOPOLOGY = ''STALE_TOPOLOGY''"
  | "to_string_error_code E_STALE_CAPABILITY = ''STALE_CAPABILITY''"
  | "to_string_error_code E_STALE_VERIFICATION = ''STALE_VERIFICATION''"
  | "to_string_error_code E_UNKNOWN_DEVICE = ''UNKNOWN_DEVICE''"
  | "to_string_error_code E_UNKNOWN_DOMAIN = ''UNKNOWN_DOMAIN''"
  | "to_string_error_code E_UNKNOWN_WORKLOAD = ''UNKNOWN_WORKLOAD''"
  | "to_string_error_code E_UNKNOWN_NODE = ''UNKNOWN_NODE''"
  | "to_string_error_code E_UNKNOWN_RACK = ''UNKNOWN_RACK''"
  | "to_string_error_code E_UNKNOWN_ACTION = ''UNKNOWN_ACTION''"
  | "to_string_error_code E_UNKNOWN_POLICY = ''UNKNOWN_POLICY''"
  | "to_string_error_code E_UNKNOWN_COORDINATOR = ''UNKNOWN_COORDINATOR''"
  | "to_string_error_code E_CAPABILITY_UNSUPPORTED = ''CAPABILITY_UNSUPPORTED''"
  | "to_string_error_code E_EVIDENCE_UNKNOWN = ''EVIDENCE_UNKNOWN''"
  | "to_string_error_code E_EVIDENCE_STALE = ''EVIDENCE_STALE''"
  | "to_string_error_code E_EVIDENCE_CONFLICT = ''EVIDENCE_CONFLICT''"
  | "to_string_error_code E_TEMPERATURE_INVALID = ''TEMPERATURE_INVALID''"
  | "to_string_error_code E_EVIDENCE_DUPLICATE = ''EVIDENCE_DUPLICATE''"
  | "to_string_error_code E_POLICY_INVALID = ''POLICY_INVALID''"
  | "to_string_error_code E_POLICY_CYCLE = ''POLICY_CYCLE''"
  | "to_string_error_code E_POLICY_LIMIT_EXCEEDED = ''POLICY_LIMIT_EXCEEDED''"
  | "to_string_error_code E_THERMAL_WARNING = ''THERMAL_WARNING''"
  | "to_string_error_code E_THERMAL_DERATING_REQUIRED = ''THERMAL_DERATING_REQUIRED''"
  | "to_string_error_code E_THERMAL_CRITICAL = ''THERMAL_CRITICAL''"
  | "to_string_error_code E_NO_SAFE_THERMAL_ENVELOPE = ''NO_SAFE_THERMAL_ENVELOPE''"
  | "to_string_error_code E_RECOVERY_FORBIDDEN = ''RECOVERY_FORBIDDEN''"
  | "to_string_error_code E_REVALIDATION_REQUIRED = ''REVALIDATION_REQUIRED''"
  | "to_string_error_code E_ACTION_INFEASIBLE = ''ACTION_INFEASIBLE''"
  | "to_string_error_code E_ACTION_INEFFECTIVE = ''ACTION_INEFFECTIVE''"
  | "to_string_error_code E_ACTION_SUPERSEDED = ''ACTION_SUPERSEDED''"
  | "to_string_error_code E_ACTION_CANCELLED = ''ACTION_CANCELLED''"
  | "to_string_error_code E_BACKEND_FAILURE = ''BACKEND_FAILURE''"
  | "to_string_error_code E_SECONDARY_VIOLATION = ''SECONDARY_VIOLATION''"
  | "to_string_error_code E_PERSISTENCE_CORRUPT = ''PERSISTENCE_CORRUPT''"
  | "to_string_error_code E_PERSISTENCE_UNSUPPORTED_VERSION = ''PERSISTENCE_UNSUPPORTED_VERSION''"
  | "to_string_error_code E_PERSISTENCE_IO = ''PERSISTENCE_IO''"
  | "to_string_error_code E_PERSISTENCE_TRUNCATED = ''PERSISTENCE_TRUNCATED''"
  | "to_string_error_code E_PERSISTENCE_TRAILING_GARBAGE = ''PERSISTENCE_TRAILING_GARBAGE''"
  | "to_string_error_code E_PERSISTENCE_INTEGRITY = ''PERSISTENCE_INTEGRITY''"
  | "to_string_error_code E_FRAME_CORRUPT = ''FRAME_CORRUPT''"
  | "to_string_error_code E_FRAME_TOO_LARGE = ''FRAME_TOO_LARGE''"
  | "to_string_error_code E_FRAME_TRUNCATED = ''FRAME_TRUNCATED''"
  | "to_string_error_code E_PROTOCOL_UNSUPPORTED = ''PROTOCOL_UNSUPPORTED''"
  | "to_string_error_code E_TRANSPORT_IO = ''TRANSPORT_IO''"
  | "to_string_error_code E_TRANSPORT_CLOSED = ''TRANSPORT_CLOSED''"
  | "to_string_error_code E_DUPLICATE_CONFLICT = ''DUPLICATE_CONFLICT''"
  | "to_string_error_code E_RESOURCE_EXHAUSTED = ''RESOURCE_EXHAUSTED''"
  | "to_string_error_code E_OUTCOME_UNKNOWN = ''OUTCOME_UNKNOWN''"
  | "to_string_error_code E_INVALID_ARGUMENT = ''INVALID_ARGUMENT''"
  | "to_string_error_code E_NOT_IMPLEMENTED = ''NOT_IMPLEMENTED''"
  | "to_string_error_code E_INTERNAL = ''INTERNAL''"

type_synonym 'a result = "error_code + 'a"
type_synonym status = "error_code + unit"

abbreviation success :: status where
  "success \<equiv> Inr ()"

text \<open>\<^verbatim>\<open>ThermalError::render\<close>\<close>

definition render_error :: "error_code \<Rightarrow> string \<Rightarrow> string" where
  "render_error code detail =
     to_string_error_code code @ (if detail = [] then [] else '': '' @ detail)"

end
