(* ===== verification/Vocabulary.thy ===== *)
theory Vocabulary
  imports Float64 Errors
begin

text \<open>
  The leaf headers of the source: \<^verbatim>\<open>quantity.hpp\<close>, \<^verbatim>\<open>provenance.hpp\<close>, \<^verbatim>\<open>capability.hpp\<close>,
  \<^verbatim>\<open>throttle.hpp\<close> and \<^verbatim>\<open>thermal_state.hpp\<close>, with the order laws of their rank functions.
\<close>

section \<open>Quantities\<close>

type_synonym celsius = f64
type_synonym delta = f64
type_synonym percent = f64
type_synonym megahertz = u32

text \<open>The double nearest to -273.15.\<close>

definition kAbsoluteZero :: f64 where
  "kAbsoluteZero = Fin (- (2402652809016115 / 8796093022208))"

definition kMaxPlausible :: f64 where
  "kMaxPlausible = Fin 1500"

definition delta_try_from :: "f64 \<Rightarrow> delta option" where
  "delta_try_from v =
     (if \<not> is_finite v then None
      else if flt v (Fin (- 2000)) \<or> flt (Fin 2000) v then None
      else Some v)"

definition celsius_try_from :: "f64 \<Rightarrow> celsius option" where
  "celsius_try_from v =
     (if \<not> is_finite v then None
      else if flt v kAbsoluteZero \<or> flt kMaxPlausible v then None
      else Some v)"

definition celsius_make :: "f64 \<Rightarrow> celsius result" where
  "celsius_make v = (case celsius_try_from v of None \<Rightarrow> Inl E_TEMPERATURE_INVALID | Some t \<Rightarrow> Inr t)"

definition celsius_is_valid :: "celsius \<Rightarrow> bool" where
  "celsius_is_valid t \<longleftrightarrow> fle kAbsoluteZero t \<and> fle t kMaxPlausible"

definition percent_try_from :: "f64 \<Rightarrow> percent option" where
  "percent_try_from v =
     (if \<not> is_finite v \<or> flt v (Fin 0) \<or> flt (Fin 100) v then None else Some v)"

definition megahertz_try_from :: "u64 \<Rightarrow> megahertz option" where
  "megahertz_try_from v = (if 1000000 < v then None else Some (ucast v))"

lemma kAbsoluteZero_is_nearest: "kAbsoluteZero = rne (- 27315 / 100)"
  by code_simp

lemma celsius_valid_finite [dest]: "celsius_is_valid t \<Longrightarrow> is_finite t"
  by (cases t) (auto simp: celsius_is_valid_def kAbsoluteZero_def kMaxPlausible_def fle_def flt_def)

lemma celsius_valid_iff_try_from: "celsius_is_valid t \<longleftrightarrow> celsius_try_from t = Some t"
  by (cases t) (auto simp: celsius_is_valid_def celsius_try_from_def kAbsoluteZero_def
      kMaxPlausible_def fle_def flt_def)

lemma celsius_valid_Fin [simp]:
  "celsius_is_valid (Fin r) \<longleftrightarrow> - (2402652809016115 / 8796093022208) \<le> r \<and> r \<le> 1500"
  by (simp add: celsius_is_valid_def kAbsoluteZero_def kMaxPlausible_def)

section \<open>Ranked choices\<close>

text \<open>
  Several enumerations come with a numeric rank and a choice of the higher-ranked of two
  values. The contract of such a choice gives a semilattice whose order is the rank.
\<close>

locale ranked_choice =
  fixes rank :: "'a \<Rightarrow> nat"
    and pick :: "'a \<Rightarrow> 'a \<Rightarrow> 'a"
  assumes rank_inj: "rank a = rank b \<Longrightarrow> a = b"
    and rank_pick: "rank (pick a b) = max (rank a) (rank b)"
begin

lemma pick_idem: "pick a a = a"
  by (rule rank_inj) (simp add: rank_pick)

lemma pick_comm: "pick a b = pick b a"
  by (rule rank_inj) (simp add: rank_pick max.commute)

lemma pick_assoc: "pick (pick a b) c = pick a (pick b c)"
  by (rule rank_inj) (simp add: rank_pick max.assoc)

lemma pick_upper: "rank a \<le> rank (pick a b)" "rank b \<le> rank (pick a b)"
  by (simp_all add: rank_pick)

lemma pick_least: "rank a \<le> n \<Longrightarrow> rank b \<le> n \<Longrightarrow> rank (pick a b) \<le> n"
  by (simp add: rank_pick)

lemma pick_cases: "pick a b = a \<or> pick a b = b"
proof (cases "rank a \<le> rank b")
  case True
  then have "pick a b = b" by (intro rank_inj) (simp add: rank_pick)
  then show ?thesis by simp
next
  case False
  then have "pick a b = a" by (intro rank_inj) (simp add: rank_pick)
  then show ?thesis by simp
qed

lemma rank_fold: "rank (foldl pick a xs) = Max (insert (rank a) (rank ` set xs))"
proof (induction xs arbitrary: a)
  case (Cons x xs)
  have "Max (insert (max (rank a) (rank x)) (rank ` set xs)) =
      Max (insert (rank a) (insert (rank x) (rank ` set xs)))"
    by (cases "xs = []") (auto simp: max.assoc)
  then show ?case using Cons by (simp add: rank_pick)
qed simp

lemma fold_mem: "foldl pick a xs \<in> insert a (set xs)"
proof (induction xs arbitrary: a)
  case (Cons x xs)
  then show ?case using pick_cases [of a x] by (metis foldl_Cons insertE insertI1 insertI2 list.simps(15))
qed simp

end

section \<open>Provenance\<close>

datatype provenance =
    P_UNKNOWN
  | P_REAL
  | P_SYNTHETIC
  | P_UNSUPPORTED

fun to_string_provenance :: "provenance \<Rightarrow> string" where
    "to_string_provenance P_UNKNOWN = ''UNKNOWN''"
  | "to_string_provenance P_REAL = ''REAL''"
  | "to_string_provenance P_SYNTHETIC = ''SYNTHETIC''"
  | "to_string_provenance P_UNSUPPORTED = ''UNSUPPORTED''"

definition combine :: "provenance \<Rightarrow> provenance \<Rightarrow> provenance" where
  "combine a b =
     (if a = b then a
      else if a = P_UNSUPPORTED \<or> b = P_UNSUPPORTED then P_UNSUPPORTED
      else if a = P_UNKNOWN \<or> b = P_UNKNOWN then P_UNKNOWN
      else P_SYNTHETIC)"

datatype measurement_source =
    MS_UNKNOWN
  | MS_NVML_GPU_TEMPERATURE
  | MS_NVML_TEMPERATURE_THRESHOLD
  | MS_CUDA_DEVICE_ATTRIBUTE
  | MS_PLATFORM_SENSOR
  | MS_NODE_SENSOR
  | MS_RACK_SENSOR
  | MS_COOLING_ZONE_SENSOR
  | MS_OPERATOR_INJECTED
  | MS_SYNTHETIC_MODEL

fun to_string_measurement_source :: "measurement_source \<Rightarrow> string" where
    "to_string_measurement_source MS_UNKNOWN = ''UNKNOWN''"
  | "to_string_measurement_source MS_NVML_GPU_TEMPERATURE = ''NVML_GPU_TEMPERATURE''"
  | "to_string_measurement_source MS_NVML_TEMPERATURE_THRESHOLD = ''NVML_TEMPERATURE_THRESHOLD''"
  | "to_string_measurement_source MS_CUDA_DEVICE_ATTRIBUTE = ''CUDA_DEVICE_ATTRIBUTE''"
  | "to_string_measurement_source MS_PLATFORM_SENSOR = ''PLATFORM_SENSOR''"
  | "to_string_measurement_source MS_NODE_SENSOR = ''NODE_SENSOR''"
  | "to_string_measurement_source MS_RACK_SENSOR = ''RACK_SENSOR''"
  | "to_string_measurement_source MS_COOLING_ZONE_SENSOR = ''COOLING_ZONE_SENSOR''"
  | "to_string_measurement_source MS_OPERATOR_INJECTED = ''OPERATOR_INJECTED''"
  | "to_string_measurement_source MS_SYNTHETIC_MODEL = ''SYNTHETIC_MODEL''"

datatype integrity_status =
    IS_OK
  | IS_DEGRADED
  | IS_FAILED

fun to_string_integrity_status :: "integrity_status \<Rightarrow> string" where
    "to_string_integrity_status IS_OK = ''OK''"
  | "to_string_integrity_status IS_DEGRADED = ''DEGRADED''"
  | "to_string_integrity_status IS_FAILED = ''FAILED''"

text \<open>The strength order that \<open>combine\<close> follows: REAL is the strongest claim.\<close>

fun provenance_rank :: "provenance \<Rightarrow> nat" where
  "provenance_rank P_REAL = 0"
| "provenance_rank P_SYNTHETIC = 1"
| "provenance_rank P_UNKNOWN = 2"
| "provenance_rank P_UNSUPPORTED = 3"

interpretation prov: ranked_choice provenance_rank combine
proof unfold_locales
  show "a = b" if "provenance_rank a = provenance_rank b" for a b
    using that by (cases a; cases b) auto
  show "provenance_rank (combine a b) = max (provenance_rank a) (provenance_rank b)" for a b
    by (cases a; cases b) (auto simp: combine_def)
qed

section \<open>Capabilities\<close>

datatype thermal_capability =
    TC_DEVICE_IDENTITY
  | TC_TEMPERATURE
  | TC_TEMPERATURE_LIMIT
  | TC_TEMPERATURE_THRESHOLD_SHUTDOWN
  | TC_TEMPERATURE_THRESHOLD_SLOWDOWN
  | TC_THROTTLE_REASONS
  | TC_CURRENT_CLOCK
  | TC_MAX_CLOCK
  | TC_FAN_TELEMETRY
  | TC_COOLING_TELEMETRY
  | TC_THERMAL_DOMAIN_METADATA
  | TC_NODE_THERMAL_METADATA
  | TC_RACK_THERMAL_METADATA
  | TC_ACTUAL_THROTTLE_ENFORCEMENT
  | TC_CLOCK_REDUCTION_ENFORCEMENT

fun to_string_thermal_capability :: "thermal_capability \<Rightarrow> string" where
    "to_string_thermal_capability TC_DEVICE_IDENTITY = ''DEVICE_IDENTITY''"
  | "to_string_thermal_capability TC_TEMPERATURE = ''TEMPERATURE''"
  | "to_string_thermal_capability TC_TEMPERATURE_LIMIT = ''TEMPERATURE_LIMIT''"
  | "to_string_thermal_capability TC_TEMPERATURE_THRESHOLD_SHUTDOWN = ''TEMPERATURE_THRESHOLD_SHUTDOWN''"
  | "to_string_thermal_capability TC_TEMPERATURE_THRESHOLD_SLOWDOWN = ''TEMPERATURE_THRESHOLD_SLOWDOWN''"
  | "to_string_thermal_capability TC_THROTTLE_REASONS = ''THROTTLE_REASONS''"
  | "to_string_thermal_capability TC_CURRENT_CLOCK = ''CURRENT_CLOCK''"
  | "to_string_thermal_capability TC_MAX_CLOCK = ''MAX_CLOCK''"
  | "to_string_thermal_capability TC_FAN_TELEMETRY = ''FAN_TELEMETRY''"
  | "to_string_thermal_capability TC_COOLING_TELEMETRY = ''COOLING_TELEMETRY''"
  | "to_string_thermal_capability TC_THERMAL_DOMAIN_METADATA = ''THERMAL_DOMAIN_METADATA''"
  | "to_string_thermal_capability TC_NODE_THERMAL_METADATA = ''NODE_THERMAL_METADATA''"
  | "to_string_thermal_capability TC_RACK_THERMAL_METADATA = ''RACK_THERMAL_METADATA''"
  | "to_string_thermal_capability TC_ACTUAL_THROTTLE_ENFORCEMENT = ''ACTUAL_THROTTLE_ENFORCEMENT''"
  | "to_string_thermal_capability TC_CLOCK_REDUCTION_ENFORCEMENT = ''CLOCK_REDUCTION_ENFORCEMENT''"
fun thermal_capability_value :: "thermal_capability \<Rightarrow> nat" where
    "thermal_capability_value TC_DEVICE_IDENTITY = 0"
  | "thermal_capability_value TC_TEMPERATURE = 1"
  | "thermal_capability_value TC_TEMPERATURE_LIMIT = 2"
  | "thermal_capability_value TC_TEMPERATURE_THRESHOLD_SHUTDOWN = 3"
  | "thermal_capability_value TC_TEMPERATURE_THRESHOLD_SLOWDOWN = 4"
  | "thermal_capability_value TC_THROTTLE_REASONS = 5"
  | "thermal_capability_value TC_CURRENT_CLOCK = 6"
  | "thermal_capability_value TC_MAX_CLOCK = 7"
  | "thermal_capability_value TC_FAN_TELEMETRY = 8"
  | "thermal_capability_value TC_COOLING_TELEMETRY = 9"
  | "thermal_capability_value TC_THERMAL_DOMAIN_METADATA = 10"
  | "thermal_capability_value TC_NODE_THERMAL_METADATA = 11"
  | "thermal_capability_value TC_RACK_THERMAL_METADATA = 12"
  | "thermal_capability_value TC_ACTUAL_THROTTLE_ENFORCEMENT = 13"
  | "thermal_capability_value TC_CLOCK_REDUCTION_ENFORCEMENT = 14"

datatype capability_state =
    CS_UNKNOWN
  | CS_SUPPORTED_REAL
  | CS_SUPPORTED_READ_ONLY
  | CS_SUPPORTED_SYNTHETIC
  | CS_UNSUPPORTED

fun to_string_capability_state :: "capability_state \<Rightarrow> string" where
    "to_string_capability_state CS_UNKNOWN = ''UNKNOWN''"
  | "to_string_capability_state CS_SUPPORTED_REAL = ''SUPPORTED_REAL''"
  | "to_string_capability_state CS_SUPPORTED_READ_ONLY = ''SUPPORTED_READ_ONLY''"
  | "to_string_capability_state CS_SUPPORTED_SYNTHETIC = ''SUPPORTED_SYNTHETIC''"
  | "to_string_capability_state CS_UNSUPPORTED = ''UNSUPPORTED''"

definition kThermalCapabilityCount :: nat where
  "kThermalCapabilityCount = 15"

definition is_supported :: "capability_state \<Rightarrow> bool" where
  "is_supported s \<longleftrightarrow>
     s = CS_SUPPORTED_REAL \<or> s = CS_SUPPORTED_READ_ONLY \<or> s = CS_SUPPORTED_SYNTHETIC"

fun provenance_of :: "capability_state \<Rightarrow> provenance" where
  "provenance_of CS_SUPPORTED_REAL = P_REAL"
| "provenance_of CS_SUPPORTED_READ_ONLY = P_REAL"
| "provenance_of CS_SUPPORTED_SYNTHETIC = P_SYNTHETIC"
| "provenance_of CS_UNSUPPORTED = P_UNSUPPORTED"
| "provenance_of CS_UNKNOWN = P_UNKNOWN"

text \<open>The two arrays of \<^verbatim>\<open>CapabilitySet\<close>, indexed by the enumeration value.\<close>

record capability_set =
  cap_generation :: ident
  cap_states :: "capability_state list"
  cap_details :: "string list"

definition empty_capabilities :: capability_set where
  "empty_capabilities =
     \<lparr>cap_generation = 0, cap_states = replicate kThermalCapabilityCount CS_UNKNOWN,
      cap_details = replicate kThermalCapabilityCount []\<rparr>"

definition cap_set :: "capability_set \<Rightarrow> thermal_capability \<Rightarrow> capability_state \<Rightarrow> string \<Rightarrow> capability_set" where
  "cap_set cs c st detail =
     (let index = thermal_capability_value c
      in if index \<ge> kThermalCapabilityCount then cs
         else cs\<lparr>cap_states := (cap_states cs)[index := st],
                 cap_details := (cap_details cs)[index := detail]\<rparr>)"

definition cap_get :: "capability_set \<Rightarrow> thermal_capability \<Rightarrow> capability_state" where
  "cap_get cs c =
     (let index = thermal_capability_value c
      in if index \<ge> kThermalCapabilityCount then CS_UNKNOWN else cap_states cs ! index)"

definition cap_supported :: "capability_set \<Rightarrow> thermal_capability \<Rightarrow> bool" where
  "cap_supported cs c \<longleftrightarrow> is_supported (cap_get cs c)"

definition cap_all_unknown :: "capability_set \<Rightarrow> bool" where
  "cap_all_unknown cs \<longleftrightarrow> list_all (\<lambda>s. s = CS_UNKNOWN) (cap_states cs)"

definition capabilities_ok :: "capability_set \<Rightarrow> bool" where
  "capabilities_ok cs \<longleftrightarrow>
     length (cap_states cs) = kThermalCapabilityCount \<and>
     length (cap_details cs) = kThermalCapabilityCount"

lemma thermal_capability_value_less [simp]: "thermal_capability_value c < kThermalCapabilityCount"
  by (cases c) (auto simp: kThermalCapabilityCount_def)

lemma thermal_capability_value_inj [simp]:
  "thermal_capability_value c = thermal_capability_value d \<longleftrightarrow> c = d"
  by (cases c; simp; cases d; simp)

lemma cap_get_set:
  "capabilities_ok cs \<Longrightarrow>
     cap_get (cap_set cs c st detail) d = (if d = c then st else cap_get cs d)"
  using thermal_capability_value_less [of c] thermal_capability_value_less [of d]
  by (auto simp: cap_get_def cap_set_def Let_def capabilities_ok_def not_le nth_list_update
      simp del: thermal_capability_value_less)

lemma capabilities_ok_set: "capabilities_ok cs \<Longrightarrow> capabilities_ok (cap_set cs c st detail)"
  by (simp add: capabilities_ok_def cap_set_def Let_def)

lemma capabilities_ok_empty: "capabilities_ok empty_capabilities"
  by (simp add: capabilities_ok_def empty_capabilities_def)

section \<open>Throttle evidence\<close>

definition kThermalThrottleMask :: u64 where
  "kThermalThrottleMask = push_bit 5 1 OR push_bit 6 1 OR push_bit 3 1 OR push_bit 9 1"

definition kNonThermalThrottleMask :: u64 where
  "kNonThermalThrottleMask =
     push_bit 2 1 OR push_bit 7 1 OR push_bit 1 1 OR push_bit 4 1 OR
     push_bit 8 1 OR push_bit 10 1 OR push_bit 11 1"

datatype throttle_class =
    TH_THROTTLE_UNKNOWN
  | TH_NO_THROTTLE_OBSERVED
  | TH_THERMAL_THROTTLE_OBSERVED
  | TH_NON_THERMAL_THROTTLE_OBSERVED
  | TH_THROTTLE_UNSUPPORTED

fun to_string_throttle_class :: "throttle_class \<Rightarrow> string" where
    "to_string_throttle_class TH_THROTTLE_UNKNOWN = ''THROTTLE_UNKNOWN''"
  | "to_string_throttle_class TH_NO_THROTTLE_OBSERVED = ''NO_THROTTLE_OBSERVED''"
  | "to_string_throttle_class TH_THERMAL_THROTTLE_OBSERVED = ''THERMAL_THROTTLE_OBSERVED''"
  | "to_string_throttle_class TH_NON_THERMAL_THROTTLE_OBSERVED = ''NON_THERMAL_THROTTLE_OBSERVED''"
  | "to_string_throttle_class TH_THROTTLE_UNSUPPORTED = ''THROTTLE_UNSUPPORTED''"

record throttle_observation =
  thr_raw :: u64
  thr_class :: throttle_class

definition throttle_from_raw :: "u64 \<Rightarrow> throttle_observation" where
  "throttle_from_raw raw =
     (let thermal = raw AND kThermalThrottleMask \<noteq> 0;
          non_thermal = raw AND kNonThermalThrottleMask \<noteq> 0
      in \<lparr>thr_raw = raw,
          thr_class = (if thermal then TH_THERMAL_THROTTLE_OBSERVED
                       else if non_thermal then TH_NON_THERMAL_THROTTLE_OBSERVED
                       else TH_NO_THROTTLE_OBSERVED)\<rparr>)"

definition throttle_unsupported :: throttle_observation where
  "throttle_unsupported = \<lparr>thr_raw = 0, thr_class = TH_THROTTLE_UNSUPPORTED\<rparr>"

definition throttle_unknown :: throttle_observation where
  "throttle_unknown = \<lparr>thr_raw = 0, thr_class = TH_THROTTLE_UNKNOWN\<rparr>"

definition thermal_active :: "throttle_observation \<Rightarrow> bool" where
  "thermal_active o1 \<longleftrightarrow> thr_class o1 = TH_THERMAL_THROTTLE_OBSERVED"

definition any_throttle :: "throttle_observation \<Rightarrow> bool" where
  "any_throttle o1 \<longleftrightarrow> thr_class o1 = TH_THERMAL_THROTTLE_OBSERVED \<or>
     thr_class o1 = TH_NON_THERMAL_THROTTLE_OBSERVED"

section \<open>Thermal states\<close>

datatype thermal_state =
    TS_NORMAL
  | TS_WARM
  | TS_NEAR_LIMIT
  | TS_DERATED
  | TS_THROTTLING
  | TS_CRITICAL
  | TS_REVALIDATION_REQUIRED
  | TS_UNKNOWN
  | TS_UNSUPPORTED

fun to_string_thermal_state :: "thermal_state \<Rightarrow> string" where
    "to_string_thermal_state TS_NORMAL = ''NORMAL''"
  | "to_string_thermal_state TS_WARM = ''WARM''"
  | "to_string_thermal_state TS_NEAR_LIMIT = ''NEAR_LIMIT''"
  | "to_string_thermal_state TS_DERATED = ''DERATED''"
  | "to_string_thermal_state TS_THROTTLING = ''THROTTLING''"
  | "to_string_thermal_state TS_CRITICAL = ''CRITICAL''"
  | "to_string_thermal_state TS_REVALIDATION_REQUIRED = ''REVALIDATION_REQUIRED''"
  | "to_string_thermal_state TS_UNKNOWN = ''UNKNOWN''"
  | "to_string_thermal_state TS_UNSUPPORTED = ''UNSUPPORTED''"

fun severity :: "thermal_state \<Rightarrow> nat" where
  "severity TS_NORMAL = 0"
| "severity TS_WARM = 1"
| "severity TS_NEAR_LIMIT = 2"
| "severity TS_DERATED = 3"
| "severity TS_THROTTLING = 4"
| "severity TS_CRITICAL = 5"
| "severity TS_REVALIDATION_REQUIRED = 6"
| "severity TS_UNKNOWN = 7"
| "severity TS_UNSUPPORTED = 8"

definition is_restrictive :: "thermal_state \<Rightarrow> bool" where
  "is_restrictive s \<longleftrightarrow> s = TS_DERATED \<or> s = TS_THROTTLING \<or> s = TS_CRITICAL"

definition is_unresolved :: "thermal_state \<Rightarrow> bool" where
  "is_unresolved s \<longleftrightarrow> s = TS_UNKNOWN \<or> s = TS_UNSUPPORTED \<or> s = TS_REVALIDATION_REQUIRED"

definition requires_recovery_gate :: "thermal_state \<Rightarrow> bool" where
  "requires_recovery_gate s \<longleftrightarrow>
     s = TS_DERATED \<or> s = TS_THROTTLING \<or> s = TS_CRITICAL \<or> s = TS_REVALIDATION_REQUIRED"

lemma severity_inj [simp]: "severity a = severity b \<longleftrightarrow> a = b"
  by (cases a; cases b) auto

text \<open>Thermal states are linearly ordered by severity.\<close>

instantiation thermal_state :: linorder
begin

definition less_eq_thermal_state :: "thermal_state \<Rightarrow> thermal_state \<Rightarrow> bool" where
  "less_eq_thermal_state a b \<longleftrightarrow> severity a \<le> severity b"

definition less_thermal_state :: "thermal_state \<Rightarrow> thermal_state \<Rightarrow> bool" where
  "less_thermal_state a b \<longleftrightarrow> severity a < severity b"

instance
  by standard (auto simp: less_eq_thermal_state_def less_thermal_state_def)

end

lemma state_partition:
  "is_restrictive s \<or> is_unresolved s \<or> s = TS_NORMAL \<or> s = TS_WARM \<or> s = TS_NEAR_LIMIT"
  by (cases s) (auto simp: is_restrictive_def is_unresolved_def)

end
