(* ===== verification/Decision.thy ===== *)
theory Decision
  imports Vocabulary "HOL-Library.Multiset"
begin

text \<open>
  \<^verbatim>\<open>decision.hpp\<close>, \<^verbatim>\<open>mitigation.hpp\<close> and the canonical orderings of \<^verbatim>\<open>decision.cpp\<close>: typed
  decisions, derating levels with their restriction rank, reason-code sets and mitigation
  intents.
\<close>

section \<open>Decisions and derating levels\<close>

datatype thermal_decision =
    TD_ALLOW
  | TD_ALLOW_DERATED
  | TD_DEFER
  | TD_DENY
  | TD_REVALIDATION_REQUIRED
  | TD_UNKNOWN
  | TD_UNSUPPORTED

fun to_string_thermal_decision :: "thermal_decision \<Rightarrow> string" where
    "to_string_thermal_decision TD_ALLOW = ''ALLOW''"
  | "to_string_thermal_decision TD_ALLOW_DERATED = ''ALLOW_DERATED''"
  | "to_string_thermal_decision TD_DEFER = ''DEFER''"
  | "to_string_thermal_decision TD_DENY = ''DENY''"
  | "to_string_thermal_decision TD_REVALIDATION_REQUIRED = ''REVALIDATION_REQUIRED''"
  | "to_string_thermal_decision TD_UNKNOWN = ''UNKNOWN''"
  | "to_string_thermal_decision TD_UNSUPPORTED = ''UNSUPPORTED''"

datatype derating_level =
    DL_FULL_CAPABILITY
  | DL_DERATED_CLOCK
  | DL_DERATED_ADMISSION
  | DL_DERATED_CONCURRENCY
  | DL_DERATED_WORKLOAD_CLASS
  | DL_DERATED_COMBINED
  | DL_NO_SAFE_EXECUTION
  | DL_REVALIDATION_REQUIRED
  | DL_UNKNOWN
  | DL_UNSUPPORTED

fun to_string_derating_level :: "derating_level \<Rightarrow> string" where
    "to_string_derating_level DL_FULL_CAPABILITY = ''FULL_CAPABILITY''"
  | "to_string_derating_level DL_DERATED_CLOCK = ''DERATED_CLOCK''"
  | "to_string_derating_level DL_DERATED_ADMISSION = ''DERATED_ADMISSION''"
  | "to_string_derating_level DL_DERATED_CONCURRENCY = ''DERATED_CONCURRENCY''"
  | "to_string_derating_level DL_DERATED_WORKLOAD_CLASS = ''DERATED_WORKLOAD_CLASS''"
  | "to_string_derating_level DL_DERATED_COMBINED = ''DERATED_COMBINED''"
  | "to_string_derating_level DL_NO_SAFE_EXECUTION = ''NO_SAFE_EXECUTION''"
  | "to_string_derating_level DL_REVALIDATION_REQUIRED = ''REVALIDATION_REQUIRED''"
  | "to_string_derating_level DL_UNKNOWN = ''UNKNOWN''"
  | "to_string_derating_level DL_UNSUPPORTED = ''UNSUPPORTED''"

fun restriction_rank :: "derating_level \<Rightarrow> nat" where
  "restriction_rank DL_FULL_CAPABILITY = 0"
| "restriction_rank DL_DERATED_WORKLOAD_CLASS = 1"
| "restriction_rank DL_DERATED_CLOCK = 2"
| "restriction_rank DL_DERATED_ADMISSION = 3"
| "restriction_rank DL_DERATED_CONCURRENCY = 4"
| "restriction_rank DL_DERATED_COMBINED = 5"
| "restriction_rank DL_NO_SAFE_EXECUTION = 6"
| "restriction_rank DL_REVALIDATION_REQUIRED = 7"
| "restriction_rank DL_UNKNOWN = 8"
| "restriction_rank DL_UNSUPPORTED = 9"

definition does_not_expand :: "derating_level \<Rightarrow> derating_level \<Rightarrow> bool" where
  "does_not_expand candidate previous \<longleftrightarrow> restriction_rank previous \<le> restriction_rank candidate"

definition most_restrictive :: "derating_level \<Rightarrow> derating_level \<Rightarrow> derating_level" where
  "most_restrictive a b = (if restriction_rank b \<le> restriction_rank a then a else b)"

lemma restriction_rank_inj [simp]: "restriction_rank a = restriction_rank b \<longleftrightarrow> a = b"
  by (cases a; cases b) auto

interpretation derate: ranked_choice restriction_rank most_restrictive
  by unfold_locales (auto simp: most_restrictive_def max_def)

section \<open>Reason codes\<close>

datatype (plugins only: code size) reason_code =
    R_NONE
  | R_TEMPERATURE_BELOW_WARNING
  | R_TEMPERATURE_IN_WARNING_BAND
  | R_TEMPERATURE_IN_NEAR_LIMIT_BAND
  | R_DERATING_THRESHOLD_EXCEEDED
  | R_CRITICAL_THRESHOLD_EXCEEDED
  | R_THERMAL_THROTTLE_OBSERVED
  | R_NON_THERMAL_THROTTLE_OBSERVED
  | R_NO_THROTTLE_OBSERVED
  | R_THROTTLE_EVIDENCE_UNSUPPORTED
  | R_THROTTLE_EVIDENCE_UNKNOWN
  | R_EVIDENCE_MISSING
  | R_EVIDENCE_STALE
  | R_EVIDENCE_GENERATION_INVALIDATED
  | R_EVIDENCE_INTEGRITY_FAILED
  | R_EVIDENCE_CONFLICT
  | R_CAPABILITY_UNSUPPORTED
  | R_POLICY_UNKNOWN_BEHAVIOR_APPLIED
  | R_POLICY_UNSUPPORTED_BEHAVIOR_APPLIED
  | R_CAPABILITY_UNRESOLVED
  | R_EFFECTIVE_HEADROOM_SUFFICIENT
  | R_EFFECTIVE_HEADROOM_BELOW_DEMAND
  | R_RAW_HEADROOM_NEGATIVE
  | R_VENDOR_LIMIT_GOVERNS
  | R_POLICY_LIMIT_GOVERNS
  | R_RECOVERY_THRESHOLD_SATISFIED
  | R_RECOVERY_THRESHOLD_EXCEEDED
  | R_RECOVERY_SAMPLES_INSUFFICIENT
  | R_RECOVERY_EVIDENCE_SPAN_INSUFFICIENT
  | R_RECOVERY_FORBIDDEN_BY_POLICY
  | R_RECOVERY_REQUIRES_EXPLICIT_AUTHORIZATION
  | R_RECOVERY_AUTHORIZED
  | R_RECOVERY_WITNESSES_INSUFFICIENT
  | R_RECOVERY_BLOCKED_BY_COUPLED_DOMAIN
  | R_RECOVERY_BLOCKED_BY_THROTTLE_EVIDENCE
  | R_COUPLED_DOMAIN_PRESSURE
  | R_COUPLED_DOMAIN_RECOVERED
  | R_COUPLING_PROVENANCE_SYNTHETIC
  | R_WORKLOAD_PROFILE_EXCLUDED
  | R_WORKLOAD_REQUIRES_DERATING
  | R_WORKLOAD_HEADROOM_DEMAND_MET
  | R_WORKLOAD_PROFILE_UNKNOWN
  | R_EMERGENCY_CONTAINMENT_REQUIRED
  | R_EMERGENCY_EXECUTION_DENIED
  | R_ADMISSION_DEFERRED_BY_POLICY
  | R_DERATED_ADMISSION_ALLOWED
  | R_DERATED_ADMISSION_FORBIDDEN
  | R_CONCURRENCY_CEILING_APPLIED
  | R_STATE_RETAINED_BY_HYSTERESIS
  | R_AUTHORITY_REVALIDATED
  | R_DERATING_CANNOT_EXPAND

primrec to_string_reason_code :: "reason_code \<Rightarrow> string" where
    "to_string_reason_code R_NONE = ''NONE''"
  | "to_string_reason_code R_TEMPERATURE_BELOW_WARNING = ''TEMPERATURE_BELOW_WARNING''"
  | "to_string_reason_code R_TEMPERATURE_IN_WARNING_BAND = ''TEMPERATURE_IN_WARNING_BAND''"
  | "to_string_reason_code R_TEMPERATURE_IN_NEAR_LIMIT_BAND = ''TEMPERATURE_IN_NEAR_LIMIT_BAND''"
  | "to_string_reason_code R_DERATING_THRESHOLD_EXCEEDED = ''DERATING_THRESHOLD_EXCEEDED''"
  | "to_string_reason_code R_CRITICAL_THRESHOLD_EXCEEDED = ''CRITICAL_THRESHOLD_EXCEEDED''"
  | "to_string_reason_code R_THERMAL_THROTTLE_OBSERVED = ''THERMAL_THROTTLE_OBSERVED''"
  | "to_string_reason_code R_NON_THERMAL_THROTTLE_OBSERVED = ''NON_THERMAL_THROTTLE_OBSERVED''"
  | "to_string_reason_code R_NO_THROTTLE_OBSERVED = ''NO_THROTTLE_OBSERVED''"
  | "to_string_reason_code R_THROTTLE_EVIDENCE_UNSUPPORTED = ''THROTTLE_EVIDENCE_UNSUPPORTED''"
  | "to_string_reason_code R_THROTTLE_EVIDENCE_UNKNOWN = ''THROTTLE_EVIDENCE_UNKNOWN''"
  | "to_string_reason_code R_EVIDENCE_MISSING = ''EVIDENCE_MISSING''"
  | "to_string_reason_code R_EVIDENCE_STALE = ''EVIDENCE_STALE''"
  | "to_string_reason_code R_EVIDENCE_GENERATION_INVALIDATED = ''EVIDENCE_GENERATION_INVALIDATED''"
  | "to_string_reason_code R_EVIDENCE_INTEGRITY_FAILED = ''EVIDENCE_INTEGRITY_FAILED''"
  | "to_string_reason_code R_EVIDENCE_CONFLICT = ''EVIDENCE_CONFLICT''"
  | "to_string_reason_code R_CAPABILITY_UNSUPPORTED = ''CAPABILITY_UNSUPPORTED''"
  | "to_string_reason_code R_POLICY_UNKNOWN_BEHAVIOR_APPLIED = ''POLICY_UNKNOWN_BEHAVIOR_APPLIED''"
  | "to_string_reason_code R_POLICY_UNSUPPORTED_BEHAVIOR_APPLIED = ''POLICY_UNSUPPORTED_BEHAVIOR_APPLIED''"
  | "to_string_reason_code R_CAPABILITY_UNRESOLVED = ''CAPABILITY_UNRESOLVED''"
  | "to_string_reason_code R_EFFECTIVE_HEADROOM_SUFFICIENT = ''EFFECTIVE_HEADROOM_SUFFICIENT''"
  | "to_string_reason_code R_EFFECTIVE_HEADROOM_BELOW_DEMAND = ''EFFECTIVE_HEADROOM_BELOW_DEMAND''"
  | "to_string_reason_code R_RAW_HEADROOM_NEGATIVE = ''RAW_HEADROOM_NEGATIVE''"
  | "to_string_reason_code R_VENDOR_LIMIT_GOVERNS = ''VENDOR_LIMIT_GOVERNS''"
  | "to_string_reason_code R_POLICY_LIMIT_GOVERNS = ''POLICY_LIMIT_GOVERNS''"
  | "to_string_reason_code R_RECOVERY_THRESHOLD_SATISFIED = ''RECOVERY_THRESHOLD_SATISFIED''"
  | "to_string_reason_code R_RECOVERY_THRESHOLD_EXCEEDED = ''RECOVERY_THRESHOLD_EXCEEDED''"
  | "to_string_reason_code R_RECOVERY_SAMPLES_INSUFFICIENT = ''RECOVERY_SAMPLES_INSUFFICIENT''"
  | "to_string_reason_code R_RECOVERY_EVIDENCE_SPAN_INSUFFICIENT = ''RECOVERY_EVIDENCE_SPAN_INSUFFICIENT''"
  | "to_string_reason_code R_RECOVERY_FORBIDDEN_BY_POLICY = ''RECOVERY_FORBIDDEN_BY_POLICY''"
  | "to_string_reason_code R_RECOVERY_REQUIRES_EXPLICIT_AUTHORIZATION = ''RECOVERY_REQUIRES_EXPLICIT_AUTHORIZATION''"
  | "to_string_reason_code R_RECOVERY_AUTHORIZED = ''RECOVERY_AUTHORIZED''"
  | "to_string_reason_code R_RECOVERY_WITNESSES_INSUFFICIENT = ''RECOVERY_WITNESSES_INSUFFICIENT''"
  | "to_string_reason_code R_RECOVERY_BLOCKED_BY_COUPLED_DOMAIN = ''RECOVERY_BLOCKED_BY_COUPLED_DOMAIN''"
  | "to_string_reason_code R_RECOVERY_BLOCKED_BY_THROTTLE_EVIDENCE = ''RECOVERY_BLOCKED_BY_THROTTLE_EVIDENCE''"
  | "to_string_reason_code R_COUPLED_DOMAIN_PRESSURE = ''COUPLED_DOMAIN_PRESSURE''"
  | "to_string_reason_code R_COUPLED_DOMAIN_RECOVERED = ''COUPLED_DOMAIN_RECOVERED''"
  | "to_string_reason_code R_COUPLING_PROVENANCE_SYNTHETIC = ''COUPLING_PROVENANCE_SYNTHETIC''"
  | "to_string_reason_code R_WORKLOAD_PROFILE_EXCLUDED = ''WORKLOAD_PROFILE_EXCLUDED''"
  | "to_string_reason_code R_WORKLOAD_REQUIRES_DERATING = ''WORKLOAD_REQUIRES_DERATING''"
  | "to_string_reason_code R_WORKLOAD_HEADROOM_DEMAND_MET = ''WORKLOAD_HEADROOM_DEMAND_MET''"
  | "to_string_reason_code R_WORKLOAD_PROFILE_UNKNOWN = ''WORKLOAD_PROFILE_UNKNOWN''"
  | "to_string_reason_code R_EMERGENCY_CONTAINMENT_REQUIRED = ''EMERGENCY_CONTAINMENT_REQUIRED''"
  | "to_string_reason_code R_EMERGENCY_EXECUTION_DENIED = ''EMERGENCY_EXECUTION_DENIED''"
  | "to_string_reason_code R_ADMISSION_DEFERRED_BY_POLICY = ''ADMISSION_DEFERRED_BY_POLICY''"
  | "to_string_reason_code R_DERATED_ADMISSION_ALLOWED = ''DERATED_ADMISSION_ALLOWED''"
  | "to_string_reason_code R_DERATED_ADMISSION_FORBIDDEN = ''DERATED_ADMISSION_FORBIDDEN''"
  | "to_string_reason_code R_CONCURRENCY_CEILING_APPLIED = ''CONCURRENCY_CEILING_APPLIED''"
  | "to_string_reason_code R_STATE_RETAINED_BY_HYSTERESIS = ''STATE_RETAINED_BY_HYSTERESIS''"
  | "to_string_reason_code R_AUTHORITY_REVALIDATED = ''AUTHORITY_REVALIDATED''"
  | "to_string_reason_code R_DERATING_CANNOT_EXPAND = ''DERATING_CANNOT_EXPAND''"
primrec reason_code_value :: "reason_code \<Rightarrow> nat" where
    "reason_code_value R_NONE = 0"
  | "reason_code_value R_TEMPERATURE_BELOW_WARNING = 1"
  | "reason_code_value R_TEMPERATURE_IN_WARNING_BAND = 2"
  | "reason_code_value R_TEMPERATURE_IN_NEAR_LIMIT_BAND = 3"
  | "reason_code_value R_DERATING_THRESHOLD_EXCEEDED = 4"
  | "reason_code_value R_CRITICAL_THRESHOLD_EXCEEDED = 5"
  | "reason_code_value R_THERMAL_THROTTLE_OBSERVED = 10"
  | "reason_code_value R_NON_THERMAL_THROTTLE_OBSERVED = 11"
  | "reason_code_value R_NO_THROTTLE_OBSERVED = 12"
  | "reason_code_value R_THROTTLE_EVIDENCE_UNSUPPORTED = 13"
  | "reason_code_value R_THROTTLE_EVIDENCE_UNKNOWN = 14"
  | "reason_code_value R_EVIDENCE_MISSING = 20"
  | "reason_code_value R_EVIDENCE_STALE = 21"
  | "reason_code_value R_EVIDENCE_GENERATION_INVALIDATED = 22"
  | "reason_code_value R_EVIDENCE_INTEGRITY_FAILED = 23"
  | "reason_code_value R_EVIDENCE_CONFLICT = 24"
  | "reason_code_value R_CAPABILITY_UNSUPPORTED = 25"
  | "reason_code_value R_POLICY_UNKNOWN_BEHAVIOR_APPLIED = 26"
  | "reason_code_value R_POLICY_UNSUPPORTED_BEHAVIOR_APPLIED = 27"
  | "reason_code_value R_CAPABILITY_UNRESOLVED = 28"
  | "reason_code_value R_EFFECTIVE_HEADROOM_SUFFICIENT = 30"
  | "reason_code_value R_EFFECTIVE_HEADROOM_BELOW_DEMAND = 31"
  | "reason_code_value R_RAW_HEADROOM_NEGATIVE = 32"
  | "reason_code_value R_VENDOR_LIMIT_GOVERNS = 33"
  | "reason_code_value R_POLICY_LIMIT_GOVERNS = 34"
  | "reason_code_value R_RECOVERY_THRESHOLD_SATISFIED = 40"
  | "reason_code_value R_RECOVERY_THRESHOLD_EXCEEDED = 41"
  | "reason_code_value R_RECOVERY_SAMPLES_INSUFFICIENT = 42"
  | "reason_code_value R_RECOVERY_EVIDENCE_SPAN_INSUFFICIENT = 43"
  | "reason_code_value R_RECOVERY_FORBIDDEN_BY_POLICY = 44"
  | "reason_code_value R_RECOVERY_REQUIRES_EXPLICIT_AUTHORIZATION = 45"
  | "reason_code_value R_RECOVERY_AUTHORIZED = 46"
  | "reason_code_value R_RECOVERY_WITNESSES_INSUFFICIENT = 47"
  | "reason_code_value R_RECOVERY_BLOCKED_BY_COUPLED_DOMAIN = 48"
  | "reason_code_value R_RECOVERY_BLOCKED_BY_THROTTLE_EVIDENCE = 49"
  | "reason_code_value R_COUPLED_DOMAIN_PRESSURE = 60"
  | "reason_code_value R_COUPLED_DOMAIN_RECOVERED = 61"
  | "reason_code_value R_COUPLING_PROVENANCE_SYNTHETIC = 62"
  | "reason_code_value R_WORKLOAD_PROFILE_EXCLUDED = 70"
  | "reason_code_value R_WORKLOAD_REQUIRES_DERATING = 71"
  | "reason_code_value R_WORKLOAD_HEADROOM_DEMAND_MET = 72"
  | "reason_code_value R_WORKLOAD_PROFILE_UNKNOWN = 73"
  | "reason_code_value R_EMERGENCY_CONTAINMENT_REQUIRED = 80"
  | "reason_code_value R_EMERGENCY_EXECUTION_DENIED = 81"
  | "reason_code_value R_ADMISSION_DEFERRED_BY_POLICY = 90"
  | "reason_code_value R_DERATED_ADMISSION_ALLOWED = 91"
  | "reason_code_value R_DERATED_ADMISSION_FORBIDDEN = 92"
  | "reason_code_value R_CONCURRENCY_CEILING_APPLIED = 93"
  | "reason_code_value R_STATE_RETAINED_BY_HYSTERESIS = 100"
  | "reason_code_value R_AUTHORITY_REVALIDATED = 101"
  | "reason_code_value R_DERATING_CANNOT_EXPAND = 102"

definition all_reason_codes :: "reason_code list" where
  "all_reason_codes =
     [R_NONE, R_TEMPERATURE_BELOW_WARNING, R_TEMPERATURE_IN_WARNING_BAND,
      R_TEMPERATURE_IN_NEAR_LIMIT_BAND, R_DERATING_THRESHOLD_EXCEEDED,
      R_CRITICAL_THRESHOLD_EXCEEDED, R_THERMAL_THROTTLE_OBSERVED,
      R_NON_THERMAL_THROTTLE_OBSERVED, R_NO_THROTTLE_OBSERVED, R_THROTTLE_EVIDENCE_UNSUPPORTED,
      R_THROTTLE_EVIDENCE_UNKNOWN, R_EVIDENCE_MISSING, R_EVIDENCE_STALE,
      R_EVIDENCE_GENERATION_INVALIDATED, R_EVIDENCE_INTEGRITY_FAILED, R_EVIDENCE_CONFLICT,
      R_CAPABILITY_UNSUPPORTED, R_POLICY_UNKNOWN_BEHAVIOR_APPLIED,
      R_POLICY_UNSUPPORTED_BEHAVIOR_APPLIED, R_CAPABILITY_UNRESOLVED,
      R_EFFECTIVE_HEADROOM_SUFFICIENT, R_EFFECTIVE_HEADROOM_BELOW_DEMAND,
      R_RAW_HEADROOM_NEGATIVE, R_VENDOR_LIMIT_GOVERNS, R_POLICY_LIMIT_GOVERNS,
      R_RECOVERY_THRESHOLD_SATISFIED, R_RECOVERY_THRESHOLD_EXCEEDED,
      R_RECOVERY_SAMPLES_INSUFFICIENT, R_RECOVERY_EVIDENCE_SPAN_INSUFFICIENT,
      R_RECOVERY_FORBIDDEN_BY_POLICY, R_RECOVERY_REQUIRES_EXPLICIT_AUTHORIZATION,
      R_RECOVERY_AUTHORIZED, R_RECOVERY_WITNESSES_INSUFFICIENT,
      R_RECOVERY_BLOCKED_BY_COUPLED_DOMAIN, R_RECOVERY_BLOCKED_BY_THROTTLE_EVIDENCE,
      R_COUPLED_DOMAIN_PRESSURE, R_COUPLED_DOMAIN_RECOVERED, R_COUPLING_PROVENANCE_SYNTHETIC,
      R_WORKLOAD_PROFILE_EXCLUDED, R_WORKLOAD_REQUIRES_DERATING, R_WORKLOAD_HEADROOM_DEMAND_MET,
      R_WORKLOAD_PROFILE_UNKNOWN, R_EMERGENCY_CONTAINMENT_REQUIRED,
      R_EMERGENCY_EXECUTION_DENIED, R_ADMISSION_DEFERRED_BY_POLICY, R_DERATED_ADMISSION_ALLOWED,
      R_DERATED_ADMISSION_FORBIDDEN, R_CONCURRENCY_CEILING_APPLIED,
      R_STATE_RETAINED_BY_HYSTERESIS, R_AUTHORITY_REVALIDATED, R_DERATING_CANNOT_EXPAND]"

lemma all_reason_codes_complete: "c \<in> set all_reason_codes"
  by (cases c) (simp_all add: all_reason_codes_def)

lemma reason_code_value_inj [simp]: "reason_code_value a = reason_code_value b \<longleftrightarrow> a = b"
proof -
  have "distinct (map reason_code_value all_reason_codes)"
    by (simp add: all_reason_codes_def)
  then have "inj_on reason_code_value (set all_reason_codes)"
    by (simp add: distinct_map)
  then show ?thesis
    using all_reason_codes_complete by (auto dest: inj_onD)
qed

instantiation reason_code :: linorder
begin

definition less_eq_reason_code :: "reason_code \<Rightarrow> reason_code \<Rightarrow> bool" where
  "less_eq_reason_code a b \<longleftrightarrow> reason_code_value a \<le> reason_code_value b"

definition less_reason_code :: "reason_code \<Rightarrow> reason_code \<Rightarrow> bool" where
  "less_reason_code a b \<longleftrightarrow> reason_code_value a < reason_code_value b"

instance
  by standard (auto simp: less_eq_reason_code_def less_reason_code_def)

end

text \<open>\<^verbatim>\<open>ReasonCodeSet\<close>: a sequence without repeats and without \<^verbatim>\<open>NONE\<close>.\<close>

type_synonym reason_set = "reason_code list"

definition reason_add :: "reason_code \<Rightarrow> reason_set \<Rightarrow> reason_set" where
  "reason_add code codes = (if code = R_NONE then codes else if code \<in> set codes then codes else codes @ [code])"

definition reason_contains :: "reason_set \<Rightarrow> reason_code \<Rightarrow> bool" where
  "reason_contains codes code \<longleftrightarrow> code \<in> set codes"

text \<open>The loop that adds every code of another set.\<close>

definition reason_add_all :: "reason_code list \<Rightarrow> reason_set \<Rightarrow> reason_set" where
  "reason_add_all new codes = foldl (\<lambda>acc c. reason_add c acc) codes new"

text \<open>
  The insertion sort of \<^verbatim>\<open>canonicalise\<close>: the key moves left past every greater element of
  the sorted prefix.
\<close>

fun shift_back :: "reason_code \<Rightarrow> reason_code list \<Rightarrow> reason_code list" where
  "shift_back key [] = [key]"
| "shift_back key (c # cs) =
     (if reason_code_value key < reason_code_value c then c # shift_back key cs else key # c # cs)"

definition shift_insert :: "reason_code list \<Rightarrow> reason_code \<Rightarrow> reason_code list" where
  "shift_insert prefix key = rev (shift_back key (rev prefix))"

definition canonicalise_reasons :: "reason_set \<Rightarrow> reason_set" where
  "canonicalise_reasons codes = foldl shift_insert [] codes"

definition reasons_ok :: "reason_set \<Rightarrow> bool" where
  "reasons_ok codes \<longleftrightarrow> distinct codes \<and> R_NONE \<notin> set codes"

lemma reasons_ok_Nil [simp]: "reasons_ok []"
  by (simp add: reasons_ok_def)

lemma reasons_ok_add [simp]: "reasons_ok codes \<Longrightarrow> reasons_ok (reason_add c codes)"
  by (auto simp: reasons_ok_def reason_add_def)

lemma set_reason_add: "set (reason_add c codes) = set codes \<union> ({c} - {R_NONE})"
  by (auto simp: reason_add_def)

lemma set_reason_add_all: "set (reason_add_all new codes) = set codes \<union> (set new - {R_NONE})"
  by (induction new arbitrary: codes) (auto simp: reason_add_all_def set_reason_add)

lemma reasons_ok_add_all [simp]: "reasons_ok codes \<Longrightarrow> reasons_ok (reason_add_all new codes)"
  by (induction new arbitrary: codes) (auto simp: reason_add_all_def)

lemma mset_shift_back: "mset (shift_back key cs) = add_mset key (mset cs)"
  by (induction cs) auto

lemma set_shift_back [simp]: "set (shift_back key cs) = insert key (set cs)"
  by (induction cs) auto

lemma shift_back_sorted: "sorted_wrt (\<ge>) cs \<Longrightarrow> sorted_wrt (\<ge>) (shift_back key cs)"
  by (induction cs) (auto simp: less_eq_reason_code_def)

lemma shift_insert_sorted: "sorted prefix \<Longrightarrow> sorted (shift_insert prefix key)"
  unfolding shift_insert_def sorted_wrt_rev
  by (rule shift_back_sorted) (simp add: sorted_wrt_rev)

lemma mset_shift_insert: "mset (shift_insert prefix key) = add_mset key (mset prefix)"
  by (simp add: shift_insert_def mset_shift_back)

lemma canonicalise_reasons_acc:
  "sorted acc \<Longrightarrow> sorted (foldl shift_insert acc codes) \<and>
     mset (foldl shift_insert acc codes) = mset acc + mset codes"
  by (induction codes arbitrary: acc)
     (simp_all add: shift_insert_sorted mset_shift_insert)

lemma canonicalise_reasons_sort: "canonicalise_reasons codes = sort codes"
  unfolding canonicalise_reasons_def
  by (rule properties_for_sort [symmetric]) (use canonicalise_reasons_acc [of "[]" codes] in simp_all)

lemma set_canonicalise [simp]: "set (canonicalise_reasons codes) = set codes"
  by (simp add: canonicalise_reasons_sort)

lemma reasons_ok_canonicalise [simp]: "reasons_ok (canonicalise_reasons codes) = reasons_ok codes"
  by (simp add: reasons_ok_def canonicalise_reasons_sort)

definition join :: "string list \<Rightarrow> string \<Rightarrow> string" where
  "join parts separator =
     (case parts of [] \<Rightarrow> '''' | p # ps \<Rightarrow> foldl (\<lambda>out q. out @ separator @ q) p ps)"

definition render_reasons :: "reason_set \<Rightarrow> string" where
  "render_reasons codes =
     (if codes = [] then ''<none>'' else join (map to_string_reason_code codes) '','')"

section \<open>Mitigation intents\<close>

datatype mitigation_intent =
    MI_NO_ACTION
  | MI_REQUEST_CLOCK_REDUCTION
  | MI_REQUEST_CLOCK_RESTORE
  | MI_REQUEST_POWER_REDUCTION
  | MI_REQUEST_POWER_RESTORE
  | MI_REQUEST_ADMISSION_REDUCTION
  | MI_REQUEST_ADMISSION_RESTORE
  | MI_REQUEST_CONCURRENCY_REDUCTION
  | MI_REQUEST_CONCURRENCY_RESTORE
  | MI_REQUEST_WORKLOAD_MIGRATION
  | MI_REQUEST_CONTAINMENT
  | MI_REQUEST_COOLING_INTERVENTION

fun to_string_mitigation_intent :: "mitigation_intent \<Rightarrow> string" where
    "to_string_mitigation_intent MI_NO_ACTION = ''NO_ACTION''"
  | "to_string_mitigation_intent MI_REQUEST_CLOCK_REDUCTION = ''REQUEST_CLOCK_REDUCTION''"
  | "to_string_mitigation_intent MI_REQUEST_CLOCK_RESTORE = ''REQUEST_CLOCK_RESTORE''"
  | "to_string_mitigation_intent MI_REQUEST_POWER_REDUCTION = ''REQUEST_POWER_REDUCTION''"
  | "to_string_mitigation_intent MI_REQUEST_POWER_RESTORE = ''REQUEST_POWER_RESTORE''"
  | "to_string_mitigation_intent MI_REQUEST_ADMISSION_REDUCTION = ''REQUEST_ADMISSION_REDUCTION''"
  | "to_string_mitigation_intent MI_REQUEST_ADMISSION_RESTORE = ''REQUEST_ADMISSION_RESTORE''"
  | "to_string_mitigation_intent MI_REQUEST_CONCURRENCY_REDUCTION = ''REQUEST_CONCURRENCY_REDUCTION''"
  | "to_string_mitigation_intent MI_REQUEST_CONCURRENCY_RESTORE = ''REQUEST_CONCURRENCY_RESTORE''"
  | "to_string_mitigation_intent MI_REQUEST_WORKLOAD_MIGRATION = ''REQUEST_WORKLOAD_MIGRATION''"
  | "to_string_mitigation_intent MI_REQUEST_CONTAINMENT = ''REQUEST_CONTAINMENT''"
  | "to_string_mitigation_intent MI_REQUEST_COOLING_INTERVENTION = ''REQUEST_COOLING_INTERVENTION''"
fun mitigation_intent_value :: "mitigation_intent \<Rightarrow> nat" where
    "mitigation_intent_value MI_NO_ACTION = 0"
  | "mitigation_intent_value MI_REQUEST_CLOCK_REDUCTION = 1"
  | "mitigation_intent_value MI_REQUEST_CLOCK_RESTORE = 2"
  | "mitigation_intent_value MI_REQUEST_POWER_REDUCTION = 3"
  | "mitigation_intent_value MI_REQUEST_POWER_RESTORE = 4"
  | "mitigation_intent_value MI_REQUEST_ADMISSION_REDUCTION = 5"
  | "mitigation_intent_value MI_REQUEST_ADMISSION_RESTORE = 6"
  | "mitigation_intent_value MI_REQUEST_CONCURRENCY_REDUCTION = 7"
  | "mitigation_intent_value MI_REQUEST_CONCURRENCY_RESTORE = 8"
  | "mitigation_intent_value MI_REQUEST_WORKLOAD_MIGRATION = 9"
  | "mitigation_intent_value MI_REQUEST_CONTAINMENT = 10"
  | "mitigation_intent_value MI_REQUEST_COOLING_INTERVENTION = 11"

definition kMitigationIntentCount :: nat where
  "kMitigationIntentCount = 12"

definition intent_bit :: "mitigation_intent \<Rightarrow> u32" where
  "intent_bit i = push_bit (mitigation_intent_value i) 1"

fun is_restoring_intent :: "mitigation_intent \<Rightarrow> bool" where
  "is_restoring_intent MI_REQUEST_CLOCK_RESTORE = True"
| "is_restoring_intent MI_REQUEST_POWER_RESTORE = True"
| "is_restoring_intent MI_REQUEST_ADMISSION_RESTORE = True"
| "is_restoring_intent MI_REQUEST_CONCURRENCY_RESTORE = True"
| "is_restoring_intent _ = False"

lemma mitigation_intent_value_inj [simp]:
  "mitigation_intent_value a = mitigation_intent_value b \<longleftrightarrow> a = b"
  by (cases a; cases b) simp_all

lemma mitigation_intent_value_bound: "mitigation_intent_value i < kMitigationIntentCount"
  by (cases i) (simp_all add: kMitigationIntentCount_def)

instantiation mitigation_intent :: linorder
begin

definition less_eq_mitigation_intent :: "mitigation_intent \<Rightarrow> mitigation_intent \<Rightarrow> bool" where
  "less_eq_mitigation_intent a b \<longleftrightarrow> mitigation_intent_value a \<le> mitigation_intent_value b"

definition less_mitigation_intent :: "mitigation_intent \<Rightarrow> mitigation_intent \<Rightarrow> bool" where
  "less_mitigation_intent a b \<longleftrightarrow> mitigation_intent_value a < mitigation_intent_value b"

instance
  by standard (auto simp: less_eq_mitigation_intent_def less_mitigation_intent_def)

end

record intent_record =
  ir_intent :: mitigation_intent
  ir_domain :: ident
  ir_domain_generation :: ident
  ir_device :: ident
  ir_device_generation :: ident
  ir_restriction :: ident
  ir_restriction_generation :: ident
  ir_clock_ceiling :: "megahertz option"
  ir_concurrency_ceiling :: "percent option"
  ir_admission_ceiling :: "percent option"
  ir_rationale :: string

definition default_intent_record :: intent_record where
  "default_intent_record =
     \<lparr>ir_intent = MI_NO_ACTION, ir_domain = 0, ir_domain_generation = 0, ir_device = 0,
      ir_device_generation = 0, ir_restriction = 0, ir_restriction_generation = 0,
      ir_clock_ceiling = None, ir_concurrency_ceiling = None, ir_admission_ceiling = None,
      ir_rationale = ''''\<rparr>"

type_synonym intent_set = "intent_record list"

definition simple_intent :: "mitigation_intent \<Rightarrow> ident \<Rightarrow> string \<Rightarrow> intent_record" where
  "simple_intent i domain rationale =
     default_intent_record \<lparr>ir_intent := i, ir_domain := domain, ir_rationale := rationale\<rparr>"

definition intent_add :: "intent_record \<Rightarrow> intent_set \<Rightarrow> intent_set" where
  "intent_add r records = records @ [r]"

definition intent_contains :: "intent_set \<Rightarrow> mitigation_intent \<Rightarrow> bool" where
  "intent_contains records i \<longleftrightarrow> list_ex (\<lambda>r. ir_intent r = i) records"

text \<open>Equality of two optional doubles: IEEE equality of the values.\<close>

fun opt_feq :: "f64 option \<Rightarrow> f64 option \<Rightarrow> bool" where
  "opt_feq None None = True"
| "opt_feq (Some a) (Some b) = feq a b"
| "opt_feq _ _ = False"

definition intent_key :: "intent_record \<Rightarrow> mitigation_intent \<times> ident \<times> string" where
  "intent_key r = (ir_intent r, ir_domain r, ir_rationale r)"

definition intent_same :: "intent_record \<Rightarrow> intent_record \<Rightarrow> bool" where
  "intent_same a b \<longleftrightarrow>
     ir_intent a = ir_intent b \<and> ir_domain a = ir_domain b \<and>
     ir_domain_generation a = ir_domain_generation b \<and> ir_rationale a = ir_rationale b \<and>
     ir_clock_ceiling a = ir_clock_ceiling b \<and>
     opt_feq (ir_concurrency_ceiling a) (ir_concurrency_ceiling b) \<and>
     opt_feq (ir_admission_ceiling a) (ir_admission_ceiling b)"

text \<open>
  \<^verbatim>\<open>std::sort\<close> leaves records with equal keys in an unspecified order; the model takes the
  stable one.
\<close>

definition canonicalise_intents :: "intent_set \<Rightarrow> intent_set" where
  "canonicalise_intents records = unique_by intent_same (sort_key intent_key records)"

lemma canonicalise_intents_subset: "set (canonicalise_intents records) \<subseteq> set records"
  unfolding canonicalise_intents_def using set_unique_by by (metis set_sort)

lemma canonicalise_intents_Nil [simp]: "canonicalise_intents records = [] \<longleftrightarrow> records = []"
  unfolding canonicalise_intents_def unique_by_Nil_iff by (metis set_empty set_sort)

lemma sorted_unique_by:
  "sorted (map f xs) \<Longrightarrow> sorted (map f (unique_by eq xs))"
proof (induction eq xs rule: unique_by.induct)
  case (3 eq x y ys)
  then show ?case using set_unique_by [of eq "y # ys"] by (fastforce dest: subsetD)
qed simp_all

lemma canonicalise_intents_sorted: "sorted (map intent_key (canonicalise_intents records))"
  unfolding canonicalise_intents_def by (rule sorted_unique_by) simp

lemma unique_by_exists:
  assumes same: "\<And>a b. eq a b \<Longrightarrow> P a = P b"
  shows "(\<exists>x \<in> set (unique_by eq xs). P x) \<longleftrightarrow> (\<exists>x \<in> set xs. P x)"
  using same
proof (induction eq xs rule: unique_by.induct)
  case (3 eq x y ys)
  show ?case
  proof (cases "eq x y")
    case True
    then have "P x = P y" by (rule 3(3))
    with 3(1) [OF True 3(3)] True show ?thesis by auto
  next
    case False
    with 3(2) [OF False 3(3)] show ?thesis by auto
  qed
qed auto

lemma intent_contains_canonicalise [simp]:
  "intent_contains (canonicalise_intents records) i = intent_contains records i"
proof -
  have "(\<exists>r \<in> set (unique_by intent_same (sort_key intent_key records)). ir_intent r = i) \<longleftrightarrow>
      (\<exists>r \<in> set (sort_key intent_key records). ir_intent r = i)"
    by (rule unique_by_exists) (auto simp: intent_same_def)
  then show ?thesis by (simp add: intent_contains_def list_ex_iff canonicalise_intents_def)
qed

lemma intent_contains_add [simp]:
  "intent_contains (intent_add r records) i \<longleftrightarrow> intent_contains records i \<or> ir_intent r = i"
  by (auto simp: intent_contains_def intent_add_def)

end
