(* ===== verification/Format.thy ===== *)
theory Format
  imports Float64
begin

text \<open>
  \<^verbatim>\<open>format.cpp\<close>: the deterministic decimal rendering used by identity keys, by the evidence
  digest that decides duplicates, and by the explanations. \<open>printf\<close> rounds the exact binary
  value to the requested decimals, ties to even; \<^verbatim>\<open>std::round\<close> rounds halves away from zero.
\<close>

section \<open>Decimal integers\<close>

definition digit_char :: "int \<Rightarrow> char" where
  "digit_char d = ''0123456789'' ! nat d"

fun decimal :: "int \<Rightarrow> string" where
  "decimal n = (if n < 10 then [digit_char n] else decimal (n div 10) @ [digit_char (n mod 10)])"

declare decimal.simps [simp del]

definition unsigned_decimal :: "u64 \<Rightarrow> string" where
  "unsigned_decimal v = decimal (uint v)"

definition millis_text :: "int \<Rightarrow> string" where
  "millis_text v = (if v < 0 then ''-'' @ decimal (- v) else decimal v)"

section \<open>Doubles\<close>

definition fabs :: "f64 \<Rightarrow> f64" where
  "fabs x = (if sign_bit x then fneg x else x)"

text \<open>\<^verbatim>\<open>std::round\<close>\<close>

definition fround :: "f64 \<Rightarrow> f64" where
  "fround x = (case x of
     Fin r \<Rightarrow> (let m = \<lfloor>\<bar>r\<bar> + 1 / 2\<rfloor>
       in if m = 0 then signed_zero (r < 0)
          else Fin (if r < 0 then - of_int m else of_int m))
   | _ \<Rightarrow> x)"

definition strip_back :: "(char \<Rightarrow> bool) \<Rightarrow> string \<Rightarrow> string" where
  "strip_back p s = rev (dropWhile p (rev s))"

definition pad3 :: "int \<Rightarrow> string" where
  "pad3 n = [digit_char (n div 100), digit_char (n div 10 mod 10), digit_char (n mod 10)]"

text \<open>
  The branch of \<^verbatim>\<open>fixed(value, 3)\<close> for finite values. \<^verbatim>\<open>snprintf\<close> writes at most 63 characters
  into the 64-byte buffer, so a value of more than 59 integral digits loses its point or its last
  digits.
\<close>

definition kFixedBuffer :: nat where
  "kFixedBuffer = 64"

definition fixed3 :: "f64 \<Rightarrow> string" where
  "fixed3 x =
     (let q = rhe (\<bar>fnum x\<bar> * 1000);
          printed = take (kFixedBuffer - 1)
            ((if sign_bit x then ''-'' else '''') @ decimal (q div 1000) @ ''.'' @ pad3 (q mod 1000));
          trimmed = strip_back (\<lambda>c. c = CHR ''0'') printed;
          pointless = (if trimmed \<noteq> [] \<and> last trimmed = CHR ''.'' then butlast trimmed else trimmed);
          shown = (if CHR ''.'' \<in> set printed then pointless else printed)
      in if shown = ''-0'' then ''0'' else shown)"

definition number :: "f64 \<Rightarrow> string" where
  "number x =
     (if \<not> is_finite x then (if is_nan x then ''nan'' else if flt (Fin 0) x then ''inf'' else ''-inf'')
      else let rounded = fround x
           in if flt (fabs (fsub x rounded)) (rne (1 / 1000000000)) \<and>
                 flt (fabs rounded) (Fin 1000000000000000)
              then (if sign_bit rounded then ''-'' else '''') @ decimal \<lfloor>\<bar>fnum rounded\<bar>\<rfloor>
              else fixed3 x)"

definition signed_number :: "f64 \<Rightarrow> string" where
  "signed_number x =
     (let magnitude = number x
      in if magnitude \<noteq> [] \<and> hd magnitude \<noteq> CHR ''-'' then ''+'' @ magnitude else magnitude)"

section \<open>Decimal rendering is faithful\<close>

definition digit_value :: "char \<Rightarrow> int" where
  "digit_value c = int (of_char c) - 48"

definition parse_decimal :: "string \<Rightarrow> int" where
  "parse_decimal s = foldl (\<lambda>acc c. 10 * acc + digit_value c) 0 s"

lemma digit_values: "0 \<le> d \<Longrightarrow> d < 10 \<Longrightarrow> digit_value (digit_char d) = d"
proof -
  assume "0 \<le> d" "d < 10"
  then have "d = 0 \<or> d = 1 \<or> d = 2 \<or> d = 3 \<or> d = 4 \<or> d = 5 \<or> d = 6 \<or> d = 7 \<or> d = 8 \<or> d = 9"
    by arith
  then show ?thesis by (elim disjE) (simp_all add: digit_char_def digit_value_def)
qed

lemma digit_chars: "0 \<le> d \<Longrightarrow> d < 10 \<Longrightarrow> digit_char d \<in> set ''0123456789''"
  unfolding digit_char_def by (rule nth_mem) simp

lemma parse_decimal_decimal: "0 \<le> n \<Longrightarrow> parse_decimal (decimal n) = n"
proof (induction n rule: decimal.induct)
  case (1 n)
  show ?case
  proof (cases "n < 10")
    case True
    with 1 show ?thesis by (subst decimal.simps) (simp add: parse_decimal_def digit_values)
  next
    case False
    then have "parse_decimal (decimal (n div 10)) = n div 10" using 1 by simp
    with False show ?thesis
      by (subst decimal.simps) (simp add: parse_decimal_def digit_values)
  qed
qed

lemma decimal_inj: "0 \<le> m \<Longrightarrow> 0 \<le> n \<Longrightarrow> decimal m = decimal n \<longleftrightarrow> m = n"
  by (metis parse_decimal_decimal)

lemma unsigned_decimal_inj [simp]: "unsigned_decimal v = unsigned_decimal w \<longleftrightarrow> v = w"
  by (simp add: unsigned_decimal_def decimal_inj word_uint_eq_iff)

lemma decimal_digits: "0 \<le> n \<Longrightarrow> set (decimal n) \<subseteq> set ''0123456789''"
proof (induction n rule: decimal.induct)
  case (1 n)
  show ?case
  proof (cases "n < 10")
    case True
    with 1 show ?thesis by (subst decimal.simps) (auto dest: digit_chars)
  next
    case False
    with 1 have "set (decimal (n div 10)) \<subseteq> set ''0123456789''" by simp
    with False show ?thesis
      by (subst decimal.simps) (use digit_chars [of "n mod 10"] in auto)
  qed
qed

lemma unsigned_decimal_no_colon: "CHR '':'' \<notin> set (unsigned_decimal v)"
  using decimal_digits [of "uint v"] by (auto simp: unsigned_decimal_def)

text \<open>A separator that occurs in neither prefix splits a rendered pair in one way only.\<close>

lemma append_sep_inj:
  assumes "c \<notin> set xs" "c \<notin> set xs'" "xs @ c # ys = xs' @ c # ys'"
  shows "xs = xs' \<and> ys = ys'"
  using assms
proof (induction xs arbitrary: xs')
  case Nil
  then show ?case by (cases xs') auto
next
  case (Cons x xs)
  then show ?case by (cases xs') auto
qed

text \<open>Integral temperatures render as their integer.\<close>

lemma number_of_int:
  assumes "\<bar>k\<bar> < 10 ^ 15"
  shows "number (Fin (of_int k)) = (if k < 0 then ''-'' else '''') @ decimal \<bar>k\<bar>"
proof -
  have fl: "\<lfloor>(of_int \<bar>k\<bar> :: rat) + 1 / 2\<rfloor> = \<bar>k\<bar>" by linarith
  have "fround (Fin (of_int k)) = Fin (of_int k)"
    using fl by (auto simp: fround_def Let_def signed_zero_def)
  moreover have "flt (Fin 0) (rne (1 / 1000000000))"
    by code_simp
  moreover have "flt (fabs (Fin (of_int k))) (Fin 1000000000000000)"
  proof -
    have "(of_int \<bar>k\<bar> :: rat) < of_int (10 ^ 15)" using assms by (simp only: of_int_less_iff)
    then show ?thesis by (auto simp: fabs_def sign_bit_def fneg_def)
  qed
  ultimately show ?thesis
    by (simp add: number_def fabs_def sign_bit_def flip: of_int_abs)
qed

text \<open>A rendered number always fits the buffer.\<close>

lemma decimal_length: "n < 10 ^ k \<Longrightarrow> 0 < k \<Longrightarrow> length (decimal n) \<le> k"
proof (induction k arbitrary: n)
  case (Suc k)
  show ?case
  proof (cases "n < 10")
    case True
    then show ?thesis by (subst decimal.simps) simp
  next
    case False
    have "n div 10 < 10 ^ k" using Suc.prems(1) by simp
    moreover have "0 < k" using False Suc.prems by (cases k) auto
    ultimately show ?thesis using Suc.IH False by (subst decimal.simps) simp
  qed
qed simp

lemma strip_back_length: "length (strip_back p s) \<le> length s"
  by (simp add: strip_back_def) (metis length_dropWhile_le length_rev)

lemma fixed3_length: "length (fixed3 x) \<le> 63"
proof -
  define printed where "printed = take (kFixedBuffer - 1) ((if sign_bit x then ''-'' else '''') @
    decimal (rhe (\<bar>fnum x\<bar> * 1000) div 1000) @ ''.'' @ pad3 (rhe (\<bar>fnum x\<bar> * 1000) mod 1000))"
  have "length printed \<le> 63" by (simp add: printed_def kFixedBuffer_def del: take_append)
  moreover have "length (strip_back (\<lambda>c. c = CHR ''0'') printed) \<le> length printed"
    by (rule strip_back_length)
  ultimately show ?thesis
    unfolding fixed3_def Let_def printed_def [symmetric] by auto
qed

lemma number_length: "length (number x) \<le> 63"
proof -
  have "length (decimal \<lfloor>\<bar>fnum y\<bar>\<rfloor>) \<le> 15" if "flt (fabs y) (Fin 1000000000000000)" for y
  proof (rule decimal_length)
    have "\<bar>fnum y\<bar> < 1000000000000000"
      using that by (cases y) (auto simp: fabs_def fneg_def fnum_def sign_bit_def split: if_splits)
    then show "\<lfloor>\<bar>fnum y\<bar>\<rfloor> < 10 ^ 15" by (simp add: floor_less_iff)
  qed simp
  from this [of "fround x"] show ?thesis
    using fixed3_length [of x] by (auto simp: number_def Let_def)
qed

text \<open>An integral value of 64 digits or more is rendered by its first 63 digits.\<close>

lemma decimal_length_ge: "10 ^ k \<le> n \<Longrightarrow> Suc k \<le> length (decimal n)"
proof (induction k arbitrary: n)
  case 0
  then show ?case by (subst decimal.simps) simp
next
  case (Suc k)
  then have "10 ^ k * 10 div 10 \<le> n div 10" by (intro zdiv_mono1) simp_all
  then have "10 ^ k \<le> n div 10" by simp
  moreover have "10 \<le> n" by (rule order_trans [OF _ Suc.prems]) simp
  ultimately show ?case using Suc.IH [of "n div 10"] by (subst decimal.simps) simp
qed

lemma number_truncates:
  assumes "10 ^ 63 \<le> k"
  shows "number (Fin (of_int k)) = take 63 (decimal k)"
proof -
  have k: "0 < k" using assms by (rule order_less_le_trans [rotated]) simp
  have len: "64 \<le> length (decimal k)" using decimal_length_ge [OF assms] by simp
  have "\<not> flt (fabs (fround (Fin (of_int k)))) (Fin 1000000000000000)"
  proof -
    have "(of_int (10 ^ 63) :: rat) \<le> of_int k" using assms by (simp only: of_int_le_iff)
    moreover have "\<lfloor>\<bar>of_int k :: rat\<bar> + 1 / 2\<rfloor> = k" using k by (simp add: floor_eq_iff)
    ultimately show ?thesis
      using k by (simp add: fround_def Let_def signed_zero_def fabs_def sign_bit_def)
  qed
  then have "number (Fin (of_int k)) = fixed3 (Fin (of_int k))" by (simp add: number_def Let_def)
  moreover have "rhe (\<bar>of_int k :: rat\<bar> * 1000) = k * 1000"
    using k rhe_of_int [of "k * 1000"] by simp
  then have printed: "take (kFixedBuffer - 1) ((if sign_bit (Fin (of_int k)) then ''-'' else '''') @
      decimal (rhe (\<bar>fnum (Fin (of_int k))\<bar> * 1000) div 1000) @ ''.'' @
      pad3 (rhe (\<bar>fnum (Fin (of_int k))\<bar> * 1000) mod 1000)) = take 63 (decimal k)"
    using k len by (simp add: kFixedBuffer_def sign_bit_def fnum_def)
  moreover have "CHR ''.'' \<notin> set (take 63 (decimal k))"
    using decimal_digits [of k] k by (auto dest: in_set_takeD)
  moreover have "length (take 63 (decimal k)) = 63" using len by simp
  then have "take 63 (decimal k) \<noteq> ''-0''" by (rule contrapos_pn) (erule ssubst, simp)
  ultimately show ?thesis by (simp only: fixed3_def Let_def printed if_False)
qed

end
