(* ===== verification/Policy.thy ===== *)
theory Policy
  imports Decision Format
begin

text \<open>
  \<^verbatim>\<open>policy.hpp\<close>, \<^verbatim>\<open>policy.cpp\<close> and the workload vocabulary of \<^verbatim>\<open>workload.hpp\<close>: the
  versioned thermal policy, its defaults, its validation, the look-ups the evaluation uses, and
  the canonical rendering.
\<close>

section \<open>Workload vocabulary\<close>

datatype workload_profile =
    WP_UNKNOWN_PROFILE
  | WP_LOW_THERMAL_INTENSITY
  | WP_MODERATE_THERMAL_INTENSITY
  | WP_HIGH_THERMAL_INTENSITY
  | WP_BURSTY_THERMAL_PROFILE
  | WP_CUSTOM

fun to_string_workload_profile :: "workload_profile \<Rightarrow> string" where
    "to_string_workload_profile WP_UNKNOWN_PROFILE = ''UNKNOWN_PROFILE''"
  | "to_string_workload_profile WP_LOW_THERMAL_INTENSITY = ''LOW_THERMAL_INTENSITY''"
  | "to_string_workload_profile WP_MODERATE_THERMAL_INTENSITY = ''MODERATE_THERMAL_INTENSITY''"
  | "to_string_workload_profile WP_HIGH_THERMAL_INTENSITY = ''HIGH_THERMAL_INTENSITY''"
  | "to_string_workload_profile WP_BURSTY_THERMAL_PROFILE = ''BURSTY_THERMAL_PROFILE''"
  | "to_string_workload_profile WP_CUSTOM = ''CUSTOM''"

datatype execution_class =
    XC_UNRESTRICTED
  | XC_REDUCED_CONCURRENCY
  | XC_REDUCED_CLOCK
  | XC_BEST_EFFORT_THERMAL

fun to_string_execution_class :: "execution_class \<Rightarrow> string" where
    "to_string_execution_class XC_UNRESTRICTED = ''UNRESTRICTED''"
  | "to_string_execution_class XC_REDUCED_CONCURRENCY = ''REDUCED_CONCURRENCY''"
  | "to_string_execution_class XC_REDUCED_CLOCK = ''REDUCED_CLOCK''"
  | "to_string_execution_class XC_BEST_EFFORT_THERMAL = ''BEST_EFFORT_THERMAL''"

record workload_spec =
  ws_workload :: ident
  ws_profile :: workload_profile
  ws_custom_intensity :: "f64 option"

section \<open>The policy record\<close>

datatype unknown_behavior =
    UB_RETURN_UNKNOWN
  | UB_REVALIDATION_REQUIRED
  | UB_DEFER
  | UB_DENY
  | UB_ALLOW_DERATED

fun to_string_unknown_behavior :: "unknown_behavior \<Rightarrow> string" where
    "to_string_unknown_behavior UB_RETURN_UNKNOWN = ''RETURN_UNKNOWN''"
  | "to_string_unknown_behavior UB_REVALIDATION_REQUIRED = ''REVALIDATION_REQUIRED''"
  | "to_string_unknown_behavior UB_DEFER = ''DEFER''"
  | "to_string_unknown_behavior UB_DENY = ''DENY''"
  | "to_string_unknown_behavior UB_ALLOW_DERATED = ''ALLOW_DERATED''"

datatype unsupported_behavior =
    US_RETURN_UNSUPPORTED
  | US_REVALIDATION_REQUIRED
  | US_DEFER
  | US_DENY

fun to_string_unsupported_behavior :: "unsupported_behavior \<Rightarrow> string" where
    "to_string_unsupported_behavior US_RETURN_UNSUPPORTED = ''RETURN_UNSUPPORTED''"
  | "to_string_unsupported_behavior US_REVALIDATION_REQUIRED = ''REVALIDATION_REQUIRED''"
  | "to_string_unsupported_behavior US_DEFER = ''DEFER''"
  | "to_string_unsupported_behavior US_DENY = ''DENY''"

record thresholds =
  th_warning :: celsius
  th_derating :: celsius
  th_critical :: celsius
  th_recovery :: celsius
  th_near_limit_band :: delta

definition near_limit_start :: "thresholds \<Rightarrow> celsius" where
  "near_limit_start t = fsub (th_derating t) (th_near_limit_band t)"

definition hysteresis_width :: "thresholds \<Rightarrow> delta" where
  "hysteresis_width t = fsub (th_derating t) (th_recovery t)"

record margins =
  mg_policy_safety :: delta
  mg_uncertainty :: delta
  mg_recovery :: delta

record freshness_requirements =
  fr_max_age :: millis
  fr_required_consecutive_samples :: u32
  fr_min_evidence_span :: millis
  fr_min_distinct_witnesses :: u32

record coupling_policy =
  cp_co_derate_coupled_domains :: bool
  cp_max_propagation_depth :: u32
  cp_require_coupled_recovery :: bool
  cp_escalate_to_hottest_neighbour :: bool

record workload_restriction =
  wr_profile :: workload_profile
  wr_allowed :: bool
  wr_required_class :: execution_class
  wr_extra_headroom_demand :: delta

record admission_policy =
  ap_min_effective_headroom :: delta
  ap_allow_derated_admission :: bool
  ap_allow_defer :: bool

record concurrency_policy =
  cc_normal :: percent
  cc_warm :: percent
  cc_near_limit :: percent
  cc_derated :: percent
  cc_critical :: percent

fun concurrency_ceiling :: "concurrency_policy \<Rightarrow> thermal_state \<Rightarrow> percent" where
  "concurrency_ceiling p TS_NORMAL = cc_normal p"
| "concurrency_ceiling p TS_WARM = cc_warm p"
| "concurrency_ceiling p TS_NEAR_LIMIT = cc_near_limit p"
| "concurrency_ceiling p TS_DERATED = cc_derated p"
| "concurrency_ceiling p TS_THROTTLING = cc_derated p"
| "concurrency_ceiling p TS_CRITICAL = cc_critical p"
| "concurrency_ceiling p TS_REVALIDATION_REQUIRED = cc_critical p"
| "concurrency_ceiling p TS_UNKNOWN = cc_critical p"
| "concurrency_ceiling p TS_UNSUPPORTED = cc_critical p"

record emergency_policy =
  em_deny_all_execution :: bool
  em_allow_containment_intent :: bool
  em_allow_migration_intent :: bool
  em_allow_cooling_intervention_intent :: bool

record verification_policy =
  vp_required :: bool
  vp_improvement_epsilon :: delta
  vp_required_samples :: u32

record recovery_policy =
  rp_require_no_thermal_throttle :: bool
  rp_require_headroom_above_recovery_margin :: bool
  rp_require_coupled_domains_recovered :: bool
  rp_require_same_worker_boot :: bool
  rp_require_same_coordinator_epoch :: bool
  rp_require_same_device_generation :: bool
  rp_require_explicit_authorization :: bool
  rp_forbid_recovery_after_unsupported_evidence :: bool

record thermal_policy =
  pol_id :: ident
  pol_generation :: ident
  pol_label :: string
  pol_thresholds :: thresholds
  pol_margins :: margins
  pol_freshness :: freshness_requirements
  pol_recovery :: recovery_policy
  pol_verification :: verification_policy
  pol_admission :: admission_policy
  pol_concurrency :: concurrency_policy
  pol_emergency :: emergency_policy
  pol_coupling :: coupling_policy
  pol_unknown_behavior :: unknown_behavior
  pol_unsupported_behavior :: unsupported_behavior
  pol_allowed_intents :: u32
  pol_workload_restrictions :: "workload_restriction list"

definition kAllIntentsMask :: u32 where
  "kAllIntentsMask = push_bit kMitigationIntentCount 1 - 1"

text \<open>The member initialisers of \<^verbatim>\<open>ThermalPolicy\<close>, as \<^verbatim>\<open>make_default\<close> completes them.\<close>

definition default_thresholds :: thresholds where
  "default_thresholds =
     \<lparr>th_warning = Fin 75, th_derating = Fin 80, th_critical = Fin 88, th_recovery = Fin 72,
      th_near_limit_band = Fin 3\<rparr>"

definition default_restrictions :: "workload_restriction list" where
  "default_restrictions =
     [\<lparr>wr_profile = WP_LOW_THERMAL_INTENSITY, wr_allowed = True,
       wr_required_class = XC_UNRESTRICTED, wr_extra_headroom_demand = Fin 0\<rparr>,
      \<lparr>wr_profile = WP_MODERATE_THERMAL_INTENSITY, wr_allowed = True,
       wr_required_class = XC_UNRESTRICTED, wr_extra_headroom_demand = Fin 0\<rparr>,
      \<lparr>wr_profile = WP_HIGH_THERMAL_INTENSITY, wr_allowed = True,
       wr_required_class = XC_REDUCED_CLOCK, wr_extra_headroom_demand = Fin 1\<rparr>,
      \<lparr>wr_profile = WP_BURSTY_THERMAL_PROFILE, wr_allowed = True,
       wr_required_class = XC_REDUCED_CONCURRENCY, wr_extra_headroom_demand = Fin 1\<rparr>,
      \<lparr>wr_profile = WP_UNKNOWN_PROFILE, wr_allowed = True,
       wr_required_class = XC_REDUCED_CONCURRENCY, wr_extra_headroom_demand = Fin 2\<rparr>,
      \<lparr>wr_profile = WP_CUSTOM, wr_allowed = True,
       wr_required_class = XC_UNRESTRICTED, wr_extra_headroom_demand = Fin 0\<rparr>]"

definition make_default :: thermal_policy where
  "make_default =
     \<lparr>pol_id = 1, pol_generation = 1, pol_label = ''default'',
      pol_thresholds = default_thresholds,
      pol_margins = \<lparr>mg_policy_safety = Fin 2, mg_uncertainty = Fin 1, mg_recovery = Fin 1\<rparr>,
      pol_freshness = \<lparr>fr_max_age = 1000, fr_required_consecutive_samples = 3,
        fr_min_evidence_span = 2000, fr_min_distinct_witnesses = 0\<rparr>,
      pol_recovery = \<lparr>rp_require_no_thermal_throttle = True,
        rp_require_headroom_above_recovery_margin = True,
        rp_require_coupled_domains_recovered = True,
        rp_require_same_worker_boot = True, rp_require_same_coordinator_epoch = True,
        rp_require_same_device_generation = True, rp_require_explicit_authorization = False,
        rp_forbid_recovery_after_unsupported_evidence = True\<rparr>,
      pol_verification = \<lparr>vp_required = True, vp_improvement_epsilon = Fin (1 / 2),
        vp_required_samples = 1\<rparr>,
      pol_admission = \<lparr>ap_min_effective_headroom = Fin 2, ap_allow_derated_admission = True,
        ap_allow_defer = True\<rparr>,
      pol_concurrency = \<lparr>cc_normal = Fin 100, cc_warm = Fin 100, cc_near_limit = Fin 75,
        cc_derated = Fin 50, cc_critical = Fin 0\<rparr>,
      pol_emergency = \<lparr>em_deny_all_execution = True, em_allow_containment_intent = True,
        em_allow_migration_intent = False, em_allow_cooling_intervention_intent = False\<rparr>,
      pol_coupling = \<lparr>cp_co_derate_coupled_domains = True, cp_max_propagation_depth = 2,
        cp_require_coupled_recovery = True, cp_escalate_to_hottest_neighbour = False\<rparr>,
      pol_unknown_behavior = UB_RETURN_UNKNOWN,
      pol_unsupported_behavior = US_RETURN_UNSUPPORTED,
      pol_allowed_intents = kAllIntentsMask AND NOT (intent_bit MI_NO_ACTION),
      pol_workload_restrictions = default_restrictions\<rparr>"

section \<open>Validation\<close>

fun check_restrictions :: "workload_profile list \<Rightarrow> workload_restriction list \<Rightarrow> status" where
  "check_restrictions seen [] = success"
| "check_restrictions seen (r # rs) =
     (if wr_profile r \<in> set seen then Inl E_POLICY_INVALID
      else if flt (wr_extra_headroom_demand r) (Fin 0) then Inl E_POLICY_INVALID
      else check_restrictions (seen @ [wr_profile r]) rs)"

definition percent_within :: "percent \<Rightarrow> bool" where
  "percent_within p \<longleftrightarrow> fle (Fin 0) p \<and> fle p (Fin 100)"

definition validate_policy :: "thermal_policy \<Rightarrow> status" where
  "validate_policy policy =
     (let t = pol_thresholds policy; m = pol_margins policy; f = pol_freshness policy;
          c = pol_concurrency policy
      in
      if \<not> celsius_is_valid (th_warning t) \<or> \<not> celsius_is_valid (th_derating t) \<or>
         \<not> celsius_is_valid (th_critical t) \<or> \<not> celsius_is_valid (th_recovery t)
      then Inl E_POLICY_INVALID
      else if \<not> flt (th_warning t) (th_derating t) then Inl E_POLICY_INVALID
      else if \<not> flt (th_derating t) (th_critical t) then Inl E_POLICY_INVALID
      else if \<not> flt (th_recovery t) (th_derating t) then Inl E_POLICY_INVALID
      else if \<not> flt (Fin 0) (th_near_limit_band t) then Inl E_POLICY_INVALID
      else if \<not> fle (th_warning t) (near_limit_start t) then Inl E_POLICY_INVALID
      else if flt (mg_policy_safety m) (Fin 0) then Inl E_POLICY_INVALID
      else if flt (mg_uncertainty m) (Fin 0) then Inl E_POLICY_INVALID
      else if flt (mg_recovery m) (Fin 0) then Inl E_POLICY_INVALID
      else if fr_required_consecutive_samples f = 0 then Inl E_POLICY_INVALID
      else if fr_max_age f < 0 then Inl E_POLICY_INVALID
      else if fr_min_evidence_span f < 0 then Inl E_POLICY_INVALID
      else if fr_required_consecutive_samples f < fr_min_distinct_witnesses f
      then Inl E_POLICY_INVALID
      else if flt (vp_improvement_epsilon (pol_verification policy)) (Fin 0)
      then Inl E_POLICY_INVALID
      else if flt (ap_min_effective_headroom (pol_admission policy)) (Fin 0)
      then Inl E_POLICY_INVALID
      else if \<not> percent_within (cc_normal c) \<or> \<not> percent_within (cc_warm c) \<or>
         \<not> percent_within (cc_near_limit c) \<or> \<not> percent_within (cc_derated c) \<or>
         \<not> percent_within (cc_critical c)
      then Inl E_POLICY_INVALID
      else if \<not> (fle (cc_warm c) (cc_normal c) \<and> fle (cc_near_limit c) (cc_warm c) \<and>
                 fle (cc_derated c) (cc_near_limit c) \<and> fle (cc_critical c) (cc_derated c))
      then Inl E_POLICY_INVALID
      else if 8 < cp_max_propagation_depth (pol_coupling policy)
      then Inl E_POLICY_LIMIT_EXCEEDED
      else if pol_allowed_intents policy AND NOT kAllIntentsMask \<noteq> 0 then Inl E_POLICY_INVALID
      else if 64 < length (pol_workload_restrictions policy) then Inl E_POLICY_LIMIT_EXCEEDED
      else check_restrictions [] (pol_workload_restrictions policy))"

section \<open>Look-ups\<close>

definition policy_allows :: "thermal_policy \<Rightarrow> mitigation_intent \<Rightarrow> bool" where
  "policy_allows p i \<longleftrightarrow> pol_allowed_intents p AND intent_bit i \<noteq> 0"

definition find_restriction ::
  "workload_restriction list \<Rightarrow> workload_profile \<Rightarrow> workload_restriction option" where
  "find_restriction rs profile = find (\<lambda>r. wr_profile r = profile) rs"

definition workload_headroom_demand :: "thermal_policy \<Rightarrow> workload_profile \<Rightarrow> delta" where
  "workload_headroom_demand policy profile =
     (case find_restriction (pol_workload_restrictions policy) profile of
        Some r \<Rightarrow> wr_extra_headroom_demand r
      | None \<Rightarrow> Fin 0)"

text \<open>\<open>None\<close> is the source's \<open>false\<close>, which leaves the output argument untouched.\<close>

definition workload_execution_class ::
  "thermal_policy \<Rightarrow> workload_profile \<Rightarrow> execution_class option" where
  "workload_execution_class policy profile =
     (case find_restriction (pol_workload_restrictions policy) profile of
        Some r \<Rightarrow> if \<not> wr_allowed r then None else Some (wr_required_class r)
      | None \<Rightarrow> None)"

section \<open>Rendering\<close>

definition nl :: string where
  "nl = [CHR 0x0A]"

definition bool_text :: "bool \<Rightarrow> string" where
  "bool_text b = (if b then ''true'' else ''false'')"

definition all_intents :: "mitigation_intent list" where
  "all_intents =
     [MI_NO_ACTION, MI_REQUEST_CLOCK_REDUCTION, MI_REQUEST_CLOCK_RESTORE,
      MI_REQUEST_POWER_REDUCTION, MI_REQUEST_POWER_RESTORE, MI_REQUEST_ADMISSION_REDUCTION,
      MI_REQUEST_ADMISSION_RESTORE, MI_REQUEST_CONCURRENCY_REDUCTION,
      MI_REQUEST_CONCURRENCY_RESTORE, MI_REQUEST_WORKLOAD_MIGRATION, MI_REQUEST_CONTAINMENT,
      MI_REQUEST_COOLING_INTERVENTION]"

definition rendered_intents :: "thermal_policy \<Rightarrow> mitigation_intent list" where
  "rendered_intents policy = filter (\<lambda>i. i \<noteq> MI_NO_ACTION \<and> policy_allows policy i) all_intents"

definition render_restriction :: "workload_restriction \<Rightarrow> string" where
  "render_restriction r =
     ''  '' @ to_string_workload_profile (wr_profile r) @ '' allowed='' @ bool_text (wr_allowed r) @
     '' class='' @ to_string_execution_class (wr_required_class r) @ '' extraHeadroom='' @
     number (wr_extra_headroom_demand r) @ nl"

definition render_policy :: "thermal_policy \<Rightarrow> string" where
  "render_policy policy =
     (let t = pol_thresholds policy; m = pol_margins policy; f = pol_freshness policy;
          c = pol_coupling policy
      in
      ''Policy: '' @ (if pol_label policy = [] then ''<unlabelled>'' else pol_label policy) @ nl @
      ''ThermalPolicyId: '' @ unsigned_decimal (pol_id policy) @ nl @
      ''ThermalPolicyGeneration: '' @ unsigned_decimal (pol_generation policy) @ nl @
      ''Warning: '' @ number (th_warning t) @ nl @
      ''NearLimitStart: '' @ number (near_limit_start t) @ nl @
      ''Derating: '' @ number (th_derating t) @ nl @
      ''Critical: '' @ number (th_critical t) @ nl @
      ''Recovery: '' @ number (th_recovery t) @ nl @
      ''HysteresisWidth: '' @ number (hysteresis_width t) @ nl @
      ''SafetyMargin: '' @ number (mg_policy_safety m) @ nl @
      ''UncertaintyMargin: '' @ number (mg_uncertainty m) @ nl @
      ''RecoveryMargin: '' @ number (mg_recovery m) @ nl @
      ''MaxEvidenceAgeMs: '' @ millis_text (fr_max_age f) @ nl @
      ''RequiredRecoverySamples: '' @
        unsigned_decimal (ucast (fr_required_consecutive_samples f)) @ nl @
      ''MinEvidenceSpanMs: '' @ millis_text (fr_min_evidence_span f) @ nl @
      ''UnknownBehavior: '' @ to_string_unknown_behavior (pol_unknown_behavior policy) @ nl @
      ''UnsupportedBehavior: '' @
        to_string_unsupported_behavior (pol_unsupported_behavior policy) @ nl @
      ''CoDerateCoupledDomains: '' @ bool_text (cp_co_derate_coupled_domains c) @ nl @
      ''MaxPropagationDepth: '' @ unsigned_decimal (ucast (cp_max_propagation_depth c)) @ nl @
      ''RequireCoupledRecovery: '' @ bool_text (cp_require_coupled_recovery c) @ nl @
      ''AllowedIntents:'' @
        (if rendered_intents policy = [] then '' <none>''
         else concat (map (\<lambda>i. '' '' @ to_string_mitigation_intent i) (rendered_intents policy))) @ nl @
      ''WorkloadRestrictions:'' @
        (if pol_workload_restrictions policy = [] then '' <none>'' else []) @ nl @
        concat (map render_restriction (pol_workload_restrictions policy)))"

section \<open>What validation guarantees\<close>

text \<open>
  The threshold ladder of a validated policy: all four thresholds are finite, and
  recovery and warning lie strictly below derating, which lies strictly below critical.
\<close>

definition thresholds_ok :: "thresholds \<Rightarrow> bool" where
  "thresholds_ok t \<longleftrightarrow>
     celsius_is_valid (th_warning t) \<and> celsius_is_valid (th_derating t) \<and>
     celsius_is_valid (th_critical t) \<and> celsius_is_valid (th_recovery t) \<and>
     flt (th_warning t) (th_derating t) \<and> flt (th_derating t) (th_critical t) \<and>
     flt (th_recovery t) (th_derating t) \<and> flt (Fin 0) (th_near_limit_band t) \<and>
     fle (th_warning t) (near_limit_start t)"

definition concurrency_ok :: "concurrency_policy \<Rightarrow> bool" where
  "concurrency_ok c \<longleftrightarrow>
     percent_within (cc_normal c) \<and> percent_within (cc_warm c) \<and> percent_within (cc_near_limit c) \<and>
     percent_within (cc_derated c) \<and> percent_within (cc_critical c) \<and>
     fle (cc_warm c) (cc_normal c) \<and> fle (cc_near_limit c) (cc_warm c) \<and>
     fle (cc_derated c) (cc_near_limit c) \<and> fle (cc_critical c) (cc_derated c)"

definition restrictions_ok :: "workload_restriction list \<Rightarrow> bool" where
  "restrictions_ok rs \<longleftrightarrow>
     distinct (map wr_profile rs) \<and> (\<forall>r \<in> set rs. \<not> flt (wr_extra_headroom_demand r) (Fin 0))"

lemma check_restrictions_iff:
  "check_restrictions seen rs = success \<longleftrightarrow>
     restrictions_ok rs \<and> set seen \<inter> wr_profile ` set rs = {}"
  by (induction seen rs rule: check_restrictions.induct) (auto simp: restrictions_ok_def)

lemma validate_policy_success_iff:
  "validate_policy p = success \<longleftrightarrow>
     thresholds_ok (pol_thresholds p) \<and>
     \<not> flt (mg_policy_safety (pol_margins p)) (Fin 0) \<and>
     \<not> flt (mg_uncertainty (pol_margins p)) (Fin 0) \<and>
     \<not> flt (mg_recovery (pol_margins p)) (Fin 0) \<and>
     fr_required_consecutive_samples (pol_freshness p) \<noteq> 0 \<and>
     0 \<le> fr_max_age (pol_freshness p) \<and> 0 \<le> fr_min_evidence_span (pol_freshness p) \<and>
     fr_min_distinct_witnesses (pol_freshness p) \<le> fr_required_consecutive_samples (pol_freshness p) \<and>
     \<not> flt (vp_improvement_epsilon (pol_verification p)) (Fin 0) \<and>
     \<not> flt (ap_min_effective_headroom (pol_admission p)) (Fin 0) \<and>
     concurrency_ok (pol_concurrency p) \<and>
     cp_max_propagation_depth (pol_coupling p) \<le> 8 \<and>
     pol_allowed_intents p AND NOT kAllIntentsMask = 0 \<and>
     length (pol_workload_restrictions p) \<le> 64 \<and>
     restrictions_ok (pol_workload_restrictions p)"
  unfolding validate_policy_def Let_def guard_ok check_restrictions_iff thresholds_ok_def
    concurrency_ok_def not_less de_Morgan_disj not_not
  by simp

lemma concurrency_ok_antimono:
  assumes ok: "concurrency_ok c" and le: "severity a \<le> severity b"
  shows "fle (concurrency_ceiling c b) (concurrency_ceiling c a)"
proof -
  have nn: "\<not> is_nan (cc_normal c)" "\<not> is_nan (cc_warm c)" "\<not> is_nan (cc_near_limit c)"
      "\<not> is_nan (cc_derated c)" "\<not> is_nan (cc_critical c)"
    using ok by (auto simp: concurrency_ok_def percent_within_def fle_def flt_def is_nan_def split: f64.splits)
  have steps: "fle (cc_warm c) (cc_normal c)" "fle (cc_near_limit c) (cc_warm c)"
      "fle (cc_derated c) (cc_near_limit c)" "fle (cc_critical c) (cc_derated c)"
    using ok by (simp_all add: concurrency_ok_def)
  then have far: "fle (cc_near_limit c) (cc_normal c)" "fle (cc_derated c) (cc_warm c)"
      "fle (cc_critical c) (cc_near_limit c)"
    by (blast intro: fle_trans)+
  then have farther: "fle (cc_derated c) (cc_normal c)" "fle (cc_critical c) (cc_warm c)"
    using steps by (blast intro: fle_trans)+
  then have farthest: "fle (cc_critical c) (cc_normal c)"
    using steps by (blast intro: fle_trans)
  show ?thesis
    using le nn steps far farther farthest by (cases a; cases b) simp_all
qed

lemma thresholds_ok_near_limit:
  assumes ok: "thresholds_ok t" and d: "is_double (th_derating t)" "is_double (th_near_limit_band t)"
  shows "fle (near_limit_start t) (th_derating t)"
proof -
  have "fle (Fin 0) (th_near_limit_band t)" "is_finite (th_derating t)"
    using ok by (auto simp: thresholds_ok_def intro: flt_imp_fle)
  then show ?thesis using d unfolding near_limit_start_def by (metis fsub_le_self)
qed

lemma make_default_valid: "validate_policy make_default = success"
  by code_simp

end
