(* ===== verification/Evidence.thy ===== *)
theory Evidence
  imports Format Decision
begin

text \<open>
  \<^verbatim>\<open>evidence.hpp\<close> and \<^verbatim>\<open>evidence.cpp\<close>: typed subjects and their identity keys, the evidence
  record with its authority metadata, structural validation, and the comparison that decides
  between duplicates, conflicts and new observations.
\<close>

section \<open>Subjects\<close>

datatype subject_kind =
    SK_DEVICE
  | SK_NODE
  | SK_RACK
  | SK_COOLING_ZONE
  | SK_CHASSIS
  | SK_THERMAL_DOMAIN

fun to_string_subject_kind :: "subject_kind \<Rightarrow> string" where
    "to_string_subject_kind SK_DEVICE = ''DEVICE''"
  | "to_string_subject_kind SK_NODE = ''NODE''"
  | "to_string_subject_kind SK_RACK = ''RACK''"
  | "to_string_subject_kind SK_COOLING_ZONE = ''COOLING_ZONE''"
  | "to_string_subject_kind SK_CHASSIS = ''CHASSIS''"
  | "to_string_subject_kind SK_THERMAL_DOMAIN = ''THERMAL_DOMAIN''"

record subject_ref =
  sr_kind :: subject_kind
  sr_device :: ident
  sr_device_generation :: ident
  sr_node :: ident
  sr_node_generation :: ident
  sr_rack :: ident
  sr_rack_generation :: ident
  sr_cooling_zone :: ident
  sr_chassis :: ident
  sr_domain :: ident
  sr_domain_generation :: ident

definition empty_subject :: subject_ref where
  "empty_subject =
     \<lparr>sr_kind = SK_DEVICE, sr_device = 0, sr_device_generation = 0, sr_node = 0,
      sr_node_generation = 0, sr_rack = 0, sr_rack_generation = 0, sr_cooling_zone = 0,
      sr_chassis = 0, sr_domain = 0, sr_domain_generation = 0\<rparr>"

definition for_device :: "ident \<Rightarrow> ident \<Rightarrow> subject_ref" where
  "for_device i g = empty_subject \<lparr>sr_kind := SK_DEVICE, sr_device := i, sr_device_generation := g\<rparr>"

definition for_node :: "ident \<Rightarrow> ident \<Rightarrow> subject_ref" where
  "for_node i g = empty_subject \<lparr>sr_kind := SK_NODE, sr_node := i, sr_node_generation := g\<rparr>"

definition for_rack :: "ident \<Rightarrow> ident \<Rightarrow> subject_ref" where
  "for_rack i g = empty_subject \<lparr>sr_kind := SK_RACK, sr_rack := i, sr_rack_generation := g\<rparr>"

definition for_cooling_zone :: "ident \<Rightarrow> subject_ref" where
  "for_cooling_zone i = empty_subject \<lparr>sr_kind := SK_COOLING_ZONE, sr_cooling_zone := i\<rparr>"

definition for_chassis :: "ident \<Rightarrow> subject_ref" where
  "for_chassis i = empty_subject \<lparr>sr_kind := SK_CHASSIS, sr_chassis := i\<rparr>"

definition for_domain :: "ident \<Rightarrow> ident \<Rightarrow> subject_ref" where
  "for_domain i g =
     empty_subject \<lparr>sr_kind := SK_THERMAL_DOMAIN, sr_domain := i, sr_domain_generation := g\<rparr>"

definition subject_key :: "subject_ref \<Rightarrow> string" where
  "subject_key s =
     to_string_subject_kind (sr_kind s) @ '':'' @
     (case sr_kind s of
        SK_DEVICE \<Rightarrow>
          unsigned_decimal (sr_device s) @ '':'' @ unsigned_decimal (sr_device_generation s)
      | SK_NODE \<Rightarrow> unsigned_decimal (sr_node s) @ '':'' @ unsigned_decimal (sr_node_generation s)
      | SK_RACK \<Rightarrow> unsigned_decimal (sr_rack s) @ '':'' @ unsigned_decimal (sr_rack_generation s)
      | SK_COOLING_ZONE \<Rightarrow> unsigned_decimal (sr_cooling_zone s)
      | SK_CHASSIS \<Rightarrow> unsigned_decimal (sr_chassis s)
      | SK_THERMAL_DOMAIN \<Rightarrow>
          unsigned_decimal (sr_domain s) @ '':'' @ unsigned_decimal (sr_domain_generation s))"

section \<open>The evidence record\<close>

record cooling_evidence =
  co_zone :: ident
  co_air_inlet :: "celsius option"
  co_air_outlet :: "celsius option"
  co_liquid_inlet :: "celsius option"
  co_liquid_outlet :: "celsius option"
  co_coolant_flow :: "f64 option"
  co_provenance :: provenance

definition cooling_has_any :: "cooling_evidence \<Rightarrow> bool" where
  "cooling_has_any c \<longleftrightarrow>
     co_air_inlet c \<noteq> None \<or> co_air_outlet c \<noteq> None \<or> co_liquid_inlet c \<noteq> None \<or>
     co_liquid_outlet c \<noteq> None \<or> co_coolant_flow c \<noteq> None"

record fan_evidence =
  fan_count :: u32
  fan_speed_percent :: "f64 option"
  fan_speed_rpm :: "u32 option"
  fan_provenance :: provenance

definition fan_has_any :: "fan_evidence \<Rightarrow> bool" where
  "fan_has_any f \<longleftrightarrow> fan_speed_percent f \<noteq> None \<or> fan_speed_rpm f \<noteq> None"

datatype freshness_state =
    FS_UNKNOWN
  | FS_FRESH
  | FS_STALE
  | FS_GENERATION_INVALIDATED

fun to_string_freshness_state :: "freshness_state \<Rightarrow> string" where
    "to_string_freshness_state FS_UNKNOWN = ''UNKNOWN''"
  | "to_string_freshness_state FS_FRESH = ''FRESH''"
  | "to_string_freshness_state FS_STALE = ''STALE''"
  | "to_string_freshness_state FS_GENERATION_INVALIDATED = ''GENERATION_INVALIDATED''"

record evidence =
  ev_evidence_id :: ident
  ev_subject :: subject_ref
  ev_domain :: ident
  ev_domain_generation :: ident
  ev_temperature :: celsius
  ev_source :: measurement_source
  ev_provenance :: provenance
  ev_measurement_sequence :: u64
  ev_telemetry_generation :: ident
  ev_worker :: ident
  ev_worker_boot :: ident
  ev_coordinator_epoch :: ident
  ev_measured_at :: time_ns
  ev_measured_wall_at :: time_ns
  ev_capability_generation :: ident
  ev_topology_generation :: ident
  ev_integrity :: integrity_status
  ev_throttle :: "throttle_observation option"
  ev_temperature_limit :: "celsius option"
  ev_shutdown_limit :: "celsius option"
  ev_current_clock :: "megahertz option"
  ev_max_clock :: "megahertz option"
  ev_cooling :: "cooling_evidence option"
  ev_fan :: "fan_evidence option"
  ev_confidence :: "f64 option"
  ev_freshness :: freshness_state

definition empty_evidence :: evidence where
  "empty_evidence =
     \<lparr>ev_evidence_id = 0, ev_subject = empty_subject, ev_domain = 0, ev_domain_generation = 0,
      ev_temperature = Fin 0, ev_source = MS_UNKNOWN, ev_provenance = P_UNKNOWN,
      ev_measurement_sequence = 0, ev_telemetry_generation = 0, ev_worker = 0,
      ev_worker_boot = 0, ev_coordinator_epoch = 0, ev_measured_at = 0, ev_measured_wall_at = 0,
      ev_capability_generation = 0, ev_topology_generation = 0, ev_integrity = IS_OK,
      ev_throttle = None, ev_temperature_limit = None, ev_shutdown_limit = None,
      ev_current_clock = None, ev_max_clock = None, ev_cooling = None, ev_fan = None,
      ev_confidence = None, ev_freshness = FS_UNKNOWN\<rparr>"

datatype evidence_comparison =
    EC_INDEPENDENT
  | EC_IDENTICAL_DUPLICATE
  | EC_CONFLICTING_DUPLICATE
  | EC_SUPERSEDED

fun to_string_evidence_comparison :: "evidence_comparison \<Rightarrow> string" where
    "to_string_evidence_comparison EC_INDEPENDENT = ''INDEPENDENT''"
  | "to_string_evidence_comparison EC_IDENTICAL_DUPLICATE = ''IDENTICAL_DUPLICATE''"
  | "to_string_evidence_comparison EC_CONFLICTING_DUPLICATE = ''CONFLICTING_DUPLICATE''"
  | "to_string_evidence_comparison EC_SUPERSEDED = ''SUPERSEDED''"

section \<open>Structural validation\<close>

fun provenance_matches_source :: "measurement_source \<Rightarrow> provenance \<Rightarrow> bool" where
  "provenance_matches_source MS_NVML_GPU_TEMPERATURE p \<longleftrightarrow> p = P_REAL"
| "provenance_matches_source MS_NVML_TEMPERATURE_THRESHOLD p \<longleftrightarrow> p = P_REAL"
| "provenance_matches_source MS_CUDA_DEVICE_ATTRIBUTE p \<longleftrightarrow> p = P_REAL"
| "provenance_matches_source MS_SYNTHETIC_MODEL p \<longleftrightarrow> p = P_SYNTHETIC"
| "provenance_matches_source MS_PLATFORM_SENSOR p \<longleftrightarrow>
     p = P_REAL \<or> p = P_SYNTHETIC \<or> p = P_UNSUPPORTED"
| "provenance_matches_source MS_NODE_SENSOR p \<longleftrightarrow>
     p = P_REAL \<or> p = P_SYNTHETIC \<or> p = P_UNSUPPORTED"
| "provenance_matches_source MS_RACK_SENSOR p \<longleftrightarrow>
     p = P_REAL \<or> p = P_SYNTHETIC \<or> p = P_UNSUPPORTED"
| "provenance_matches_source MS_COOLING_ZONE_SENSOR p \<longleftrightarrow>
     p = P_REAL \<or> p = P_SYNTHETIC \<or> p = P_UNSUPPORTED"
| "provenance_matches_source MS_OPERATOR_INJECTED p \<longleftrightarrow> p = P_SYNTHETIC \<or> p = P_REAL"
| "provenance_matches_source MS_UNKNOWN p \<longleftrightarrow> True"

definition subject_identity_present :: "subject_ref \<Rightarrow> bool" where
  "subject_identity_present s =
     (case sr_kind s of
        SK_DEVICE \<Rightarrow> id_valid (sr_device s) \<and> id_valid (sr_device_generation s)
      | SK_NODE \<Rightarrow> id_valid (sr_node s) \<and> id_valid (sr_node_generation s)
      | SK_RACK \<Rightarrow> id_valid (sr_rack s) \<and> id_valid (sr_rack_generation s)
      | SK_COOLING_ZONE \<Rightarrow> id_valid (sr_cooling_zone s)
      | SK_CHASSIS \<Rightarrow> id_valid (sr_chassis s)
      | SK_THERMAL_DOMAIN \<Rightarrow> id_valid (sr_domain s) \<and> id_valid (sr_domain_generation s))"

definition confidence_ok :: "f64 option \<Rightarrow> bool" where
  "confidence_ok c = (case c of None \<Rightarrow> True | Some v \<Rightarrow> fle (Fin 0) v \<and> fle v (Fin 1))"

definition limit_ok :: "celsius option \<Rightarrow> bool" where
  "limit_ok l = (case l of None \<Rightarrow> True | Some v \<Rightarrow> celsius_is_valid v)"

definition validate_evidence_structure :: "evidence \<Rightarrow> status" where
  "validate_evidence_structure e =
     (if \<not> celsius_is_valid (ev_temperature e) then Inl E_TEMPERATURE_INVALID
      else if \<not> subject_identity_present (ev_subject e) then Inl E_INVALID_ARGUMENT
      else if \<not> id_valid (ev_telemetry_generation e) then Inl E_INVALID_ARGUMENT
      else if \<not> id_valid (ev_coordinator_epoch e) then Inl E_INVALID_ARGUMENT
      else if id_valid (ev_worker e) \<noteq> id_valid (ev_worker_boot e) then Inl E_INVALID_ARGUMENT
      else if \<not> confidence_ok (ev_confidence e) then Inl E_INVALID_ARGUMENT
      else if \<not> limit_ok (ev_temperature_limit e) then Inl E_TEMPERATURE_INVALID
      else if \<not> limit_ok (ev_shutdown_limit e) then Inl E_TEMPERATURE_INVALID
      else if \<not> provenance_matches_source (ev_source e) (ev_provenance e)
      then Inl E_INVALID_ARGUMENT
      else if (case ev_cooling e of None \<Rightarrow> False | Some c \<Rightarrow> co_provenance c = P_REAL) \<and>
              ev_source e = MS_SYNTHETIC_MODEL
      then Inl E_INVALID_ARGUMENT
      else if ev_integrity e = IS_FAILED then Inl E_EVIDENCE_STALE
      else success)"

section \<open>Digest and comparison\<close>

definition opt_text :: "('a \<Rightarrow> string) \<Rightarrow> 'a option \<Rightarrow> string" where
  "opt_text f v = (case v of None \<Rightarrow> [] | Some x \<Rightarrow> f x)"

definition optional_digest :: "evidence \<Rightarrow> string" where
  "optional_digest e =
     opt_text (\<lambda>t. ''|T:'' @ unsigned_decimal (thr_raw t) @ '':'' @ to_string_throttle_class (thr_class t))
       (ev_throttle e) @
     opt_text (\<lambda>l. ''|L:'' @ number l) (ev_temperature_limit e) @
     opt_text (\<lambda>l. ''|S:'' @ number l) (ev_shutdown_limit e) @
     opt_text (\<lambda>c. ''|C:'' @ unsigned_decimal (ucast c)) (ev_current_clock e) @
     opt_text (\<lambda>c. ''|M:'' @ unsigned_decimal (ucast c)) (ev_max_clock e) @
     opt_text (\<lambda>f. if fan_has_any f
         then ''|F:'' @ opt_text number (fan_speed_percent f) @ '':'' @
           opt_text (\<lambda>r. unsigned_decimal (ucast r)) (fan_speed_rpm f)
         else []) (ev_fan e) @
     opt_text (\<lambda>c. if cooling_has_any c
         then ''|K:'' @ opt_text number (co_air_inlet c) @ '':'' @
           opt_text number (co_liquid_inlet c) @ '':'' @ opt_text number (co_coolant_flow c)
         else []) (ev_cooling e) @
     opt_text (\<lambda>p. ''|P:'' @ number p) (ev_confidence e)"

definition canonical_evidence_digest :: "evidence \<Rightarrow> string" where
  "canonical_evidence_digest e =
     unsigned_decimal (ev_evidence_id e) @ ''|'' @
     subject_key (ev_subject e) @ ''|'' @
     unsigned_decimal (ev_domain e) @ ''|'' @
     unsigned_decimal (ev_domain_generation e) @ ''|'' @
     number (ev_temperature e) @ ''|'' @
     to_string_measurement_source (ev_source e) @ ''|'' @
     to_string_provenance (ev_provenance e) @ ''|'' @
     unsigned_decimal (ev_measurement_sequence e) @ ''|'' @
     unsigned_decimal (ev_telemetry_generation e) @ ''|'' @
     unsigned_decimal (ev_worker e) @ ''|'' @
     unsigned_decimal (ev_worker_boot e) @ ''|'' @
     unsigned_decimal (ev_coordinator_epoch e) @ ''|'' @
     unsigned_decimal (ev_capability_generation e) @ ''|'' @
     unsigned_decimal (ev_topology_generation e) @ ''|'' @
     to_string_integrity_status (ev_integrity e) @
     optional_digest e"

definition compare_evidence :: "evidence \<Rightarrow> evidence \<Rightarrow> evidence_comparison" where
  "compare_evidence held incoming =
     (if ev_measurement_sequence incoming < ev_measurement_sequence held then EC_SUPERSEDED
      else
        let incoming_digest = canonical_evidence_digest incoming in
        if ev_evidence_id incoming = ev_evidence_id held
        then (if incoming_digest = canonical_evidence_digest held
              then EC_IDENTICAL_DUPLICATE else EC_CONFLICTING_DUPLICATE)
        else if ev_measurement_sequence incoming = ev_measurement_sequence held
        then (if incoming_digest = canonical_evidence_digest held
              then EC_IDENTICAL_DUPLICATE else EC_CONFLICTING_DUPLICATE)
        else EC_INDEPENDENT)"

section \<open>Keys and digests identify\<close>

lemma kind_no_colon: "CHR '':'' \<notin> set (to_string_subject_kind k)"
  by (cases k) simp_all

lemma to_string_subject_kind_inj [simp]:
  "to_string_subject_kind a = to_string_subject_kind b \<longleftrightarrow> a = b"
  by (cases a; cases b) simp_all

lemma to_string_measurement_source_inj [simp]:
  "to_string_measurement_source a = to_string_measurement_source b \<longleftrightarrow> a = b"
  by (cases a; cases b) simp_all

lemma to_string_provenance_inj [simp]:
  "to_string_provenance a = to_string_provenance b \<longleftrightarrow> a = b"
  by (cases a; cases b) simp_all

lemma to_string_integrity_status_inj [simp]:
  "to_string_integrity_status a = to_string_integrity_status b \<longleftrightarrow> a = b"
  by (cases a; cases b) simp_all

text \<open>The identity that the key of a subject carries: the fields its kind selects.\<close>

definition subject_identity :: "subject_ref \<Rightarrow> subject_kind \<times> ident \<times> ident" where
  "subject_identity s =
     (case sr_kind s of
        SK_DEVICE \<Rightarrow> (SK_DEVICE, sr_device s, sr_device_generation s)
      | SK_NODE \<Rightarrow> (SK_NODE, sr_node s, sr_node_generation s)
      | SK_RACK \<Rightarrow> (SK_RACK, sr_rack s, sr_rack_generation s)
      | SK_COOLING_ZONE \<Rightarrow> (SK_COOLING_ZONE, sr_cooling_zone s, 0)
      | SK_CHASSIS \<Rightarrow> (SK_CHASSIS, sr_chassis s, 0)
      | SK_THERMAL_DOMAIN \<Rightarrow> (SK_THERMAL_DOMAIN, sr_domain s, sr_domain_generation s))"

lemma decimal_pair_inj:
  "unsigned_decimal a @ '':'' @ unsigned_decimal b = unsigned_decimal c @ '':'' @ unsigned_decimal d \<longleftrightarrow>
     a = c \<and> b = d"
proof
  assume "unsigned_decimal a @ '':'' @ unsigned_decimal b = unsigned_decimal c @ '':'' @ unsigned_decimal d"
  then have "unsigned_decimal a @ CHR '':'' # unsigned_decimal b =
      unsigned_decimal c @ CHR '':'' # unsigned_decimal d" by simp
  from append_sep_inj [OF unsigned_decimal_no_colon unsigned_decimal_no_colon this]
  show "a = c \<and> b = d" by simp
qed simp

lemma subject_key_iff: "subject_key a = subject_key b \<longleftrightarrow> subject_identity a = subject_identity b"
proof
  assume eq: "subject_key a = subject_key b"
  have split: "sr_kind a = sr_kind b"
    using append_sep_inj [OF kind_no_colon kind_no_colon, of "sr_kind a" _ "sr_kind b"] eq
    unfolding subject_key_def by fastforce
  show "subject_identity a = subject_identity b"
    using eq split decimal_pair_inj
    by (cases "sr_kind b") (simp_all add: subject_key_def subject_identity_def)
next
  assume eq: "subject_identity a = subject_identity b"
  then have "sr_kind a = sr_kind b"
    by (auto simp: subject_identity_def split: subject_kind.splits)
  with eq show "subject_key a = subject_key b"
    by (cases "sr_kind b") (simp_all add: subject_key_def subject_identity_def)
qed

text \<open>No field of the digest contains the separator.\<close>

lemma decimal_chars: "0 \<le> n \<Longrightarrow> c \<in> set (decimal n) \<Longrightarrow> c \<in> set ''0123456789''"
  using decimal_digits by blast

lemma unsigned_decimal_no_bar [simp]: "CHR ''|'' \<notin> set (unsigned_decimal v)"
  using decimal_chars [of "uint v"] by (auto simp: unsigned_decimal_def)

lemma subject_key_no_bar [simp]: "CHR ''|'' \<notin> set (subject_key s)"
  by (cases "sr_kind s") (simp_all add: subject_key_def)

lemma digit_char_no_bar: "0 \<le> d \<Longrightarrow> d < 10 \<Longrightarrow> digit_char d \<noteq> CHR ''|''"
  using digit_chars [of d] by auto

lemma strip_back_subset: "set (strip_back p s) \<subseteq> set s"
  unfolding strip_back_def by (auto dest: set_dropWhileD)

lemma butlast_no_bar: "c \<notin> set s \<Longrightarrow> c \<notin> set (butlast s)"
  by (auto dest: in_set_butlastD)

lemma decimal_no_bar: "0 \<le> n \<Longrightarrow> CHR ''|'' \<notin> set (decimal n)"
  using decimal_chars [of n] by auto

lemma fixed3_no_bar: "CHR ''|'' \<notin> set (fixed3 x)"
proof -
  define q where "q = rhe (\<bar>fnum x\<bar> * 1000)"
  define body where "body = (if sign_bit x then ''-'' else '''') @ decimal (q div 1000) @ ''.'' @ pad3 (q mod 1000)"
  have q: "0 \<le> q" unfolding q_def by (rule rhe_nonneg) simp
  then have "CHR ''|'' \<notin> set (decimal (q div 1000))" by (intro decimal_no_bar) simp
  moreover have "CHR ''|'' \<notin> set (pad3 (q mod 1000))"
  proof -
    have b: "0 \<le> q mod 1000" "q mod 1000 < 1000" by simp_all
    then have "0 \<le> q mod 1000 div 100" "q mod 1000 div 100 < 10" by linarith+
    then have "digit_char (q mod 1000 div 100) \<noteq> CHR ''|''"
      "digit_char (q mod 1000 div 10 mod 10) \<noteq> CHR ''|''"
      "digit_char (q mod 1000 mod 10) \<noteq> CHR ''|''"
      by (simp_all add: digit_char_no_bar)
    then show ?thesis unfolding pad3_def by (metis empty_iff list.set(1) set_ConsD)
  qed
  ultimately have "CHR ''|'' \<notin> set body" by (simp add: body_def)
  then have printed: "CHR ''|'' \<notin> set (take (kFixedBuffer - 1) body)" by (auto dest: in_set_takeD)
  then have "CHR ''|'' \<notin> set (strip_back (\<lambda>c. c = CHR ''0'') (take (kFixedBuffer - 1) body))"
    using strip_back_subset by blast
  then show ?thesis
    unfolding fixed3_def Let_def q_def [symmetric] body_def [symmetric]
    using printed butlast_no_bar
      [of "CHR ''|''" "strip_back (\<lambda>c. c = CHR ''0'') (take (kFixedBuffer - 1) body)"] by auto
qed

lemma number_no_bar [simp]: "CHR ''|'' \<notin> set (number x)"
proof -
  have "CHR ''|'' \<notin> set (decimal \<lfloor>\<bar>fnum y\<bar>\<rfloor>)" for y by (rule decimal_no_bar) simp
  then show ?thesis using fixed3_no_bar by (simp add: number_def Let_def)
qed

lemma enum_no_bar [simp]:
  "CHR ''|'' \<notin> set (to_string_measurement_source a)"
  "CHR ''|'' \<notin> set (to_string_provenance b)"
  "CHR ''|'' \<notin> set (to_string_integrity_status c)"
  by (cases a; simp; fail | cases b; simp; fail | cases c; simp; fail)+

lemma fields_inj:
  assumes "length fs = length gs" "\<forall>f \<in> set fs \<union> set gs. c \<notin> set f"
    and "concat (map (\<lambda>f. f @ [c]) fs) @ r = concat (map (\<lambda>f. f @ [c]) gs) @ r'"
  shows "fs = gs \<and> r = r'"
  using assms
proof (induction fs gs rule: list_induct2)
  case (Cons f fs g gs)
  have "f @ c # (concat (map (\<lambda>f. f @ [c]) fs) @ r) = g @ c # (concat (map (\<lambda>f. f @ [c]) gs) @ r')"
    using Cons.prems(2) by simp
  from append_sep_inj [OF _ _ this] Cons show ?case by simp
qed simp

text \<open>The fields in front of the integrity status, in digest order.\<close>

definition digest_fields :: "evidence \<Rightarrow> string list" where
  "digest_fields e =
     [unsigned_decimal (ev_evidence_id e), subject_key (ev_subject e),
      unsigned_decimal (ev_domain e), unsigned_decimal (ev_domain_generation e),
      number (ev_temperature e), to_string_measurement_source (ev_source e),
      to_string_provenance (ev_provenance e), unsigned_decimal (ev_measurement_sequence e),
      unsigned_decimal (ev_telemetry_generation e), unsigned_decimal (ev_worker e),
      unsigned_decimal (ev_worker_boot e), unsigned_decimal (ev_coordinator_epoch e),
      unsigned_decimal (ev_capability_generation e), unsigned_decimal (ev_topology_generation e)]"

lemma digest_eqD:
  assumes "canonical_evidence_digest a = canonical_evidence_digest b"
  shows "digest_fields a = digest_fields b"
proof -
  let ?rest = "\<lambda>e. to_string_integrity_status (ev_integrity e) @ optional_digest e"
  have split: "canonical_evidence_digest e =
      concat (map (\<lambda>f. f @ ''|'') (digest_fields e)) @ ?rest e" for e
    unfolding canonical_evidence_digest_def digest_fields_def
    by (simp only: list.map concat.simps append_assoc append.left_neutral)
  have len: "length (digest_fields a) = length (digest_fields b)"
    by (simp add: digest_fields_def)
  have bars: "\<forall>f \<in> set (digest_fields a) \<union> set (digest_fields b). CHR ''|'' \<notin> set f"
    by (simp add: digest_fields_def)
  have eq: "concat (map (\<lambda>f. f @ ''|'') (digest_fields a)) @ ?rest a =
      concat (map (\<lambda>f. f @ ''|'') (digest_fields b)) @ ?rest b"
    using assms by (simp only: split)
  show ?thesis by (rule fields_inj [OF len bars eq, THEN conjunct1])
qed

lemma digest_id_eq:
  "canonical_evidence_digest a = canonical_evidence_digest b \<Longrightarrow> ev_evidence_id a = ev_evidence_id b"
  by (drule digest_eqD) (simp add: digest_fields_def)

lemma compare_evidence_self [simp]: "compare_evidence e e = EC_IDENTICAL_DUPLICATE"
  by (simp add: compare_evidence_def Let_def)

lemma compare_independent_iff:
  "compare_evidence held incoming = EC_INDEPENDENT \<longleftrightarrow>
     ev_measurement_sequence held < ev_measurement_sequence incoming \<and>
     ev_evidence_id incoming \<noteq> ev_evidence_id held"
  by (auto simp: compare_evidence_def Let_def)

lemma validate_evidence_iff:
  "validate_evidence_structure e = success \<longleftrightarrow>
     celsius_is_valid (ev_temperature e) \<and> subject_identity_present (ev_subject e) \<and>
     id_valid (ev_telemetry_generation e) \<and> id_valid (ev_coordinator_epoch e) \<and>
     id_valid (ev_worker e) = id_valid (ev_worker_boot e) \<and>
     confidence_ok (ev_confidence e) \<and> limit_ok (ev_temperature_limit e) \<and>
     limit_ok (ev_shutdown_limit e) \<and>
     provenance_matches_source (ev_source e) (ev_provenance e) \<and>
     \<not> ((case ev_cooling e of None \<Rightarrow> False | Some c \<Rightarrow> co_provenance c = P_REAL) \<and>
        ev_source e = MS_SYNTHETIC_MODEL) \<and>
     ev_integrity e \<noteq> IS_FAILED"
  unfolding validate_evidence_structure_def guard_ok by simp

end
