(* ===== verification/Coupling.thy ===== *)
theory Coupling
  imports Evidence
begin

text \<open>
  \<^verbatim>\<open>coupling.hpp\<close> and \<^verbatim>\<open>coupling.cpp\<close>: the coupling graph and its two bounded breadth-first
  traversals. Both traversals are the same loop with the ends of an edge exchanged; the loop is
  shown to end and to compute exactly the nodes at their shortest distance.
\<close>

section \<open>Edges\<close>

datatype coupling_type =
    CT_UNKNOWN_COUPLING
  | CT_SHARES_CHASSIS
  | CT_SHARES_AIRFLOW_PATH
  | CT_SHARES_COOLING_ZONE
  | CT_SHARES_HEATSINK
  | CT_THERMALLY_COUPLED
  | CT_SYNTHETIC_COUPLING

fun to_string_coupling_type :: "coupling_type \<Rightarrow> string" where
    "to_string_coupling_type CT_UNKNOWN_COUPLING = ''UNKNOWN_COUPLING''"
  | "to_string_coupling_type CT_SHARES_CHASSIS = ''SHARES_CHASSIS''"
  | "to_string_coupling_type CT_SHARES_AIRFLOW_PATH = ''SHARES_AIRFLOW_PATH''"
  | "to_string_coupling_type CT_SHARES_COOLING_ZONE = ''SHARES_COOLING_ZONE''"
  | "to_string_coupling_type CT_SHARES_HEATSINK = ''SHARES_HEATSINK''"
  | "to_string_coupling_type CT_THERMALLY_COUPLED = ''THERMALLY_COUPLED''"
  | "to_string_coupling_type CT_SYNTHETIC_COUPLING = ''SYNTHETIC_COUPLING''"

datatype propagation_class =
    PC_NO_PROPAGATION
  | PC_LOCAL
  | PC_DOMAIN_WIDE
  | PC_COUPLED_DOMAIN
  | PC_UNKNOWN

fun to_string_propagation_class :: "propagation_class \<Rightarrow> string" where
    "to_string_propagation_class PC_NO_PROPAGATION = ''NONE''"
  | "to_string_propagation_class PC_LOCAL = ''LOCAL''"
  | "to_string_propagation_class PC_DOMAIN_WIDE = ''DOMAIN''"
  | "to_string_propagation_class PC_COUPLED_DOMAIN = ''COUPLED_DOMAIN''"
  | "to_string_propagation_class PC_UNKNOWN = ''UNKNOWN''"

record coupling_relation =
  cr_id :: ident
  cr_source :: ident
  cr_destination :: ident
  cr_type :: coupling_type
  cr_generation :: ident
  cr_provenance :: provenance
  cr_evidence_source :: string
  cr_weight :: f64
  cr_directed :: bool
  cr_valid_until :: "time_ns option"

type_synonym coupling_graph = "coupling_relation list"

definition edge_key :: "coupling_relation \<Rightarrow> ident \<times> ident \<times> ident" where
  "edge_key e = (cr_source e, cr_destination e, cr_id e)"

fun replace_edge :: "coupling_relation \<Rightarrow> coupling_graph \<Rightarrow> coupling_graph" where
  "replace_edge r [] = [r]"
| "replace_edge r (e # es) = (if cr_id e = cr_id r then r # es else e # replace_edge r es)"

definition coupling_add :: "coupling_relation \<Rightarrow> coupling_graph \<Rightarrow> coupling_graph" where
  "coupling_add r edges = sort_key edge_key (replace_edge r edges)"

text \<open>The boolean of \<^verbatim>\<open>remove\<close> is whether the edge was there.\<close>

fun erase_first :: "ident \<Rightarrow> coupling_graph \<Rightarrow> coupling_graph" where
  "erase_first i [] = []"
| "erase_first i (e # es) = (if cr_id e = i then es else e # erase_first i es)"

definition coupling_remove :: "ident \<Rightarrow> coupling_graph \<Rightarrow> bool \<times> coupling_graph" where
  "coupling_remove i edges =
     (if list_ex (\<lambda>e. cr_id e = i) edges then (True, erase_first i edges) else (False, edges))"

definition coupling_ok :: "coupling_graph \<Rightarrow> bool" where
  "coupling_ok edges \<longleftrightarrow> distinct (map cr_id edges) \<and> sorted (map edge_key edges)"

lemma replace_edge_ids:
  "cr_id ` set (replace_edge r es) = insert (cr_id r) (cr_id ` set es)"
  by (induction es) auto

lemma replace_edge_distinct:
  "distinct (map cr_id es) \<Longrightarrow> distinct (map cr_id (replace_edge r es))"
proof (induction es)
  case (Cons e es)
  then show ?case using replace_edge_ids [of r es] by (auto simp: image_iff)
qed simp

lemma coupling_add_ok: "coupling_ok edges \<Longrightarrow> coupling_ok (coupling_add r edges)"
proof -
  assume ok: "coupling_ok edges"
  have "mset (map cr_id (coupling_add r edges)) = mset (map cr_id (replace_edge r edges))"
    by (simp add: coupling_add_def)
  then have "distinct (map cr_id (coupling_add r edges)) = distinct (map cr_id (replace_edge r edges))"
    by (metis mset_eq_imp_distinct_iff)
  then show ?thesis
    using ok replace_edge_distinct by (simp add: coupling_ok_def coupling_add_def)
qed

lemma erase_first_set: "set (erase_first i es) \<subseteq> set es"
  by (induction es) auto

lemma erase_first_ok: "coupling_ok es \<Longrightarrow> coupling_ok (erase_first i es)"
proof (induction es)
  case (Cons e es)
  then have "coupling_ok es" by (simp add: coupling_ok_def)
  with Cons show ?case
    using erase_first_set [of i es] by (auto simp: coupling_ok_def)
qed (simp add: coupling_ok_def)

lemma coupling_remove_ok: "coupling_ok edges \<Longrightarrow> coupling_ok (snd (coupling_remove i edges))"
  by (simp add: coupling_remove_def erase_first_ok)

lemma coupling_add_mem: "r \<in> set (coupling_add r edges)"
  unfolding coupling_add_def set_sort by (induction edges) auto

lemma coupling_remove_gone:
  "coupling_ok edges \<Longrightarrow> i \<notin> cr_id ` set (snd (coupling_remove i edges))"
proof -
  have "distinct (map cr_id es) \<Longrightarrow> i \<notin> cr_id ` set (erase_first i es)" for es
    by (induction es) auto
  then show "coupling_ok edges \<Longrightarrow> ?thesis"
    by (auto simp: coupling_remove_def coupling_ok_def list_ex_iff)
qed

section \<open>Bounded breadth-first traversal\<close>

type_synonym edge_end = "coupling_relation \<Rightarrow> ident"
type_synonym depth_map = "(ident \<times> u32) list"

definition relax ::
  "edge_end \<Rightarrow> edge_end \<Rightarrow> ident \<Rightarrow> u32 \<Rightarrow> depth_map \<times> depth_map \<Rightarrow> coupling_relation \<Rightarrow>
     depth_map \<times> depth_map" where
  "relax tail head current depth st edge =
     (case st of (best, frontier) \<Rightarrow>
       if tail edge \<noteq> current then (best, frontier)
       else
         let next_depth = depth + 1 in
         if (case map_of best (head edge) of Some d \<Rightarrow> d \<le> next_depth | None \<Rightarrow> False)
         then (best, frontier)
         else (AList.update (head edge) next_depth best, frontier @ [(head edge, next_depth)]))"

text \<open>How much room the depths of the edge heads still have to shrink.\<close>

definition depth_room :: "edge_end \<Rightarrow> coupling_graph \<Rightarrow> depth_map \<Rightarrow> nat" where
  "depth_room head edges best =
     (\<Sum>n \<in> head ` set edges. case map_of best n of None \<Rightarrow> 2 ^ 32 | Some d \<Rightarrow> unat d)"

lemma unat_bound: "unat (w :: u32) < 4294967296"
  using unsigned_less [of w, where 'a = nat] by simp

lemma unat_suc_depth: "(depth::u32) < max_depth \<Longrightarrow> unat (depth + 1) = Suc (unat depth)"
  using unat_bound [of max_depth] by (subst unat_word_ariths(1)) (simp add: word_less_nat_alt)

lemma relax_other: "tail e \<noteq> current \<Longrightarrow> relax tail head current depth st e = st"
  by (cases st) (simp add: relax_def)

lemma relax_known:
  "map_of best (head e) = Some k \<Longrightarrow> k \<le> depth + 1 \<Longrightarrow>
     relax tail head current depth (best, frontier) e = (best, frontier)"
  by (simp add: relax_def Let_def)

lemma relax_new:
  "tail e = current \<Longrightarrow> \<not> (\<exists>k. map_of best (head e) = Some k \<and> k \<le> depth + 1) \<Longrightarrow>
     relax tail head current depth (best, frontier) e =
       (AList.update (head e) (depth + 1) best, frontier @ [(head e, depth + 1)])"
  by (auto simp: relax_def Let_def split: option.splits)

lemma relax_room:
  assumes e: "e \<in> set edges" and d: "depth < max_depth"
    and st: "relax tail head current depth (best, frontier) e = (best', frontier')"
  shows "(best', frontier') = (best, frontier) \<or>
    depth_room head edges best' < depth_room head edges best"
proof (cases "tail e \<noteq> current \<or> (\<exists>k. map_of best (head e) = Some k \<and> k \<le> depth + 1)")
  case True
  then show ?thesis using st by (metis relax_other relax_known)
next
  case False
  then have best': "best' = AList.update (head e) (depth + 1) best"
    using st relax_new [of tail e current best head depth frontier] by auto
  let ?val = "\<lambda>b n. case map_of b n of None \<Rightarrow> 2 ^ 32 | Some d \<Rightarrow> unat (d::u32)"
  have "?val best' (head e) < (?val best (head e) :: nat)"
  proof (cases "map_of best (head e)")
    case None
    then show ?thesis using unat_bound [of "depth + 1"] by (simp add: best' table_find_update)
  next
    case (Some k)
    then have "depth + 1 < k" using False by auto
    then show ?thesis using Some by (simp add: best' table_find_update word_less_nat_alt)
  qed
  moreover have "?val best' n \<le> (?val best n :: nat)" if "n \<noteq> head e" for n
    using that by (simp add: best' table_find_update)
  ultimately have "(\<Sum>n \<in> head ` set edges. ?val best' n) < (\<Sum>n \<in> head ` set edges. ?val best n)"
    using e by (intro sum_strict_mono_ex1) (auto, metis order_refl less_imp_le)
  then show ?thesis by (simp add: depth_room_def)
qed

lemma foldl_relax_room:
  assumes "set es \<subseteq> set edges" and d: "depth < max_depth"
    and "foldl (relax tail head current depth) st es = st'"
  shows "st' = st \<or> depth_room head edges (fst st') < depth_room head edges (fst st)"
  using assms
proof (induction es arbitrary: st)
  case (Cons e es)
  obtain b f b' f' where s: "st = (b, f)" "relax tail head current depth st e = (b', f')"
    by (metis surj_pair)
  then have "(b', f') = st \<or> depth_room head edges b' < depth_room head edges b"
    using relax_room [of e edges depth max_depth tail head current b f b' f'] Cons.prems by auto
  moreover have "st' = (b', f') \<or> depth_room head edges (fst st') < depth_room head edges b'"
    using Cons.IH [of "(b', f')"] Cons.prems s by auto
  ultimately show ?case using s by auto
qed simp

function (sequential) bfs ::
  "edge_end \<Rightarrow> edge_end \<Rightarrow> coupling_graph \<Rightarrow> u32 \<Rightarrow> depth_map \<times> depth_map \<Rightarrow> depth_map" where
  "bfs tail head edges max_depth (best, []) = best"
| "bfs tail head edges max_depth (best, (current, depth) # frontier) =
     (if max_depth \<le> depth then bfs tail head edges max_depth (best, frontier)
      else bfs tail head edges max_depth
        (foldl (relax tail head current depth) (best, frontier) edges))"
  by pat_completeness auto

termination
proof (relation "measures [\<lambda>(tail, head, edges, max_depth, st). depth_room head edges (fst st),
    \<lambda>(tail, head, edges, max_depth, st). length (snd st)]", goal_cases)
  case (3 tail head edges max_depth best current depth frontier)
  then show ?case
    using foldl_relax_room [of edges edges depth max_depth tail head current "(best, frontier)"]
    by (auto simp: not_le)
qed simp_all

declare bfs.simps [simp del]

definition bfs_result ::
  "edge_end \<Rightarrow> edge_end \<Rightarrow> coupling_graph \<Rightarrow> ident \<Rightarrow> u32 \<Rightarrow> (ident \<times> u32) list" where
  "bfs_result tail head edges origin max_depth =
     (if max_depth = 0 then []
      else sort_key (\<lambda>(n, d). (d, n))
        (filter (\<lambda>(n, d). n \<noteq> origin)
          (bfs tail head edges max_depth ([(origin, 0)], [(origin, 0)]))))"

definition reachable_from :: "coupling_graph \<Rightarrow> ident \<Rightarrow> u32 \<Rightarrow> (ident \<times> u32) list" where
  "reachable_from edges origin max_depth = bfs_result cr_source cr_destination edges origin max_depth"

definition incoming_reachable :: "coupling_graph \<Rightarrow> ident \<Rightarrow> u32 \<Rightarrow> (ident \<times> u32) list" where
  "incoming_reachable edges origin max_depth =
     bfs_result cr_destination cr_source edges origin max_depth"

section \<open>The traversal computes shortest distances\<close>

definition edge_rel :: "edge_end \<Rightarrow> edge_end \<Rightarrow> coupling_graph \<Rightarrow> (ident \<times> ident) set" where
  "edge_rel tail head edges = (\<lambda>e. (tail e, head e)) ` set edges"

text \<open>
  \<open>settled\<close> says that a node is known at the given depth or nearer. In the invariant, \<open>P\<close> holds the
  edge heads that the current inner loop has still to look at.
\<close>

definition settled :: "depth_map \<Rightarrow> ident \<Rightarrow> nat \<Rightarrow> bool" where
  "settled best n k \<longleftrightarrow> (\<exists>d. map_of best n = Some d \<and> unat d \<le> k)"

definition bfs_inv ::
  "(ident \<times> ident) set \<Rightarrow> ident \<Rightarrow> u32 \<Rightarrow> (ident \<times> u32 \<times> ident) set \<Rightarrow> depth_map \<Rightarrow> depth_map \<Rightarrow> bool"
  where
  "bfs_inv R origin max_depth P best frontier \<longleftrightarrow>
     table_ok best \<and>
     (\<forall>n d. map_of best n = Some d \<longrightarrow> (origin, n) \<in> R ^^ unat d \<and> d \<le> max_depth) \<and>
     (\<forall>n d. (n, d) \<in> set frontier \<longrightarrow> (origin, n) \<in> R ^^ unat d \<and> d \<le> max_depth \<and> settled best n (unat d)) \<and>
     settled best origin 0 \<and>
     (\<forall>n d m. map_of best n = Some d \<longrightarrow> d < max_depth \<longrightarrow> (n, d) \<notin> set frontier \<longrightarrow>
        (n, m) \<in> R \<longrightarrow> (n, d, m) \<notin> P \<longrightarrow> settled best m (Suc (unat d)))"

lemma settled_mono: "settled best n k \<Longrightarrow> k \<le> l \<Longrightarrow> settled best n l"
  by (auto simp: settled_def)

lemma settled_update:
  assumes "settled best n k"
    and "\<not> (\<exists>d'. map_of best m = Some d' \<and> d' \<le> d)"
  shows "settled (AList.update m d best) n k"
proof (cases "n = m")
  case True
  then obtain d' where "map_of best m = Some d'" "unat d' \<le> k"
    using assms(1) by (auto simp: settled_def)
  moreover have "d \<le> d'" using assms(2) calculation by auto
  ultimately show ?thesis
    using True by (auto simp: settled_def table_find_update word_le_nat_alt)
next
  case False
  then show ?thesis using assms(1) by (simp add: settled_def table_find_update)
qed

lemma relax_inv:
  assumes inv: "bfs_inv R origin max_depth (insert (current, depth, head e) P) best frontier"
    and cur: "(origin, current) \<in> R ^^ unat depth" "depth < max_depth"
    and edge: "tail e = current" "(tail e, head e) \<in> R"
    and st: "relax tail head current depth (best, frontier) e = (best', frontier')"
  shows "bfs_inv R origin max_depth P best' frontier'"
proof -
  have suc: "unat (depth + 1) = Suc (unat depth)" using cur(2) by (rule unat_suc_depth)
  then have le: "depth + 1 \<le> max_depth" using cur(2) by (simp add: word_le_nat_alt word_less_nat_alt)
  show ?thesis
  proof (cases "\<exists>k. map_of best (head e) = Some k \<and> k \<le> depth + 1")
    case True
    then have "best' = best" "frontier' = frontier"
      using st relax_known [of best head e] by auto
    moreover have "settled best (head e) (Suc (unat depth))"
      using True suc by (auto simp: settled_def word_le_nat_alt)
    ultimately show ?thesis using inv unfolding bfs_inv_def by blast
  next
    case new: False
    have eq: "best' = AList.update (head e) (depth + 1) best"
      "frontier' = frontier @ [(head e, depth + 1)]"
      using st relax_new [of tail e current best head depth frontier] edge(1) new by auto
    have step: "(origin, head e) \<in> R ^^ unat (depth + 1)"
      using cur(1) edge by (auto simp: suc)
    have keep: "settled best n k \<Longrightarrow> settled best' n k" for n k
      unfolding eq by (rule settled_update [OF _ new])
    have here: "settled best' (head e) (unat (depth + 1))"
      by (simp add: eq settled_def table_find_update)
    note inv' = inv [unfolded bfs_inv_def]
    show ?thesis
      unfolding bfs_inv_def
    proof (intro conjI allI impI)
      show "table_ok best'" using inv' by (simp add: eq table_ok_update)
      show "(origin, n) \<in> R ^^ unat d" "d \<le> max_depth" if "map_of best' n = Some d" for n d
        using that inv' step le by (auto simp: eq table_find_update split: if_splits)
      show "(origin, n) \<in> R ^^ unat d" "d \<le> max_depth" "settled best' n (unat d)"
        if "(n, d) \<in> set frontier'" for n d
        using that inv' step le keep here by (auto simp: eq(2))
      show "settled best' origin 0" using inv' keep by blast
      show "settled best' m (Suc (unat d))"
        if "map_of best' n = Some d" "d < max_depth" "(n, d) \<notin> set frontier'" "(n, m) \<in> R"
          "(n, d, m) \<notin> P" for n d m
      proof (cases "n = head e")
        case True
        then show ?thesis using that by (simp add: eq table_find_update)
      next
        case other: False
        then have old: "map_of best n = Some d" "(n, d) \<notin> set frontier"
          using that by (simp_all add: eq table_find_update)
        show ?thesis
        proof (cases "(n, d, m) = (current, depth, head e)")
          case True
          then show ?thesis using here suc by simp
        next
          case False
          then have "(n, d, m) \<notin> insert (current, depth, head e) P" using that by simp
          then show ?thesis using old that inv' keep by metis
        qed
      qed
    qed
  qed
qed

lemma foldl_relax_inv:
  assumes "bfs_inv R origin max_depth ((\<lambda>e. (current, depth, head e)) ` {e \<in> set es. tail e = current})
      best frontier"
    and "(origin, current) \<in> R ^^ unat depth" "depth < max_depth"
    and "\<forall>e \<in> set es. (tail e, head e) \<in> R"
    and "foldl (relax tail head current depth) (best, frontier) es = (best', frontier')"
  shows "bfs_inv R origin max_depth {} best' frontier'"
  using assms
proof (induction es arbitrary: best frontier)
  case (Cons e es)
  let ?P = "(\<lambda>e. (current, depth, head e)) ` {e \<in> set es. tail e = current}"
  obtain b f where st: "relax tail head current depth (best, frontier) e = (b, f)"
    by (metis surj_pair)
  have "bfs_inv R origin max_depth ?P b f"
  proof (cases "tail e = current")
    case True
    then have "{x \<in> set (e # es). tail x = current} = insert e {x \<in> set es. tail x = current}" by auto
    then have "bfs_inv R origin max_depth (insert (current, depth, head e) ?P) best frontier"
      using Cons.prems(1) by simp
    then show ?thesis
      using relax_inv [OF _ Cons.prems(2,3) True _ st] Cons.prems(4) by simp
  next
    case False
    then have "{x \<in> set (e # es). tail x = current} = {x \<in> set es. tail x = current}" by auto
    then have "bfs_inv R origin max_depth ?P best frontier" using Cons.prems(1) by simp
    moreover have "b = best" "f = frontier" using st False by (simp_all add: relax_other)
    ultimately show ?thesis by simp
  qed
  then show ?case using Cons.IH Cons.prems st by simp
qed (auto simp: bfs_inv_def)

lemma bfs_inv_pop:
  assumes "bfs_inv R origin max_depth {} best ((current, depth) # frontier)"
  shows "bfs_inv R origin max_depth ((\<lambda>m. (current, depth, m)) ` (R `` {current})) best frontier"
  using assms unfolding bfs_inv_def by (auto simp: image_iff) blast

lemma bfs_inv_skip:
  assumes "bfs_inv R origin max_depth {} best ((current, depth) # frontier)" "max_depth \<le> depth"
  shows "bfs_inv R origin max_depth {} best frontier"
proof -
  have "(n, d) \<noteq> (current, depth)" if "d < max_depth" for n d
    using that assms(2) by auto
  then show ?thesis using assms(1) unfolding bfs_inv_def by (metis list.set_intros(2) set_ConsD)
qed

lemma bfs_inv_final:
  assumes "bfs_inv R origin max_depth {} (fst st) (snd st)" "R = edge_rel tail head edges"
  shows "bfs_inv R origin max_depth {} (bfs tail head edges max_depth st) []"
  using assms
proof (induction tail head edges max_depth st rule: bfs.induct)
  case (2 tail head edges max_depth best current depth frontier)
  show ?case
  proof (cases "max_depth \<le> depth")
    case True
    then show ?thesis using 2 bfs_inv_skip by (simp add: bfs.simps)
  next
    case False
    obtain b f where st: "foldl (relax tail head current depth) (best, frontier) edges = (b, f)"
      by (metis surj_pair)
    have "R `` {current} = head ` {e \<in> set edges. tail e = current}"
      using 2(4) by (auto simp: edge_rel_def)
    then have P: "(\<lambda>m. (current, depth, m)) ` (R `` {current}) =
        (\<lambda>e. (current, depth, head e)) ` {e \<in> set edges. tail e = current}"
      by (simp add: image_image)
    have "bfs_inv R origin max_depth {} b f"
    proof (rule foldl_relax_inv [OF _ _ _ _ st])
      show "bfs_inv R origin max_depth
          ((\<lambda>e. (current, depth, head e)) ` {e \<in> set edges. tail e = current}) best frontier"
        using 2(3) bfs_inv_pop unfolding P [symmetric] by simp
      show "(origin, current) \<in> R ^^ unat depth" using 2(3) by (auto simp: bfs_inv_def)
      show "depth < max_depth" using False by simp
      show "\<forall>e \<in> set edges. (tail e, head e) \<in> R" using 2(4) by (auto simp: edge_rel_def)
    qed
    then show ?thesis using 2(2) [OF False] 2(4) False st by (simp add: bfs.simps)
  qed
qed (simp add: bfs.simps)

lemma bfs_complete:
  assumes inv: "bfs_inv R origin max_depth {} best []"
  shows "(origin, n) \<in> R ^^ k \<Longrightarrow> k \<le> unat max_depth \<Longrightarrow> settled best n k"
proof (induction k arbitrary: n)
  case 0
  then show ?case using inv by (simp add: bfs_inv_def)
next
  case (Suc k)
  then obtain m where m: "(origin, m) \<in> R ^^ k" "(m, n) \<in> R" by auto
  then obtain d where d: "map_of best m = Some d" "unat d \<le> k"
    using Suc by (auto simp: settled_def)
  then have "d < max_depth" using Suc.prems by (simp add: word_less_nat_alt)
  then have "settled best n (Suc (unat d))" using inv d m by (auto simp: bfs_inv_def)
  then show ?case using d by (auto elim: settled_mono)
qed

text \<open>A node has depth \<open>d\<close> when it is \<open>d\<close> steps away and not nearer.\<close>

definition at_distance :: "(ident \<times> ident) set \<Rightarrow> ident \<Rightarrow> ident \<Rightarrow> nat \<Rightarrow> bool" where
  "at_distance R origin n k \<longleftrightarrow> (origin, n) \<in> R ^^ k \<and> (\<forall>j < k. (origin, n) \<notin> R ^^ j)"

lemma bfs_distances:
  assumes inv: "bfs_inv R origin max_depth {} best []"
  shows "map_of best n = Some d \<longleftrightarrow> d \<le> max_depth \<and> at_distance R origin n (unat d)"
proof
  assume some: "map_of best n = Some d"
  then have sound: "(origin, n) \<in> R ^^ unat d" "d \<le> max_depth" using inv by (auto simp: bfs_inv_def)
  have "(origin, n) \<notin> R ^^ j" if "j < unat d" for j
  proof
    assume "(origin, n) \<in> R ^^ j"
    then have "settled best n j"
      using that sound bfs_complete [OF inv] by (simp add: word_le_nat_alt)
    then show False using some that by (auto simp: settled_def)
  qed
  then show "d \<le> max_depth \<and> at_distance R origin n (unat d)" using sound by (simp add: at_distance_def)
next
  assume at: "d \<le> max_depth \<and> at_distance R origin n (unat d)"
  then have "settled best n (unat d)"
    using bfs_complete [OF inv] by (simp add: word_le_nat_alt at_distance_def)
  then obtain k where k: "map_of best n = Some k" "unat k \<le> unat d" by (auto simp: settled_def)
  then have "(origin, n) \<in> R ^^ unat k" using inv by (auto simp: bfs_inv_def)
  then have "\<not> unat k < unat d" using at by (auto simp: at_distance_def)
  then have "k = d" using k(2) by (simp add: word_unat_eq_iff order.antisym not_less)
  then show "map_of best n = Some d" using k by simp
qed

lemma bfs_start:
  "bfs_inv (edge_rel tail head edges) origin max_depth {} [(origin, 0)] [(origin, 0)]"
  by (auto simp: bfs_inv_def settled_def table_ok_def split: if_splits)

lemma bfs_run:
  "bfs_inv (edge_rel tail head edges) origin max_depth {}
     (bfs tail head edges max_depth ([(origin, 0)], [(origin, 0)])) []"
  using bfs_inv_final [of _ origin max_depth "([(origin, 0)], [(origin, 0)])"] bfs_start by simp

text \<open>
  The contract a bounded neighbourhood search offers its clients, and what follows from it.
\<close>

locale bounded_search =
  fixes search :: "coupling_graph \<Rightarrow> ident \<Rightarrow> u32 \<Rightarrow> (ident \<times> u32) list"
    and rel :: "coupling_graph \<Rightarrow> (ident \<times> ident) set"
  assumes search_mem: "(n, d) \<in> set (search edges origin max_depth) \<longleftrightarrow>
      n \<noteq> origin \<and> d \<le> max_depth \<and> at_distance (rel edges) origin n (unat d)"
    and search_sorted: "sorted (map (\<lambda>(n, d). (d, n)) (search edges origin max_depth))"
    and search_distinct: "distinct (map fst (search edges origin max_depth))"
begin

lemma origin_not_found: "origin \<notin> fst ` set (search edges origin max_depth)"
  by (auto simp: search_mem)

lemma depth_positive: "(n, d) \<in> set (search edges origin max_depth) \<Longrightarrow> 0 < d"
proof -
  assume found: "(n, d) \<in> set (search edges origin max_depth)"
  have "d \<noteq> 0" using found by (auto simp: search_mem at_distance_def)
  then show "0 < d" by (simp add: word_neq_0_conv)
qed

lemma found_iff_reachable:
  "n \<in> fst ` set (search edges origin max_depth) \<longleftrightarrow>
     n \<noteq> origin \<and> (\<exists>k \<le> unat max_depth. (origin, n) \<in> rel edges ^^ k)"
proof
  assume "n \<in> fst ` set (search edges origin max_depth)"
  then show "n \<noteq> origin \<and> (\<exists>k \<le> unat max_depth. (origin, n) \<in> rel edges ^^ k)"
    by (auto simp: search_mem at_distance_def word_le_nat_alt)
next
  assume r: "n \<noteq> origin \<and> (\<exists>k \<le> unat max_depth. (origin, n) \<in> rel edges ^^ k)"
  define k where "k = (LEAST k. (origin, n) \<in> rel edges ^^ k)"
  have at: "at_distance (rel edges) origin n k"
    unfolding at_distance_def k_def using r by (metis (mono_tags, lifting) LeastI not_less_Least)
  have "k \<le> unat max_depth" unfolding k_def using r by (meson Least_le order_trans)
  moreover have "unat (word_of_nat k :: u32) = k"
    using calculation unat_bound [of max_depth] by (simp add: unat_of_nat take_bit_nat_eq_self_iff)
  ultimately have "(n, word_of_nat k) \<in> set (search edges origin max_depth)"
    using r at by (simp add: search_mem word_le_nat_alt)
  then show "n \<in> fst ` set (search edges origin max_depth)" by force
qed

text \<open>Two graphs with the same edges, in whatever order, give the same list.\<close>

lemma search_deterministic:
  assumes "rel edges = rel edges'"
  shows "search edges origin max_depth = search edges' origin max_depth"
proof -
  let ?f = "\<lambda>(n, d). (d, n)" and ?a = "search edges origin max_depth" and
    ?b = "search edges' origin max_depth"
  have "set ?a = set ?b" using assms by (auto simp: search_mem)
  then have "set (map ?f ?a) = set (map ?f ?b)" by simp
  moreover have inj: "inj ?f" by (auto simp: inj_on_def)
  moreover have "distinct (map ?f ?a)" "distinct (map ?f ?b)"
    using search_distinct inj by (metis distinct_map inj_on_subset subset_UNIV)+
  ultimately have "map ?f ?a = map ?f ?b"
    using search_sorted sorted_distinct_set_unique by blast
  then show ?thesis using inj by (metis inj_map_eq_map)
qed

end

lemma bfs_result_mem:
  "(n, d) \<in> set (bfs_result tail head edges origin max_depth) \<longleftrightarrow>
     n \<noteq> origin \<and> d \<le> max_depth \<and> at_distance (edge_rel tail head edges) origin n (unat d)"
proof (cases "max_depth = 0")
  case True
  then show ?thesis by (auto simp: bfs_result_def at_distance_def)
next
  case False
  let ?best = "bfs tail head edges max_depth ([(origin, 0)], [(origin, 0)])"
  have "table_ok ?best" using bfs_run by (simp add: bfs_inv_def)
  then have "(n, d) \<in> set ?best \<longleftrightarrow> map_of ?best n = Some d" by (simp add: table_ok_find_iff)
  then show ?thesis using False bfs_distances [OF bfs_run] by (auto simp: bfs_result_def)
qed

lemma bfs_result_distinct: "distinct (map fst (bfs_result tail head edges origin max_depth))"
proof -
  let ?best = "bfs tail head edges max_depth ([(origin, 0)], [(origin, 0)])"
  let ?kept = "filter (\<lambda>(n, d). n \<noteq> origin) ?best"
  have "distinct (map fst ?best)" using bfs_run by (simp add: bfs_inv_def table_ok_def)
  then have "distinct (map fst ?kept)" by (simp add: distinct_map_filter)
  moreover have "mset (map fst (sort_key (\<lambda>(n, d). (d, n)) ?kept)) = mset (map fst ?kept)" by simp
  ultimately have "distinct (map fst (sort_key (\<lambda>(n, d). (d, n)) ?kept))"
    by (metis mset_eq_imp_distinct_iff)
  then show ?thesis by (simp add: bfs_result_def)
qed

lemma bfs_result_sorted: "sorted (map (\<lambda>(n, d). (d, n)) (bfs_result tail head edges origin max_depth))"
  by (simp add: bfs_result_def)

interpretation outgoing: bounded_search reachable_from "edge_rel cr_source cr_destination"
  unfolding reachable_from_def
  by unfold_locales (simp_all add: bfs_result_mem bfs_result_sorted bfs_result_distinct)

interpretation incoming: bounded_search incoming_reachable "edge_rel cr_destination cr_source"
  unfolding incoming_reachable_def
  by unfold_locales (simp_all add: bfs_result_mem bfs_result_sorted bfs_result_distinct)

text \<open>Being pressured by a domain is the converse of pressing on it.\<close>

lemma edge_rel_converse: "edge_rel head tail edges = (edge_rel tail head edges)\<inverse>"
  by (auto simp: edge_rel_def)

lemma incoming_iff_outgoing:
  "n \<in> fst ` set (incoming_reachable edges m depth) \<longleftrightarrow>
     m \<in> fst ` set (reachable_from edges n depth)"
proof -
  have conv: "(R\<inverse>) ^^ k = (R ^^ k)\<inverse>" for R :: "(ident \<times> ident) set" and k
    by (induction k) (simp_all add: converse_relcomp flip: relpow_commute)
  have "(m, n) \<in> edge_rel cr_destination cr_source edges ^^ k \<longleftrightarrow>
      (n, m) \<in> edge_rel cr_source cr_destination edges ^^ k" for k
    unfolding edge_rel_converse [of cr_destination] conv by simp
  then show ?thesis by (auto simp: incoming.found_iff_reachable outgoing.found_iff_reachable)
qed

end
