(* ===== verification/Domain.thy ===== *)
theory Domain
  imports Policy Coupling
begin

text \<open>
  \<^verbatim>\<open>domain.hpp\<close> and \<^verbatim>\<open>domain.cpp\<close>: thermal domain definitions, the bounded registry with its
  membership index, and the aggregation rules with their provenance discipline.
\<close>

section \<open>Definitions\<close>

datatype domain_type =
    DT_ACCELERATOR
  | DT_ACCELERATOR_PARTITION
  | DT_NODE
  | DT_CHASSIS
  | DT_RACK
  | DT_COOLING_ZONE
  | DT_COUPLED_RESOURCE_GROUP

fun to_string_domain_type :: "domain_type \<Rightarrow> string" where
    "to_string_domain_type DT_ACCELERATOR = ''ACCELERATOR''"
  | "to_string_domain_type DT_ACCELERATOR_PARTITION = ''ACCELERATOR_PARTITION''"
  | "to_string_domain_type DT_NODE = ''NODE''"
  | "to_string_domain_type DT_CHASSIS = ''CHASSIS''"
  | "to_string_domain_type DT_RACK = ''RACK''"
  | "to_string_domain_type DT_COOLING_ZONE = ''COOLING_ZONE''"
  | "to_string_domain_type DT_COUPLED_RESOURCE_GROUP = ''COUPLED_RESOURCE_GROUP''"

datatype aggregation_rule =
    AR_HOTTEST_MEMBER_GOVERNS
  | AR_CONFIGURED_WEIGHTED_RULE
  | AR_NODE_SENSOR_GOVERNS
  | AR_SYNTHETIC_AGGREGATION

fun to_string_aggregation_rule :: "aggregation_rule \<Rightarrow> string" where
    "to_string_aggregation_rule AR_HOTTEST_MEMBER_GOVERNS = ''HOTTEST_MEMBER_GOVERNS''"
  | "to_string_aggregation_rule AR_CONFIGURED_WEIGHTED_RULE = ''CONFIGURED_WEIGHTED_RULE''"
  | "to_string_aggregation_rule AR_NODE_SENSOR_GOVERNS = ''NODE_SENSOR_GOVERNS''"
  | "to_string_aggregation_rule AR_SYNTHETIC_AGGREGATION = ''SYNTHETIC_AGGREGATION''"

record device_registration =
  dr_device :: ident
  dr_generation :: ident
  dr_node :: ident
  dr_node_generation :: ident
  dr_rack :: ident
  dr_rack_generation :: ident
  dr_label :: string
  dr_capabilities :: capability_set
  dr_provenance :: provenance

record domain_member =
  dm_subject :: subject_ref
  dm_weight :: f64

record domain_definition =
  dd_id :: ident
  dd_generation :: ident
  dd_type :: domain_type
  dd_label :: string
  dd_members :: "domain_member list"
  dd_parent :: "ident option"
  dd_children :: "ident list"
  dd_policy :: ident
  dd_policy_generation :: ident
  dd_provenance :: provenance
  dd_evidence_source :: string
  dd_aggregation :: aggregation_rule
  dd_rack :: ident
  dd_rack_generation :: ident
  dd_cooling_zone :: ident
  dd_synthetic_aggregate_offset :: "f64 option"

record aggregate_result =
  ag_temperature :: celsius
  ag_rule :: aggregation_rule
  ag_governing_member :: subject_ref
  ag_provenance :: provenance
  ag_contributing_members :: nat

section \<open>The registry\<close>

type_synonym membership = "(string \<times> ident list) list"

record domain_registry =
  reg_max_domains :: nat
  reg_max_members :: nat
  reg_max_children :: nat
  reg_definitions :: "domain_definition table"
  reg_membership :: membership
  reg_topology_generation :: ident

definition empty_registry :: domain_registry where
  "empty_registry =
     \<lparr>reg_max_domains = 100000, reg_max_members = 10000, reg_max_children = 10000,
      reg_definitions = [], reg_membership = [], reg_topology_generation = 1\<rparr>"

definition push_member :: "ident \<Rightarrow> membership \<Rightarrow> string \<Rightarrow> membership" where
  "push_member i t key =
     AList.update key ((case map_of t key of None \<Rightarrow> [] | Some ids \<Rightarrow> ids) @ [i]) t"

definition member_keys :: "domain_definition \<Rightarrow> string list" where
  "member_keys d = map (\<lambda>m. subject_key (dm_subject m)) (dd_members d)"

definition collect_membership :: "domain_definition table \<Rightarrow> membership" where
  "collect_membership defs =
     foldl (\<lambda>t (k, d). foldl (push_member (dd_id d)) t (member_keys d)) [] defs"

definition rebuild_membership :: "domain_definition table \<Rightarrow> membership" where
  "rebuild_membership defs = map_values sort_unique (collect_membership defs)"

text \<open>The two steps that end every successful mutation.\<close>

definition registry_commit :: "domain_definition table \<Rightarrow> domain_registry \<Rightarrow> domain_registry" where
  "registry_commit defs reg =
     reg \<lparr>reg_definitions := defs, reg_membership := rebuild_membership defs,
          reg_topology_generation := gen_advance (reg_topology_generation reg)\<rparr>"

definition registered :: "domain_registry \<Rightarrow> ident \<Rightarrow> bool" where
  "registered reg i \<longleftrightarrow> map_of (reg_definitions reg) i \<noteq> None"

definition registry_find :: "domain_registry \<Rightarrow> ident \<Rightarrow> domain_definition option" where
  "registry_find reg i = map_of (reg_definitions reg) i"

definition weights_ok :: "domain_definition \<Rightarrow> bool" where
  "weights_ok d \<longleftrightarrow>
     list_all (\<lambda>m. flt (Fin 0) (dm_weight m) \<and> is_finite (dm_weight m)) (dd_members d)"

definition registry_add :: "domain_definition \<Rightarrow> domain_registry \<Rightarrow> error_code + domain_registry" where
  "registry_add d reg =
     (if \<not> id_valid (dd_id d) then Inl E_INVALID_ARGUMENT
      else if \<not> id_valid (dd_generation d) then Inl E_INVALID_ARGUMENT
      else if dd_provenance d = P_UNKNOWN then Inl E_INVALID_ARGUMENT
      else if dd_provenance d = P_UNSUPPORTED then Inl E_INVALID_ARGUMENT
      else if reg_max_domains reg \<le> length (reg_definitions reg) then Inl E_RESOURCE_EXHAUSTED
      else if reg_max_members reg < length (dd_members d) then Inl E_RESOURCE_EXHAUSTED
      else if reg_max_children reg < length (dd_children d) then Inl E_RESOURCE_EXHAUSTED
      else if registered reg (dd_id d) then Inl E_DUPLICATE_CONFLICT
      else if (case dd_parent d of None \<Rightarrow> False | Some p \<Rightarrow> \<not> registered reg p)
      then Inl E_UNKNOWN_DOMAIN
      else if list_ex (\<lambda>c. \<not> registered reg c) (dd_children d) then Inl E_UNKNOWN_DOMAIN
      else if dd_aggregation d = AR_CONFIGURED_WEIGHTED_RULE \<and> \<not> weights_ok d
      then Inl E_INVALID_ARGUMENT
      else if dd_aggregation d = AR_NODE_SENSOR_GOVERNS \<and>
              \<not> list_ex (\<lambda>m. sr_kind (dm_subject m) = SK_NODE) (dd_members d)
      then Inl E_INVALID_ARGUMENT
      else Inr (registry_commit (AList.update (dd_id d) d (reg_definitions reg)) reg))"

text \<open>The child loop of \<^verbatim>\<open>update\<close> reports the first offending child.\<close>

fun check_children :: "domain_registry \<Rightarrow> ident \<Rightarrow> ident list \<Rightarrow> status" where
  "check_children reg self [] = success"
| "check_children reg self (c # cs) =
     (if c = self then Inl E_POLICY_CYCLE
      else if \<not> registered reg c then Inl E_UNKNOWN_DOMAIN
      else check_children reg self cs)"

definition registry_update :: "domain_definition \<Rightarrow> domain_registry \<Rightarrow> error_code + domain_registry" where
  "registry_update d reg =
     (case map_of (reg_definitions reg) (dd_id d) of
        None \<Rightarrow> Inl E_UNKNOWN_DOMAIN
      | Some old \<Rightarrow>
          if dd_generation d \<le> dd_generation old then Inl E_STALE_DOMAIN_GENERATION
          else if dd_provenance d = P_UNKNOWN \<or> dd_provenance d = P_UNSUPPORTED
          then Inl E_INVALID_ARGUMENT
          else if reg_max_members reg < length (dd_members d) then Inl E_RESOURCE_EXHAUSTED
          else if reg_max_children reg < length (dd_children d) then Inl E_RESOURCE_EXHAUSTED
          else if dd_parent d = Some (dd_id d) then Inl E_POLICY_CYCLE
          else if (case dd_parent d of None \<Rightarrow> False | Some p \<Rightarrow> \<not> registered reg p)
          then Inl E_UNKNOWN_DOMAIN
          else (case check_children reg (dd_id d) (dd_children d) of
              Inl e \<Rightarrow> Inl e
            | Inr _ \<Rightarrow> Inr (registry_commit (AList.update (dd_id d) d (reg_definitions reg)) reg)))"

definition references :: "ident \<Rightarrow> domain_definition \<Rightarrow> bool" where
  "references i d \<longleftrightarrow> dd_parent d = Some i \<or> i \<in> set (dd_children d)"

definition registry_remove :: "ident \<Rightarrow> domain_registry \<Rightarrow> error_code + domain_registry" where
  "registry_remove i reg =
     (if \<not> registered reg i then Inl E_UNKNOWN_DOMAIN
      else if list_ex (\<lambda>(k, d). k \<noteq> i \<and> references i d) (reg_definitions reg)
      then Inl E_DUPLICATE_CONFLICT
      else Inr (registry_commit (AList.delete i (reg_definitions reg)) reg))"

definition domains_for_device :: "domain_registry \<Rightarrow> ident \<Rightarrow> ident list" where
  "domains_for_device reg device =
     sort (map (dd_id \<circ> snd)
       (filter (\<lambda>(k, d). list_ex (\<lambda>m. sr_kind (dm_subject m) = SK_DEVICE \<and>
            sr_device (dm_subject m) = device) (dd_members d))
         (reg_definitions reg)))"

definition domains_for_subject :: "domain_registry \<Rightarrow> subject_ref \<Rightarrow> ident list" where
  "domains_for_subject reg s =
     (case map_of (reg_membership reg) (subject_key s) of Some ids \<Rightarrow> ids | None \<Rightarrow> [])"

definition all_domain_ids :: "domain_registry \<Rightarrow> ident list" where
  "all_domain_ids reg = sort (map fst (reg_definitions reg))"

section \<open>Aggregation\<close>

definition usable_evidence :: "evidence option list \<Rightarrow> evidence list" where
  "usable_evidence es = concat (map (\<lambda>e. case e of None \<Rightarrow> [] | Some x \<Rightarrow> [x]) es)"

definition combined_provenance :: "evidence list \<Rightarrow> provenance" where
  "combined_provenance usable =
     foldl (\<lambda>c e. combine c (ev_provenance e)) (ev_provenance (hd usable)) (tl usable)"

definition hottest :: "evidence list \<Rightarrow> evidence" where
  "hottest usable =
     foldl (\<lambda>h e. if flt (ev_temperature h) (ev_temperature e) then e else h) (hd usable) usable"

definition member_weight :: "domain_definition \<Rightarrow> subject_ref \<Rightarrow> f64" where
  "member_weight d s =
     (case find (\<lambda>m. dm_subject m = s) (dd_members d) of Some m \<Rightarrow> dm_weight m | None \<Rightarrow> Fin 1)"

text \<open>The accumulators of the weighted loop: sum, weight total, heaviest member and its weight.\<close>

definition weighted_step ::
  "domain_definition \<Rightarrow> f64 \<times> f64 \<times> evidence \<times> f64 \<Rightarrow> evidence \<Rightarrow> f64 \<times> f64 \<times> evidence \<times> f64" where
  "weighted_step d acc e =
     (case acc of (weighted_sum, weight_total, heaviest, heaviest_weight) \<Rightarrow>
       let weight = member_weight d (ev_subject e);
           s = fadd weighted_sum (fmul (ev_temperature e) weight);
           t = fadd weight_total weight
       in if flt heaviest_weight weight then (s, t, e, weight)
          else (s, t, heaviest, heaviest_weight))"

definition compute_aggregate ::
  "domain_definition \<Rightarrow> evidence option list \<Rightarrow> aggregate_result result" where
  "compute_aggregate d member_evidence =
     (let usable = usable_evidence member_evidence;
          combined = combined_provenance usable;
          made = (\<lambda>t s p. \<lparr>ag_temperature = t, ag_rule = dd_aggregation d, ag_governing_member = s,
                    ag_provenance = p, ag_contributing_members = length usable\<rparr>)
      in if usable = [] then Inl E_EVIDENCE_UNKNOWN
         else case dd_aggregation d of
           AR_HOTTEST_MEMBER_GOVERNS \<Rightarrow>
             Inr (made (ev_temperature (hottest usable)) (ev_subject (hottest usable)) combined)
         | AR_CONFIGURED_WEIGHTED_RULE \<Rightarrow>
             (case foldl (weighted_step d) (Fin 0, Fin 0, hd usable, Fin (- 1)) usable of
                (weighted_sum, weight_total, heaviest, heaviest_weight) \<Rightarrow>
                  if \<not> flt (Fin 0) weight_total then Inl E_POLICY_INVALID
                  else case celsius_try_from (fdiv weighted_sum weight_total) of
                    None \<Rightarrow> Inl E_TEMPERATURE_INVALID
                  | Some t \<Rightarrow> Inr (made t (ev_subject heaviest)
                      (if dd_provenance d = P_REAL then P_SYNTHETIC
                       else combine combined P_SYNTHETIC)))
         | AR_NODE_SENSOR_GOVERNS \<Rightarrow>
             (case find (\<lambda>e. sr_kind (ev_subject e) = SK_NODE) usable of
                None \<Rightarrow> Inl E_EVIDENCE_UNKNOWN
              | Some e \<Rightarrow> Inr (made (ev_temperature e) (ev_subject e) (ev_provenance e)))
         | AR_SYNTHETIC_AGGREGATION \<Rightarrow>
             (let h = hottest usable;
                  offset = (case dd_synthetic_aggregate_offset d of Some o' \<Rightarrow> o' | None \<Rightarrow> Fin 0)
              in case celsius_try_from (fadd (ev_temperature h) offset) of
                   None \<Rightarrow> Inl E_TEMPERATURE_INVALID
                 | Some t \<Rightarrow> Inr (made t (ev_subject h)
                     (if dd_provenance d = P_SYNTHETIC then P_SYNTHETIC
                      else combine combined P_SYNTHETIC))))"

section \<open>Registry invariant\<close>

text \<open>
  Keys are the ids of their definitions, every parent and child is registered, and the
  membership index is the one the definitions give.
\<close>

definition registry_ok :: "domain_registry \<Rightarrow> bool" where
  "registry_ok reg \<longleftrightarrow>
     table_ok (reg_definitions reg) \<and>
     (\<forall>(k, d) \<in> set (reg_definitions reg).
        k = dd_id d \<and> id_valid k \<and> (dd_provenance d = P_REAL \<or> dd_provenance d = P_SYNTHETIC) \<and>
        (\<forall>p. dd_parent d = Some p \<longrightarrow> registered reg p) \<and>
        (\<forall>c \<in> set (dd_children d). registered reg c)) \<and>
     reg_membership reg = rebuild_membership (reg_definitions reg)"

text \<open>What a definition written by \<open>add\<close> or \<open>update\<close> has to satisfy.\<close>

definition entry_ok :: "domain_registry \<Rightarrow> domain_definition \<Rightarrow> bool" where
  "entry_ok reg d \<longleftrightarrow>
     id_valid (dd_id d) \<and> (dd_provenance d = P_REAL \<or> dd_provenance d = P_SYNTHETIC) \<and>
     (\<forall>p. dd_parent d = Some p \<longrightarrow> registered reg p) \<and>
     (\<forall>c \<in> set (dd_children d). registered reg c)"

lemma registered_update [simp]:
  "registered (registry_commit (AList.update i d (reg_definitions reg)) reg) j \<longleftrightarrow>
     j = i \<or> registered reg j"
  by (simp add: registered_def registry_commit_def table_find_update)

lemma registered_delete [simp]:
  "registered (registry_commit (AList.delete i (reg_definitions reg)) reg) j \<longleftrightarrow>
     j \<noteq> i \<and> registered reg j"
  by (simp add: registered_def registry_commit_def table_find_delete)

lemma registry_commit_fields [simp]:
  "reg_definitions (registry_commit defs reg) = defs"
  "reg_membership (registry_commit defs reg) = rebuild_membership defs"
  "reg_topology_generation (registry_commit defs reg) = gen_advance (reg_topology_generation reg)"
  by (simp_all add: registry_commit_def)

lemma empty_registry_ok [simp]: "registry_ok empty_registry"
  by (simp add: registry_ok_def empty_registry_def rebuild_membership_def collect_membership_def
      map_values_def)

lemma registry_table: "registry_ok reg \<Longrightarrow> table_ok (reg_definitions reg)"
  by (simp add: registry_ok_def)

lemma registry_entryD:
  assumes "registry_ok reg" "(k, d) \<in> set (reg_definitions reg)"
  shows "k = dd_id d" "entry_ok reg d"
proof -
  have "\<forall>x \<in> set (reg_definitions reg). case x of (k, d) \<Rightarrow>
      k = dd_id d \<and> id_valid k \<and> (dd_provenance d = P_REAL \<or> dd_provenance d = P_SYNTHETIC) \<and>
      (\<forall>p. dd_parent d = Some p \<longrightarrow> registered reg p) \<and>
      (\<forall>c \<in> set (dd_children d). registered reg c)"
    using assms(1) unfolding registry_ok_def by (elim conjE)
  from bspec [OF this assms(2)] show "k = dd_id d" "entry_ok reg d"
    by (auto simp: entry_ok_def)
qed

lemma set_update_ok:
  "table_ok t \<Longrightarrow> (k', v') \<in> set (AList.update k v t) \<Longrightarrow>
     (k' = k \<and> v' = v) \<or> (k' \<noteq> k \<and> (k', v') \<in> set t)"
  by (metis map_of_eq_Some_iff table_ok_def table_ok_update table_find_update option.inject)

lemma set_delete_mem: "(k', v') \<in> set (AList.delete k t) \<Longrightarrow> (k', v') \<in> set t \<and> k' \<noteq> k"
  by (induction t) (auto split: if_splits)

lemma registry_write_ok:
  assumes ok: "registry_ok reg" and entry: "entry_ok reg d"
  shows "registry_ok (registry_commit (AList.update (dd_id d) d (reg_definitions reg)) reg)"
  unfolding registry_ok_def
proof (intro conjI ballI; clarsimp?)
  show "table_ok (AList.update (dd_id d) d (reg_definitions reg))"
    using ok by (simp add: registry_ok_def table_ok_update)
  fix k v assume mem: "(k, v) \<in> set (AList.update (dd_id d) d (reg_definitions reg))"
  have "(k = dd_id d \<and> v = d) \<or> (k \<noteq> dd_id d \<and> (k, v) \<in> set (reg_definitions reg))"
    by (rule set_update_ok [OF registry_table [OF ok] mem])
  then show "k = dd_id v \<and> id_valid k \<and> (dd_provenance v = P_REAL \<or> dd_provenance v = P_SYNTHETIC) \<and>
      (\<forall>p. dd_parent v = Some p \<longrightarrow> p = dd_id d \<or> registered reg p) \<and>
      (\<forall>c \<in> set (dd_children v). c = dd_id d \<or> registered reg c)"
  proof
    assume "k = dd_id d \<and> v = d"
    then show ?thesis using entry by (auto simp: entry_ok_def)
  next
    assume "k \<noteq> dd_id d \<and> (k, v) \<in> set (reg_definitions reg)"
    then show ?thesis using registry_entryD [OF ok, of k v] by (auto simp: entry_ok_def)
  qed
qed

lemma provenance_declared:
  "p \<noteq> P_UNKNOWN \<Longrightarrow> p \<noteq> P_UNSUPPORTED \<Longrightarrow> p = P_REAL \<or> p = P_SYNTHETIC"
  by (cases p) auto

lemma registry_add_result:
  "registry_add d reg = Inr reg' \<Longrightarrow>
     entry_ok reg d \<and> \<not> registered reg (dd_id d) \<and> length (reg_definitions reg) < reg_max_domains reg \<and>
     reg' = registry_commit (AList.update (dd_id d) d (reg_definitions reg)) reg"
  using provenance_declared [of "dd_provenance d"]
  by (auto simp: registry_add_def entry_ok_def list_ex_iff split: if_splits option.splits)

lemma check_children_success:
  "check_children reg self cs = success \<longleftrightarrow> self \<notin> set cs \<and> (\<forall>c \<in> set cs. registered reg c)"
  by (induction cs) auto

lemma registry_update_result:
  assumes "registry_update d reg = Inr reg'" "registry_ok reg"
  shows "\<exists>old. map_of (reg_definitions reg) (dd_id d) = Some old \<and>
      dd_generation old < dd_generation d \<and> entry_ok reg d \<and>
      reg' = registry_commit (AList.update (dd_id d) d (reg_definitions reg)) reg"
proof (cases "map_of (reg_definitions reg) (dd_id d)")
  case None
  then show ?thesis using assms by (simp add: registry_update_def)
next
  case (Some old)
  then have "(dd_id d, old) \<in> set (reg_definitions reg)" by (rule map_of_SomeD)
  then have "id_valid (dd_id d)"
    using registry_entryD [OF assms(2)] by (metis entry_ok_def)
  moreover have "check_children reg (dd_id d) (dd_children d) = success"
    using assms(1) Some by (auto simp: registry_update_def split: if_splits sum.splits option.splits)
  ultimately show ?thesis
    using assms(1) Some provenance_declared [of "dd_provenance d"]
    by (auto simp: registry_update_def entry_ok_def check_children_success not_le
        split: if_splits sum.splits option.splits)
qed

lemma registry_add_ok: "registry_ok reg \<Longrightarrow> registry_add d reg = Inr reg' \<Longrightarrow> registry_ok reg'"
  using registry_add_result registry_write_ok by blast

lemma registry_update_ok: "registry_ok reg \<Longrightarrow> registry_update d reg = Inr reg' \<Longrightarrow> registry_ok reg'"
  using registry_update_result registry_write_ok by blast

lemma registry_remove_ok:
  assumes ok: "registry_ok reg" and res: "registry_remove i reg = Inr reg'"
  shows "registry_ok reg'"
proof -
  have reg': "reg' = registry_commit (AList.delete i (reg_definitions reg)) reg"
    and free: "\<forall>(k, d) \<in> set (reg_definitions reg). k \<noteq> i \<longrightarrow> \<not> references i d"
    using res by (auto simp: registry_remove_def list_ex_iff split: if_splits)
  show ?thesis
    unfolding registry_ok_def reg'
  proof (intro conjI ballI; clarsimp?)
    show "table_ok (AList.delete i (reg_definitions reg))"
      using ok by (simp add: registry_ok_def table_ok_delete)
    fix k v assume del: "(k, v) \<in> set (AList.delete i (reg_definitions reg))"
    have mem: "(k, v) \<in> set (reg_definitions reg)" "k \<noteq> i"
      using set_delete_mem [OF del] by simp_all
    then have "\<not> references i v" using bspec [OF free mem(1)] by simp
    then show "k = dd_id v \<and> id_valid k \<and> (dd_provenance v = P_REAL \<or> dd_provenance v = P_SYNTHETIC) \<and>
        (\<forall>p. dd_parent v = Some p \<longrightarrow> p \<noteq> i \<and> registered reg p) \<and>
        (\<forall>c \<in> set (dd_children v). c \<noteq> i \<and> registered reg c)"
      using registry_entryD [OF ok mem(1)] by (auto simp: references_def entry_ok_def)
  qed
qed

section \<open>The membership index answers look-ups\<close>

definition index_of :: "membership \<Rightarrow> string \<Rightarrow> ident list" where
  "index_of t key = (case map_of t key of None \<Rightarrow> [] | Some ids \<Rightarrow> ids)"

lemma index_push: "set (index_of (push_member i t key) key') =
    set (index_of t key') \<union> (if key' = key then {i} else {})"
  by (auto simp: push_member_def index_of_def table_find_update split: option.splits)

lemma index_push_all: "set (index_of (foldl (push_member i) t keys) key) =
    set (index_of t key) \<union> (if key \<in> set keys then {i} else {})"
  by (induction keys arbitrary: t) (auto simp: index_push)

lemma index_collect:
  "set (index_of (foldl (\<lambda>t (k, d). foldl (push_member (dd_id d)) t (member_keys d)) t defs) key) =
     set (index_of t key) \<union> {dd_id d | k d. (k, d) \<in> set defs \<and> key \<in> set (member_keys d)}"
proof (induction defs arbitrary: t)
  case (Cons x defs)
  obtain k d where "x = (k, d)" by (cases x)
  with Cons show ?case by (auto simp: index_push_all split: if_splits)
qed simp

lemma domains_for_subject_set:
  assumes "registry_ok reg"
  shows "set (domains_for_subject reg s) =
    {dd_id d | k d. (k, d) \<in> set (reg_definitions reg) \<and>
       (\<exists>m \<in> set (dd_members d). subject_identity (dm_subject m) = subject_identity s)}"
proof -
  have "set (domains_for_subject reg s) =
      set (index_of (collect_membership (reg_definitions reg)) (subject_key s))"
  proof -
    have "reg_membership reg = map_values sort_unique (collect_membership (reg_definitions reg))"
      using assms by (simp add: registry_ok_def rebuild_membership_def)
    then show ?thesis
      by (cases "map_of (collect_membership (reg_definitions reg)) (subject_key s)")
        (simp_all add: domains_for_subject_def index_of_def)
  qed
  also have "\<dots> = {dd_id d | k d. (k, d) \<in> set (reg_definitions reg) \<and> subject_key s \<in> set (member_keys d)}"
    unfolding collect_membership_def index_collect by (simp add: index_of_def)
  also have "\<dots> = {dd_id d | k d. (k, d) \<in> set (reg_definitions reg) \<and>
       (\<exists>m \<in> set (dd_members d). subject_identity (dm_subject m) = subject_identity s)}"
    by (simp add: member_keys_def image_iff subject_key_iff eq_commute [of "subject_identity s"])
  finally show ?thesis .
qed

section \<open>Aggregation keeps provenance honest\<close>

lemma hottest_fold:
  assumes "\<not> is_nan (ev_temperature h)" "\<forall>e \<in> set es. \<not> is_nan (ev_temperature e)"
  defines "r \<equiv> foldl (\<lambda>h e. if flt (ev_temperature h) (ev_temperature e) then e else h) h es"
  shows "r \<in> insert h (set es) \<and> (\<forall>e \<in> insert h (set es). fle (ev_temperature e) (ev_temperature r))"
  using assms(1,2) unfolding r_def
proof (induction es arbitrary: h)
  case (Cons x es)
  let ?n = "if flt (ev_temperature h) (ev_temperature x) then x else h"
  let ?r = "foldl (\<lambda>h e. if flt (ev_temperature h) (ev_temperature e) then e else h) ?n es"
  have IH: "?r \<in> insert ?n (set es) \<and> (\<forall>e \<in> insert ?n (set es). fle (ev_temperature e) (ev_temperature ?r))"
    using Cons.prems by (intro Cons.IH) auto
  have "fle (ev_temperature h) (ev_temperature ?n)" "fle (ev_temperature x) (ev_temperature ?n)"
    using Cons.prems not_flt_iff by (auto intro: flt_imp_fle)
  then have "fle (ev_temperature h) (ev_temperature ?r)" "fle (ev_temperature x) (ev_temperature ?r)"
    using IH by (blast intro: fle_trans)+
  then show ?case using IH by auto
qed simp

lemma hottest_is_max:
  assumes "es \<noteq> []" "\<forall>e \<in> set es. \<not> is_nan (ev_temperature e)"
  shows "hottest es \<in> set es" "\<forall>e \<in> set es. fle (ev_temperature e) (ev_temperature (hottest es))"
proof -
  have eq: "insert (hd es) (set es) = set es" using assms(1) by (simp add: insert_absorb)
  have "\<not> is_nan (ev_temperature (hd es))" using assms by simp
  from hottest_fold [OF this assms(2)]
  show "hottest es \<in> set es" "\<forall>e \<in> set es. fle (ev_temperature e) (ev_temperature (hottest es))"
    unfolding hottest_def eq by simp_all
qed

lemma combined_provenance_rank:
  assumes "es \<noteq> []"
  shows "provenance_rank (combined_provenance es) = Max (provenance_rank ` ev_provenance ` set es)"
proof -
  obtain x xs where es: "es = x # xs" using assms by (cases es) auto
  have "foldl (\<lambda>c e. combine c (ev_provenance e)) p ys = foldl combine p (map ev_provenance ys)" for p ys
    by (induction ys arbitrary: p) simp_all
  then have "combined_provenance es = foldl combine (ev_provenance x) (map ev_provenance xs)"
    by (simp only: es combined_provenance_def list.sel)
  then show ?thesis by (simp add: es prov.rank_fold)
qed

lemma combine_synthetic_not_real: "combine p P_SYNTHETIC \<noteq> P_REAL"
  by (cases p) (simp_all add: combine_def)

lemma aggregate_modelled_not_real:
  assumes "compute_aggregate d es = Inr r"
    and "dd_aggregation d = AR_CONFIGURED_WEIGHTED_RULE \<or> dd_aggregation d = AR_SYNTHETIC_AGGREGATION"
  shows "ag_provenance r \<noteq> P_REAL"
  using assms combine_synthetic_not_real
  by (auto simp: compute_aggregate_def Let_def split: if_splits prod.splits option.splits)

end
