(* ===== verification/Headroom.thy ===== *)
theory Headroom
  imports Policy
begin

text \<open>
  \<^verbatim>\<open>headroom.hpp\<close> and \<^verbatim>\<open>headroom.cpp\<close>: the explicit headroom computation, in binary64
  arithmetic with the operation order of the source, and what its sign means.
\<close>

section \<open>Computation\<close>

record headroom_input =
  hi_current_temperature :: celsius
  hi_policy_critical :: celsius
  hi_vendor_limit :: "celsius option"
  hi_vendor_limit_provenance :: provenance
  hi_uncertainty_margin :: delta
  hi_policy_safety_margin :: delta
  hi_recovery_margin :: delta
  hi_recovery_threshold :: celsius

record headroom =
  hb_policy_critical :: celsius
  hb_vendor_limit :: "celsius option"
  hb_governing_limit :: celsius
  hb_current_temperature :: celsius
  hb_raw_headroom :: delta
  hb_policy_safety_margin :: delta
  hb_uncertainty_margin :: delta
  hb_effective_headroom :: delta
  hb_recovery_threshold :: celsius
  hb_recovery_margin :: delta
  hb_distance_above_recovery_gate :: delta

definition empty_headroom :: headroom where
  "empty_headroom =
     \<lparr>hb_policy_critical = Fin 0, hb_vendor_limit = None, hb_governing_limit = Fin 0,
      hb_current_temperature = Fin 0, hb_raw_headroom = Fin 0, hb_policy_safety_margin = Fin 0,
      hb_uncertainty_margin = Fin 0, hb_effective_headroom = Fin 0, hb_recovery_threshold = Fin 0,
      hb_recovery_margin = Fin 0, hb_distance_above_recovery_gate = Fin 0\<rparr>"

definition has_positive_headroom :: "headroom \<Rightarrow> bool" where
  "has_positive_headroom h \<longleftrightarrow> flt (Fin 0) (hb_effective_headroom h)"

definition recovery_headroom_satisfied :: "headroom \<Rightarrow> bool" where
  "recovery_headroom_satisfied h \<longleftrightarrow> flt (hb_distance_above_recovery_gate h) (Fin 0)"

definition meets_demand :: "headroom \<Rightarrow> delta \<Rightarrow> bool" where
  "meets_demand h demand \<longleftrightarrow> fle demand (hb_effective_headroom h)"

definition uncertainty_from_confidence :: "f64 option \<Rightarrow> delta \<Rightarrow> delta" where
  "uncertainty_from_confidence confidence configured =
     (case confidence of
        None \<Rightarrow> configured
      | Some c \<Rightarrow> fmul configured (fsub (Fin 1) (fclamp c (Fin 0) (Fin 1))))"

definition valid_vendor_limit :: "headroom_input \<Rightarrow> celsius option" where
  "valid_vendor_limit i =
     (case hi_vendor_limit i of
        Some v \<Rightarrow> if celsius_is_valid v then Some v else None
      | None \<Rightarrow> None)"

definition governing_limit :: "headroom_input \<Rightarrow> celsius" where
  "governing_limit i =
     (case valid_vendor_limit i of
        Some v \<Rightarrow>
          if hi_vendor_limit_provenance i = P_REAL \<and> flt v (hi_policy_critical i)
          then v else hi_policy_critical i
      | None \<Rightarrow> hi_policy_critical i)"

definition compute_headroom :: "headroom_input \<Rightarrow> headroom" where
  "compute_headroom i =
     (let governing = governing_limit i;
          raw = fsub governing (hi_current_temperature i)
      in \<lparr>hb_policy_critical = hi_policy_critical i,
          hb_vendor_limit = valid_vendor_limit i,
          hb_governing_limit = governing,
          hb_current_temperature = hi_current_temperature i,
          hb_raw_headroom = raw,
          hb_policy_safety_margin = hi_policy_safety_margin i,
          hb_uncertainty_margin = hi_uncertainty_margin i,
          hb_effective_headroom =
            fsub (fsub raw (hi_policy_safety_margin i)) (hi_uncertainty_margin i),
          hb_recovery_threshold = hi_recovery_threshold i,
          hb_recovery_margin = hi_recovery_margin i,
          hb_distance_above_recovery_gate =
            fsub (hi_current_temperature i) (fadd (hi_recovery_threshold i) (hi_recovery_margin i))\<rparr>)"

definition render_headroom :: "headroom \<Rightarrow> string" where
  "render_headroom h =
     ''PolicyMaximumLegalTemperature: '' @ number (hb_policy_critical h) @ nl @
     ''VendorTemperatureLimit: '' @
       (case hb_vendor_limit h of Some v \<Rightarrow> number v | None \<Rightarrow> ''<unsupported>'') @ nl @
     ''GoverningLimit: '' @ number (hb_governing_limit h) @ nl @
     ''CurrentTemperature: '' @ number (hb_current_temperature h) @ nl @
     ''RawHeadroom: '' @ number (hb_raw_headroom h) @ nl @
     ''PolicySafetyMargin: '' @ number (hb_policy_safety_margin h) @ nl @
     ''UncertaintyMargin: '' @ number (hb_uncertainty_margin h) @ nl @
     ''EffectiveHeadroom: '' @ number (hb_effective_headroom h) @ nl @
     ''RecoveryThreshold: '' @ number (hb_recovery_threshold h) @ nl @
     ''RecoveryMargin: '' @ number (hb_recovery_margin h) @ nl @
     ''DistanceAboveRecoveryGate: '' @ number (hb_distance_above_recovery_gate h) @ nl"

section \<open>Properties\<close>

lemma governing_limit_le:
  "\<not> is_nan (hi_policy_critical i) \<Longrightarrow> fle (governing_limit i) (hi_policy_critical i)"
  by (auto simp: governing_limit_def split: option.splits intro: flt_imp_fle)

lemma governing_limit_cases:
  "governing_limit i = hi_policy_critical i \<or>
     (hi_vendor_limit i = Some (governing_limit i) \<and> hi_vendor_limit_provenance i = P_REAL \<and>
      celsius_is_valid (governing_limit i) \<and> flt (governing_limit i) (hi_policy_critical i))"
proof (cases "valid_vendor_limit i")
  case None
  then show ?thesis by (simp add: governing_limit_def)
next
  case (Some v)
  then have "hi_vendor_limit i = Some v \<and> celsius_is_valid v"
    by (simp add: valid_vendor_limit_def split: option.splits if_splits)
  then show ?thesis using Some by (simp add: governing_limit_def)
qed

lemma governing_limit_double:
  assumes "is_double (hi_policy_critical i)" "\<And>v. hi_vendor_limit i = Some v \<Longrightarrow> is_double v"
  shows "is_double (governing_limit i)"
  using governing_limit_cases [of i] assms by fastforce

lemma governing_limit_finite:
  "is_finite (hi_policy_critical i) \<Longrightarrow> is_finite (governing_limit i)"
  using governing_limit_cases [of i] celsius_valid_finite [of "governing_limit i"] by fastforce

text \<open>Positive effective headroom means that the temperature is strictly below the limit.\<close>

lemma positive_headroom_below:
  assumes pos: "flt (Fin 0) (hb_effective_headroom (compute_headroom i))"
    and d: "is_double (governing_limit i)" "is_double (hi_current_temperature i)"
    and m: "fle (Fin 0) (hi_policy_safety_margin i)" "fle (Fin 0) (hi_uncertainty_margin i)"
      "is_double (hi_policy_safety_margin i)"
  shows "flt (hi_current_temperature i) (governing_limit i)"
proof -
  let ?raw = "fsub (governing_limit i) (hi_current_temperature i)"
  have raw: "is_double ?raw" by (rule is_double_fsub [OF d])
  have "flt (Fin 0) (fsub (fsub ?raw (hi_policy_safety_margin i)) (hi_uncertainty_margin i))"
    using pos by (simp only: compute_headroom_def Let_def headroom.simps)
  then have "flt (Fin 0) (fsub ?raw (hi_policy_safety_margin i))"
    by (rule fsub_pos_imp_pos [OF is_double_fsub [OF raw m(3)] m(2)])
  then have "flt (Fin 0) ?raw"
    by (rule fsub_pos_imp_pos [OF raw m(1)])
  then show ?thesis by (simp only: fsub_zero_flt [OF d])
qed

lemma recovery_gate_below:
  assumes "is_double (hi_current_temperature i)"
    and "is_double (hi_recovery_threshold i)" "is_double (hi_recovery_margin i)"
  shows "recovery_headroom_satisfied (compute_headroom i) \<longleftrightarrow>
    flt (hi_current_temperature i) (fadd (hi_recovery_threshold i) (hi_recovery_margin i))"
  using assms by (simp add: recovery_headroom_satisfied_def compute_headroom_def Let_def fsub_flt_zero)

lemma compute_headroom_fields [simp]:
  "hb_governing_limit (compute_headroom i) = governing_limit i"
  "hb_current_temperature (compute_headroom i) = hi_current_temperature i"
  "hb_policy_critical (compute_headroom i) = hi_policy_critical i"
  "hb_policy_safety_margin (compute_headroom i) = hi_policy_safety_margin i"
  "hb_uncertainty_margin (compute_headroom i) = hi_uncertainty_margin i"
  "hb_vendor_limit (compute_headroom i) = valid_vendor_limit i"
  by (simp_all add: compute_headroom_def Let_def)

lemma uncertainty_absent [simp]: "uncertainty_from_confidence None configured = configured"
  by (simp add: uncertainty_from_confidence_def)

lemma uncertainty_full_confidence:
  "is_finite configured \<Longrightarrow> feq (uncertainty_from_confidence (Some (Fin 1)) configured) (Fin 0)"
  by (cases configured) (auto simp: uncertainty_from_confidence_def fclamp_def fmul_def signed_zero_def feq_def)

end
