(* ===== verification/Recovery.thy ===== *)
theory Recovery
  imports Headroom Evidence
begin

text \<open>
  \<^verbatim>\<open>recovery.hpp\<close> and \<^verbatim>\<open>recovery.cpp\<close>: the bounded history of observations, its
  invalidation, the backward walk that counts the qualifying run, and the recovery gate.
\<close>

section \<open>History\<close>

record recovery_sample =
  rs_evidence_id :: ident
  rs_temperature :: celsius
  rs_at :: time_ns
  rs_worker_boot :: ident
  rs_worker :: ident
  rs_coordinator_epoch :: ident
  rs_device_generation :: ident
  rs_domain_generation :: ident
  rs_telemetry_generation :: ident
  rs_throttle_class :: throttle_class
  rs_provenance :: provenance
  rs_admissible :: bool

record recovery_history =
  rh_capacity :: nat
  rh_samples :: "recovery_sample list"

definition new_history :: "nat \<Rightarrow> recovery_history" where
  "new_history capacity = \<lparr>rh_capacity = (if capacity = 0 then 1 else capacity), rh_samples = []\<rparr>"

definition trim_front :: "nat \<Rightarrow> 'a list \<Rightarrow> 'a list" where
  "trim_front n xs = (if n < length xs then drop (length xs - n) xs else xs)"

definition history_push :: "recovery_sample \<Rightarrow> recovery_history \<Rightarrow> recovery_history" where
  "history_push s h = h \<lparr>rh_samples := trim_front (rh_capacity h) (rh_samples h @ [s])\<rparr>"

definition history_clear :: "recovery_history \<Rightarrow> recovery_history" where
  "history_clear h = h \<lparr>rh_samples := []\<rparr>"

definition history_set_capacity :: "nat \<Rightarrow> recovery_history \<Rightarrow> recovery_history" where
  "history_set_capacity capacity h =
     (let c = (if capacity = 0 then 1 else capacity)
      in h \<lparr>rh_capacity := c, rh_samples := trim_front c (rh_samples h)\<rparr>)"

definition invalidate_for_boot :: "ident \<Rightarrow> recovery_history \<Rightarrow> recovery_history" where
  "invalidate_for_boot boot h =
     h \<lparr>rh_samples := filter (\<lambda>s. rs_worker_boot s = boot) (rh_samples h)\<rparr>"

definition invalidate_for_epoch :: "ident \<Rightarrow> recovery_history \<Rightarrow> recovery_history" where
  "invalidate_for_epoch epoch h =
     h \<lparr>rh_samples := filter (\<lambda>s. rs_coordinator_epoch s = epoch) (rh_samples h)\<rparr>"

definition invalidate_for_device_generation :: "ident \<Rightarrow> recovery_history \<Rightarrow> recovery_history" where
  "invalidate_for_device_generation g h =
     h \<lparr>rh_samples := filter (\<lambda>s. rs_device_generation s = g) (rh_samples h)\<rparr>"

section \<open>Assessment\<close>

record recovery_input =
  ri_policy :: "thermal_policy option"
  ri_history :: "recovery_history option"
  ri_recovery_threshold :: celsius
  ri_recovery_margin :: delta
  ri_headroom :: headroom
  ri_evidence_provenance :: provenance
  ri_current_epoch :: ident
  ri_current_boot :: ident
  ri_current_device_generation :: ident
  ri_current_domain_generation :: ident
  ri_explicit_authorization :: bool
  ri_coupled_domains_recovered :: bool
  ri_coupled_domains_checked :: bool
  ri_distinct_witnesses :: nat

definition empty_recovery_input :: recovery_input where
  "empty_recovery_input =
     \<lparr>ri_policy = None, ri_history = None, ri_recovery_threshold = Fin 0,
      ri_recovery_margin = Fin 0, ri_headroom = empty_headroom,
      ri_evidence_provenance = P_UNKNOWN, ri_current_epoch = 0, ri_current_boot = 0,
      ri_current_device_generation = 0, ri_current_domain_generation = 0,
      ri_explicit_authorization = False, ri_coupled_domains_recovered = True,
      ri_coupled_domains_checked = False, ri_distinct_witnesses = 0\<rparr>"

record recovery_assessment =
  ra_allowed :: bool
  ra_recovery_threshold :: celsius
  ra_recovery_margin :: delta
  ra_current_temperature :: celsius
  ra_effective_headroom :: delta
  ra_qualifying_samples :: u32
  ra_required_samples :: u32
  ra_qualifying_span :: millis
  ra_required_span :: millis
  ra_distinct_witnesses :: nat
  ra_required_witnesses :: nat
  ra_temperature_below_threshold :: bool
  ra_headroom_requirement_satisfied :: bool
  ra_throttle_clear :: bool
  ra_generation_binding_ok :: bool
  ra_coupled_domains_satisfied :: bool
  ra_explicit_authorization_present :: bool
  ra_blocking_reasons :: reason_set
  ra_satisfied_reasons :: reason_set

definition empty_assessment :: recovery_assessment where
  "empty_assessment =
     \<lparr>ra_allowed = False, ra_recovery_threshold = Fin 0, ra_recovery_margin = Fin 0,
      ra_current_temperature = Fin 0, ra_effective_headroom = Fin 0, ra_qualifying_samples = 0,
      ra_required_samples = 0, ra_qualifying_span = 0, ra_required_span = 0,
      ra_distinct_witnesses = 0, ra_required_witnesses = 0,
      ra_temperature_below_threshold = False, ra_headroom_requirement_satisfied = False,
      ra_throttle_clear = False, ra_generation_binding_ok = False,
      ra_coupled_domains_satisfied = False, ra_explicit_authorization_present = False,
      ra_blocking_reasons = [], ra_satisfied_reasons = []\<rparr>"

text \<open>\<^verbatim>\<open>duration_cast\<close> to milliseconds truncates towards zero.\<close>

definition millis_of_ns :: "int \<Rightarrow> millis" where
  "millis_of_ns d = (if d < 0 then - ((- d) div 1000000) else d div 1000000)"

record walk =
  wk_witnesses :: "ident list"
  wk_newest :: "time_ns option"
  wk_oldest :: "time_ns option"
  wk_throttle_clear :: bool
  wk_generation_binding_ok :: bool
  wk_qualifying :: u32

definition walk_start :: walk where
  "walk_start =
     \<lparr>wk_witnesses = [], wk_newest = None, wk_oldest = None, wk_throttle_clear = True,
      wk_generation_binding_ok = True, wk_qualifying = 0\<rparr>"

text \<open>The body of the loop for a sample that qualifies.\<close>

definition walk_count :: "recovery_sample \<Rightarrow> walk \<Rightarrow> walk" where
  "walk_count s w =
     w \<lparr>wk_qualifying := wk_qualifying w + 1,
        wk_newest := (case wk_newest w of None \<Rightarrow> Some (rs_at s) | Some t \<Rightarrow> Some t),
        wk_oldest := Some (rs_at s),
        wk_witnesses := (if rs_worker_boot s \<in> set (wk_witnesses w) then wk_witnesses w
          else wk_witnesses w @ [rs_worker_boot s])\<rparr>"

fun recovery_walk :: "recovery_policy \<Rightarrow> recovery_input \<Rightarrow> recovery_sample list \<Rightarrow> walk \<Rightarrow> walk" where
  "recovery_walk p i [] w = w"
| "recovery_walk p i (s # ss) w =
     (if \<not> rs_admissible s then w
      else if rp_require_same_worker_boot p \<and> rs_worker_boot s \<noteq> ri_current_boot i
      then w \<lparr>wk_generation_binding_ok := False\<rparr>
      else if rp_require_same_coordinator_epoch p \<and> rs_coordinator_epoch s \<noteq> ri_current_epoch i
      then w \<lparr>wk_generation_binding_ok := False\<rparr>
      else if rp_require_same_device_generation p \<and>
              rs_device_generation s \<noteq> ri_current_device_generation i
      then w \<lparr>wk_generation_binding_ok := False\<rparr>
      else if fle (fadd (ri_recovery_threshold i) (ri_recovery_margin i)) (rs_temperature s) then w
      else if rp_require_no_thermal_throttle p \<and> rs_throttle_class s = TH_THERMAL_THROTTLE_OBSERVED
      then w \<lparr>wk_throttle_clear := False\<rparr>
      else recovery_walk p i ss (walk_count s w))"

definition history_walk :: "recovery_policy \<Rightarrow> recovery_input \<Rightarrow> walk" where
  "history_walk p i =
     (case ri_history i of
        None \<Rightarrow> walk_start
      | Some h \<Rightarrow> recovery_walk p i (rev (rh_samples h)) walk_start)"

text \<open>The span is an unbounded difference; the source subtracts 64-bit times, assumed not to overflow.\<close>

definition walk_span :: "walk \<Rightarrow> millis" where
  "walk_span w =
     (case (wk_newest w, wk_oldest w) of
        (Some n, Some ol) \<Rightarrow> millis_of_ns (n - ol)
      | _ \<Rightarrow> 0)"

definition reason_if :: "bool \<Rightarrow> reason_code \<Rightarrow> reason_set \<Rightarrow> reason_set" where
  "reason_if b code codes = (if b then reason_add code codes else codes)"

definition evaluate_recovery :: "recovery_input \<Rightarrow> recovery_assessment" where
  "evaluate_recovery i =
     (let h = ri_headroom i;
          out0 = empty_assessment \<lparr>ra_recovery_threshold := ri_recovery_threshold i,
            ra_recovery_margin := ri_recovery_margin i,
            ra_current_temperature := hb_current_temperature h,
            ra_effective_headroom := hb_effective_headroom h\<rparr>
      in case ri_policy i of
        None \<Rightarrow> out0 \<lparr>ra_blocking_reasons := reason_add R_RECOVERY_FORBIDDEN_BY_POLICY []\<rparr>
      | Some policy \<Rightarrow>
        let p = pol_recovery policy; f = pol_freshness policy;
            out1 = out0 \<lparr>ra_required_samples := fr_required_consecutive_samples f,
              ra_required_span := fr_min_evidence_span f,
              ra_required_witnesses := unat (fr_min_distinct_witnesses f)\<rparr>;
            unsupported = (ri_evidence_provenance i = P_UNSUPPORTED \<and>
              rp_forbid_recovery_after_unsupported_evidence p)
        in if unsupported
           then out1 \<lparr>ra_blocking_reasons := reason_add R_RECOVERY_FORBIDDEN_BY_POLICY []\<rparr>
           else
             let below = flt (hb_distance_above_recovery_gate h) (Fin 0);
                 need_headroom = rp_require_headroom_above_recovery_margin p;
                 headroom_ok = (if need_headroom then flt (Fin 0) (hb_effective_headroom h) else True);
                 w = history_walk p i;
                 span = walk_span w;
                 qualifying = wk_qualifying w;
                 witnesses = length (wk_witnesses w);
                 b1 = reason_add (if below then R_RECOVERY_THRESHOLD_SATISFIED
                        else R_RECOVERY_THRESHOLD_EXCEEDED) [];
                 b2 = reason_if need_headroom
                        (if headroom_ok then R_EFFECTIVE_HEADROOM_SUFFICIENT
                         else R_EFFECTIVE_HEADROOM_BELOW_DEMAND) b1;
                 b3 = reason_if (rp_require_no_thermal_throttle p \<and> \<not> wk_throttle_clear w)
                        R_RECOVERY_BLOCKED_BY_THROTTLE_EVIDENCE b2;
                 b4 = reason_if (\<not> wk_generation_binding_ok w) R_EVIDENCE_GENERATION_INVALIDATED b3;
                 b5 = reason_if (qualifying < ra_required_samples out1)
                        R_RECOVERY_SAMPLES_INSUFFICIENT b4;
                 b6 = reason_if (span < ra_required_span out1)
                        R_RECOVERY_EVIDENCE_SPAN_INSUFFICIENT b5;
                 b7 = reason_if (witnesses < ra_required_witnesses out1)
                        R_RECOVERY_WITNESSES_INSUFFICIENT b6;
                 b8 = reason_if (rp_require_coupled_domains_recovered p \<and>
                        ri_coupled_domains_checked i \<and> \<not> ri_coupled_domains_recovered i)
                        R_RECOVERY_BLOCKED_BY_COUPLED_DOMAIN b7;
                 b9 = reason_if (rp_require_explicit_authorization p \<and> \<not> ri_explicit_authorization i)
                        R_RECOVERY_REQUIRES_EXPLICIT_AUTHORIZATION b8;
                 allowed = (below \<and> headroom_ok \<and> wk_throttle_clear w \<and>
                   ra_required_samples out1 \<le> qualifying \<and> ra_required_span out1 \<le> span \<and>
                   ra_required_witnesses out1 \<le> witnesses \<and> ri_coupled_domains_recovered i \<and>
                   (\<not> rp_require_explicit_authorization p \<or> ri_explicit_authorization i) \<and>
                   \<not> unsupported)
             in out1 \<lparr>ra_allowed := allowed,
                  ra_qualifying_samples := qualifying,
                  ra_qualifying_span := span,
                  ra_distinct_witnesses := witnesses,
                  ra_temperature_below_threshold := below,
                  ra_headroom_requirement_satisfied := headroom_ok,
                  ra_throttle_clear := wk_throttle_clear w,
                  ra_generation_binding_ok := wk_generation_binding_ok w,
                  ra_coupled_domains_satisfied := ri_coupled_domains_recovered i,
                  ra_explicit_authorization_present := ri_explicit_authorization i,
                  ra_blocking_reasons :=
                    canonicalise_reasons (if allowed then reason_add R_RECOVERY_AUTHORIZED [] else b9),
                  ra_satisfied_reasons :=
                    canonicalise_reasons (if allowed then reason_add R_RECOVERY_AUTHORIZED [] else [])\<rparr>)"

definition render_recovery :: "recovery_assessment \<Rightarrow> string" where
  "render_recovery a =
     ''Allowed: '' @ bool_text (ra_allowed a) @ nl @
     ''RecoveryThreshold: '' @ number (ra_recovery_threshold a) @ nl @
     ''RecoveryMargin: '' @ number (ra_recovery_margin a) @ nl @
     ''CurrentTemperature: '' @ number (ra_current_temperature a) @ nl @
     ''EffectiveHeadroom: '' @ number (ra_effective_headroom a) @ nl @
     ''QualifyingSamples: '' @ unsigned_decimal (ucast (ra_qualifying_samples a)) @ ''/'' @
       unsigned_decimal (ucast (ra_required_samples a)) @ nl @
     ''QualifyingSpanMs: '' @ millis_text (ra_qualifying_span a) @ ''/'' @
       millis_text (ra_required_span a) @ nl @
     ''DistinctWitnesses: '' @ unsigned_decimal (word_of_nat (ra_distinct_witnesses a)) @ ''/'' @
       unsigned_decimal (word_of_nat (ra_required_witnesses a)) @ nl @
     ''TemperatureBelowThreshold: '' @ bool_text (ra_temperature_below_threshold a) @ nl @
     ''HeadroomSatisfied: '' @ bool_text (ra_headroom_requirement_satisfied a) @ nl @
     ''ThrottleClear: '' @ bool_text (ra_throttle_clear a) @ nl @
     ''GenerationBindingOk: '' @ bool_text (ra_generation_binding_ok a) @ nl @
     ''CoupledDomainsSatisfied: '' @ bool_text (ra_coupled_domains_satisfied a) @ nl @
     ''ExplicitAuthorization: '' @ bool_text (ra_explicit_authorization_present a) @ nl @
     ''Reasons: '' @ render_reasons (ra_blocking_reasons a) @ nl"

record recovery_authorization =
  rz_domain :: ident
  rz_domain_generation :: ident
  rz_recovery_generation :: ident
  rz_coordinator_epoch :: ident
  rz_policy_generation :: ident
  rz_worker_boot :: ident
  rz_device_generation :: ident
  rz_revalidated_at_domain_generation :: ident

section \<open>The history is bounded and keeps the newest samples\<close>

definition history_ok :: "recovery_history \<Rightarrow> bool" where
  "history_ok h \<longleftrightarrow> 0 < rh_capacity h \<and> length (rh_samples h) \<le> rh_capacity h"

lemma length_trim_front: "length (trim_front n xs) = min n (length xs)"
  by (auto simp: trim_front_def)

lemma history_ok_new [simp]: "history_ok (new_history c)"
  by (simp add: history_ok_def new_history_def)

lemma history_ok_push [simp]: "history_ok h \<Longrightarrow> history_ok (history_push s h)"
  by (simp add: history_ok_def history_push_def length_trim_front)

lemma history_ok_filters [simp]:
  "history_ok h \<Longrightarrow> history_ok (invalidate_for_boot i h)"
  "history_ok h \<Longrightarrow> history_ok (invalidate_for_epoch i h)"
  "history_ok h \<Longrightarrow> history_ok (invalidate_for_device_generation i h)"
  "history_ok h \<Longrightarrow> history_ok (history_clear h)"
  "history_ok h \<Longrightarrow> history_ok (history_set_capacity n h)"
  using order_trans [OF length_filter_le]
  by (auto simp: history_ok_def invalidate_for_boot_def invalidate_for_epoch_def Let_def
      invalidate_for_device_generation_def history_clear_def history_set_capacity_def length_trim_front)

lemma history_push_last: "history_ok h \<Longrightarrow> last (rh_samples (history_push s h)) = s"
  by (auto simp: history_ok_def history_push_def trim_front_def)

lemma history_push_suffix:
  "\<exists>dropped. dropped @ rh_samples (history_push s h) = rh_samples h @ [s]"
  unfolding history_push_def trim_front_def
  by (cases "rh_capacity h < length (rh_samples h @ [s])")
    (simp_all del: drop_append, metis append_take_drop_id)

section \<open>The walk counts the newest qualifying run\<close>

text \<open>The reference: a sample qualifies when it passes every test of the loop.\<close>

definition qualifies :: "recovery_policy \<Rightarrow> recovery_input \<Rightarrow> recovery_sample \<Rightarrow> bool" where
  "qualifies p i s \<longleftrightarrow>
     rs_admissible s \<and>
     (rp_require_same_worker_boot p \<longrightarrow> rs_worker_boot s = ri_current_boot i) \<and>
     (rp_require_same_coordinator_epoch p \<longrightarrow> rs_coordinator_epoch s = ri_current_epoch i) \<and>
     (rp_require_same_device_generation p \<longrightarrow>
        rs_device_generation s = ri_current_device_generation i) \<and>
     \<not> fle (fadd (ri_recovery_threshold i) (ri_recovery_margin i)) (rs_temperature s) \<and>
     (rp_require_no_thermal_throttle p \<longrightarrow> rs_throttle_class s \<noteq> TH_THERMAL_THROTTLE_OBSERVED)"

definition qualifying_run :: "recovery_policy \<Rightarrow> recovery_input \<Rightarrow> recovery_sample list \<Rightarrow> recovery_sample list" where
  "qualifying_run p i newest_first = takeWhile (qualifies p i) newest_first"

text \<open>The counters of the walk do not depend on how the run ends.\<close>

definition same_counts :: "walk \<Rightarrow> walk \<Rightarrow> bool" where
  "same_counts v w \<longleftrightarrow>
     wk_qualifying v = wk_qualifying w \<and> wk_newest v = wk_newest w \<and> wk_oldest v = wk_oldest w \<and>
     wk_witnesses v = wk_witnesses w"

lemma recovery_walk_counts:
  "same_counts (recovery_walk p i ss w) (foldl (\<lambda>w s. walk_count s w) w (qualifying_run p i ss))"
  by (induction p i ss w rule: recovery_walk.induct)
    (auto simp: qualifying_run_def qualifies_def same_counts_def)

lemma foldl_count_qualifying:
  "wk_qualifying (foldl (\<lambda>w s. walk_count s w) w ss) = wk_qualifying w + of_nat (length ss)"
  by (induction ss arbitrary: w) (simp_all add: walk_count_def algebra_simps)

lemma foldl_count_newest:
  "wk_newest (foldl (\<lambda>w s. walk_count s w) w ss) =
     (case wk_newest w of Some t \<Rightarrow> Some t | None \<Rightarrow> (if ss = [] then None else Some (rs_at (hd ss))))"
  by (induction ss arbitrary: w) (simp_all add: walk_count_def split: option.splits)

lemma foldl_count_oldest:
  "wk_oldest (foldl (\<lambda>w s. walk_count s w) w ss) =
     (if ss = [] then wk_oldest w else Some (rs_at (last ss)))"
  by (induction ss arbitrary: w) (simp_all add: walk_count_def)

lemma foldl_count_witnesses:
  "set (wk_witnesses (foldl (\<lambda>w s. walk_count s w) w ss)) = set (wk_witnesses w) \<union> rs_worker_boot ` set ss"
  "distinct (wk_witnesses w) \<Longrightarrow> distinct (wk_witnesses (foldl (\<lambda>w s. walk_count s w) w ss))"
  by (induction ss arbitrary: w) (auto simp: walk_count_def)

lemma walk_qualifying:
  "wk_qualifying (recovery_walk p i ss walk_start) = of_nat (length (qualifying_run p i ss))"
  using recovery_walk_counts [of p i ss walk_start]
  by (simp add: same_counts_def foldl_count_qualifying) (simp add: walk_start_def)

lemma walk_span_run:
  "walk_span (recovery_walk p i ss walk_start) =
     (let run = qualifying_run p i ss
      in if run = [] then 0 else millis_of_ns (rs_at (hd run) - rs_at (last run)))"
  using recovery_walk_counts [of p i ss walk_start]
  by (simp add: same_counts_def foldl_count_newest foldl_count_oldest walk_span_def Let_def)
    (simp add: walk_start_def)

lemma walk_witness_count:
  "length (wk_witnesses (recovery_walk p i ss walk_start)) =
     card (rs_worker_boot ` set (qualifying_run p i ss))"
proof -
  let ?f = "foldl (\<lambda>w s. walk_count s w) walk_start (qualifying_run p i ss)"
  have "wk_witnesses (recovery_walk p i ss walk_start) = wk_witnesses ?f"
    using recovery_walk_counts by (simp add: same_counts_def)
  moreover have "distinct (wk_witnesses ?f)"
    by (rule foldl_count_witnesses(2)) (simp add: walk_start_def)
  moreover have "set (wk_witnesses ?f) = rs_worker_boot ` set (qualifying_run p i ss)"
    by (simp add: foldl_count_witnesses(1)) (simp add: walk_start_def)
  ultimately show ?thesis by (metis distinct_card)
qed

section \<open>What the gate guarantees\<close>

lemma recovery_allowedD:
  assumes "ra_allowed (evaluate_recovery i)"
  obtains policy where "ri_policy i = Some policy"
    "flt (hb_distance_above_recovery_gate (ri_headroom i)) (Fin 0)"
    "rp_require_headroom_above_recovery_margin (pol_recovery policy) \<longrightarrow>
       flt (Fin 0) (hb_effective_headroom (ri_headroom i))"
    "wk_throttle_clear (history_walk (pol_recovery policy) i)"
    "fr_required_consecutive_samples (pol_freshness policy) \<le>
       wk_qualifying (history_walk (pol_recovery policy) i)"
    "fr_min_evidence_span (pol_freshness policy) \<le>
       walk_span (history_walk (pol_recovery policy) i)"
    "unat (fr_min_distinct_witnesses (pol_freshness policy)) \<le>
       length (wk_witnesses (history_walk (pol_recovery policy) i))"
    "ri_coupled_domains_recovered i"
    "rp_require_explicit_authorization (pol_recovery policy) \<longrightarrow> ri_explicit_authorization i"
    "rp_forbid_recovery_after_unsupported_evidence (pol_recovery policy) \<longrightarrow>
       ri_evidence_provenance i \<noteq> P_UNSUPPORTED"
proof (cases "ri_policy i")
  case None
  then show ?thesis using assms by (simp add: evaluate_recovery_def Let_def empty_assessment_def)
next
  case (Some policy)
  show ?thesis
    by (rule that [OF Some])
      (use assms Some in \<open>auto simp: evaluate_recovery_def Let_def empty_assessment_def split: if_splits\<close>)
qed

lemma recovery_blocking_ok: "reasons_ok (ra_blocking_reasons (evaluate_recovery i))"
  by (simp add: evaluate_recovery_def Let_def empty_assessment_def reason_if_def split: option.splits)

end
