(* ===== verification/Evaluation.thy ===== *)
theory Evaluation
  imports Domain Recovery
begin

text \<open>
  \<^verbatim>\<open>evaluation.hpp\<close>, \<^verbatim>\<open>evaluation.cpp\<close> and \<^verbatim>\<open>envelope.hpp\<close>: the pure evaluation of one thermal
  domain, from capability and evidence checks through headroom, the recovery gate and the state
  machine to derating, decision and mitigation intents.
\<close>

section \<open>Inputs and outcome\<close>

record coupled_pressure =
  cpr_domain :: ident
  cpr_generation :: ident
  cpr_state :: thermal_state
  cpr_temperature :: celsius
  cpr_coupling :: coupling_type
  cpr_propagation :: propagation_class
  cpr_provenance :: provenance
  cpr_depth :: u32
  cpr_recovery_eligible :: bool

type_synonym rejected_alternative = "derating_level \<times> reason_code"

record evaluation_input =
  ei_domain :: ident
  ei_domain_generation :: ident
  ei_domain_type :: domain_type
  ei_policy :: thermal_policy
  ei_previous_state :: thermal_state
  ei_previous_derating :: derating_level
  ei_evidence :: "evidence option"
  ei_freshness :: freshness_state
  ei_evidence_conflict :: bool
  ei_temperature_capability :: capability_state
  ei_throttle_capability :: capability_state
  ei_limit_capability :: capability_state
  ei_recovery :: recovery_input
  ei_coupled :: "coupled_pressure list"
  ei_workload_profile :: workload_profile
  ei_coordinator_epoch :: ident
  ei_policy_generation :: ident
  ei_topology_generation :: ident

record evaluation =
  te_domain :: ident
  te_domain_generation :: ident
  te_state :: thermal_state
  te_derating :: derating_level
  te_decision :: thermal_decision
  te_headroom :: headroom
  te_throttle_class :: throttle_class
  te_provenance :: provenance
  te_permitted_concurrency :: percent
  te_permitted_execution_class :: execution_class
  te_permitted_clock_ceiling :: "megahertz option"
  te_permitted_workload_intensity :: f64
  te_prohibited_intents :: "mitigation_intent list"
  te_intents :: intent_set
  te_reasons :: reason_set
  te_rejected :: "rejected_alternative list"
  te_recovery :: recovery_assessment
  te_policy_generation :: ident
  te_telemetry_generation :: ident
  te_capability_generation :: ident
  te_topology_generation :: ident
  te_coordinator_epoch :: ident
  te_retained_by_hysteresis :: bool
  te_unclamped_derating :: derating_level

definition empty_evaluation :: evaluation where
  "empty_evaluation =
     \<lparr>te_domain = 0, te_domain_generation = 0, te_state = TS_UNKNOWN, te_derating = DL_UNKNOWN,
      te_decision = TD_UNKNOWN, te_headroom = empty_headroom,
      te_throttle_class = TH_THROTTLE_UNKNOWN, te_provenance = P_UNKNOWN,
      te_permitted_concurrency = Fin 0, te_permitted_execution_class = XC_BEST_EFFORT_THERMAL,
      te_permitted_clock_ceiling = None, te_permitted_workload_intensity = Fin 0,
      te_prohibited_intents = [], te_intents = [], te_reasons = [], te_rejected = [],
      te_recovery = empty_assessment, te_policy_generation = 0, te_telemetry_generation = 0,
      te_capability_generation = 0, te_topology_generation = 0, te_coordinator_epoch = 0,
      te_retained_by_hysteresis = False, te_unclamped_derating = DL_UNKNOWN\<rparr>"

section \<open>State machine\<close>

definition is_healthy_state :: "thermal_state \<Rightarrow> bool" where
  "is_healthy_state s \<longleftrightarrow> s = TS_NORMAL \<or> s = TS_WARM \<or> s = TS_NEAR_LIMIT"

definition retention_state :: "thermal_state \<Rightarrow> thermal_state" where
  "retention_state previous =
     (if previous = TS_THROTTLING \<or> previous = TS_CRITICAL \<or> previous = TS_DERATED
      then TS_DERATED else previous)"

fun decision_for_unknown :: "unknown_behavior \<Rightarrow> thermal_decision" where
  "decision_for_unknown UB_RETURN_UNKNOWN = TD_UNKNOWN"
| "decision_for_unknown UB_REVALIDATION_REQUIRED = TD_REVALIDATION_REQUIRED"
| "decision_for_unknown UB_DEFER = TD_DEFER"
| "decision_for_unknown UB_DENY = TD_DENY"
| "decision_for_unknown UB_ALLOW_DERATED = TD_ALLOW_DERATED"

fun decision_for_unsupported :: "unsupported_behavior \<Rightarrow> thermal_decision" where
  "decision_for_unsupported US_RETURN_UNSUPPORTED = TD_UNSUPPORTED"
| "decision_for_unsupported US_REVALIDATION_REQUIRED = TD_REVALIDATION_REQUIRED"
| "decision_for_unsupported US_DEFER = TD_DEFER"
| "decision_for_unsupported US_DENY = TD_DENY"

fun throttle_reason :: "throttle_class \<Rightarrow> reason_code" where
  "throttle_reason TH_THERMAL_THROTTLE_OBSERVED = R_THERMAL_THROTTLE_OBSERVED"
| "throttle_reason TH_NON_THERMAL_THROTTLE_OBSERVED = R_NON_THERMAL_THROTTLE_OBSERVED"
| "throttle_reason TH_NO_THROTTLE_OBSERVED = R_NO_THROTTLE_OBSERVED"
| "throttle_reason TH_THROTTLE_UNSUPPORTED = R_THROTTLE_EVIDENCE_UNSUPPORTED"
| "throttle_reason TH_THROTTLE_UNKNOWN = R_THROTTLE_EVIDENCE_UNKNOWN"

definition classify_throttle ::
  "capability_state \<Rightarrow> throttle_observation option \<Rightarrow> throttle_class \<times> reason_code" where
  "classify_throttle capability observed =
     (if capability = CS_UNSUPPORTED
      then (TH_THROTTLE_UNSUPPORTED, R_THROTTLE_EVIDENCE_UNSUPPORTED)
      else case observed of
        Some t \<Rightarrow> (thr_class t, throttle_reason (thr_class t))
      | None \<Rightarrow> (TH_THROTTLE_UNKNOWN, R_THROTTLE_EVIDENCE_UNKNOWN))"

text \<open>\<open>R_NONE\<close> marks the branch that adds no reason (adding it changes nothing).\<close>

definition temperature_band ::
  "thresholds \<Rightarrow> throttle_class \<Rightarrow> celsius \<Rightarrow> thermal_state \<times> reason_code" where
  "temperature_band t throttle temperature =
     (if fle (th_critical t) temperature then (TS_CRITICAL, R_CRITICAL_THRESHOLD_EXCEEDED)
      else if throttle = TH_THERMAL_THROTTLE_OBSERVED then (TS_THROTTLING, R_NONE)
      else if fle (th_derating t) temperature then (TS_DERATED, R_DERATING_THRESHOLD_EXCEEDED)
      else if fle (near_limit_start t) temperature
      then (TS_NEAR_LIMIT, R_TEMPERATURE_IN_NEAR_LIMIT_BAND)
      else if fle (th_warning t) temperature then (TS_WARM, R_TEMPERATURE_IN_WARNING_BAND)
      else (TS_NORMAL, R_TEMPERATURE_BELOW_WARNING))"

text \<open>One round of the loop over the coupled pressures: candidate, pressure flag, reasons.\<close>

definition coupling_step ::
  "coupling_policy \<Rightarrow> thermal_state \<times> bool \<times> reason_set \<Rightarrow> coupled_pressure \<Rightarrow>
     thermal_state \<times> bool \<times> reason_set" where
  "coupling_step p acc pressure =
     (case acc of (candidate, pressured, codes) \<Rightarrow>
       let s = cpr_state pressure;
           restrictive = (s = TS_DERATED \<or> s = TS_THROTTLING \<or> s = TS_CRITICAL);
           unresolved = (s = TS_UNKNOWN \<or> s = TS_UNSUPPORTED \<or> s = TS_REVALIDATION_REQUIRED);
           escalate = cp_escalate_to_hottest_neighbour p;
           counts = (restrictive \<and> severity TS_DERATED \<le> severity s) \<or> (unresolved \<and> escalate);
           candidate' = (if counts \<and> escalate \<and> severity candidate < severity s then s else candidate)
       in (candidate', pressured \<or> counts,
           reason_if (cpr_provenance pressure = P_SYNTHETIC) R_COUPLING_PROVENANCE_SYNTHETIC codes))"

text \<open>The loop stops in its first round when co-derating is off.\<close>

definition apply_coupling ::
  "coupling_policy \<Rightarrow> coupled_pressure list \<Rightarrow> thermal_state \<Rightarrow> thermal_state \<times> reason_set" where
  "apply_coupling p coupled candidate =
     (case (if cp_co_derate_coupled_domains p
            then foldl (coupling_step p) (candidate, False, []) coupled
            else (candidate, False, [])) of
        (c, pressured, codes) \<Rightarrow>
          if pressured
          then (if is_healthy_state c then TS_DERATED else c,
                reason_add R_COUPLED_DOMAIN_PRESSURE codes)
          else (c, codes))"

definition hysteresis_gate ::
  "thermal_state \<Rightarrow> recovery_assessment \<Rightarrow> thermal_state \<Rightarrow> reason_set \<Rightarrow> thermal_state \<times> reason_set"
  where
  "hysteresis_gate previous recovery candidate codes =
     (if \<not> is_healthy_state candidate then (candidate, codes)
      else if \<not> requires_recovery_gate previous then (candidate, codes)
      else if previous = TS_REVALIDATION_REQUIRED
      then (candidate, reason_add R_AUTHORITY_REVALIDATED codes)
      else if ra_allowed recovery then (candidate, reason_add R_RECOVERY_AUTHORIZED codes)
      else (retention_state previous,
            reason_add_all (ra_blocking_reasons recovery)
              (reason_add R_STATE_RETAINED_BY_HYSTERESIS codes)))"

text \<open>
  \<^verbatim>\<open>next_thermal_state\<close> writes the raw headroom, the throttle class and the reasons through
  references; the model returns them. It reads \<^verbatim>\<open>*input.evidence\<close>, so it takes the evidence.
\<close>

definition next_thermal_state ::
  "evaluation_input \<Rightarrow> evidence \<Rightarrow> recovery_assessment \<Rightarrow> reason_set \<Rightarrow>
     thermal_state \<times> delta \<times> throttle_class \<times> reason_set" where
  "next_thermal_state i e recovery codes =
     (let t = pol_thresholds (ei_policy i);
          raw = fsub (th_critical t) (ev_temperature e);
          (throttle, tr) = classify_throttle (ei_throttle_capability i) (ev_throttle e);
          (band, br) = temperature_band t throttle (ev_temperature e);
          (candidate, cr) = apply_coupling (pol_coupling (ei_policy i)) (ei_coupled i) band;
          codes' = reason_add_all cr (reason_add br (reason_add tr codes));
          (s, final) = hysteresis_gate (ei_previous_state i) recovery candidate codes'
      in (s, raw, throttle, final))"

section \<open>Derating and prohibited intents\<close>

definition derating_for_state :: "thermal_state \<Rightarrow> thermal_policy \<Rightarrow> bool \<Rightarrow> derating_level" where
  "derating_for_state s policy workload_restricted =
     (case s of
        TS_NORMAL \<Rightarrow> DL_FULL_CAPABILITY
      | TS_WARM \<Rightarrow> if workload_restricted then DL_DERATED_WORKLOAD_CLASS else DL_FULL_CAPABILITY
      | TS_NEAR_LIMIT \<Rightarrow> if workload_restricted then DL_DERATED_COMBINED else DL_DERATED_CONCURRENCY
      | TS_DERATED \<Rightarrow>
          if flt (concurrency_ceiling (pol_concurrency policy) s) (Fin 100)
          then DL_DERATED_COMBINED else DL_DERATED_CLOCK
      | TS_THROTTLING \<Rightarrow> DL_DERATED_COMBINED
      | TS_CRITICAL \<Rightarrow> DL_NO_SAFE_EXECUTION
      | TS_REVALIDATION_REQUIRED \<Rightarrow> DL_REVALIDATION_REQUIRED
      | TS_UNKNOWN \<Rightarrow> DL_UNKNOWN
      | TS_UNSUPPORTED \<Rightarrow> DL_UNSUPPORTED)"

definition prohibited_intents_for :: "thermal_state \<Rightarrow> thermal_policy \<Rightarrow> mitigation_intent list" where
  "prohibited_intents_for s policy =
     (let restricted = (s = TS_DERATED \<or> s = TS_THROTTLING \<or> s = TS_CRITICAL);
          unresolved = (s = TS_UNKNOWN \<or> s = TS_UNSUPPORTED \<or> s = TS_REVALIDATION_REQUIRED);
          o1 = (if restricted \<or> unresolved
                then [MI_REQUEST_CLOCK_RESTORE, MI_REQUEST_POWER_RESTORE,
                      MI_REQUEST_ADMISSION_RESTORE, MI_REQUEST_CONCURRENCY_RESTORE]
                else []);
          o2 = o1 @ (if s \<noteq> TS_CRITICAL then [MI_REQUEST_CONTAINMENT] else []);
          o3 = o2 @ (if \<not> policy_allows policy MI_REQUEST_WORKLOAD_MIGRATION
                     then [MI_REQUEST_WORKLOAD_MIGRATION] else []);
          o4 = o3 @ (if \<not> policy_allows policy MI_REQUEST_COOLING_INTERVENTION
                     then [MI_REQUEST_COOLING_INTERVENTION] else [])
      in sort_unique o4)"

section \<open>Evaluation\<close>

definition base_evaluation :: "evaluation_input \<Rightarrow> evaluation" where
  "base_evaluation i =
     (let policy = ei_policy i
      in empty_evaluation
       \<lparr>te_domain := ei_domain i, te_domain_generation := ei_domain_generation i,
        te_policy_generation := ei_policy_generation i,
        te_topology_generation := ei_topology_generation i,
        te_coordinator_epoch := ei_coordinator_epoch i,
        te_capability_generation :=
          (case ei_evidence i of Some e \<Rightarrow> ev_capability_generation e | None \<Rightarrow> 0),
        te_telemetry_generation :=
          (case ei_evidence i of Some e \<Rightarrow> ev_telemetry_generation e | None \<Rightarrow> 0),
        te_provenance := (case ei_evidence i of Some e \<Rightarrow> ev_provenance e | None \<Rightarrow> P_UNKNOWN),
        te_headroom := empty_headroom
          \<lparr>hb_policy_critical := th_critical (pol_thresholds policy),
           hb_recovery_threshold := th_recovery (pol_thresholds policy),
           hb_recovery_margin := mg_recovery (pol_margins policy),
           hb_policy_safety_margin := mg_policy_safety (pol_margins policy)\<rparr>\<rparr>)"

text \<open>The early returns fill the same fields; only the values differ.\<close>

definition stop_evaluation ::
  "evaluation_input \<Rightarrow> thermal_state \<Rightarrow> thermal_decision \<Rightarrow> derating_level \<Rightarrow> percent \<Rightarrow>
     reason_code \<Rightarrow> reason_set \<Rightarrow> evaluation" where
  "stop_evaluation i s decision derating concurrency why codes =
     (base_evaluation i)
       \<lparr>te_state := s, te_decision := decision, te_derating := derating,
        te_unclamped_derating := derating, te_reasons := codes,
        te_permitted_concurrency := concurrency,
        te_permitted_execution_class := XC_BEST_EFFORT_THERMAL,
        te_rejected := [(DL_FULL_CAPABILITY, why)],
        te_prohibited_intents := prohibited_intents_for s (ei_policy i)\<rparr>"

definition evaluation_headroom_input :: "evaluation_input \<Rightarrow> evidence \<Rightarrow> headroom_input" where
  "evaluation_headroom_input i e =
     (let policy = ei_policy i;
          limited = (ei_limit_capability i \<noteq> CS_UNSUPPORTED \<and> ev_temperature_limit e \<noteq> None)
      in \<lparr>hi_current_temperature = ev_temperature e,
          hi_policy_critical = th_critical (pol_thresholds policy),
          hi_vendor_limit = (if limited then ev_temperature_limit e else None),
          hi_vendor_limit_provenance = (if limited then ev_provenance e else P_UNKNOWN),
          hi_uncertainty_margin =
            uncertainty_from_confidence (ev_confidence e) (mg_uncertainty (pol_margins policy)),
          hi_policy_safety_margin = mg_policy_safety (pol_margins policy),
          hi_recovery_margin = mg_recovery (pol_margins policy),
          hi_recovery_threshold = th_recovery (pol_thresholds policy)\<rparr>)"

definition evaluation_recovery :: "evaluation_input \<Rightarrow> headroom \<Rightarrow> recovery_assessment" where
  "evaluation_recovery i h =
     evaluate_recovery ((ei_recovery i)
       \<lparr>ri_policy := Some (ei_policy i),
        ri_recovery_threshold := th_recovery (pol_thresholds (ei_policy i)),
        ri_recovery_margin := mg_recovery (pol_margins (ei_policy i)),
        ri_headroom := h\<rparr>)"

definition decide_state :: "thermal_policy \<Rightarrow> thermal_state \<Rightarrow> thermal_decision \<times> reason_code" where
  "decide_state policy s =
     (case s of
        TS_NORMAL \<Rightarrow> (TD_ALLOW, R_NONE)
      | TS_WARM \<Rightarrow> (TD_ALLOW, R_NONE)
      | TS_NEAR_LIMIT \<Rightarrow> (TD_ALLOW, R_NONE)
      | TS_DERATED \<Rightarrow> (TD_ALLOW_DERATED, R_NONE)
      | TS_THROTTLING \<Rightarrow> (TD_ALLOW_DERATED, R_NONE)
      | TS_CRITICAL \<Rightarrow>
          if em_deny_all_execution (pol_emergency policy)
          then (TD_DENY, R_EMERGENCY_EXECUTION_DENIED)
          else (TD_ALLOW_DERATED, R_EMERGENCY_CONTAINMENT_REQUIRED)
      | TS_REVALIDATION_REQUIRED \<Rightarrow> (TD_REVALIDATION_REQUIRED, R_NONE)
      | TS_UNKNOWN \<Rightarrow>
          (decision_for_unknown (pol_unknown_behavior policy), R_POLICY_UNKNOWN_BEHAVIOR_APPLIED)
      | TS_UNSUPPORTED \<Rightarrow>
          (decision_for_unsupported (pol_unsupported_behavior policy),
           R_POLICY_UNSUPPORTED_BEHAVIOR_APPLIED))"

text \<open>Workload class, whether the workload is restricted, and the reasons of that block.\<close>

definition workload_restriction_of ::
  "thermal_policy \<Rightarrow> workload_profile \<Rightarrow> execution_class \<times> bool \<times> reason_code list" where
  "workload_restriction_of policy profile =
     (let demand = workload_headroom_demand policy profile;
          demanding = flt (Fin 0) demand;
          demand_codes = (if demanding then [R_WORKLOAD_REQUIRES_DERATING] else [])
      in case workload_execution_class policy profile of
        None \<Rightarrow> (XC_BEST_EFFORT_THERMAL, True, R_WORKLOAD_PROFILE_EXCLUDED # demand_codes)
      | Some c \<Rightarrow> (c, c \<noteq> XC_UNRESTRICTED \<or> demanding,
          (if profile = WP_UNKNOWN_PROFILE then [R_WORKLOAD_PROFILE_UNKNOWN] else []) @ demand_codes))"

definition clamp_derating ::
  "derating_level \<Rightarrow> thermal_state \<Rightarrow> derating_level \<Rightarrow> derating_level \<times> reason_code" where
  "clamp_derating previous s level =
     (if previous \<noteq> DL_UNKNOWN \<and> \<not> is_healthy_state s \<and> s \<noteq> TS_REVALIDATION_REQUIRED \<and>
         \<not> does_not_expand level previous
      then (most_restrictive level previous, R_DERATING_CANNOT_EXPAND)
      else (level, R_NONE))"

definition clamp_clock :: "evidence \<Rightarrow> percent \<Rightarrow> megahertz option" where
  "clamp_clock e concurrency =
     (case (ev_current_clock e, ev_max_clock e) of
        (Some current, Some maximum) \<Rightarrow>
          let ceiling = f64_to_u32 (fmul (u32_to_f64 maximum) (fdiv concurrency (Fin 100)))
          in if current \<le> ceiling then None else Some ceiling
      | _ \<Rightarrow> None)"

definition intent_when :: "bool \<Rightarrow> intent_record \<Rightarrow> intent_set" where
  "intent_when b r = (if b then [r] else [])"

definition state_intents ::
  "evaluation_input \<Rightarrow> evidence \<Rightarrow> thermal_state \<Rightarrow> percent \<Rightarrow> bool \<Rightarrow> intent_set" where
  "state_intents i e s concurrency recovery_allowed =
     (let policy = ei_policy i; d = ei_domain i; em = pol_emergency policy;
          bound = default_intent_record \<lparr>ir_domain := d,
            ir_domain_generation := ei_domain_generation i\<rparr>;
          curtail =
            intent_when (policy_allows policy MI_REQUEST_CLOCK_REDUCTION)
              (bound \<lparr>ir_intent := MI_REQUEST_CLOCK_REDUCTION,
                ir_clock_ceiling := clamp_clock e concurrency,
                ir_rationale := (if s = TS_THROTTLING then ''thermal throttle observed''
                  else ''derating threshold exceeded'')\<rparr>) @
            intent_when (policy_allows policy MI_REQUEST_CONCURRENCY_REDUCTION)
              (bound \<lparr>ir_intent := MI_REQUEST_CONCURRENCY_REDUCTION,
                ir_concurrency_ceiling := Some concurrency,
                ir_rationale := ''thermal derating''\<rparr>) @
            intent_when (s = TS_THROTTLING \<and> policy_allows policy MI_REQUEST_COOLING_INTERVENTION)
              (simple_intent MI_REQUEST_COOLING_INTERVENTION d ''thermal throttling observed'');
          was_restricted =
            (restriction_rank DL_FULL_CAPABILITY < restriction_rank (ei_previous_derating i));
          restore =
            (if was_restricted \<and> recovery_allowed
             then intent_when (policy_allows policy MI_REQUEST_CLOCK_RESTORE)
                    (simple_intent MI_REQUEST_CLOCK_RESTORE d ''recovery authorised by fresh evidence'') @
                  intent_when (policy_allows policy MI_REQUEST_CONCURRENCY_RESTORE)
                    (simple_intent MI_REQUEST_CONCURRENCY_RESTORE d
                      ''recovery authorised by fresh evidence'')
             else [])
      in case s of
        TS_NEAR_LIMIT \<Rightarrow>
          intent_when (policy_allows policy MI_REQUEST_CONCURRENCY_REDUCTION)
            (simple_intent MI_REQUEST_CONCURRENCY_REDUCTION d ''near-limit temperature band'')
      | TS_DERATED \<Rightarrow> curtail
      | TS_THROTTLING \<Rightarrow> curtail
      | TS_CRITICAL \<Rightarrow>
          intent_when (em_allow_containment_intent em \<and> policy_allows policy MI_REQUEST_CONTAINMENT)
            (simple_intent MI_REQUEST_CONTAINMENT d ''critical thermal threshold exceeded'') @
          intent_when (em_allow_migration_intent em \<and> policy_allows policy MI_REQUEST_WORKLOAD_MIGRATION)
            (simple_intent MI_REQUEST_WORKLOAD_MIGRATION d ''critical thermal threshold exceeded'') @
          intent_when (em_allow_cooling_intervention_intent em \<and>
              policy_allows policy MI_REQUEST_COOLING_INTERVENTION)
            (simple_intent MI_REQUEST_COOLING_INTERVENTION d ''critical thermal threshold exceeded'')
      | TS_WARM \<Rightarrow> restore
      | TS_NORMAL \<Rightarrow> restore
      | _ \<Rightarrow> [])"

definition evaluation_intents ::
  "evaluation_input \<Rightarrow> evidence \<Rightarrow> thermal_state \<Rightarrow> percent \<Rightarrow> bool \<Rightarrow> intent_set" where
  "evaluation_intents i e s concurrency recovery_allowed =
     (let wanted = state_intents i e s concurrency recovery_allowed
      in canonicalise_intents
          (if wanted = []
           then [simple_intent MI_NO_ACTION (ei_domain i) ''no thermal mitigation required'']
           else wanted))"

fun rejection_reason :: "thermal_state \<Rightarrow> reason_code" where
  "rejection_reason TS_CRITICAL = R_CRITICAL_THRESHOLD_EXCEEDED"
| "rejection_reason TS_THROTTLING = R_THERMAL_THROTTLE_OBSERVED"
| "rejection_reason TS_DERATED = R_DERATING_THRESHOLD_EXCEEDED"
| "rejection_reason TS_NEAR_LIMIT = R_TEMPERATURE_IN_NEAR_LIMIT_BAND"
| "rejection_reason TS_WARM = R_TEMPERATURE_IN_WARNING_BAND"
| "rejection_reason TS_REVALIDATION_REQUIRED = R_EVIDENCE_STALE"
| "rejection_reason TS_UNKNOWN = R_EVIDENCE_MISSING"
| "rejection_reason TS_UNSUPPORTED = R_CAPABILITY_UNSUPPORTED"
| "rejection_reason TS_NORMAL = R_WORKLOAD_REQUIRES_DERATING"

definition rejected_alternatives ::
  "derating_level \<Rightarrow> thermal_state \<Rightarrow> intent_set \<Rightarrow> rejected_alternative list" where
  "rejected_alternatives level s intents =
     (if level \<noteq> DL_FULL_CAPABILITY then [(DL_FULL_CAPABILITY, rejection_reason s)] else []) @
     (if level \<noteq> DL_NO_SAFE_EXECUTION
      then [(DL_NO_SAFE_EXECUTION, R_CRITICAL_THRESHOLD_EXCEEDED)] else []) @
     (if \<not> intent_contains intents MI_REQUEST_CONTAINMENT \<and> s \<noteq> TS_CRITICAL
      then [(DL_NO_SAFE_EXECUTION, R_EMERGENCY_CONTAINMENT_REQUIRED)] else [])"

text \<open>
  The part of \<^verbatim>\<open>evaluate_thermal\<close> after the hard predicates, for fresh evidence \<open>e\<close>: the
  local results of the function first, then the reasons in the order they are added, then the
  outcome.
\<close>

definition fresh_headroom :: "evaluation_input \<Rightarrow> evidence \<Rightarrow> headroom" where
  "fresh_headroom i e = compute_headroom (evaluation_headroom_input i e)"

definition fresh_recovery :: "evaluation_input \<Rightarrow> evidence \<Rightarrow> recovery_assessment" where
  "fresh_recovery i e = evaluation_recovery i (fresh_headroom i e)"

definition fresh_transition ::
  "evaluation_input \<Rightarrow> evidence \<Rightarrow> thermal_state \<times> delta \<times> throttle_class \<times> reason_set" where
  "fresh_transition i e = next_thermal_state i e (fresh_recovery i e) []"

definition fresh_state :: "evaluation_input \<Rightarrow> evidence \<Rightarrow> thermal_state" where
  "fresh_state i e = fst (fresh_transition i e)"

definition vendor_governs :: "thermal_policy \<Rightarrow> headroom \<Rightarrow> bool" where
  "vendor_governs policy h =
     (case hb_vendor_limit h of
        None \<Rightarrow> False
      | Some v \<Rightarrow> feq (hb_governing_limit h) v \<and> flt v (th_critical (pol_thresholds policy)))"

definition workload_restricted :: "evaluation_input \<Rightarrow> bool" where
  "workload_restricted i = fst (snd (workload_restriction_of (ei_policy i) (ei_workload_profile i)))"

definition fresh_derating :: "evaluation_input \<Rightarrow> thermal_state \<Rightarrow> derating_level \<times> reason_code" where
  "fresh_derating i s =
     clamp_derating (ei_previous_derating i) s
       (derating_for_state s (ei_policy i) (workload_restricted i))"

definition admission_demand :: "thermal_policy \<Rightarrow> workload_profile \<Rightarrow> delta" where
  "admission_demand policy profile =
     fadd (ap_min_effective_headroom (pol_admission policy)) (workload_headroom_demand policy profile)"

text \<open>An \<open>ALLOW\<close> without enough headroom becomes derated admission or denial.\<close>

definition short_of_headroom :: "evaluation_input \<Rightarrow> headroom \<Rightarrow> thermal_decision \<Rightarrow> bool" where
  "short_of_headroom i h decision \<longleftrightarrow>
     \<not> meets_demand h (admission_demand (ei_policy i) (ei_workload_profile i)) \<and> decision = TD_ALLOW"

definition final_decision :: "evaluation_input \<Rightarrow> headroom \<Rightarrow> thermal_decision \<Rightarrow> thermal_decision" where
  "final_decision i h decision =
     (if short_of_headroom i h decision
      then (if ap_allow_derated_admission (pol_admission (ei_policy i)) then TD_ALLOW_DERATED else TD_DENY)
      else decision)"

definition fresh_reasons :: "evaluation_input \<Rightarrow> evidence \<Rightarrow> reason_set" where
  "fresh_reasons i e =
     (let policy = ei_policy i; h = fresh_headroom i e; s = fresh_state i e;
          r1 = snd (snd (snd (fresh_transition i e)));
          r2 = reason_add (if vendor_governs policy h then R_VENDOR_LIMIT_GOVERNS
                 else R_POLICY_LIMIT_GOVERNS) r1;
          r3 = reason_if (flt (hb_raw_headroom h) (Fin 0)) R_RAW_HEADROOM_NEGATIVE r2;
          r4 = reason_add (snd (decide_state policy s)) r3;
          r5 = reason_add_all
                 (snd (snd (workload_restriction_of policy (ei_workload_profile i)))) r4;
          r6 = reason_add (snd (fresh_derating i s)) r5;
          enough = meets_demand h (admission_demand policy (ei_workload_profile i));
          r7 = reason_add (if enough then R_EFFECTIVE_HEADROOM_SUFFICIENT
                 else R_EFFECTIVE_HEADROOM_BELOW_DEMAND) r6;
          r8 = reason_if (short_of_headroom i h (fst (decide_state policy s)))
                 (if ap_allow_derated_admission (pol_admission policy)
                  then R_DERATED_ADMISSION_ALLOWED else R_DERATED_ADMISSION_FORBIDDEN) r7;
          r9 = reason_if (flt (concurrency_ceiling (pol_concurrency policy) s) (Fin 100))
                 R_CONCURRENCY_CEILING_APPLIED r8
      in canonicalise_reasons r9)"

definition permitted_class :: "evaluation_input \<Rightarrow> thermal_state \<Rightarrow> execution_class" where
  "permitted_class i s =
     (if s = TS_CRITICAL then XC_BEST_EFFORT_THERMAL
      else if workload_restricted i
      then fst (workload_restriction_of (ei_policy i) (ei_workload_profile i))
      else XC_UNRESTRICTED)"

definition evaluate_fresh :: "evaluation_input \<Rightarrow> evidence \<Rightarrow> evaluation" where
  "evaluate_fresh i e =
     (let s = fresh_state i e; h = fresh_headroom i e; recovery = fresh_recovery i e;
          concurrency = concurrency_ceiling (pol_concurrency (ei_policy i)) s;
          level = fst (fresh_derating i s);
          intents = evaluation_intents i e s concurrency (ra_allowed recovery);
          codes = fresh_reasons i e
      in (base_evaluation i)
        \<lparr>te_headroom := h, te_recovery := recovery, te_state := s,
         te_throttle_class := fst (snd (snd (fresh_transition i e))),
         te_decision := final_decision i h (fst (decide_state (ei_policy i) s)),
         te_unclamped_derating := derating_for_state s (ei_policy i) (workload_restricted i),
         te_derating := level,
         te_permitted_concurrency := concurrency,
         te_permitted_workload_intensity := fdiv concurrency (Fin 100),
         te_permitted_execution_class := permitted_class i s,
         te_intents := intents,
         te_prohibited_intents := prohibited_intents_for s (ei_policy i),
         te_rejected := rejected_alternatives level s intents,
         te_reasons := codes,
         te_retained_by_hysteresis := reason_contains codes R_STATE_RETAINED_BY_HYSTERESIS\<rparr>)"

definition stale_reason :: "freshness_state \<Rightarrow> reason_code" where
  "stale_reason f = (if f = FS_STALE then R_EVIDENCE_STALE
     else if f = FS_GENERATION_INVALIDATED then R_EVIDENCE_GENERATION_INVALIDATED
     else R_EVIDENCE_STALE)"

definition evaluate_thermal :: "evaluation_input \<Rightarrow> evaluation" where
  "evaluate_thermal i =
     (let policy = ei_policy i;
          ceiling = concurrency_ceiling (pol_concurrency policy)
      in
      if ei_temperature_capability i = CS_UNSUPPORTED
      then stop_evaluation i TS_UNSUPPORTED
        (decision_for_unsupported (pol_unsupported_behavior policy)) DL_UNSUPPORTED (Fin 0)
        R_CAPABILITY_UNSUPPORTED
        (canonicalise_reasons (reason_add R_POLICY_UNSUPPORTED_BEHAVIOR_APPLIED
          (reason_add R_CAPABILITY_UNSUPPORTED [])))
      else if ei_temperature_capability i = CS_UNKNOWN
      then stop_evaluation i TS_UNKNOWN
        (decision_for_unknown (pol_unknown_behavior policy)) DL_UNKNOWN (ceiling TS_UNKNOWN)
        R_CAPABILITY_UNRESOLVED
        (canonicalise_reasons (reason_add R_POLICY_UNKNOWN_BEHAVIOR_APPLIED
          (reason_add R_CAPABILITY_UNRESOLVED [])))
      else case ei_evidence i of
        None \<Rightarrow>
          (if ei_temperature_capability i = CS_UNKNOWN
           then stop_evaluation i TS_UNKNOWN
             (decision_for_unknown (pol_unknown_behavior policy)) DL_UNKNOWN (ceiling TS_UNKNOWN)
             R_EVIDENCE_MISSING
             (reason_add R_POLICY_UNKNOWN_BEHAVIOR_APPLIED (reason_add R_EVIDENCE_MISSING []))
           else stop_evaluation i TS_REVALIDATION_REQUIRED TD_REVALIDATION_REQUIRED
             DL_REVALIDATION_REQUIRED (ceiling TS_REVALIDATION_REQUIRED) R_EVIDENCE_MISSING
             (reason_add R_EVIDENCE_MISSING []))
      | Some e \<Rightarrow>
          if ei_evidence_conflict i
          then stop_evaluation i TS_REVALIDATION_REQUIRED TD_REVALIDATION_REQUIRED
            DL_REVALIDATION_REQUIRED (ceiling TS_REVALIDATION_REQUIRED) R_EVIDENCE_CONFLICT
            (reason_add R_EVIDENCE_CONFLICT [])
          else if ei_freshness i \<noteq> FS_FRESH
          then stop_evaluation i TS_REVALIDATION_REQUIRED TD_REVALIDATION_REQUIRED
            DL_REVALIDATION_REQUIRED (ceiling TS_REVALIDATION_REQUIRED) (stale_reason (ei_freshness i))
            (reason_add (stale_reason (ei_freshness i)) [])
          else evaluate_fresh i e)"

end
