(* ===== verification/EvaluationLaws.thy ===== *)
theory EvaluationLaws
  imports Evaluation
begin

text \<open>
  The laws of the evaluation: when the state machine may leave a restrictive state, how the
  outcome depends on evidence, and how decision, derating and intents fit together.
\<close>

section \<open>Healthy and restrictive states\<close>

lemma healthy_severity: "is_healthy_state s \<longleftrightarrow> severity s < severity TS_DERATED"
  by (cases s) (simp_all add: is_healthy_state_def)

lemma restrictive_not_healthy: "is_restrictive s \<Longrightarrow> \<not> is_healthy_state s"
  by (auto simp: is_restrictive_def is_healthy_state_def)

lemma retention_not_healthy:
  "requires_recovery_gate s \<Longrightarrow> \<not> is_healthy_state (retention_state s)"
  by (auto simp: requires_recovery_gate_def is_healthy_state_def retention_state_def)

section \<open>Temperature bands\<close>

text \<open>A hotter reading never gives a milder band.\<close>

lemma temperature_band_mono:
  assumes le: "fle a b"
  shows "severity (fst (temperature_band t throttle a)) \<le> severity (fst (temperature_band t throttle b))"
proof -
  have up: "fle x a \<Longrightarrow> fle x b" for x using le by (blast intro: fle_trans)
  show ?thesis using up by (simp add: temperature_band_def)
qed

lemma band_critical: "fle (th_critical t) x \<Longrightarrow> fst (temperature_band t throttle x) = TS_CRITICAL"
  by (simp add: temperature_band_def)

lemma band_healthy_below:
  assumes "is_healthy_state (fst (temperature_band t throttle x))"
  shows "\<not> fle (th_critical t) x" "\<not> fle (th_derating t) x"
    "throttle \<noteq> TH_THERMAL_THROTTLE_OBSERVED"
  using assms by (auto simp: temperature_band_def is_healthy_state_def split: if_splits)

section \<open>Coupling tightens\<close>

lemma coupling_step_mono:
  "severity c \<le> severity (fst (coupling_step p (c, f, codes) q))"
  by (simp add: coupling_step_def Let_def)

lemma coupling_fold_mono:
  "severity (fst st) \<le> severity (fst (foldl (coupling_step p) st qs))"
proof (induction qs arbitrary: st)
  case (Cons q qs)
  obtain c f codes where st: "st = (c, f, codes)" by (cases st)
  have "severity c \<le> severity (fst (coupling_step p st q))"
    unfolding st by (rule coupling_step_mono)
  also have "\<dots> \<le> severity (fst (foldl (coupling_step p) (coupling_step p st q) qs))"
    by (rule Cons.IH)
  finally show ?case by (simp add: st)
qed simp

lemma apply_coupling_mono: "severity c \<le> severity (fst (apply_coupling p qs c))"
proof -
  have "severity c \<le> severity (fst (foldl (coupling_step p) (c, False, []) qs))"
    using coupling_fold_mono [of "(c, False, [])"] by simp
  then show ?thesis
    by (auto simp: apply_coupling_def is_healthy_state_def split: prod.splits)
qed

lemma coupling_fold_flag:
  "fst (snd (foldl (coupling_step p) (c, f, codes) qs)) \<longleftrightarrow>
     f \<or> (\<exists>q \<in> set qs. is_restrictive (cpr_state q) \<or>
        (cp_escalate_to_hottest_neighbour p \<and> is_unresolved (cpr_state q)))"
proof (induction qs arbitrary: c f codes)
  case (Cons q qs)
  obtain c' f' codes' where st: "coupling_step p (c, f, codes) q = (c', f', codes')"
    by (metis surj_pair)
  have "f' \<longleftrightarrow> f \<or> is_restrictive (cpr_state q) \<or>
      (cp_escalate_to_hottest_neighbour p \<and> is_unresolved (cpr_state q))"
    using st by (auto simp: coupling_step_def Let_def is_restrictive_def is_unresolved_def)
  then show ?case using Cons.IH [of c' f' codes'] st by auto
qed simp

text \<open>A restrictive coupled domain pushes a healthy candidate to a restrictive state.\<close>

lemma apply_coupling_pressure:
  assumes "cp_co_derate_coupled_domains p" "q \<in> set qs" "is_restrictive (cpr_state q)"
  shows "\<not> is_healthy_state (fst (apply_coupling p qs c))"
proof -
  obtain c' f' codes' where st: "foldl (coupling_step p) (c, False, []) qs = (c', f', codes')"
    by (metis surj_pair)
  have "f'" using coupling_fold_flag [of p c False "[]" qs] st assms(2,3) by auto
  then show ?thesis using assms(1) st by (simp add: apply_coupling_def is_healthy_state_def)
qed

section \<open>The hysteresis gate\<close>

lemma hysteresis_gate_healthy:
  assumes "is_healthy_state (fst (hysteresis_gate previous r c codes))" "is_restrictive previous"
  shows "ra_allowed r" "is_healthy_state c" "fst (hysteresis_gate previous r c codes) = c"
proof -
  have gate: "requires_recovery_gate previous" "previous \<noteq> TS_REVALIDATION_REQUIRED"
    using assms(2) by (auto simp: requires_recovery_gate_def is_restrictive_def)
  have "\<not> is_healthy_state (retention_state previous)" using gate retention_not_healthy by blast
  then show "ra_allowed r" "is_healthy_state c" "fst (hysteresis_gate previous r c codes) = c"
    using assms(1) gate by (auto simp: hysteresis_gate_def split: if_splits)
qed

lemma hysteresis_gate_mono: "severity c \<le> severity (fst (hysteresis_gate previous r c codes))"
proof (cases "is_healthy_state c \<and> requires_recovery_gate previous \<and>
    previous \<noteq> TS_REVALIDATION_REQUIRED \<and> \<not> ra_allowed r")
  case True
  then have "severity TS_DERATED \<le> severity (retention_state previous)"
    using retention_not_healthy healthy_severity by (meson not_le)
  then show ?thesis using True healthy_severity [of c] by (simp add: hysteresis_gate_def)
next
  case False
  then show ?thesis by (auto simp: hysteresis_gate_def)
qed

lemma next_state_parts:
  "fst (next_thermal_state i e r codes) =
     fst (hysteresis_gate (ei_previous_state i) r
       (fst (apply_coupling (pol_coupling (ei_policy i)) (ei_coupled i)
         (fst (temperature_band (pol_thresholds (ei_policy i))
           (fst (classify_throttle (ei_throttle_capability i) (ev_throttle e))) (ev_temperature e)))))
       codes')"
proof -
  have any: "fst (hysteresis_gate p r c a) = fst (hysteresis_gate p r c b)" for p c a b
    by (simp add: hysteresis_gate_def)
  show ?thesis
    by (simp add: next_thermal_state_def Let_def split: prod.split) (metis any fst_conv)
qed

lemma next_state_critical:
  assumes "fle (th_critical (pol_thresholds (ei_policy i))) (ev_temperature e)"
  shows "severity TS_CRITICAL \<le> severity (fst (next_thermal_state i e r codes))"
proof -
  let ?band = "fst (temperature_band (pol_thresholds (ei_policy i))
      (fst (classify_throttle (ei_throttle_capability i) (ev_throttle e))) (ev_temperature e))"
  have "severity TS_CRITICAL \<le> severity ?band" using band_critical [OF assms] by simp
  also have "\<dots> \<le> severity (fst (apply_coupling (pol_coupling (ei_policy i)) (ei_coupled i) ?band))"
    by (rule apply_coupling_mono)
  also have "\<dots> \<le> severity (fst (next_thermal_state i e r codes))"
    unfolding next_state_parts [where codes' = "[]"] by (rule hysteresis_gate_mono)
  finally show ?thesis .
qed

section \<open>Fields of a fresh evaluation\<close>

lemma evaluate_fresh_fields:
  "te_state (evaluate_fresh i e) = fresh_state i e"
  "te_headroom (evaluate_fresh i e) = fresh_headroom i e"
  "te_recovery (evaluate_fresh i e) = fresh_recovery i e"
  "te_permitted_concurrency (evaluate_fresh i e) =
     concurrency_ceiling (pol_concurrency (ei_policy i)) (fresh_state i e)"
  "te_prohibited_intents (evaluate_fresh i e) = prohibited_intents_for (fresh_state i e) (ei_policy i)"
  "te_intents (evaluate_fresh i e) =
     evaluation_intents i e (fresh_state i e)
       (concurrency_ceiling (pol_concurrency (ei_policy i)) (fresh_state i e))
       (ra_allowed (fresh_recovery i e))"
  "te_unclamped_derating (evaluate_fresh i e) =
     derating_for_state (fresh_state i e) (ei_policy i) (workload_restricted i)"
  "te_derating (evaluate_fresh i e) = fst (fresh_derating i (fresh_state i e))"
  "te_decision (evaluate_fresh i e) =
     final_decision i (fresh_headroom i e) (fst (decide_state (ei_policy i) (fresh_state i e)))"
  "te_reasons (evaluate_fresh i e) = fresh_reasons i e"
  "te_permitted_clock_ceiling (evaluate_fresh i e) = None"
  "te_domain (evaluate_fresh i e) = ei_domain i"
  by (simp_all add: evaluate_fresh_def base_evaluation_def empty_evaluation_def Let_def)

lemma evaluate_fresh_reasons_sorted: "sorted (te_reasons (evaluate_fresh i e))"
  by (simp add: evaluate_fresh_fields fresh_reasons_def canonicalise_reasons_sort Let_def)

lemma base_evaluation_fields [simp]:
  "te_permitted_clock_ceiling (base_evaluation i) = None"
  "te_intents (base_evaluation i) = []" "te_recovery (base_evaluation i) = empty_assessment"
  "te_domain (base_evaluation i) = ei_domain i"
  "te_domain_generation (base_evaluation i) = ei_domain_generation i"
  by (simp_all add: base_evaluation_def empty_evaluation_def Let_def)

text \<open>Either one of the hard predicates stops the evaluation, or it runs on fresh evidence.\<close>

definition evidence_admitted :: "evaluation_input \<Rightarrow> evidence \<Rightarrow> bool" where
  "evidence_admitted i e \<longleftrightarrow>
     ei_temperature_capability i \<noteq> CS_UNSUPPORTED \<and> ei_temperature_capability i \<noteq> CS_UNKNOWN \<and>
     ei_evidence i = Some e \<and> \<not> ei_evidence_conflict i \<and> ei_freshness i = FS_FRESH"

lemma evaluate_thermal_cases:
  obtains (fresh) e where "evidence_admitted i e" "evaluate_thermal i = evaluate_fresh i e"
  | (stopped) s d level c why codes where
      "evaluate_thermal i = stop_evaluation i s d level c why codes"
      "is_unresolved s" "d \<noteq> TD_ALLOW" "\<nexists>e. evidence_admitted i e" "sorted codes"
      "level = DL_UNSUPPORTED \<or> level = DL_UNKNOWN \<or> level = DL_REVALIDATION_REQUIRED"
proof (cases "\<exists>e. evidence_admitted i e")
  case True
  then obtain e where e: "evidence_admitted i e" by blast
  then have "evaluate_thermal i = evaluate_fresh i e"
    by (simp add: evidence_admitted_def evaluate_thermal_def Let_def)
  with e show ?thesis by (rule fresh)
next
  case False
  have du: "decision_for_unknown b \<noteq> TD_ALLOW" for b by (cases b) simp_all
  have ds: "decision_for_unsupported b \<noteq> TD_ALLOW" for b by (cases b) simp_all
  show ?thesis
  proof (cases "ei_temperature_capability i = CS_UNSUPPORTED")
    case True
    show ?thesis
      by (rule stopped [OF _ _ ds False])
        ((simp add: evaluate_thermal_def Let_def True is_unresolved_def canonicalise_reasons_sort; fail)+)
  next
    case supported: False
    show ?thesis
    proof (cases "ei_temperature_capability i = CS_UNKNOWN")
      case True
      show ?thesis
        by (rule stopped [OF _ _ du False])
          ((simp add: evaluate_thermal_def Let_def True is_unresolved_def canonicalise_reasons_sort; fail)+)
    next
      case known: False
      have rv: "TD_REVALIDATION_REQUIRED \<noteq> TD_ALLOW" by simp
      show ?thesis
      proof (cases "ei_evidence i")
        case None
        show ?thesis
          by (rule stopped [OF _ _ rv False])
            ((simp add: evaluate_thermal_def Let_def supported known None is_unresolved_def
              reason_add_def; fail)+)
      next
        case (Some e)
        show ?thesis
        proof (cases "ei_evidence_conflict i")
          case True
          show ?thesis
            by (rule stopped [OF _ _ rv False])
              ((simp add: evaluate_thermal_def Let_def supported known Some True is_unresolved_def
                reason_add_def; fail)+)
        next
          case agreed: False
          then have stale: "ei_freshness i \<noteq> FS_FRESH"
            using False supported known Some by (auto simp: evidence_admitted_def)
          show ?thesis
            by (rule stopped [OF _ _ rv False])
              ((simp add: evaluate_thermal_def Let_def supported known Some agreed stale
                is_unresolved_def reason_add_def; fail)+)
        qed
      qed
    qed
  qed
qed

lemma stop_evaluation_fields [simp]:
  "te_state (stop_evaluation i s d level c why codes) = s"
  "te_decision (stop_evaluation i s d level c why codes) = d"
  "te_derating (stop_evaluation i s d level c why codes) = level"
  "te_unclamped_derating (stop_evaluation i s d level c why codes) = level"
  "te_permitted_concurrency (stop_evaluation i s d level c why codes) = c"
  "te_reasons (stop_evaluation i s d level c why codes) = codes"
  "te_intents (stop_evaluation i s d level c why codes) = []"
  "te_recovery (stop_evaluation i s d level c why codes) = empty_assessment"
  "te_permitted_clock_ceiling (stop_evaluation i s d level c why codes) = None"
  "te_prohibited_intents (stop_evaluation i s d level c why codes) = prohibited_intents_for s (ei_policy i)"
  "te_domain (stop_evaluation i s d level c why codes) = ei_domain i"
  by (simp_all add: stop_evaluation_def)

lemma unresolved_not_healthy: "is_unresolved s \<Longrightarrow> \<not> is_healthy_state s"
  by (auto simp: is_unresolved_def is_healthy_state_def)

section \<open>Main consequences\<close>

lemma leave_restriction:
  assumes "is_restrictive (ei_previous_state i)" "is_healthy_state (te_state (evaluate_thermal i))"
  shows "\<exists>e. evidence_admitted i e \<and> ra_allowed (te_recovery (evaluate_thermal i))"
proof (cases rule: evaluate_thermal_cases [of i])
  case (fresh e)
  have "is_healthy_state (fst (next_thermal_state i e (fresh_recovery i e) []))"
    using assms(2) fresh(2) by (simp add: evaluate_fresh_fields fresh_state_def fresh_transition_def)
  then have "ra_allowed (fresh_recovery i e)"
    unfolding next_state_parts [where codes' = "[]"]
    by (rule hysteresis_gate_healthy(1) [OF _ assms(1)])
  then show ?thesis using fresh by (auto simp: evaluate_fresh_fields)
next
  case stopped
  then show ?thesis using assms(2) unresolved_not_healthy by simp
qed

lemma critical_never_healthy:
  assumes "ei_evidence i = Some e"
    and "fle (th_critical (pol_thresholds (ei_policy i))) (ev_temperature e)"
  shows "severity TS_CRITICAL \<le> severity (te_state (evaluate_thermal i))"
proof (cases rule: evaluate_thermal_cases [of i])
  case (fresh e')
  then have "e' = e" using assms(1) by (simp add: evidence_admitted_def)
  then show ?thesis
    using next_state_critical [OF assms(2)] fresh(2) by (simp add: evaluate_fresh_fields fresh_state_def fresh_transition_def)
next
  case stopped
  then show ?thesis by (auto simp: is_unresolved_def)
qed

lemma allow_is_fresh_healthy:
  assumes "te_decision (evaluate_thermal i) = TD_ALLOW"
  shows "\<exists>e. evidence_admitted i e \<and> is_healthy_state (te_state (evaluate_thermal i))"
proof (cases rule: evaluate_thermal_cases [of i])
  case (fresh e)
  have du: "decision_for_unknown b \<noteq> TD_ALLOW" for b by (cases b) simp_all
  have ds: "decision_for_unsupported b \<noteq> TD_ALLOW" for b by (cases b) simp_all
  have "fst (decide_state (ei_policy i) (fresh_state i e)) = TD_ALLOW"
    using assms fresh(2) by (auto simp: evaluate_fresh_fields final_decision_def split: if_splits)
  then have "is_healthy_state (fresh_state i e)"
    using du ds
    by (auto simp: decide_state_def is_healthy_state_def split: thermal_state.splits if_splits)
  then show ?thesis using fresh by (auto simp: evaluate_fresh_fields)
next
  case stopped
  then show ?thesis using assms by simp
qed

lemma clamp_keeps_rank:
  "previous \<noteq> DL_UNKNOWN \<Longrightarrow> \<not> is_healthy_state s \<Longrightarrow> s \<noteq> TS_REVALIDATION_REQUIRED \<Longrightarrow>
     restriction_rank previous \<le> restriction_rank (fst (clamp_derating previous s level))"
  using derate.pick_upper(2) [of previous level]
  by (simp add: clamp_derating_def does_not_expand_def)

lemma clamp_tightens: "restriction_rank level \<le> restriction_rank (fst (clamp_derating previous s level))"
  using derate.pick_upper(1) [of level previous] by (simp add: clamp_derating_def)

text \<open>Every intent of an evaluation is permitted by the policy and not prohibited by the state.\<close>

lemma state_intents_allowed:
  assumes "r \<in> set (state_intents i e s c a)"
  shows "policy_allows (ei_policy i) (ir_intent r) \<and>
     ir_intent r \<notin> set (prohibited_intents_for s (ei_policy i))"
  using assms
  by (cases s) (auto simp: state_intents_def Let_def intent_when_def simple_intent_def
      default_intent_record_def prohibited_intents_for_def split: if_splits)

lemma evaluation_intents_allowed:
  assumes "r \<in> set (evaluation_intents i e s c a)"
  shows "ir_intent r = MI_NO_ACTION \<or> policy_allows (ei_policy i) (ir_intent r)"
    "ir_intent r \<notin> set (prohibited_intents_for s (ei_policy i))"
proof -
  have "r \<in> set (if state_intents i e s c a = []
      then [simple_intent MI_NO_ACTION (ei_domain i) ''no thermal mitigation required'']
      else state_intents i e s c a)"
    using assms canonicalise_intents_subset unfolding evaluation_intents_def Let_def by blast
  then have r: "r \<in> set (state_intents i e s c a) \<or> ir_intent r = MI_NO_ACTION"
    by (auto simp: simple_intent_def split: if_splits)
  show "ir_intent r = MI_NO_ACTION \<or> policy_allows (ei_policy i) (ir_intent r)"
    using r state_intents_allowed by blast
  have "MI_NO_ACTION \<notin> set (prohibited_intents_for s (ei_policy i))"
    by (simp add: prohibited_intents_for_def Let_def)
  then show "ir_intent r \<notin> set (prohibited_intents_for s (ei_policy i))"
    using r state_intents_allowed by metis
qed

end
