(* ===== verification/Action.thy ===== *)
theory Action
  imports Evaluation
begin

text \<open>
  \<^verbatim>\<open>action.hpp\<close> and \<^verbatim>\<open>action.cpp\<close>: the lifecycle of a mitigation action, its generation
  binding, and the revalidation that runs immediately before dispatch.
\<close>

section \<open>Lifecycle\<close>

datatype action_lifecycle =
    AL_PLANNED
  | AL_AUTHORIZED
  | AL_DISPATCHED
  | AL_ACKNOWLEDGED
  | AL_VERIFYING
  | AL_EFFECTIVE
  | AL_PARTIALLY_EFFECTIVE
  | AL_INEFFECTIVE
  | AL_WORSENED
  | AL_FAILED
  | AL_SUPERSEDED
  | AL_CANCELLED
  | AL_OUTCOME_UNKNOWN

fun to_string_action_lifecycle :: "action_lifecycle \<Rightarrow> string" where
    "to_string_action_lifecycle AL_PLANNED = ''PLANNED''"
  | "to_string_action_lifecycle AL_AUTHORIZED = ''AUTHORIZED''"
  | "to_string_action_lifecycle AL_DISPATCHED = ''DISPATCHED''"
  | "to_string_action_lifecycle AL_ACKNOWLEDGED = ''ACKNOWLEDGED''"
  | "to_string_action_lifecycle AL_VERIFYING = ''VERIFYING''"
  | "to_string_action_lifecycle AL_EFFECTIVE = ''EFFECTIVE''"
  | "to_string_action_lifecycle AL_PARTIALLY_EFFECTIVE = ''PARTIALLY_EFFECTIVE''"
  | "to_string_action_lifecycle AL_INEFFECTIVE = ''INEFFECTIVE''"
  | "to_string_action_lifecycle AL_WORSENED = ''WORSENED''"
  | "to_string_action_lifecycle AL_FAILED = ''FAILED''"
  | "to_string_action_lifecycle AL_SUPERSEDED = ''SUPERSEDED''"
  | "to_string_action_lifecycle AL_CANCELLED = ''CANCELLED''"
  | "to_string_action_lifecycle AL_OUTCOME_UNKNOWN = ''OUTCOME_UNKNOWN''"

datatype cancellation_result =
    CR_CANCELLED_BEFORE_DISPATCH
  | CR_CANCELLED_AFTER_DISPATCH
  | CR_VERIFICATION_REQUIRED
  | CR_ALREADY_EFFECTIVE
  | CR_OUTCOME_UNKNOWN

fun to_string_cancellation_result :: "cancellation_result \<Rightarrow> string" where
    "to_string_cancellation_result CR_CANCELLED_BEFORE_DISPATCH = ''CANCELLED_BEFORE_DISPATCH''"
  | "to_string_cancellation_result CR_CANCELLED_AFTER_DISPATCH = ''CANCELLED_AFTER_DISPATCH''"
  | "to_string_cancellation_result CR_VERIFICATION_REQUIRED = ''VERIFICATION_REQUIRED''"
  | "to_string_cancellation_result CR_ALREADY_EFFECTIVE = ''ALREADY_EFFECTIVE''"
  | "to_string_cancellation_result CR_OUTCOME_UNKNOWN = ''OUTCOME_UNKNOWN''"

fun is_terminal :: "action_lifecycle \<Rightarrow> bool" where
  "is_terminal AL_EFFECTIVE = True"
| "is_terminal AL_PARTIALLY_EFFECTIVE = True"
| "is_terminal AL_INEFFECTIVE = True"
| "is_terminal AL_WORSENED = True"
| "is_terminal AL_FAILED = True"
| "is_terminal AL_SUPERSEDED = True"
| "is_terminal AL_CANCELLED = True"
| "is_terminal AL_OUTCOME_UNKNOWN = True"
| "is_terminal _ = False"

section \<open>Authority\<close>

record action_authority =
  aa_coordinator_epoch :: ident
  aa_action_id :: ident
  aa_action_generation :: ident
  aa_domain :: ident
  aa_domain_generation :: ident
  aa_device :: ident
  aa_device_generation :: ident
  aa_policy_generation :: ident
  aa_telemetry_generation :: ident
  aa_worker :: ident
  aa_worker_boot :: ident
  aa_topology_generation :: ident
  aa_capability_generation :: ident

definition empty_authority :: action_authority where
  "empty_authority =
     \<lparr>aa_coordinator_epoch = 0, aa_action_id = 0, aa_action_generation = 0, aa_domain = 0,
      aa_domain_generation = 0, aa_device = 0, aa_device_generation = 0,
      aa_policy_generation = 0, aa_telemetry_generation = 0, aa_worker = 0, aa_worker_boot = 0,
      aa_topology_generation = 0, aa_capability_generation = 0\<rparr>"

record authority_snapshot =
  as_coordinator_epoch :: ident
  as_domain_generation :: ident
  as_device_generation :: ident
  as_policy_generation :: ident
  as_telemetry_generation :: ident
  as_worker_boot :: ident
  as_topology_generation :: ident
  as_capability_generation :: ident
  as_action_generation :: ident

definition empty_snapshot_authority :: authority_snapshot where
  "empty_snapshot_authority =
     \<lparr>as_coordinator_epoch = 0, as_domain_generation = 0, as_device_generation = 0,
      as_policy_generation = 0, as_telemetry_generation = 0, as_worker_boot = 0,
      as_topology_generation = 0, as_capability_generation = 0, as_action_generation = 0\<rparr>"

text \<open>
  The error carries its text here, because the text of a refused dispatch becomes the detail of
  the action.
\<close>

definition revalidate_action_authority ::
  "action_authority \<Rightarrow> authority_snapshot \<Rightarrow> (error_code \<times> string) + unit" where
  "revalidate_action_authority a c =
     (if \<not> id_valid (aa_action_id a)
      then Inl (E_INVALID_ARGUMENT, ''action id must be non-zero'')
      else if as_coordinator_epoch c \<noteq> aa_coordinator_epoch a
      then Inl (E_STALE_EPOCH, ''coordinator epoch advanced since the action was authorised'')
      else if id_valid (aa_worker a) \<and> as_worker_boot c \<noteq> aa_worker_boot a
      then Inl (E_STALE_WORKER, ''worker boot identity changed since the action was authorised'')
      else if id_valid (aa_device a) \<and> as_device_generation c \<noteq> aa_device_generation a
      then Inl (E_STALE_DEVICE_GENERATION,
        ''device generation advanced since the action was authorised'')
      else if as_domain_generation c \<noteq> aa_domain_generation a
      then Inl (E_STALE_DOMAIN_GENERATION,
        ''thermal domain generation advanced since the action was authorised'')
      else if as_policy_generation c \<noteq> aa_policy_generation a
      then Inl (E_STALE_POLICY,
        ''thermal policy generation advanced since the action was authorised'')
      else if as_telemetry_generation c < aa_telemetry_generation a
      then Inl (E_STALE_TELEMETRY,
        ''current telemetry generation predates the action authority'')
      else if id_valid (aa_topology_generation a) \<and>
              as_topology_generation c \<noteq> aa_topology_generation a
      then Inl (E_STALE_TOPOLOGY,
        ''topology generation advanced since the action was authorised'')
      else if id_valid (aa_capability_generation a) \<and>
              as_capability_generation c \<noteq> aa_capability_generation a
      then Inl (E_STALE_CAPABILITY,
        ''capability generation advanced since the action was authorised'')
      else if as_action_generation c < aa_action_generation a
      then Inl (E_STALE_ACTION, ''action generation has been superseded'')
      else Inr ())"

section \<open>Action records\<close>

record thermal_action =
  ac_id :: ident
  ac_generation :: ident
  ac_authority :: action_authority
  ac_intent :: mitigation_intent
  ac_requested_clock_ceiling :: "megahertz option"
  ac_requested_concurrency :: "percent option"
  ac_requested_admission :: "percent option"
  ac_lifecycle :: action_lifecycle
  ac_reasons :: reason_set
  ac_provenance :: provenance
  ac_detail :: string
  ac_planned_at :: time_ns
  ac_authorized_at :: time_ns
  ac_dispatched_at :: time_ns
  ac_acknowledged_at :: time_ns
  ac_terminal_at :: time_ns
  ac_verification_generation :: ident
  ac_verification_telemetry_generation :: ident
  ac_superseded_by :: "ident option"
  ac_authorization_source :: string

definition empty_action :: thermal_action where
  "empty_action =
     \<lparr>ac_id = 0, ac_generation = 0, ac_authority = empty_authority, ac_intent = MI_NO_ACTION,
      ac_requested_clock_ceiling = None, ac_requested_concurrency = None,
      ac_requested_admission = None, ac_lifecycle = AL_PLANNED, ac_reasons = [],
      ac_provenance = P_UNKNOWN, ac_detail = '''', ac_planned_at = 0, ac_authorized_at = 0,
      ac_dispatched_at = 0, ac_acknowledged_at = 0, ac_terminal_at = 0,
      ac_verification_generation = 0, ac_verification_telemetry_generation = 0,
      ac_superseded_by = None, ac_authorization_source = ''''\<rparr>"

definition id_line :: "string \<Rightarrow> ident \<Rightarrow> string" where
  "id_line label v = label @ '': '' @ unsigned_decimal v @ nl"

definition text_line :: "string \<Rightarrow> string \<Rightarrow> string" where
  "text_line label v = label @ '': '' @ v @ nl"

definition render_action :: "thermal_action \<Rightarrow> string" where
  "render_action a =
     (let u = ac_authority a in
      id_line ''ActionId'' (ac_id a) @
      id_line ''ActionGeneration'' (ac_generation a) @
      text_line ''Intent'' (to_string_mitigation_intent (ac_intent a)) @
      text_line ''Lifecycle'' (to_string_action_lifecycle (ac_lifecycle a)) @
      id_line ''ThermalDomainId'' (aa_domain u) @
      id_line ''ThermalDomainGeneration'' (aa_domain_generation u) @
      id_line ''CoordinatorEpoch'' (aa_coordinator_epoch u) @
      id_line ''ThermalPolicyGeneration'' (aa_policy_generation u) @
      id_line ''TelemetryGeneration'' (aa_telemetry_generation u) @
      id_line ''TopologyGeneration'' (aa_topology_generation u) @
      id_line ''CapabilityGeneration'' (aa_capability_generation u) @
      id_line ''WorkerId'' (aa_worker u) @
      id_line ''WorkerBootId'' (aa_worker_boot u) @
      id_line ''DeviceId'' (aa_device u) @
      id_line ''DeviceGeneration'' (aa_device_generation u) @
      opt_text (\<lambda>c. id_line ''RequestedClockCeilingMHz'' (ucast c)) (ac_requested_clock_ceiling a) @
      opt_text (\<lambda>p. text_line ''RequestedConcurrency'' (number p)) (ac_requested_concurrency a) @
      opt_text (\<lambda>p. text_line ''RequestedAdmission'' (number p)) (ac_requested_admission a) @
      text_line ''Provenance'' (to_string_provenance (ac_provenance a)) @
      text_line ''Reasons'' (render_reasons (ac_reasons a)) @
      (if ac_detail a \<noteq> [] then text_line ''Detail'' (ac_detail a) else []) @
      opt_text (\<lambda>i. id_line ''SupersededBy'' i) (ac_superseded_by a))"

section \<open>What a successful revalidation means\<close>

definition authority_current :: "action_authority \<Rightarrow> authority_snapshot \<Rightarrow> bool" where
  "authority_current a c \<longleftrightarrow>
     id_valid (aa_action_id a) \<and>
     as_coordinator_epoch c = aa_coordinator_epoch a \<and>
     (id_valid (aa_worker a) \<longrightarrow> as_worker_boot c = aa_worker_boot a) \<and>
     (id_valid (aa_device a) \<longrightarrow> as_device_generation c = aa_device_generation a) \<and>
     as_domain_generation c = aa_domain_generation a \<and>
     as_policy_generation c = aa_policy_generation a \<and>
     aa_telemetry_generation a \<le> as_telemetry_generation c \<and>
     (id_valid (aa_topology_generation a) \<longrightarrow> as_topology_generation c = aa_topology_generation a) \<and>
     (id_valid (aa_capability_generation a) \<longrightarrow>
        as_capability_generation c = aa_capability_generation a) \<and>
     aa_action_generation a \<le> as_action_generation c"

lemma revalidate_iff: "revalidate_action_authority a c = Inr () \<longleftrightarrow> authority_current a c"
  unfolding revalidate_action_authority_def guard_ok authority_current_def by (simp add: not_less)

end
