(* ===== verification/Verification.thy ===== *)
theory Verification
  imports Action
begin

text \<open>
  \<^verbatim>\<open>verification.hpp\<close> and \<^verbatim>\<open>verification.cpp\<close>: the verification of a mitigation action against
  fresh evidence, and \<^verbatim>\<open>admission.hpp\<close> with the renderings of \<^verbatim>\<open>decision.cpp\<close>.
\<close>

section \<open>Post-action verification\<close>

datatype verification_outcome =
    VO_OUTCOME_UNKNOWN
  | VO_THERMAL_STATE_IMPROVED
  | VO_THERMAL_STATE_UNCHANGED
  | VO_THERMAL_STATE_WORSENED
  | VO_DERATING_EFFECTIVE
  | VO_DERATING_PARTIALLY_EFFECTIVE
  | VO_DERATING_INEFFECTIVE
  | VO_SECONDARY_VIOLATION_CREATED
  | VO_RECOVERY_ALLOWED
  | VO_RECOVERY_FORBIDDEN

fun to_string_verification_outcome :: "verification_outcome \<Rightarrow> string" where
    "to_string_verification_outcome VO_OUTCOME_UNKNOWN = ''OUTCOME_UNKNOWN''"
  | "to_string_verification_outcome VO_THERMAL_STATE_IMPROVED = ''THERMAL_STATE_IMPROVED''"
  | "to_string_verification_outcome VO_THERMAL_STATE_UNCHANGED = ''THERMAL_STATE_UNCHANGED''"
  | "to_string_verification_outcome VO_THERMAL_STATE_WORSENED = ''THERMAL_STATE_WORSENED''"
  | "to_string_verification_outcome VO_DERATING_EFFECTIVE = ''DERATING_EFFECTIVE''"
  | "to_string_verification_outcome VO_DERATING_PARTIALLY_EFFECTIVE = ''DERATING_PARTIALLY_EFFECTIVE''"
  | "to_string_verification_outcome VO_DERATING_INEFFECTIVE = ''DERATING_INEFFECTIVE''"
  | "to_string_verification_outcome VO_SECONDARY_VIOLATION_CREATED = ''SECONDARY_VIOLATION_CREATED''"
  | "to_string_verification_outcome VO_RECOVERY_ALLOWED = ''RECOVERY_ALLOWED''"
  | "to_string_verification_outcome VO_RECOVERY_FORBIDDEN = ''RECOVERY_FORBIDDEN''"

record verification_input =
  vi_action :: "thermal_action option"
  vi_before :: evaluation
  vi_after :: evaluation
  vi_fresh_evidence :: bool
  vi_freshness :: freshness_state
  vi_current :: authority_snapshot
  vi_policy_generation :: ident
  vi_secondary_hard_violation :: bool
  vi_now :: time_ns

record action_verification =
  av_action_id :: ident
  av_generation :: ident
  av_outcome :: verification_outcome
  av_temperature_before :: celsius
  av_temperature_after :: celsius
  av_delta :: delta
  av_headroom_before :: delta
  av_headroom_after :: delta
  av_state_before :: thermal_state
  av_state_after :: thermal_state
  av_derating_before :: derating_level
  av_derating_after :: derating_level
  av_resulting_lifecycle :: action_lifecycle
  av_hard_constraint_still_violated :: bool
  av_derating_still_required :: bool
  av_recovery_conditions_satisfied :: bool
  av_telemetry_generation :: ident
  av_policy_generation :: ident
  av_coordinator_epoch :: ident
  av_reasons :: reason_set

text \<open>The guards of \<^verbatim>\<open>verify_action\<close> that follow the null check.\<close>

definition verification_guards :: "verification_input \<Rightarrow> thermal_action \<Rightarrow> status" where
  "verification_guards i a =
     (let u = ac_authority a; c = vi_current i in
      if \<not> vi_fresh_evidence i then Inl E_EVIDENCE_STALE
      else if vi_freshness i \<noteq> FS_FRESH then Inl E_EVIDENCE_STALE
      else if as_coordinator_epoch c \<noteq> aa_coordinator_epoch u then Inl E_STALE_EPOCH
      else if id_valid (aa_worker u) \<and> as_worker_boot c \<noteq> aa_worker_boot u then Inl E_STALE_WORKER
      else if id_valid (aa_device u) \<and> as_device_generation c \<noteq> aa_device_generation u
      then Inl E_STALE_DEVICE_GENERATION
      else if as_domain_generation c \<noteq> aa_domain_generation u then Inl E_STALE_DOMAIN_GENERATION
      else if as_telemetry_generation c < aa_telemetry_generation u then Inl E_STALE_TELEMETRY
      else if as_action_generation c < ac_generation a then Inl E_STALE_ACTION
      else success)"

text \<open>The chain of outcome branches before the restore intents are considered.\<close>

definition observed_outcome ::
  "bool \<Rightarrow> derating_level \<Rightarrow> derating_level \<Rightarrow> delta \<Rightarrow> bool \<Rightarrow>
     verification_outcome \<times> action_lifecycle \<times> reason_set" where
  "observed_outcome secondary before after d violated =
     (let improved = flt d (Fin (- (1 / 2)));
          worsened = flt (Fin (1 / 2)) d;
          relaxed = (restriction_rank after < restriction_rank before);
          tightened = (restriction_rank before < restriction_rank after)
      in if secondary
         then (VO_SECONDARY_VIOLATION_CREATED, AL_WORSENED, reason_add R_EVIDENCE_CONFLICT [])
         else if tightened \<or> worsened then (VO_THERMAL_STATE_WORSENED, AL_WORSENED, [])
         else if \<not> improved \<and> \<not> relaxed \<and> violated
         then (VO_DERATING_INEFFECTIVE, AL_INEFFECTIVE, [])
         else if improved \<and> violated
         then (VO_DERATING_PARTIALLY_EFFECTIVE, AL_PARTIALLY_EFFECTIVE, [])
         else if relaxed then (VO_DERATING_EFFECTIVE, AL_EFFECTIVE, [])
         else if improved then (VO_THERMAL_STATE_IMPROVED, AL_EFFECTIVE, [])
         else (VO_THERMAL_STATE_UNCHANGED, AL_INEFFECTIVE, []))"

definition restore_outcome ::
  "mitigation_intent \<Rightarrow> bool \<Rightarrow> verification_outcome \<times> action_lifecycle \<Rightarrow>
     verification_outcome \<times> action_lifecycle" where
  "restore_outcome i recovered observed =
     (if is_restoring_intent i
      then (if recovered then (VO_RECOVERY_ALLOWED, AL_EFFECTIVE)
            else (VO_RECOVERY_FORBIDDEN, AL_INEFFECTIVE))
      else observed)"

definition verify_action :: "verification_input \<Rightarrow> action_verification result" where
  "verify_action i =
     (case vi_action i of
        None \<Rightarrow> Inl E_INVALID_ARGUMENT
      | Some a \<Rightarrow>
        (case verification_guards i a of
           Inl e \<Rightarrow> Inl e
         | Inr _ \<Rightarrow>
           let before = vi_before i; after = vi_after i; c = vi_current i;
               d = fsub (hb_current_temperature (te_headroom after))
                     (hb_current_temperature (te_headroom before));
               violated = (te_state after = TS_DERATED \<or> te_state after = TS_THROTTLING \<or>
                 te_state after = TS_CRITICAL);
               recovered = ra_allowed (te_recovery after);
               obs = observed_outcome (vi_secondary_hard_violation i) (te_derating before)
                 (te_derating after) d violated;
               final = restore_outcome (ac_intent a) recovered (fst obs, fst (snd obs));
               codes = reason_if violated R_DERATING_THRESHOLD_EXCEEDED
                 (reason_if (flt d (Fin (- (1 / 2)))) R_EFFECTIVE_HEADROOM_SUFFICIENT
                   (reason_add (if recovered then R_RECOVERY_AUTHORIZED
                      else R_RECOVERY_FORBIDDEN_BY_POLICY) (snd (snd obs))));
               superseded = (id_valid (vi_policy_generation i) \<and>
                 vi_policy_generation i \<noteq> aa_policy_generation (ac_authority a))
           in Inr \<lparr>av_action_id = ac_id a, av_generation = 0,
                av_outcome = (if superseded then VO_OUTCOME_UNKNOWN else fst final),
                av_temperature_before = hb_current_temperature (te_headroom before),
                av_temperature_after = hb_current_temperature (te_headroom after),
                av_delta = d,
                av_headroom_before = hb_effective_headroom (te_headroom before),
                av_headroom_after = hb_effective_headroom (te_headroom after),
                av_state_before = te_state before, av_state_after = te_state after,
                av_derating_before = te_derating before, av_derating_after = te_derating after,
                av_resulting_lifecycle = (if superseded then AL_SUPERSEDED else snd final),
                av_hard_constraint_still_violated = violated,
                av_derating_still_required = (te_derating after \<noteq> DL_FULL_CAPABILITY),
                av_recovery_conditions_satisfied = (if superseded then False else recovered),
                av_telemetry_generation = as_telemetry_generation c,
                av_policy_generation = vi_policy_generation i,
                av_coordinator_epoch = as_coordinator_epoch c,
                av_reasons = canonicalise_reasons
                  (if superseded then reason_add R_EVIDENCE_GENERATION_INVALIDATED [] else codes)\<rparr>))"

definition render_verification :: "action_verification \<Rightarrow> string" where
  "render_verification v =
     id_line ''ActionId'' (av_action_id v) @
     id_line ''VerificationGeneration'' (av_generation v) @
     text_line ''Outcome'' (to_string_verification_outcome (av_outcome v)) @
     text_line ''ResultingLifecycle'' (to_string_action_lifecycle (av_resulting_lifecycle v)) @
     text_line ''TemperatureBefore'' (number (av_temperature_before v)) @
     text_line ''TemperatureAfter'' (number (av_temperature_after v)) @
     text_line ''Delta'' (signed_number (av_delta v)) @
     text_line ''HeadroomBefore'' (number (av_headroom_before v)) @
     text_line ''HeadroomAfter'' (number (av_headroom_after v)) @
     text_line ''StateBefore'' (to_string_thermal_state (av_state_before v)) @
     text_line ''StateAfter'' (to_string_thermal_state (av_state_after v)) @
     text_line ''DeratingBefore'' (to_string_derating_level (av_derating_before v)) @
     text_line ''DeratingAfter'' (to_string_derating_level (av_derating_after v)) @
     text_line ''HardConstraintStillViolated'' (bool_text (av_hard_constraint_still_violated v)) @
     text_line ''DeratingStillRequired'' (bool_text (av_derating_still_required v)) @
     text_line ''RecoveryConditionsSatisfied'' (bool_text (av_recovery_conditions_satisfied v)) @
     text_line ''Reasons'' (render_reasons (av_reasons v))"

section \<open>Admission records and renderings\<close>

datatype admission_decision =
    AD_ADMIT
  | AD_ADMIT_DERATED
  | AD_DEFER
  | AD_DENY
  | AD_REVALIDATION_REQUIRED
  | AD_UNKNOWN
  | AD_UNSUPPORTED

fun to_string_admission_decision :: "admission_decision \<Rightarrow> string" where
    "to_string_admission_decision AD_ADMIT = ''ADMIT''"
  | "to_string_admission_decision AD_ADMIT_DERATED = ''ADMIT_DERATED''"
  | "to_string_admission_decision AD_DEFER = ''DEFER''"
  | "to_string_admission_decision AD_DENY = ''DENY''"
  | "to_string_admission_decision AD_REVALIDATION_REQUIRED = ''REVALIDATION_REQUIRED''"
  | "to_string_admission_decision AD_UNKNOWN = ''UNKNOWN''"
  | "to_string_admission_decision AD_UNSUPPORTED = ''UNSUPPORTED''"

record admission_request =
  rq_domain :: ident
  rq_expected_domain_generation :: ident
  rq_workload :: ident
  rq_profile :: workload_profile
  rq_requested_class :: execution_class
  rq_requested_concurrency :: "percent option"
  rq_requested_clock :: "megahertz option"
  rq_expected_policy_generation :: "ident option"
  rq_expected_coordinator_epoch :: "ident option"

record admission_result =
  ad_decision :: admission_decision
  ad_domain :: ident
  ad_domain_generation :: ident
  ad_workload :: ident
  ad_profile :: workload_profile
  ad_permitted_class :: execution_class
  ad_permitted_concurrency :: percent
  ad_permitted_clock_ceiling :: "megahertz option"
  ad_governing_limit :: celsius
  ad_current_temperature :: celsius
  ad_effective_headroom :: delta
  ad_required_headroom :: delta
  ad_derating :: derating_level
  ad_state :: thermal_state
  ad_reasons :: reason_set
  ad_constraints :: intent_set
  ad_coordinator_epoch :: ident
  ad_policy_generation :: ident
  ad_telemetry_generation :: ident
  ad_capability_generation :: ident
  ad_topology_generation :: ident

definition admissible :: "admission_result \<Rightarrow> bool" where
  "admissible r \<longleftrightarrow> ad_decision r = AD_ADMIT \<or> ad_decision r = AD_ADMIT_DERATED"

definition empty_admission :: admission_result where
  "empty_admission =
     \<lparr>ad_decision = AD_UNKNOWN, ad_domain = 0, ad_domain_generation = 0, ad_workload = 0,
      ad_profile = WP_UNKNOWN_PROFILE, ad_permitted_class = XC_UNRESTRICTED,
      ad_permitted_concurrency = Fin 0, ad_permitted_clock_ceiling = None,
      ad_governing_limit = Fin 0, ad_current_temperature = Fin 0, ad_effective_headroom = Fin 0,
      ad_required_headroom = Fin 0, ad_derating = DL_UNKNOWN, ad_state = TS_UNKNOWN,
      ad_reasons = [], ad_constraints = [], ad_coordinator_epoch = 0, ad_policy_generation = 0,
      ad_telemetry_generation = 0, ad_capability_generation = 0, ad_topology_generation = 0\<rparr>"

definition render_constraint :: "intent_record \<Rightarrow> string" where
  "render_constraint r =
     ''  '' @ to_string_mitigation_intent (ir_intent r) @
     (if ir_rationale r \<noteq> [] then '' - '' @ ir_rationale r else []) @ nl"

definition clock_text :: "megahertz option \<Rightarrow> string" where
  "clock_text c = (case c of Some m \<Rightarrow> unsigned_decimal (ucast m) | None \<Rightarrow> ''<unconstrained>'')"

definition render_admission :: "admission_result \<Rightarrow> string" where
  "render_admission r =
     text_line ''Admission'' (to_string_admission_decision (ad_decision r)) @
     id_line ''ThermalDomainId'' (ad_domain r) @
     id_line ''ThermalDomainGeneration'' (ad_domain_generation r) @
     id_line ''WorkloadId'' (ad_workload r) @
     text_line ''WorkloadProfile'' (to_string_workload_profile (ad_profile r)) @
     text_line ''ThermalState'' (to_string_thermal_state (ad_state r)) @
     text_line ''Derating'' (to_string_derating_level (ad_derating r)) @
     text_line ''PermittedExecutionClass'' (to_string_execution_class (ad_permitted_class r)) @
     text_line ''PermittedConcurrency'' (number (ad_permitted_concurrency r)) @
     text_line ''PermittedClockCeilingMHz'' (clock_text (ad_permitted_clock_ceiling r)) @
     text_line ''GoverningLimit'' (number (ad_governing_limit r)) @
     text_line ''CurrentTemperature'' (number (ad_current_temperature r)) @
     text_line ''EffectiveHeadroom'' (number (ad_effective_headroom r)) @
     text_line ''RequiredHeadroom'' (number (ad_required_headroom r)) @
     text_line ''Reasons'' (render_reasons (ad_reasons r)) @
     ''Constraints:'' @ (if ad_constraints r = [] then '' <none>'' else []) @ nl @
     concat (map render_constraint (ad_constraints r)) @
     id_line ''CoordinatorEpoch'' (ad_coordinator_epoch r) @
     id_line ''ThermalPolicyGeneration'' (ad_policy_generation r) @
     id_line ''TelemetryGeneration'' (ad_telemetry_generation r) @
     id_line ''CapabilityGeneration'' (ad_capability_generation r) @
     id_line ''TopologyGeneration'' (ad_topology_generation r)"

section \<open>The envelope\<close>

record envelope =
  en_domain :: ident
  en_domain_generation :: ident
  en_subject_kind :: subject_kind
  en_device :: ident
  en_device_generation :: ident
  en_node :: ident
  en_node_generation :: ident
  en_state :: thermal_state
  en_derating :: derating_level
  en_decision :: thermal_decision
  en_maximum_legal_temperature :: celsius
  en_vendor_temperature_limit :: "celsius option"
  en_thresholds :: thresholds
  en_headroom :: headroom
  en_permitted_concurrency :: percent
  en_permitted_execution_class :: execution_class
  en_permitted_clock_ceiling :: "megahertz option"
  en_permitted_workload_intensity :: f64
  en_prohibited_intents :: "mitigation_intent list"
  en_required_mitigation :: intent_set
  en_reasons :: reason_set
  en_provenance :: provenance
  en_throttle_class :: throttle_class
  en_coordinator_epoch :: ident
  en_policy_generation :: ident
  en_telemetry_generation :: ident
  en_capability_generation :: ident
  en_topology_generation :: ident
  en_recovery_generation :: ident

definition permits_full_capability :: "envelope \<Rightarrow> bool" where
  "permits_full_capability e \<longleftrightarrow>
     en_derating e = DL_FULL_CAPABILITY \<and> en_state e \<noteq> TS_DERATED \<and> en_state e \<noteq> TS_THROTTLING \<and>
     en_state e \<noteq> TS_CRITICAL"

definition intent_line :: "mitigation_intent \<Rightarrow> string" where
  "intent_line i = ''  '' @ to_string_mitigation_intent i @ nl"

definition render_envelope :: "envelope \<Rightarrow> string" where
  "render_envelope e =
     id_line ''ThermalDomainId'' (en_domain e) @
     id_line ''ThermalDomainGeneration'' (en_domain_generation e) @
     text_line ''SubjectKind'' (to_string_subject_kind (en_subject_kind e)) @
     text_line ''ThermalState'' (to_string_thermal_state (en_state e)) @
     text_line ''Derating'' (to_string_derating_level (en_derating e)) @
     text_line ''Decision'' (to_string_thermal_decision (en_decision e)) @
     text_line ''MaximumLegalTemperature'' (number (en_maximum_legal_temperature e)) @
     text_line ''VendorTemperatureLimit''
       (case en_vendor_temperature_limit e of Some v \<Rightarrow> number v | None \<Rightarrow> ''<unsupported>'') @
     text_line ''EffectiveHeadroom'' (number (hb_effective_headroom (en_headroom e))) @
     text_line ''PermittedConcurrency'' (number (en_permitted_concurrency e)) @
     text_line ''PermittedExecutionClass'' (to_string_execution_class (en_permitted_execution_class e)) @
     text_line ''PermittedClockCeilingMHz'' (clock_text (en_permitted_clock_ceiling e)) @
     text_line ''PermittedWorkloadIntensity'' (number (en_permitted_workload_intensity e)) @
     text_line ''ThrottleClass'' (to_string_throttle_class (en_throttle_class e)) @
     text_line ''Provenance'' (to_string_provenance (en_provenance e)) @
     ''ProhibitedIntents:'' @ (if en_prohibited_intents e = [] then '' <none>'' else []) @ nl @
     concat (map intent_line (en_prohibited_intents e)) @
     ''RequiredMitigation:'' @ (if en_required_mitigation e = [] then '' <none>'' else []) @ nl @
     concat (map (\<lambda>r. intent_line (ir_intent r)) (en_required_mitigation e)) @
     text_line ''Reasons'' (render_reasons (en_reasons e)) @
     id_line ''CoordinatorEpoch'' (en_coordinator_epoch e) @
     id_line ''ThermalPolicyGeneration'' (en_policy_generation e) @
     id_line ''TelemetryGeneration'' (en_telemetry_generation e) @
     id_line ''CapabilityGeneration'' (en_capability_generation e) @
     id_line ''TopologyGeneration'' (en_topology_generation e) @
     id_line ''RecoveryGeneration'' (en_recovery_generation e)"

section \<open>Laws of verification\<close>

lemma verify_action_success:
  assumes "verify_action i = Inr v"
  obtains a where "vi_action i = Some a" "verification_guards i a = success"
    "av_action_id v = ac_id a"
  using assms
  by (auto simp: verify_action_def Let_def split: option.splits sum.splits)

lemma verification_guards_iff:
  "verification_guards i a = success \<longleftrightarrow>
     vi_fresh_evidence i \<and> vi_freshness i = FS_FRESH \<and>
     as_coordinator_epoch (vi_current i) = aa_coordinator_epoch (ac_authority a) \<and>
     (id_valid (aa_worker (ac_authority a)) \<longrightarrow>
        as_worker_boot (vi_current i) = aa_worker_boot (ac_authority a)) \<and>
     (id_valid (aa_device (ac_authority a)) \<longrightarrow>
        as_device_generation (vi_current i) = aa_device_generation (ac_authority a)) \<and>
     as_domain_generation (vi_current i) = aa_domain_generation (ac_authority a) \<and>
     aa_telemetry_generation (ac_authority a) \<le> as_telemetry_generation (vi_current i) \<and>
     ac_generation a \<le> as_action_generation (vi_current i)"
  unfolding verification_guards_def Let_def guard_ok by (simp add: not_less)

lemma observed_lifecycle_terminal:
  "is_terminal (fst (snd (observed_outcome s b a d v)))"
  by (simp add: observed_outcome_def Let_def)

lemma verify_action_terminal:
  assumes "verify_action i = Inr v"
  shows "is_terminal (av_resulting_lifecycle v)"
  using assms observed_lifecycle_terminal
  by (auto simp: verify_action_def Let_def restore_outcome_def split: option.splits sum.splits)

text \<open>EFFECTIVE is only reported for an observed improvement, or an allowed recovery.\<close>

lemma observed_effective:
  assumes "fst (snd (observed_outcome s b a d v)) = AL_EFFECTIVE"
  shows "(flt d (Fin (- (1 / 2))) \<or> restriction_rank a < restriction_rank b) \<and>
    \<not> restriction_rank b < restriction_rank a \<and> \<not> flt (Fin (1 / 2)) d"
  using assms by (auto simp: observed_outcome_def Let_def split: if_splits)

lemma verify_action_effective:
  assumes "verify_action i = Inr v" "vi_action i = Some a" "av_resulting_lifecycle v = AL_EFFECTIVE"
  shows "flt (av_delta v) (Fin (- (1 / 2))) \<or>
    restriction_rank (av_derating_after v) < restriction_rank (av_derating_before v) \<or>
    (is_restoring_intent (ac_intent a) \<and> ra_allowed (te_recovery (vi_after i)))"
proof -
  note effective = observed_effective
  show ?thesis
    using assms
    by (auto simp: verify_action_def Let_def restore_outcome_def split: sum.splits if_splits
        dest: effective)
qed

end
