(* ===== verification/Governor.thy ===== *)
theory Governor
  imports EvaluationLaws Verification
begin

text \<open>
  The state of \<^verbatim>\<open>ThermalGovernor::Impl\<close> (\<^verbatim>\<open>governance.cpp\<close>), the read snapshot of
  \<^verbatim>\<open>snapshot.hpp\<close>, and the internal steps every operation is made of: gathering the evidence of
  a domain, evaluating it, recording the transition, recomputing, publishing and retiring a
  worker incarnation. Each public operation holds one mutex for its whole body, so an operation
  is one step on the state. The clock is a parameter: \<open>now\<close> is what it returns during the step.
\<close>

section \<open>Records\<close>

record worker_record =
  wo_worker :: ident
  wo_boot :: ident
  wo_label :: string
  wo_alive :: bool
  wo_registered_at :: time_ns
  wo_last_seen_at :: time_ns
  wo_evidence_published :: nat
  wo_devices :: "ident list"

record domain_evidence =
  de_evidence :: evidence
  de_synthesized :: bool
  de_rule :: aggregation_rule

record transition_record =
  tr_domain :: ident
  tr_domain_generation :: ident
  tr_from :: thermal_state
  tr_to :: thermal_state
  tr_derating_from :: derating_level
  tr_derating_to :: derating_level
  tr_decision :: thermal_decision
  tr_temperature :: celsius
  tr_policy_generation :: ident
  tr_telemetry_generation :: ident
  tr_coordinator_epoch :: ident
  tr_sequence :: u64

record domain_snapshot =
  ds_definition :: domain_definition
  ds_state :: thermal_state
  ds_derating :: derating_level
  ds_decision :: thermal_decision
  ds_evidence :: "evidence option"
  ds_freshness :: freshness_state
  ds_headroom :: headroom
  ds_envelope :: "envelope option"
  ds_policy_generation :: ident
  ds_telemetry_generation :: ident
  ds_capability_generation :: ident
  ds_recovery :: recovery_assessment
  ds_recovery_generation :: ident
  ds_couplings :: coupling_graph
  ds_authority :: derating_level
  ds_authority_concurrency :: percent
  ds_provenance :: provenance

record device_snapshot =
  vs_device :: ident
  vs_generation :: ident
  vs_node :: ident
  vs_rack :: ident
  vs_label :: string
  vs_evidence :: "evidence option"
  vs_freshness :: freshness_state
  vs_capabilities :: capability_set
  vs_domains :: "ident list"
  vs_temperature :: "celsius option"
  vs_throttle :: "throttle_observation option"
  vs_headroom :: headroom
  vs_state :: thermal_state
  vs_derating :: derating_level
  vs_decision :: thermal_decision
  vs_provenance :: provenance

record worker_snapshot =
  ww_worker :: ident
  ww_boot :: ident
  ww_label :: string
  ww_connected :: bool
  ww_registered_at :: time_ns
  ww_last_seen_at :: time_ns
  ww_evidence_published :: nat
  ww_devices :: "ident list"

record governance_snapshot =
  gs_coordinator :: ident
  gs_coordinator_epoch :: ident
  gs_policy_generation :: ident
  gs_topology_generation :: ident
  gs_capability_generation :: ident
  gs_captured_at :: time_ns
  gs_domains :: "domain_snapshot table"
  gs_devices :: "device_snapshot table"
  gs_workers :: "worker_snapshot table"
  gs_actions :: "thermal_action table"
  gs_policies :: "thermal_policy table"
  gs_couplings :: coupling_graph
  gs_historical_transitions :: nat
  gs_historical_actions :: nat
  gs_historical_verifications :: nat

record governor_config =
  cf_coordinator :: ident
  cf_initial_epoch :: ident
  cf_durable_path :: string
  cf_max_domains :: nat
  cf_max_devices :: nat
  cf_max_workers :: nat
  cf_max_actions :: nat
  cf_max_verifications :: nat
  cf_max_history_records :: nat
  cf_max_recovery_samples :: nat
  cf_max_coupled_edges :: nat

definition default_config :: governor_config where
  "default_config =
     \<lparr>cf_coordinator = 1, cf_initial_epoch = 1, cf_durable_path = '''', cf_max_domains = 100000,
      cf_max_devices = 100000, cf_max_workers = 4096, cf_max_actions = 100000,
      cf_max_verifications = 100000, cf_max_history_records = 200000,
      cf_max_recovery_samples = 64, cf_max_coupled_edges = 200000\<rparr>"

text \<open>
  Hash sets are lists without repeats. A missing entry of \<open>g_recovery_histories\<close> stands for the
  default history that \<^verbatim>\<open>operator[]\<close> creates on first access.
\<close>

record governor =
  g_config :: governor_config
  g_epoch :: ident
  g_policy_generation :: ident
  g_topology_generation :: ident
  g_capability_generation :: ident
  g_action_generation :: ident
  g_verification_generation :: ident
  g_recovery_generation :: ident
  g_telemetry_generation :: ident
  g_sequence :: u64
  g_policies :: "thermal_policy table"
  g_devices :: "device_registration table"
  g_domains :: domain_registry
  g_couplings :: coupling_graph
  g_history :: "transition_record list"
  g_actions :: "thermal_action table"
  g_verifications :: "action_verification list"
  g_evidence :: "(string \<times> evidence) list"
  g_invalidated :: "string list"
  g_recovery_histories :: "recovery_history table"
  g_evaluations :: "evaluation table"
  g_explicit_recovery :: "ident list"
  g_workers :: "worker_record table"
  g_conflicted :: "ident list"
  g_action_baselines :: "evaluation table"
  g_history_note :: string
  g_stopping :: bool
  g_published :: "governance_snapshot option"

definition set_insert :: "'a \<Rightarrow> 'a list \<Rightarrow> 'a list" where
  "set_insert x s = (if x \<in> set s then s else s @ [x])"

definition set_erase :: "'a \<Rightarrow> 'a list \<Rightarrow> 'a list" where
  "set_erase x s = removeAll x s"

lemma set_set_insert [simp]: "set (set_insert x s) = insert x (set s)"
  by (auto simp: set_insert_def)

lemma set_set_erase [simp]: "set (set_erase x s) = set s - {x}"
  by (simp add: set_erase_def)

section \<open>Evidence of a domain\<close>

definition kDefaultPolicyId :: ident where
  "kDefaultPolicyId = 1"

definition policy_for :: "governor \<Rightarrow> domain_definition \<Rightarrow> thermal_policy option" where
  "policy_for g d =
     (case map_of (g_policies g) (dd_policy d) of
        Some p \<Rightarrow> Some p
      | None \<Rightarrow> map_of (g_policies g) kDefaultPolicyId)"

definition history_for :: "governor \<Rightarrow> ident \<Rightarrow> recovery_history" where
  "history_for g i =
     (case map_of (g_recovery_histories g) i of Some h \<Rightarrow> h | None \<Rightarrow> new_history 64)"

definition member_evidence :: "domain_definition \<Rightarrow> (string \<times> evidence) list \<Rightarrow> evidence list" where
  "member_evidence d evidence =
     concat (map (\<lambda>m. case map_of evidence (subject_key (dm_subject m)) of
        Some e \<Rightarrow> [e] | None \<Rightarrow> []) (dd_members d))"

definition gather_domain_evidence ::
  "domain_definition \<Rightarrow> (string \<times> evidence) list \<Rightarrow> domain_evidence option" where
  "gather_domain_evidence d evidence =
     (let plain = (\<lambda>e. \<lparr>de_evidence = e, de_synthesized = False,
            de_rule = AR_HOTTEST_MEMBER_GOVERNS\<rparr>)
      in case map_of evidence (subject_key (for_domain (dd_id d) (dd_generation d))) of
        Some e \<Rightarrow> Some (plain e)
      | None \<Rightarrow>
        let members = member_evidence d evidence
        in if members = [] then None
           else if length members = 1 then Some (plain (hd members))
           else case compute_aggregate d (map Some members) of
             Inl _ \<Rightarrow> None
           | Inr ag \<Rightarrow>
             let e1 = (hd members) \<lparr>ev_temperature := ag_temperature ag,
                        ev_provenance := ag_provenance ag\<rparr>;
                 governing = find (\<lambda>c. ev_subject c = ag_governing_member ag) members;
                 e2 = (case governing of Some c \<Rightarrow> e1 \<lparr>ev_subject := ev_subject c\<rparr> | None \<Rightarrow> e1);
                 e3 = e2 \<lparr>ev_domain := dd_id d, ev_domain_generation := dd_generation d\<rparr>;
                 e4 = (if ev_provenance e3 \<noteq> P_REAL
                       then (case governing of
                           Some c \<Rightarrow> e3 \<lparr>ev_source := MS_SYNTHETIC_MODEL,
                             ev_throttle := ev_throttle c, ev_current_clock := ev_current_clock c,
                             ev_max_clock := ev_max_clock c,
                             ev_temperature_limit := ev_temperature_limit c\<rparr>
                         | None \<Rightarrow> e3 \<lparr>ev_source := MS_SYNTHETIC_MODEL\<rparr>)
                       else e3)
             in Some \<lparr>de_evidence = e4, de_synthesized = True, de_rule = ag_rule ag\<rparr>)"

section \<open>Evaluation under the lock\<close>

text \<open>The weakest resolved capability governs; two resolved ones keep the first.\<close>

definition weaken_capability :: "capability_state \<Rightarrow> capability_state \<Rightarrow> capability_state" where
  "weaken_capability current new =
     (if new = CS_UNSUPPORTED \<or> current = CS_UNSUPPORTED then CS_UNSUPPORTED
      else if new = CS_UNKNOWN \<or> current = CS_UNKNOWN then CS_UNKNOWN
      else current)"

definition device_capability_sets :: "governor \<Rightarrow> domain_definition \<Rightarrow> capability_set list" where
  "device_capability_sets g d =
     concat (map (\<lambda>m. if sr_kind (dm_subject m) \<noteq> SK_DEVICE then []
        else case map_of (g_devices g) (sr_device (dm_subject m)) of
          Some r \<Rightarrow> [dr_capabilities r] | None \<Rightarrow> []) (dd_members d))"

definition member_capability :: "capability_set list \<Rightarrow> thermal_capability \<Rightarrow> capability_state" where
  "member_capability sets c =
     (case sets of
        [] \<Rightarrow> CS_UNKNOWN
      | s # ss \<Rightarrow> foldl (\<lambda>acc s. weaken_capability acc (cap_get s c)) (cap_get s c) ss)"

fun capability_of_provenance :: "provenance \<Rightarrow> capability_state" where
  "capability_of_provenance P_REAL = CS_SUPPORTED_REAL"
| "capability_of_provenance P_SYNTHETIC = CS_SUPPORTED_SYNTHETIC"
| "capability_of_provenance P_UNSUPPORTED = CS_UNSUPPORTED"
| "capability_of_provenance P_UNKNOWN = CS_UNKNOWN"

text \<open>Temperature, throttle and limit capability of a domain.\<close>

definition resolve_capabilities ::
  "governor \<Rightarrow> domain_definition \<Rightarrow> domain_evidence option \<Rightarrow>
     capability_state \<times> capability_state \<times> capability_state" where
  "resolve_capabilities g d gathered =
     (let sets = device_capability_sets g d
      in if sets \<noteq> []
         then (member_capability sets TC_TEMPERATURE, member_capability sets TC_THROTTLE_REASONS,
               member_capability sets TC_TEMPERATURE_LIMIT)
         else case gathered of
           None \<Rightarrow> (CS_UNKNOWN, CS_UNKNOWN, CS_UNKNOWN)
         | Some de \<Rightarrow>
           let e = de_evidence de; t = capability_of_provenance (ev_provenance e)
           in (t, if ev_throttle e \<noteq> None then t else CS_UNSUPPORTED,
               if ev_temperature_limit e \<noteq> None then t else CS_UNSUPPORTED))"

text \<open>
  The age is an unbounded difference. The source subtracts 64-bit times, of which the measurement time
  comes unchecked from the wire; where that subtraction overflows its behaviour is undefined.
\<close>

definition evidence_freshness ::
  "governor \<Rightarrow> time_ns \<Rightarrow> thermal_policy \<Rightarrow> domain_evidence option \<Rightarrow> freshness_state" where
  "evidence_freshness g now policy gathered =
     (case gathered of
        None \<Rightarrow> FS_UNKNOWN
      | Some de \<Rightarrow>
        if subject_key (ev_subject (de_evidence de)) \<in> set (g_invalidated g)
        then FS_GENERATION_INVALIDATED
        else if fr_max_age (pol_freshness policy) * 1000000 < now - ev_measured_at (de_evidence de)
        then FS_STALE else FS_FRESH)"

definition neighbour_pressure ::
  "governor \<Rightarrow> domain_definition \<Rightarrow> ident \<times> u32 \<Rightarrow> coupled_pressure option" where
  "neighbour_pressure g d nd =
     (case (registry_find (g_domains g) (fst nd), map_of (g_evaluations g) (fst nd)) of
        (Some nb, Some ev) \<Rightarrow>
          let edge = find (\<lambda>e. cr_source e = fst nd \<and> cr_destination e = dd_id d) (g_couplings g)
          in Some \<lparr>cpr_domain = fst nd, cpr_generation = dd_generation nb, cpr_state = te_state ev,
               cpr_temperature = hb_current_temperature (te_headroom ev),
               cpr_coupling = (case edge of Some e \<Rightarrow> cr_type e | None \<Rightarrow> CT_UNKNOWN_COUPLING),
               cpr_propagation = (if snd nd = 0 then PC_NO_PROPAGATION
                 else if snd nd = 1 then PC_COUPLED_DOMAIN else PC_DOMAIN_WIDE),
               cpr_provenance = (case edge of
                   Some e \<Rightarrow> if cr_provenance e = P_SYNTHETIC then P_SYNTHETIC else dd_provenance nb
                 | None \<Rightarrow> dd_provenance nb),
               cpr_depth = snd nd, cpr_recovery_eligible = ra_allowed (te_recovery ev)\<rparr>
      | _ \<Rightarrow> None)"

definition coupled_pressures :: "governor \<Rightarrow> domain_definition \<Rightarrow> u32 \<Rightarrow> coupled_pressure list" where
  "coupled_pressures g d depth =
     concat (map (\<lambda>nd. case neighbour_pressure g d nd of Some p \<Rightarrow> [p] | None \<Rightarrow> [])
       (incoming_reachable (g_couplings g) (dd_id d) depth))"

definition pressure_blocks_recovery :: "coupled_pressure \<Rightarrow> bool" where
  "pressure_blocks_recovery p \<longleftrightarrow>
     cpr_state p = TS_DERATED \<or> cpr_state p = TS_THROTTLING \<or> cpr_state p = TS_CRITICAL \<or>
     cpr_state p = TS_UNKNOWN \<or> cpr_state p = TS_UNSUPPORTED \<or>
     cpr_state p = TS_REVALIDATION_REQUIRED"

definition evaluation_input_for ::
  "governor \<Rightarrow> time_ns \<Rightarrow> domain_definition \<Rightarrow> thermal_policy \<Rightarrow> evaluation_input" where
  "evaluation_input_for g now d policy =
     (let gathered = gather_domain_evidence d (g_evidence g);
          previous = map_of (g_evaluations g) (dd_id d);
          (t, thr, lim) = resolve_capabilities g d gathered;
          primary = map_option de_evidence gathered;
          pressures = coupled_pressures g d (cp_max_propagation_depth (pol_coupling policy));
          recovery = empty_recovery_input
            \<lparr>ri_history := Some (history_for g (dd_id d)),
             ri_current_epoch := g_epoch g,
             ri_current_boot := (case primary of Some e \<Rightarrow> ev_worker_boot e | None \<Rightarrow> 0),
             ri_current_device_generation :=
               (case primary of Some e \<Rightarrow> sr_device_generation (ev_subject e) | None \<Rightarrow> 0),
             ri_current_domain_generation :=
               (case primary of Some e \<Rightarrow> ev_domain_generation e | None \<Rightarrow> 0),
             ri_evidence_provenance :=
               (case primary of Some e \<Rightarrow> ev_provenance e | None \<Rightarrow> P_UNKNOWN),
             ri_explicit_authorization := (dd_id d \<in> set (g_explicit_recovery g)),
             ri_coupled_domains_checked := (dd_members d \<noteq> []),
             ri_coupled_domains_recovered := \<not> list_ex pressure_blocks_recovery pressures\<rparr>
      in \<lparr>ei_domain = dd_id d, ei_domain_generation = dd_generation d, ei_domain_type = dd_type d,
          ei_policy = policy,
          ei_previous_state = (case previous of Some e \<Rightarrow> te_state e | None \<Rightarrow> TS_UNKNOWN),
          ei_previous_derating = (case previous of Some e \<Rightarrow> te_derating e | None \<Rightarrow> DL_UNKNOWN),
          ei_evidence = primary,
          ei_freshness = evidence_freshness g now policy gathered,
          ei_evidence_conflict = (dd_id d \<in> set (g_conflicted g)),
          ei_temperature_capability = t, ei_throttle_capability = thr, ei_limit_capability = lim,
          ei_recovery = recovery, ei_coupled = pressures,
          ei_workload_profile = WP_UNKNOWN_PROFILE,
          ei_coordinator_epoch = g_epoch g, ei_policy_generation = pol_generation policy,
          ei_topology_generation = g_topology_generation g\<rparr>)"

definition evaluate_locked :: "governor \<Rightarrow> time_ns \<Rightarrow> domain_definition \<Rightarrow> evaluation result" where
  "evaluate_locked g now d =
     (case policy_for g d of
        None \<Rightarrow> Inl E_UNKNOWN_POLICY
      | Some policy \<Rightarrow>
        let gathered = gather_domain_evidence d (g_evidence g);
            ev = (evaluate_thermal (evaluation_input_for g now d policy))
              \<lparr>te_capability_generation := g_capability_generation g,
               te_policy_generation := pol_generation policy\<rparr>
        in Inr (case gathered of
            None \<Rightarrow> ev
          | Some de \<Rightarrow>
            let ev' = ev \<lparr>te_telemetry_generation := ev_telemetry_generation (de_evidence de)\<rparr>
            in if de_synthesized de
               then ev' \<lparr>te_provenance := combine (ev_provenance (de_evidence de)) P_SYNTHETIC\<rparr>
               else ev'))"

section \<open>Recording and recomputing\<close>

text \<open>
  With \<^verbatim>\<open>max_history_records\<close> 0 the source erases past the end of the history, which is undefined;
  here the history is dropped. Every statement about the bound assumes it positive.
\<close>

definition record_transition :: "ident \<Rightarrow> ident \<Rightarrow> evaluation \<Rightarrow> governor \<Rightarrow> governor" where
  "record_transition domain domain_generation ev g =
     (let previous = map_of (g_evaluations g) domain;
          changed = (case previous of
              None \<Rightarrow> True
            | Some old \<Rightarrow> te_state old \<noteq> te_state ev \<or> te_derating old \<noteq> te_derating ev \<or>
                te_decision old \<noteq> te_decision ev);
          g1 = g \<lparr>g_evaluations := AList.update domain ev (g_evaluations g)\<rparr>
      in if \<not> changed then g1
         else
           let n = g_sequence g + 1;
               record = \<lparr>tr_domain = domain, tr_domain_generation = domain_generation,
                 tr_from = (case previous of None \<Rightarrow> TS_UNKNOWN | Some old \<Rightarrow> te_state old),
                 tr_to = te_state ev,
                 tr_derating_from = (case previous of None \<Rightarrow> DL_UNKNOWN | Some old \<Rightarrow> te_derating old),
                 tr_derating_to = te_derating ev, tr_decision = te_decision ev,
                 tr_temperature = hb_current_temperature (te_headroom ev),
                 tr_policy_generation = g_policy_generation g,
                 tr_telemetry_generation = te_telemetry_generation ev,
                 tr_coordinator_epoch = g_epoch g, tr_sequence = n\<rparr>;
               limit = cf_max_history_records (g_config g);
               kept = (if limit \<le> length (g_history g)
                       then drop (length (g_history g) - limit + 1) (g_history g)
                       else g_history g)
           in g1 \<lparr>g_sequence := n, g_history := kept @ [record]\<rparr>)"

definition recompute_domain :: "time_ns \<Rightarrow> ident \<Rightarrow> governor \<Rightarrow> governor" where
  "recompute_domain now i g =
     (case registry_find (g_domains g) i of
        None \<Rightarrow> g
      | Some d \<Rightarrow>
        (case evaluate_locked g now d of
           Inl _ \<Rightarrow> g
         | Inr ev \<Rightarrow> record_transition i (dd_generation d) ev g))"

definition recompute_domains :: "time_ns \<Rightarrow> ident list \<Rightarrow> governor \<Rightarrow> governor" where
  "recompute_domains now ids g = foldl (\<lambda>g i. recompute_domain now i g) g ids"

definition recompute_all_domains :: "time_ns \<Rightarrow> governor \<Rightarrow> governor" where
  "recompute_all_domains now g = recompute_domains now (all_domain_ids (g_domains g)) g"

definition kCouplingRecomputeDepth :: u32 where
  "kCouplingRecomputeDepth = 3"

definition coupled_neighbours :: "governor \<Rightarrow> ident list \<Rightarrow> ident list" where
  "coupled_neighbours g ids =
     sort_unique (concat (map (\<lambda>i.
       map fst (reachable_from (g_couplings g) i kCouplingRecomputeDepth) @
       map fst (incoming_reachable (g_couplings g) i kCouplingRecomputeDepth)) ids))"

text \<open>The domains a subject key concerns, with their coupled neighbours. Nothing calls this.\<close>

definition concerned_by :: "governor \<Rightarrow> string \<Rightarrow> ident \<Rightarrow> bool" where
  "concerned_by g key i =
     (case registry_find (g_domains g) i of
        None \<Rightarrow> False
      | Some d \<Rightarrow>
          subject_key (for_domain (dd_id d) (dd_generation d)) = key \<or>
          list_ex (\<lambda>m. subject_key (dm_subject m) = key) (dd_members d))"

definition recompute_domains_for_subject :: "time_ns \<Rightarrow> string \<Rightarrow> governor \<Rightarrow> governor" where
  "recompute_domains_for_subject now key g =
     (let pending = filter (concerned_by g key) (all_domain_ids (g_domains g))
      in recompute_domains now (sort_unique (pending @ coupled_neighbours g pending)) g)"

section \<open>Publication\<close>

definition make_envelope :: "governor \<Rightarrow> domain_definition \<Rightarrow> evaluation \<Rightarrow> envelope" where
  "make_envelope g d ev =
     \<lparr>en_domain = te_domain ev, en_domain_generation = te_domain_generation ev,
      en_subject_kind = (if dd_type d = DT_ACCELERATOR then SK_DEVICE else SK_THERMAL_DOMAIN),
      en_device = 0, en_device_generation = 0, en_node = 0, en_node_generation = 0,
      en_state = te_state ev, en_derating = te_derating ev, en_decision = te_decision ev,
      en_maximum_legal_temperature = hb_governing_limit (te_headroom ev),
      en_vendor_temperature_limit = hb_vendor_limit (te_headroom ev),
      en_thresholds = (case policy_for g d of Some p \<Rightarrow> pol_thresholds p | None \<Rightarrow> default_thresholds),
      en_headroom = te_headroom ev,
      en_permitted_concurrency = te_permitted_concurrency ev,
      en_permitted_execution_class = te_permitted_execution_class ev,
      en_permitted_clock_ceiling = te_permitted_clock_ceiling ev,
      en_permitted_workload_intensity = te_permitted_workload_intensity ev,
      en_prohibited_intents = te_prohibited_intents ev,
      en_required_mitigation = te_intents ev, en_reasons = te_reasons ev,
      en_provenance = te_provenance ev, en_throttle_class = te_throttle_class ev,
      en_coordinator_epoch = te_coordinator_epoch ev,
      en_policy_generation = te_policy_generation ev,
      en_telemetry_generation = te_telemetry_generation ev,
      en_capability_generation = te_capability_generation ev,
      en_topology_generation = te_topology_generation ev,
      en_recovery_generation =
        (if dd_id d \<in> set (g_explicit_recovery g) then g_recovery_generation g else 0)\<rparr>"

definition snapshot_domain :: "governor \<Rightarrow> domain_definition \<Rightarrow> domain_snapshot" where
  "snapshot_domain g d =
     (let direct = map_of (g_evidence g) (subject_key (for_domain (dd_id d) (dd_generation d)));
          base = \<lparr>ds_definition = d, ds_state = TS_UNKNOWN, ds_derating = DL_UNKNOWN,
            ds_decision = TD_UNKNOWN, ds_evidence = direct,
            ds_freshness = (case direct of Some e \<Rightarrow> ev_freshness e | None \<Rightarrow> FS_UNKNOWN),
            ds_headroom = empty_headroom, ds_envelope = None, ds_policy_generation = 0,
            ds_telemetry_generation = 0, ds_capability_generation = 0,
            ds_recovery = empty_assessment, ds_recovery_generation = 0,
            ds_couplings = filter (\<lambda>e. cr_source e = dd_id d \<or> cr_destination e = dd_id d)
              (g_couplings g),
            ds_authority = DL_UNKNOWN, ds_authority_concurrency = Fin 0,
            ds_provenance = dd_provenance d\<rparr>
      in case map_of (g_evaluations g) (dd_id d) of
        None \<Rightarrow> base
      | Some ev \<Rightarrow> base
          \<lparr>ds_state := te_state ev, ds_derating := te_derating ev, ds_decision := te_decision ev,
           ds_headroom := te_headroom ev, ds_recovery := te_recovery ev,
           ds_policy_generation := te_policy_generation ev,
           ds_telemetry_generation := te_telemetry_generation ev,
           ds_capability_generation := te_capability_generation ev,
           ds_authority := te_derating ev,
           ds_authority_concurrency := te_permitted_concurrency ev,
           ds_envelope := Some (make_envelope g d ev)\<rparr>)"

definition snapshot_device :: "governor \<Rightarrow> device_registration \<Rightarrow> device_snapshot" where
  "snapshot_device g r =
     (let held = map_of (g_evidence g) (subject_key (for_device (dr_device r) (dr_generation r)));
          ids = domains_for_device (g_domains g) (dr_device r);
          ev = (case ids of [] \<Rightarrow> None | i # _ \<Rightarrow> map_of (g_evaluations g) i)
      in \<lparr>vs_device = dr_device r, vs_generation = dr_generation r, vs_node = dr_node r,
          vs_rack = dr_rack r, vs_label = dr_label r, vs_evidence = held,
          vs_freshness = (case held of Some e \<Rightarrow> ev_freshness e | None \<Rightarrow> FS_UNKNOWN),
          vs_capabilities = dr_capabilities r, vs_domains = ids,
          vs_temperature = map_option ev_temperature held,
          vs_throttle = (case held of Some e \<Rightarrow> ev_throttle e | None \<Rightarrow> None),
          vs_headroom = (case ev of Some e \<Rightarrow> te_headroom e | None \<Rightarrow> empty_headroom),
          vs_state = (case ev of Some e \<Rightarrow> te_state e | None \<Rightarrow> TS_UNKNOWN),
          vs_derating = (case ev of Some e \<Rightarrow> te_derating e | None \<Rightarrow> DL_UNKNOWN),
          vs_decision = (case ev of Some e \<Rightarrow> te_decision e | None \<Rightarrow> TD_UNKNOWN),
          vs_provenance = dr_provenance r\<rparr>)"

definition snapshot_worker :: "worker_record \<Rightarrow> worker_snapshot" where
  "snapshot_worker w =
     \<lparr>ww_worker = wo_worker w, ww_boot = wo_boot w, ww_label = wo_label w,
      ww_connected = wo_alive w, ww_registered_at = wo_registered_at w,
      ww_last_seen_at = wo_last_seen_at w, ww_evidence_published = wo_evidence_published w,
      ww_devices = wo_devices w\<rparr>"

text \<open>The ordered maps of the snapshot list their entries by key.\<close>

definition build_snapshot :: "time_ns \<Rightarrow> governor \<Rightarrow> governance_snapshot" where
  "build_snapshot now g =
     \<lparr>gs_coordinator = cf_coordinator (g_config g), gs_coordinator_epoch = g_epoch g,
      gs_policy_generation = g_policy_generation g,
      gs_topology_generation = g_topology_generation g,
      gs_capability_generation = g_capability_generation g,
      gs_captured_at = now,
      gs_domains = concat (map (\<lambda>i. case registry_find (g_domains g) i of
          Some d \<Rightarrow> [(i, snapshot_domain g d)] | None \<Rightarrow> []) (all_domain_ids (g_domains g))),
      gs_devices = sort_key fst (map (\<lambda>(k, r). (dr_device r, snapshot_device g r)) (g_devices g)),
      gs_workers = sort_key fst (map (\<lambda>(k, w). (wo_worker w, snapshot_worker w)) (g_workers g)),
      gs_actions = sort_key fst (map (\<lambda>(k, a). (ac_id a, a)) (g_actions g)),
      gs_policies = sort_key fst (map (\<lambda>(k, p). (pol_id p, p)) (g_policies g)),
      gs_couplings = g_couplings g,
      gs_historical_transitions = length (g_history g),
      gs_historical_actions = length (g_actions g),
      gs_historical_verifications = length (g_verifications g)\<rparr>"

definition publish_locked :: "time_ns \<Rightarrow> governor \<Rightarrow> governor" where
  "publish_locked now g = g \<lparr>g_published := Some (build_snapshot now g)\<rparr>"

section \<open>Retiring a worker incarnation\<close>

definition retire_action :: "time_ns \<Rightarrow> ident \<Rightarrow> ident \<Rightarrow> thermal_action \<Rightarrow> thermal_action" where
  "retire_action now worker boot a =
     (if aa_worker (ac_authority a) \<noteq> worker \<or> aa_worker_boot (ac_authority a) \<noteq> boot then a
      else if is_terminal (ac_lifecycle a) then a
      else a \<lparr>ac_lifecycle := AL_OUTCOME_UNKNOWN, ac_terminal_at := now,
             ac_detail := ''worker incarnation retired before the outcome was proven'',
             ac_reasons := reason_add R_EVIDENCE_GENERATION_INVALIDATED (ac_reasons a)\<rparr>)"

definition retire_boot_locked :: "time_ns \<Rightarrow> ident \<Rightarrow> ident \<Rightarrow> governor \<Rightarrow> governor" where
  "retire_boot_locked now worker boot g =
     g \<lparr>g_workers := map_values (\<lambda>w. if wo_worker w = worker \<and> wo_boot w = boot
           then w \<lparr>wo_alive := False\<rparr> else w) (g_workers g),
        g_invalidated := foldl (\<lambda>inv (k, e).
            if ev_worker e = worker \<and> ev_worker_boot e = boot then set_insert k inv else inv)
          (g_invalidated g) (g_evidence g),
        g_recovery_histories := map_values (invalidate_for_boot boot) (g_recovery_histories g),
        g_actions := map_values (retire_action now worker boot) (g_actions g),
        g_action_baselines := []\<rparr>"

end
