(* ===== verification/GovernorOps.thy ===== *)
theory GovernorOps
  imports Governor
begin

text \<open>
  The public operations of \<^verbatim>\<open>ThermalGovernor\<close> (\<^verbatim>\<open>governance.cpp\<close>): construction, registration,
  policy, workers, evidence and evaluation. A mutating operation returns its result together
  with the state after it; where the source returns early, the state is the one reached by then.
\<close>

section \<open>Construction\<close>

text \<open>
  \<open>sockets\<close> is what \<^verbatim>\<open>SocketRuntime::ensure\<close> returns; the members not named in \<^verbatim>\<open>create\<close> have
  their initialisers.
\<close>

definition initial_governor :: "governor_config \<Rightarrow> governor" where
  "initial_governor cf =
     \<lparr>g_config = cf,
      g_epoch = (if id_valid (cf_initial_epoch cf) then cf_initial_epoch cf else 1),
      g_policy_generation = pol_generation make_default, g_topology_generation = 1,
      g_capability_generation = 1, g_action_generation = 1, g_verification_generation = 1,
      g_recovery_generation = 1, g_telemetry_generation = 1, g_sequence = 0,
      g_policies = [(pol_id make_default, make_default)], g_devices = [],
      g_domains = empty_registry, g_couplings = [], g_history = [], g_actions = [],
      g_verifications = [], g_evidence = [], g_invalidated = [], g_recovery_histories = [],
      g_evaluations = [], g_explicit_recovery = [], g_workers = [], g_conflicted = [],
      g_action_baselines = [], g_history_note = '''', g_stopping = False, g_published = None\<rparr>"

definition create :: "time_ns \<Rightarrow> status \<Rightarrow> governor_config \<Rightarrow> governor result" where
  "create now sockets cf =
     (if \<not> is_ok (validate_policy make_default) then Inl E_POLICY_INVALID
      else if \<not> is_ok sockets then Inl E_TRANSPORT_IO
      else Inr (publish_locked now (initial_governor cf)))"

text \<open>\<open>given\<close> is whether the clock pointer is non-null; what the clock returns is \<open>now\<close>.\<close>

definition set_clock :: "time_ns \<Rightarrow> bool \<Rightarrow> governor \<Rightarrow> status \<times> governor" where
  "set_clock now given g =
     (if \<not> given then (Inl E_INVALID_ARGUMENT, g)
      else if g_evidence g \<noteq> [] then (Inl E_INVALID_ARGUMENT, g)
      else (success, publish_locked now g))"

section \<open>Registration\<close>

definition register_device ::
  "time_ns \<Rightarrow> device_registration \<Rightarrow> governor \<Rightarrow> status \<times> governor" where
  "register_device now r g =
     (if \<not> id_valid (dr_device r) \<or> \<not> id_valid (dr_generation r)
      then (Inl E_INVALID_ARGUMENT, g)
      else if dr_provenance r = P_UNKNOWN then (Inl E_INVALID_ARGUMENT, g)
      else if cf_max_devices (g_config g) \<le> length (g_devices g) then (Inl E_RESOURCE_EXHAUSTED, g)
      else if (case map_of (g_devices g) (dr_device r) of
                None \<Rightarrow> False | Some old \<Rightarrow> dr_generation r < dr_generation old)
      then (Inl E_STALE_DEVICE_GENERATION, g)
      else (success, publish_locked now (recompute_all_domains now
        (g \<lparr>g_devices := AList.update (dr_device r) r (g_devices g),
            g_capability_generation := gen_advance (g_capability_generation g)\<rparr>))))"

definition publish_capabilities ::
  "time_ns \<Rightarrow> ident \<Rightarrow> ident \<Rightarrow> capability_set \<Rightarrow> governor \<Rightarrow> status \<times> governor" where
  "publish_capabilities now device generation caps g =
     (case map_of (g_devices g) device of
        None \<Rightarrow> (Inl E_UNKNOWN_DEVICE, g)
      | Some r \<Rightarrow>
        if dr_generation r \<noteq> generation then (Inl E_STALE_DEVICE_GENERATION, g)
        else (success, publish_locked now (recompute_all_domains now
          (g \<lparr>g_devices := AList.update device (r \<lparr>dr_capabilities := caps\<rparr>) (g_devices g),
              g_capability_generation := gen_advance (g_capability_generation g)\<rparr>))))"

definition advance_topology :: "governor \<Rightarrow> governor" where
  "advance_topology g = g \<lparr>g_topology_generation := gen_advance (g_topology_generation g)\<rparr>"

text \<open>\<^verbatim>\<open>history_for(id).set_capacity(...)\<close>\<close>

definition size_history :: "ident \<Rightarrow> governor \<Rightarrow> governor" where
  "size_history i g =
     g \<lparr>g_recovery_histories := AList.update i
          (history_set_capacity (cf_max_recovery_samples (g_config g)) (history_for g i))
          (g_recovery_histories g)\<rparr>"

definition register_thermal_domain ::
  "time_ns \<Rightarrow> domain_definition \<Rightarrow> governor \<Rightarrow> status \<times> governor" where
  "register_thermal_domain now d g =
     (if cf_max_domains (g_config g) \<le> length (reg_definitions (g_domains g))
      then (Inl E_RESOURCE_EXHAUSTED, g)
      else case registry_add d (g_domains g) of
        Inl e \<Rightarrow> (Inl e, g)
      | Inr reg \<Rightarrow> (success, publish_locked now (advance_topology
          (recompute_domain now (dd_id d) (size_history (dd_id d) (g \<lparr>g_domains := reg\<rparr>))))))"

definition update_thermal_domain ::
  "time_ns \<Rightarrow> domain_definition \<Rightarrow> governor \<Rightarrow> status \<times> governor" where
  "update_thermal_domain now d g =
     (case registry_update d (g_domains g) of
        Inl e \<Rightarrow> (Inl e, g)
      | Inr reg \<Rightarrow> (success, publish_locked now (advance_topology (recompute_domain now (dd_id d)
          (g \<lparr>g_domains := reg,
              g_invalidated := foldl (\<lambda>inv (k, e).
                 if ev_domain e = dd_id d \<and> ev_domain_generation e < dd_generation d
                 then set_insert k inv else inv) (g_invalidated g) (g_evidence g)\<rparr>)))))"

definition register_coupling ::
  "time_ns \<Rightarrow> coupling_relation \<Rightarrow> governor \<Rightarrow> status \<times> governor" where
  "register_coupling now r g =
     (if \<not> id_valid (cr_id r) then (Inl E_INVALID_ARGUMENT, g)
      else if cr_provenance r = P_UNKNOWN then (Inl E_INVALID_ARGUMENT, g)
      else if \<not> flt (Fin 0) (cr_weight r) \<or> flt (Fin 1) (cr_weight r)
      then (Inl E_INVALID_ARGUMENT, g)
      else if cf_max_coupled_edges (g_config g) \<le> length (g_couplings g)
      then (Inl E_RESOURCE_EXHAUSTED, g)
      else if registry_find (g_domains g) (cr_source r) = None then (Inl E_UNKNOWN_DOMAIN, g)
      else if registry_find (g_domains g) (cr_destination r) = None then (Inl E_UNKNOWN_DOMAIN, g)
      else (success, publish_locked now (advance_topology (recompute_all_domains now
        (g \<lparr>g_couplings := coupling_add r (g_couplings g)\<rparr>)))))"

definition remove_coupling :: "time_ns \<Rightarrow> ident \<Rightarrow> governor \<Rightarrow> status \<times> governor" where
  "remove_coupling now i g =
     (case coupling_remove i (g_couplings g) of
        (False, _) \<Rightarrow> (Inl E_UNKNOWN_DOMAIN, g)
      | (True, edges) \<Rightarrow> (success, publish_locked now (advance_topology (recompute_all_domains now
          (g \<lparr>g_couplings := edges\<rparr>)))))"

section \<open>Policy\<close>

definition set_policy ::
  "time_ns \<Rightarrow> thermal_policy \<Rightarrow> governor \<Rightarrow> ident result \<times> governor" where
  "set_policy now policy g =
     (case validate_policy policy of
        Inl e \<Rightarrow> (Inl e, g)
      | Inr _ \<Rightarrow>
        if (case map_of (g_policies g) (pol_id policy) of
              None \<Rightarrow> False | Some old \<Rightarrow> pol_generation policy \<le> pol_generation old)
        then (Inl E_STALE_POLICY, g)
        else
          let g' = publish_locked now (recompute_all_domains now
            (g \<lparr>g_policies := AList.update (pol_id policy) policy (g_policies g),
                g_policy_generation := gen_advance (g_policy_generation g)\<rparr>))
          in (Inr (g_policy_generation g'), g'))"

definition get_policy :: "ident \<Rightarrow> governor \<Rightarrow> thermal_policy result" where
  "get_policy i g =
     (case map_of (g_policies g) i of None \<Rightarrow> Inl E_UNKNOWN_POLICY | Some p \<Rightarrow> Inr p)"

section \<open>Workers\<close>

definition register_worker ::
  "time_ns \<Rightarrow> ident \<Rightarrow> ident \<Rightarrow> string \<Rightarrow> governor \<Rightarrow> status \<times> governor" where
  "register_worker now worker boot label g =
     (if \<not> id_valid worker \<or> \<not> id_valid boot then (Inl E_INVALID_ARGUMENT, g)
      else
        let enrol = (\<lambda>g'.
          if cf_max_workers (g_config g') \<le> length (g_workers g') then (Inl E_RESOURCE_EXHAUSTED, g')
          else (success, publish_locked now (recompute_all_domains now
            (g' \<lparr>g_workers := AList.update worker
               \<lparr>wo_worker = worker, wo_boot = boot, wo_label = label, wo_alive = True,
                wo_registered_at = now, wo_last_seen_at = now, wo_evidence_published = 0,
                wo_devices = []\<rparr> (g_workers g')\<rparr>))))
        in case map_of (g_workers g) worker of
          None \<Rightarrow> enrol g
        | Some w \<Rightarrow>
          if boot < wo_boot w then (Inl E_STALE_WORKER, g)
          else if wo_boot w = boot
          then (success, publish_locked now
            (g \<lparr>g_workers := AList.update worker (w \<lparr>wo_alive := True, wo_label := label\<rparr>)
               (g_workers g)\<rparr>))
          else enrol (retire_boot_locked now worker (wo_boot w) g))"

definition worker_heartbeat :: "time_ns \<Rightarrow> ident \<Rightarrow> ident \<Rightarrow> governor \<Rightarrow> status \<times> governor" where
  "worker_heartbeat now worker boot g =
     (case map_of (g_workers g) worker of
        None \<Rightarrow> (Inl E_UNKNOWN_DEVICE, g)
      | Some w \<Rightarrow>
        if wo_boot w \<noteq> boot then (Inl E_STALE_WORKER, g)
        else (success, g \<lparr>g_workers := AList.update worker
          (w \<lparr>wo_last_seen_at := now, wo_alive := True\<rparr>) (g_workers g)\<rparr>))"

definition note_worker_death ::
  "time_ns \<Rightarrow> ident \<Rightarrow> ident \<Rightarrow> string \<Rightarrow> governor \<Rightarrow> status \<times> governor" where
  "note_worker_death now worker boot reason g =
     (case map_of (g_workers g) worker of
        None \<Rightarrow> (Inl E_UNKNOWN_DEVICE, g)
      | Some w \<Rightarrow>
        if wo_boot w \<noteq> boot then (Inl E_STALE_WORKER, g)
        else
          let g1 = g \<lparr>g_workers := AList.update worker (w \<lparr>wo_alive := False\<rparr>) (g_workers g)\<rparr>;
              g2 = publish_locked now (recompute_all_domains now (retire_boot_locked now worker boot g1))
          in (success, g2 \<lparr>g_history_note := reason\<rparr>))"

section \<open>Evidence\<close>

record evidence_receipt =
  er_comparison :: evidence_comparison
  er_telemetry_generation :: ident
  er_accepted :: bool
  er_affected_domains :: "ident list"

text \<open>The fences an observation passes before it is compared with the one held.\<close>

definition evidence_fences :: "evidence \<Rightarrow> governor \<Rightarrow> status" where
  "evidence_fences e g =
     (if g_stopping g then Inl E_REVALIDATION_REQUIRED
      else if ev_coordinator_epoch e \<noteq> g_epoch g then Inl E_STALE_EPOCH
      else if id_valid (ev_worker e) \<and>
              (case map_of (g_workers g) (ev_worker e) of
                 None \<Rightarrow> True
               | Some w \<Rightarrow> wo_boot w \<noteq> ev_worker_boot e \<or> \<not> wo_alive w)
      then Inl E_STALE_WORKER
      else if sr_kind (ev_subject e) = SK_DEVICE \<and>
              map_of (g_devices g) (sr_device (ev_subject e)) = None
      then Inl E_UNKNOWN_DEVICE
      else if sr_kind (ev_subject e) = SK_DEVICE \<and>
              (case map_of (g_devices g) (sr_device (ev_subject e)) of
                 None \<Rightarrow> False
               | Some r \<Rightarrow> dr_generation r \<noteq> sr_device_generation (ev_subject e))
      then Inl E_STALE_DEVICE_GENERATION
      else if id_valid (ev_domain e) \<and> registry_find (g_domains g) (ev_domain e) = None
      then Inl E_UNKNOWN_DOMAIN
      else if id_valid (ev_domain e) \<and>
              (case registry_find (g_domains g) (ev_domain e) of
                 None \<Rightarrow> False
               | Some d \<Rightarrow> dd_generation d \<noteq> ev_domain_generation e)
      then Inl E_STALE_DOMAIN_GENERATION
      else success)"

text \<open>
  The comparison with the observation held for the same subject: \<open>None\<close> means that the
  publication goes on, otherwise the operation returns.
\<close>

definition sequence_check :: "evidence \<Rightarrow> governor \<Rightarrow> evidence_receipt result option" where
  "sequence_check e g =
     (case map_of (g_evidence g) (subject_key (ev_subject e)) of
        None \<Rightarrow> None
      | Some held \<Rightarrow>
        if ev_worker held = ev_worker e \<and> ev_worker_boot held = ev_worker_boot e
        then (case compare_evidence held e of
            EC_IDENTICAL_DUPLICATE \<Rightarrow>
              Some (Inr \<lparr>er_comparison = EC_IDENTICAL_DUPLICATE,
                er_telemetry_generation = ev_telemetry_generation held,
                er_accepted = False, er_affected_domains = []\<rparr>)
          | EC_CONFLICTING_DUPLICATE \<Rightarrow> Some (Inl E_DUPLICATE_CONFLICT)
          | EC_SUPERSEDED \<Rightarrow> Some (Inl E_STALE_TELEMETRY)
          | EC_INDEPENDENT \<Rightarrow>
              if ev_telemetry_generation e < ev_telemetry_generation held
              then Some (Inl E_STALE_TELEMETRY) else None)
        else None)"

definition recovery_sample_of :: "evidence \<Rightarrow> domain_definition \<Rightarrow> recovery_sample" where
  "recovery_sample_of e d =
     \<lparr>rs_evidence_id = ev_evidence_id e, rs_temperature = ev_temperature e,
      rs_at = ev_measured_at e, rs_worker_boot = ev_worker_boot e, rs_worker = ev_worker e,
      rs_coordinator_epoch = ev_coordinator_epoch e,
      rs_device_generation = sr_device_generation (ev_subject e),
      rs_domain_generation = dd_generation d,
      rs_telemetry_generation = ev_telemetry_generation e,
      rs_throttle_class = (case ev_throttle e of Some t \<Rightarrow> thr_class t | None \<Rightarrow> TH_THROTTLE_UNKNOWN),
      rs_provenance = ev_provenance e, rs_admissible = (ev_integrity e = IS_OK)\<rparr>"

definition note_sample :: "time_ns \<Rightarrow> evidence \<Rightarrow> governor \<Rightarrow> ident \<Rightarrow> governor" where
  "note_sample now e g i =
     (case registry_find (g_domains g) i of
        None \<Rightarrow> g
      | Some d \<Rightarrow> recompute_domain now i
          (g \<lparr>g_recovery_histories := AList.update i
               (history_push (recovery_sample_of e d) (history_for g i)) (g_recovery_histories g)\<rparr>))"

definition accept_evidence :: "time_ns \<Rightarrow> evidence \<Rightarrow> governor \<Rightarrow> governor" where
  "accept_evidence now e g =
     (let key = subject_key (ev_subject e) in
      g \<lparr>g_conflicted := set_erase (sr_device (ev_subject e)) (g_conflicted g),
         g_invalidated := set_erase key (g_invalidated g),
         g_telemetry_generation := gen_observe (g_telemetry_generation g) (ev_telemetry_generation e),
         g_evidence := AList.update key e (g_evidence g),
         g_workers := (if id_valid (ev_worker e)
           then (case map_of (g_workers g) (ev_worker e) of
               None \<Rightarrow> g_workers g
             | Some w \<Rightarrow> AList.update (ev_worker e)
                 (w \<lparr>wo_evidence_published := wo_evidence_published w + 1,
                     wo_last_seen_at := now\<rparr>) (g_workers g))
           else g_workers g)\<rparr>)"

definition affected_domains :: "evidence \<Rightarrow> governor \<Rightarrow> ident list" where
  "affected_domains e g =
     sort_unique (domains_for_subject (g_domains g) (ev_subject e) @
       (if id_valid (ev_domain e) then [ev_domain e] else []))"

definition publish_impl ::
  "time_ns \<Rightarrow> evidence \<Rightarrow> governor \<Rightarrow> evidence_receipt result \<times> governor" where
  "publish_impl now e g =
     (case validate_evidence_structure e of
        Inl err \<Rightarrow> (Inl err, g)
      | Inr _ \<Rightarrow>
        (case evidence_fences e g of
           Inl err \<Rightarrow> (Inl err, g)
         | Inr _ \<Rightarrow>
           (case sequence_check e g of
              Some outcome \<Rightarrow> (outcome, g)
            | None \<Rightarrow>
              let g1 = accept_evidence now e g;
                  affected = affected_domains e g1;
                  g2 = foldl (note_sample now e) g1 affected;
                  g3 = recompute_domains now (coupled_neighbours g2 affected) g2
              in (Inr \<lparr>er_comparison = EC_INDEPENDENT,
                    er_telemetry_generation = ev_telemetry_generation e,
                    er_accepted = True, er_affected_domains = affected\<rparr>,
                  publish_locked now g3))))"

definition publish_temperature ::
  "time_ns \<Rightarrow> evidence \<Rightarrow> governor \<Rightarrow> evidence_receipt result \<times> governor" where
  "publish_temperature now e g = publish_impl now e g"

definition publish_throttle_evidence ::
  "time_ns \<Rightarrow> evidence \<Rightarrow> governor \<Rightarrow> evidence_receipt result \<times> governor" where
  "publish_throttle_evidence now e g =
     (if ev_throttle e = None then (Inl E_INVALID_ARGUMENT, g) else publish_impl now e g)"

definition publish_cooling_evidence ::
  "time_ns \<Rightarrow> evidence \<Rightarrow> governor \<Rightarrow> evidence_receipt result \<times> governor" where
  "publish_cooling_evidence now e g =
     (if (case ev_cooling e of None \<Rightarrow> True | Some c \<Rightarrow> \<not> cooling_has_any c)
      then (Inl E_CAPABILITY_UNSUPPORTED, g) else publish_impl now e g)"

definition publish_node_temperature ::
  "time_ns \<Rightarrow> evidence \<Rightarrow> governor \<Rightarrow> evidence_receipt result \<times> governor" where
  "publish_node_temperature now e g =
     (if sr_kind (ev_subject e) \<noteq> SK_NODE then (Inl E_INVALID_ARGUMENT, g) else publish_impl now e g)"

definition publish_rack_temperature ::
  "time_ns \<Rightarrow> evidence \<Rightarrow> governor \<Rightarrow> evidence_receipt result \<times> governor" where
  "publish_rack_temperature now e g =
     (if sr_kind (ev_subject e) \<noteq> SK_RACK then (Inl E_INVALID_ARGUMENT, g) else publish_impl now e g)"

section \<open>Evaluation and queries\<close>

definition evaluate_domain :: "time_ns \<Rightarrow> ident \<Rightarrow> governor \<Rightarrow> evaluation result \<times> governor" where
  "evaluate_domain now domain g =
     (case registry_find (g_domains g) domain of
        None \<Rightarrow> (Inl E_UNKNOWN_DOMAIN, g)
      | Some d \<Rightarrow>
        (case evaluate_locked g now d of
           Inl e \<Rightarrow> (Inl e, g)
         | Inr ev \<Rightarrow> (Inr ev, record_transition domain (dd_generation d) ev g)))"

definition evaluate_device :: "time_ns \<Rightarrow> ident \<Rightarrow> governor \<Rightarrow> evaluation result \<times> governor" where
  "evaluate_device now device g =
     (if map_of (g_devices g) device = None then (Inl E_UNKNOWN_DEVICE, g)
      else case domains_for_device (g_domains g) device of
        [] \<Rightarrow> (Inl E_UNKNOWN_DOMAIN, g)
      | domain # _ \<Rightarrow>
        (case registry_find (g_domains g) domain of
           None \<Rightarrow> (Inl E_UNKNOWN_DOMAIN, g)
         | Some d \<Rightarrow>
           (case evaluate_locked g now d of
              Inl e \<Rightarrow> (Inl e, g)
            | Inr ev \<Rightarrow> (Inr ev, record_transition domain (dd_generation d) ev g))))"

text \<open>The result of \<^verbatim>\<open>evaluate_admission\<close> before the decision is made.\<close>

definition admission_base ::
  "admission_request \<Rightarrow> governor \<Rightarrow> domain_definition \<Rightarrow> thermal_policy \<Rightarrow> evaluation \<Rightarrow> admission_result"
  where
  "admission_base rq g d policy stored =
     empty_admission
       \<lparr>ad_domain := dd_id d, ad_domain_generation := dd_generation d,
        ad_workload := rq_workload rq, ad_profile := rq_profile rq, ad_state := te_state stored,
        ad_derating := te_derating stored,
        ad_governing_limit := hb_governing_limit (te_headroom stored),
        ad_current_temperature := hb_current_temperature (te_headroom stored),
        ad_effective_headroom := hb_effective_headroom (te_headroom stored),
        ad_coordinator_epoch := g_epoch g, ad_policy_generation := pol_generation policy,
        ad_telemetry_generation := te_telemetry_generation stored,
        ad_capability_generation := g_capability_generation g,
        ad_topology_generation := g_topology_generation g,
        ad_permitted_class := te_permitted_execution_class stored,
        ad_permitted_concurrency := te_permitted_concurrency stored,
        ad_permitted_clock_ceiling := te_permitted_clock_ceiling stored,
        ad_required_headroom := admission_demand policy (rq_profile rq),
        ad_reasons := te_reasons stored, ad_constraints := te_intents stored\<rparr>"

text \<open>The eligibility checks for a stored decision of \<open>ALLOW\<close> or \<open>ALLOW_DERATED\<close>.\<close>

definition admission_eligible ::
  "admission_request \<Rightarrow> thermal_policy \<Rightarrow> execution_class \<Rightarrow> evaluation \<Rightarrow> admission_result \<Rightarrow>
     admission_result" where
  "admission_eligible rq policy required stored base =
     (let derate_ok = ap_allow_derated_admission (pol_admission policy);
          enough = meets_demand (te_headroom stored) (ad_required_headroom base);
          derated0 = (te_decision stored = TD_ALLOW_DERATED)
      in if \<not> enough \<and> \<not> derate_ok
         then base \<lparr>ad_decision := AD_DENY,
           ad_reasons := reason_add R_DERATED_ADMISSION_FORBIDDEN (ad_reasons base)\<rparr>
         else
           let r1 = reason_add (if enough then R_EFFECTIVE_HEADROOM_SUFFICIENT
                      else R_DERATED_ADMISSION_ALLOWED) (ad_reasons base);
               over = (case rq_requested_concurrency rq of
                   None \<Rightarrow> False | Some c \<Rightarrow> flt (ad_permitted_concurrency base) c);
               r2 = reason_if over R_CONCURRENCY_CEILING_APPLIED r1;
               mismatch = (rq_requested_class rq \<noteq> XC_UNRESTRICTED \<and>
                 ad_permitted_class base = XC_BEST_EFFORT_THERMAL \<and>
                 rq_requested_class rq \<noteq> XC_BEST_EFFORT_THERMAL);
               r3 = reason_if mismatch R_WORKLOAD_REQUIRES_DERATING r2;
               exceeds = (required \<noteq> XC_UNRESTRICTED \<and> required \<noteq> ad_permitted_class base);
               derated = (derated0 \<or> \<not> enough \<or> over \<or> mismatch \<or> exceeds)
           in if exceeds \<and> ad_permitted_class base = XC_BEST_EFFORT_THERMAL
              then base \<lparr>ad_decision := (if derate_ok then AD_ADMIT_DERATED else AD_DENY),
                ad_reasons := reason_add R_WORKLOAD_REQUIRES_DERATING r3\<rparr>
              else base \<lparr>ad_decision := (if derated then AD_ADMIT_DERATED else AD_ADMIT),
                ad_reasons := canonicalise_reasons r3\<rparr>)"

definition admission_decide ::
  "admission_request \<Rightarrow> thermal_policy \<Rightarrow> evaluation \<Rightarrow> admission_result \<Rightarrow> admission_result" where
  "admission_decide rq policy stored base =
     (case workload_execution_class policy (rq_profile rq) of
        None \<Rightarrow> base \<lparr>ad_decision := AD_DENY,
          ad_reasons := reason_add R_WORKLOAD_PROFILE_EXCLUDED (ad_reasons base)\<rparr>
      | Some required \<Rightarrow>
        (case te_decision stored of
           TD_UNKNOWN \<Rightarrow> base \<lparr>ad_decision := AD_UNKNOWN\<rparr>
         | TD_UNSUPPORTED \<Rightarrow> base \<lparr>ad_decision := AD_UNSUPPORTED\<rparr>
         | TD_REVALIDATION_REQUIRED \<Rightarrow> base \<lparr>ad_decision := AD_REVALIDATION_REQUIRED\<rparr>
         | TD_DENY \<Rightarrow> base \<lparr>ad_decision := AD_DENY\<rparr>
         | TD_DEFER \<Rightarrow> base \<lparr>ad_decision :=
               (if ap_allow_defer (pol_admission policy) then AD_DEFER else AD_DENY),
             ad_reasons := reason_add R_ADMISSION_DEFERRED_BY_POLICY (ad_reasons base)\<rparr>
         | TD_ALLOW \<Rightarrow> admission_eligible rq policy required stored base
         | TD_ALLOW_DERATED \<Rightarrow> admission_eligible rq policy required stored base))"

text \<open>
  \<^verbatim>\<open>evaluate_admission\<close> changes no state. The \<^verbatim>\<open>EvaluationInput\<close> it fills with the requested
  profile is never evaluated; the stored evaluation is computed without it.
\<close>

definition evaluate_admission ::
  "time_ns \<Rightarrow> admission_request \<Rightarrow> governor \<Rightarrow> admission_result result" where
  "evaluate_admission now rq g =
     (case registry_find (g_domains g) (rq_domain rq) of
        None \<Rightarrow> Inl E_UNKNOWN_DOMAIN
      | Some d \<Rightarrow>
        if id_valid (rq_expected_domain_generation rq) \<and>
           rq_expected_domain_generation rq \<noteq> dd_generation d
        then Inl E_STALE_DOMAIN_GENERATION
        else if (case rq_expected_coordinator_epoch rq of None \<Rightarrow> False | Some x \<Rightarrow> x \<noteq> g_epoch g)
        then Inl E_STALE_EPOCH
        else case policy_for g d of
          None \<Rightarrow> Inl E_UNKNOWN_POLICY
        | Some policy \<Rightarrow>
          if (case rq_expected_policy_generation rq of
                None \<Rightarrow> False | Some x \<Rightarrow> x \<noteq> pol_generation policy)
          then Inl E_STALE_POLICY
          else (case evaluate_locked g now d of
              Inl e \<Rightarrow> Inl e
            | Inr stored \<Rightarrow>
              Inr (admission_decide rq policy stored (admission_base rq g d policy stored))))"

definition query_headroom :: "ident \<Rightarrow> governor \<Rightarrow> headroom result" where
  "query_headroom domain g =
     (case map_of (g_evaluations g) domain of
        None \<Rightarrow> Inl E_UNKNOWN_DOMAIN | Some ev \<Rightarrow> Inr (te_headroom ev))"

definition query_envelope :: "ident \<Rightarrow> governor \<Rightarrow> envelope result" where
  "query_envelope domain g =
     (case registry_find (g_domains g) domain of
        None \<Rightarrow> Inl E_UNKNOWN_DOMAIN
      | Some d \<Rightarrow>
        (case map_of (g_evaluations g) domain of
           None \<Rightarrow> Inl E_REVALIDATION_REQUIRED | Some ev \<Rightarrow> Inr (make_envelope g d ev)))"

definition query_state :: "ident \<Rightarrow> governor \<Rightarrow> thermal_state result" where
  "query_state domain g =
     (if registry_find (g_domains g) domain = None then Inl E_UNKNOWN_DOMAIN
      else case map_of (g_evaluations g) domain of
        None \<Rightarrow> Inl E_REVALIDATION_REQUIRED | Some ev \<Rightarrow> Inr (te_state ev))"

definition query_recovery :: "ident \<Rightarrow> governor \<Rightarrow> recovery_assessment result" where
  "query_recovery domain g =
     (case registry_find (g_domains g) domain of
        None \<Rightarrow> Inl E_UNKNOWN_DOMAIN
      | Some d \<Rightarrow>
        if policy_for g d = None then Inl E_UNKNOWN_POLICY
        else case map_of (g_evaluations g) domain of
          None \<Rightarrow> Inl E_REVALIDATION_REQUIRED | Some ev \<Rightarrow> Inr (te_recovery ev))"

definition authorize_recovery ::
  "time_ns \<Rightarrow> ident \<Rightarrow> string \<Rightarrow> governor \<Rightarrow> status \<times> governor" where
  "authorize_recovery now domain justification g =
     (if registry_find (g_domains g) domain = None then (Inl E_UNKNOWN_DOMAIN, g)
      else (success, publish_locked now (recompute_domain now domain
        (g \<lparr>g_recovery_generation := gen_advance (g_recovery_generation g),
            g_explicit_recovery := set_insert domain (g_explicit_recovery g),
            g_history_note := justification\<rparr>))))"

definition revoke_recovery :: "time_ns \<Rightarrow> ident \<Rightarrow> governor \<Rightarrow> status \<times> governor" where
  "revoke_recovery now domain g =
     (if registry_find (g_domains g) domain = None then (Inl E_UNKNOWN_DOMAIN, g)
      else (success, publish_locked now (recompute_domain now domain
        (g \<lparr>g_explicit_recovery := set_erase domain (g_explicit_recovery g)\<rparr>))))"

end
