(* ===== verification/GovernorActions.thy ===== *)
theory GovernorActions
  imports GovernorOps
begin

text \<open>
  The action half of \<^verbatim>\<open>ThermalGovernor\<close>: authorisation, dispatch, acknowledgement, result,
  verification and cancellation of mitigation actions, and the durability and shutdown paths.
  Reading and writing the durable file is a parameter: the state handed to
  \<^verbatim>\<open>DurableStore::save\<close> is returned, and what \<^verbatim>\<open>DurableStore::load\<close> gives is an argument.
\<close>

section \<open>Authorisation\<close>

definition new_authority ::
  "governor \<Rightarrow> ident \<Rightarrow> ident \<Rightarrow> domain_definition \<Rightarrow> thermal_policy \<Rightarrow> evaluation \<Rightarrow> action_authority" where
  "new_authority g generation domain d policy ev =
     (let base = empty_authority
        \<lparr>aa_coordinator_epoch := g_epoch g, aa_action_id := generation,
         aa_action_generation := generation, aa_domain := domain,
         aa_domain_generation := dd_generation d,
         aa_policy_generation := pol_generation policy,
         aa_telemetry_generation := te_telemetry_generation ev,
         aa_topology_generation := g_topology_generation g,
         aa_capability_generation := g_capability_generation g\<rparr>
      in case gather_domain_evidence d (g_evidence g) of
        None \<Rightarrow> base
      | Some de \<Rightarrow>
        let e = de_evidence de in base
          \<lparr>aa_worker := ev_worker e, aa_worker_boot := ev_worker_boot e,
           aa_device := sr_device (ev_subject e),
           aa_device_generation := sr_device_generation (ev_subject e),
           aa_telemetry_generation := ev_telemetry_generation e\<rparr>)"

definition new_action ::
  "time_ns \<Rightarrow> governor \<Rightarrow> ident \<Rightarrow> ident \<Rightarrow> domain_definition \<Rightarrow> thermal_policy \<Rightarrow> evaluation \<Rightarrow>
     intent_record \<Rightarrow> string \<Rightarrow> thermal_action" where
  "new_action now g generation domain d policy ev r rationale =
     empty_action
       \<lparr>ac_id := generation, ac_generation := generation, ac_intent := ir_intent r,
        ac_authority := new_authority g generation domain d policy ev,
        ac_provenance := (if te_state ev = TS_UNKNOWN \<or> te_state ev = TS_UNSUPPORTED \<or>
            te_state ev = TS_REVALIDATION_REQUIRED then P_UNKNOWN else te_provenance ev),
        ac_requested_clock_ceiling := ir_clock_ceiling r,
        ac_requested_concurrency := ir_concurrency_ceiling r,
        ac_requested_admission := ir_admission_ceiling r,
        ac_lifecycle := AL_AUTHORIZED, ac_authorized_at := now, ac_planned_at := now,
        ac_authorization_source := ''thermal-governor'',
        ac_detail := (if rationale = [] then ir_rationale r else rationale),
        ac_reasons := te_reasons ev\<rparr>"

definition authorize_mitigation ::
  "time_ns \<Rightarrow> ident \<Rightarrow> intent_record \<Rightarrow> string \<Rightarrow> governor \<Rightarrow> ident result \<times> governor" where
  "authorize_mitigation now domain r rationale g =
     (case registry_find (g_domains g) domain of
        None \<Rightarrow> (Inl E_UNKNOWN_DOMAIN, g)
      | Some d \<Rightarrow>
        if ir_intent r = MI_NO_ACTION then (Inl E_ACTION_INFEASIBLE, g)
        else case policy_for g d of
          None \<Rightarrow> (Inl E_UNKNOWN_POLICY, g)
        | Some policy \<Rightarrow>
          if \<not> policy_allows policy (ir_intent r) then (Inl E_ACTION_INFEASIBLE, g)
          else if cf_max_actions (g_config g) \<le> length (g_actions g)
          then (Inl E_RESOURCE_EXHAUSTED, g)
          else case evaluate_locked g now d of
            Inl e \<Rightarrow> (Inl e, g)
          | Inr ev \<Rightarrow>
            if te_state ev = TS_CRITICAL \<and> is_restoring_intent (ir_intent r)
            then (Inl E_ACTION_INFEASIBLE, g)
            else if te_state ev = TS_UNSUPPORTED \<and> is_restoring_intent (ir_intent r)
            then (Inl E_CAPABILITY_UNSUPPORTED, g)
            else
              let n = gen_advance (g_action_generation g);
                  g1 = g \<lparr>g_action_generation := n\<rparr>;
                  a = new_action now g1 n domain d policy ev r rationale
              in (Inr n, publish_locked now
                (g1 \<lparr>g_action_baselines := AList.update n ev (g_action_baselines g1),
                     g_actions := AList.update n a (g_actions g1)\<rparr>)))"

text \<open>The first intent the evaluation demands, when the caller names none.\<close>

definition demanded_intent :: "evaluation \<Rightarrow> intent_record \<Rightarrow> intent_record" where
  "demanded_intent ev r =
     (if ir_intent r = MI_NO_ACTION
      then (case find (\<lambda>x. ir_intent x \<noteq> MI_NO_ACTION) (te_intents ev) of
          Some x \<Rightarrow> x | None \<Rightarrow> r)
      else r)"

definition authorize_derating ::
  "time_ns \<Rightarrow> ident \<Rightarrow> intent_record \<Rightarrow> string \<Rightarrow> governor \<Rightarrow> ident result \<times> governor" where
  "authorize_derating now domain r rationale g =
     (case evaluate_domain now domain g of
        (Inl e, g1) \<Rightarrow> (Inl e, g1)
      | (Inr ev, g1) \<Rightarrow>
        let r' = demanded_intent ev r
        in if ir_intent r' = MI_NO_ACTION then (Inl E_ACTION_INFEASIBLE, g1)
           else authorize_mitigation now domain r' rationale g1)"

definition get_action :: "ident \<Rightarrow> governor \<Rightarrow> thermal_action result" where
  "get_action i g = (case map_of (g_actions g) i of None \<Rightarrow> Inl E_UNKNOWN_ACTION | Some a \<Rightarrow> Inr a)"

definition put_action :: "ident \<Rightarrow> thermal_action \<Rightarrow> governor \<Rightarrow> governor" where
  "put_action i a g = g \<lparr>g_actions := AList.update i a (g_actions g)\<rparr>"

section \<open>Dispatch, acknowledgement and result\<close>

text \<open>
  The source dereferences the definition of the action's domain when it gathers evidence; a
  domain is never removed from the governor, so the branch without one is not reached.
\<close>

definition dispatch_authority :: "thermal_action \<Rightarrow> governor \<Rightarrow> authority_snapshot" where
  "dispatch_authority a g =
     (let domain = aa_domain (ac_authority a);
          def = registry_find (g_domains g) domain;
          base = empty_snapshot_authority
            \<lparr>as_coordinator_epoch := g_epoch g, as_action_generation := g_action_generation g,
             as_policy_generation := g_policy_generation g,
             as_domain_generation := (case def of Some d \<Rightarrow> dd_generation d | None \<Rightarrow> 0),
             as_topology_generation := g_topology_generation g,
             as_capability_generation := g_capability_generation g,
             as_telemetry_generation := (case map_of (g_evaluations g) domain of
                Some ev \<Rightarrow> te_telemetry_generation ev | None \<Rightarrow> 0)\<rparr>
      in case (case def of None \<Rightarrow> None | Some d \<Rightarrow> gather_domain_evidence d (g_evidence g)) of
        None \<Rightarrow> base
      | Some de \<Rightarrow> base
          \<lparr>as_worker_boot := ev_worker_boot (de_evidence de),
           as_device_generation := sr_device_generation (ev_subject (de_evidence de)),
           as_telemetry_generation := ev_telemetry_generation (de_evidence de)\<rparr>)"

definition record_action_dispatch ::
  "time_ns \<Rightarrow> ident \<Rightarrow> governor \<Rightarrow> action_lifecycle result \<times> governor" where
  "record_action_dispatch now i g =
     (case map_of (g_actions g) i of
        None \<Rightarrow> (Inl E_UNKNOWN_ACTION, g)
      | Some a \<Rightarrow>
        if is_terminal (ac_lifecycle a) then (Inl E_ACTION_SUPERSEDED, g)
        else if ac_lifecycle a \<noteq> AL_AUTHORIZED then (Inl E_ACTION_INFEASIBLE, g)
        else case revalidate_action_authority (ac_authority a) (dispatch_authority a g) of
          Inl (code, detail) \<Rightarrow>
            (Inl code, publish_locked now (put_action i
              (a \<lparr>ac_lifecycle := AL_SUPERSEDED, ac_terminal_at := now,
                 ac_detail := render_error code detail\<rparr>) g))
        | Inr _ \<Rightarrow>
            (Inr AL_DISPATCHED, publish_locked now (put_action i
              (a \<lparr>ac_lifecycle := AL_DISPATCHED, ac_dispatched_at := now\<rparr>) g)))"

record action_ack =
  ak_action_id :: ident
  ak_action_generation :: ident
  ak_coordinator_epoch :: ident
  ak_worker_boot :: ident
  ak_device_generation :: ident
  ak_domain_generation :: ident
  ak_accepted :: bool
  ak_detail :: string

record action_report =
  rr_action_id :: ident
  rr_action_generation :: ident
  rr_coordinator_epoch :: ident
  rr_worker_boot :: ident
  rr_device_generation :: ident
  rr_domain_generation :: ident
  rr_policy_generation :: ident
  rr_telemetry_generation :: ident
  rr_backend_succeeded :: bool
  rr_detail :: string

fun text_contains :: "string \<Rightarrow> string \<Rightarrow> bool" where
  "text_contains needle [] \<longleftrightarrow> needle = []"
| "text_contains needle (c # cs) \<longleftrightarrow>
     take (length needle) (c # cs) = needle \<or> text_contains needle cs"

definition record_action_ack ::
  "time_ns \<Rightarrow> action_ack \<Rightarrow> governor \<Rightarrow> action_lifecycle result \<times> governor" where
  "record_action_ack now k g =
     (case map_of (g_actions g) (ak_action_id k) of
        None \<Rightarrow> (Inl E_UNKNOWN_ACTION, g)
      | Some a \<Rightarrow>
        let u = ac_authority a; i = ak_action_id k in
        if ak_action_generation k \<noteq> ac_generation a then (Inl E_STALE_ACTION, g)
        else if ak_coordinator_epoch k \<noteq> g_epoch g then (Inl E_STALE_EPOCH, g)
        else if id_valid (aa_worker u) \<and> ak_worker_boot k \<noteq> aa_worker_boot u
        then (Inl E_STALE_WORKER, g)
        else if id_valid (aa_device u) \<and> ak_device_generation k \<noteq> aa_device_generation u
        then (Inl E_STALE_DEVICE_GENERATION, g)
        else if ak_domain_generation k \<noteq> aa_domain_generation u
        then (Inl E_STALE_DOMAIN_GENERATION, g)
        else if is_terminal (ac_lifecycle a) then (Inl E_ACTION_SUPERSEDED, g)
        else if ac_lifecycle a = AL_ACKNOWLEDGED \<or> ac_lifecycle a = AL_VERIFYING
        then (if ak_accepted k = (\<not> text_contains ''rejected'' (ac_detail a))
              then (Inr (ac_lifecycle a), g) else (Inl E_DUPLICATE_CONFLICT, g))
        else if ac_lifecycle a \<noteq> AL_DISPATCHED then (Inl E_ACTION_INFEASIBLE, g)
        else if \<not> ak_accepted k
        then (Inr AL_FAILED, publish_locked now (put_action i
          (a \<lparr>ac_acknowledged_at := now, ac_lifecycle := AL_FAILED, ac_terminal_at := now,
             ac_detail := (if ak_detail k = [] then ''backend rejected the mitigation instruction''
               else ak_detail k),
             ac_reasons := reason_add R_NONE (ac_reasons a)\<rparr>) g))
        else (Inr AL_ACKNOWLEDGED, publish_locked now (put_action i
          (a \<lparr>ac_acknowledged_at := now, ac_lifecycle := AL_ACKNOWLEDGED,
             ac_detail := ak_detail k\<rparr>) g)))"

definition policy_superseded :: "action_report \<Rightarrow> thermal_action \<Rightarrow> governor \<Rightarrow> bool" where
  "policy_superseded r a g \<longleftrightarrow>
     rr_policy_generation r \<noteq> aa_policy_generation (ac_authority a) \<or>
     (case registry_find (g_domains g) (aa_domain (ac_authority a)) of
        None \<Rightarrow> False
      | Some d \<Rightarrow>
        (case policy_for g d of
           None \<Rightarrow> False
         | Some p \<Rightarrow> pol_generation p \<noteq> aa_policy_generation (ac_authority a)))"

definition record_action_result ::
  "time_ns \<Rightarrow> action_report \<Rightarrow> governor \<Rightarrow> action_lifecycle result \<times> governor" where
  "record_action_result now r g =
     (case map_of (g_actions g) (rr_action_id r) of
        None \<Rightarrow> (Inl E_UNKNOWN_ACTION, g)
      | Some a \<Rightarrow>
        let u = ac_authority a; i = rr_action_id r in
        if rr_action_generation r \<noteq> ac_generation a then (Inl E_STALE_ACTION, g)
        else if rr_coordinator_epoch r \<noteq> g_epoch g then (Inl E_STALE_EPOCH, g)
        else if id_valid (aa_worker u) \<and> rr_worker_boot r \<noteq> aa_worker_boot u
        then (Inl E_STALE_WORKER, g)
        else if id_valid (aa_device u) \<and> rr_device_generation r \<noteq> aa_device_generation u
        then (Inl E_STALE_DEVICE_GENERATION, g)
        else if rr_domain_generation r \<noteq> aa_domain_generation u
        then (Inl E_STALE_DOMAIN_GENERATION, g)
        else if policy_superseded r a g
        then (Inl E_STALE_POLICY, publish_locked now (put_action i
          (a \<lparr>ac_lifecycle := AL_SUPERSEDED, ac_terminal_at := now,
             ac_detail := ''policy generation advanced before the action result arrived''\<rparr>) g))
        else if is_terminal (ac_lifecycle a) then (Inl E_ACTION_SUPERSEDED, g)
        else if ac_lifecycle a = AL_VERIFYING then (Inr AL_VERIFYING, g)
        else if ac_lifecycle a \<noteq> AL_ACKNOWLEDGED \<and> ac_lifecycle a \<noteq> AL_DISPATCHED
        then (Inl E_ACTION_INFEASIBLE, g)
        else if \<not> rr_backend_succeeded r
        then (Inr AL_FAILED, publish_locked now (put_action i
          (a \<lparr>ac_detail := rr_detail r, ac_lifecycle := AL_FAILED, ac_terminal_at := now\<rparr>) g))
        else (Inr AL_VERIFYING, publish_locked now (put_action i
          (a \<lparr>ac_detail := rr_detail r, ac_lifecycle := AL_VERIFYING\<rparr>) g)))"

section \<open>Verification and cancellation\<close>

definition verification_input_for ::
  "time_ns \<Rightarrow> governor \<Rightarrow> thermal_action \<Rightarrow> domain_definition \<Rightarrow> evaluation \<Rightarrow> evaluation \<Rightarrow> evidence \<Rightarrow>
     verification_input" where
  "verification_input_for now g a d before after fresh =
     (let key = subject_key (for_domain (dd_id d) (dd_generation d));
          freshness = (if key \<in> set (g_invalidated g) then FS_GENERATION_INVALIDATED else FS_FRESH)
      in \<lparr>vi_action = Some a, vi_before = before, vi_after = after,
          vi_fresh_evidence = (freshness = FS_FRESH \<and> ac_dispatched_at a < ev_measured_at fresh),
          vi_freshness = freshness,
          vi_current = \<lparr>as_coordinator_epoch = g_epoch g, as_domain_generation = dd_generation d,
            as_device_generation = aa_device_generation (ac_authority a),
            as_policy_generation = g_policy_generation g,
            as_telemetry_generation = te_telemetry_generation after,
            as_worker_boot = aa_worker_boot (ac_authority a),
            as_topology_generation = g_topology_generation g,
            as_capability_generation = g_capability_generation g,
            as_action_generation = g_action_generation g\<rparr>,
          vi_policy_generation = g_policy_generation g,
          vi_secondary_hard_violation = (te_state after = TS_CRITICAL \<and> te_state before \<noteq> TS_CRITICAL),
          vi_now = now\<rparr>)"

definition commit_verification ::
  "time_ns \<Rightarrow> ident \<Rightarrow> thermal_action \<Rightarrow> domain_definition \<Rightarrow> evaluation \<Rightarrow> action_verification \<Rightarrow>
     governor \<Rightarrow> action_verification result \<times> governor" where
  "commit_verification now i a d after v g =
     (let n = gen_advance (g_verification_generation g);
          entry = v \<lparr>av_generation := n\<rparr>;
          a' = a \<lparr>ac_lifecycle := av_resulting_lifecycle entry, ac_verification_generation := n,
                 ac_verification_telemetry_generation := av_telemetry_generation entry,
                 ac_terminal_at := (if is_terminal (av_resulting_lifecycle entry) then now
                   else ac_terminal_at a)\<rparr>;
          g1 = put_action i a' (g \<lparr>g_verification_generation := n,
                 g_verifications := g_verifications g @ [entry]\<rparr>)
      in (Inr entry, publish_locked now (record_transition (dd_id d) (dd_generation d) after g1)))"

definition verify_locked ::
  "time_ns \<Rightarrow> ident \<Rightarrow> evidence \<Rightarrow> governor \<Rightarrow> action_verification result \<times> governor" where
  "verify_locked now i fresh g =
     (case map_of (g_actions g) i of
        None \<Rightarrow> (Inl E_UNKNOWN_ACTION, g)
      | Some a \<Rightarrow>
        if is_terminal (ac_lifecycle a) then (Inl E_ACTION_SUPERSEDED, g)
        else if ac_lifecycle a \<noteq> AL_ACKNOWLEDGED \<and> ac_lifecycle a \<noteq> AL_VERIFYING \<and>
                ac_lifecycle a \<noteq> AL_DISPATCHED
        then (Inl E_ACTION_INFEASIBLE, g)
        else if cf_max_verifications (g_config g) \<le> length (g_verifications g)
        then (Inl E_RESOURCE_EXHAUSTED, g)
        else case registry_find (g_domains g) (aa_domain (ac_authority a)) of
          None \<Rightarrow> (Inl E_UNKNOWN_DOMAIN, g)
        | Some d \<Rightarrow>
          (case map_of (g_action_baselines g) i of
             None \<Rightarrow> (Inl E_ACTION_INFEASIBLE, g)
           | Some before \<Rightarrow>
             (case evaluate_locked g now d of
                Inl e \<Rightarrow> (Inl e, g)
              | Inr after \<Rightarrow>
                (case verify_action (verification_input_for now g a d before after fresh) of
                   Inl e \<Rightarrow> (Inl e, g)
                 | Inr v \<Rightarrow> commit_verification now i a d after v g))))"

text \<open>
  The fresh reading is published first, under its own lock; the verification then runs on the
  state that publication left.
\<close>

definition verify_governed_action ::
  "time_ns \<Rightarrow> ident \<Rightarrow> evidence \<Rightarrow> governor \<Rightarrow> action_verification result \<times> governor" where
  "verify_governed_action now i fresh g =
     (case publish_temperature now fresh g of
        (Inl e, g1) \<Rightarrow> (Inl e, g1)
      | (Inr _, g1) \<Rightarrow> verify_locked now i fresh g1)"

definition cancel_action ::
  "time_ns \<Rightarrow> ident \<Rightarrow> string \<Rightarrow> governor \<Rightarrow> cancellation_result result \<times> governor" where
  "cancel_action now i reason g =
     (case map_of (g_actions g) i of
        None \<Rightarrow> (Inl E_UNKNOWN_ACTION, g)
      | Some a0 \<Rightarrow>
        let a = a0 \<lparr>ac_detail := reason\<rparr> in
        if ac_lifecycle a = AL_PLANNED \<or> ac_lifecycle a = AL_AUTHORIZED
        then (Inr CR_CANCELLED_BEFORE_DISPATCH, publish_locked now (put_action i
          (a \<lparr>ac_lifecycle := AL_CANCELLED, ac_terminal_at := now\<rparr>) g))
        else if ac_lifecycle a = AL_DISPATCHED \<or> ac_lifecycle a = AL_ACKNOWLEDGED \<or>
                ac_lifecycle a = AL_VERIFYING
        then (Inr CR_VERIFICATION_REQUIRED, publish_locked now (put_action i
          (a \<lparr>ac_lifecycle := AL_VERIFYING\<rparr>) g))
        else if ac_lifecycle a = AL_EFFECTIVE \<or> ac_lifecycle a = AL_PARTIALLY_EFFECTIVE
        then (Inr CR_ALREADY_EFFECTIVE, put_action i a g)
        else (Inr CR_OUTCOME_UNKNOWN, put_action i a g))"

definition governor_actions :: "governor \<Rightarrow> thermal_action list" where
  "governor_actions g = sort_key ac_id (map snd (g_actions g))"

section \<open>Durability and shutdown\<close>

record durable_state =
  du_format_version :: u32
  du_coordinator :: ident
  du_coordinator_epoch :: ident
  du_policy_generation :: ident
  du_topology_generation :: ident
  du_sequence :: u64
  du_policies :: "thermal_policy list"
  du_devices :: "device_registration list"
  du_domains :: "domain_definition list"
  du_couplings :: coupling_graph
  du_transitions :: "transition_record list"
  du_actions :: "thermal_action list"
  du_verifications :: "action_verification list"

definition kPersistenceFormatVersion :: u32 where
  "kPersistenceFormatVersion = 1"

definition durable_of :: "governor \<Rightarrow> durable_state" where
  "durable_of g =
     \<lparr>du_format_version = kPersistenceFormatVersion, du_coordinator = cf_coordinator (g_config g),
      du_coordinator_epoch = g_epoch g, du_policy_generation = g_policy_generation g,
      du_topology_generation = g_topology_generation g, du_sequence = g_sequence g,
      du_policies = sort_key pol_id (map snd (g_policies g)),
      du_devices = sort_key dr_device (map snd (g_devices g)),
      du_domains = concat (map (\<lambda>i. case registry_find (g_domains g) i of
          Some d \<Rightarrow> [d] | None \<Rightarrow> []) (all_domain_ids (g_domains g))),
      du_couplings = g_couplings g, du_transitions = g_history g,
      du_actions = sort_key ac_id (map snd (g_actions g)),
      du_verifications = g_verifications g\<rparr>"

text \<open>What \<^verbatim>\<open>persist\<close> hands to the store.\<close>

definition persist :: "governor \<Rightarrow> durable_state result" where
  "persist g =
     (if cf_durable_path (g_config g) = [] then Inl E_INVALID_ARGUMENT else Inr (durable_of g))"

definition restore_action :: "thermal_action \<Rightarrow> thermal_action" where
  "restore_action a =
     (if is_terminal (ac_lifecycle a) then a
      else a \<lparr>ac_lifecycle := AL_OUTCOME_UNKNOWN,
        ac_detail := ''coordinator restarted before the action outcome was proven''\<rparr>)"

definition restore_basics :: "durable_state \<Rightarrow> governor \<Rightarrow> governor" where
  "restore_basics s g =
     g \<lparr>g_policies := foldl (\<lambda>t p. AList.update (pol_id p) p t) (g_policies g) (du_policies s),
        g_policy_generation := (if id_valid (du_policy_generation s)
          then gen_observe (g_policy_generation g) (du_policy_generation s) else g_policy_generation g),
        g_topology_generation := (if id_valid (du_topology_generation s)
          then gen_observe (g_topology_generation g) (du_topology_generation s)
          else g_topology_generation g),
        g_sequence := max (g_sequence g) (du_sequence s),
        g_devices := foldl (\<lambda>t r. AList.update (dr_device r) r t) (g_devices g) (du_devices s),
        g_capability_generation := (if du_devices s \<noteq> [] then gen_advance (g_capability_generation g)
          else g_capability_generation g)\<rparr>"

text \<open>The two loops that can fail leave what they restored before the failing record.\<close>

fun restore_domains :: "domain_definition list \<Rightarrow> governor \<Rightarrow> status \<times> governor" where
  "restore_domains [] g = (success, g)"
| "restore_domains (d # ds) g =
     (case registry_add d (g_domains g) of
        Inl _ \<Rightarrow> (Inl E_PERSISTENCE_CORRUPT, g)
      | Inr reg \<Rightarrow> restore_domains ds (size_history (dd_id d) (g \<lparr>g_domains := reg\<rparr>)))"

fun restore_couplings :: "coupling_graph \<Rightarrow> governor \<Rightarrow> status \<times> governor" where
  "restore_couplings [] g = (success, g)"
| "restore_couplings (c # cs) g =
     (if registry_find (g_domains g) (cr_source c) = None \<or>
         registry_find (g_domains g) (cr_destination c) = None
      then (Inl E_PERSISTENCE_CORRUPT, g)
      else restore_couplings cs (g \<lparr>g_couplings := coupling_add c (g_couplings g)\<rparr>))"

text \<open>The rest of the restart: history and actions restored, live authority dropped.\<close>

definition restart_state :: "time_ns \<Rightarrow> durable_state \<Rightarrow> governor \<Rightarrow> governor" where
  "restart_state now s g =
     publish_locked now (recompute_all_domains now (advance_topology
       (g \<lparr>g_history := du_transitions s,
          g_actions := foldl (\<lambda>t a. AList.update (ac_id a) (restore_action a) t) (g_actions g)
            (du_actions s),
          g_verifications := du_verifications s,
          g_epoch := gen_advance (g_epoch g),
          g_action_baselines := [],
          g_invalidated := foldl (\<lambda>inv k. set_insert k inv) (g_invalidated g) (map fst (g_evidence g)),
          g_evidence := [],
          g_recovery_histories := map_values history_clear (g_recovery_histories g),
          g_explicit_recovery := [],
          g_evaluations := []\<rparr>)))"

text \<open>\<open>file\<close> is \<open>None\<close> when the durable file does not exist, else what loading it returns.\<close>

definition load_durable ::
  "time_ns \<Rightarrow> durable_state result option \<Rightarrow> governor \<Rightarrow> status \<times> governor" where
  "load_durable now file g =
     (if cf_durable_path (g_config g) = [] then (Inl E_INVALID_ARGUMENT, g)
      else case file of
        None \<Rightarrow> (success, g)
      | Some (Inl e) \<Rightarrow> (Inl e, g)
      | Some (Inr s) \<Rightarrow>
        (case restore_domains (du_domains s) (restore_basics s g) of
           (Inl e, g1) \<Rightarrow> (Inl e, g1)
         | (Inr _, g1) \<Rightarrow>
           (case restore_couplings (du_couplings s) g1 of
              (Inl e, g2) \<Rightarrow> (Inl e, g2)
            | (Inr _, g2) \<Rightarrow> (success, restart_state now s g2))))"

definition shutdown_action :: "time_ns \<Rightarrow> thermal_action \<Rightarrow> thermal_action" where
  "shutdown_action now a =
     (if is_terminal (ac_lifecycle a) then a
      else if ac_lifecycle a = AL_PLANNED \<or> ac_lifecycle a = AL_AUTHORIZED
      then a \<lparr>ac_lifecycle := AL_CANCELLED, ac_detail := ''runtime shut down before dispatch'',
             ac_terminal_at := now\<rparr>
      else a \<lparr>ac_lifecycle := AL_OUTCOME_UNKNOWN,
             ac_detail := ''runtime shut down before the outcome was verified'',
             ac_terminal_at := now\<rparr>)"

text \<open>
  The state after \<^verbatim>\<open>shutdown\<close> and the durable state it saves, if any; \<open>None\<close> is also the repeated
  call that returns at once.
\<close>

definition shutdown :: "time_ns \<Rightarrow> governor \<Rightarrow> durable_state option \<times> governor" where
  "shutdown now g =
     (if g_stopping g then (None, g)
      else
        let g1 = publish_locked now (g \<lparr>g_stopping := True,
              g_actions := map_values (shutdown_action now) (g_actions g)\<rparr>)
        in (case persist g1 of Inr s \<Rightarrow> Some s | Inl _ \<Rightarrow> None, g1))"

end
