(* ===== verification/GovernorLaws.thy ===== *)
theory GovernorLaws
  imports GovernorActions
begin

text \<open>
  Laws of the governor: what the internal steps leave alone, the bounds on its histories, the
  fences of publication and dispatch, the fate of actions, and what a restart discards.
\<close>

section \<open>Frames\<close>

text \<open>
  Recording, recomputing and publishing touch the evaluations, the transition history, its
  sequence number and the published snapshot, and nothing else.
\<close>

definition core :: "governor \<Rightarrow> governor" where
  "core g = g \<lparr>g_evaluations := [], g_sequence := 0, g_history := [], g_published := None\<rparr>"

lemma core_eqD:
  assumes "core g = core h"
  shows "g_config g = g_config h" "g_epoch g = g_epoch h"
    "g_policy_generation g = g_policy_generation h"
    "g_topology_generation g = g_topology_generation h"
    "g_capability_generation g = g_capability_generation h"
    "g_action_generation g = g_action_generation h"
    "g_verification_generation g = g_verification_generation h"
    "g_recovery_generation g = g_recovery_generation h"
    "g_telemetry_generation g = g_telemetry_generation h"
    "g_policies g = g_policies h" "g_devices g = g_devices h" "g_domains g = g_domains h"
    "g_couplings g = g_couplings h" "g_actions g = g_actions h"
    "g_verifications g = g_verifications h" "g_evidence g = g_evidence h"
    "g_invalidated g = g_invalidated h" "g_recovery_histories g = g_recovery_histories h"
    "g_explicit_recovery g = g_explicit_recovery h" "g_workers g = g_workers h"
    "g_conflicted g = g_conflicted h" "g_action_baselines g = g_action_baselines h"
    "g_history_note g = g_history_note h" "g_stopping g = g_stopping h"
  using arg_cong [OF assms, of g_config] arg_cong [OF assms, of g_epoch]
    arg_cong [OF assms, of g_policy_generation] arg_cong [OF assms, of g_topology_generation]
    arg_cong [OF assms, of g_capability_generation] arg_cong [OF assms, of g_action_generation]
    arg_cong [OF assms, of g_verification_generation] arg_cong [OF assms, of g_recovery_generation]
    arg_cong [OF assms, of g_telemetry_generation] arg_cong [OF assms, of g_policies]
    arg_cong [OF assms, of g_devices] arg_cong [OF assms, of g_domains]
    arg_cong [OF assms, of g_couplings] arg_cong [OF assms, of g_actions]
    arg_cong [OF assms, of g_verifications] arg_cong [OF assms, of g_evidence]
    arg_cong [OF assms, of g_invalidated] arg_cong [OF assms, of g_recovery_histories]
    arg_cong [OF assms, of g_explicit_recovery] arg_cong [OF assms, of g_workers]
    arg_cong [OF assms, of g_conflicted] arg_cong [OF assms, of g_action_baselines]
    arg_cong [OF assms, of g_history_note] arg_cong [OF assms, of g_stopping]
  by (simp_all add: core_def)

lemma core_record: "core (record_transition i dg ev g) = core g"
  by (simp add: record_transition_def core_def Let_def split: option.split)

lemma core_recompute: "core (recompute_domain now i g) = core g"
  by (simp add: recompute_domain_def core_record split: option.split sum.split)

lemma core_recompute_domains: "core (recompute_domains now ids g) = core g"
  by (induction ids arbitrary: g) (simp_all add: recompute_domains_def core_recompute)

lemma core_recompute_all: "core (recompute_all_domains now g) = core g"
  by (simp add: recompute_all_domains_def core_recompute_domains)

lemma core_recompute_for_subject: "core (recompute_domains_for_subject now key g) = core g"
  by (simp add: recompute_domains_for_subject_def Let_def core_recompute_domains)

lemma core_publish: "core (publish_locked now g) = core g"
  by (simp add: publish_locked_def core_def)

lemmas record_frame [simp] = core_eqD [OF core_record]
lemmas recompute_frame [simp] = core_eqD [OF core_recompute]
lemmas recompute_domains_frame [simp] = core_eqD [OF core_recompute_domains]
lemmas recompute_all_frame [simp] = core_eqD [OF core_recompute_all]
lemmas publish_frame [simp] = core_eqD [OF core_publish]

lemma publish_keeps [simp]:
  "g_evaluations (publish_locked now g) = g_evaluations g"
  "g_sequence (publish_locked now g) = g_sequence g"
  "g_history (publish_locked now g) = g_history g"
  "g_published (publish_locked now g) = Some (build_snapshot now g)"
  by (simp_all add: publish_locked_def)

lemma record_evaluations [simp]:
  "g_evaluations (record_transition i dg ev g) = AList.update i ev (g_evaluations g)"
  by (simp add: record_transition_def Let_def)

section \<open>What recomputation stores\<close>

text \<open>The evaluation stored by a recomputation is the evaluation of the state before it.\<close>

lemma recompute_stores:
  assumes "registry_find (g_domains g) i = Some d" "evaluate_locked g now d = Inr ev"
  shows "map_of (g_evaluations (recompute_domain now i g)) i = Some ev"
  using assms by (simp add: recompute_domain_def table_find_update)

lemma recompute_other:
  "j \<noteq> i \<Longrightarrow> map_of (g_evaluations (recompute_domain now i g)) j = map_of (g_evaluations g) j"
  by (simp add: recompute_domain_def table_find_update split: option.split sum.split)

lemma recompute_evaluation_cases:
  assumes "map_of (g_evaluations (recompute_domain now i g)) j = Some ev"
  shows "map_of (g_evaluations g) j = Some ev \<or>
    (j = i \<and> (\<exists>d. registry_find (g_domains g) i = Some d \<and> evaluate_locked g now d = Inr ev))"
  using assms by (auto simp: recompute_domain_def table_find_update split: option.splits sum.splits if_splits)

text \<open>A property of evaluations that every evaluation of the state has survives recomputation.\<close>

lemma recompute_domains_evaluations:
  assumes start: "\<And>j ev. map_of (g_evaluations g) j = Some ev \<Longrightarrow> P ev"
    and step: "\<And>h d ev. core h = core g \<Longrightarrow> evaluate_locked h now d = Inr ev \<Longrightarrow> P ev"
    and res: "map_of (g_evaluations (recompute_domains now ids g)) j = Some ev"
  shows "P ev"
  using assms
proof (induction ids arbitrary: g j ev)
  case Nil
  then show ?case by (simp add: recompute_domains_def)
next
  case (Cons i ids)
  let ?h = "recompute_domain now i g"
  have h: "core ?h = core g" by (rule core_recompute)
  show ?case
  proof (rule Cons.IH [of ?h j ev])
    show "P ev'" if "map_of (g_evaluations ?h) k = Some ev'" for k ev'
      using recompute_evaluation_cases [OF that] Cons.prems(1,2) by blast
    show "P ev'" if "core h' = core ?h" "evaluate_locked h' now d = Inr ev'" for h' d ev'
      using that h Cons.prems(2) by simp
    show "map_of (g_evaluations (recompute_domains now ids ?h)) j = Some ev"
      using Cons.prems(3) by (simp add: recompute_domains_def)
  qed
qed

text \<open>The fields of a governor evaluation that \<open>evaluate_locked\<close> leaves as evaluated.\<close>

lemma evaluate_locked_fields:
  assumes "evaluate_locked g now d = Inr ev"
  obtains policy where "policy_for g d = Some policy"
    "te_state ev = te_state (evaluate_thermal (evaluation_input_for g now d policy))"
    "te_decision ev = te_decision (evaluate_thermal (evaluation_input_for g now d policy))"
    "te_derating ev = te_derating (evaluate_thermal (evaluation_input_for g now d policy))"
    "te_recovery ev = te_recovery (evaluate_thermal (evaluation_input_for g now d policy))"
    "te_headroom ev = te_headroom (evaluate_thermal (evaluation_input_for g now d policy))"
    "te_intents ev = te_intents (evaluate_thermal (evaluation_input_for g now d policy))"
    "te_prohibited_intents ev =
       te_prohibited_intents (evaluate_thermal (evaluation_input_for g now d policy))"
    "te_reasons ev = te_reasons (evaluate_thermal (evaluation_input_for g now d policy))"
    "te_permitted_concurrency ev =
       te_permitted_concurrency (evaluate_thermal (evaluation_input_for g now d policy))"
    "te_domain ev = te_domain (evaluate_thermal (evaluation_input_for g now d policy))"
proof (cases "policy_for g d")
  case None
  then show ?thesis using assms by (simp add: evaluate_locked_def)
next
  case (Some policy)
  show ?thesis
    by (rule that [OF Some])
      (use assms Some in \<open>auto simp: evaluate_locked_def Let_def split: option.splits if_splits\<close>)
qed

lemma evaluation_input_fields [simp]:
  "ei_domain (evaluation_input_for g now d policy) = dd_id d"
  "ei_policy (evaluation_input_for g now d policy) = policy"
  "ei_previous_state (evaluation_input_for g now d policy) =
     (case map_of (g_evaluations g) (dd_id d) of Some e \<Rightarrow> te_state e | None \<Rightarrow> TS_UNKNOWN)"
  "ei_evidence (evaluation_input_for g now d policy) =
     map_option de_evidence (gather_domain_evidence d (g_evidence g))"
  "ei_freshness (evaluation_input_for g now d policy) =
     evidence_freshness g now policy (gather_domain_evidence d (g_evidence g))"
  "ei_coupled (evaluation_input_for g now d policy) =
     coupled_pressures g d (cp_max_propagation_depth (pol_coupling policy))"
  "ei_evidence_conflict (evaluation_input_for g now d policy) \<longleftrightarrow> dd_id d \<in> set (g_conflicted g)"
  by (simp_all add: evaluation_input_for_def Let_def split: prod.split)

lemma evaluation_input_recovery:
  "ri_history (ei_recovery (evaluation_input_for g now d policy)) = Some (history_for g (dd_id d))"
  "ri_current_epoch (ei_recovery (evaluation_input_for g now d policy)) = g_epoch g"
  by (simp_all add: evaluation_input_for_def Let_def split: prod.split)

lemma admitted_evidence_fresh:
  assumes "evidence_admitted (evaluation_input_for g now d policy) e"
  shows "\<exists>de. gather_domain_evidence d (g_evidence g) = Some de \<and> e = de_evidence de \<and>
    subject_key (ev_subject e) \<notin> set (g_invalidated g) \<and>
    now - ev_measured_at e \<le> fr_max_age (pol_freshness policy) * 1000000"
  using assms
  by (auto simp: evidence_admitted_def evidence_freshness_def split: option.splits if_splits)

text \<open>Without evidence, nothing is healthy.\<close>

lemma no_evidence_unresolved:
  assumes "evaluate_locked g now d = Inr ev" "g_evidence g = []"
  shows "is_unresolved (te_state ev) \<and> te_decision ev \<noteq> TD_ALLOW"
proof -
  obtain policy where p: "te_state ev = te_state (evaluate_thermal (evaluation_input_for g now d policy))"
    "te_decision ev = te_decision (evaluate_thermal (evaluation_input_for g now d policy))"
    using evaluate_locked_fields [OF assms(1)] by metis
  have "gather_domain_evidence d (g_evidence g) = None"
    using assms(2) by (simp add: gather_domain_evidence_def member_evidence_def Let_def)
  then have "\<not> evidence_admitted (evaluation_input_for g now d policy) e" for e
    by (simp add: evidence_admitted_def)
  then show ?thesis
    using p by (cases rule: evaluate_thermal_cases [of "evaluation_input_for g now d policy"]) auto
qed

section \<open>Publication\<close>

lemma evidence_fences_iff:
  "evidence_fences e g = success \<longleftrightarrow>
     \<not> g_stopping g \<and> ev_coordinator_epoch e = g_epoch g \<and>
     (id_valid (ev_worker e) \<longrightarrow>
        (\<exists>w. map_of (g_workers g) (ev_worker e) = Some w \<and> wo_boot w = ev_worker_boot e \<and> wo_alive w)) \<and>
     (sr_kind (ev_subject e) = SK_DEVICE \<longrightarrow>
        (\<exists>r. map_of (g_devices g) (sr_device (ev_subject e)) = Some r \<and>
           dr_generation r = sr_device_generation (ev_subject e))) \<and>
     (id_valid (ev_domain e) \<longrightarrow>
        (\<exists>d. registry_find (g_domains g) (ev_domain e) = Some d \<and>
           dd_generation d = ev_domain_generation e))"
  unfolding evidence_fences_def guard_ok by (auto split: option.splits)

lemma note_sample_frame:
  "g_evidence (note_sample now e g i) = g_evidence g" "g_actions (note_sample now e g i) = g_actions g"
  "g_config (note_sample now e g i) = g_config g" "g_domains (note_sample now e g i) = g_domains g"
  "g_epoch (note_sample now e g i) = g_epoch g" "g_invalidated (note_sample now e g i) = g_invalidated g"
  "g_workers (note_sample now e g i) = g_workers g" "g_devices (note_sample now e g i) = g_devices g"
  "g_policies (note_sample now e g i) = g_policies g" "g_conflicted (note_sample now e g i) = g_conflicted g"
  "g_couplings (note_sample now e g i) = g_couplings g" "g_stopping (note_sample now e g i) = g_stopping g"
  "g_action_generation (note_sample now e g i) = g_action_generation g"
  by (simp_all add: note_sample_def split: option.split)

lemma note_samples_frame:
  "g_evidence (foldl (note_sample now e) g ids) = g_evidence g"
  "g_actions (foldl (note_sample now e) g ids) = g_actions g"
  "g_config (foldl (note_sample now e) g ids) = g_config g"
  "g_domains (foldl (note_sample now e) g ids) = g_domains g"
  "g_epoch (foldl (note_sample now e) g ids) = g_epoch g"
  "g_invalidated (foldl (note_sample now e) g ids) = g_invalidated g"
  "g_workers (foldl (note_sample now e) g ids) = g_workers g"
  "g_devices (foldl (note_sample now e) g ids) = g_devices g"
  "g_policies (foldl (note_sample now e) g ids) = g_policies g"
  "g_conflicted (foldl (note_sample now e) g ids) = g_conflicted g"
  "g_couplings (foldl (note_sample now e) g ids) = g_couplings g"
  "g_stopping (foldl (note_sample now e) g ids) = g_stopping g"
  "g_action_generation (foldl (note_sample now e) g ids) = g_action_generation g"
  by (induction ids arbitrary: g) (simp_all add: note_sample_frame)

lemma publish_impl_cases:
  obtains (refused) err where "publish_impl now e g = (Inl err, g)"
  | (duplicate) receipt where "publish_impl now e g = (Inr receipt, g)" "\<not> er_accepted receipt"
  | (accepted) receipt where "publish_impl now e g =
        (Inr receipt, publish_locked now
          (recompute_domains now
            (coupled_neighbours (foldl (note_sample now e) (accept_evidence now e g)
               (affected_domains e (accept_evidence now e g)))
              (affected_domains e (accept_evidence now e g)))
            (foldl (note_sample now e) (accept_evidence now e g)
               (affected_domains e (accept_evidence now e g)))))"
      "er_accepted receipt" "validate_evidence_structure e = success" "evidence_fences e g = success"
      "sequence_check e g = None"
proof (cases "validate_evidence_structure e")
  case (Inl err)
  then show ?thesis by (intro refused) (simp add: publish_impl_def)
next
  case valid: (Inr u)
  show ?thesis
  proof (cases "evidence_fences e g")
    case (Inl err)
    then show ?thesis using valid by (intro refused) (simp add: publish_impl_def)
  next
    case fenced: (Inr u')
    show ?thesis
    proof (cases "sequence_check e g")
      case None
      show ?thesis
        by (rule accepted )
          ((use valid fenced None in \<open>simp add: publish_impl_def Let_def\<close>; fail)+)
    next
      case (Some outcome)
      show ?thesis
      proof (cases outcome)
        case (Inl err)
        then show ?thesis using valid fenced Some by (intro refused) (simp add: publish_impl_def)
      next
        case (Inr receipt)
        have "\<not> er_accepted receipt"
          using Some Inr by (auto simp: sequence_check_def split: option.splits if_splits
              evidence_comparison.splits)
        then show ?thesis
          using valid fenced Some Inr by (intro duplicate) (simp_all add: publish_impl_def)
      qed
    qed
  qed
qed

lemma accept_evidence_stored:
  "map_of (g_evidence (accept_evidence now e g)) (subject_key (ev_subject e)) = Some e"
  by (simp add: accept_evidence_def Let_def table_find_update)

section \<open>Actions\<close>

text \<open>A transformation of actions that keeps every terminal action as it is.\<close>

definition keeps_terminal :: "governor \<Rightarrow> governor \<Rightarrow> bool" where
  "keeps_terminal g g' \<longleftrightarrow>
     (\<forall>i a. map_of (g_actions g) i = Some a \<longrightarrow> is_terminal (ac_lifecycle a) \<longrightarrow>
        (\<exists>a'. map_of (g_actions g') i = Some a' \<and> ac_lifecycle a' = ac_lifecycle a))"

lemma keeps_terminal_refl [simp]: "keeps_terminal g g"
  by (simp add: keeps_terminal_def)

lemma keeps_terminal_same: "g_actions g' = g_actions g \<Longrightarrow> keeps_terminal g g'"
  by (simp add: keeps_terminal_def)

lemma keeps_terminal_trans: "keeps_terminal g h \<Longrightarrow> keeps_terminal h k \<Longrightarrow> keeps_terminal g k"
  unfolding keeps_terminal_def by metis

lemma keeps_terminal_put:
  assumes "map_of (g_actions g) i = Some a"
    and "is_terminal (ac_lifecycle a) \<Longrightarrow> ac_lifecycle a' = ac_lifecycle a"
  shows "keeps_terminal g (publish_locked now (put_action i a' g))"
    "keeps_terminal g (put_action i a' g)"
  using assms by (auto simp: keeps_terminal_def put_action_def table_find_update)

lemma keeps_terminal_map:
  assumes "\<And>a. is_terminal (ac_lifecycle a) \<Longrightarrow> ac_lifecycle (f a) = ac_lifecycle a"
    and "g_actions g' = map_values f (g_actions g)"
  shows "keeps_terminal g g'"
  using assms by (auto simp: keeps_terminal_def)

lemma retire_keeps_terminal: "keeps_terminal g (retire_boot_locked now w b g)"
  by (rule keeps_terminal_map [of "retire_action now w b"])
    (simp_all add: retire_action_def retire_boot_locked_def)

lemma dispatch_keeps_terminal: "keeps_terminal g (snd (record_action_dispatch now i g))"
  by (auto simp: record_action_dispatch_def split: option.split sum.split
      intro!: keeps_terminal_put)

lemma ack_keeps_terminal: "keeps_terminal g (snd (record_action_ack now k g))"
  by (auto simp: record_action_ack_def Let_def split: option.split intro!: keeps_terminal_put)

lemma cancel_keeps_terminal: "keeps_terminal g (snd (cancel_action now i reason g))"
  by (auto simp: cancel_action_def Let_def split: option.split intro!: keeps_terminal_put)

lemma shutdown_keeps_terminal: "keeps_terminal g (snd (shutdown now g))"
proof (cases "g_stopping g")
  case True
  then show ?thesis by (simp add: shutdown_def)
next
  case False
  then show ?thesis
    by (intro keeps_terminal_map [of "shutdown_action now"])
      (simp_all add: shutdown_def shutdown_action_def Let_def)
qed

lemma publish_impl_actions [simp]: "g_actions (snd (publish_impl now e g)) = g_actions g"
  by (cases rule: publish_impl_cases [of now e g])
    (simp_all add: note_samples_frame accept_evidence_def Let_def)

lemma verify_locked_keeps_terminal: "keeps_terminal g (snd (verify_locked now i fresh g))"
proof -
  have put: "keeps_terminal g (snd (commit_verification now i a d after v g))"
    if "map_of (g_actions g) i = Some a" "\<not> is_terminal (ac_lifecycle a)" for a d after v
    using that by (auto simp: keeps_terminal_def commit_verification_def Let_def put_action_def
        table_find_update)
  show ?thesis
    using put by (auto simp: verify_locked_def split: option.split sum.split)
qed

lemma shutdown_all_terminal:
  assumes "\<not> g_stopping g" "map_of (g_actions (snd (shutdown now g))) i = Some a"
  shows "is_terminal (ac_lifecycle a)"
proof -
  have "is_terminal (ac_lifecycle (shutdown_action now b))" for b
    by (simp add: shutdown_action_def)
  then show ?thesis using assms by (auto simp: shutdown_def Let_def)
qed

section \<open>Restart\<close>

lemma restore_couplings_frame:
  "restore_couplings cs g = (r, g') \<Longrightarrow> g_epoch g' = g_epoch g \<and> g_actions g' = g_actions g \<and>
     g_action_generation g' = g_action_generation g"
  by (induction cs g arbitrary: r g' rule: restore_couplings.induct) (auto split: if_splits)

lemma restore_domains_frame:
  "restore_domains ds g = (r, g') \<Longrightarrow> g_epoch g' = g_epoch g \<and> g_actions g' = g_actions g \<and>
     g_action_generation g' = g_action_generation g"
  by (induction ds g arbitrary: r g' rule: restore_domains.induct)
    (auto simp: size_history_def split: sum.splits)

lemma load_durable_success:
  assumes "load_durable now (Some (Inr s)) g = (success, g')"
  obtains g2 where "g' = restart_state now s g2" "g_epoch g2 = g_epoch g" "g_actions g2 = g_actions g"
    "g_action_generation g2 = g_action_generation g"
proof -
  obtain r1 g1 where d: "restore_domains (du_domains s) (restore_basics s g) = (r1, g1)"
    by (metis surj_pair)
  obtain r2 g2 where c: "restore_couplings (du_couplings s) g1 = (r2, g2)"
    by (metis surj_pair)
  have "g' = restart_state now s g2"
    using assms d c by (auto simp: load_durable_def split: if_splits sum.splits)
  moreover have "g_epoch g2 = g_epoch g" "g_actions g2 = g_actions g"
    "g_action_generation g2 = g_action_generation g"
    using restore_domains_frame [OF d] restore_couplings_frame [OF c]
    by (simp_all add: restore_basics_def)
  ultimately show ?thesis by (rule that)
qed

lemma restart_fields:
  "g_epoch (restart_state now s g) = gen_advance (g_epoch g)"
  "g_evidence (restart_state now s g) = []"
  "g_explicit_recovery (restart_state now s g) = []"
  "g_action_baselines (restart_state now s g) = []"
  "g_action_generation (restart_state now s g) = g_action_generation g"
  "g_actions (restart_state now s g) =
     foldl (\<lambda>t a. AList.update (ac_id a) (restore_action a) t) (g_actions g) (du_actions s)"
  by (simp_all add: restart_state_def advance_topology_def)

lemma restart_evaluations:
  assumes "map_of (g_evaluations (restart_state now s g)) j = Some ev"
  shows "is_unresolved (te_state ev) \<and> te_decision ev \<noteq> TD_ALLOW"
proof -
  define h where "h = advance_topology
       (g \<lparr>g_history := du_transitions s,
          g_actions := foldl (\<lambda>t a. AList.update (ac_id a) (restore_action a) t) (g_actions g)
            (du_actions s),
          g_verifications := du_verifications s,
          g_epoch := gen_advance (g_epoch g),
          g_action_baselines := [],
          g_invalidated := foldl (\<lambda>inv k. set_insert k inv) (g_invalidated g) (map fst (g_evidence g)),
          g_evidence := [],
          g_recovery_histories := map_values history_clear (g_recovery_histories g),
          g_explicit_recovery := [],
          g_evaluations := []\<rparr>)"
  have empty: "g_evaluations h = []" "g_evidence h = []" by (simp_all add: h_def advance_topology_def)
  have res: "map_of (g_evaluations (recompute_domains now (all_domain_ids (g_domains h)) h)) j = Some ev"
    using assms by (simp add: restart_state_def recompute_all_domains_def h_def)
  show ?thesis
  proof (rule recompute_domains_evaluations [OF _ _ res])
    show "is_unresolved (te_state ev) \<and> te_decision ev \<noteq> TD_ALLOW"
      if "map_of (g_evaluations h) j = Some ev" for j ev
      using that empty by simp
    show "is_unresolved (te_state ev) \<and> te_decision ev \<noteq> TD_ALLOW"
      if "core h' = core h" "evaluate_locked h' now d = Inr ev" for h' d ev
      using no_evidence_unresolved [OF that(2)] core_eqD(16) [OF that(1)] empty by simp
  qed
qed

section \<open>Admission\<close>

lemma admission_decide_admits:
  assumes "admissible (admission_decide rq policy ev (admission_base rq g d policy ev))"
  shows "(te_decision ev = TD_ALLOW \<or> te_decision ev = TD_ALLOW_DERATED) \<and>
    (ad_decision (admission_decide rq policy ev (admission_base rq g d policy ev)) = AD_ADMIT \<longrightarrow>
       te_decision ev = TD_ALLOW \<and>
       meets_demand (te_headroom ev)
         (ad_required_headroom (admission_decide rq policy ev (admission_base rq g d policy ev))) \<and>
       (\<forall>c. rq_requested_concurrency rq = Some c \<longrightarrow> \<not> flt (te_permitted_concurrency ev) c))"
  using assms
  by (cases "te_decision ev")
    (auto simp: admission_decide_def admissible_def admission_eligible_def Let_def admission_base_def
      split: option.splits if_splits)

end
