(* ===== verification/Lifetime.thy ===== *)
theory Lifetime
  imports GovernorLaws
begin

text \<open>
  The governor as a state machine: its operations as data, the states a sequence of operations
  can reach from \<^verbatim>\<open>create\<close>, and the invariants that hold in all of them.
\<close>

section \<open>Operations and reachable states\<close>

text \<open>
  The operations of \<^verbatim>\<open>ThermalGovernor\<close> that may change its state. Each runs under the state
  mutex, so a concurrent run is a sequence of them; \<^verbatim>\<open>verify_action\<close>, which takes the lock twice,
  is two operations: the publication of the reading and the verification.
\<close>

datatype operation =
    OP_SET_CLOCK bool
  | OP_REGISTER_DEVICE device_registration
  | OP_PUBLISH_CAPABILITIES ident ident capability_set
  | OP_REGISTER_THERMAL_DOMAIN domain_definition
  | OP_UPDATE_THERMAL_DOMAIN domain_definition
  | OP_REGISTER_COUPLING coupling_relation
  | OP_REMOVE_COUPLING ident
  | OP_SET_POLICY thermal_policy
  | OP_REGISTER_WORKER ident ident string
  | OP_WORKER_HEARTBEAT ident ident
  | OP_NOTE_WORKER_DEATH ident ident string
  | OP_PUBLISH_TEMPERATURE evidence
  | OP_PUBLISH_THROTTLE_EVIDENCE evidence
  | OP_PUBLISH_COOLING_EVIDENCE evidence
  | OP_PUBLISH_NODE_TEMPERATURE evidence
  | OP_PUBLISH_RACK_TEMPERATURE evidence
  | OP_EVALUATE_DOMAIN ident
  | OP_EVALUATE_DEVICE ident
  | OP_AUTHORIZE_RECOVERY ident string
  | OP_REVOKE_RECOVERY ident
  | OP_AUTHORIZE_MITIGATION ident intent_record string
  | OP_AUTHORIZE_DERATING ident intent_record string
  | OP_RECORD_ACTION_DISPATCH ident
  | OP_RECORD_ACTION_ACK action_ack
  | OP_RECORD_ACTION_RESULT action_report
  | OP_VERIFY_ACTION ident evidence
  | OP_CANCEL_ACTION ident string
  | OP_LOAD_DURABLE "durable_state result option"
  | OP_SHUTDOWN

fun perform :: "time_ns \<Rightarrow> operation \<Rightarrow> governor \<Rightarrow> governor" where
  "perform now (OP_SET_CLOCK given) g = snd (set_clock now given g)"
| "perform now (OP_REGISTER_DEVICE r) g = snd (register_device now r g)"
| "perform now (OP_PUBLISH_CAPABILITIES i n caps) g = snd (publish_capabilities now i n caps g)"
| "perform now (OP_REGISTER_THERMAL_DOMAIN d) g = snd (register_thermal_domain now d g)"
| "perform now (OP_UPDATE_THERMAL_DOMAIN d) g = snd (update_thermal_domain now d g)"
| "perform now (OP_REGISTER_COUPLING r) g = snd (register_coupling now r g)"
| "perform now (OP_REMOVE_COUPLING i) g = snd (remove_coupling now i g)"
| "perform now (OP_SET_POLICY p) g = snd (set_policy now p g)"
| "perform now (OP_REGISTER_WORKER w b label) g = snd (register_worker now w b label g)"
| "perform now (OP_WORKER_HEARTBEAT w b) g = snd (worker_heartbeat now w b g)"
| "perform now (OP_NOTE_WORKER_DEATH w b why) g = snd (note_worker_death now w b why g)"
| "perform now (OP_PUBLISH_TEMPERATURE e) g = snd (publish_temperature now e g)"
| "perform now (OP_PUBLISH_THROTTLE_EVIDENCE e) g = snd (publish_throttle_evidence now e g)"
| "perform now (OP_PUBLISH_COOLING_EVIDENCE e) g = snd (publish_cooling_evidence now e g)"
| "perform now (OP_PUBLISH_NODE_TEMPERATURE e) g = snd (publish_node_temperature now e g)"
| "perform now (OP_PUBLISH_RACK_TEMPERATURE e) g = snd (publish_rack_temperature now e g)"
| "perform now (OP_EVALUATE_DOMAIN i) g = snd (evaluate_domain now i g)"
| "perform now (OP_EVALUATE_DEVICE i) g = snd (evaluate_device now i g)"
| "perform now (OP_AUTHORIZE_RECOVERY i why) g = snd (authorize_recovery now i why g)"
| "perform now (OP_REVOKE_RECOVERY i) g = snd (revoke_recovery now i g)"
| "perform now (OP_AUTHORIZE_MITIGATION i r why) g = snd (authorize_mitigation now i r why g)"
| "perform now (OP_AUTHORIZE_DERATING i r why) g = snd (authorize_derating now i r why g)"
| "perform now (OP_RECORD_ACTION_DISPATCH i) g = snd (record_action_dispatch now i g)"
| "perform now (OP_RECORD_ACTION_ACK k) g = snd (record_action_ack now k g)"
| "perform now (OP_RECORD_ACTION_RESULT r) g = snd (record_action_result now r g)"
| "perform now (OP_VERIFY_ACTION i e) g = snd (verify_locked now i e g)"
| "perform now (OP_CANCEL_ACTION i why) g = snd (cancel_action now i why g)"
| "perform now (OP_LOAD_DURABLE file) g = snd (load_durable now file g)"
| "perform now OP_SHUTDOWN g = snd (shutdown now g)"

inductive reachable :: "governor \<Rightarrow> bool" where
  created: "create now sockets cf = Inr g \<Longrightarrow> reachable g"
| performed: "reachable g \<Longrightarrow> reachable (perform now op g)"

inductive_cases reachableE: "reachable g"

text \<open>A run: operations with the times at which they read the clock, and the state they lead to.\<close>

fun perform_all :: "(time_ns \<times> operation) list \<Rightarrow> governor \<Rightarrow> governor" where
  "perform_all [] g = g"
| "perform_all ((now, op) # run) g = perform_all run (perform now op g)"

lemma perform_all_append: "perform_all (run @ run') g = perform_all run' (perform_all run g)"
  by (induction run g rule: perform_all.induct) simp_all

lemma perform_all_reachable: "reachable g \<Longrightarrow> reachable (perform_all run g)"
  by (induction run g rule: perform_all.induct) (simp_all add: performed)

lemma reachable_by_run:
  assumes "reachable g"
  obtains now sockets cf g0 run where "create now sockets cf = Inr g0" "g = perform_all run g0"
  using assms
proof (induction arbitrary: thesis rule: reachable.induct)
  case (created now sockets cf g)
  then show ?case using perform_all.simps(1) by metis
next
  case (performed g now op)
  obtain t sockets cf g0 run where r: "create t sockets cf = Inr g0" "g = perform_all run g0"
    by (rule performed.IH)
  have "perform now op g = perform_all (run @ [(now, op)]) g0" by (simp add: r(2) perform_all_append)
  then show ?case by (rule performed.prems [OF r(1)])
qed

text \<open>
  What a load installs comes from a file: \<^verbatim>\<open>load_durable\<close> neither validates the policies it restores
  nor cuts the history to the configured size.
\<close>

fun loaded_policies :: "operation \<Rightarrow> thermal_policy list" where
  "loaded_policies (OP_LOAD_DURABLE (Some (Inr s))) = du_policies s"
| "loaded_policies _ = []"

fun loaded_history :: "operation \<Rightarrow> nat" where
  "loaded_history (OP_LOAD_DURABLE (Some (Inr s))) = length (du_transitions s)"
| "loaded_history _ = 0"

text \<open>What has to be shown of a predicate for it to hold after every run of permitted operations.\<close>

locale governor_steps =
  fixes inv :: "governor \<Rightarrow> bool" and permitted :: "operation \<Rightarrow> bool"
  assumes create_inv: "create now sockets cf = Inr g \<Longrightarrow> inv g"
    and perform_inv: "inv g \<Longrightarrow> permitted op \<Longrightarrow> inv (perform now op g)"
begin

lemma run_inv: "inv g \<Longrightarrow> \<forall>op \<in> snd ` set run. permitted op \<Longrightarrow> inv (perform_all run g)"
  by (induction run g rule: perform_all.induct) (simp_all add: perform_inv)

lemma created_run_inv:
  "create now sockets cf = Inr g \<Longrightarrow> \<forall>op \<in> snd ` set run. permitted op \<Longrightarrow> inv (perform_all run g)"
  by (rule run_inv [OF create_inv])

end

text \<open>An invariant that every operation keeps holds in every reachable state.\<close>

locale governor_invariant = governor_steps inv "\<lambda>op. True" for inv
begin

lemma reachable_inv: "reachable g \<Longrightarrow> inv g"
  by (induction rule: reachable.induct) (auto intro: create_inv perform_inv)

end

section \<open>Structural invariant\<close>

definition topology_ok :: "domain_registry \<Rightarrow> coupling_graph \<Rightarrow> bool" where
  "topology_ok reg edges \<longleftrightarrow>
     registry_ok reg \<and> coupling_ok edges \<and>
     (\<forall>e \<in> set edges. registered reg (cr_source e) \<and> registered reg (cr_destination e))"

text \<open>\<open>L\<close> holds the policies that may be installed without having been validated.\<close>

definition policies_from :: "thermal_policy set \<Rightarrow> thermal_policy table \<Rightarrow> bool" where
  "policies_from L t \<longleftrightarrow>
     keyed pol_id t \<and> all_values (\<lambda>p. validate_policy p = success \<or> p \<in> L) t \<and>
     map_of t kDefaultPolicyId \<noteq> None"

definition evidence_ok :: "(string \<times> evidence) list \<Rightarrow> bool" where
  "evidence_ok t \<longleftrightarrow>
     keyed (\<lambda>e. subject_key (ev_subject e)) t \<and>
     all_values (\<lambda>e. validate_evidence_structure e = success) t"

definition structure_from :: "thermal_policy set \<Rightarrow> governor \<Rightarrow> bool" where
  "structure_from L g \<longleftrightarrow>
     topology_ok (g_domains g) (g_couplings g) \<and> policies_from L (g_policies g) \<and>
     evidence_ok (g_evidence g) \<and> keyed dr_device (g_devices g) \<and>
     keyed wo_worker (g_workers g) \<and> keyed ac_id (g_actions g) \<and>
     all_values history_ok (g_recovery_histories g)"

text \<open>The structure of every reachable state, whatever policies were loaded.\<close>

abbreviation structure_ok :: "governor \<Rightarrow> bool" where
  "structure_ok \<equiv> structure_from UNIV"

lemma structure_core: "core g = core h \<Longrightarrow> structure_from L g = structure_from L h"
  by (simp add: structure_from_def core_eqD [of g h])

named_theorems ok_intros \<open>the steps that keep the structural invariant\<close>

lemma structure_frame [ok_intros]:
  "structure_from L g \<Longrightarrow> structure_from L (record_transition i dg ev g)"
  "structure_from L g \<Longrightarrow> structure_from L (recompute_domain now i g)"
  "structure_from L g \<Longrightarrow> structure_from L (recompute_domains now ids g)"
  "structure_from L g \<Longrightarrow> structure_from L (recompute_all_domains now g)"
  "structure_from L g \<Longrightarrow> structure_from L (publish_locked now g)"
  using structure_core [OF core_record] structure_core [OF core_recompute]
    structure_core [OF core_recompute_domains] structure_core [OF core_recompute_all]
    structure_core [OF core_publish] by simp_all

text \<open>The counters, notes and marks are not constrained.\<close>

lemma structure_scalars [simp]:
  "structure_from L (g \<lparr>g_policy_generation := a\<rparr>) = structure_from L g"
  "structure_from L (g \<lparr>g_topology_generation := a\<rparr>) = structure_from L g"
  "structure_from L (g \<lparr>g_capability_generation := a\<rparr>) = structure_from L g"
  "structure_from L (g \<lparr>g_action_generation := a\<rparr>) = structure_from L g"
  "structure_from L (g \<lparr>g_verification_generation := a\<rparr>) = structure_from L g"
  "structure_from L (g \<lparr>g_recovery_generation := a\<rparr>) = structure_from L g"
  "structure_from L (g \<lparr>g_telemetry_generation := a\<rparr>) = structure_from L g"
  "structure_from L (g \<lparr>g_epoch := a\<rparr>) = structure_from L g"
  "structure_from L (g \<lparr>g_sequence := n\<rparr>) = structure_from L g"
  "structure_from L (g \<lparr>g_history := ts\<rparr>) = structure_from L g"
  "structure_from L (g \<lparr>g_verifications := vs\<rparr>) = structure_from L g"
  "structure_from L (g \<lparr>g_invalidated := ks\<rparr>) = structure_from L g"
  "structure_from L (g \<lparr>g_conflicted := is\<rparr>) = structure_from L g"
  "structure_from L (g \<lparr>g_explicit_recovery := is\<rparr>) = structure_from L g"
  "structure_from L (g \<lparr>g_action_baselines := bs\<rparr>) = structure_from L g"
  "structure_from L (g \<lparr>g_evaluations := es\<rparr>) = structure_from L g"
  "structure_from L (g \<lparr>g_history_note := s\<rparr>) = structure_from L g"
  "structure_from L (g \<lparr>g_stopping := b\<rparr>) = structure_from L g"
  "structure_from L (advance_topology g) = structure_from L g"
  by (simp_all add: structure_from_def advance_topology_def)

lemma structure_devices [ok_intros]:
  "structure_from L g \<Longrightarrow> dr_device r = i \<Longrightarrow>
     structure_from L (g \<lparr>g_devices := AList.update i r (g_devices g)\<rparr>)"
  by (simp add: structure_from_def keyed_update)

lemma structure_workers [ok_intros]:
  "structure_from L g \<Longrightarrow> wo_worker w = i \<Longrightarrow>
     structure_from L (g \<lparr>g_workers := AList.update i w (g_workers g)\<rparr>)"
  by (simp add: structure_from_def keyed_update)

lemma structure_policies [ok_intros]:
  "structure_from L g \<Longrightarrow> pol_id p = i \<Longrightarrow> validate_policy p = success \<Longrightarrow>
     structure_from L (g \<lparr>g_policies := AList.update i p (g_policies g)\<rparr>)"
  by (simp add: structure_from_def policies_from_def keyed_update all_values_update table_find_update)

lemma structure_actions [ok_intros]:
  "structure_from L g \<Longrightarrow> ac_id a = i \<Longrightarrow>
     structure_from L (g \<lparr>g_actions := AList.update i a (g_actions g)\<rparr>)"
  by (simp add: structure_from_def keyed_update)

lemma structure_put_action [ok_intros]:
  "structure_from L g \<Longrightarrow> ac_id a = i \<Longrightarrow> structure_from L (put_action i a g)"
  by (simp add: put_action_def structure_actions)

lemma structure_histories [ok_intros]:
  "structure_from L g \<Longrightarrow> history_ok h \<Longrightarrow>
     structure_from L (g \<lparr>g_recovery_histories := AList.update i h (g_recovery_histories g)\<rparr>)"
  by (simp add: structure_from_def all_values_update)

lemma structure_find:
  assumes "structure_from L g"
  shows "map_of (g_devices g) i = Some r \<Longrightarrow> dr_device r = i"
    "map_of (g_workers g) i = Some w \<Longrightarrow> wo_worker w = i"
    "map_of (g_actions g) i = Some a \<Longrightarrow> ac_id a = i"
  using assms by (auto simp: structure_from_def dest: keyed_find)

lemma structure_find_policy:
  assumes "structure_from L g" "map_of (g_policies g) i = Some p"
  shows "pol_id p = i" "validate_policy p = success \<or> p \<in> L"
proof -
  have "keyed pol_id (g_policies g)" "all_values (\<lambda>p. validate_policy p = success \<or> p \<in> L) (g_policies g)"
    using assms(1) by (simp_all only: structure_from_def policies_from_def)
  then show "pol_id p = i" "validate_policy p = success \<or> p \<in> L"
    using assms(2) keyed_find all_values_find by fast+
qed

lemma structure_find_evidence:
  assumes "structure_from L g" "map_of (g_evidence g) k = Some e"
  shows "subject_key (ev_subject e) = k" "validate_evidence_structure e = success"
proof -
  have "keyed (\<lambda>e. subject_key (ev_subject e)) (g_evidence g)"
      "all_values (\<lambda>e. validate_evidence_structure e = success) (g_evidence g)"
    using assms(1) by (simp_all only: structure_from_def evidence_ok_def)
  then show "subject_key (ev_subject e) = k" "validate_evidence_structure e = success"
    using keyed_find [OF _ assms(2)] all_values_find [OF _ assms(2)] by fast+
qed

lemma history_for_ok: "structure_from L g \<Longrightarrow> history_ok (history_for g i)"
  using all_values_find [of history_ok "g_recovery_histories g" i]
  by (simp add: structure_from_def history_for_def split: option.split)

lemma structure_size_history [ok_intros]: "structure_from L g \<Longrightarrow> structure_from L (size_history i g)"
  unfolding size_history_def by (intro structure_histories history_ok_filters(5) history_for_ok)

lemma topology_write:
  assumes "topology_ok reg edges" "registry_ok reg'" "\<And>i. registered reg i \<Longrightarrow> registered reg' i"
  shows "topology_ok reg' edges"
  using assms by (auto simp: topology_ok_def)

lemma structure_domains [ok_intros]:
  assumes "structure_from L g" "registry_ok reg" "\<And>i. registered (g_domains g) i \<Longrightarrow> registered reg i"
  shows "structure_from L (g \<lparr>g_domains := reg\<rparr>)"
  using assms topology_write [of "g_domains g" "g_couplings g" reg] by (simp add: structure_from_def)

lemma structure_registry: "structure_from L g \<Longrightarrow> registry_ok (g_domains g)"
  by (simp add: structure_from_def topology_ok_def)

lemma registered_find: "registry_find reg i \<noteq> None \<longleftrightarrow> registered reg i"
  by (simp add: registered_def registry_find_def)

lemma coupling_add_set: "set (coupling_add r edges) \<subseteq> insert r (set edges)"
proof -
  have "set (replace_edge r edges) \<subseteq> insert r (set edges)" by (induction edges) auto
  then show ?thesis by (simp add: coupling_add_def)
qed

lemma structure_coupling_add [ok_intros]:
  assumes "structure_from L g" "registered (g_domains g) (cr_source r)"
    "registered (g_domains g) (cr_destination r)"
  shows "structure_from L (g \<lparr>g_couplings := coupling_add r (g_couplings g)\<rparr>)"
  using assms coupling_add_ok coupling_add_set [of r "g_couplings g"]
  by (auto simp: structure_from_def topology_ok_def)

lemma structure_coupling_remove:
  assumes "structure_from L g" "coupling_remove i (g_couplings g) = (b, edges)"
  shows "structure_from L (g \<lparr>g_couplings := edges\<rparr>)"
proof -
  have "set edges \<subseteq> set (g_couplings g)"
    using assms(2) erase_first_set [of i "g_couplings g"]
    by (auto simp: coupling_remove_def split: if_splits)
  moreover have "coupling_ok (g_couplings g) \<Longrightarrow> coupling_ok edges"
    using coupling_remove_ok [of "g_couplings g" i] assms(2) by simp
  ultimately show ?thesis using assms(1) by (auto simp: structure_from_def topology_ok_def)
qed

lemma structure_retire [ok_intros]:
  assumes "structure_from L g"
  shows "structure_from L (retire_boot_locked now w b g)"
proof -
  have "keyed wo_worker (g_workers (retire_boot_locked now w b g))"
    using assms by (auto simp: structure_from_def retire_boot_locked_def intro!: keyed_map_values)
  moreover have "keyed ac_id (g_actions (retire_boot_locked now w b g))"
    using assms by (auto simp: structure_from_def retire_boot_locked_def retire_action_def
        intro!: keyed_map_values)
  moreover have "all_values history_ok (g_recovery_histories (retire_boot_locked now w b g))"
    using assms by (auto simp: structure_from_def retire_boot_locked_def
        intro!: all_values_map_values)
  ultimately show ?thesis
    using assms by (simp add: structure_from_def) (simp add: retire_boot_locked_def)
qed

lemma registry_grows:
  "registry_add d reg = Inr reg' \<Longrightarrow> registered reg i \<Longrightarrow> registered reg' i"
  "registry_ok reg \<Longrightarrow> registry_update d reg = Inr reg' \<Longrightarrow> registered reg i \<Longrightarrow> registered reg' i"
  using registry_add_result registry_update_result registered_update by blast+

section \<open>Every operation keeps the structure\<close>

lemma structure_create: "create now sockets cf = Inr g \<Longrightarrow> structure_from L g"
proof -
  assume "create now sockets cf = Inr g"
  then have g: "g = publish_locked now (initial_governor cf)"
    by (auto simp: create_def split: if_splits)
  have "structure_from L (initial_governor cf)"
    using make_default_valid
    by (simp add: structure_from_def initial_governor_def topology_ok_def policies_from_def evidence_ok_def
        keyed_def table_ok_def all_values_def kDefaultPolicyId_def coupling_ok_def make_default_def)
  then show ?thesis unfolding g by (rule structure_frame)
qed

lemma structure_register_device:
  "structure_from L g \<Longrightarrow> structure_from L (snd (register_device now r g))"
  by (auto simp: register_device_def intro!: ok_intros)

lemma structure_publish_capabilities:
  "structure_from L g \<Longrightarrow> structure_from L (snd (publish_capabilities now i n caps g))"
  by (cases "map_of (g_devices g) i")
    (simp_all add: publish_capabilities_def structure_frame structure_devices structure_find(1))

lemma structure_registry_write:
  assumes "structure_from L g"
  shows "registry_add d (g_domains g) = Inr reg \<Longrightarrow> structure_from L (g \<lparr>g_domains := reg\<rparr>)"
    "registry_update d (g_domains g) = Inr reg \<Longrightarrow> structure_from L (g \<lparr>g_domains := reg\<rparr>)"
  using structure_domains [OF assms] registry_add_ok [OF structure_registry [OF assms]]
    registry_update_ok [OF structure_registry [OF assms]] registry_grows(1)
    registry_grows(2) [OF structure_registry [OF assms]] by blast+

lemma structure_register_domain:
  "structure_from L g \<Longrightarrow> structure_from L (snd (register_thermal_domain now d g))"
  by (cases "registry_add d (g_domains g)")
    (simp_all add: register_thermal_domain_def structure_registry_write(1) structure_frame
      structure_size_history)

lemma structure_update_domain:
  "structure_from L g \<Longrightarrow> structure_from L (snd (update_thermal_domain now d g))"
  by (cases "registry_update d (g_domains g)")
    (simp_all add: update_thermal_domain_def structure_registry_write(2) structure_frame)

lemma structure_register_coupling:
  "structure_from L g \<Longrightarrow> structure_from L (snd (register_coupling now r g))"
  by (simp add: register_coupling_def structure_frame structure_coupling_add flip: registered_find)

lemma structure_remove_coupling:
  "structure_from L g \<Longrightarrow> structure_from L (snd (remove_coupling now i g))"
  by (auto simp: remove_coupling_def intro!: ok_intros dest: structure_coupling_remove
      split: prod.split bool.split)

lemma structure_set_policy: "structure_from L g \<Longrightarrow> structure_from L (snd (set_policy now p g))"
  by (auto simp: set_policy_def Let_def intro!: ok_intros split: sum.split)

lemma structure_register_worker:
  "structure_from L g \<Longrightarrow> structure_from L (snd (register_worker now w b label g))"
  by (cases "map_of (g_workers g) w")
    (simp_all add: register_worker_def Let_def structure_frame structure_workers structure_retire
      structure_find(2))

lemma structure_heartbeat: "structure_from L g \<Longrightarrow> structure_from L (snd (worker_heartbeat now w b g))"
  by (cases "map_of (g_workers g) w")
    (simp_all add: worker_heartbeat_def structure_workers structure_find(2))

lemma structure_death: "structure_from L g \<Longrightarrow> structure_from L (snd (note_worker_death now w b why g))"
  by (cases "map_of (g_workers g) w")
    (simp_all add: note_worker_death_def Let_def structure_frame structure_workers structure_retire
      structure_find(2))

lemma structure_note_sample [ok_intros]: "structure_from L g \<Longrightarrow> structure_from L (note_sample now e g i)"
  by (simp add: note_sample_def structure_frame structure_histories history_for_ok split: option.split)

lemma structure_note_samples [ok_intros]:
  "structure_from L g \<Longrightarrow> structure_from L (foldl (note_sample now e) g ids)"
  by (induction ids arbitrary: g) (simp_all add: structure_note_sample)

lemma structure_accept [ok_intros]:
  assumes "structure_from L g" "validate_evidence_structure e = success"
  shows "structure_from L (accept_evidence now e g)"
proof -
  let ?g = "accept_evidence now e g"
  have "evidence_ok (g_evidence ?g)"
    using assms by (simp add: accept_evidence_def Let_def structure_from_def evidence_ok_def
        keyed_update all_values_update)
  moreover have "keyed wo_worker (g_workers ?g)"
    using assms structure_find(2) [OF assms(1), of "ev_worker e"]
    by (auto simp: accept_evidence_def Let_def structure_from_def intro!: keyed_update split: option.split)
  ultimately show ?thesis
    using assms(1) by (simp add: structure_from_def) (simp add: accept_evidence_def Let_def)
qed

lemma structure_publish: "structure_from L g \<Longrightarrow> structure_from L (snd (publish_impl now e g))"
  by (cases rule: publish_impl_cases [of now e g])
    (simp_all add: structure_frame structure_note_samples structure_accept)

lemma structure_publications:
  assumes "structure_from L g"
  shows "structure_from L (snd (publish_temperature now e g))"
    "structure_from L (snd (publish_throttle_evidence now e g))"
    "structure_from L (snd (publish_cooling_evidence now e g))"
    "structure_from L (snd (publish_node_temperature now e g))"
    "structure_from L (snd (publish_rack_temperature now e g))"
  using assms
  by (simp_all add: publish_temperature_def publish_throttle_evidence_def publish_cooling_evidence_def
      publish_node_temperature_def publish_rack_temperature_def structure_publish)

lemma structure_evaluate:
  assumes "structure_from L g"
  shows "structure_from L (snd (evaluate_domain now i g))" "structure_from L (snd (evaluate_device now i g))"
  using assms
  by (auto simp: evaluate_domain_def evaluate_device_def intro: structure_frame
      split: option.split sum.split list.split)

lemma structure_recovery:
  assumes "structure_from L g"
  shows "structure_from L (snd (authorize_recovery now i why g))"
    "structure_from L (snd (revoke_recovery now i g))"
  using assms by (simp_all add: authorize_recovery_def revoke_recovery_def structure_frame)

lemma new_action_id [simp]: "ac_id (new_action now g n i d p ev r why) = n"
  by (simp add: new_action_def)

lemma structure_new_action [ok_intros]:
  assumes "structure_from L g" "ac_id a = n"
  shows "structure_from L (g \<lparr>g_action_generation := n, g_action_baselines := bs,
    g_actions := AList.update n a (g_actions g)\<rparr>)"
  using structure_actions [of L "g \<lparr>g_action_generation := n, g_action_baselines := bs\<rparr>" a n] assms
  by simp

lemma structure_authorize:
  "structure_from L g \<Longrightarrow> structure_from L (snd (authorize_mitigation now i r why g))"
  by (simp add: authorize_mitigation_def Let_def structure_frame structure_new_action
      split: option.split sum.split)

lemma structure_authorize_derating:
  assumes "structure_from L g"
  shows "structure_from L (snd (authorize_derating now i r why g))"
proof -
  obtain res g1 where e: "evaluate_domain now i g = (res, g1)" by (metis surj_pair)
  then have "structure_from L g1" using structure_evaluate(1) [OF assms, of now i] by simp
  then show ?thesis using e structure_authorize
    by (cases res) (simp_all add: authorize_derating_def Let_def)
qed

lemma structure_action_steps:
  assumes "structure_from L g"
  shows "structure_from L (snd (record_action_dispatch now i g))"
    "structure_from L (snd (cancel_action now i why g))"
    "structure_from L (snd (record_action_ack now k g))"
    "structure_from L (snd (record_action_result now r g))"
  using assms
  by (auto simp: record_action_dispatch_def cancel_action_def record_action_ack_def
      record_action_result_def Let_def intro!: ok_intros intro: structure_find(3)
      split: option.split sum.split)

lemma structure_verify: "structure_from L g \<Longrightarrow> structure_from L (snd (verify_locked now i e g))"
  by (auto simp: verify_locked_def commit_verification_def Let_def intro!: ok_intros
      intro: structure_find(3) split: option.split sum.split)

lemma structure_restore_basics:
  assumes "structure_from L g" "set (du_policies s) \<subseteq> L"
  shows "structure_from L (restore_basics s g)"
proof -
  let ?ps = "foldl (\<lambda>t p. AList.update (pol_id p) p t) (g_policies g) (du_policies s)"
  have keeps: "map_of t k \<noteq> None \<Longrightarrow> map_of (foldl (\<lambda>t p. AList.update (pol_id p) p t) t ps) k \<noteq> None"
    for t k ps by (induction ps arbitrary: t) (simp_all add: table_find_update)
  have "policies_from L (g_policies g)" using assms(1) by (simp add: structure_from_def)
  then have "policies_from L ?ps"
    using keyed_foldl_update [of pol_id "g_policies g" "\<lambda>p. p"]
      keeps [of "g_policies g" kDefaultPolicyId "du_policies s"]
      all_values_foldl_update [of "\<lambda>p. validate_policy p = success \<or> p \<in> L" "g_policies g" "du_policies s"
        "\<lambda>p. p" pol_id] assms(2)
    by (auto simp: policies_from_def)
  moreover have "keyed dr_device (foldl (\<lambda>t r. AList.update (dr_device r) r t) (g_devices g) (du_devices s))"
    using keyed_foldl_update [of dr_device "g_devices g" "\<lambda>r. r"] assms(1)
    by (simp add: structure_from_def)
  ultimately show ?thesis using assms(1) by (simp add: structure_from_def restore_basics_def)
qed

lemma structure_restore_domains:
  "structure_from L g \<Longrightarrow> restore_domains ds g = (r, g') \<Longrightarrow> structure_from L g'"
proof (induction ds g arbitrary: r g' rule: restore_domains.induct)
  case (2 d ds g)
  show ?case
  proof (cases "registry_add d (g_domains g)")
    case (Inl e)
    then show ?thesis using 2 by simp
  next
    case (Inr reg)
    have "structure_from L (size_history (dd_id d) (g \<lparr>g_domains := reg\<rparr>))"
      by (intro structure_size_history structure_registry_write(1) [OF 2(2) Inr])
    then show ?thesis using 2(1) [OF Inr] 2(3) Inr by simp
  qed
qed simp

lemma structure_restore_couplings:
  "structure_from L g \<Longrightarrow> restore_couplings cs g = (r, g') \<Longrightarrow> structure_from L g'"
proof (induction cs g arbitrary: r g' rule: restore_couplings.induct)
  case (2 c cs g)
  then show ?case
    by (cases "registered (g_domains g) (cr_source c) \<and> registered (g_domains g) (cr_destination c)")
      (auto simp: structure_coupling_add simp flip: registered_find split: if_splits)
qed simp

lemma structure_restart:
  assumes "structure_from L g"
  shows "structure_from L (restart_state now s g)"
proof -
  let ?as = "foldl (\<lambda>t a. AList.update (ac_id a) (restore_action a) t) (g_actions g) (du_actions s)"
  have "keyed ac_id ?as"
    using assms keyed_foldl_update [of ac_id "g_actions g" restore_action]
    by (simp add: structure_from_def restore_action_def)
  moreover have "all_values history_ok (map_values history_clear (g_recovery_histories g))"
    using assms by (simp add: structure_from_def all_values_map_values)
  ultimately have "structure_from L (g \<lparr>g_actions := ?as, g_evidence := [],
      g_recovery_histories := map_values history_clear (g_recovery_histories g)\<rparr>)"
    using assms by (simp add: structure_from_def evidence_ok_def)
  then show ?thesis
    by (simp add: restart_state_def structure_frame) (simp add: structure_from_def advance_topology_def)
qed

lemma structure_load:
  assumes "structure_from L g" "set (loaded_policies (OP_LOAD_DURABLE file)) \<subseteq> L"
  shows "structure_from L (snd (load_durable now file g))"
proof (cases "file")
  case (Some res)
  show ?thesis
  proof (cases res)
    case (Inr s)
    have basics: "structure_from L (restore_basics s g)"
      using structure_restore_basics assms Some Inr by simp
    obtain r1 g1 where d: "restore_domains (du_domains s) (restore_basics s g) = (r1, g1)"
      by (metis surj_pair)
    obtain r2 g2 where c: "restore_couplings (du_couplings s) g1 = (r2, g2)"
      by (metis surj_pair)
    have "structure_from L g1" by (rule structure_restore_domains [OF basics d])
    then show ?thesis
      using assms(1) Some Inr d c structure_restore_couplings [OF _ c] structure_restart
      by (simp add: load_durable_def split: sum.split)
  qed (use assms(1) Some in \<open>simp add: load_durable_def\<close>)
qed (use assms(1) in \<open>simp add: load_durable_def\<close>)

lemma structure_shutdown: "structure_from L g \<Longrightarrow> structure_from L (snd (shutdown now g))"
proof -
  assume ok: "structure_from L g"
  have "keyed ac_id (map_values (shutdown_action now) (g_actions g))"
    using ok keyed_map_values [of ac_id _ "shutdown_action now"]
    by (simp add: structure_from_def shutdown_action_def)
  then have "structure_from L (g \<lparr>g_stopping := True,
      g_actions := map_values (shutdown_action now) (g_actions g)\<rparr>)"
    using ok by (simp add: structure_from_def)
  then show ?thesis using ok by (simp add: shutdown_def Let_def structure_frame)
qed

lemmas structure_operations =
  structure_register_device structure_publish_capabilities structure_register_domain
  structure_update_domain structure_register_coupling structure_remove_coupling structure_set_policy
  structure_register_worker structure_heartbeat structure_death structure_publications
  structure_evaluate structure_recovery structure_authorize structure_authorize_derating
  structure_action_steps structure_verify structure_load structure_shutdown

lemma structure_perform:
  assumes "structure_from L g" "set (loaded_policies op) \<subseteq> L"
  shows "structure_from L (perform now op g)"
  using assms
  by (cases op) (simp_all only: perform.simps structure_operations,
    auto simp: set_clock_def intro: structure_frame)

interpretation loading: governor_steps "structure_from L" "\<lambda>op. set (loaded_policies op) \<subseteq> L" for L
  by unfold_locales (simp_all add: structure_create structure_perform)

interpretation structural: governor_invariant structure_ok
  by unfold_locales (simp_all add: structure_perform structure_create)

end
