(* ===== verification/Evolution.thy ===== *)
theory Evolution
  imports Lifetime
begin

text \<open>
  The dynamic state of a governor over its lifetime: every stored evaluation is sound whatever
  operations run, and the transition history stays within its configured size unless a longer one is
  loaded.
\<close>

section \<open>Every stored evaluation is sound\<close>

text \<open>
  What any consumer of a stored evaluation may rely on: execution is allowed without derating
  only in a healthy state, and no requested mitigation is one the state prohibits.
\<close>

definition evaluation_sound :: "evaluation \<Rightarrow> bool" where
  "evaluation_sound ev \<longleftrightarrow>
     (te_decision ev = TD_ALLOW \<longrightarrow> is_healthy_state (te_state ev)) \<and>
     (\<forall>r \<in> set (te_intents ev). ir_intent r \<notin> set (te_prohibited_intents ev)) \<and>
     sorted (te_reasons ev)"

lemma evaluate_thermal_sound: "evaluation_sound (evaluate_thermal i)"
proof (cases rule: evaluate_thermal_cases [of i])
  case (fresh e)
  have "te_decision (evaluate_thermal i) = TD_ALLOW \<Longrightarrow> is_healthy_state (te_state (evaluate_thermal i))"
    using allow_is_fresh_healthy by blast
  then show ?thesis
    using fresh(2) evaluation_intents_allowed(2) evaluate_fresh_reasons_sorted
    by (auto simp: evaluation_sound_def evaluate_fresh_fields)
next
  case stopped
  then show ?thesis by (simp add: evaluation_sound_def)
qed

lemma evaluate_locked_sound: "evaluate_locked g now d = Inr ev \<Longrightarrow> evaluation_sound ev"
proof -
  assume "evaluate_locked g now d = Inr ev"
  then obtain policy where
    "te_state ev = te_state (evaluate_thermal (evaluation_input_for g now d policy))"
    "te_decision ev = te_decision (evaluate_thermal (evaluation_input_for g now d policy))"
    "te_intents ev = te_intents (evaluate_thermal (evaluation_input_for g now d policy))"
    "te_prohibited_intents ev =
       te_prohibited_intents (evaluate_thermal (evaluation_input_for g now d policy))"
    "te_reasons ev = te_reasons (evaluate_thermal (evaluation_input_for g now d policy))"
    by (rule evaluate_locked_fields)
  then show ?thesis
    using evaluate_thermal_sound [of "evaluation_input_for g now d policy"]
    by (simp add: evaluation_sound_def)
qed

section \<open>How evaluations and history evolve\<close>

text \<open>
  Seen from its evaluations, its history and its configuration, a governor only ever records
  freshly computed evaluations, or restarts: the evaluations are dropped and the history is
  replaced by a restored one of length \<open>m\<close>.
\<close>

inductive evolves :: "nat \<Rightarrow> governor \<Rightarrow> governor \<Rightarrow> bool" for m where
  unchanged: "g_config h = g_config g \<Longrightarrow> g_evaluations h = g_evaluations g \<Longrightarrow>
     g_history h = g_history g \<Longrightarrow> evolves m g h"
| recorded: "evolves m g h \<Longrightarrow> evaluate_locked h' now d = Inr ev \<Longrightarrow>
     evolves m g (record_transition i n ev h)"
| touched: "evolves m g h \<Longrightarrow> g_config h' = g_config h \<Longrightarrow> g_evaluations h' = g_evaluations h \<Longrightarrow>
     g_history h' = g_history h \<Longrightarrow> evolves m g h'"
| restarted: "evolves m g h \<Longrightarrow> g_config h' = g_config h \<Longrightarrow> g_evaluations h' = [] \<Longrightarrow>
     length (g_history h') = m \<Longrightarrow> evolves m g h'"

lemma evolves_refl [simp]: "evolves m g g"
  by (rule unchanged) simp_all

lemma evolves_trans: "evolves m h h' \<Longrightarrow> evolves m g h \<Longrightarrow> evolves m g h'"
  by (induction rule: evolves.induct) (auto intro: evolves.intros)

lemma evolves_recompute: "evolves m g h \<Longrightarrow> evolves m g (recompute_domain now i h)"
  by (auto simp: recompute_domain_def intro: recorded split: option.split sum.split)

lemma evolves_recompute_domains: "evolves m g h \<Longrightarrow> evolves m g (recompute_domains now ids h)"
  by (induction ids arbitrary: h) (simp_all add: recompute_domains_def evolves_recompute)

lemma evolves_recompute_all: "evolves m g h \<Longrightarrow> evolves m g (recompute_all_domains now h)"
  by (simp add: recompute_all_domains_def evolves_recompute_domains)

lemma evolves_publish: "evolves m g h \<Longrightarrow> evolves m g (publish_locked now h)"
  by (rule touched) simp_all

lemma evolves_topology: "evolves m g h \<Longrightarrow> evolves m g (advance_topology h)"
  by (rule touched) (simp_all add: advance_topology_def)

lemma evolves_size: "evolves m g h \<Longrightarrow> evolves m g (size_history i h)"
  by (rule touched) (simp_all add: size_history_def)

lemma evolves_retire: "evolves m g h \<Longrightarrow> evolves m g (retire_boot_locked now w b h)"
  by (rule touched) (simp_all add: retire_boot_locked_def)

lemma evolves_put: "evolves m g h \<Longrightarrow> evolves m g (put_action i a h)"
  by (rule touched) (simp_all add: put_action_def)

lemma evolves_fields:
  "evolves m g h \<Longrightarrow> evolves m g (h \<lparr>g_workers := ws\<rparr>)"
  "evolves m g h \<Longrightarrow> evolves m g (h \<lparr>g_recovery_histories := rs\<rparr>)"
  "evolves m g h \<Longrightarrow> evolves m g (h \<lparr>g_history_note := why\<rparr>)"
  by (rule touched; simp)+

lemma evolves_note: "evolves m g h \<Longrightarrow> evolves m g (note_sample now e h i)"
  by (simp add: note_sample_def evolves_recompute evolves_fields split: option.split)

lemma evolves_notes: "evolves m g h \<Longrightarrow> evolves m g (foldl (note_sample now e) h ids)"
  by (induction ids arbitrary: h) (simp_all add: evolves_note)

lemma evolves_accept: "evolves m g h \<Longrightarrow> evolves m g (accept_evidence now e h)"
  by (rule touched) (simp_all add: accept_evidence_def Let_def)

lemmas evolves_steps = evolves_recompute evolves_recompute_domains evolves_recompute_all
  evolves_publish evolves_topology evolves_size evolves_retire evolves_put evolves_notes evolves_accept
  evolves_fields unchanged

lemma evolves_registrations:
  "evolves m g (snd (set_clock now given g))"
  "evolves m g (snd (register_device now r g))"
  "evolves m g (snd (publish_capabilities now i n caps g))"
  "evolves m g (snd (register_thermal_domain now d g))"
  "evolves m g (snd (update_thermal_domain now d g))"
  "evolves m g (snd (register_coupling now c g))"
  "evolves m g (snd (remove_coupling now i g))"
  "evolves m g (snd (set_policy now p g))"
  by (simp_all add: set_clock_def register_device_def publish_capabilities_def
      register_thermal_domain_def update_thermal_domain_def register_coupling_def remove_coupling_def
      set_policy_def Let_def evolves_steps split: option.split sum.split prod.split bool.split)

lemma evolves_workers:
  "evolves m g (snd (register_worker now w b label g))"
  "evolves m g (snd (worker_heartbeat now w b g))"
  by (simp_all add: register_worker_def worker_heartbeat_def Let_def evolves_steps
      split: option.split)

lemma evolves_death: "evolves m g (snd (note_worker_death now w b why g))"
  by (simp add: note_worker_death_def Let_def evolves_steps split: option.split)

lemma evolves_publish_impl: "evolves m g (snd (publish_impl now e g))"
  by (cases rule: publish_impl_cases [of now e g]) (simp_all add: evolves_steps)

lemma evolves_publications:
  "evolves m g (snd (publish_temperature now e g))"
  "evolves m g (snd (publish_throttle_evidence now e g))"
  "evolves m g (snd (publish_cooling_evidence now e g))"
  "evolves m g (snd (publish_node_temperature now e g))"
  "evolves m g (snd (publish_rack_temperature now e g))"
  by (simp_all add: publish_temperature_def publish_throttle_evidence_def publish_cooling_evidence_def
      publish_node_temperature_def publish_rack_temperature_def evolves_publish_impl)

lemma evolves_evaluate:
  "evolves m g (snd (evaluate_domain now i g))" "evolves m g (snd (evaluate_device now i g))"
  by (auto simp: evaluate_domain_def evaluate_device_def intro: recorded
      split: option.split sum.split list.split)

lemma evolves_recovery:
  "evolves m g (snd (authorize_recovery now i why g))" "evolves m g (snd (revoke_recovery now i g))"
  by (simp_all add: authorize_recovery_def revoke_recovery_def evolves_steps)

lemma evolves_authorize: "evolves m g (snd (authorize_mitigation now i r why g))"
  by (simp add: authorize_mitigation_def Let_def evolves_steps split: option.split sum.split)

lemma evolves_authorize_derating: "evolves m g (snd (authorize_derating now i r why g))"
proof -
  obtain res g1 where e: "evaluate_domain now i g = (res, g1)" by (metis surj_pair)
  then have "evolves m g g1" using evolves_evaluate(1) [of m g now i] by simp
  then show ?thesis
    using e evolves_trans [OF evolves_authorize] by (cases res) (simp_all add: authorize_derating_def Let_def)
qed

lemma evolves_actions:
  "evolves m g (snd (record_action_dispatch now i g))"
  "evolves m g (snd (record_action_ack now k g))"
  "evolves m g (snd (record_action_result now r g))"
  "evolves m g (snd (cancel_action now i why g))"
  by (simp_all add: record_action_dispatch_def record_action_ack_def record_action_result_def
      cancel_action_def Let_def evolves_steps split: option.split sum.split)

lemma evolves_verify: "evolves m g (snd (verify_locked now i e g))"
proof -
  have commit: "evolves m g (snd (commit_verification now i a d after v g))"
    if "evaluate_locked g now d = Inr after" for a d after v
    using that unfolding commit_verification_def Let_def snd_conv
    by (intro evolves_publish recorded evolves_put unchanged) simp_all
  show ?thesis by (auto simp: verify_locked_def intro: commit split: option.split sum.split)
qed

lemma evolves_shutdown: "evolves m g (snd (shutdown now g))"
  by (simp add: shutdown_def Let_def evolves_steps)

lemma restore_domains_keeps:
  "restore_domains ds g = (r, g') \<Longrightarrow> g_config g' = g_config g \<and> g_evaluations g' = g_evaluations g \<and>
     g_history g' = g_history g"
proof (induction ds g arbitrary: r g' rule: restore_domains.induct)
  case (2 d ds g)
  show ?case
  proof (cases "registry_add d (g_domains g)")
    case (Inl e)
    then have "g' = g" using 2(2) by simp
    then show ?thesis by simp
  next
    case (Inr reg)
    then have "restore_domains ds (size_history (dd_id d) (g \<lparr>g_domains := reg\<rparr>)) = (r, g')"
      using 2(2) by simp
    from 2(1) [OF Inr this] show ?thesis by (simp add: size_history_def)
  qed
qed simp

lemma restore_couplings_keeps:
  "restore_couplings cs g = (r, g') \<Longrightarrow> g_config g' = g_config g \<and> g_evaluations g' = g_evaluations g \<and>
     g_history g' = g_history g"
proof (induction cs g arbitrary: r g' rule: restore_couplings.induct)
  case (2 c cs g)
  show ?case
  proof (cases "registry_find (g_domains g) (cr_source c) = None \<or>
      registry_find (g_domains g) (cr_destination c) = None")
    case True
    then show ?thesis using 2(2) by simp
  next
    case False
    then have "restore_couplings cs (g \<lparr>g_couplings := coupling_add c (g_couplings g)\<rparr>) = (r, g')"
      using 2(2) by (simp only: restore_couplings.simps if_False)
    from 2(1) [OF False this] show ?thesis by simp
  qed
qed simp

lemma evolves_restart:
  assumes "evolves m g h" "length (du_transitions s) = m"
  shows "evolves m g (restart_state now s h)"
  unfolding restart_state_def
  by (intro evolves_publish evolves_recompute_all evolves_topology restarted [OF assms(1)])
    (use assms(2) in simp_all)

lemma evolves_load:
  assumes "m = loaded_history (OP_LOAD_DURABLE f)"
  shows "evolves m g (snd (load_durable now f g))"
proof (cases f)
  case (Some res)
  show ?thesis
  proof (cases res)
    case (Inr s)
    obtain r1 g1 where d: "restore_domains (du_domains s) (restore_basics s g) = (r1, g1)"
      by (metis surj_pair)
    obtain r2 g2 where c: "restore_couplings (du_couplings s) g1 = (r2, g2)"
      by (metis surj_pair)
    have "evolves m g (restore_basics s g)" by (rule unchanged) (simp_all add: restore_basics_def)
    then have g1: "evolves m g g1"
      using restore_domains_keeps [OF d] by (auto intro: touched)
    then have g2: "evolves m g g2"
      using restore_couplings_keeps [OF c] by (auto intro: touched)
    have "g_config g2 = g_config g"
      using restore_domains_keeps [OF d] restore_couplings_keeps [OF c] by (simp add: restore_basics_def)
    then have "evolves m g (restart_state now s g2)"
      using assms Some Inr by (intro evolves_restart g2) simp
    then show ?thesis using Some Inr d c g1 g2 by (simp add: load_durable_def split: sum.split)
  qed (use Some in \<open>simp add: load_durable_def\<close>)
qed (simp add: load_durable_def)

lemmas evolves_operations = evolves_registrations evolves_workers evolves_death evolves_publications
  evolves_evaluate evolves_recovery evolves_authorize evolves_authorize_derating evolves_actions
  evolves_verify evolves_load evolves_shutdown

lemma evolves_perform:
  assumes "m = loaded_history op"
  shows "evolves m g (perform now op g)"
  using assms by (cases op) (simp_all only: perform.simps evolves_operations)

text \<open>
  What an invariant of evaluations and history has to satisfy when only histories whose lengths
  \<open>fits\<close> accepts are loaded, and what it then gives.
\<close>

locale evolution_invariant =
  fixes inv :: "governor \<Rightarrow> bool" and fits :: "nat \<Rightarrow> bool"
  assumes local: "inv g \<Longrightarrow> g_config h = g_config g \<Longrightarrow> g_evaluations h = g_evaluations g \<Longrightarrow>
      g_history h = g_history g \<Longrightarrow> inv h"
    and recording: "inv g \<Longrightarrow> evaluate_locked h now d = Inr ev \<Longrightarrow> inv (record_transition i n ev g)"
    and restarting: "inv g \<Longrightarrow> g_config h = g_config g \<Longrightarrow> g_evaluations h = [] \<Longrightarrow>
      fits (length (g_history h)) \<Longrightarrow> inv h"
    and starting: "g_evaluations g = [] \<Longrightarrow> g_history g = [] \<Longrightarrow> inv g"
begin

lemma evolves_inv: "evolves k g h \<Longrightarrow> fits k \<Longrightarrow> inv g \<Longrightarrow> inv h"
proof (induction rule: evolves.induct)
  case unchanged
  then show ?case using local by blast
next
  case recorded
  then show ?case using recording by blast
next
  case touched
  show ?case by (rule local [OF touched.IH [OF touched.prems] touched.hyps(2-4)])
next
  case (restarted g h h')
  show ?case
    using restarting [OF restarted.IH [OF restarted.prems] restarted.hyps(2,3)] restarted.hyps(4) restarted.prems(1)
    by blast
qed

lemma evolution_create: "create now sockets cf = Inr g \<Longrightarrow> inv g"
  by (auto simp: create_def initial_governor_def split: if_splits intro!: starting)

lemma evolution_perform: "inv g \<Longrightarrow> fits (loaded_history op) \<Longrightarrow> inv (perform now op g)"
  using evolves_inv evolves_perform by blast

end

sublocale evolution_invariant \<subseteq> governor_steps inv "\<lambda>op. fits (loaded_history op)"
  by unfold_locales (rule evolution_create, assumption, rule evolution_perform)

section \<open>The two invariants\<close>

definition evaluations_sound :: "governor \<Rightarrow> bool" where
  "evaluations_sound g \<longleftrightarrow> all_values evaluation_sound (g_evaluations g)"

text \<open>\<open>n\<close> bounds the histories that are loaded.\<close>

definition history_fits :: "nat \<Rightarrow> governor \<Rightarrow> bool" where
  "history_fits n g \<longleftrightarrow> (0 < cf_max_history_records (g_config g) \<longrightarrow>
     length (g_history g) \<le> max n (cf_max_history_records (g_config g)))"

lemma record_history_length:
  "0 < cf_max_history_records (g_config g) \<Longrightarrow>
     length (g_history (record_transition i dg ev g)) \<le>
       max (length (g_history g)) (cf_max_history_records (g_config g))"
  by (simp add: record_transition_def Let_def split: option.split)

interpretation recorded: evolution_invariant evaluations_sound "\<lambda>n. True"
  by unfold_locales
    (auto simp: evaluations_sound_def intro: all_values_update evaluate_locked_sound)

interpretation sound: governor_invariant evaluations_sound
  by unfold_locales (rule recorded.create_inv, assumption, rule recorded.perform_inv, assumption, simp)

interpretation bounded: evolution_invariant "history_fits n" "\<lambda>k. k \<le> n" for n
proof unfold_locales
  show "history_fits n (record_transition i m ev g)" if "history_fits n g" for i m ev g
    using that record_history_length [of g i m ev] by (fastforce simp: history_fits_def)
qed (auto simp: history_fits_def)

end
