(* ===== verification/Fencing.thy ===== *)
theory Fencing
  imports Evolution
begin

text \<open>
  The death of a worker incarnation: its evidence authorises nothing any more, its actions end
  with an unknown outcome, and what it still sends is refused.
\<close>

section \<open>Every registered domain is evaluated\<close>

lemma policy_for_total:
  assumes "structure_ok g"
  obtains p where "policy_for g d = Some p"
proof -
  have "map_of (g_policies g) kDefaultPolicyId \<noteq> None"
    using assms by (simp add: structure_from_def policies_from_def)
  then obtain p where p: "policy_for g d = Some p"
    by (cases "map_of (g_policies g) (dd_policy d)") (auto simp: policy_for_def)
  show ?thesis by (rule that [OF p])
qed

lemma evaluate_locked_total: "structure_ok g \<Longrightarrow> \<exists>ev. evaluate_locked g now d = Inr ev"
  by (rule policy_for_total [of g d]) (auto simp: evaluate_locked_def Let_def split: option.split)

lemma recompute_domains_keep:
  "i \<notin> set ids \<Longrightarrow> map_of (g_evaluations (recompute_domains now ids g)) i = map_of (g_evaluations g) i"
  by (induction ids arbitrary: g) (simp_all add: recompute_domains_def recompute_other)

lemma recompute_domains_evaluate:
  assumes "structure_ok g" "registry_find (g_domains g) i = Some d" "i \<in> set ids"
  shows "\<exists>h ev. core h = core g \<and> evaluate_locked h now d = Inr ev \<and>
    map_of (g_evaluations (recompute_domains now ids g)) i = Some ev"
  using assms
proof (induction ids arbitrary: g)
  case (Cons j ids)
  let ?h = "recompute_domain now j g"
  have core: "core ?h = core g" by (rule core_recompute)
  show ?case
  proof (cases "i \<in> set ids")
    case True
    from Cons.IH [of ?h] Cons.prems True core show ?thesis
      by (simp add: recompute_domains_def structure_frame)
  next
    case False
    then have j: "j = i" using Cons.prems(3) by simp
    obtain ev where ev: "evaluate_locked g now d = Inr ev"
      using evaluate_locked_total [OF Cons.prems(1)] by blast
    have "map_of (g_evaluations (recompute_domains now (j # ids) g)) i = Some ev"
      using recompute_domains_keep [OF False, of now ?h] recompute_stores [OF Cons.prems(2) ev]
      by (simp add: recompute_domains_def j)
    then show ?thesis using ev by blast
  qed
qed simp

lemma registered_listed: "registry_find reg i = Some d \<Longrightarrow> i \<in> set (all_domain_ids reg)"
  by (auto simp: registry_find_def all_domain_ids_def dest: map_of_SomeD intro: rev_image_eqI)

lemma recompute_all_evaluate:
  assumes "structure_ok g" "registry_find (g_domains g) i = Some d"
  obtains h ev where "core h = core g" "evaluate_locked h now d = Inr ev"
    "map_of (g_evaluations (recompute_all_domains now g)) i = Some ev"
  using recompute_domains_evaluate [OF assms registered_listed [OF assms(2)], of now]
  unfolding recompute_all_domains_def by blast

section \<open>Invalidated evidence authorises nothing\<close>

lemma gathered_plain:
  assumes "gather_domain_evidence d t = Some de" "\<not> de_synthesized de"
  obtains k where "map_of t k = Some (de_evidence de)"
proof (cases "map_of t (subject_key (for_domain (dd_id d) (dd_generation d)))")
  case (Some e)
  then show ?thesis using assms that by (auto simp: gather_domain_evidence_def Let_def)
next
  case None
  have mem: "\<exists>k. map_of t k = Some e" if "e \<in> set (member_evidence d t)" for e
    using that by (auto simp: member_evidence_def split: option.splits)
  have one: "length (member_evidence d t) = 1"
    using assms None by (auto simp: gather_domain_evidence_def Let_def split: if_splits sum.splits)
  then have "hd (member_evidence d t) \<in> set (member_evidence d t)" by (cases "member_evidence d t") auto
  moreover have "de_evidence de = hd (member_evidence d t)"
    using assms None one by (auto simp: gather_domain_evidence_def Let_def split: if_splits)
  ultimately show ?thesis using mem that by metis
qed

lemma invalidated_unresolved:
  assumes "evaluate_locked g now d = Inr ev"
    and "gather_domain_evidence d (g_evidence g) = Some de"
    and "subject_key (ev_subject (de_evidence de)) \<in> set (g_invalidated g)"
  shows "is_unresolved (te_state ev) \<and> te_decision ev \<noteq> TD_ALLOW"
proof -
  obtain policy where p: "te_state ev = te_state (evaluate_thermal (evaluation_input_for g now d policy))"
    "te_decision ev = te_decision (evaluate_thermal (evaluation_input_for g now d policy))"
    using evaluate_locked_fields [OF assms(1)] by metis
  have "\<not> evidence_admitted (evaluation_input_for g now d policy) e" for e
    using assms(2,3) by (simp add: evidence_admitted_def evidence_freshness_def)
  then show ?thesis
    using p by (cases rule: evaluate_thermal_cases [of "evaluation_input_for g now d policy"]) auto
qed

lemma retire_invalidates:
  assumes "(k, e) \<in> set (g_evidence g)" "ev_worker e = w" "ev_worker_boot e = b"
  shows "k \<in> set (g_invalidated (retire_boot_locked now w b g))"
proof -
  let ?f = "\<lambda>inv (k, e). if ev_worker e = w \<and> ev_worker_boot e = b then set_insert k inv else inv"
  have mono: "x \<in> set inv \<Longrightarrow> x \<in> set (foldl ?f inv t)" for x inv t
    by (induction t arbitrary: inv) (auto simp: set_set_insert)
  have "k \<in> set (foldl ?f inv t)" if "(k, e) \<in> set t" for inv t
    using that
  proof (induction t arbitrary: inv)
    case (Cons x t)
    then show ?case using assms(2,3) mono [of k "set_insert k inv" t] by auto
  qed simp
  then show ?thesis using assms(1) by (simp add: retire_boot_locked_def)
qed

text \<open>The state that retiring an incarnation after its death leaves.\<close>

definition after_death :: "time_ns \<Rightarrow> ident \<Rightarrow> ident \<Rightarrow> worker_record \<Rightarrow> governor \<Rightarrow> governor" where
  "after_death now w b r g = retire_boot_locked now w b
     (g \<lparr>g_workers := AList.update w (r \<lparr>wo_alive := False\<rparr>) (g_workers g)\<rparr>)"

lemma death_success:
  assumes "note_worker_death now w b why g = (success, g')"
  obtains r where "map_of (g_workers g) w = Some r" "wo_boot r = b"
    "g' = (publish_locked now (recompute_all_domains now (after_death now w b r g))) \<lparr>g_history_note := why\<rparr>"
  using assms by (auto simp: note_worker_death_def after_death_def Let_def split: option.splits if_splits)

lemma after_death_frame [simp]:
  "g_domains (after_death now w b r g) = g_domains g"
  "g_evidence (after_death now w b r g) = g_evidence g"
  "g_epoch (after_death now w b r g) = g_epoch g"
  "g_stopping (after_death now w b r g) = g_stopping g"
  "g_actions (after_death now w b r g) = map_values (retire_action now w b) (g_actions g)"
  by (simp_all add: after_death_def retire_boot_locked_def)

text \<open>
  What governs a domain's evaluation is the evidence held under the subject its gathered evidence
  names: the evidence of the domain or of its one member, or the governing member of an aggregate.
\<close>

lemma gathered_held:
  assumes "structure_from L g" "gather_domain_evidence d (g_evidence g) = Some de" "\<not> de_synthesized de"
  shows "map_of (g_evidence g) (subject_key (ev_subject (de_evidence de))) = Some (de_evidence de)"
proof -
  obtain k where k: "map_of (g_evidence g) k = Some (de_evidence de)" using gathered_plain [OF assms(2,3)] .
  then show ?thesis using structure_find_evidence(1) [OF assms(1) k] by simp
qed

lemma death_revokes:
  assumes ok: "structure_ok g" and death: "note_worker_death now w b why g = (success, g')"
    and d: "registry_find (g_domains g) i = Some d"
    and de: "gather_domain_evidence d (g_evidence g) = Some de"
      "map_of (g_evidence g) (subject_key (ev_subject (de_evidence de))) = Some e"
      "ev_worker e = w" "ev_worker_boot e = b"
  shows "\<exists>ev. map_of (g_evaluations g') i = Some ev \<and> is_unresolved (te_state ev) \<and>
    te_decision ev \<noteq> TD_ALLOW"
proof -
  obtain r where r: "map_of (g_workers g) w = Some r" "wo_boot r = b"
      "g' = (publish_locked now (recompute_all_domains now (after_death now w b r g)))
        \<lparr>g_history_note := why\<rparr>"
    using death by (rule death_success)
  have ok': "structure_ok (after_death now w b r g)"
    unfolding after_death_def
    by (intro structure_retire structure_workers [OF ok]) (simp add: structure_find(2) [OF ok r(1)])
  have "registry_find (g_domains (after_death now w b r g)) i = Some d" using d by simp
  then obtain h ev where h: "core h = core (after_death now w b r g)" "evaluate_locked h now d = Inr ev"
      "map_of (g_evaluations (recompute_all_domains now (after_death now w b r g))) i = Some ev"
    by (rule recompute_all_evaluate [OF ok'])
  have "subject_key (ev_subject (de_evidence de)) \<in> set (g_invalidated (after_death now w b r g))"
    unfolding after_death_def using de(2-4) by (intro retire_invalidates) (auto dest: map_of_SomeD)
  then have "is_unresolved (te_state ev) \<and> te_decision ev \<noteq> TD_ALLOW"
    using core_eqD(16,17) [OF h(1)] de(1) by (intro invalidated_unresolved [OF h(2)]) simp_all
  then show ?thesis using h(3) r(3) by simp
qed

lemma death_actions:
  assumes "note_worker_death now w b why g = (success, g')" "map_of (g_actions g) i = Some a"
    "aa_worker (ac_authority a) = w" "aa_worker_boot (ac_authority a) = b"
  shows "\<exists>a'. map_of (g_actions g') i = Some a' \<and>
    (if is_terminal (ac_lifecycle a) then a' = a else ac_lifecycle a' = AL_OUTCOME_UNKNOWN)"
proof -
  obtain r where "g' = (publish_locked now (recompute_all_domains now (after_death now w b r g)))
      \<lparr>g_history_note := why\<rparr>"
    using death_success [OF assms(1)] by metis
  then have "map_of (g_actions g') i = Some (retire_action now w b a)" using assms(2) by simp
  then show ?thesis using assms(3,4) by (simp add: retire_action_def)
qed

lemma death_fences:
  assumes "note_worker_death now w b why g = (success, g')"
    and "validate_evidence_structure e = success" "ev_worker e = w" "id_valid w"
    and "ev_coordinator_epoch e = g_epoch g'" "\<not> g_stopping g'"
  shows "publish_impl now' e g' = (Inl E_STALE_WORKER, g')"
proof -
  obtain r where r: "map_of (g_workers g) w = Some r" "wo_boot r = b"
      "g' = (publish_locked now (recompute_all_domains now (after_death now w b r g)))
        \<lparr>g_history_note := why\<rparr>"
    using assms(1) by (rule death_success)
  have "\<exists>r'. map_of (g_workers g') w = Some r' \<and> \<not> wo_alive r'"
    using r(3) by (simp add: after_death_def retire_boot_locked_def table_find_update)
  then show ?thesis
    using assms(2-6) by (auto simp: publish_impl_def evidence_fences_def)
qed

lemma death_keeps_terminal: "keeps_terminal g (snd (note_worker_death now w b why g))"
proof (cases "note_worker_death now w b why g")
  case (Pair r g')
  show ?thesis
  proof (cases r)
    case (Inl e)
    then have "g' = g" using Pair by (auto simp: note_worker_death_def Let_def split: option.splits if_splits)
    then show ?thesis using Pair by simp
  next
    case (Inr u)
    then obtain r' where "g' = (publish_locked now (recompute_all_domains now (after_death now w b r' g)))
        \<lparr>g_history_note := why\<rparr>"
      using death_success Pair by (metis (full_types) old.unit.exhaust)
    then have "g_actions g' = map_values (retire_action now w b) (g_actions g)" by simp
    then show ?thesis using Pair
      by (auto intro!: keeps_terminal_map [where f = "retire_action now w b"] simp: retire_action_def)
  qed
qed

end
