(* ===== verification/Monotonicity.thy ===== *)
theory Monotonicity
  imports EvaluationLaws
begin

text \<open>
  A hotter reading never yields a milder state: every stage of the evaluation is monotone in the
  temperature, including the recovery gate, whose float arithmetic may overflow.
\<close>

section \<open>Differences are monotone, infinities included\<close>

lemma fsub_infinite [simp]:
  "is_finite c \<Longrightarrow> fsub PosInf c = PosInf" "is_finite c \<Longrightarrow> fsub NegInf c = NegInf"
  "is_finite a \<Longrightarrow> fsub a PosInf = NegInf" "is_finite a \<Longrightarrow> fsub a NegInf = PosInf"
  "fsub PosInf PosInf = NaN" "fsub PosInf NegInf = PosInf" "fsub NegInf PosInf = NegInf"
  "fsub NegInf NegInf = NaN" "fsub NaN c = NaN" "fsub a NaN = NaN"
  by (cases c; simp add: fsub_def fadd_def fneg_def)
    (cases c; cases a; simp add: fsub_def fadd_def fneg_def)+

lemma infinite_compare [simp]:
  "fle PosInf x \<longleftrightarrow> x = PosInf" "fle x NegInf \<longleftrightarrow> x = NegInf"
  "\<not> flt PosInf x" "\<not> flt x NegInf"
  "flt NegInf x \<longleftrightarrow> x \<noteq> NaN \<and> x \<noteq> NegInf" "flt x PosInf \<longleftrightarrow> x \<noteq> NaN \<and> x \<noteq> PosInf"
  by (cases x; simp add: fle_def flt_def)+

lemma fsub_infinity_bounds [simp]: "\<not> flt z (fsub a PosInf)" "\<not> flt (fsub a NegInf) z"
  by (cases a; simp)+

lemma fsub_infinity_bounds2 [simp]: "\<not> flt z (fsub (fsub a PosInf) b)"
  by (cases "is_finite a"; cases a; cases "is_finite b"; cases b; simp)

lemma fsub_left_greater:
  assumes "fle x y"
    and "flt z (fsub x c)"
  shows "flt z (fsub y c)"
proof (cases "is_finite x \<and> is_finite y \<and> is_finite c")
  case True
  then show ?thesis using assms fsub_mono flt_fle_trans by blast
next
  case False
  then show ?thesis using assms
    by (cases x; cases y; cases c) auto
qed

lemma fsub_left_less:
  assumes "fle x y"
    and "flt (fsub y c) z"
  shows "flt (fsub x c) z"
proof (cases "is_finite x \<and> is_finite y \<and> is_finite c")
  case True
  then show ?thesis using assms fsub_mono fle_flt_trans by blast
next
  case False
  then show ?thesis using assms
    by (cases x; cases y; cases c) auto
qed

lemma fsub_left_greater2:
  assumes "fle x y" "flt z (fsub (fsub x c) d)"
  shows "flt z (fsub (fsub y c) d)"
proof (cases "is_finite x \<and> is_finite y \<and> is_finite c")
  case True
  then show ?thesis using assms fsub_mono fsub_left_greater by blast
next
  case False
  then show ?thesis using assms
    by (cases x; cases y; cases c; cases "is_finite d"; cases d) auto
qed

lemma fsub_right_mono:
  assumes "is_finite a" "is_finite b" "is_finite c" "fle b c"
  shows "fle (fsub a c) (fsub a b)"
  using assms by (simp add: fsub_compare finite_compare rne_mono)

lemma fsub_right_greater:
  assumes "fle c d"
    and "is_finite a"
    and "flt z (fsub a d)"
  shows "flt z (fsub a c)"
proof (cases "is_finite c \<and> is_finite d")
  case True
  then show ?thesis using assms fsub_right_mono flt_fle_trans by blast
next
  case False
  then show ?thesis using assms
    by (cases a; cases c; cases d) auto
qed


text \<open>A chain of three subtractions, as in the effective headroom.\<close>

lemma fsub_right_fle:
  assumes "fle c d" "is_finite a"
  shows "fle (fsub a d) (fsub a c)"
proof (cases "is_finite c \<and> is_finite d")
  case True
  then show ?thesis using assms fsub_right_mono by blast
next
  case False
  have "\<not> is_nan (fsub a x)" if "x \<noteq> NaN" for x
    using assms(2) that by (cases x) (simp_all add: fsub_finite)
  moreover have "c \<noteq> NaN" "d \<noteq> NaN" using assms(1) by auto
  ultimately have "\<not> is_nan (fsub a c)" "\<not> is_nan (fsub a d)" by blast+
  then show ?thesis using assms False
    by (cases c; cases d) (auto simp: fle_def)
qed

lemma drop_chain:
  assumes "fle t t'" "is_finite g" "flt z (fsub (fsub (fsub g t') s) u)"
  shows "flt z (fsub (fsub (fsub g t) s) u)"
  using fsub_left_greater2 [OF fsub_right_fle] assms by blast

section \<open>The recovery gate\<close>

definition hotter :: "f64 \<Rightarrow> evidence \<Rightarrow> evidence" where
  "hotter t e = e \<lparr>ev_temperature := t\<rparr>"

lemma headroom_input_hotter:
  "evaluation_headroom_input i (hotter t e) =
     (evaluation_headroom_input i e) \<lparr>hi_current_temperature := t\<rparr>"
  by (simp add: evaluation_headroom_input_def hotter_def Let_def)

lemma governing_limit_current [simp]:
  "governing_limit (h \<lparr>hi_current_temperature := t\<rparr>) = governing_limit h"
  "hi_policy_safety_margin (h \<lparr>hi_current_temperature := t\<rparr>) = hi_policy_safety_margin h"
  "hi_uncertainty_margin (h \<lparr>hi_current_temperature := t\<rparr>) = hi_uncertainty_margin h"
  "hi_recovery_threshold (h \<lparr>hi_current_temperature := t\<rparr>) = hi_recovery_threshold h"
  "hi_recovery_margin (h \<lparr>hi_current_temperature := t\<rparr>) = hi_recovery_margin h"
  by (simp_all add: governing_limit_def valid_vendor_limit_def split: option.split)

lemma headroom_input_fields [simp]:
  "hi_policy_safety_margin (evaluation_headroom_input i e) = mg_policy_safety (pol_margins (ei_policy i))"
  "hi_uncertainty_margin (evaluation_headroom_input i e) =
     uncertainty_from_confidence (ev_confidence e) (mg_uncertainty (pol_margins (ei_policy i)))"
  "hi_recovery_threshold (evaluation_headroom_input i e) = th_recovery (pol_thresholds (ei_policy i))"
  "hi_recovery_margin (evaluation_headroom_input i e) = mg_recovery (pol_margins (ei_policy i))"
  "hi_policy_critical (evaluation_headroom_input i e) = th_critical (pol_thresholds (ei_policy i))"
  "hi_current_temperature (evaluation_headroom_input i e) = ev_temperature e"
  by (simp_all add: evaluation_headroom_input_def Let_def)

lemma fresh_headroom_fields:
  "hb_distance_above_recovery_gate (fresh_headroom i e) = fsub (ev_temperature e)
     (fadd (th_recovery (pol_thresholds (ei_policy i))) (mg_recovery (pol_margins (ei_policy i))))"
  "hb_effective_headroom (fresh_headroom i e) =
     fsub (fsub (fsub (governing_limit (evaluation_headroom_input i e)) (ev_temperature e))
       (mg_policy_safety (pol_margins (ei_policy i))))
       (uncertainty_from_confidence (ev_confidence e) (mg_uncertainty (pol_margins (ei_policy i))))"
  by (simp_all add: fresh_headroom_def compute_headroom_def Let_def)

text \<open>The gate reads the headroom only through two comparisons.\<close>

lemma recovery_allowed_headroom:
  assumes "ra_allowed (evaluate_recovery (r \<lparr>ri_headroom := h'\<rparr>))"
    and "flt (hb_distance_above_recovery_gate h') (Fin 0) \<Longrightarrow>
      flt (hb_distance_above_recovery_gate h) (Fin 0)"
    and "flt (Fin 0) (hb_effective_headroom h') \<Longrightarrow> flt (Fin 0) (hb_effective_headroom h)"
  shows "ra_allowed (evaluate_recovery (r \<lparr>ri_headroom := h\<rparr>))"
proof -
  have walk: "recovery_walk p (r \<lparr>ri_headroom := k\<rparr>) ss w = recovery_walk p r ss w" for p k ss w
    by (induction ss arbitrary: w) simp_all
  show ?thesis using assms
    by (auto simp: evaluate_recovery_def Let_def history_walk_def walk empty_assessment_def
        split: option.splits if_splits)
qed

lemma fresh_recovery_hotter:
  assumes le: "fle (ev_temperature e) t"
    and finite: "is_finite (th_critical (pol_thresholds (ei_policy i)))"
    and hot: "ra_allowed (fresh_recovery i (hotter t e))"
  shows "ra_allowed (fresh_recovery i e)"
  using hot unfolding fresh_recovery_def evaluation_recovery_def
proof (rule recovery_allowed_headroom)
  have fields: "ev_temperature (hotter t e) = t" "ev_confidence (hotter t e) = ev_confidence e"
    by (simp_all add: hotter_def)
  let ?g = "governing_limit (evaluation_headroom_input i e)"
  show "flt (hb_distance_above_recovery_gate (fresh_headroom i e)) (Fin 0)"
    if "flt (hb_distance_above_recovery_gate (fresh_headroom i (hotter t e))) (Fin 0)"
    using that le fsub_left_less by (simp add: fresh_headroom_fields fields)
  have "is_finite ?g" using finite by (intro governing_limit_finite) simp
  moreover have "governing_limit (evaluation_headroom_input i (hotter t e)) = ?g"
    by (simp add: headroom_input_hotter)
  ultimately show "flt (Fin 0) (hb_effective_headroom (fresh_headroom i e))"
    if "flt (Fin 0) (hb_effective_headroom (fresh_headroom i (hotter t e)))"
    using that le unfolding fresh_headroom_fields fields
    by (auto intro: drop_chain)
qed

section \<open>The state machine\<close>

lemma coupling_step_candidate_mono:
  assumes "severity c \<le> severity c'"
  shows "severity (fst (coupling_step p (c, f, r) q)) \<le> severity (fst (coupling_step p (c', f, r) q))"
    "snd (coupling_step p (c, f, r) q) = snd (coupling_step p (c', f, r) q)"
  using assms by (auto simp: coupling_step_def Let_def)

lemma coupling_fold_candidate_mono:
  "severity c \<le> severity c' \<Longrightarrow>
     severity (fst (foldl (coupling_step p) (c, fr) qs)) \<le> severity (fst (foldl (coupling_step p) (c', fr) qs)) \<and>
     snd (foldl (coupling_step p) (c, fr) qs) = snd (foldl (coupling_step p) (c', fr) qs)"
proof (induction qs arbitrary: c c' fr)
  case (Cons q qs)
  obtain f r where fr: "fr = (f, r)" by (cases fr)
  note step = coupling_step_candidate_mono [OF Cons.prems, of p f r q]
  obtain d d' s where "coupling_step p (c, f, r) q = (d, s)" "coupling_step p (c', f, r) q = (d', s)"
    using step(2) by (metis prod.collapse)
  then show ?case using Cons.IH [of d d' s] step(1) by (simp add: fr)
qed simp

lemma apply_coupling_candidate_mono:
  assumes "severity c \<le> severity c'"
  shows "severity (fst (apply_coupling p qs c)) \<le> severity (fst (apply_coupling p qs c'))"
  using coupling_fold_candidate_mono [OF assms, of p "(False, [])" qs] assms
  by (auto simp: apply_coupling_def healthy_severity split: prod.splits)

lemma hysteresis_gate_candidate_mono:
  assumes "severity c \<le> severity c'" "ra_allowed r' \<Longrightarrow> ra_allowed r"
  shows "severity (fst (hysteresis_gate previous r c codes)) \<le>
    severity (fst (hysteresis_gate previous r' c' codes'))"
  using assms healthy_severity [of c] healthy_severity [of c']
  by (auto simp: hysteresis_gate_def requires_recovery_gate_def retention_state_def)

lemma fresh_state_hotter:
  assumes le: "fle (ev_temperature e) t"
    and finite: "is_finite (th_critical (pol_thresholds (ei_policy i)))"
  shows "severity (fresh_state i e) \<le> severity (fresh_state i (hotter t e))"
proof -
  have same: "ev_throttle (hotter t e) = ev_throttle e" "ev_temperature (hotter t e) = t"
    by (simp_all add: hotter_def)
  show ?thesis
    unfolding fresh_state_def fresh_transition_def next_state_parts [where codes' = "[]"] same
    using fresh_recovery_hotter [OF le finite]
    by (intro hysteresis_gate_candidate_mono apply_coupling_candidate_mono temperature_band_mono le)
qed

lemma fresh_state_evidence: "fresh_state (i \<lparr>ei_evidence := x\<rparr>) e = fresh_state i e"
  by (simp add: fresh_state_def fresh_transition_def next_thermal_state_def fresh_recovery_def
      evaluation_recovery_def fresh_headroom_def evaluation_headroom_input_def Let_def)

end
