(* ===== verification/Restart.thy ===== *)
theory Restart
  imports Lifetime
begin

text \<open>
  What \<^verbatim>\<open>load_durable\<close> of \<^verbatim>\<open>governance.cpp\<close> makes of the actions and the domains of a file: which
  actions are unfinished after it, and which files it can never restore.
\<close>

section \<open>Actions after a restart\<close>

text \<open>
  The restored actions lie over those the governor held. Whatever is unfinished afterwards is an
  action of the running governor that the file does not list.
\<close>

lemma restored_actions:
  "map_of (foldl (\<lambda>t a. AList.update (ac_id a) (restore_action a) t) t0 as) i = Some a \<Longrightarrow>
     is_terminal (ac_lifecycle a) \<or> i \<notin> ac_id ` set as \<and> map_of t0 i = Some a"
proof (induction as arbitrary: t0)
  case (Cons b as)
  have "is_terminal (ac_lifecycle (restore_action b))" by (simp add: restore_action_def)
  then show ?case
    using Cons.IH [of "AList.update (ac_id b) (restore_action b) t0"] Cons.prems
    by (auto simp: table_find_update split: if_splits)
qed simp

lemma restart_actions:
  assumes "load_durable now (Some (Inr s)) g = (success, g')" "map_of (g_actions g') i = Some a"
  shows "is_terminal (ac_lifecycle a) \<or> i \<notin> ac_id ` set (du_actions s) \<and> map_of (g_actions g) i = Some a"
proof -
  obtain g2 where "g' = restart_state now s g2" "g_actions g2 = g_actions g"
    using load_durable_success [OF assms(1)] by metis
  then show ?thesis using restored_actions assms(2) by (simp add: restart_fields)
qed

lemma restart_epoch:
  assumes "load_durable now (Some (Inr s)) g = (success, g')"
  shows "g_epoch g' = gen_advance (g_epoch g)"
proof -
  obtain g2 where "g' = restart_state now s g2" "g_epoch g2 = g_epoch g"
    using load_durable_success [OF assms(1)] by metis
  then show ?thesis by (simp add: restart_fields)
qed

lemma dispatch_authority_epoch: "as_coordinator_epoch (dispatch_authority a g) = g_epoch g"
  by (simp add: dispatch_authority_def Let_def split: option.split)

text \<open>An authority of the epoch before is not current after a restart.\<close>

lemma restart_ends_authority:
  assumes "load_durable now (Some (Inr s)) g = (success, g')"
    and "aa_coordinator_epoch (ac_authority a) = g_epoch g"
  shows "\<not> authority_current (ac_authority a) (dispatch_authority a g')"
  using restart_epoch [OF assms(1)] assms(2) gen_advance_neq [of "g_epoch g"]
  by (simp add: authority_current_def dispatch_authority_epoch)

section \<open>Files that cannot be restored\<close>

lemma registry_find_keyed:
  assumes "registry_ok reg" "i \<in> set (all_domain_ids reg)"
  obtains d where "registry_find reg i = Some d" "dd_id d = i"
proof -
  obtain d where d: "(i, d) \<in> set (reg_definitions reg)"
    using assms(2) by (auto simp: all_domain_ids_def)
  then have "registry_find reg i = Some d" "dd_id d = i"
    using assms(1) by (auto simp: registry_ok_def registry_find_def table_ok_def)
  then show ?thesis by (rule that)
qed

text \<open>The definitions of a registry in the order in which they are saved.\<close>

definition saved_domains :: "domain_registry \<Rightarrow> ident list \<Rightarrow> domain_definition list" where
  "saved_domains reg ids =
     concat (map (\<lambda>i. case registry_find reg i of Some d \<Rightarrow> [d] | None \<Rightarrow> []) ids)"

lemma durable_domains: "du_domains (durable_of g) = saved_domains (g_domains g) (all_domain_ids (g_domains g))"
  by (simp add: durable_of_def saved_domains_def)

lemma saved_domains_keyed:
  assumes "registry_ok reg" "set ids \<subseteq> set (all_domain_ids reg)"
  shows "map dd_id (saved_domains reg ids) = ids"
  using assms(2)
proof (induction ids)
  case (Cons i ids)
  then have "i \<in> set (all_domain_ids reg)" by simp
  from registry_find_keyed [OF assms(1) this]
  obtain d where "registry_find reg i = Some d" "dd_id d = i" by blast
  then show ?case using Cons by (simp add: saved_domains_def)
qed (simp add: saved_domains_def)

text \<open>A definition before which one of its relatives was not restored ends the restoration.\<close>

definition relative :: "domain_definition \<Rightarrow> ident \<Rightarrow> bool" where
  "relative d c \<longleftrightarrow> c \<in> set (dd_children d) \<or> dd_parent d = Some c"

lemma registry_add_needs_relatives:
  "registry_add d reg = Inr reg' \<Longrightarrow> relative d c \<Longrightarrow> registered reg c"
  by (auto simp: registry_add_def relative_def list_ex_iff split: if_splits option.splits)

lemma registry_add_registers:
  assumes "registry_add d reg = Inr reg'"
  shows "registered reg' c \<longleftrightarrow> c = dd_id d \<or> registered reg c"
  using registry_add_result [OF assms] by (auto simp: registered_def registry_commit_def table_find_update)

lemma restore_needs_relatives:
  "relative d c \<Longrightarrow> \<not> registered (g_domains g) c \<Longrightarrow> c \<notin> dd_id ` set before \<Longrightarrow>
     fst (restore_domains (before @ d # rest) g) = Inl E_PERSISTENCE_CORRUPT"
proof (induction before arbitrary: g)
  case Nil
  then show ?case using registry_add_needs_relatives [of d "g_domains g"]
    by (cases "registry_add d (g_domains g)") auto
next
  case (Cons b before)
  show ?case
  proof (cases "registry_add b (g_domains g)")
    case (Inr reg)
    let ?h = "size_history (dd_id b) (g \<lparr>g_domains := reg\<rparr>)"
    have "\<not> registered (g_domains ?h) c"
      using registry_add_registers [OF Inr] Cons.prems by (auto simp: size_history_def)
    then show ?thesis using Cons.IH [of ?h] Cons.prems Inr by simp
  qed simp
qed

lemma dangling_file_is_refused:
  assumes "registry_ok (g_domains g)" "registry_find (g_domains g) i = Some d" "relative d c" "i < c"
    and "cf_durable_path (g_config h) \<noteq> []" "\<not> registered (g_domains h) c"
  shows "fst (load_durable now (Some (Inr (durable_of g))) h) = Inl E_PERSISTENCE_CORRUPT"
proof -
  let ?ids = "all_domain_ids (g_domains g)"
  have "i \<in> set ?ids"
    using assms(2) by (auto simp: registry_find_def all_domain_ids_def dest: map_of_SomeD intro: rev_image_eqI)
  then obtain before rest where ids: "?ids = before @ i # rest" by (meson split_list)
  have "sorted ?ids" by (simp add: all_domain_ids_def)
  then have less: "\<forall>j \<in> set before. j \<le> i" unfolding ids by (auto simp: sorted_append)
  have "map dd_id (saved_domains (g_domains g) before) = before"
    by (rule saved_domains_keyed [OF assms(1)]) (auto simp: ids)
  then have "dd_id ` set (saved_domains (g_domains g) before) = set before" by (metis list.set_map)
  then have c: "c \<notin> dd_id ` set (saved_domains (g_domains g) before)" using less assms(4) by auto
  have "du_domains (durable_of g) =
      saved_domains (g_domains g) before @ d # saved_domains (g_domains g) rest"
    unfolding durable_domains ids by (simp add: saved_domains_def assms(2))
  then have "fst (restore_domains (du_domains (durable_of g)) (restore_basics (durable_of g) h)) =
      Inl E_PERSISTENCE_CORRUPT"
    using restore_needs_relatives [OF assms(3) _ c, of "restore_basics (durable_of g) h"] assms(6)
    by (simp add: restore_basics_def)
  then show ?thesis using assms(5) by (auto simp: load_durable_def split: prod.split sum.split)
qed

end
