(* ===== verification/Examples.thy ===== *)
theory Examples
  imports Fencing Monotonicity Restart
begin

text \<open>
  Concrete readings, samples and evaluation inputs at which the properties of the development
  are exercised: one rack domain under the default policy, observed by worker 3 in boot 9.
\<close>

section \<open>The default policy\<close>

lemma default_policy_fields [simp]:
  "pol_thresholds make_default = default_thresholds"
  "pol_margins make_default = \<lparr>mg_policy_safety = Fin 2, mg_uncertainty = Fin 1, mg_recovery = Fin 1\<rparr>"
  "pol_freshness make_default = \<lparr>fr_max_age = 1000, fr_required_consecutive_samples = 3,
     fr_min_evidence_span = 2000, fr_min_distinct_witnesses = 0\<rparr>"
  "pol_id make_default = 1" "pol_generation make_default = 1"
  "pol_concurrency make_default = \<lparr>cc_normal = Fin 100, cc_warm = Fin 100, cc_near_limit = Fin 75,
     cc_derated = Fin 50, cc_critical = Fin 0\<rparr>"
  "pol_admission make_default = \<lparr>ap_min_effective_headroom = Fin 2,
     ap_allow_derated_admission = True, ap_allow_defer = True\<rparr>"
  "pol_coupling make_default = \<lparr>cp_co_derate_coupled_domains = True, cp_max_propagation_depth = 2,
     cp_require_coupled_recovery = True, cp_escalate_to_hottest_neighbour = False\<rparr>"
  "pol_recovery make_default = \<lparr>rp_require_no_thermal_throttle = True,
     rp_require_headroom_above_recovery_margin = True, rp_require_coupled_domains_recovered = True,
     rp_require_same_worker_boot = True, rp_require_same_coordinator_epoch = True,
     rp_require_same_device_generation = True, rp_require_explicit_authorization = False,
     rp_forbid_recovery_after_unsupported_evidence = True\<rparr>"
  by (simp_all add: make_default_def)

lemma default_thresholds_fields [simp]:
  "th_warning default_thresholds = Fin 75" "th_derating default_thresholds = Fin 80"
  "th_critical default_thresholds = Fin 88" "th_recovery default_thresholds = Fin 72"
  "near_limit_start default_thresholds = Fin 77"
  by (simp_all add: default_thresholds_def near_limit_start_def)

lemma default_policy_workload [simp]:
  "workload_headroom_demand make_default WP_LOW_THERMAL_INTENSITY = Fin 0"
  "workload_execution_class make_default WP_LOW_THERMAL_INTENSITY = Some XC_UNRESTRICTED"
  by code_simp+

section \<open>Readings and samples\<close>

definition reading :: "u64 \<Rightarrow> rat \<Rightarrow> evidence" where
  "reading n t = empty_evidence
     \<lparr>ev_evidence_id := n, ev_subject := for_domain 7 1, ev_domain := 7, ev_domain_generation := 1,
      ev_temperature := Fin t, ev_source := MS_RACK_SENSOR, ev_provenance := P_REAL,
      ev_measurement_sequence := n, ev_telemetry_generation := n, ev_worker := 3,
      ev_worker_boot := 9, ev_coordinator_epoch := 1, ev_measured_at := uint n * 1500000000\<rparr>"

lemma reading_fields [simp]:
  "ev_evidence_id (reading n t) = n" "ev_subject (reading n t) = for_domain 7 1"
  "ev_domain (reading n t) = 7" "ev_domain_generation (reading n t) = 1"
  "ev_temperature (reading n t) = Fin t" "ev_source (reading n t) = MS_RACK_SENSOR"
  "ev_provenance (reading n t) = P_REAL" "ev_measurement_sequence (reading n t) = n"
  "ev_telemetry_generation (reading n t) = n" "ev_worker (reading n t) = 3"
  "ev_worker_boot (reading n t) = 9" "ev_coordinator_epoch (reading n t) = 1"
  "ev_throttle (reading n t) = None" "ev_temperature_limit (reading n t) = None"
  "ev_confidence (reading n t) = None" "ev_current_clock (reading n t) = None"
  "ev_cooling (reading n t) = None" "ev_shutdown_limit (reading n t) = None"
  "ev_integrity (reading n t) = IS_OK" "ev_measured_at (reading n t) = uint n * 1500000000"
  by (simp_all add: reading_def empty_evidence_def)

lemma reading_subject [simp]:
  "sr_kind (for_domain i g) = SK_THERMAL_DOMAIN" "sr_domain (for_domain i g) = i"
  "sr_domain_generation (for_domain i g) = g" "sr_device (for_domain i g) = 0"
  "sr_device_generation (for_domain i g) = 0"
  by (simp_all add: for_domain_def empty_subject_def)

lemma reading_valid: "validate_evidence_structure (reading 3 62) = success"
  by (simp add: validate_evidence_iff subject_identity_present_def id_valid_def confidence_ok_def
      limit_ok_def)

definition cool_sample :: "u64 \<Rightarrow> recovery_sample" where
  "cool_sample n =
     \<lparr>rs_evidence_id = n, rs_temperature = Fin 60, rs_at = uint n * 1500000000, rs_worker_boot = 9,
      rs_worker = 3, rs_coordinator_epoch = 1, rs_device_generation = 0, rs_domain_generation = 1,
      rs_telemetry_generation = n, rs_throttle_class = TH_THROTTLE_UNKNOWN, rs_provenance = P_REAL,
      rs_admissible = True\<rparr>"

definition cooled :: recovery_history where
  "cooled = \<lparr>rh_capacity = 64, rh_samples = [cool_sample 1, cool_sample 2, cool_sample 3]\<rparr>"

section \<open>Evaluation inputs\<close>

definition sample_recovery :: recovery_input where
  "sample_recovery = empty_recovery_input
     \<lparr>ri_history := Some cooled, ri_evidence_provenance := P_REAL, ri_current_epoch := 1,
      ri_current_boot := 9, ri_current_domain_generation := 1, ri_coupled_domains_checked := True\<rparr>"

definition sample_input :: "thermal_state \<Rightarrow> derating_level \<Rightarrow> evidence \<Rightarrow> evaluation_input" where
  "sample_input previous derating e =
     \<lparr>ei_domain = 7, ei_domain_generation = 1, ei_domain_type = DT_RACK, ei_policy = make_default,
      ei_previous_state = previous, ei_previous_derating = derating, ei_evidence = Some e,
      ei_freshness = FS_FRESH, ei_evidence_conflict = False,
      ei_temperature_capability = CS_SUPPORTED_REAL, ei_throttle_capability = CS_UNSUPPORTED,
      ei_limit_capability = CS_UNSUPPORTED, ei_recovery = sample_recovery, ei_coupled = [],
      ei_workload_profile = WP_LOW_THERMAL_INTENSITY, ei_coordinator_epoch = 1,
      ei_policy_generation = 1, ei_topology_generation = 1\<rparr>"

lemma sample_input_fields [simp]:
  "ei_policy (sample_input s d e) = make_default" "ei_previous_state (sample_input s d e) = s"
  "ei_previous_derating (sample_input s d e) = d" "ei_evidence (sample_input s d e) = Some e"
  "ei_freshness (sample_input s d e) = FS_FRESH" "\<not> ei_evidence_conflict (sample_input s d e)"
  "ei_temperature_capability (sample_input s d e) = CS_SUPPORTED_REAL"
  "ei_throttle_capability (sample_input s d e) = CS_UNSUPPORTED"
  "ei_limit_capability (sample_input s d e) = CS_UNSUPPORTED"
  "ei_recovery (sample_input s d e) = sample_recovery" "ei_coupled (sample_input s d e) = []"
  "ei_workload_profile (sample_input s d e) = WP_LOW_THERMAL_INTENSITY"
  by (simp_all add: sample_input_def)

lemma sample_admitted: "evidence_admitted (sample_input s d e) e"
  by (simp add: evidence_admitted_def)

lemma sample_evaluation: "evaluate_thermal (sample_input s d e) = evaluate_fresh (sample_input s d e) e"
  by (simp add: evaluate_thermal_def Let_def)

lemma sample_headroom:
  "fresh_headroom (sample_input s d (reading n 62)) (reading n 62) =
     \<lparr>hb_policy_critical = Fin 88, hb_vendor_limit = None, hb_governing_limit = Fin 88,
      hb_current_temperature = Fin 62, hb_raw_headroom = Fin 26, hb_policy_safety_margin = Fin 2,
      hb_uncertainty_margin = Fin 1, hb_effective_headroom = Fin 23, hb_recovery_threshold = Fin 72,
      hb_recovery_margin = Fin 1, hb_distance_above_recovery_gate = Fin (- 11)\<rparr>"
  by (simp add: fresh_headroom_def evaluation_headroom_input_def compute_headroom_def
      valid_vendor_limit_def governing_limit_def Let_def)

lemma sample_walk:
  "history_walk (pol_recovery make_default)
     (sample_recovery \<lparr>ri_policy := Some make_default, ri_recovery_threshold := Fin 72,
        ri_recovery_margin := Fin 1, ri_headroom := h\<rparr>) =
   \<lparr>wk_witnesses = [9], wk_newest = Some 4500000000, wk_oldest = Some 1500000000,
    wk_throttle_clear = True, wk_generation_binding_ok = True, wk_qualifying = 3\<rparr>"
  by (simp add: history_walk_def sample_recovery_def empty_recovery_input_def cooled_def
      cool_sample_def walk_start_def walk_count_def)

lemma sample_recovers: "ra_allowed (fresh_recovery (sample_input s d (reading n 62)) (reading n 62))"
  by (simp add: fresh_recovery_def evaluation_recovery_def sample_headroom evaluate_recovery_def
      Let_def sample_walk [simplified] walk_span_def millis_of_ns_def)
    (simp add: sample_recovery_def empty_recovery_input_def)

lemma sample_state: "fresh_state (sample_input s d (reading n 62)) (reading n 62) = TS_NORMAL"
  using sample_recovers [of s d n]
  by (simp add: fresh_state_def fresh_transition_def next_thermal_state_def Let_def
      classify_throttle_def temperature_band_def apply_coupling_def hysteresis_gate_def
      is_healthy_state_def)

section \<open>A registered domain\<close>

definition rack_domain :: domain_definition where
  "rack_domain =
     \<lparr>dd_id = 7, dd_generation = 1, dd_type = DT_RACK, dd_label = ''rack'', dd_members = [],
      dd_parent = None, dd_children = [], dd_policy = 1, dd_policy_generation = 1,
      dd_provenance = P_REAL, dd_evidence_source = ''rack sensor'',
      dd_aggregation = AR_HOTTEST_MEMBER_GOVERNS, dd_rack = 0, dd_rack_generation = 0,
      dd_cooling_zone = 0, dd_synthetic_aggregate_offset = None\<rparr>"

lemma rack_domain_fields [simp]:
  "dd_id rack_domain = 7" "dd_generation rack_domain = 1" "dd_members rack_domain = []"
  "dd_parent rack_domain = None" "dd_children rack_domain = []" "dd_policy rack_domain = 1"
  "dd_provenance rack_domain = P_REAL" "dd_aggregation rack_domain = AR_HOTTEST_MEMBER_GOVERNS"
  "dd_type rack_domain = DT_RACK"
  by (simp_all add: rack_domain_def)

lemma rack_domain_added: "\<exists>reg. registry_add rack_domain empty_registry = Inr reg"
  by (simp add: registry_add_def id_valid_def empty_registry_def registered_def)

definition rack_coupling :: coupling_relation where
  "rack_coupling =
     \<lparr>cr_id = 1, cr_source = 7, cr_destination = 8, cr_type = CT_UNKNOWN_COUPLING,
      cr_generation = 1, cr_provenance = P_REAL, cr_evidence_source = '''', cr_weight = Fin 1,
      cr_directed = True, cr_valid_until = None\<rparr>"

section \<open>A running governor\<close>

text \<open>
  \<open>booted\<close> has just been created; \<open>racked\<close> has one registered domain; \<open>staffed\<close> also knows
  worker 3 in boot 9.
\<close>

definition booted :: governor where
  "booted = publish_locked 0 (initial_governor default_config)"

definition racked :: governor where
  "racked = perform 0 (OP_REGISTER_THERMAL_DOMAIN rack_domain) booted"

definition staffed :: governor where
  "staffed = perform 0 (OP_REGISTER_WORKER 3 9 ''worker'') racked"

lemma booted_created: "create 0 success default_config = Inr booted"
  by (simp add: create_def booted_def make_default_valid)

lemma reachable_examples: "reachable booted" "reachable racked" "reachable staffed"
proof -
  show b: "reachable booted" by (rule created [OF booted_created])
  show r: "reachable racked" unfolding racked_def by (rule performed [OF b])
  show "reachable staffed" unfolding staffed_def by (rule performed [OF r])
qed

lemma structure_examples: "structure_ok booted" "structure_ok racked" "structure_ok staffed"
  using reachable_examples by (auto intro: structural.reachable_inv)

lemma booted_fields [simp]:
  "g_config booted = default_config" "g_epoch booted = 1" "g_domains booted = empty_registry"
  "g_workers booted = []" "g_actions booted = []" "g_evidence booted = []" "g_devices booted = []"
  "g_policies booted = [(1, make_default)]" "\<not> g_stopping booted" "g_couplings booted = []"
  "g_action_generation booted = 1" "g_policy_generation booted = 1" "g_verifications booted = []"
  "g_invalidated booted = []" "g_conflicted booted = []"
  by (simp_all add: booted_def publish_locked_def initial_governor_def default_config_def id_valid_def)

lemma racked_registered:
  "register_thermal_domain 0 rack_domain booted = (success, racked)"
  "registry_find (g_domains racked) 7 = Some rack_domain"
proof -
  obtain reg where reg: "registry_add rack_domain empty_registry = Inr reg" using rack_domain_added by blast
  then show ok: "register_thermal_domain 0 rack_domain booted = (success, racked)"
    by (simp add: racked_def register_thermal_domain_def default_config_def empty_registry_def)
  then show "registry_find (g_domains racked) 7 = Some rack_domain"
    using reg registry_add_result [OF reg]
    by (auto simp: racked_def register_thermal_domain_def default_config_def advance_topology_def
        size_history_def publish_locked_def registry_find_def table_find_update)
qed

lemma racked_fields [simp]:
  "g_config racked = default_config" "g_epoch racked = 1" "g_workers racked = []"
  "g_actions racked = []" "g_evidence racked = []" "g_devices racked = []"
  "g_policies racked = [(1, make_default)]" "\<not> g_stopping racked" "g_couplings racked = []"
  "g_action_generation racked = 1" "g_policy_generation racked = 1" "g_verifications racked = []"
  "g_invalidated racked = []" "g_conflicted racked = []"
proof -
  obtain reg where "registry_add rack_domain empty_registry = Inr reg" using rack_domain_added by blast
  then have racked: "racked = publish_locked 0 (advance_topology (recompute_domain 0 7
      (size_history 7 (booted \<lparr>g_domains := reg\<rparr>))))"
    by (simp add: racked_def register_thermal_domain_def default_config_def empty_registry_def)
  show "g_config racked = default_config" "g_epoch racked = 1" "g_workers racked = []"
    "g_actions racked = []" "g_evidence racked = []" "g_devices racked = []"
    "g_policies racked = [(1, make_default)]" "\<not> g_stopping racked" "g_couplings racked = []"
    "g_action_generation racked = 1" "g_policy_generation racked = 1" "g_verifications racked = []"
    "g_invalidated racked = []" "g_conflicted racked = []"
    unfolding racked by (simp_all add: advance_topology_def size_history_def)
qed

lemma racked_policy [simp]: "policy_for racked rack_domain = Some make_default"
  by (simp add: policy_for_def)

lemma racked_evaluated: "\<exists>ev. map_of (g_evaluations racked) 7 = Some ev"
proof -
  obtain reg where reg: "registry_add rack_domain empty_registry = Inr reg" using rack_domain_added by blast
  let ?g = "size_history 7 (booted \<lparr>g_domains := reg\<rparr>)"
  have "registry_find (g_domains ?g) 7 = Some rack_domain"
    using registry_add_result [OF reg] by (auto simp: size_history_def registry_find_def table_find_update)
  moreover have "structure_ok (booted \<lparr>g_domains := reg\<rparr>)"
    using structure_registry_write(1) [OF structure_examples(1)] reg by simp
  then obtain ev where "evaluate_locked ?g 0 rack_domain = Inr ev"
    using structure_size_history evaluate_locked_total by blast
  ultimately have "map_of (g_evaluations (recompute_domain 0 7 ?g)) 7 = Some ev" by (rule recompute_stores)
  then show ?thesis
    using reg by (simp add: racked_def register_thermal_domain_def default_config_def
        empty_registry_def advance_topology_def)
qed

lemma staffed_registered: "register_worker 0 3 9 ''worker'' racked = (success, staffed)"
  by (simp add: staffed_def register_worker_def id_valid_def default_config_def)

lemma staffed_fields [simp]:
  "g_config staffed = default_config" "g_epoch staffed = 1" "g_domains staffed = g_domains racked"
  "g_evidence staffed = []" "g_devices staffed = []" "\<not> g_stopping staffed" "g_actions staffed = []"
  "\<exists>w. map_of (g_workers staffed) 3 = Some w \<and> wo_boot w = 9 \<and> wo_alive w"
  "g_policies staffed = [(1, make_default)]" "g_action_generation staffed = 1"
  "g_invalidated staffed = g_invalidated racked"
  by (simp_all add: staffed_def register_worker_def id_valid_def default_config_def)

text \<open>The reading of 62 degrees, published while the worker is alive.\<close>

definition measured :: governor where
  "measured = perform 4500000000 (OP_PUBLISH_TEMPERATURE (reading 3 62)) staffed"

lemma measured_reachable: "reachable measured"
  unfolding measured_def by (rule performed [OF reachable_examples(3)])

lemma reading_fenced: "evidence_fences (reading 3 62) staffed = success"
  unfolding evidence_fences_iff using racked_registered(2) by simp

lemma measured_published:
  "\<exists>r. publish_temperature 4500000000 (reading 3 62) staffed = (Inr r, measured) \<and> er_accepted r"
  using reading_valid reading_fenced
  by (simp add: measured_def publish_temperature_def publish_impl_def sequence_check_def Let_def)

lemma measured_fields [simp]:
  "g_evidence measured = [(subject_key (for_domain 7 1), reading 3 62)]"
  "g_domains measured = g_domains racked" "g_epoch measured = 1" "\<not> g_stopping measured"
  "g_policies measured = [(1, make_default)]" "g_actions measured = []" "g_action_generation measured = 1"
  "g_config measured = default_config"
  using reading_valid reading_fenced
  by (simp_all add: measured_def publish_temperature_def publish_impl_def sequence_check_def Let_def
      note_samples_frame accept_evidence_def)

lemma measured_worker: "\<exists>w. map_of (g_workers measured) 3 = Some w \<and> wo_boot w = 9"
proof -
  obtain w where "map_of (g_workers staffed) 3 = Some w" "wo_boot w = 9" using staffed_fields(8) by blast
  then show ?thesis
    using reading_valid reading_fenced
    by (simp add: measured_def publish_temperature_def publish_impl_def sequence_check_def Let_def
        note_samples_frame accept_evidence_def id_valid_def table_find_update)
qed

section \<open>A calm domain\<close>

text \<open>The rack with a fresh reading of 62 degrees and no earlier evaluation: execution is allowed.\<close>

definition calm :: governor where
  "calm = racked \<lparr>g_evaluations := [],
     g_evidence := [(subject_key (for_domain 7 1), reading 3 62)]\<rparr>"

definition calm_input :: evaluation_input where
  "calm_input = evaluation_input_for calm 4500000000 rack_domain make_default"

lemma calm_gathered:
  "gather_domain_evidence rack_domain (g_evidence calm) =
     Some \<lparr>de_evidence = reading 3 62, de_synthesized = False, de_rule = AR_HOTTEST_MEMBER_GOVERNS\<rparr>"
  by (simp add: gather_domain_evidence_def calm_def)

lemma calm_uncoupled: "coupled_pressures calm rack_domain n = []"
  by (simp add: coupled_pressures_def calm_def incoming_reachable_def bfs_result_def bfs.simps)

lemma calm_input_fields [simp]:
  "ei_policy calm_input = make_default" "ei_evidence calm_input = Some (reading 3 62)"
  "ei_freshness calm_input = FS_FRESH" "\<not> ei_evidence_conflict calm_input"
  "ei_temperature_capability calm_input = CS_SUPPORTED_REAL"
  "ei_throttle_capability calm_input = CS_UNSUPPORTED"
  "ei_limit_capability calm_input = CS_UNSUPPORTED"
  "ei_previous_state calm_input = TS_UNKNOWN" "ei_coupled calm_input = []"
  "ei_workload_profile calm_input = WP_UNKNOWN_PROFILE"
  by (simp_all add: calm_input_def calm_gathered calm_uncoupled evidence_freshness_def)
    (simp_all add: calm_def evaluation_input_for_def Let_def resolve_capabilities_def
      device_capability_sets_def calm_gathered [unfolded calm_def, simplified])

lemma calm_evaluation:
  "evaluate_thermal calm_input = evaluate_fresh calm_input (reading 3 62)"
  by (simp add: evaluate_thermal_def Let_def)

lemma calm_state: "fresh_state calm_input (reading 3 62) = TS_NORMAL"
  by (simp add: fresh_state_def fresh_transition_def next_thermal_state_def Let_def
      classify_throttle_def temperature_band_def apply_coupling_def hysteresis_gate_def
      is_healthy_state_def requires_recovery_gate_def)

lemma calm_headroom: "hb_effective_headroom (fresh_headroom calm_input (reading 3 62)) = Fin 23"
  by (simp add: fresh_headroom_def evaluation_headroom_input_def compute_headroom_def
      valid_vendor_limit_def governing_limit_def Let_def uncertainty_from_confidence_def)

lemma unknown_workload [simp]:
  "workload_headroom_demand make_default WP_UNKNOWN_PROFILE = Fin 2"
  "workload_execution_class make_default WP_UNKNOWN_PROFILE = Some XC_REDUCED_CONCURRENCY"
  by code_simp+

lemma calm_allows: "te_decision (evaluate_thermal calm_input) = TD_ALLOW"
  by (simp add: calm_evaluation evaluate_fresh_fields calm_state calm_headroom decide_state_def
      final_decision_def short_of_headroom_def meets_demand_def admission_demand_def)

lemma calm_evaluates:
  "\<exists>ev. evaluate_locked calm 4500000000 rack_domain = Inr ev \<and> te_decision ev = TD_ALLOW \<and>
     hb_effective_headroom (te_headroom ev) = Fin 23"
proof -
  have "policy_for calm rack_domain = Some make_default" by (simp add: calm_def policy_for_def)
  then obtain ev where ev: "evaluate_locked calm 4500000000 rack_domain = Inr ev"
    by (simp add: evaluate_locked_def Let_def)
  obtain policy where "policy_for calm rack_domain = Some policy"
      "te_decision ev = te_decision (evaluate_thermal (evaluation_input_for calm 4500000000 rack_domain policy))"
      "te_headroom ev = te_headroom (evaluate_thermal (evaluation_input_for calm 4500000000 rack_domain policy))"
    using evaluate_locked_fields [OF ev] by metis
  then have "te_decision ev = te_decision (evaluate_thermal calm_input)"
      "te_headroom ev = te_headroom (evaluate_thermal calm_input)"
    using \<open>policy_for calm rack_domain = Some make_default\<close> by (simp_all add: calm_input_def)
  then show ?thesis
    using ev calm_allows by (simp add: calm_evaluation evaluate_fresh_fields calm_headroom)
qed

definition calm_request :: admission_request where
  "calm_request =
     \<lparr>rq_domain = 7, rq_expected_domain_generation = 1, rq_workload = 1,
      rq_profile = WP_UNKNOWN_PROFILE, rq_requested_class = XC_REDUCED_CONCURRENCY,
      rq_requested_concurrency = None, rq_requested_clock = None,
      rq_expected_policy_generation = None, rq_expected_coordinator_epoch = Some 1\<rparr>"

lemma calm_admits:
  "\<exists>r. evaluate_admission 4500000000 calm_request calm = Inr r \<and> admissible r"
proof -
  obtain ev where ev: "evaluate_locked calm 4500000000 rack_domain = Inr ev" "te_decision ev = TD_ALLOW"
      "hb_effective_headroom (te_headroom ev) = Fin 23"
    using calm_evaluates by blast
  have "registry_find (g_domains calm) 7 = Some rack_domain" "g_epoch calm = 1"
      "policy_for calm rack_domain = Some make_default"
    using racked_registered(2) by (simp_all add: calm_def policy_for_def)
  then show ?thesis
    using ev by (simp add: evaluate_admission_def calm_request_def admission_decide_def
        admission_eligible_def admission_base_def meets_demand_def admission_demand_def Let_def
        admissible_def)
qed

section \<open>Actions and durable files\<close>

definition dispatched :: governor where
  "dispatched = racked
     \<lparr>g_actions := [(2, empty_action \<lparr>ac_id := 2, ac_generation := 1, ac_lifecycle := AL_DISPATCHED,
        ac_authority := empty_authority \<lparr>aa_coordinator_epoch := 1, aa_domain := 7,
          aa_domain_generation := 1\<rparr>\<rparr>)],
      g_action_baselines := [(2, empty_evaluation)]\<rparr>"

text \<open>
  An action the governor authorised on the reading of worker 3, and cancelled before its dispatch.
\<close>

definition cancelled :: governor where
  "cancelled = perform 4700000000 (OP_CANCEL_ACTION 2 ''no longer needed'')
     (perform 4600000000 (OP_AUTHORIZE_MITIGATION 7 (default_intent_record
       \<lparr>ir_intent := MI_REQUEST_CONCURRENCY_REDUCTION\<rparr>) ''reduce'') measured)"

lemma cancelled_reachable: "reachable cancelled"
  unfolding cancelled_def by (intro performed measured_reachable)

lemma cancelled_action:
  "\<exists>a. map_of (g_actions cancelled) 2 = Some a \<and> ac_lifecycle a = AL_CANCELLED \<and> ac_generation a = 2 \<and>
     aa_worker (ac_authority a) = 3 \<and> aa_worker_boot (ac_authority a) = 9 \<and>
     aa_device (ac_authority a) = 0 \<and> aa_domain_generation (ac_authority a) = 1 \<and>
     aa_policy_generation (ac_authority a) = 1 \<and> g_epoch cancelled = 1"
proof -
  let ?r = "default_intent_record \<lparr>ir_intent := MI_REQUEST_CONCURRENCY_REDUCTION\<rparr>"
  have gathered: "gather_domain_evidence rack_domain (g_evidence measured) =
      Some \<lparr>de_evidence = reading 3 62, de_synthesized = False, de_rule = AR_HOTTEST_MEMBER_GOVERNS\<rparr>"
    by (simp add: gather_domain_evidence_def)
  obtain ev where ev: "evaluate_locked measured 4600000000 rack_domain = Inr ev"
    using evaluate_locked_total [OF structural.reachable_inv [OF measured_reachable]] by blast
  have "policy_allows make_default MI_REQUEST_CONCURRENCY_REDUCTION" by code_simp
  moreover have "policy_for measured rack_domain = Some make_default" by (simp add: policy_for_def)
  ultimately show ?thesis
    using ev gathered racked_registered(2)
    by (simp add: cancelled_def authorize_mitigation_def default_config_def Let_def gen_advance_def new_action_def
        new_authority_def cancel_action_def put_action_def default_intent_record_def)
qed

text \<open>The report of worker 3 on that action, with the policy generation 5.\<close>

definition late_report :: action_report where
  "late_report =
     \<lparr>rr_action_id = 2, rr_action_generation = 2, rr_coordinator_epoch = 1, rr_worker_boot = 9,
      rr_device_generation = 0, rr_domain_generation = 1, rr_policy_generation = 5,
      rr_telemetry_generation = 0, rr_backend_succeeded = True, rr_detail = ''late''\<rparr>"

definition durable_booted :: governor where
  "durable_booted = booted \<lparr>g_config := default_config \<lparr>cf_durable_path := ''state''\<rparr>\<rparr>"

definition child_domain :: domain_definition where
  "child_domain = rack_domain \<lparr>dd_id := 9\<rparr>"

definition parent_domain :: domain_definition where
  "parent_domain = rack_domain \<lparr>dd_id := 8, dd_children := [9]\<rparr>"

text \<open>A domain registered after its child, whose identity is the greater one.\<close>

definition nested :: governor where
  "nested = perform 1 (OP_REGISTER_THERMAL_DOMAIN parent_domain) (perform 0 (OP_REGISTER_THERMAL_DOMAIN child_domain) booted)"

lemma nested_reachable: "reachable nested"
  unfolding nested_def by (intro performed reachable_examples)

lemma nested_parent: "registry_find (g_domains nested) 8 = Some parent_domain"
proof -
  obtain reg1 where r1: "registry_add child_domain empty_registry = Inr reg1"
    by (simp add: registry_add_def child_domain_def rack_domain_def id_valid_def empty_registry_def registered_def)
  then have c: "reg1 = registry_commit (AList.update 9 child_domain []) empty_registry"
    using registry_add_result [OF r1] by (simp add: empty_registry_def child_domain_def)
  obtain reg2 where r2: "registry_add parent_domain reg1 = Inr reg2"
    by (simp add: c registry_add_def parent_domain_def rack_domain_def id_valid_def registry_commit_def
        empty_registry_def registered_def)
  have h: "g_domains (perform 0 (OP_REGISTER_THERMAL_DOMAIN child_domain) booted) = reg1"
    "g_config (perform 0 (OP_REGISTER_THERMAL_DOMAIN child_domain) booted) = default_config"
    using r1 by (simp_all add: register_thermal_domain_def default_config_def empty_registry_def advance_topology_def
        size_history_def)
  have "length (reg_definitions reg1) = 1" by (simp add: c registry_commit_def)
  then have "g_domains nested = reg2"
    using r2 h by (simp add: nested_def register_thermal_domain_def default_config_def advance_topology_def
        size_history_def)
  then show ?thesis
    using registry_add_result [OF r2]
    by (auto simp: registry_find_def registry_commit_def table_find_update parent_domain_def)
qed

lemma booted_reloads:
  "\<exists>g'. load_durable 9 (Some (Inr (durable_of booted))) durable_booted = (success, g')"
  by (simp add: load_durable_def durable_of_def durable_booted_def all_domain_ids_def empty_registry_def)

lemma dispatched_verifies:
  "\<exists>v g'. verify_locked 4500000000 2 (reading 3 62) dispatched = (Inr v, g')"
proof -
  have "structure_ok dispatched"
    unfolding dispatched_def using structure_actions [OF structure_examples(2), of _ 2] by simp
  then obtain after where after: "evaluate_locked dispatched 4500000000 rack_domain = Inr after"
    using evaluate_locked_total by blast
  let ?a = "empty_action \<lparr>ac_id := 2, ac_generation := 1, ac_lifecycle := AL_DISPATCHED,
      ac_authority := empty_authority \<lparr>aa_coordinator_epoch := 1, aa_domain := 7,
        aa_domain_generation := 1\<rparr>\<rparr>"
  have "verification_guards (verification_input_for 4500000000 dispatched ?a rack_domain empty_evaluation
      after (reading 3 62)) ?a = success"
    unfolding verification_guards_iff
    by (simp add: verification_input_for_def Let_def dispatched_def empty_action_def empty_authority_def id_valid_def)
  then obtain v where "verify_action (verification_input_for 4500000000 dispatched ?a rack_domain
      empty_evaluation after (reading 3 62)) = Inr v"
    by (simp add: verify_action_def verification_input_for_def Let_def)
  then show ?thesis
    using after racked_registered(2)
    by (simp add: verify_locked_def dispatched_def default_config_def empty_action_def empty_authority_def
        commit_verification_def Let_def)
qed

end
