(* ===== verification/Guarantees.thy ===== *)
theory Guarantees
  imports Examples
begin

text \<open>
  The properties of the components that need no governor: the evaluation of a domain, the
  recovery gate, the headroom, the policies, the coupling graph, the domain registry and its
  aggregation, the identity of subjects and evidence, and the canonical forms. Each property is
  followed by its instance at a concrete input.
\<close>

section \<open>Evaluation\<close>

text \<open>What a healthy outcome presupposes.\<close>

lemma healthy_facts:
  assumes "is_healthy_state (te_state (evaluate_thermal i))"
  obtains e where "evidence_admitted i e" "evaluate_thermal i = evaluate_fresh i e"
    "\<not> fle (th_critical (pol_thresholds (ei_policy i))) (ev_temperature e)"
    "\<not> fle (th_derating (pol_thresholds (ei_policy i))) (ev_temperature e)"
    "fst (classify_throttle (ei_throttle_capability i) (ev_throttle e)) \<noteq> TH_THERMAL_THROTTLE_OBSERVED"
    "cp_co_derate_coupled_domains (pol_coupling (ei_policy i)) \<Longrightarrow>
       \<forall>q \<in> set (ei_coupled i). \<not> is_restrictive (cpr_state q)"
proof (cases rule: evaluate_thermal_cases [of i])
  case (fresh e)
  let ?band = "fst (temperature_band (pol_thresholds (ei_policy i))
      (fst (classify_throttle (ei_throttle_capability i) (ev_throttle e))) (ev_temperature e))"
  let ?cand = "fst (apply_coupling (pol_coupling (ei_policy i)) (ei_coupled i) ?band)"
  have "is_healthy_state (fst (next_thermal_state i e (fresh_recovery i e) []))"
    using assms fresh(2) by (simp add: evaluate_fresh_fields fresh_state_def fresh_transition_def)
  then have cand: "is_healthy_state ?cand"
    unfolding next_state_parts [where codes' = "[]"] healthy_severity
    using hysteresis_gate_mono order_le_less_trans by blast
  then have band: "is_healthy_state ?band"
    unfolding healthy_severity using apply_coupling_mono order_le_less_trans by blast
  show ?thesis
    using that [OF fresh] band_healthy_below [OF band] apply_coupling_pressure cand by blast
next
  case stopped
  then show ?thesis using assms unresolved_not_healthy by simp
qed

text \<open>
  C1: one evaluation takes a domain that is DERATED, THROTTLING or
  CRITICAL to a healthy state only on admitted fresh evidence, when the recovery gate allows it, below the
  derating threshold, without an observed thermal throttle.
\<close>

theorem restriction_left_by_recovery:
  assumes "is_restrictive (ei_previous_state i)"
    and "is_healthy_state (te_state (evaluate_thermal i))"
  shows "\<exists>e. evidence_admitted i e \<and> ra_allowed (te_recovery (evaluate_thermal i)) \<and>
    \<not> fle (th_derating (pol_thresholds (ei_policy i))) (ev_temperature e) \<and>
    fst (classify_throttle (ei_throttle_capability i) (ev_throttle e)) \<noteq> TH_THERMAL_THROTTLE_OBSERVED"
  using leave_restriction [OF assms] healthy_facts [OF assms(2)] by metis

theorem restriction_left_by_recovery_witness:
  "ra_allowed (te_recovery (evaluate_thermal (sample_input TS_CRITICAL DL_NO_SAFE_EXECUTION (reading 3 62))))"
  using restriction_left_by_recovery [of "sample_input TS_CRITICAL DL_NO_SAFE_EXECUTION (reading 3 62)"]
  by (auto simp: sample_evaluation evaluate_fresh_fields sample_state is_restrictive_def is_healthy_state_def)

text \<open>
  C2: the decision ALLOW is only taken on admitted fresh evidence, in a healthy
  state, strictly below the derating and the critical threshold, with the effective headroom
  the policy and the workload demand.
\<close>

theorem allow_is_safe:
  assumes "te_decision (evaluate_thermal i) = TD_ALLOW"
  shows "\<exists>e. evidence_admitted i e \<and> is_healthy_state (te_state (evaluate_thermal i)) \<and>
    \<not> fle (th_derating (pol_thresholds (ei_policy i))) (ev_temperature e) \<and>
    \<not> fle (th_critical (pol_thresholds (ei_policy i))) (ev_temperature e) \<and>
    meets_demand (te_headroom (evaluate_thermal i))
      (admission_demand (ei_policy i) (ei_workload_profile i))"
proof -
  have healthy: "is_healthy_state (te_state (evaluate_thermal i))"
    using allow_is_fresh_healthy [OF assms] by blast
  then obtain e where e: "evidence_admitted i e" "evaluate_thermal i = evaluate_fresh i e"
      "\<not> fle (th_critical (pol_thresholds (ei_policy i))) (ev_temperature e)"
      "\<not> fle (th_derating (pol_thresholds (ei_policy i))) (ev_temperature e)"
    by (rule healthy_facts)
  have "meets_demand (fresh_headroom i e) (admission_demand (ei_policy i) (ei_workload_profile i))"
    using assms unfolding e(2) evaluate_fresh_fields
    by (auto simp: final_decision_def short_of_headroom_def split: if_splits)
  then show ?thesis using e healthy unfolding e(2) evaluate_fresh_fields by blast
qed

lemma sample_allows:
  "te_decision (evaluate_thermal (sample_input TS_NORMAL DL_FULL_CAPABILITY (reading 3 62))) = TD_ALLOW"
  by (simp add: sample_evaluation evaluate_fresh_fields sample_state sample_headroom decide_state_def
      final_decision_def short_of_headroom_def meets_demand_def admission_demand_def)

theorem allow_is_safe_witness:
  "meets_demand (te_headroom (evaluate_thermal (sample_input TS_NORMAL DL_FULL_CAPABILITY (reading 3 62))))
     (Fin 2)"
  using allow_is_safe [OF sample_allows] by (auto simp: admission_demand_def)

text \<open>
  Whatever the previous state, the coupled domains and the
  recovery history, a reading at or above the critical threshold makes the domain at least as
  severe as CRITICAL.
\<close>

theorem critical_temperature_dominates:
  assumes "ei_evidence i = Some e"
    and "fle (th_critical (pol_thresholds (ei_policy i))) (ev_temperature e)"
  shows "TS_CRITICAL \<le> te_state (evaluate_thermal i)"
  using critical_never_healthy [OF assms] by (simp add: less_eq_thermal_state_def)

theorem critical_temperature_dominates_witness:
  "TS_CRITICAL \<le> te_state (evaluate_thermal (sample_input TS_NORMAL DL_FULL_CAPABILITY (reading 3 90)))"
  by (rule critical_temperature_dominates [of _ "reading 3 90"]) simp_all

text \<open>
  C31: with everything else equal and under a valid policy, a hotter reading never yields a less
  severe state, although it enters the temperature band, the coupling, the headroom and the
  recovery gate.
\<close>

theorem hotter_is_never_milder:
  assumes "ei_evidence i = Some e" "fle (ev_temperature e) t"
    and "validate_policy (ei_policy i) = success"
  shows "te_state (evaluate_thermal i) \<le>
    te_state (evaluate_thermal (i \<lparr>ei_evidence := Some (hotter t e)\<rparr>))"
proof -
  have "celsius_is_valid (th_critical (pol_thresholds (ei_policy i)))"
    using assms(3) unfolding validate_policy_success_iff thresholds_ok_def by blast
  then have "severity (fresh_state i e) \<le> severity (fresh_state i (hotter t e))"
    using fresh_state_hotter [OF assms(2)] by blast
  moreover have "fresh_state (i \<lparr>ei_evidence := Some (hotter t e)\<rparr>) (hotter t e) = fresh_state i (hotter t e)"
    by (rule fresh_state_evidence)
  ultimately show ?thesis
    using assms(1) by (simp add: evaluate_thermal_def Let_def evaluate_fresh_fields less_eq_thermal_state_def)
qed

theorem hotter_is_never_milder_witness:
  "te_state (evaluate_thermal (sample_input TS_NORMAL DL_FULL_CAPABILITY (reading 3 62))) \<le>
   te_state (evaluate_thermal ((sample_input TS_NORMAL DL_FULL_CAPABILITY (reading 3 62))
     \<lparr>ei_evidence := Some (hotter (Fin 79) (reading 3 62))\<rparr>))"
  by (rule hotter_is_never_milder) (simp_all add: make_default_valid)

text \<open>
  With co-derating on, a coupled neighbour in a restrictive state
  keeps the domain from every healthy state, however cool it is.
\<close>

theorem coupled_pressure_derates:
  assumes "cp_co_derate_coupled_domains (pol_coupling (ei_policy i))"
    and "q \<in> set (ei_coupled i)" "is_restrictive (cpr_state q)"
  shows "\<not> is_healthy_state (te_state (evaluate_thermal i))"
  using assms healthy_facts by metis

theorem coupled_pressure_derates_witness:
  "\<not> is_healthy_state (te_state (evaluate_thermal
     ((sample_input TS_NORMAL DL_FULL_CAPABILITY (reading 3 62))
       \<lparr>ei_coupled := [\<lparr>cpr_domain = 8, cpr_generation = 1, cpr_state = TS_THROTTLING,
          cpr_temperature = Fin 85, cpr_coupling = CT_UNKNOWN_COUPLING,
          cpr_propagation = PC_COUPLED_DOMAIN, cpr_provenance = P_REAL, cpr_depth = 1,
          cpr_recovery_eligible = False\<rparr>]\<rparr>)))"
  by (rule coupled_pressure_derates) (auto simp: is_restrictive_def)

text \<open>
  C34: on admitted evidence, with a known previous derating, and while the
  domain is neither in a healthy state nor in REVALIDATION_REQUIRED, the published
  derating never becomes less restrictive than the previous one, nor than what the state alone
  calls for. From an unknown derating, which ranks as the most restrictive, evidence does relax it.
\<close>

theorem derating_never_expands:
  assumes "evidence_admitted i e" "ei_previous_derating i \<noteq> DL_UNKNOWN"
    and "\<not> is_healthy_state (te_state (evaluate_thermal i))"
    and "te_state (evaluate_thermal i) \<noteq> TS_REVALIDATION_REQUIRED"
  shows "does_not_expand (te_derating (evaluate_thermal i)) (ei_previous_derating i) \<and>
    does_not_expand (te_derating (evaluate_thermal i)) (te_unclamped_derating (evaluate_thermal i))"
proof -
  have "evaluate_thermal i = evaluate_fresh i e"
    using assms(1) by (simp add: evidence_admitted_def evaluate_thermal_def Let_def)
  then show ?thesis
    using assms(2-4) clamp_keeps_rank clamp_tightens
    by (simp add: evaluate_fresh_fields fresh_derating_def does_not_expand_def)
qed

theorem derating_never_expands_witness:
  "does_not_expand (te_derating (evaluate_thermal (sample_input TS_CRITICAL DL_NO_SAFE_EXECUTION (reading 3 82))))
     DL_NO_SAFE_EXECUTION"
proof -
  let ?i = "sample_input TS_CRITICAL DL_NO_SAFE_EXECUTION (reading 3 82)"
  have "te_state (evaluate_thermal ?i) = TS_DERATED"
    by (simp add: sample_evaluation evaluate_fresh_fields fresh_state_def fresh_transition_def
        next_thermal_state_def Let_def classify_throttle_def temperature_band_def apply_coupling_def
        hysteresis_gate_def is_healthy_state_def)
  then show ?thesis
    using derating_never_expands [of ?i "reading 3 82"] sample_admitted by (simp add: is_healthy_state_def)
qed

text \<open>
  Every mitigation an evaluation requests is allowed by the
  policy (or is the explicit NO_ACTION) and is not one the state prohibits.
\<close>

theorem requested_intents_are_permitted:
  assumes "r \<in> set (te_intents (evaluate_thermal i))"
  shows "(ir_intent r = MI_NO_ACTION \<or> policy_allows (ei_policy i) (ir_intent r)) \<and>
    ir_intent r \<notin> set (te_prohibited_intents (evaluate_thermal i))"
proof (cases rule: evaluate_thermal_cases [of i])
  case (fresh e)
  then show ?thesis
    using assms evaluation_intents_allowed unfolding fresh(2) evaluate_fresh_fields by blast
next
  case stopped
  then show ?thesis using assms by simp
qed

theorem requested_intents_are_permitted_witness:
  "\<exists>r \<in> set (te_intents (evaluate_thermal (sample_input TS_NORMAL DL_FULL_CAPABILITY (reading 3 62)))).
     ir_intent r \<notin> set (te_prohibited_intents
       (evaluate_thermal (sample_input TS_NORMAL DL_FULL_CAPABILITY (reading 3 62))))"
proof -
  have "te_intents (evaluate_thermal (sample_input TS_NORMAL DL_FULL_CAPABILITY (reading 3 62))) \<noteq> []"
    by (simp add: sample_evaluation evaluate_fresh_fields evaluation_intents_def Let_def)
  then show ?thesis using requested_intents_are_permitted by (meson list.set_sel(1))
qed

section \<open>Recovery\<close>

text \<open>
  C32: the gate opens only when the newest samples form an
  unbroken run that is long enough, spans the required time and has enough distinct witnesses;
  every sample of the run is admissible, below the recovery threshold with its margin, and bound
  to the current boot, epoch and device generation as far as the policy asks for it.
\<close>

theorem recovery_needs_a_qualifying_run:
  assumes "ra_allowed (evaluate_recovery i)" "ri_policy i = Some p" "ri_history i = Some h"
  defines "run \<equiv> takeWhile (qualifies (pol_recovery p) i) (rev (rh_samples h))"
  shows "fr_required_consecutive_samples (pol_freshness p) \<le> word_of_nat (length run) \<and>
    fr_min_evidence_span (pol_freshness p) \<le>
      (if run = [] then 0 else millis_of_ns (rs_at (hd run) - rs_at (last run))) \<and>
    unat (fr_min_distinct_witnesses (pol_freshness p)) \<le> card (rs_worker_boot ` set run) \<and>
    flt (hb_distance_above_recovery_gate (ri_headroom i)) (Fin 0)"
proof -
  obtain p' where p': "ri_policy i = Some p'"
      "flt (hb_distance_above_recovery_gate (ri_headroom i)) (Fin 0)"
      "fr_required_consecutive_samples (pol_freshness p') \<le>
         wk_qualifying (history_walk (pol_recovery p') i)"
      "fr_min_evidence_span (pol_freshness p') \<le> walk_span (history_walk (pol_recovery p') i)"
      "unat (fr_min_distinct_witnesses (pol_freshness p')) \<le>
         length (wk_witnesses (history_walk (pol_recovery p') i))"
    using recovery_allowedD [OF assms(1)] by metis
  have "history_walk (pol_recovery p) i = recovery_walk (pol_recovery p) i (rev (rh_samples h)) walk_start"
    by (simp add: history_walk_def assms(3))
  then show ?thesis
    using p' assms(2) unfolding run_def
    by (auto simp: walk_qualifying walk_span_run walk_witness_count qualifying_run_def Let_def)
qed

theorem recovery_needs_a_qualifying_run_witness:
  "3 \<le> (word_of_nat (length (takeWhile (qualifies (pol_recovery make_default)
       (sample_recovery \<lparr>ri_policy := Some make_default, ri_recovery_threshold := Fin 72,
          ri_recovery_margin := Fin 1,
          ri_headroom := fresh_headroom (sample_input TS_DERATED DL_UNKNOWN (reading 3 62)) (reading 3 62)\<rparr>))
     (rev (rh_samples cooled)))) :: u32)"
  using recovery_needs_a_qualifying_run [of "sample_recovery \<lparr>ri_policy := Some make_default,
      ri_recovery_threshold := Fin 72, ri_recovery_margin := Fin 1,
      ri_headroom := fresh_headroom (sample_input TS_DERATED DL_UNKNOWN (reading 3 62)) (reading 3 62)\<rparr>"
      make_default cooled]
    sample_recovers [of TS_DERATED DL_UNKNOWN 3]
  by (simp add: fresh_recovery_def evaluation_recovery_def sample_recovery_def)

section \<open>Headroom\<close>

text \<open>
  With the non-negative margins a valid policy has,
  positive effective headroom means that the temperature is strictly below the policy's critical
  threshold and below every vendor limit that is real and valid.
\<close>

theorem positive_headroom_is_below_the_limits:
  assumes pos: "has_positive_headroom (compute_headroom i)"
    and doubles: "is_double (hi_policy_critical i)" "is_double (hi_current_temperature i)"
      "is_double (hi_policy_safety_margin i)"
    and vendor: "\<And>v. hi_vendor_limit i = Some v \<Longrightarrow> is_double v"
    and margins: "fle (Fin 0) (hi_policy_safety_margin i)" "fle (Fin 0) (hi_uncertainty_margin i)"
    and critical: "celsius_is_valid (hi_policy_critical i)"
  shows "flt (hi_current_temperature i) (hi_policy_critical i) \<and>
    (\<forall>v. valid_vendor_limit i = Some v \<and> hi_vendor_limit_provenance i = P_REAL \<longrightarrow>
       flt (hi_current_temperature i) v)"
proof -
  have below: "flt (hi_current_temperature i) (governing_limit i)"
    using pos doubles margins governing_limit_double [OF doubles(1) vendor] positive_headroom_below
    unfolding has_positive_headroom_def by blast
  have "\<not> is_nan (hi_policy_critical i)"
    using critical celsius_valid_finite by (auto simp: is_finite_def is_nan_def)
  then have "flt (hi_current_temperature i) (hi_policy_critical i)"
    using below governing_limit_le flt_fle_trans by blast
  moreover have "flt (hi_current_temperature i) v"
    if v: "valid_vendor_limit i = Some v" "hi_vendor_limit_provenance i = P_REAL" for v
  proof (cases "flt v (hi_policy_critical i)")
    case True
    then have "governing_limit i = v" using v by (simp add: governing_limit_def)
    then show ?thesis using below by simp
  next
    case False
    have "celsius_is_valid v" using v by (simp add: valid_vendor_limit_def split: option.splits if_splits)
    then have "\<not> is_nan v" using celsius_valid_finite by (auto simp: is_finite_def is_nan_def)
    then have "fle (hi_policy_critical i) v" using False \<open>\<not> is_nan (hi_policy_critical i)\<close> not_flt_iff by blast
    then show ?thesis using calculation flt_fle_trans by blast
  qed
  ultimately show ?thesis by blast
qed

theorem positive_headroom_is_below_the_limits_witness:
  "flt (Fin 62) (Fin 88)"
  using positive_headroom_is_below_the_limits
    [of "evaluation_headroom_input (sample_input TS_NORMAL DL_FULL_CAPABILITY (reading 3 62)) (reading 3 62)"]
    sample_headroom [of TS_NORMAL DL_FULL_CAPABILITY 3]
  by (simp add: fresh_headroom_def has_positive_headroom_def evaluation_headroom_input_def Let_def)

text \<open>
  The governing limit is the policy's critical threshold,
  unless a vendor limit that is real, valid and strictly lower replaces it; it is never above the
  policy's.
\<close>

theorem only_real_vendor_limits_tighten:
  "governing_limit i = hi_policy_critical i \<or>
     (hi_vendor_limit i = Some (governing_limit i) \<and> hi_vendor_limit_provenance i = P_REAL \<and>
      celsius_is_valid (governing_limit i) \<and> flt (governing_limit i) (hi_policy_critical i))"
  by (rule governing_limit_cases)

section \<open>Policies\<close>

text \<open>
  A policy passes validation exactly when its thresholds are
  ordered with recovery below derating, its margins are not negative, its recovery requirements
  can be met, its concurrency ceilings fall with severity, its propagation depth is bounded and
  its intents and restrictions are well formed.
\<close>

theorem policy_validation_is_exact:
  "validate_policy p = success \<longleftrightarrow>
     thresholds_ok (pol_thresholds p) \<and>
     \<not> flt (mg_policy_safety (pol_margins p)) (Fin 0) \<and>
     \<not> flt (mg_uncertainty (pol_margins p)) (Fin 0) \<and>
     \<not> flt (mg_recovery (pol_margins p)) (Fin 0) \<and>
     fr_required_consecutive_samples (pol_freshness p) \<noteq> 0 \<and>
     0 \<le> fr_max_age (pol_freshness p) \<and> 0 \<le> fr_min_evidence_span (pol_freshness p) \<and>
     fr_min_distinct_witnesses (pol_freshness p) \<le> fr_required_consecutive_samples (pol_freshness p) \<and>
     \<not> flt (vp_improvement_epsilon (pol_verification p)) (Fin 0) \<and>
     \<not> flt (ap_min_effective_headroom (pol_admission p)) (Fin 0) \<and>
     concurrency_ok (pol_concurrency p) \<and>
     cp_max_propagation_depth (pol_coupling p) \<le> 8 \<and>
     pol_allowed_intents p AND NOT kAllIntentsMask = 0 \<and>
     length (pol_workload_restrictions p) \<le> 64 \<and>
     restrictions_ok (pol_workload_restrictions p)"
  by (rule validate_policy_success_iff)

text \<open>
  The comparison \<open>value < 0\<close> rejects negative margins but not
  NaN, so a policy whose safety margin is NaN is valid; under it no reading ever has positive
  headroom.
\<close>

theorem nan_margin_passes_validation:
  "validate_policy (make_default \<lparr>pol_margins := \<lparr>mg_policy_safety = NaN, mg_uncertainty = Fin 1,
     mg_recovery = Fin 1\<rparr>\<rparr>) = success"
  using make_default_valid unfolding validate_policy_success_iff by simp

text \<open>
  Under a valid policy a more severe state never permits more
  concurrency.
\<close>

theorem ceilings_fall_with_severity:
  assumes "validate_policy p = success" "a \<le> b"
  shows "fle (concurrency_ceiling (pol_concurrency p) b) (concurrency_ceiling (pol_concurrency p) a)"
  using assms concurrency_ok_antimono
  unfolding validate_policy_success_iff less_eq_thermal_state_def by blast

theorem ceilings_fall_with_severity_witness:
  "fle (concurrency_ceiling (pol_concurrency make_default) TS_CRITICAL)
     (concurrency_ceiling (pol_concurrency make_default) TS_WARM)"
  by (rule ceilings_fall_with_severity) (simp_all add: make_default_valid less_eq_thermal_state_def)

section \<open>Coupling graph\<close>

text \<open>
  C33: the bounded breadth-first search finds exactly the
  other domains within the depth bound, each at its true distance along the edges, in ascending
  order of depth and identity, without repeats. Termination for every graph and depth is part of
  the definition.
\<close>

theorem reachable_from_is_bounded_distance:
  "((n, d) \<in> set (reachable_from edges origin max_depth) \<longleftrightarrow>
      n \<noteq> origin \<and> d \<le> max_depth \<and>
      at_distance (edge_rel cr_source cr_destination edges) origin n (unat d)) \<and>
   sorted (map (\<lambda>(n, d). (d, n)) (reachable_from edges origin max_depth)) \<and>
   distinct (map fst (reachable_from edges origin max_depth))"
  using outgoing.search_mem outgoing.search_sorted outgoing.search_distinct by blast

text \<open>
  A domain is among the incoming neighbours of another
  exactly when the other is reachable from it within the same depth, and the result depends on
  the edges only as a set, never on their order in the graph.
\<close>

theorem pressure_is_the_converse_of_reach:
  "(n \<in> fst ` set (incoming_reachable edges m depth) \<longleftrightarrow>
      m \<in> fst ` set (reachable_from edges n depth)) \<and>
   incoming_reachable (rev edges) m depth = incoming_reachable edges m depth"
proof -
  have "edge_rel cr_destination cr_source (rev edges) = edge_rel cr_destination cr_source edges"
    by (simp add: edge_rel_def)
  then show ?thesis using incoming_iff_outgoing incoming.search_deterministic by blast
qed

text \<open>
  Adding a relation stores it and replaces an earlier one with
  the same identity, removing an identity leaves none of it, and neither ever puts two relations
  of one identity into the graph.
\<close>

theorem coupling_identity_is_unique:
  assumes "coupling_ok edges"
  shows "coupling_ok (coupling_add r edges) \<and> r \<in> set (coupling_add r edges) \<and>
    coupling_ok (snd (coupling_remove i edges)) \<and>
    i \<notin> cr_id ` set (snd (coupling_remove i edges))"
  using coupling_add_ok [OF assms] coupling_add_mem coupling_remove_ok [OF assms]
    coupling_remove_gone [OF assms] by blast

theorem coupling_identity_is_unique_witness:
  "coupling_ok (coupling_add rack_coupling []) \<and> rack_coupling \<in> set (coupling_add rack_coupling [])"
  using coupling_identity_is_unique [of "[]" rack_coupling] by (simp add: coupling_ok_def)

section \<open>Domain registry and aggregation\<close>

text \<open>
  Adding, updating and removing a domain keep the registry well
  formed: keys are the ids of their definitions, parents and children are registered, and the
  membership index is the one the definitions give.
\<close>

theorem registry_stays_well_formed:
  assumes "registry_ok reg"
  shows "(registry_add d reg = Inr reg' \<longrightarrow> registry_ok reg' \<and> registry_find reg' (dd_id d) = Some d) \<and>
    (registry_update d reg = Inr reg' \<longrightarrow> registry_ok reg' \<and> registry_find reg' (dd_id d) = Some d) \<and>
    (registry_remove i reg = Inr reg' \<longrightarrow> registry_ok reg' \<and> registry_find reg' i = None)"
proof (intro conjI impI)
  assume add: "registry_add d reg = Inr reg'"
  show "registry_ok reg'" by (rule registry_add_ok [OF assms add])
  show "registry_find reg' (dd_id d) = Some d"
    using registry_add_result [OF add] by (simp add: registry_find_def table_find_update)
next
  assume update: "registry_update d reg = Inr reg'"
  show "registry_ok reg'" by (rule registry_update_ok [OF assms update])
  show "registry_find reg' (dd_id d) = Some d"
    using registry_update_result [OF update assms] by (auto simp: registry_find_def table_find_update)
next
  assume remove: "registry_remove i reg = Inr reg'"
  show "registry_ok reg'" by (rule registry_remove_ok [OF assms remove])
  show "registry_find reg' i = None"
    using remove by (auto simp: registry_remove_def registry_find_def table_find_delete split: if_splits)
qed

theorem registry_stays_well_formed_witness:
  "\<exists>reg'. registry_add rack_domain empty_registry = Inr reg' \<and> registry_ok reg' \<and>
     registry_find reg' 7 = Some rack_domain"
proof -
  obtain reg' where "registry_add rack_domain empty_registry = Inr reg'" using rack_domain_added by blast
  then show ?thesis using registry_stays_well_formed [of empty_registry rack_domain reg'] by simp
qed

text \<open>
  The domains looked up for a subject are exactly the registered ones
  that have a member of the same identity.
\<close>

theorem subject_index_is_exact:
  assumes "registry_ok reg"
  shows "set (domains_for_subject reg s) =
    {dd_id d | k d. (k, d) \<in> set (reg_definitions reg) \<and>
       (\<exists>m \<in> set (dd_members d). subject_identity (dm_subject m) = subject_identity s)}"
  by (rule domains_for_subject_set [OF assms])

theorem subject_index_is_exact_witness:
  "domains_for_subject empty_registry (for_domain 7 1) = []"
  using subject_index_is_exact [OF empty_registry_ok, of "for_domain 7 1"]
  by (simp add: empty_registry_def)

text \<open>
  Under HOTTEST_MEMBER_GOVERNS the aggregate carries the temperature
  and the identity of a member that is at least as hot as every other, and the weakest
  provenance among the members.
\<close>

theorem hottest_member_governs:
  assumes "dd_aggregation d = AR_HOTTEST_MEMBER_GOVERNS"
    and "compute_aggregate d es = Inr r"
    and "\<forall>e \<in> set (usable_evidence es). celsius_is_valid (ev_temperature e)"
  shows "\<exists>h \<in> set (usable_evidence es). ag_temperature r = ev_temperature h \<and>
      ag_governing_member r = ev_subject h \<and>
      (\<forall>e \<in> set (usable_evidence es). fle (ev_temperature e) (ag_temperature r)) \<and>
      provenance_rank (ag_provenance r) =
        Max (provenance_rank ` ev_provenance ` set (usable_evidence es))"
proof -
  let ?u = "usable_evidence es"
  have some: "?u \<noteq> []" and r: "ag_temperature r = ev_temperature (hottest ?u)"
      "ag_governing_member r = ev_subject (hottest ?u)" "ag_provenance r = combined_provenance ?u"
    using assms(1,2) by (auto simp: compute_aggregate_def Let_def split: if_splits)
  have numbers: "\<forall>e \<in> set ?u. \<not> is_nan (ev_temperature e)"
    using assms(3) celsius_valid_finite by (force simp: is_finite_def is_nan_def)
  show ?thesis
    using hottest_is_max [OF some numbers] combined_provenance_rank [OF some] r by auto
qed

theorem hottest_member_governs_witness:
  "\<exists>r. compute_aggregate rack_domain [Some (reading 1 60), None, Some (reading 2 70)] = Inr r \<and>
     fle (Fin 70) (ag_temperature r)"
proof -
  let ?es = "[Some (reading 1 60), None, Some (reading 2 70)]"
  have usable: "usable_evidence ?es = [reading 1 60, reading 2 70]" by (simp add: usable_evidence_def)
  obtain r where r: "compute_aggregate rack_domain ?es = Inr r"
    by (simp add: compute_aggregate_def usable Let_def rack_domain_def)
  show ?thesis
    using hottest_member_governs [OF _ r] r by (auto simp: rack_domain_def usable)
qed

text \<open>
  A weighted or synthetic aggregate never claims the
  provenance REAL, even when every member is real.
\<close>

theorem modelled_aggregates_are_not_real:
  assumes "compute_aggregate d es = Inr r"
    and "dd_aggregation d = AR_CONFIGURED_WEIGHTED_RULE \<or> dd_aggregation d = AR_SYNTHETIC_AGGREGATION"
  shows "ag_provenance r \<noteq> P_REAL"
  by (rule aggregate_modelled_not_real [OF assms])

theorem modelled_aggregates_are_not_real_witness:
  "\<exists>r. compute_aggregate (rack_domain \<lparr>dd_aggregation := AR_SYNTHETIC_AGGREGATION\<rparr>)
      [Some (reading 1 60)] = Inr r \<and> ag_provenance r \<noteq> P_REAL"
proof -
  obtain r where r: "compute_aggregate (rack_domain \<lparr>dd_aggregation := AR_SYNTHETIC_AGGREGATION\<rparr>)
      [Some (reading 1 60)] = Inr r"
    by (simp add: compute_aggregate_def usable_evidence_def hottest_def Let_def rack_domain_def
        celsius_try_from_def kAbsoluteZero_def kMaxPlausible_def)
  show ?thesis using modelled_aggregates_are_not_real [OF r] r by simp
qed

section \<open>Identity of subjects and evidence\<close>

text \<open>
  Two subjects have the same key exactly when they are of the same
  kind and agree on the identity and generation that kind uses, so evidence of one subject never
  lands under the key of another.
\<close>

theorem subject_keys_identify: "subject_key a = subject_key b \<longleftrightarrow> subject_identity a = subject_identity b"
  by (rule subject_key_iff)

text \<open>
  An observation replaces the held one only when its sequence
  number advances under a new identity; an identical observation is recognised as a duplicate,
  and equal digests mean equal identity, subject, generations, worker, boot and epoch.
\<close>

theorem evidence_comparison_is_sound:
  "(compare_evidence held incoming = EC_INDEPENDENT \<longleftrightarrow>
      ev_measurement_sequence held < ev_measurement_sequence incoming \<and>
      ev_evidence_id incoming \<noteq> ev_evidence_id held) \<and>
   compare_evidence held held = EC_IDENTICAL_DUPLICATE \<and>
   (canonical_evidence_digest held = canonical_evidence_digest incoming \<longrightarrow>
      digest_fields held = digest_fields incoming)"
  by (intro conjI impI compare_independent_iff compare_evidence_self digest_eqD)

theorem evidence_comparison_is_sound_witness:
  "digest_fields (reading 3 62) = digest_fields (reading 3 62)"
  using evidence_comparison_is_sound [of "reading 3 62" "reading 3 62"] by blast

section \<open>Canonical forms\<close>

text \<open>
  The insertion sort that canonicalises a reason set sorts
  it by code value and keeps exactly its elements.
\<close>

theorem reasons_are_canonically_ordered:
  "canonicalise_reasons codes = sort codes \<and> mset (canonicalise_reasons codes) = mset codes"
  by (simp add: canonicalise_reasons_sort)

text \<open>
  The decimal rendering of a 64-bit identity parses back to the
  identity, so distinct identities never share a rendering.
\<close>

theorem decimal_text_round_trips:
  "parse_decimal (unsigned_decimal v) = uint v \<and> (unsigned_decimal v = unsigned_decimal w \<longleftrightarrow> v = w)"
proof
  show "parse_decimal (unsigned_decimal v) = uint v"
    by (simp add: unsigned_decimal_def parse_decimal_decimal)
qed (rule unsigned_decimal_inj)

end
