(* ===== verification/Binary.thy ===== *)
theory Binary
  imports Vocabulary
begin

text \<open>
  \<^verbatim>\<open>binary.hpp\<close>: the append-only little-endian writer and the bounds-checked latching reader
  that the durable file and the messages share, and the byte image of a \<^verbatim>\<open>double\<close>. A writer
  is the byte list it has produced. A reader is the bytes after its position together with the
  latch: the code uses \<^verbatim>\<open>position_\<close> and \<^verbatim>\<open>size_\<close> only through their difference.
\<close>

section \<open>Machine words\<close>

text \<open>Little-endian bytes of a word, and the loop that assembles a word from bytes.\<close>

fun le_bytes :: "nat \<Rightarrow> 'a::len word \<Rightarrow> u8 list" where
  "le_bytes 0 w = []"
| "le_bytes (Suc n) w = ucast (w AND 0xFF) # le_bytes n (drop_bit 8 w)"

fun le_word :: "u8 list \<Rightarrow> 'a::len word" where
  "le_word [] = 0"
| "le_word (b # bs) = ucast b OR push_bit 8 (le_word bs)"

lemma length_le_bytes [simp]: "length (le_bytes n w) = n"
  by (induction n w rule: le_bytes.induct) auto

lemma low_byte: "(w :: 'a::len word) AND 0xFF = take_bit 8 w"
  by (simp add: take_bit_eq_mask mask_eq_exp_minus_1)

lemma le_word_le_bytes: "8 \<le> LENGTH('a) \<Longrightarrow> le_word (le_bytes n w) = take_bit (8 * n) (w :: 'a::len word)"
proof (induction n w rule: le_bytes.induct)
  case (1 w)
  show ?case by simp
next
  case (2 n w)
  have low: "(ucast (ucast (w AND 0xFF) :: u8) :: 'a word) = take_bit 8 w"
    unfolding low_byte using 2(2) by (intro bit_word_eqI) (auto simp: bit_simps)
  show ?case
    unfolding le_bytes.simps le_word.simps low 2(1) [OF 2(2)]
    by (intro bit_word_eqI) (auto simp: bit_simps not_less)
qed

lemma le_word_inverse:
  "8 \<le> LENGTH('a) \<Longrightarrow> 8 * n = LENGTH('a) \<Longrightarrow> le_word (le_bytes n w) = (w :: 'a::len word)"
  by (simp add: le_word_le_bytes)

section \<open>The byte image of a double\<close>

text \<open>
  \<^verbatim>\<open>memcpy\<close> between a \<^verbatim>\<open>double\<close> and a 64-bit integer: sign, biased exponent and fraction. A
  NaN is written as the default quiet NaN, and every NaN pattern is read as NaN.
\<close>

definition f64_bits :: "f64 \<Rightarrow> u64" where
  "f64_bits x = (case x of
       NaN \<Rightarrow> 0x7FF8000000000000
     | PosInf \<Rightarrow> 0x7FF0000000000000
     | NegInf \<Rightarrow> 0xFFF0000000000000
     | NegZero \<Rightarrow> 0x8000000000000000
     | Fin r \<Rightarrow>
         if r = 0 then 0
         else let k = ulp_exp \<bar>r\<bar>; n = \<lfloor>\<bar>r\<bar> / 2 powi k\<rfloor>
              in word_of_int ((if r < 0 then 2 ^ 63 else 0) +
                   (if n < 2 ^ 52 then n else (k + 1075) * 2 ^ 52 + (n - 2 ^ 52))))"

definition f64_of_bits :: "u64 \<Rightarrow> f64" where
  "f64_of_bits w =
     (let v = uint w; negative = (2 ^ 63 \<le> v); e = v div 2 ^ 52 mod 2048; m = v mod 2 ^ 52;
          signed = (\<lambda>x. Fin (if negative then - x else x))
      in if e = 2047 then (if m = 0 then signed_inf negative else NaN)
         else if e = 0
         then (if m = 0 then signed_zero negative else signed (of_int m * 2 powi (- 1074)))
         else signed (of_int (2 ^ 52 + m) * 2 powi (e - 1075)))"

lemma f64_of_bits_int:
  assumes "0 \<le> e" "e < 2047" "0 \<le> m" "m < 2 ^ 52" "e \<noteq> 0 \<or> m \<noteq> 0"
  shows "f64_of_bits (word_of_int ((if neg then 2 ^ 63 else 0) + (e * 2 ^ 52 + m))) =
    Fin ((if neg then - 1 else 1) *
      (if e = 0 then of_int m * 2 powi (- 1074) else of_int (2 ^ 52 + m) * 2 powi (e - 1075)))"
proof -
  let ?v = "(if neg then 2 ^ 63 else 0) + (e * 2 ^ 52 + m) :: int"
  have small: "0 \<le> e * 2 ^ 52 + m" "e * 2 ^ 52 + m < 2 ^ 63" using assms by auto
  then have v: "uint (word_of_int ?v :: u64) = ?v"
    unfolding uint_word_of_int by (intro mod_pos_pos_trivial) auto
  have s: "(2 ^ 63 \<le> ?v) = neg" using small by auto
  obtain E where E: "?v = E * 2 ^ 52 + m" "E mod 2048 = e"
    using that [of "(if neg then 2048 else 0) + e"] assms(1,2) by (cases neg) auto
  have m: "?v mod 2 ^ 52 = m" unfolding E(1) using assms(3,4) by simp
  have "?v div 2 ^ 52 = E" unfolding E(1) using assms(3,4) by simp
  then have e: "?v div 2 ^ 52 mod 2048 = e" using E(2) by simp
  show ?thesis
    unfolding f64_of_bits_def Let_def v s m e using assms by auto
qed

text \<open>The significand of a finite double is an integer of at most 53 binary digits.\<close>

lemma significand:
  assumes "is_double (Fin r)" "r \<noteq> 0"
  defines "k \<equiv> ulp_exp \<bar>r\<bar>" and "n \<equiv> \<lfloor>\<bar>r\<bar> / 2 powi (ulp_exp \<bar>r\<bar>)\<rfloor>"
  shows "\<bar>r\<bar> = of_int n * 2 powi k" "0 < n" "n < 2 ^ 53" "- 1074 \<le> k" "k \<le> 971"
    "n < 2 ^ 52 \<Longrightarrow> k = - 1074"
proof -
  let ?x = "\<bar>r\<bar>"
  have x: "0 < ?x" using assms(2) by simp
  have "rnd_pos ?x = ?x"
    using assms(1,2) by (auto simp: is_double_Fin rnd64_def split: if_splits)
  then have q: "?x = of_int (rhe (?x / 2 powi k)) * 2 powi k"
    using x by (simp add: rnd_pos_def quant_def k_def)
  then have "?x / 2 powi k = of_int (rhe (?x / 2 powi k))"
    by (metis nonzero_mult_div_cancel_right power_int_eq_0_iff zero_neq_numeral)
  then have n: "of_int n = ?x / 2 powi k"
    unfolding n_def k_def [symmetric] by (metis floor_of_int)
  then show eq: "?x = of_int n * 2 powi k" by simp
  have pow: "(0::rat) < 2 powi k" by simp
  show "0 < n" using x n pow by (metis of_int_0_less_iff zero_less_divide_iff)
  show k0: "- 1074 \<le> k" by (simp add: k_def ulp_exp_def)
  have l: "2 powi (ilog2 ?x) \<le> ?x" "?x < 2 powi (ilog2 ?x + 1)"
    using ilog2_bounds [OF x] by auto
  have kl: "ilog2 ?x - 52 \<le> k" by (simp add: k_def ulp_exp_def)
  have "of_int n * 2 powi k < (2::rat) powi (53 + k)"
    using order.strict_trans2 [OF l(2) power_int_increasing [of "ilog2 ?x + 1" "53 + k" "2 :: rat"]] kl
    unfolding eq [symmetric] by simp
  then have "of_int n * 2 powi k < (2::rat) ^ 53 * 2 powi k"
    by (simp add: power_int_add)
  then have "of_int n < (2 :: rat) ^ 53" using pow by (simp only: mult_less_cancel_right_pos)
  then show "n < 2 ^ 53" by (metis of_int_less_iff of_int_numeral of_int_power)
  have "ilog2 ?x < 1024" using assms(1) x by (auto simp: is_double_Fin overflows_def)
  then show "k \<le> 971" by (simp add: k_def ulp_exp_def)
  show "k = - 1074" if small: "n < 2 ^ 52"
  proof (rule ccontr)
    assume "k \<noteq> - 1074"
    then have "k = ilog2 ?x - 52" by (simp add: k_def ulp_exp_def max_def split: if_splits)
    then have "(2::rat) ^ 52 * 2 powi k \<le> of_int n * 2 powi k"
      using l(1) unfolding eq [symmetric] by (simp add: power_int_diff)
    then have "(2::rat) ^ 52 \<le> of_int n" using pow by (simp only: mult_le_cancel_right_pos)
    then show False using small by (metis leD of_int_le_iff of_int_numeral of_int_power)
  qed
qed

lemma f64_of_bits_scaled:
  assumes "0 < n" "n < 2 ^ 53" "- 1074 \<le> k" "k \<le> 971" "n < 2 ^ 52 \<Longrightarrow> k = - 1074"
  shows "f64_of_bits (word_of_int ((if neg then 2 ^ 63 else 0) +
      (if n < 2 ^ 52 then n else (k + 1075) * 2 ^ 52 + (n - 2 ^ 52)))) =
    Fin ((if neg then - 1 else 1) * (of_int n * 2 powi k))"
proof (cases "n < 2 ^ 52")
  case True
  then have k: "k = - 1074" using assms(5) by blast
  have "f64_of_bits (word_of_int ((if neg then 2 ^ 63 else 0) + (0 * 2 ^ 52 + n))) =
      Fin ((if neg then - 1 else 1) * (if (0::int) = 0 then of_int n * 2 powi (- 1074) else of_int (2 ^ 52 + n) * 2 powi (0 - 1075)))"
    using True assms(1) by (intro f64_of_bits_int) auto
  then show ?thesis unfolding k using True by (simp only: if_True mult_zero_left add_0_left simp_thms)
next
  case False
  have "f64_of_bits (word_of_int ((if neg then 2 ^ 63 else 0) + ((k + 1075) * 2 ^ 52 + (n - 2 ^ 52)))) =
      Fin ((if neg then - 1 else 1) * (if k + 1075 = 0 then of_int (n - 2 ^ 52) * 2 powi (- 1074)
        else of_int (2 ^ 52 + (n - 2 ^ 52)) * 2 powi (k + 1075 - 1075)))"
    using False assms(2-4) by (intro f64_of_bits_int) auto
  moreover have "k + 1075 \<noteq> 0" using assms(3) by linarith
  moreover have "2 ^ 52 + (n - 2 ^ 52) = n" "k + 1075 - 1075 = k" by simp_all
  ultimately show ?thesis using False by (simp only: if_False)
qed

lemma f64_bits_Fin:
  assumes "is_double (Fin r)"
  shows "f64_of_bits (f64_bits (Fin r)) = Fin r"
proof (cases "r = 0")
  case True
  then show ?thesis by (simp add: f64_bits_def f64_of_bits_def signed_zero_def)
next
  case False
  note s = significand [OF assms False]
  have "(if r < 0 then - 1 else 1) * \<bar>r\<bar> = r" by auto
  then show ?thesis
    using f64_of_bits_scaled [OF s(2-5), where neg = "r < 0"] s(1,6) False
    by (simp only: f64_bits_def Let_def f64.case if_False)
qed

lemma f64_bits_inverse: "is_double x \<Longrightarrow> f64_of_bits (f64_bits x) = x"
  by (cases x) (simp_all add: f64_bits_Fin,
    simp_all add: f64_bits_def f64_of_bits_def signed_zero_def signed_inf_def)

section \<open>The writer\<close>

definition writer_u8 :: "u8 \<Rightarrow> u8 list" where
  "writer_u8 v = [v]"

definition writer_u16 :: "u16 \<Rightarrow> u8 list" where
  "writer_u16 v = le_bytes 2 v"

definition writer_u32 :: "u32 \<Rightarrow> u8 list" where
  "writer_u32 v = le_bytes 4 v"

definition writer_u64 :: "u64 \<Rightarrow> u8 list" where
  "writer_u64 v = le_bytes 8 v"

text \<open>\<^verbatim>\<open>i64\<close> casts to the unsigned type: two's complement.\<close>

definition writer_i64 :: "int \<Rightarrow> u8 list" where
  "writer_i64 v = writer_u64 (word_of_int v)"

definition writer_real :: "f64 \<Rightarrow> u8 list" where
  "writer_real v = writer_u64 (f64_bits v)"

definition writer_bool :: "bool \<Rightarrow> u8 list" where
  "writer_bool b = writer_u8 (if b then 1 else 0)"

definition byte_of_char :: "char \<Rightarrow> u8" where
  "byte_of_char c = of_nat (of_char c)"

definition char_of_byte :: "u8 \<Rightarrow> char" where
  "char_of_byte b = char_of (unat b)"

definition writer_text :: "string \<Rightarrow> u8 list" where
  "writer_text s = writer_u32 (of_nat (length s)) @ map byte_of_char s"

definition writer_optional :: "('a \<Rightarrow> u8 list) \<Rightarrow> 'a option \<Rightarrow> u8 list" where
  "writer_optional encode v = (case v of None \<Rightarrow> writer_u8 0 | Some x \<Rightarrow> writer_u8 1 @ encode x)"

text \<open>A counted sequence, the shape of every container the codecs write.\<close>

definition writer_seq :: "('a \<Rightarrow> u8 list) \<Rightarrow> 'a list \<Rightarrow> u8 list" where
  "writer_seq encode xs = writer_u32 (of_nat (length xs)) @ concat (map encode xs)"

section \<open>The reader\<close>

record reader =
  rd_rest :: "u8 list"
  rd_ok :: bool

definition new_reader :: "u8 list \<Rightarrow> reader" where
  "new_reader bs = \<lparr>rd_rest = bs, rd_ok = True\<rparr>"

definition reader_exhausted :: "reader \<Rightarrow> bool" where
  "reader_exhausted r \<longleftrightarrow> rd_rest r = []"

definition reader_fail :: "reader \<Rightarrow> reader" where
  "reader_fail r = r \<lparr>rd_ok := False\<rparr>"

definition reader_need :: "nat \<Rightarrow> reader \<Rightarrow> bool \<times> reader" where
  "reader_need count r =
     (if \<not> rd_ok r then (False, r)
      else if length (rd_rest r) < count then (False, reader_fail r)
      else (True, r))"

text \<open>Bytes are taken from the current position once \<^verbatim>\<open>need\<close> has succeeded.\<close>

definition reader_word :: "nat \<Rightarrow> reader \<Rightarrow> 'a::len word \<times> reader" where
  "reader_word n r =
     (case reader_need n r of
        (False, r) \<Rightarrow> (0, r)
      | (True, r) \<Rightarrow> (le_word (take n (rd_rest r)), r \<lparr>rd_rest := drop n (rd_rest r)\<rparr>))"

definition reader_u8 :: "reader \<Rightarrow> u8 \<times> reader" where
  "reader_u8 r =
     (case reader_need 1 r of
        (False, r) \<Rightarrow> (0, r)
      | (True, r) \<Rightarrow> (hd (rd_rest r), r \<lparr>rd_rest := tl (rd_rest r)\<rparr>))"

definition reader_u16 :: "reader \<Rightarrow> u16 \<times> reader" where
  "reader_u16 r = reader_word 2 r"

definition reader_u32 :: "reader \<Rightarrow> u32 \<times> reader" where
  "reader_u32 r = reader_word 4 r"

definition reader_u64 :: "reader \<Rightarrow> u64 \<times> reader" where
  "reader_u64 r = reader_word 8 r"

definition reader_i64 :: "reader \<Rightarrow> int \<times> reader" where
  "reader_i64 r = (case reader_u64 r of (v, r) \<Rightarrow> (sint v, r))"

definition reader_real :: "reader \<Rightarrow> f64 \<times> reader" where
  "reader_real r = (case reader_u64 r of (v, r) \<Rightarrow> (f64_of_bits v, r))"

definition reader_text :: "nat \<Rightarrow> reader \<Rightarrow> string \<times> reader" where
  "reader_text limit r =
     (case reader_u32 r of (n, r) \<Rightarrow>
        if \<not> rd_ok r \<or> limit < unat n then ([], reader_fail r)
        else case reader_need (unat n) r of
          (False, r) \<Rightarrow> ([], reader_fail r)
        | (True, r) \<Rightarrow> (map char_of_byte (take (unat n) (rd_rest r)),
            r \<lparr>rd_rest := drop (unat n) (rd_rest r)\<rparr>))"

definition reader_raw_bytes :: "nat \<Rightarrow> reader \<Rightarrow> u8 list \<times> reader" where
  "reader_raw_bytes count r =
     (case reader_need count r of
        (False, r) \<Rightarrow> ([], reader_fail r)
      | (True, r) \<Rightarrow> (take count (rd_rest r), r \<lparr>rd_rest := drop count (rd_rest r)\<rparr>))"

definition reader_presence :: "reader \<Rightarrow> bool \<times> reader" where
  "reader_presence r =
     (case reader_u8 r of (flag, r) \<Rightarrow>
        if 1 < flag then (False, reader_fail r) else (flag = 1, r))"

text \<open>A flag of the codecs: any non-zero byte is true.\<close>

definition reader_flag :: "reader \<Rightarrow> bool \<times> reader" where
  "reader_flag r = (case reader_u8 r of (v, r) \<Rightarrow> (v \<noteq> 0, r))"

text \<open>\<open>if (reader.presence()) x = read();\<close> for a value that is read without a check.\<close>

definition reader_optional :: "(reader \<Rightarrow> 'a \<times> reader) \<Rightarrow> reader \<Rightarrow> 'a option \<times> reader" where
  "reader_optional decode r =
     (case reader_presence r of
        (False, r) \<Rightarrow> (None, r)
      | (True, r) \<Rightarrow> (case decode r of (x, r) \<Rightarrow> (Some x, r)))"

section \<open>Reading back what was written\<close>

named_theorems codec_simps \<open>a reader placed on a written value returns the value and moves past it\<close>

lemma rd_new_reader [simp]: "rd_rest (new_reader bs) = bs" "rd_ok (new_reader bs)"
  by (simp_all add: new_reader_def)

lemma new_reader_update [simp]: "new_reader bs \<lparr>rd_rest := cs\<rparr> = new_reader cs"
  by (simp add: new_reader_def)

lemma reader_need_ok [simp]: "n \<le> length bs \<Longrightarrow> reader_need n (new_reader bs) = (True, new_reader bs)"
  by (simp add: reader_need_def)

lemma reader_word_written:
  "8 \<le> LENGTH('a) \<Longrightarrow> 8 * n = LENGTH('a) \<Longrightarrow>
     reader_word n (new_reader (le_bytes n w @ bs)) = (w :: 'a::len word, new_reader bs)"
  by (simp add: reader_word_def le_word_inverse)

lemma reader_u8_written [codec_simps]: "reader_u8 (new_reader (writer_u8 v @ bs)) = (v, new_reader bs)"
  by (simp add: reader_u8_def writer_u8_def)

lemma reader_u16_written [codec_simps]: "reader_u16 (new_reader (writer_u16 v @ bs)) = (v, new_reader bs)"
  by (simp add: reader_u16_def writer_u16_def reader_word_written)

lemma reader_u32_written [codec_simps]: "reader_u32 (new_reader (writer_u32 v @ bs)) = (v, new_reader bs)"
  by (simp add: reader_u32_def writer_u32_def reader_word_written)

lemma reader_u64_written [codec_simps]: "reader_u64 (new_reader (writer_u64 v @ bs)) = (v, new_reader bs)"
  by (simp add: reader_u64_def writer_u64_def reader_word_written)

text \<open>The values a signed 64-bit count and a byte count can hold.\<close>

definition fits_i64 :: "int \<Rightarrow> bool" where
  "fits_i64 v \<longleftrightarrow> - (2 ^ 63) \<le> v \<and> v < 2 ^ 63"

definition fits_u32 :: "nat \<Rightarrow> bool" where
  "fits_u32 n \<longleftrightarrow> n < 2 ^ 32"

lemma unat_of_fits: "fits_u32 n \<Longrightarrow> unat (of_nat n :: u32) = n"
  by (simp add: fits_u32_def unat_of_nat)

lemma sint_of_fits: "fits_i64 v \<Longrightarrow> sint (word_of_int v :: u64) = v"
  unfolding fits_i64_def sint_sbintrunc' by (rule signed_take_bit_int_eq_self) simp_all

lemma reader_i64_written [codec_simps]:
  "fits_i64 v \<Longrightarrow> reader_i64 (new_reader (writer_i64 v @ bs)) = (v, new_reader bs)"
  by (simp add: reader_i64_def writer_i64_def codec_simps sint_of_fits)

lemma reader_real_written [codec_simps]:
  "is_double v \<Longrightarrow> reader_real (new_reader (writer_real v @ bs)) = (v, new_reader bs)"
  by (simp add: reader_real_def writer_real_def codec_simps f64_bits_inverse)

lemma char_of_byte_of_char [simp]: "char_of_byte (byte_of_char c) = c"
  by (simp add: char_of_byte_def byte_of_char_def unat_of_nat)

text \<open>A text that fits its bound.\<close>

definition text_fits :: "nat \<Rightarrow> string \<Rightarrow> bool" where
  "text_fits limit s \<longleftrightarrow> length s \<le> limit \<and> fits_u32 (length s)"

lemma reader_text_written [codec_simps]:
  "text_fits limit s \<Longrightarrow> reader_text limit (new_reader (writer_text s @ bs)) = (s, new_reader bs)"
  by (simp add: reader_text_def writer_text_def codec_simps text_fits_def unat_of_fits comp_def)

lemma reader_flag_written [codec_simps]:
  "reader_flag (new_reader (writer_bool b @ bs)) = (b, new_reader bs)"
  by (simp add: reader_flag_def writer_bool_def codec_simps)

lemma reader_u8_bool [codec_simps]:
  "reader_u8 (new_reader (writer_bool b @ bs)) = (if b then 1 else 0, new_reader bs)"
  by (simp add: writer_bool_def codec_simps)

lemma reader_presence_written [codec_simps]:
  "reader_presence (new_reader (writer_bool b @ bs)) = (b, new_reader bs)"
  by (simp add: reader_presence_def writer_bool_def codec_simps)

lemma reader_presence_optional [codec_simps]:
  "reader_presence (new_reader (writer_optional f v @ bs)) =
     (v \<noteq> None, new_reader ((case v of None \<Rightarrow> [] | Some x \<Rightarrow> f x) @ bs))"
  by (cases v) (simp_all add: reader_presence_def writer_optional_def codec_simps)

section \<open>Enumerations\<close>

text \<open>
  An enumeration is written as its value, the position of the constructor in its declaration;
  \<open>all\<close> lists the constructors in that order. \<^verbatim>\<open>enum_valid\<close> is the range check of the
  decoders, which is made before the cast.
\<close>

definition enum_code :: "'a list \<Rightarrow> 'a \<Rightarrow> u8" where
  "enum_code all x = of_nat (length (takeWhile (\<lambda>y. y \<noteq> x) all))"

definition enum_valid :: "'a list \<Rightarrow> u8 \<Rightarrow> bool" where
  "enum_valid all raw \<longleftrightarrow> unat raw < length all"

definition enum_at :: "'a list \<Rightarrow> u8 \<Rightarrow> 'a" where
  "enum_at all raw = all ! unat raw"

lemma takeWhile_neq_short: "x \<in> set xs \<Longrightarrow> length (takeWhile (\<lambda>y. y \<noteq> x) xs) < length xs"
  by (induction xs) auto

lemma enum_code_written:
  assumes "x \<in> set all" "length all < 256"
  shows "enum_valid all (enum_code all x) \<and> enum_at all (enum_code all x) = x"
proof -
  let ?n = "length (takeWhile (\<lambda>y. y \<noteq> x) all)"
  have "?n < length all"
    using assms(1) by (rule takeWhile_neq_short)
  moreover from this have "all ! ?n = x" using nth_length_takeWhile by blast
  moreover have "unat (of_nat ?n :: u8) = ?n"
    using \<open>?n < length all\<close> assms(2) by (simp add: unat_of_nat)
  ultimately show ?thesis by (simp add: enum_code_def enum_valid_def enum_at_def)
qed

section \<open>Decoders that can refuse\<close>

text \<open>A \<^verbatim>\<open>Result\<close> with the reader it leaves behind, and the early return on an error.\<close>

type_synonym 'a decoded = "('a \<times> reader) result"

definition and_then :: "'a decoded \<Rightarrow> ('a \<Rightarrow> reader \<Rightarrow> 'b result) \<Rightarrow> 'b result" where
  "and_then m f = (case m of Inl e \<Rightarrow> Inl e | Inr (x, r) \<Rightarrow> f x r)"

lemma and_then_simps [simp]: "and_then (Inl e) f = Inl e" "and_then (Inr (x, r)) f = f x r"
  by (simp_all add: and_then_def)

lemma and_then_cong [cong]: "m = m' \<Longrightarrow> and_then m f = and_then m' f"
  by simp

text \<open>\<^verbatim>\<open>for (i = 0; i < count; ++i)\<close> over a decoder.\<close>

fun reader_many :: "nat \<Rightarrow> (reader \<Rightarrow> 'a decoded) \<Rightarrow> reader \<Rightarrow> 'a list decoded" where
  "reader_many 0 decode r = Inr ([], r)"
| "reader_many (Suc n) decode r =
     and_then (decode r) (\<lambda>x r. and_then (reader_many n decode r) (\<lambda>xs r. Inr (x # xs, r)))"

text \<open>
  The contract between a writer and its decoder: on a written valid value the decoder returns
  what the format keeps of the value and stops right behind it. It carries over to sequences.
\<close>

locale codec =
  fixes encode :: "'a \<Rightarrow> u8 list"
    and decode :: "reader \<Rightarrow> 'a decoded"
    and valid :: "'a \<Rightarrow> bool"
    and kept :: "'a \<Rightarrow> 'a"
  assumes written: "valid x \<Longrightarrow> decode (new_reader (encode x @ bs)) = Inr (kept x, new_reader bs)"
begin

lemma whole: "valid x \<Longrightarrow> decode (new_reader (encode x)) = Inr (kept x, new_reader [])"
  using written [of x "[]"] by simp

lemma many:
  "list_all valid xs \<Longrightarrow>
     reader_many (length xs) decode (new_reader (concat (map encode xs) @ bs)) =
       Inr (map kept xs, new_reader bs)"
  by (induction xs) (simp_all add: written)

end

end
