(* ===== verification/Codes.thy ===== *)
theory Codes
  imports Binary GovernorActions
begin

text \<open>
  The constructors of the enumerations the codecs write, in the order of their declaration, and
  the values and subjects that both codecs share.
\<close>

section \<open>Constructors in declaration order\<close>

definition all_provenances :: "provenance list" where
  "all_provenances =
     [P_UNKNOWN, P_REAL, P_SYNTHETIC, P_UNSUPPORTED]"

lemma all_provenances_complete [simp]: "x \<in> set all_provenances"
  by (cases x) (simp_all add: all_provenances_def)

definition all_measurement_sources :: "measurement_source list" where
  "all_measurement_sources =
     [MS_UNKNOWN, MS_NVML_GPU_TEMPERATURE, MS_NVML_TEMPERATURE_THRESHOLD,
      MS_CUDA_DEVICE_ATTRIBUTE, MS_PLATFORM_SENSOR, MS_NODE_SENSOR, MS_RACK_SENSOR,
      MS_COOLING_ZONE_SENSOR, MS_OPERATOR_INJECTED, MS_SYNTHETIC_MODEL]"

lemma all_measurement_sources_complete [simp]: "x \<in> set all_measurement_sources"
  by (cases x) (simp_all add: all_measurement_sources_def)

definition all_integrity_statuses :: "integrity_status list" where
  "all_integrity_statuses =
     [IS_OK, IS_DEGRADED, IS_FAILED]"

lemma all_integrity_statuses_complete [simp]: "x \<in> set all_integrity_statuses"
  by (cases x) (simp_all add: all_integrity_statuses_def)

definition all_thermal_capabilities :: "thermal_capability list" where
  "all_thermal_capabilities =
     [TC_DEVICE_IDENTITY, TC_TEMPERATURE, TC_TEMPERATURE_LIMIT,
      TC_TEMPERATURE_THRESHOLD_SHUTDOWN, TC_TEMPERATURE_THRESHOLD_SLOWDOWN,
      TC_THROTTLE_REASONS, TC_CURRENT_CLOCK, TC_MAX_CLOCK, TC_FAN_TELEMETRY,
      TC_COOLING_TELEMETRY, TC_THERMAL_DOMAIN_METADATA, TC_NODE_THERMAL_METADATA,
      TC_RACK_THERMAL_METADATA, TC_ACTUAL_THROTTLE_ENFORCEMENT,
      TC_CLOCK_REDUCTION_ENFORCEMENT]"

lemma all_thermal_capabilities_complete [simp]: "x \<in> set all_thermal_capabilities"
  by (cases x) (simp_all add: all_thermal_capabilities_def)

definition all_capability_states :: "capability_state list" where
  "all_capability_states =
     [CS_UNKNOWN, CS_SUPPORTED_REAL, CS_SUPPORTED_READ_ONLY, CS_SUPPORTED_SYNTHETIC,
      CS_UNSUPPORTED]"

lemma all_capability_states_complete [simp]: "x \<in> set all_capability_states"
  by (cases x) (simp_all add: all_capability_states_def)

definition all_throttle_classes :: "throttle_class list" where
  "all_throttle_classes =
     [TH_THROTTLE_UNKNOWN, TH_NO_THROTTLE_OBSERVED, TH_THERMAL_THROTTLE_OBSERVED,
      TH_NON_THERMAL_THROTTLE_OBSERVED, TH_THROTTLE_UNSUPPORTED]"

lemma all_throttle_classes_complete [simp]: "x \<in> set all_throttle_classes"
  by (cases x) (simp_all add: all_throttle_classes_def)

definition all_thermal_states :: "thermal_state list" where
  "all_thermal_states =
     [TS_NORMAL, TS_WARM, TS_NEAR_LIMIT, TS_DERATED, TS_THROTTLING, TS_CRITICAL,
      TS_REVALIDATION_REQUIRED, TS_UNKNOWN, TS_UNSUPPORTED]"

lemma all_thermal_states_complete [simp]: "x \<in> set all_thermal_states"
  by (cases x) (simp_all add: all_thermal_states_def)

definition all_thermal_decisions :: "thermal_decision list" where
  "all_thermal_decisions =
     [TD_ALLOW, TD_ALLOW_DERATED, TD_DEFER, TD_DENY, TD_REVALIDATION_REQUIRED, TD_UNKNOWN,
      TD_UNSUPPORTED]"

lemma all_thermal_decisions_complete [simp]: "x \<in> set all_thermal_decisions"
  by (cases x) (simp_all add: all_thermal_decisions_def)

definition all_derating_levels :: "derating_level list" where
  "all_derating_levels =
     [DL_FULL_CAPABILITY, DL_DERATED_CLOCK, DL_DERATED_ADMISSION, DL_DERATED_CONCURRENCY,
      DL_DERATED_WORKLOAD_CLASS, DL_DERATED_COMBINED, DL_NO_SAFE_EXECUTION,
      DL_REVALIDATION_REQUIRED, DL_UNKNOWN, DL_UNSUPPORTED]"

lemma all_derating_levels_complete [simp]: "x \<in> set all_derating_levels"
  by (cases x) (simp_all add: all_derating_levels_def)

definition all_mitigation_intents :: "mitigation_intent list" where
  "all_mitigation_intents =
     [MI_NO_ACTION, MI_REQUEST_CLOCK_REDUCTION, MI_REQUEST_CLOCK_RESTORE,
      MI_REQUEST_POWER_REDUCTION, MI_REQUEST_POWER_RESTORE,
      MI_REQUEST_ADMISSION_REDUCTION, MI_REQUEST_ADMISSION_RESTORE,
      MI_REQUEST_CONCURRENCY_REDUCTION, MI_REQUEST_CONCURRENCY_RESTORE,
      MI_REQUEST_WORKLOAD_MIGRATION, MI_REQUEST_CONTAINMENT,
      MI_REQUEST_COOLING_INTERVENTION]"

lemma all_mitigation_intents_complete [simp]: "x \<in> set all_mitigation_intents"
  by (cases x) (simp_all add: all_mitigation_intents_def)

definition all_domain_types :: "domain_type list" where
  "all_domain_types =
     [DT_ACCELERATOR, DT_ACCELERATOR_PARTITION, DT_NODE, DT_CHASSIS, DT_RACK,
      DT_COOLING_ZONE, DT_COUPLED_RESOURCE_GROUP]"

lemma all_domain_types_complete [simp]: "x \<in> set all_domain_types"
  by (cases x) (simp_all add: all_domain_types_def)

definition all_aggregation_rules :: "aggregation_rule list" where
  "all_aggregation_rules =
     [AR_HOTTEST_MEMBER_GOVERNS, AR_CONFIGURED_WEIGHTED_RULE, AR_NODE_SENSOR_GOVERNS,
      AR_SYNTHETIC_AGGREGATION]"

lemma all_aggregation_rules_complete [simp]: "x \<in> set all_aggregation_rules"
  by (cases x) (simp_all add: all_aggregation_rules_def)

definition all_coupling_types :: "coupling_type list" where
  "all_coupling_types =
     [CT_UNKNOWN_COUPLING, CT_SHARES_CHASSIS, CT_SHARES_AIRFLOW_PATH,
      CT_SHARES_COOLING_ZONE, CT_SHARES_HEATSINK, CT_THERMALLY_COUPLED,
      CT_SYNTHETIC_COUPLING]"

lemma all_coupling_types_complete [simp]: "x \<in> set all_coupling_types"
  by (cases x) (simp_all add: all_coupling_types_def)

definition all_subject_kinds :: "subject_kind list" where
  "all_subject_kinds =
     [SK_DEVICE, SK_NODE, SK_RACK, SK_COOLING_ZONE, SK_CHASSIS, SK_THERMAL_DOMAIN]"

lemma all_subject_kinds_complete [simp]: "x \<in> set all_subject_kinds"
  by (cases x) (simp_all add: all_subject_kinds_def)

definition all_workload_profiles :: "workload_profile list" where
  "all_workload_profiles =
     [WP_UNKNOWN_PROFILE, WP_LOW_THERMAL_INTENSITY, WP_MODERATE_THERMAL_INTENSITY,
      WP_HIGH_THERMAL_INTENSITY, WP_BURSTY_THERMAL_PROFILE, WP_CUSTOM]"

lemma all_workload_profiles_complete [simp]: "x \<in> set all_workload_profiles"
  by (cases x) (simp_all add: all_workload_profiles_def)

definition all_execution_classes :: "execution_class list" where
  "all_execution_classes =
     [XC_UNRESTRICTED, XC_REDUCED_CONCURRENCY, XC_REDUCED_CLOCK, XC_BEST_EFFORT_THERMAL]"

lemma all_execution_classes_complete [simp]: "x \<in> set all_execution_classes"
  by (cases x) (simp_all add: all_execution_classes_def)

definition all_unknown_behaviors :: "unknown_behavior list" where
  "all_unknown_behaviors =
     [UB_RETURN_UNKNOWN, UB_REVALIDATION_REQUIRED, UB_DEFER, UB_DENY, UB_ALLOW_DERATED]"

lemma all_unknown_behaviors_complete [simp]: "x \<in> set all_unknown_behaviors"
  by (cases x) (simp_all add: all_unknown_behaviors_def)

definition all_unsupported_behaviors :: "unsupported_behavior list" where
  "all_unsupported_behaviors =
     [US_RETURN_UNSUPPORTED, US_REVALIDATION_REQUIRED, US_DEFER, US_DENY]"

lemma all_unsupported_behaviors_complete [simp]: "x \<in> set all_unsupported_behaviors"
  by (cases x) (simp_all add: all_unsupported_behaviors_def)

definition all_verification_outcomes :: "verification_outcome list" where
  "all_verification_outcomes =
     [VO_OUTCOME_UNKNOWN, VO_THERMAL_STATE_IMPROVED, VO_THERMAL_STATE_UNCHANGED,
      VO_THERMAL_STATE_WORSENED, VO_DERATING_EFFECTIVE, VO_DERATING_PARTIALLY_EFFECTIVE,
      VO_DERATING_INEFFECTIVE, VO_SECONDARY_VIOLATION_CREATED, VO_RECOVERY_ALLOWED,
      VO_RECOVERY_FORBIDDEN]"

lemma all_verification_outcomes_complete [simp]: "x \<in> set all_verification_outcomes"
  by (cases x) (simp_all add: all_verification_outcomes_def)

definition all_action_lifecycles :: "action_lifecycle list" where
  "all_action_lifecycles =
     [AL_PLANNED, AL_AUTHORIZED, AL_DISPATCHED, AL_ACKNOWLEDGED, AL_VERIFYING,
      AL_EFFECTIVE, AL_PARTIALLY_EFFECTIVE, AL_INEFFECTIVE, AL_WORSENED, AL_FAILED,
      AL_SUPERSEDED, AL_CANCELLED, AL_OUTCOME_UNKNOWN]"

lemma all_action_lifecycles_complete [simp]: "x \<in> set all_action_lifecycles"
  by (cases x) (simp_all add: all_action_lifecycles_def)

text \<open>Writing a constructor and reading it back.\<close>

lemma codes_small [simp]:
  "length all_provenances < 256"
  "length all_measurement_sources < 256"
  "length all_integrity_statuses < 256"
  "length all_thermal_capabilities < 256"
  "length all_capability_states < 256"
  "length all_throttle_classes < 256"
  "length all_thermal_states < 256"
  "length all_thermal_decisions < 256"
  "length all_derating_levels < 256"
  "length all_mitigation_intents < 256"
  "length all_domain_types < 256"
  "length all_aggregation_rules < 256"
  "length all_coupling_types < 256"
  "length all_subject_kinds < 256"
  "length all_workload_profiles < 256"
  "length all_execution_classes < 256"
  "length all_unknown_behaviors < 256"
  "length all_unsupported_behaviors < 256"
  "length all_verification_outcomes < 256"
  "length all_action_lifecycles < 256"
  by (simp_all add: all_provenances_def all_measurement_sources_def all_integrity_statuses_def all_thermal_capabilities_def all_capability_states_def all_throttle_classes_def all_thermal_states_def all_thermal_decisions_def all_derating_levels_def all_mitigation_intents_def all_domain_types_def all_aggregation_rules_def all_coupling_types_def all_subject_kinds_def all_workload_profiles_def all_execution_classes_def all_unknown_behaviors_def all_unsupported_behaviors_def all_verification_outcomes_def all_action_lifecycles_def)

lemma enum_valid_code [codec_simps]: "x \<in> set all \<Longrightarrow> length all < 256 \<Longrightarrow> enum_valid all (enum_code all x)"
  by (rule enum_code_written [THEN conjunct1])

lemma enum_at_code [codec_simps]: "x \<in> set all \<Longrightarrow> length all < 256 \<Longrightarrow> enum_at all (enum_code all x) = x"
  by (rule enum_code_written [THEN conjunct2])

section \<open>Subjects\<close>

definition write_subject :: "subject_ref \<Rightarrow> u8 list" where
  "write_subject s =
     writer_u8 (enum_code all_subject_kinds (sr_kind s)) @
     writer_u64 (sr_device s) @ writer_u64 (sr_device_generation s) @
     writer_u64 (sr_node s) @ writer_u64 (sr_node_generation s) @
     writer_u64 (sr_rack s) @ writer_u64 (sr_rack_generation s) @
     writer_u64 (sr_cooling_zone s) @ writer_u64 (sr_chassis s) @
     writer_u64 (sr_domain s) @ writer_u64 (sr_domain_generation s)"

end
