(* ===== verification/DurableRecords.thy ===== *)
theory DurableRecords
  imports Codes
begin

text \<open>
  The record codecs of \<^verbatim>\<open>persistence.cpp\<close>: how each part of the durable state is written and
  how it is read back from untrusted bytes. Errors carry their code; the detail texts are left
  out.
\<close>

section \<open>Limits and record types\<close>

record persistence_limits =
  pl_max_file_bytes :: nat
  pl_max_records :: nat
  pl_max_record_bytes :: nat
  pl_max_string_bytes :: nat
  pl_max_policies :: nat
  pl_max_devices :: nat
  pl_max_domains :: nat
  pl_max_couplings :: nat
  pl_max_transitions :: nat
  pl_max_actions :: nat
  pl_max_verifications :: nat

definition default_persistence_limits :: persistence_limits where
  "default_persistence_limits =
     \<lparr>pl_max_file_bytes = 64 * 1024 * 1024, pl_max_records = 2000000,
      pl_max_record_bytes = 4 * 1024 * 1024, pl_max_string_bytes = 64 * 1024,
      pl_max_policies = 4096, pl_max_devices = 100000, pl_max_domains = 100000,
      pl_max_couplings = 200000, pl_max_transitions = 1000000, pl_max_actions = 500000,
      pl_max_verifications = 500000\<rparr>"

datatype record_type =
    RT_COORDINATOR_STATE
  | RT_POLICY
  | RT_DOMAIN_DEFINITION
  | RT_COUPLING
  | RT_STATE_TRANSITION
  | RT_ACTION_RECORD
  | RT_VERIFICATION_RECORD
  | RT_OPERATOR_CONFIG
  | RT_DEVICE_REGISTRATION

fun record_type_value :: "record_type \<Rightarrow> nat" where
  "record_type_value RT_COORDINATOR_STATE = 1"
| "record_type_value RT_POLICY = 2"
| "record_type_value RT_DOMAIN_DEFINITION = 3"
| "record_type_value RT_COUPLING = 4"
| "record_type_value RT_STATE_TRANSITION = 5"
| "record_type_value RT_ACTION_RECORD = 6"
| "record_type_value RT_VERIFICATION_RECORD = 7"
| "record_type_value RT_OPERATOR_CONFIG = 8"
| "record_type_value RT_DEVICE_REGISTRATION = 9"

definition all_record_types :: "record_type list" where
  "all_record_types =
     [RT_COORDINATOR_STATE, RT_POLICY, RT_DOMAIN_DEFINITION, RT_COUPLING, RT_STATE_TRANSITION,
      RT_ACTION_RECORD, RT_VERIFICATION_RECORD, RT_OPERATOR_CONFIG, RT_DEVICE_REGISTRATION]"

definition record_type_at :: "u16 \<Rightarrow> record_type" where
  "record_type_at raw = all_record_types ! (unat raw - 1)"

lemma record_type_written [simp]:
  "record_type_at (of_nat (record_type_value t)) = t"
  "of_nat (record_type_value t) \<noteq> (0 :: u16)"
  "\<not> (9 :: u16) < of_nat (record_type_value t)"
  by (cases t; simp add: record_type_at_def all_record_types_def)+

section \<open>Policies\<close>

definition read_temperature :: "reader \<Rightarrow> celsius decoded" where
  "read_temperature r =
     (let (raw, r) = reader_real r
      in if \<not> rd_ok r then Inl E_PERSISTENCE_CORRUPT
         else case celsius_try_from raw of
           None \<Rightarrow> Inl E_TEMPERATURE_INVALID
         | Some t \<Rightarrow> Inr (t, r))"

definition write_thresholds :: "thresholds \<Rightarrow> u8 list" where
  "write_thresholds t =
     writer_real (th_warning t) @ writer_real (th_derating t) @ writer_real (th_critical t) @
     writer_real (th_recovery t) @ writer_real (th_near_limit_band t)"

text \<open>\<^verbatim>\<open>set_temp\<close> forgets which error the temperature had.\<close>

definition set_temp :: "reader \<Rightarrow> celsius decoded" where
  "set_temp r = (case read_temperature r of Inl _ \<Rightarrow> Inl E_PERSISTENCE_CORRUPT | Inr x \<Rightarrow> Inr x)"

definition read_thresholds :: "reader \<Rightarrow> thresholds decoded" where
  "read_thresholds r =
     and_then (set_temp r) (\<lambda>warning r.
     and_then (set_temp r) (\<lambda>derating r.
     and_then (set_temp r) (\<lambda>critical r.
     and_then (set_temp r) (\<lambda>recovery r.
     let (band, r) = reader_real r
     in Inr (\<lparr>th_warning = warning, th_derating = derating, th_critical = critical,
          th_recovery = recovery, th_near_limit_band = band\<rparr>, r)))))"

definition write_margins :: "margins \<Rightarrow> u8 list" where
  "write_margins m =
     writer_real (mg_policy_safety m) @ writer_real (mg_uncertainty m) @ writer_real (mg_recovery m)"

definition read_margins :: "reader \<Rightarrow> margins \<times> reader" where
  "read_margins r =
     (let (safety, r) = reader_real r; (uncertainty, r) = reader_real r; (recovery, r) = reader_real r
      in (\<lparr>mg_policy_safety = safety, mg_uncertainty = uncertainty, mg_recovery = recovery\<rparr>, r))"

definition write_freshness :: "freshness_requirements \<Rightarrow> u8 list" where
  "write_freshness f =
     writer_i64 (fr_max_age f) @ writer_u32 (fr_required_consecutive_samples f) @
     writer_i64 (fr_min_evidence_span f) @ writer_u32 (fr_min_distinct_witnesses f)"

definition read_freshness :: "reader \<Rightarrow> freshness_requirements \<times> reader" where
  "read_freshness r =
     (let (age, r) = reader_i64 r; (samples, r) = reader_u32 r; (span, r) = reader_i64 r;
          (witnesses, r) = reader_u32 r
      in (\<lparr>fr_max_age = age, fr_required_consecutive_samples = samples,
           fr_min_evidence_span = span, fr_min_distinct_witnesses = witnesses\<rparr>, r))"

definition write_recovery_policy :: "recovery_policy \<Rightarrow> u8 list" where
  "write_recovery_policy p =
     writer_bool (rp_require_no_thermal_throttle p) @
     writer_bool (rp_require_headroom_above_recovery_margin p) @
     writer_bool (rp_require_coupled_domains_recovered p) @
     writer_bool (rp_require_same_worker_boot p) @
     writer_bool (rp_require_same_coordinator_epoch p) @
     writer_bool (rp_require_same_device_generation p) @
     writer_bool (rp_require_explicit_authorization p) @
     writer_bool (rp_forbid_recovery_after_unsupported_evidence p)"

definition read_recovery_policy :: "reader \<Rightarrow> recovery_policy \<times> reader" where
  "read_recovery_policy r =
     (let (throttle, r) = reader_flag r; (headroom, r) = reader_flag r; (coupled, r) = reader_flag r;
          (boot, r) = reader_flag r; (epoch, r) = reader_flag r; (device, r) = reader_flag r;
          (explicit, r) = reader_flag r; (unsupported, r) = reader_flag r
      in (\<lparr>rp_require_no_thermal_throttle = throttle,
           rp_require_headroom_above_recovery_margin = headroom,
           rp_require_coupled_domains_recovered = coupled, rp_require_same_worker_boot = boot,
           rp_require_same_coordinator_epoch = epoch, rp_require_same_device_generation = device,
           rp_require_explicit_authorization = explicit,
           rp_forbid_recovery_after_unsupported_evidence = unsupported\<rparr>, r))"

definition write_verification_policy :: "verification_policy \<Rightarrow> u8 list" where
  "write_verification_policy p =
     writer_bool (vp_required p) @ writer_real (vp_improvement_epsilon p) @
     writer_u32 (vp_required_samples p)"

definition read_verification_policy :: "reader \<Rightarrow> verification_policy \<times> reader" where
  "read_verification_policy r =
     (let (required, r) = reader_flag r; (epsilon, r) = reader_real r; (samples, r) = reader_u32 r
      in (\<lparr>vp_required = required, vp_improvement_epsilon = epsilon,
           vp_required_samples = samples\<rparr>, r))"

definition write_admission_policy :: "admission_policy \<Rightarrow> u8 list" where
  "write_admission_policy p =
     writer_real (ap_min_effective_headroom p) @ writer_bool (ap_allow_derated_admission p) @
     writer_bool (ap_allow_defer p)"

definition read_admission_policy :: "reader \<Rightarrow> admission_policy \<times> reader" where
  "read_admission_policy r =
     (let (headroom, r) = reader_real r; (derated, r) = reader_flag r; (defer, r) = reader_flag r
      in (\<lparr>ap_min_effective_headroom = headroom, ap_allow_derated_admission = derated,
           ap_allow_defer = defer\<rparr>, r))"

definition write_concurrency_policy :: "concurrency_policy \<Rightarrow> u8 list" where
  "write_concurrency_policy p =
     writer_real (cc_normal p) @ writer_real (cc_warm p) @ writer_real (cc_near_limit p) @
     writer_real (cc_derated p) @ writer_real (cc_critical p)"

definition read_concurrency_policy :: "reader \<Rightarrow> concurrency_policy \<times> reader" where
  "read_concurrency_policy r =
     (let (normal, r) = reader_real r; (warm, r) = reader_real r; (near, r) = reader_real r;
          (derated, r) = reader_real r; (critical, r) = reader_real r
      in (\<lparr>cc_normal = normal, cc_warm = warm, cc_near_limit = near, cc_derated = derated,
           cc_critical = critical\<rparr>, r))"

definition write_emergency_policy :: "emergency_policy \<Rightarrow> u8 list" where
  "write_emergency_policy p =
     writer_bool (em_deny_all_execution p) @ writer_bool (em_allow_containment_intent p) @
     writer_bool (em_allow_migration_intent p) @
     writer_bool (em_allow_cooling_intervention_intent p)"

definition read_emergency_policy :: "reader \<Rightarrow> emergency_policy \<times> reader" where
  "read_emergency_policy r =
     (let (deny, r) = reader_flag r; (containment, r) = reader_flag r; (migration, r) = reader_flag r;
          (cooling, r) = reader_flag r
      in (\<lparr>em_deny_all_execution = deny, em_allow_containment_intent = containment,
           em_allow_migration_intent = migration, em_allow_cooling_intervention_intent = cooling\<rparr>, r))"

definition write_coupling_policy :: "coupling_policy \<Rightarrow> u8 list" where
  "write_coupling_policy p =
     writer_bool (cp_co_derate_coupled_domains p) @ writer_u32 (cp_max_propagation_depth p) @
     writer_bool (cp_require_coupled_recovery p) @ writer_bool (cp_escalate_to_hottest_neighbour p)"

definition read_coupling_policy :: "reader \<Rightarrow> coupling_policy \<times> reader" where
  "read_coupling_policy r =
     (let (co_derate, r) = reader_flag r; (depth, r) = reader_u32 r; (coupled, r) = reader_flag r;
          (escalate, r) = reader_flag r
      in (\<lparr>cp_co_derate_coupled_domains = co_derate, cp_max_propagation_depth = depth,
           cp_require_coupled_recovery = coupled, cp_escalate_to_hottest_neighbour = escalate\<rparr>, r))"

definition write_restriction :: "workload_restriction \<Rightarrow> u8 list" where
  "write_restriction w =
     writer_u8 (enum_code all_workload_profiles (wr_profile w)) @ writer_bool (wr_allowed w) @
     writer_u8 (enum_code all_execution_classes (wr_required_class w)) @
     writer_real (wr_extra_headroom_demand w)"

definition read_restriction :: "reader \<Rightarrow> workload_restriction decoded" where
  "read_restriction r =
     (let (profile, r) = reader_u8 r; (allowed, r) = reader_u8 r; (exec_class, r) = reader_u8 r;
          (extra, r) = reader_real r
      in if \<not> enum_valid all_workload_profiles profile \<or>
            \<not> enum_valid all_execution_classes exec_class \<or> 1 < allowed
         then Inl E_PERSISTENCE_CORRUPT
         else Inr (\<lparr>wr_profile = enum_at all_workload_profiles profile, wr_allowed = (allowed \<noteq> 0),
               wr_required_class = enum_at all_execution_classes exec_class,
               wr_extra_headroom_demand = extra\<rparr>, r))"

definition write_policy :: "thermal_policy \<Rightarrow> u8 list" where
  "write_policy p =
     writer_u64 (pol_id p) @ writer_u64 (pol_generation p) @ writer_text (pol_label p) @
     write_thresholds (pol_thresholds p) @ write_margins (pol_margins p) @
     write_freshness (pol_freshness p) @ write_recovery_policy (pol_recovery p) @
     write_verification_policy (pol_verification p) @ write_admission_policy (pol_admission p) @
     write_concurrency_policy (pol_concurrency p) @ write_emergency_policy (pol_emergency p) @
     write_coupling_policy (pol_coupling p) @
     writer_u8 (enum_code all_unknown_behaviors (pol_unknown_behavior p)) @
     writer_u8 (enum_code all_unsupported_behaviors (pol_unsupported_behavior p)) @
     writer_u32 (pol_allowed_intents p) @
     writer_seq write_restriction (pol_workload_restrictions p)"

definition read_policy :: "persistence_limits \<Rightarrow> reader \<Rightarrow> thermal_policy decoded" where
  "read_policy limits r =
     (let (id, r) = reader_u64 r; (generation, r) = reader_u64 r;
          (label, r) = reader_text (pl_max_string_bytes limits) r
      in and_then (read_thresholds r) (\<lambda>thresholds r.
         let (margins, r) = read_margins r; (freshness, r) = read_freshness r;
             (recovery, r) = read_recovery_policy r; (verification, r) = read_verification_policy r;
             (admission, r) = read_admission_policy r; (concurrency, r) = read_concurrency_policy r;
             (emergency, r) = read_emergency_policy r; (coupling, r) = read_coupling_policy r;
             (unknown, r) = reader_u8 r; (unsupported, r) = reader_u8 r
         in if \<not> enum_valid all_unknown_behaviors unknown \<or>
               \<not> enum_valid all_unsupported_behaviors unsupported
            then Inl E_PERSISTENCE_CORRUPT
            else
              let (intents, r) = reader_u32 r; (restriction_count, r) = reader_u32 r
              in if \<not> rd_ok r \<or> 64 < restriction_count then Inl E_PERSISTENCE_CORRUPT
                 else and_then (reader_many (unat restriction_count) read_restriction r)
                   (\<lambda>restrictions r.
                    if \<not> rd_ok r then Inl E_PERSISTENCE_CORRUPT
                    else Inr (\<lparr>pol_id = id, pol_generation = generation, pol_label = label,
                      pol_thresholds = thresholds, pol_margins = margins,
                      pol_freshness = freshness, pol_recovery = recovery,
                      pol_verification = verification, pol_admission = admission,
                      pol_concurrency = concurrency, pol_emergency = emergency,
                      pol_coupling = coupling,
                      pol_unknown_behavior = enum_at all_unknown_behaviors unknown,
                      pol_unsupported_behavior = enum_at all_unsupported_behaviors unsupported,
                      pol_allowed_intents = intents,
                      pol_workload_restrictions = restrictions\<rparr>, r))))"

section \<open>Devices\<close>

definition cap_detail :: "capability_set \<Rightarrow> thermal_capability \<Rightarrow> string" where
  "cap_detail cs c =
     (let index = thermal_capability_value c
      in if index \<ge> kThermalCapabilityCount then [] else cap_details cs ! index)"

definition write_capability :: "capability_set \<Rightarrow> thermal_capability \<Rightarrow> u8 list" where
  "write_capability cs c =
     writer_u8 (enum_code all_capability_states (cap_get cs c)) @ writer_text (cap_detail cs c)"

text \<open>The loop over the capabilities, which fills the set of the device.\<close>

fun read_capabilities ::
  "nat \<Rightarrow> thermal_capability list \<Rightarrow> capability_set \<Rightarrow> reader \<Rightarrow> capability_set decoded" where
  "read_capabilities limit [] cs r = Inr (cs, r)"
| "read_capabilities limit (c # rest) cs r =
     (let (state, r) = reader_u8 r; (detail, r) = reader_text limit r
      in if \<not> rd_ok r \<or> \<not> enum_valid all_capability_states state then Inl E_PERSISTENCE_CORRUPT
         else read_capabilities limit rest
           (cap_set cs c (enum_at all_capability_states state) detail) r)"

definition write_device :: "device_registration \<Rightarrow> u8 list" where
  "write_device d =
     writer_u64 (dr_device d) @ writer_u64 (dr_generation d) @ writer_u64 (dr_node d) @
     writer_u64 (dr_node_generation d) @ writer_u64 (dr_rack d) @ writer_u64 (dr_rack_generation d) @
     writer_text (dr_label d) @ writer_u8 (enum_code all_provenances (dr_provenance d)) @
     writer_u64 (cap_generation (dr_capabilities d)) @
     concat (map (write_capability (dr_capabilities d)) all_thermal_capabilities)"

definition read_device :: "persistence_limits \<Rightarrow> reader \<Rightarrow> device_registration decoded" where
  "read_device limits r =
     (let (device, r) = reader_u64 r; (generation, r) = reader_u64 r; (node, r) = reader_u64 r;
          (node_generation, r) = reader_u64 r; (rack, r) = reader_u64 r;
          (rack_generation, r) = reader_u64 r; (label, r) = reader_text (pl_max_string_bytes limits) r;
          (provenance, r) = reader_u8 r
      in if \<not> rd_ok r \<or> \<not> enum_valid all_provenances provenance then Inl E_PERSISTENCE_CORRUPT
         else
           let (capability_generation, r) = reader_u64 r
           in and_then
             (read_capabilities (pl_max_string_bytes limits) all_thermal_capabilities empty_capabilities r)
             (\<lambda>cs r.
              if \<not> rd_ok r then Inl E_PERSISTENCE_CORRUPT
              else Inr (\<lparr>dr_device = device, dr_generation = generation, dr_node = node,
                dr_node_generation = node_generation, dr_rack = rack,
                dr_rack_generation = rack_generation, dr_label = label,
                dr_capabilities = cs \<lparr>cap_generation := capability_generation\<rparr>,
                dr_provenance = enum_at all_provenances provenance\<rparr>, r)))"

section \<open>Domains\<close>

definition read_subject :: "reader \<Rightarrow> subject_ref decoded" where
  "read_subject r =
     (let (kind, r) = reader_u8 r
      in if \<not> enum_valid all_subject_kinds kind then Inl E_PERSISTENCE_CORRUPT
         else
           let (device, r) = reader_u64 r; (device_generation, r) = reader_u64 r;
               (node, r) = reader_u64 r; (node_generation, r) = reader_u64 r;
               (rack, r) = reader_u64 r; (rack_generation, r) = reader_u64 r;
               (zone, r) = reader_u64 r; (chassis, r) = reader_u64 r;
               (domain, r) = reader_u64 r; (domain_generation, r) = reader_u64 r
           in if \<not> rd_ok r then Inl E_PERSISTENCE_CORRUPT
              else Inr (\<lparr>sr_kind = enum_at all_subject_kinds kind, sr_device = device,
                sr_device_generation = device_generation, sr_node = node,
                sr_node_generation = node_generation, sr_rack = rack,
                sr_rack_generation = rack_generation, sr_cooling_zone = zone,
                sr_chassis = chassis, sr_domain = domain,
                sr_domain_generation = domain_generation\<rparr>, r))"

definition write_member :: "domain_member \<Rightarrow> u8 list" where
  "write_member m = write_subject (dm_subject m) @ writer_real (dm_weight m)"

definition read_member :: "reader \<Rightarrow> domain_member decoded" where
  "read_member r =
     and_then (read_subject r) (\<lambda>subject r.
     let (weight, r) = reader_real r
     in Inr (\<lparr>dm_subject = subject, dm_weight = weight\<rparr>, r))"

definition read_child :: "reader \<Rightarrow> ident decoded" where
  "read_child r = Inr (reader_u64 r)"

definition write_domain :: "domain_definition \<Rightarrow> u8 list" where
  "write_domain d =
     writer_u64 (dd_id d) @ writer_u64 (dd_generation d) @
     writer_u8 (enum_code all_domain_types (dd_type d)) @ writer_text (dd_label d) @
     writer_seq write_member (dd_members d) @ writer_optional writer_u64 (dd_parent d) @
     writer_seq writer_u64 (dd_children d) @ writer_u64 (dd_policy d) @
     writer_u64 (dd_policy_generation d) @ writer_u8 (enum_code all_provenances (dd_provenance d)) @
     writer_text (dd_evidence_source d) @
     writer_u8 (enum_code all_aggregation_rules (dd_aggregation d)) @ writer_u64 (dd_rack d) @
     writer_u64 (dd_rack_generation d) @ writer_u64 (dd_cooling_zone d) @
     writer_optional writer_real (dd_synthetic_aggregate_offset d)"

definition read_domain :: "persistence_limits \<Rightarrow> reader \<Rightarrow> domain_definition decoded" where
  "read_domain limits r =
     (let (id, r) = reader_u64 r; (generation, r) = reader_u64 r; (type, r) = reader_u8 r
      in if \<not> enum_valid all_domain_types type then Inl E_PERSISTENCE_CORRUPT
         else
      let (label, r) = reader_text (pl_max_string_bytes limits) r; (member_count, r) = reader_u32 r
      in if \<not> rd_ok r \<or> pl_max_domains limits < unat member_count then Inl E_PERSISTENCE_CORRUPT
         else and_then (reader_many (unat member_count) read_member r) (\<lambda>members r.
      let (parent, r) = reader_optional reader_u64 r; (child_count, r) = reader_u32 r
      in if \<not> rd_ok r \<or> pl_max_domains limits < unat child_count then Inl E_PERSISTENCE_CORRUPT
         else and_then (reader_many (unat child_count) read_child r) (\<lambda>children r.
      let (policy, r) = reader_u64 r; (policy_generation, r) = reader_u64 r;
          (provenance, r) = reader_u8 r
      in if \<not> enum_valid all_provenances provenance then Inl E_PERSISTENCE_CORRUPT
         else
      let (source, r) = reader_text (pl_max_string_bytes limits) r; (aggregation, r) = reader_u8 r
      in if \<not> enum_valid all_aggregation_rules aggregation then Inl E_PERSISTENCE_CORRUPT
         else
      let (rack, r) = reader_u64 r; (rack_generation, r) = reader_u64 r; (zone, r) = reader_u64 r;
          (offset, r) = reader_optional reader_real r
      in if \<not> rd_ok r then Inl E_PERSISTENCE_CORRUPT
         else Inr (\<lparr>dd_id = id, dd_generation = generation, dd_type = enum_at all_domain_types type,
           dd_label = label, dd_members = members, dd_parent = parent, dd_children = children,
           dd_policy = policy, dd_policy_generation = policy_generation,
           dd_provenance = enum_at all_provenances provenance, dd_evidence_source = source,
           dd_aggregation = enum_at all_aggregation_rules aggregation, dd_rack = rack,
           dd_rack_generation = rack_generation, dd_cooling_zone = zone,
           dd_synthetic_aggregate_offset = offset\<rparr>, r))))"

section \<open>Couplings and transitions\<close>

definition write_coupling :: "coupling_relation \<Rightarrow> u8 list" where
  "write_coupling c =
     writer_u64 (cr_id c) @ writer_u64 (cr_source c) @ writer_u64 (cr_destination c) @
     writer_u8 (enum_code all_coupling_types (cr_type c)) @ writer_u64 (cr_generation c) @
     writer_u8 (enum_code all_provenances (cr_provenance c)) @ writer_text (cr_evidence_source c) @
     writer_real (cr_weight c) @ writer_bool (cr_directed c) @ writer_bool (cr_valid_until c \<noteq> None)"

text \<open>An expiry is announced but never written, and it is never restored.\<close>

definition read_coupling :: "persistence_limits \<Rightarrow> reader \<Rightarrow> coupling_relation decoded" where
  "read_coupling limits r =
     (let (id, r) = reader_u64 r; (source, r) = reader_u64 r; (destination, r) = reader_u64 r;
          (type, r) = reader_u8 r
      in if \<not> enum_valid all_coupling_types type then Inl E_PERSISTENCE_CORRUPT
         else
      let (generation, r) = reader_u64 r; (provenance, r) = reader_u8 r
      in if \<not> enum_valid all_provenances provenance then Inl E_PERSISTENCE_CORRUPT
         else
      let (evidence, r) = reader_text (pl_max_string_bytes limits) r; (weight, r) = reader_real r;
          (directed, r) = reader_u8 r; (has_expiry, r) = reader_u8 r
      in if 1 < directed \<or> 1 < has_expiry then Inl E_PERSISTENCE_CORRUPT
         else if \<not> rd_ok r then Inl E_PERSISTENCE_CORRUPT
         else Inr (\<lparr>cr_id = id, cr_source = source, cr_destination = destination,
           cr_type = enum_at all_coupling_types type, cr_generation = generation,
           cr_provenance = enum_at all_provenances provenance, cr_evidence_source = evidence,
           cr_weight = weight, cr_directed = (directed \<noteq> 0), cr_valid_until = None\<rparr>, r))"

definition write_transition :: "transition_record \<Rightarrow> u8 list" where
  "write_transition t =
     writer_u64 (tr_domain t) @ writer_u64 (tr_domain_generation t) @
     writer_u8 (enum_code all_thermal_states (tr_from t)) @
     writer_u8 (enum_code all_thermal_states (tr_to t)) @
     writer_u8 (enum_code all_derating_levels (tr_derating_from t)) @
     writer_u8 (enum_code all_derating_levels (tr_derating_to t)) @
     writer_u8 (enum_code all_thermal_decisions (tr_decision t)) @
     writer_real (tr_temperature t) @ writer_u64 (tr_policy_generation t) @
     writer_u64 (tr_telemetry_generation t) @ writer_u64 (tr_coordinator_epoch t) @
     writer_u64 (tr_sequence t)"

definition read_transition :: "reader \<Rightarrow> transition_record decoded" where
  "read_transition r =
     (let (domain, r) = reader_u64 r; (domain_generation, r) = reader_u64 r;
          (from_state, r) = reader_u8 r; (to_state, r) = reader_u8 r;
          (derating_from, r) = reader_u8 r; (derating_to, r) = reader_u8 r;
          (decision, r) = reader_u8 r
      in if \<not> enum_valid all_thermal_states from_state \<or> \<not> enum_valid all_thermal_states to_state \<or>
            \<not> enum_valid all_derating_levels derating_from \<or>
            \<not> enum_valid all_derating_levels derating_to \<or>
            \<not> enum_valid all_thermal_decisions decision
         then Inl E_PERSISTENCE_CORRUPT
         else
      let (raw, r) = reader_real r
      in case celsius_try_from raw of
           None \<Rightarrow> Inl E_TEMPERATURE_INVALID
         | Some temperature \<Rightarrow>
      let (policy, r) = reader_u64 r; (telemetry, r) = reader_u64 r; (epoch, r) = reader_u64 r;
          (sequence, r) = reader_u64 r
      in if \<not> rd_ok r then Inl E_PERSISTENCE_CORRUPT
         else Inr (\<lparr>tr_domain = domain, tr_domain_generation = domain_generation,
           tr_from = enum_at all_thermal_states from_state,
           tr_to = enum_at all_thermal_states to_state,
           tr_derating_from = enum_at all_derating_levels derating_from,
           tr_derating_to = enum_at all_derating_levels derating_to,
           tr_decision = enum_at all_thermal_decisions decision, tr_temperature = temperature,
           tr_policy_generation = policy, tr_telemetry_generation = telemetry,
           tr_coordinator_epoch = epoch, tr_sequence = sequence\<rparr>, r))"

section \<open>Actions and verifications\<close>

definition write_authority :: "action_authority \<Rightarrow> u8 list" where
  "write_authority u =
     writer_u64 (aa_coordinator_epoch u) @ writer_u64 (aa_action_id u) @
     writer_u64 (aa_action_generation u) @ writer_u64 (aa_domain u) @
     writer_u64 (aa_domain_generation u) @ writer_u64 (aa_device u) @
     writer_u64 (aa_device_generation u) @ writer_u64 (aa_policy_generation u) @
     writer_u64 (aa_telemetry_generation u) @ writer_u64 (aa_worker u) @
     writer_u64 (aa_worker_boot u) @ writer_u64 (aa_topology_generation u) @
     writer_u64 (aa_capability_generation u)"

definition read_authority :: "reader \<Rightarrow> action_authority \<times> reader" where
  "read_authority r =
     (let (epoch, r) = reader_u64 r; (id, r) = reader_u64 r; (generation, r) = reader_u64 r;
          (domain, r) = reader_u64 r; (domain_generation, r) = reader_u64 r;
          (device, r) = reader_u64 r; (device_generation, r) = reader_u64 r;
          (policy, r) = reader_u64 r; (telemetry, r) = reader_u64 r; (worker, r) = reader_u64 r;
          (boot, r) = reader_u64 r; (topology, r) = reader_u64 r; (capability, r) = reader_u64 r
      in (\<lparr>aa_coordinator_epoch = epoch, aa_action_id = id, aa_action_generation = generation,
           aa_domain = domain, aa_domain_generation = domain_generation, aa_device = device,
           aa_device_generation = device_generation, aa_policy_generation = policy,
           aa_telemetry_generation = telemetry, aa_worker = worker, aa_worker_boot = boot,
           aa_topology_generation = topology, aa_capability_generation = capability\<rparr>, r))"

definition write_action :: "thermal_action \<Rightarrow> u8 list" where
  "write_action a =
     writer_u64 (ac_id a) @ writer_u64 (ac_generation a) @ write_authority (ac_authority a) @
     writer_u8 (enum_code all_mitigation_intents (ac_intent a)) @
     writer_u8 (enum_code all_action_lifecycles (ac_lifecycle a)) @
     writer_u8 (enum_code all_provenances (ac_provenance a)) @
     writer_optional writer_u32 (ac_requested_clock_ceiling a) @
     writer_optional writer_real (ac_requested_concurrency a) @
     writer_optional writer_real (ac_requested_admission a) @ writer_text (ac_detail a) @
     writer_u64 (ac_verification_generation a) @
     writer_u64 (ac_verification_telemetry_generation a) @
     writer_optional writer_u64 (ac_superseded_by a) @ writer_text (ac_authorization_source a)"

text \<open>A percentage that is present is checked when it is read.\<close>

definition read_percent :: "reader \<Rightarrow> percent option decoded" where
  "read_percent r =
     (case reader_presence r of
        (False, r) \<Rightarrow> Inr (None, r)
      | (True, r) \<Rightarrow>
          let (raw, r) = reader_real r
          in case percent_try_from raw of
               None \<Rightarrow> Inl E_PERSISTENCE_CORRUPT
             | Some p \<Rightarrow> Inr (Some p, r))"

definition read_action :: "persistence_limits \<Rightarrow> reader \<Rightarrow> thermal_action decoded" where
  "read_action limits r =
     (let (id, r) = reader_u64 r; (generation, r) = reader_u64 r; (authority, r) = read_authority r;
          (intent, r) = reader_u8 r; (lifecycle, r) = reader_u8 r; (provenance, r) = reader_u8 r
      in if \<not> enum_valid all_mitigation_intents intent \<or>
            \<not> enum_valid all_action_lifecycles lifecycle \<or> \<not> enum_valid all_provenances provenance
         then Inl E_PERSISTENCE_CORRUPT
         else
      let (clock, r) = reader_optional reader_u32 r
      in and_then (read_percent r) (\<lambda>concurrency r.
         and_then (read_percent r) (\<lambda>admission r.
      let (detail, r) = reader_text (pl_max_string_bytes limits) r;
          (verification_generation, r) = reader_u64 r;
          (verification_telemetry, r) = reader_u64 r;
          (superseded_by, r) = reader_optional reader_u64 r;
          (source, r) = reader_text (pl_max_string_bytes limits) r
      in if \<not> rd_ok r then Inl E_PERSISTENCE_CORRUPT
         else Inr (empty_action \<lparr>ac_id := id, ac_generation := generation,
           ac_authority := authority, ac_intent := enum_at all_mitigation_intents intent,
           ac_lifecycle := enum_at all_action_lifecycles lifecycle,
           ac_provenance := enum_at all_provenances provenance,
           ac_requested_clock_ceiling := clock, ac_requested_concurrency := concurrency,
           ac_requested_admission := admission, ac_detail := detail,
           ac_verification_generation := verification_generation,
           ac_verification_telemetry_generation := verification_telemetry,
           ac_superseded_by := superseded_by, ac_authorization_source := source\<rparr>, r))))"

definition write_verification :: "action_verification \<Rightarrow> u8 list" where
  "write_verification v =
     writer_u64 (av_action_id v) @ writer_u64 (av_generation v) @
     writer_u8 (enum_code all_verification_outcomes (av_outcome v)) @
     writer_u8 (enum_code all_action_lifecycles (av_resulting_lifecycle v)) @
     writer_real (av_temperature_before v) @ writer_real (av_temperature_after v) @
     writer_real (av_delta v) @ writer_real (av_headroom_before v) @
     writer_real (av_headroom_after v) @
     writer_u8 (enum_code all_thermal_states (av_state_before v)) @
     writer_u8 (enum_code all_thermal_states (av_state_after v)) @
     writer_u8 (enum_code all_derating_levels (av_derating_before v)) @
     writer_u8 (enum_code all_derating_levels (av_derating_after v)) @
     writer_bool (av_hard_constraint_still_violated v) @
     writer_bool (av_derating_still_required v) @
     writer_bool (av_recovery_conditions_satisfied v) @
     writer_u64 (av_telemetry_generation v) @ writer_u64 (av_policy_generation v) @
     writer_u64 (av_coordinator_epoch v)"

definition read_deg :: "reader \<Rightarrow> celsius decoded" where
  "read_deg r =
     (let (raw, r) = reader_real r
      in case celsius_try_from raw of None \<Rightarrow> Inl E_TEMPERATURE_INVALID | Some t \<Rightarrow> Inr (t, r))"

definition read_verification :: "reader \<Rightarrow> action_verification decoded" where
  "read_verification r =
     (let (action_id, r) = reader_u64 r; (generation, r) = reader_u64 r;
          (outcome, r) = reader_u8 r; (lifecycle, r) = reader_u8 r
      in if \<not> enum_valid all_verification_outcomes outcome \<or>
            \<not> enum_valid all_action_lifecycles lifecycle
         then Inl E_PERSISTENCE_CORRUPT
         else and_then (read_deg r) (\<lambda>before r. and_then (read_deg r) (\<lambda>after r.
      let (delta, r) = reader_real r; (headroom_before, r) = reader_real r;
          (headroom_after, r) = reader_real r; (state_before, r) = reader_u8 r;
          (state_after, r) = reader_u8 r; (derating_before, r) = reader_u8 r;
          (derating_after, r) = reader_u8 r
      in if \<not> enum_valid all_thermal_states state_before \<or>
            \<not> enum_valid all_thermal_states state_after \<or>
            \<not> enum_valid all_derating_levels derating_before \<or>
            \<not> enum_valid all_derating_levels derating_after
         then Inl E_PERSISTENCE_CORRUPT
         else
      let (violated, r) = reader_flag r; (required, r) = reader_flag r;
          (satisfied, r) = reader_flag r; (telemetry, r) = reader_u64 r;
          (policy, r) = reader_u64 r; (epoch, r) = reader_u64 r
      in if \<not> rd_ok r then Inl E_PERSISTENCE_CORRUPT
         else Inr (\<lparr>av_action_id = action_id, av_generation = generation,
           av_outcome = enum_at all_verification_outcomes outcome,
           av_temperature_before = before, av_temperature_after = after, av_delta = delta,
           av_headroom_before = headroom_before, av_headroom_after = headroom_after,
           av_state_before = enum_at all_thermal_states state_before,
           av_state_after = enum_at all_thermal_states state_after,
           av_derating_before = enum_at all_derating_levels derating_before,
           av_derating_after = enum_at all_derating_levels derating_after,
           av_resulting_lifecycle = enum_at all_action_lifecycles lifecycle,
           av_hard_constraint_still_violated = violated,
           av_derating_still_required = required,
           av_recovery_conditions_satisfied = satisfied, av_telemetry_generation = telemetry,
           av_policy_generation = policy, av_coordinator_epoch = epoch, av_reasons = []\<rparr>, r))))"

end
