(* ===== verification/DurableLaws.thy ===== *)
theory DurableLaws
  imports DurableRecords
begin

text \<open>
  Every record of the durable state that meets the bounds of the decoder is read back as it was
  written, less what the format leaves out: the expiry of a coupling, the times and reasons of an
  action and the reasons of a verification.
\<close>

section \<open>Leaves\<close>

definition temperature_storable :: "celsius \<Rightarrow> bool" where
  "temperature_storable t \<longleftrightarrow> is_double t \<and> celsius_is_valid t"

lemma storable_try_from: "temperature_storable t \<Longrightarrow> celsius_try_from t = Some t"
  by (simp add: temperature_storable_def celsius_valid_iff_try_from)

lemma set_temp_written [codec_simps]:
  "temperature_storable t \<Longrightarrow> set_temp (new_reader (writer_real t @ bs)) = Inr (t, new_reader bs)"
  by (simp add: set_temp_def read_temperature_def codec_simps storable_try_from temperature_storable_def)

lemma read_deg_written [codec_simps]:
  "temperature_storable t \<Longrightarrow> read_deg (new_reader (writer_real t @ bs)) = Inr (t, new_reader bs)"
  by (simp add: read_deg_def codec_simps storable_try_from temperature_storable_def)

lemma seq_count_written [codec_simps]:
  "reader_u32 (new_reader (writer_seq f xs @ bs)) =
     (of_nat (length xs), new_reader (concat (map f xs) @ bs))"
  by (simp add: writer_seq_def codec_simps)

lemma reader_optional_written [codec_simps]:
  "(\<And>x bs. v = Some x \<Longrightarrow> decode (new_reader (encode x @ bs)) = (x, new_reader bs)) \<Longrightarrow>
     reader_optional decode (new_reader (writer_optional encode v @ bs)) = (v, new_reader bs)"
  by (cases v) (simp_all add: reader_optional_def codec_simps)

definition optional_double :: "f64 option \<Rightarrow> bool" where
  "optional_double v = (case v of None \<Rightarrow> True | Some x \<Rightarrow> is_double x)"

lemma reader_optional_real [codec_simps]:
  "optional_double v \<Longrightarrow>
     reader_optional reader_real (new_reader (writer_optional writer_real v @ bs)) = (v, new_reader bs)"
  by (rule reader_optional_written) (simp add: optional_double_def codec_simps)

definition percent_storable :: "percent option \<Rightarrow> bool" where
  "percent_storable v = (case v of None \<Rightarrow> True | Some p \<Rightarrow> is_double p \<and> percent_try_from p = Some p)"

lemma read_percent_written [codec_simps]:
  "percent_storable v \<Longrightarrow>
     read_percent (new_reader (writer_optional writer_real v @ bs)) = Inr (v, new_reader bs)"
  by (cases v) (simp_all add: read_percent_def percent_storable_def codec_simps)

section \<open>Policies\<close>

definition thresholds_storable :: "thresholds \<Rightarrow> bool" where
  "thresholds_storable t \<longleftrightarrow>
     temperature_storable (th_warning t) \<and> temperature_storable (th_derating t) \<and>
     temperature_storable (th_critical t) \<and> temperature_storable (th_recovery t) \<and>
     is_double (th_near_limit_band t)"

lemma read_thresholds_written [codec_simps]:
  "thresholds_storable t \<Longrightarrow>
     read_thresholds (new_reader (write_thresholds t @ bs)) = Inr (t, new_reader bs)"
  by (simp add: read_thresholds_def write_thresholds_def thresholds_storable_def codec_simps)

definition margins_storable :: "margins \<Rightarrow> bool" where
  "margins_storable m \<longleftrightarrow>
     is_double (mg_policy_safety m) \<and> is_double (mg_uncertainty m) \<and> is_double (mg_recovery m)"

lemma read_margins_written [codec_simps]:
  "margins_storable m \<Longrightarrow> read_margins (new_reader (write_margins m @ bs)) = (m, new_reader bs)"
  by (simp add: read_margins_def write_margins_def margins_storable_def codec_simps)

definition freshness_storable :: "freshness_requirements \<Rightarrow> bool" where
  "freshness_storable f \<longleftrightarrow> fits_i64 (fr_max_age f) \<and> fits_i64 (fr_min_evidence_span f)"

lemma read_freshness_written [codec_simps]:
  "freshness_storable f \<Longrightarrow> read_freshness (new_reader (write_freshness f @ bs)) = (f, new_reader bs)"
  by (simp add: read_freshness_def write_freshness_def freshness_storable_def codec_simps)

lemma read_recovery_policy_written [codec_simps]:
  "read_recovery_policy (new_reader (write_recovery_policy p @ bs)) = (p, new_reader bs)"
  by (simp add: read_recovery_policy_def write_recovery_policy_def codec_simps)

lemma read_verification_policy_written [codec_simps]:
  "is_double (vp_improvement_epsilon p) \<Longrightarrow>
     read_verification_policy (new_reader (write_verification_policy p @ bs)) = (p, new_reader bs)"
  by (simp add: read_verification_policy_def write_verification_policy_def codec_simps)

lemma read_admission_policy_written [codec_simps]:
  "is_double (ap_min_effective_headroom p) \<Longrightarrow>
     read_admission_policy (new_reader (write_admission_policy p @ bs)) = (p, new_reader bs)"
  by (simp add: read_admission_policy_def write_admission_policy_def codec_simps)

definition concurrency_storable :: "concurrency_policy \<Rightarrow> bool" where
  "concurrency_storable p \<longleftrightarrow>
     is_double (cc_normal p) \<and> is_double (cc_warm p) \<and> is_double (cc_near_limit p) \<and>
     is_double (cc_derated p) \<and> is_double (cc_critical p)"

lemma read_concurrency_policy_written [codec_simps]:
  "concurrency_storable p \<Longrightarrow>
     read_concurrency_policy (new_reader (write_concurrency_policy p @ bs)) = (p, new_reader bs)"
  by (simp add: read_concurrency_policy_def write_concurrency_policy_def concurrency_storable_def
      codec_simps)

lemma read_emergency_policy_written [codec_simps]:
  "read_emergency_policy (new_reader (write_emergency_policy p @ bs)) = (p, new_reader bs)"
  by (simp add: read_emergency_policy_def write_emergency_policy_def codec_simps)

lemma read_coupling_policy_written [codec_simps]:
  "read_coupling_policy (new_reader (write_coupling_policy p @ bs)) = (p, new_reader bs)"
  by (simp add: read_coupling_policy_def write_coupling_policy_def codec_simps)

definition restriction_storable :: "workload_restriction \<Rightarrow> bool" where
  "restriction_storable w \<longleftrightarrow> is_double (wr_extra_headroom_demand w)"

interpretation restriction: codec write_restriction read_restriction restriction_storable "\<lambda>w. w"
  by unfold_locales
    (simp add: read_restriction_def write_restriction_def restriction_storable_def codec_simps)

definition policy_storable :: "persistence_limits \<Rightarrow> thermal_policy \<Rightarrow> bool" where
  "policy_storable limits p \<longleftrightarrow>
     text_fits (pl_max_string_bytes limits) (pol_label p) \<and> thresholds_storable (pol_thresholds p) \<and>
     margins_storable (pol_margins p) \<and> freshness_storable (pol_freshness p) \<and>
     is_double (vp_improvement_epsilon (pol_verification p)) \<and>
     is_double (ap_min_effective_headroom (pol_admission p)) \<and>
     concurrency_storable (pol_concurrency p) \<and>
     list_all restriction_storable (pol_workload_restrictions p) \<and>
     length (pol_workload_restrictions p) \<le> 64"

lemma count_64:
  assumes "n \<le> 64"
  shows "fits_u32 n" "\<not> (64 :: u32) < of_nat n"
proof -
  show "fits_u32 n" using assms by (simp add: fits_u32_def)
  then have "unat (of_nat n :: u32) = n" by (rule unat_of_fits)
  then show "\<not> (64 :: u32) < of_nat n" using assms by (simp add: word_less_nat_alt)
qed

interpretation policy: codec write_policy "read_policy limits" "policy_storable limits" "\<lambda>p. p"
  for limits
  by unfold_locales
    (simp add: read_policy_def write_policy_def policy_storable_def codec_simps unat_of_fits count_64
      restriction.many)

section \<open>Devices\<close>

definition capabilities_storable :: "nat \<Rightarrow> capability_set \<Rightarrow> bool" where
  "capabilities_storable limit cs \<longleftrightarrow>
     capabilities_ok cs \<and> list_all (\<lambda>c. text_fits limit (cap_detail cs c)) all_thermal_capabilities"

text \<open>Setting every capability of one set in another copies it.\<close>

definition copy_capability :: "capability_set \<Rightarrow> capability_set \<Rightarrow> thermal_capability \<Rightarrow> capability_set" where
  "copy_capability cs acc c = cap_set acc c (cap_get cs c) (cap_detail cs c)"

lemma read_capabilities_written:
  "list_all (\<lambda>c. text_fits limit (cap_detail cs c)) caps \<Longrightarrow>
     read_capabilities limit caps acc (new_reader (concat (map (write_capability cs) caps) @ bs)) =
       Inr (foldl (copy_capability cs) acc caps, new_reader bs)"
  by (induction caps arbitrary: acc)
    (simp_all add: write_capability_def copy_capability_def codec_simps)

lemma cap_detail_set:
  "capabilities_ok cs \<Longrightarrow>
     cap_detail (cap_set cs c st detail) d = (if d = c then detail else cap_detail cs d)"
  using thermal_capability_value_less [of c] thermal_capability_value_less [of d]
  by (auto simp: cap_detail_def cap_set_def Let_def capabilities_ok_def not_le nth_list_update
      simp del: thermal_capability_value_less)

lemma copy_capabilities:
  assumes "capabilities_ok acc"
  shows "capabilities_ok (foldl (copy_capability cs) acc caps) \<and>
    cap_get (foldl (copy_capability cs) acc caps) c = (if c \<in> set caps then cap_get cs c else cap_get acc c) \<and>
    cap_detail (foldl (copy_capability cs) acc caps) c =
      (if c \<in> set caps then cap_detail cs c else cap_detail acc c)"
  using assms
proof (induction caps arbitrary: acc)
  case (Cons d caps)
  then show ?case
    by (simp add: copy_capability_def capabilities_ok_set cap_get_set cap_detail_set)
qed simp

lemma capability_at: "i < kThermalCapabilityCount \<Longrightarrow> \<exists>c. thermal_capability_value c = i"
proof -
  assume "i < kThermalCapabilityCount"
  then have "i \<in> set [0..<15]" by (simp add: kThermalCapabilityCount_def)
  moreover have "map thermal_capability_value all_thermal_capabilities = [0..<15]"
    by (simp add: all_thermal_capabilities_def upt_rec)
  ultimately show ?thesis by (metis (no_types, lifting) imageE list.set_map)
qed

lemma capability_sets_equal:
  assumes "capabilities_ok a" "capabilities_ok b"
    and "\<And>c. cap_get a c = cap_get b c" "\<And>c. cap_detail a c = cap_detail b c"
    and "cap_generation a = cap_generation b"
  shows "a = b"
proof -
  have "cap_states a ! i = cap_states b ! i \<and> cap_details a ! i = cap_details b ! i"
    if i: "i < kThermalCapabilityCount" for i
  proof -
    obtain c where "thermal_capability_value c = i" using capability_at [OF i] by blast
    then show ?thesis
      using assms(3) [of c] assms(4) [of c] i by (simp add: cap_get_def cap_detail_def Let_def)
  qed
  then have "cap_states a = cap_states b" "cap_details a = cap_details b"
    using assms(1,2) by (auto simp: capabilities_ok_def intro!: nth_equalityI)
  then show ?thesis using assms(5) by (cases a; cases b) simp
qed

lemma cap_generation_frame [simp]:
  "cap_get (cs \<lparr>cap_generation := g\<rparr>) c = cap_get cs c"
  "cap_detail (cs \<lparr>cap_generation := g\<rparr>) c = cap_detail cs c"
  "capabilities_ok (cs \<lparr>cap_generation := g\<rparr>) = capabilities_ok cs"
  by (simp_all add: cap_get_def cap_detail_def capabilities_ok_def Let_def)

lemma copy_all_capabilities:
  assumes "capabilities_ok cs"
  shows "(foldl (copy_capability cs) empty_capabilities all_thermal_capabilities)
    \<lparr>cap_generation := cap_generation cs\<rparr> = cs"
proof (rule capability_sets_equal)
  note copy = copy_capabilities [OF capabilities_ok_empty, of cs all_thermal_capabilities]
  show "capabilities_ok ((foldl (copy_capability cs) empty_capabilities all_thermal_capabilities)
      \<lparr>cap_generation := cap_generation cs\<rparr>)"
    using copy by simp
  show "cap_get ((foldl (copy_capability cs) empty_capabilities all_thermal_capabilities)
      \<lparr>cap_generation := cap_generation cs\<rparr>) c = cap_get cs c" for c
    using copy [of c] by simp
  show "cap_detail ((foldl (copy_capability cs) empty_capabilities all_thermal_capabilities)
      \<lparr>cap_generation := cap_generation cs\<rparr>) c = cap_detail cs c" for c
    using copy [of c] by simp
qed (simp_all add: assms)

definition device_storable :: "persistence_limits \<Rightarrow> device_registration \<Rightarrow> bool" where
  "device_storable limits d \<longleftrightarrow>
     text_fits (pl_max_string_bytes limits) (dr_label d) \<and>
     capabilities_storable (pl_max_string_bytes limits) (dr_capabilities d)"

interpretation device: codec write_device "read_device limits" "device_storable limits" "\<lambda>d. d"
  for limits
  by unfold_locales
    (simp add: read_device_def write_device_def device_storable_def capabilities_storable_def
      codec_simps read_capabilities_written copy_all_capabilities)

section \<open>Domains\<close>

interpretation subject: codec write_subject read_subject "\<lambda>s. True" "\<lambda>s. s"
  by unfold_locales (simp add: read_subject_def write_subject_def codec_simps)

interpretation member: codec write_member read_member "\<lambda>m. is_double (dm_weight m)" "\<lambda>m. m"
  by unfold_locales (simp add: read_member_def write_member_def subject.written codec_simps)

interpretation child: codec writer_u64 read_child "\<lambda>i. True" "\<lambda>i. i"
  by unfold_locales (simp add: read_child_def codec_simps)

definition count_fits :: "nat \<Rightarrow> nat \<Rightarrow> bool" where
  "count_fits limit n \<longleftrightarrow> n \<le> limit \<and> fits_u32 n"

definition domain_storable :: "persistence_limits \<Rightarrow> domain_definition \<Rightarrow> bool" where
  "domain_storable limits d \<longleftrightarrow>
     text_fits (pl_max_string_bytes limits) (dd_label d) \<and>
     count_fits (pl_max_domains limits) (length (dd_members d)) \<and>
     list_all (\<lambda>m. is_double (dm_weight m)) (dd_members d) \<and>
     count_fits (pl_max_domains limits) (length (dd_children d)) \<and>
     text_fits (pl_max_string_bytes limits) (dd_evidence_source d) \<and>
     optional_double (dd_synthetic_aggregate_offset d)"

lemma list_all_True: "list_all (\<lambda>x. True) xs"
  by (simp add: list_all_iff)

interpretation domain: codec write_domain "read_domain limits" "domain_storable limits" "\<lambda>d. d"
  for limits
  by unfold_locales
    (simp add: read_domain_def write_domain_def domain_storable_def codec_simps count_fits_def unat_of_fits
      member.many child.many list_all_True)

section \<open>Couplings, transitions, actions and verifications\<close>

definition coupling_storable :: "persistence_limits \<Rightarrow> coupling_relation \<Rightarrow> bool" where
  "coupling_storable limits c \<longleftrightarrow>
     text_fits (pl_max_string_bytes limits) (cr_evidence_source c) \<and> is_double (cr_weight c)"

definition coupling_kept :: "coupling_relation \<Rightarrow> coupling_relation" where
  "coupling_kept c = c \<lparr>cr_valid_until := None\<rparr>"

interpretation coupling: codec write_coupling "read_coupling limits" "coupling_storable limits"
    coupling_kept for limits
  by unfold_locales
    (simp add: read_coupling_def write_coupling_def coupling_storable_def coupling_kept_def codec_simps)

interpretation transition: codec write_transition read_transition
    "\<lambda>t. temperature_storable (tr_temperature t)" "\<lambda>t. t"
  by unfold_locales
    (simp add: read_transition_def write_transition_def codec_simps storable_try_from
      temperature_storable_def celsius_valid_iff_try_from)

lemma read_authority_written [codec_simps]:
  "read_authority (new_reader (write_authority u @ bs)) = (u, new_reader bs)"
  by (simp add: read_authority_def write_authority_def codec_simps)

definition action_storable :: "persistence_limits \<Rightarrow> thermal_action \<Rightarrow> bool" where
  "action_storable limits a \<longleftrightarrow>
     percent_storable (ac_requested_concurrency a) \<and> percent_storable (ac_requested_admission a) \<and>
     text_fits (pl_max_string_bytes limits) (ac_detail a) \<and>
     text_fits (pl_max_string_bytes limits) (ac_authorization_source a)"

definition action_kept :: "thermal_action \<Rightarrow> thermal_action" where
  "action_kept a = a \<lparr>ac_reasons := [], ac_planned_at := 0, ac_authorized_at := 0,
     ac_dispatched_at := 0, ac_acknowledged_at := 0, ac_terminal_at := 0\<rparr>"

interpretation action: codec write_action "read_action limits" "action_storable limits" action_kept
  for limits
  by unfold_locales
    (simp add: read_action_def write_action_def action_storable_def action_kept_def empty_action_def
      codec_simps)

definition verification_storable :: "action_verification \<Rightarrow> bool" where
  "verification_storable v \<longleftrightarrow>
     temperature_storable (av_temperature_before v) \<and> temperature_storable (av_temperature_after v) \<and>
     is_double (av_delta v) \<and> is_double (av_headroom_before v) \<and> is_double (av_headroom_after v)"

definition verification_kept :: "action_verification \<Rightarrow> action_verification" where
  "verification_kept v = v \<lparr>av_reasons := []\<rparr>"

interpretation verification: codec write_verification read_verification verification_storable
    verification_kept
  by unfold_locales
    (simp add: read_verification_def write_verification_def verification_storable_def
      verification_kept_def codec_simps)

end
