(* ===== verification/Checksum.thy ===== *)
theory Checksum
  imports Binary
begin

text \<open>
  CRC-32C (\<^verbatim>\<open>persistence.cpp\<close>), the checksum of durable files and message frames: the
  256-entry table, the table-driven loop, its equality with the bitwise definition of the code,
  and what the checksum detects.
\<close>

section \<open>Definition\<close>

definition kCrcPolynomial :: u32 where
  "kCrcPolynomial = 0x82F63B78"

text \<open>One round of the inner loop of the table constructor.\<close>

definition crc_bit :: "u32 \<Rightarrow> u32" where
  "crc_bit crc =
     (if crc AND 1 \<noteq> 0 then drop_bit 1 crc XOR kCrcPolynomial else drop_bit 1 crc)"

definition crc_entry :: "nat \<Rightarrow> u32" where
  "crc_entry i = (crc_bit ^^ 8) (of_nat i)"

definition kCrcTable :: "u32 list" where
  "kCrcTable = map crc_entry [0..<256]"

definition crc_step :: "u32 \<Rightarrow> u8 \<Rightarrow> u32" where
  "crc_step crc b = kCrcTable ! unat ((crc XOR ucast b) AND 0xFF) XOR drop_bit 8 crc"

definition crc32c :: "u8 list \<Rightarrow> u32 \<Rightarrow> u32" where
  "crc32c bytes seed = NOT (foldl crc_step (NOT seed) bytes)"

section \<open>The table computes eight bit steps\<close>

text \<open>The definition without the table: every byte is mixed in and shifted out bit by bit.\<close>

definition crc32c_bitwise :: "u8 list \<Rightarrow> u32 \<Rightarrow> u32" where
  "crc32c_bitwise bytes seed =
     NOT (foldl (\<lambda>crc b. (crc_bit ^^ 8) (crc XOR ucast b)) (NOT seed) bytes)"

lemma crc_bit_alt: "crc_bit x = drop_bit 1 x XOR (if bit x 0 then kCrcPolynomial else 0)"
  by (simp add: crc_bit_def bit_0 even_iff_mod_2_eq_zero flip: take_bit_eq_mask and_one_eq)

lemma crc_bit_xor: "crc_bit (x XOR y) = crc_bit x XOR crc_bit y"
proof -
  have "drop_bit 1 (x XOR y) = drop_bit 1 x XOR drop_bit 1 y" by (rule drop_bit_xor)
  then show ?thesis
    by (cases "bit x 0"; cases "bit y 0") (simp_all add: crc_bit_alt bit_xor_iff ac_simps)
qed

lemma crc_bits_xor: "(crc_bit ^^ n) (x XOR y) = (crc_bit ^^ n) x XOR (crc_bit ^^ n) y"
  by (induction n) (simp_all add: crc_bit_xor)

lemma crc_bits_zeros: "take_bit n x = 0 \<Longrightarrow> (crc_bit ^^ n) x = drop_bit n x"
proof (induction n arbitrary: x)
  case (Suc n)
  have zeros: "\<not> bit x i" if "i < Suc n" for i
    using that Suc.prems by (metis bit_0_eq bit_take_bit_iff bot_apply bot_bool_def)
  then have "crc_bit x = drop_bit 1 x" by (simp add: crc_bit_alt)
  moreover have "take_bit n (drop_bit 1 x) = 0"
    using zeros by (intro bit_word_eqI) (auto simp: bit_simps)
  ultimately show ?case
    by (simp add: funpow_swap1 [symmetric] Suc.IH del: funpow.simps)
      (simp add: funpow_Suc_right Suc.IH del: funpow.simps)
qed simp

lemma table_entry: "kCrcTable ! unat (take_bit 8 x) = (crc_bit ^^ 8) (take_bit 8 x)"
proof -
  have "unat (take_bit 8 x) < 256"
    using take_bit_nat_less_exp [of 8 "unat x"] by (simp only: unsigned_take_bit_eq) simp
  then show ?thesis by (simp add: kCrcTable_def crc_entry_def)
qed

lemma crc_step_bitwise: "crc_step crc b = (crc_bit ^^ 8) (crc XOR ucast b)"
proof -
  let ?x = "crc XOR ucast b"
  have split: "?x = take_bit 8 ?x XOR push_bit 8 (drop_bit 8 ?x)"
  proof (rule bit_word_eqI)
    fix n assume "n < LENGTH(32)"
    then show "bit ?x n = bit (take_bit 8 ?x XOR push_bit 8 (drop_bit 8 ?x)) n"
      by (cases "n < 8") (simp_all add: bit_xor_iff bit_take_bit_iff bit_push_bit_iff bit_drop_bit_eq)
  qed
  have high: "drop_bit 8 ?x = drop_bit 8 crc"
    by (intro bit_word_eqI) (auto simp: bit_simps dest: bit_imp_le_length)
  have "(crc_bit ^^ 8) ?x = (crc_bit ^^ 8) (take_bit 8 ?x) XOR (crc_bit ^^ 8) (push_bit 8 (drop_bit 8 ?x))"
    by (subst split) (rule crc_bits_xor)
  also have "(crc_bit ^^ 8) (push_bit 8 (drop_bit 8 ?x)) = drop_bit 8 (push_bit 8 (drop_bit 8 ?x))"
    by (rule crc_bits_zeros) (intro bit_word_eqI, auto simp: bit_simps)
  also have "drop_bit 8 (push_bit 8 (drop_bit 8 ?x)) = drop_bit 8 crc"
    unfolding high by (intro bit_word_eqI) (auto simp: bit_simps dest: bit_imp_le_length)
  finally show ?thesis unfolding crc_step_def low_byte table_entry by (rule sym)
qed

lemma crc32c_is_bitwise: "crc32c bytes seed = crc32c_bitwise bytes seed"
proof -
  have "crc_step = (\<lambda>crc b. (crc_bit ^^ 8) (crc XOR ucast b))"
    by (intro ext crc_step_bitwise)
  then show ?thesis by (simp add: crc32c_def crc32c_bitwise_def)
qed

section \<open>Every change of one byte is detected\<close>

lemma xor_left_cancel: "(a :: 'a::len word) XOR b = a XOR c \<longleftrightarrow> b = c"
  by (metis xor.assoc xor.left_neutral xor_self_eq)

lemma crc_bit_inj: "crc_bit x = crc_bit y \<Longrightarrow> x = y"
proof -
  assume eq: "crc_bit x = crc_bit y"
  have top: "bit (crc_bit z) 31 = bit z 0" for z
    using bit_imp_le_length [of z 32] by (auto simp: crc_bit_alt bit_simps kCrcPolynomial_def)
  then have low: "bit x 0 = bit y 0" using eq by metis
  then have "drop_bit 1 x = drop_bit 1 y"
    using eq by (simp add: crc_bit_alt xor.commute [of _ kCrcPolynomial] xor_left_cancel split: if_splits)
  then have "bit x (Suc i) = bit y (Suc i)" for i
    by (metis bit_drop_bit_eq comp_apply plus_1_eq_Suc)
  then show "x = y"
    using low by (intro bit_word_eqI) (metis not0_implies_Suc)
qed

lemma crc_bits_inj: "(crc_bit ^^ n) x = (crc_bit ^^ n) y \<Longrightarrow> x = y"
  by (induction n) (auto dest: crc_bit_inj)

lemma crc_step_inj: "crc_step x b = crc_step y b \<longleftrightarrow> x = y"
  unfolding crc_step_bitwise by (metis crc_bits_inj xor.commute xor_left_cancel)

lemma crc_step_byte_inj: "crc_step x b = crc_step x c \<longleftrightarrow> b = c"
proof
  assume "crc_step x b = crc_step x c"
  then have "(ucast b :: u32) = ucast c"
    unfolding crc_step_bitwise using crc_bits_inj xor_left_cancel by metis
  then have "(ucast (ucast b :: u32) :: u8) = ucast (ucast c :: u32)" by simp
  moreover have "(ucast (ucast d :: u32) :: u8) = d" for d :: u8
    by (intro bit_word_eqI) (auto simp: bit_simps)
  ultimately show "b = c" by simp
qed simp

lemma crc_steps_inj: "foldl crc_step x bs = foldl crc_step y bs \<longleftrightarrow> x = y"
  by (induction bs arbitrary: x y) (simp_all add: crc_step_inj)

lemma crc32c_detects:
  assumes "i < length bs" "b \<noteq> bs ! i"
  shows "crc32c (bs[i := b]) seed \<noteq> crc32c bs seed"
proof -
  have "bs = take i bs @ bs ! i # drop (Suc i) bs"
    using assms(1) by (simp add: id_take_nth_drop)
  moreover have "bs[i := b] = take i bs @ b # drop (Suc i) bs"
    using assms(1) by (simp add: upd_conv_take_nth_drop)
  ultimately have "crc32c bs seed = NOT (foldl crc_step
        (crc_step (foldl crc_step (NOT seed) (take i bs)) (bs ! i)) (drop (Suc i) bs))"
      "crc32c (bs[i := b]) seed = NOT (foldl crc_step
        (crc_step (foldl crc_step (NOT seed) (take i bs)) b) (drop (Suc i) bs))"
    unfolding crc32c_def by (metis foldl_Cons foldl_append)+
  then show ?thesis
    using assms(2) by (simp add: bit.compl_eq_compl_iff crc_steps_inj crc_step_byte_inj)
qed

end
