(* ===== verification/Durable.thy ===== *)
theory Durable
  imports DurableLaws Checksum
begin

text \<open>
  The durable container of \<^verbatim>\<open>persistence.cpp\<close>: a checksummed header, a body of checksummed
  records and a checksum of the body. The encoder refuses what exceeds the limits, the decoder
  checks every bound and checksum before it interprets a payload.
\<close>

section \<open>Encoding\<close>

definition kPersistenceMagic :: u64 where
  "kPersistenceMagic = 0x5352455056474F54"

definition kContainerHeaderSize :: nat where "kContainerHeaderSize = 36"
definition kContainerChecksumCoverage :: nat where "kContainerChecksumCoverage = 32"
definition kContainerTrailerSize :: nat where "kContainerTrailerSize = 4"
definition kRecordHeaderSize :: nat where "kRecordHeaderSize = 8"
definition kRecordTrailerSize :: nat where "kRecordTrailerSize = 4"

lemmas container_sizes =
  kContainerHeaderSize_def kContainerChecksumCoverage_def kContainerTrailerSize_def
  kRecordHeaderSize_def kRecordTrailerSize_def

definition write_coordinator :: "durable_state \<Rightarrow> u8 list" where
  "write_coordinator s =
     writer_u32 (du_format_version s) @ writer_u64 (du_coordinator s) @
     writer_u64 (du_coordinator_epoch s) @ writer_u64 (du_policy_generation s) @
     writer_u64 (du_topology_generation s) @ writer_u64 (du_sequence s)"

text \<open>The records in the order in which they are emitted.\<close>

definition durable_payloads :: "durable_state \<Rightarrow> (record_type \<times> u8 list) list" where
  "durable_payloads s =
     (RT_COORDINATOR_STATE, write_coordinator s) #
     map (\<lambda>x. (RT_POLICY, write_policy x)) (du_policies s) @
     map (\<lambda>x. (RT_DEVICE_REGISTRATION, write_device x)) (du_devices s) @
     map (\<lambda>x. (RT_DOMAIN_DEFINITION, write_domain x)) (du_domains s) @
     map (\<lambda>x. (RT_COUPLING, write_coupling x)) (du_couplings s) @
     map (\<lambda>x. (RT_STATE_TRANSITION, write_transition x)) (du_transitions s) @
     map (\<lambda>x. (RT_ACTION_RECORD, write_action x)) (du_actions s) @
     map (\<lambda>x. (RT_VERIFICATION_RECORD, write_verification x)) (du_verifications s)"

definition record_header :: "record_type \<Rightarrow> u8 list \<Rightarrow> u8 list" where
  "record_header t payload =
     writer_u16 (of_nat (record_type_value t)) @ writer_u16 0 @
     writer_u32 (of_nat (length payload))"

definition record_bytes :: "record_type \<times> u8 list \<Rightarrow> u8 list" where
  "record_bytes = (\<lambda>(t, payload).
     record_header t payload @ payload @ writer_u32 (crc32c (record_header t payload @ payload) 0))"

text \<open>Every \<^verbatim>\<open>emit\<close> appends its record, or stops the encoding.\<close>

fun emit_all :: "persistence_limits \<Rightarrow> (record_type \<times> u8 list) list \<Rightarrow> u8 list \<Rightarrow> u8 list result" where
  "emit_all limits [] body = Inr body"
| "emit_all limits (record # records) body =
     (if pl_max_record_bytes limits < length (snd record) then Inl E_RESOURCE_EXHAUSTED
      else emit_all limits records (body @ record_bytes record))"

definition container_header :: "nat \<Rightarrow> nat \<Rightarrow> u8 list" where
  "container_header records body_length =
     writer_u64 kPersistenceMagic @ writer_u32 kPersistenceFormatVersion @ writer_u32 0 @
     writer_u64 (of_nat records) @ writer_u64 (of_nat body_length)"

definition container_bytes :: "nat \<Rightarrow> u8 list \<Rightarrow> u8 list" where
  "container_bytes records body =
     (let header = container_header records (length body)
      in header @ writer_u32 (crc32c (take kContainerChecksumCoverage header) 0) @
         body @ writer_u32 (crc32c body 0))"

definition within_counts :: "persistence_limits \<Rightarrow> durable_state \<Rightarrow> bool" where
  "within_counts limits s \<longleftrightarrow>
     length (du_policies s) \<le> pl_max_policies limits \<and>
     length (du_devices s) \<le> pl_max_devices limits \<and>
     length (du_domains s) \<le> pl_max_domains limits \<and>
     length (du_couplings s) \<le> pl_max_couplings limits \<and>
     length (du_transitions s) \<le> pl_max_transitions limits \<and>
     length (du_actions s) \<le> pl_max_actions limits \<and>
     length (du_verifications s) \<le> pl_max_verifications limits"

definition encode_durable_state :: "persistence_limits \<Rightarrow> durable_state \<Rightarrow> u8 list result" where
  "encode_durable_state limits s =
     (if \<not> within_counts limits s then Inl E_RESOURCE_EXHAUSTED
      else case emit_all limits (durable_payloads s) [] of
        Inl e \<Rightarrow> Inl e
      | Inr body \<Rightarrow>
          if pl_max_file_bytes limits < length body then Inl E_RESOURCE_EXHAUSTED
          else Inr (container_bytes (length (durable_payloads s)) body))"

section \<open>Decoding\<close>

record load_result =
  lr_state :: durable_state
  lr_records_read :: nat
  lr_bytes_read :: nat

definition empty_durable :: durable_state where
  "empty_durable =
     \<lparr>du_format_version = 0, du_coordinator = 0, du_coordinator_epoch = 0, du_policy_generation = 0,
      du_topology_generation = 0, du_sequence = 0, du_policies = [], du_devices = [],
      du_domains = [], du_couplings = [], du_transitions = [], du_actions = [],
      du_verifications = []\<rparr>"

text \<open>
  A record that carries an identity: bounded number, then the payload, then no repetition. The
  identity sets of the source hold exactly the identities of the records read so far.
\<close>

definition read_item ::
  "nat \<Rightarrow> 'a list \<Rightarrow> ('a \<Rightarrow> u64) option \<Rightarrow> 'a decoded \<Rightarrow> ('a \<Rightarrow> durable_state) \<Rightarrow> durable_state decoded" where
  "read_item limit items key decoded add =
     (if limit \<le> length items then Inl E_PERSISTENCE_CORRUPT
      else and_then decoded (\<lambda>x r.
        if (case key of None \<Rightarrow> False | Some k \<Rightarrow> k x \<in> k ` set items) then Inl E_PERSISTENCE_CORRUPT
        else Inr (add x, r)))"

definition read_record ::
  "persistence_limits \<Rightarrow> record_type \<Rightarrow> durable_state \<Rightarrow> reader \<Rightarrow> durable_state decoded" where
  "read_record limits t s r =
     (case t of
        RT_COORDINATOR_STATE \<Rightarrow>
          (let (version, r) = reader_u32 r; (coordinator, r) = reader_u64 r; (epoch, r) = reader_u64 r;
               (policy, r) = reader_u64 r; (topology, r) = reader_u64 r; (sequence, r) = reader_u64 r
           in if version \<noteq> kPersistenceFormatVersion then Inl E_PERSISTENCE_UNSUPPORTED_VERSION
              else Inr (s \<lparr>du_format_version := version, du_coordinator := coordinator,
                du_coordinator_epoch := epoch, du_policy_generation := policy,
                du_topology_generation := topology, du_sequence := sequence\<rparr>, r))
      | RT_POLICY \<Rightarrow> read_item (pl_max_policies limits) (du_policies s) (Some pol_id)
          (read_policy limits r) (\<lambda>x. s \<lparr>du_policies := du_policies s @ [x]\<rparr>)
      | RT_DEVICE_REGISTRATION \<Rightarrow> read_item (pl_max_devices limits) (du_devices s) (Some dr_device)
          (read_device limits r) (\<lambda>x. s \<lparr>du_devices := du_devices s @ [x]\<rparr>)
      | RT_DOMAIN_DEFINITION \<Rightarrow> read_item (pl_max_domains limits) (du_domains s) (Some dd_id)
          (read_domain limits r) (\<lambda>x. s \<lparr>du_domains := du_domains s @ [x]\<rparr>)
      | RT_COUPLING \<Rightarrow> read_item (pl_max_couplings limits) (du_couplings s) (Some cr_id)
          (read_coupling limits r) (\<lambda>x. s \<lparr>du_couplings := du_couplings s @ [x]\<rparr>)
      | RT_STATE_TRANSITION \<Rightarrow> read_item (pl_max_transitions limits) (du_transitions s) None
          (read_transition r) (\<lambda>x. s \<lparr>du_transitions := du_transitions s @ [x]\<rparr>)
      | RT_ACTION_RECORD \<Rightarrow> read_item (pl_max_actions limits) (du_actions s) (Some ac_id)
          (read_action limits r) (\<lambda>x. s \<lparr>du_actions := du_actions s @ [x]\<rparr>)
      | RT_VERIFICATION_RECORD \<Rightarrow> read_item (pl_max_verifications limits) (du_verifications s) None
          (read_verification r) (\<lambda>x. s \<lparr>du_verifications := du_verifications s @ [x]\<rparr>)
      | RT_OPERATOR_CONFIG \<Rightarrow>
          (case reader_text (pl_max_string_bytes limits) r of (_, r) \<Rightarrow> Inr (s, r)))"

text \<open>One round of the record loop; \<open>start\<close> is the reader at the start of the record.\<close>

definition read_container_record ::
  "persistence_limits \<Rightarrow> durable_state \<Rightarrow> reader \<Rightarrow> durable_state decoded" where
  "read_container_record limits s start =
     (case reader_need kRecordHeaderSize start of
        (False, r) \<Rightarrow> Inl E_PERSISTENCE_TRUNCATED
      | (True, r) \<Rightarrow>
        let (raw_type, r) = reader_u16 r; (reserved, r) = reader_u16 r; (payload_length, r) = reader_u32 r
        in if \<not> rd_ok r then Inl E_PERSISTENCE_TRUNCATED
           else if pl_max_record_bytes limits < unat payload_length then Inl E_PERSISTENCE_CORRUPT
           else if raw_type = 0 \<or> 9 < raw_type then Inl E_PERSISTENCE_CORRUPT
           else case reader_need (unat payload_length + kRecordTrailerSize) r of
             (False, r) \<Rightarrow> Inl E_PERSISTENCE_TRUNCATED
           | (True, r) \<Rightarrow>
             let (payload, r) = reader_raw_bytes (unat payload_length) r; (stored_crc, r) = reader_u32 r
             in if \<not> rd_ok r then Inl E_PERSISTENCE_TRUNCATED
                else if crc32c (take (kRecordHeaderSize + unat payload_length) (rd_rest start)) 0 \<noteq> stored_crc
                then Inl E_PERSISTENCE_INTEGRITY
                else and_then (read_record limits (record_type_at raw_type) s (new_reader payload))
                  (\<lambda>s p. if \<not> rd_ok p \<or> \<not> reader_exhausted p then Inl E_PERSISTENCE_CORRUPT
                     else Inr (s, r)))"

fun read_records :: "nat \<Rightarrow> persistence_limits \<Rightarrow> durable_state \<Rightarrow> reader \<Rightarrow> durable_state decoded" where
  "read_records 0 limits s r = Inr (s, r)"
| "read_records (Suc n) limits s r =
     and_then (read_container_record limits s r) (\<lambda>s r. read_records n limits s r)"

definition decode_durable_state :: "persistence_limits \<Rightarrow> u8 list \<Rightarrow> load_result result" where
  "decode_durable_state limits bytes =
     (if pl_max_file_bytes limits < length bytes then Inl E_FRAME_TOO_LARGE
      else if length bytes < kContainerHeaderSize + kContainerTrailerSize
      then Inl E_PERSISTENCE_TRUNCATED
      else
        let (magic, r) = reader_u64 (new_reader bytes)
        in if magic \<noteq> kPersistenceMagic then Inl E_PERSISTENCE_CORRUPT
           else
        let (version, r) = reader_u32 r; (reserved, r) = reader_u32 r; (record_count, r) = reader_u64 r;
            (body_length, r) = reader_u64 r; (stored_header_crc, r) = reader_u32 r
        in if version \<noteq> kPersistenceFormatVersion then Inl E_PERSISTENCE_UNSUPPORTED_VERSION
           else if crc32c (take kContainerChecksumCoverage bytes) 0 \<noteq> stored_header_crc
           then Inl E_PERSISTENCE_INTEGRITY
           else if pl_max_records limits < unat record_count then Inl E_PERSISTENCE_CORRUPT
           else if pl_max_file_bytes limits < unat body_length then Inl E_PERSISTENCE_CORRUPT
           else
        let expected = of_nat kContainerHeaderSize + body_length + of_nat kContainerTrailerSize
        in if of_nat (length bytes) < expected then Inl E_PERSISTENCE_TRUNCATED
           else if expected < of_nat (length bytes) then Inl E_PERSISTENCE_TRAILING_GARBAGE
           else
        let body = take (unat body_length) (drop kContainerHeaderSize bytes);
            stored_body_crc = le_word (take 4 (drop (kContainerHeaderSize + unat body_length) bytes))
        in if crc32c body 0 \<noteq> stored_body_crc then Inl E_PERSISTENCE_INTEGRITY
           else
             and_then (read_records (unat record_count) limits
                 (empty_durable \<lparr>du_format_version := version\<rparr>) (new_reader body))
               (\<lambda>s r. if \<not> reader_exhausted r then Inl E_PERSISTENCE_TRAILING_GARBAGE
                  else Inr \<lparr>lr_state = s, lr_records_read = unat record_count,
                    lr_bytes_read = length bytes\<rparr>))"

end
