(* ===== verification/DurableFile.thy ===== *)
theory DurableFile
  imports Durable
begin

text \<open>
  The laws of the durable container: what was encoded is decoded again, and no two accepted
  containers differ in a single byte.
\<close>

section \<open>One record\<close>

lemma length_writer [simp]:
  "length (writer_u16 a) = 2" "length (writer_u32 b) = 4" "length (writer_u64 c) = 8"
  by (simp_all add: writer_u16_def writer_u32_def writer_u64_def)

lemma length_record_header [simp]: "length (record_header t payload) = 8"
  by (simp add: record_header_def)

lemma raw_bytes_written [codec_simps]:
  "n = length xs \<Longrightarrow> reader_raw_bytes n (new_reader (xs @ bs)) = (xs, new_reader bs)"
  by (simp add: reader_raw_bytes_def)

lemma container_record_written:
  assumes "length payload \<le> pl_max_record_bytes limits" "fits_u32 (length payload)"
  shows "read_container_record limits s (new_reader (record_bytes (t, payload) @ bs)) =
    and_then (read_record limits t s (new_reader payload))
      (\<lambda>s p. if \<not> rd_ok p \<or> \<not> reader_exhausted p then Inl E_PERSISTENCE_CORRUPT
         else Inr (s, new_reader bs))"
proof -
  let ?rest = "payload @ writer_u32 (crc32c (record_header t payload @ payload) 0) @ bs"
  have bytes: "record_bytes (t, payload) @ bs = record_header t payload @ ?rest"
    by (simp add: record_bytes_def)
  have covered: "take (8 + length payload) (record_header t payload @ ?rest) =
      record_header t payload @ payload"
    by (simp add: take_append)
  have n: "unat (of_nat (length payload) :: u32) = length payload"
    using assms(2) by (rule unat_of_fits)
  show ?thesis
    unfolding bytes read_container_record_def kRecordHeaderSize_def kRecordTrailerSize_def
    using assms(1) covered
    by (simp add: record_header_def [of t payload] codec_simps n Let_def)
qed

section \<open>One kind of record after the other\<close>

text \<open>
  A section of the container: records of one kind, whose payload has a codec, collected into one
  list of the state. Identities, where the kind has one, are not repeated.
\<close>

locale record_section = codec encode decode valid kept
  for encode :: "'a \<Rightarrow> u8 list" and decode and valid and kept +
  fixes tag :: record_type
    and limits :: persistence_limits
    and cap :: nat
    and key :: "('a \<Rightarrow> u64) option"
    and items :: "durable_state \<Rightarrow> 'a list"
    and add :: "'a list \<Rightarrow> durable_state \<Rightarrow> durable_state"
  assumes reads: "read_record limits tag s r =
      read_item cap (items s) key (decode r) (\<lambda>x. add [x] s)"
    and items_add [simp]: "items (add xs s) = items s @ xs"
    and add_add [simp]: "add ys (add xs s) = add (xs @ ys) s"
    and add_Nil [simp]: "add [] s = s"
    and key_kept: "key = Some k \<Longrightarrow> k (kept x) = k x"
begin

definition new_keys :: "'a list \<Rightarrow> 'a list \<Rightarrow> bool" where
  "new_keys ys xs \<longleftrightarrow> (case key of None \<Rightarrow> True | Some k \<Rightarrow>
     distinct (map k xs) \<and> k ` set ys \<inter> k ` set xs = {})"

lemma new_keys_Cons:
  "new_keys ys (x # xs) \<Longrightarrow>
     (case key of None \<Rightarrow> True | Some k \<Rightarrow> k (kept x) \<notin> k ` set ys) \<and> new_keys (ys @ [kept x]) xs"
  using key_kept [of _ x] by (auto simp: new_keys_def split: option.splits)

lemma record_accepted:
  assumes "valid x" "length (encode x) \<le> pl_max_record_bytes limits" "fits_u32 (length (encode x))"
    and "length (items s) < cap" "new_keys (items s) (x # xs)"
  shows "read_container_record limits s (new_reader (record_bytes (tag, encode x) @ bs)) =
    Inr (add [kept x] s, new_reader bs)"
  using assms new_keys_Cons [OF assms(5)]
  by (auto simp: container_record_written reads read_item_def whole reader_exhausted_def
      split: option.splits)

lemma section_written:
  assumes "list_all valid xs" "\<forall>x \<in> set xs. length (encode x) \<le> pl_max_record_bytes limits"
    and "pl_max_record_bytes limits < 2 ^ 32"
    and "length (items s) + length xs \<le> cap" "new_keys (items s) xs"
  shows "read_records (length xs + n) limits s
      (new_reader (concat (map (\<lambda>x. record_bytes (tag, encode x)) xs) @ bs)) =
    read_records n limits (add (map kept xs) s) (new_reader bs)"
  using assms
proof (induction xs arbitrary: s)
  case (Cons x xs)
  have "fits_u32 (length (encode x))"
    using Cons.prems(2,3) by (auto simp: fits_u32_def)
  then have "read_container_record limits s (new_reader (record_bytes (tag, encode x) @
      concat (map (\<lambda>x. record_bytes (tag, encode x)) xs) @ bs)) =
      Inr (add [kept x] s, new_reader (concat (map (\<lambda>x. record_bytes (tag, encode x)) xs) @ bs))"
    using Cons.prems by (intro record_accepted) auto
  moreover have "new_keys (items (add [kept x] s)) xs"
    using new_keys_Cons [OF Cons.prems(5)] by simp
  ultimately show ?case using Cons.IH [of "add [kept x] s"] Cons.prems by simp
qed simp

end

interpretation policies: record_section write_policy "read_policy limits" "policy_storable limits"
    "\<lambda>p. p" RT_POLICY limits "pl_max_policies limits" "Some pol_id" du_policies
    "\<lambda>xs s. s \<lparr>du_policies := du_policies s @ xs\<rparr>" for limits
  by unfold_locales (simp_all add: read_record_def)

interpretation devices: record_section write_device "read_device limits" "device_storable limits"
    "\<lambda>d. d" RT_DEVICE_REGISTRATION limits "pl_max_devices limits" "Some dr_device" du_devices
    "\<lambda>xs s. s \<lparr>du_devices := du_devices s @ xs\<rparr>" for limits
  by unfold_locales (simp_all add: read_record_def)

interpretation domains: record_section write_domain "read_domain limits" "domain_storable limits"
    "\<lambda>d. d" RT_DOMAIN_DEFINITION limits "pl_max_domains limits" "Some dd_id" du_domains
    "\<lambda>xs s. s \<lparr>du_domains := du_domains s @ xs\<rparr>" for limits
  by unfold_locales (simp_all add: read_record_def)

interpretation couplings: record_section write_coupling "read_coupling limits"
    "coupling_storable limits" coupling_kept RT_COUPLING limits "pl_max_couplings limits"
    "Some cr_id" du_couplings "\<lambda>xs s. s \<lparr>du_couplings := du_couplings s @ xs\<rparr>" for limits
  by unfold_locales (auto simp: read_record_def coupling_kept_def)

interpretation transitions: record_section write_transition read_transition
    "\<lambda>t. temperature_storable (tr_temperature t)" "\<lambda>t. t" RT_STATE_TRANSITION limits
    "pl_max_transitions limits" None du_transitions
    "\<lambda>xs s. s \<lparr>du_transitions := du_transitions s @ xs\<rparr>" for limits
  by unfold_locales (simp_all add: read_record_def)

interpretation actions: record_section write_action "read_action limits" "action_storable limits"
    action_kept RT_ACTION_RECORD limits "pl_max_actions limits" "Some ac_id" du_actions
    "\<lambda>xs s. s \<lparr>du_actions := du_actions s @ xs\<rparr>" for limits
  by unfold_locales (auto simp: read_record_def action_kept_def)

interpretation verifications: record_section write_verification read_verification
    verification_storable verification_kept RT_VERIFICATION_RECORD limits
    "pl_max_verifications limits" None du_verifications
    "\<lambda>xs s. s \<lparr>du_verifications := du_verifications s @ xs\<rparr>" for limits
  by unfold_locales (simp_all add: read_record_def)

section \<open>The whole file\<close>

text \<open>
  What a state must satisfy to survive the format: the current version, values the formats of
  its records can carry, no repeated identity, and a size within the limits of the decoder.
\<close>

definition records_storable :: "persistence_limits \<Rightarrow> durable_state \<Rightarrow> bool" where
  "records_storable limits s \<longleftrightarrow>
     list_all (policy_storable limits) (du_policies s) \<and>
     list_all (device_storable limits) (du_devices s) \<and>
     list_all (domain_storable limits) (du_domains s) \<and>
     list_all (coupling_storable limits) (du_couplings s) \<and>
     list_all (\<lambda>t. temperature_storable (tr_temperature t)) (du_transitions s) \<and>
     list_all (action_storable limits) (du_actions s) \<and>
     list_all verification_storable (du_verifications s)"

definition identities_unique :: "durable_state \<Rightarrow> bool" where
  "identities_unique s \<longleftrightarrow>
     distinct (map pol_id (du_policies s)) \<and> distinct (map dr_device (du_devices s)) \<and>
     distinct (map dd_id (du_domains s)) \<and> distinct (map cr_id (du_couplings s)) \<and>
     distinct (map ac_id (du_actions s))"

definition limits_sensible :: "persistence_limits \<Rightarrow> bool" where
  "limits_sensible limits \<longleftrightarrow>
     pl_max_file_bytes limits + 40 < 2 ^ 64 \<and> pl_max_records limits < 2 ^ 64 \<and>
     pl_max_record_bytes limits < 2 ^ 32"

definition durable_kept :: "durable_state \<Rightarrow> durable_state" where
  "durable_kept s = s
     \<lparr>du_couplings := map coupling_kept (du_couplings s),
      du_actions := map action_kept (du_actions s),
      du_verifications := map verification_kept (du_verifications s)\<rparr>"

lemma emit_all_iff:
  "emit_all limits records acc = Inr body \<longleftrightarrow>
     list_all (\<lambda>x. length (snd x) \<le> pl_max_record_bytes limits) records \<and>
     body = acc @ concat (map record_bytes records)"
  by (induction records arbitrary: acc) (auto simp: not_less)

lemma coordinator_written:
  assumes "du_format_version s = kPersistenceFormatVersion"
    and "length (write_coordinator s) \<le> pl_max_record_bytes limits"
  shows "read_container_record limits s0
      (new_reader (record_bytes (RT_COORDINATOR_STATE, write_coordinator s) @ bs)) =
    Inr (s0 \<lparr>du_format_version := du_format_version s, du_coordinator := du_coordinator s,
      du_coordinator_epoch := du_coordinator_epoch s,
      du_policy_generation := du_policy_generation s,
      du_topology_generation := du_topology_generation s, du_sequence := du_sequence s\<rparr>,
      new_reader bs)"
proof -
  have "length (write_coordinator s) = 44" by (simp add: write_coordinator_def)
  then have "fits_u32 (length (write_coordinator s))" by (simp add: fits_u32_def)
  moreover have "reader_u64 (new_reader (writer_u64 v)) = (v, new_reader [])" for v
    using reader_u64_written [of v "[]"] by simp
  ultimately show ?thesis
    using assms
    by (simp add: container_record_written read_record_def write_coordinator_def codec_simps
        reader_exhausted_def)
qed

lemma records_written:
  assumes limits: "limits_sensible limits" and counts: "within_counts limits s"
    and version: "du_format_version s = kPersistenceFormatVersion"
    and storable: "records_storable limits s" and unique: "identities_unique s"
    and sizes: "list_all (\<lambda>x. length (snd x) \<le> pl_max_record_bytes limits) (durable_payloads s)"
  shows "read_records (length (durable_payloads s)) limits
      (empty_durable \<lparr>du_format_version := du_format_version s\<rparr>)
      (new_reader (concat (map record_bytes (durable_payloads s)))) =
    Inr (durable_kept s, new_reader [])"
proof -
  note sections = policies.section_written [where limits = limits] devices.section_written [where limits = limits]
    domains.section_written [where limits = limits] couplings.section_written [where limits = limits]
    transitions.section_written [where limits = limits] actions.section_written [where limits = limits]
    verifications.section_written [where limits = limits]
  note keys = policies.new_keys_def devices.new_keys_def domains.new_keys_def couplings.new_keys_def
    transitions.new_keys_def actions.new_keys_def verifications.new_keys_def
  have len: "length (durable_payloads s) = Suc (length (du_policies s) + (length (du_devices s) +
      (length (du_domains s) + (length (du_couplings s) + (length (du_transitions s) +
      (length (du_actions s) + length (du_verifications s)))))))"
    by (simp add: durable_payloads_def)
  have split: "concat (map record_bytes (durable_payloads s)) =
      record_bytes (RT_COORDINATOR_STATE, write_coordinator s) @
      concat (map (\<lambda>x. record_bytes (RT_POLICY, write_policy x)) (du_policies s)) @
      concat (map (\<lambda>x. record_bytes (RT_DEVICE_REGISTRATION, write_device x)) (du_devices s)) @
      concat (map (\<lambda>x. record_bytes (RT_DOMAIN_DEFINITION, write_domain x)) (du_domains s)) @
      concat (map (\<lambda>x. record_bytes (RT_COUPLING, write_coupling x)) (du_couplings s)) @
      concat (map (\<lambda>x. record_bytes (RT_STATE_TRANSITION, write_transition x)) (du_transitions s)) @
      concat (map (\<lambda>x. record_bytes (RT_ACTION_RECORD, write_action x)) (du_actions s)) @
      concat (map (\<lambda>x. record_bytes (RT_VERIFICATION_RECORD, write_verification x)) (du_verifications s))"
    by (simp add: durable_payloads_def comp_def)
  have small: "pl_max_record_bytes limits < 2 ^ 32" using limits by (simp add: limits_sensible_def)
  have coord: "length (write_coordinator s) \<le> pl_max_record_bytes limits"
    using sizes by (simp add: durable_payloads_def)
  have sized:
    "\<forall>x \<in> set (du_policies s). length (write_policy x) \<le> pl_max_record_bytes limits"
    "\<forall>x \<in> set (du_devices s). length (write_device x) \<le> pl_max_record_bytes limits"
    "\<forall>x \<in> set (du_domains s). length (write_domain x) \<le> pl_max_record_bytes limits"
    "\<forall>x \<in> set (du_couplings s). length (write_coupling x) \<le> pl_max_record_bytes limits"
    "\<forall>x \<in> set (du_transitions s). length (write_transition x) \<le> pl_max_record_bytes limits"
    "\<forall>x \<in> set (du_actions s). length (write_action x) \<le> pl_max_record_bytes limits"
    "\<forall>x \<in> set (du_verifications s). length (write_verification x) \<le> pl_max_record_bytes limits"
    using sizes by (simp_all add: durable_payloads_def list_all_iff ball_Un)
  note count = counts [unfolded within_counts_def] and store = storable [unfolded records_storable_def]
    and uniq = unique [unfolded identities_unique_def]
  have last: "read_records (length (du_verifications s)) limits s1
      (new_reader (concat (map (\<lambda>x. record_bytes (RT_VERIFICATION_RECORD, write_verification x))
        (du_verifications s)))) =
      Inr (s1 \<lparr>du_verifications := map verification_kept (du_verifications s)\<rparr>, new_reader [])"
    if "du_verifications s1 = []" for s1
    using verifications.section_written [where xs = "du_verifications s" and limits = limits
        and s = s1 and n = 0 and bs = "[]"] small count store sized(7) that
    by (simp add: keys)
  show ?thesis
    unfolding len split read_records.simps coordinator_written [OF version coord] and_then_simps
    using count store uniq small sized
    by (simp add: sections keys last empty_durable_def durable_kept_def)
qed

lemma encode_durable_state_iff:
  "encode_durable_state limits s = Inr bytes \<longleftrightarrow>
     within_counts limits s \<and>
     list_all (\<lambda>x. length (snd x) \<le> pl_max_record_bytes limits) (durable_payloads s) \<and>
     length (concat (map record_bytes (durable_payloads s))) \<le> pl_max_file_bytes limits \<and>
     bytes = container_bytes (length (durable_payloads s)) (concat (map record_bytes (durable_payloads s)))"
proof (cases "emit_all limits (durable_payloads s) []")
  case (Inl e)
  then have "\<not> list_all (\<lambda>x. length (snd x) \<le> pl_max_record_bytes limits) (durable_payloads s)"
    using emit_all_iff [of limits "durable_payloads s" "[]" "concat (map record_bytes (durable_payloads s))"]
    by simp
  then show ?thesis by (simp add: encode_durable_state_def Inl)
next
  case (Inr body)
  then have "list_all (\<lambda>x. length (snd x) \<le> pl_max_record_bytes limits) (durable_payloads s)"
      "body = concat (map record_bytes (durable_payloads s))"
    using emit_all_iff [of limits "durable_payloads s" "[]" body] by simp_all
  then show ?thesis by (auto simp: encode_durable_state_def Inr)
qed

lemma length_container_header [simp]: "length (container_header n m) = 32"
  by (simp add: container_header_def)

lemma length_container [simp]: "length (container_bytes n body) = 40 + length body"
  by (simp add: container_bytes_def Let_def)

lemma container_decoded:
  assumes limits: "limits_sensible limits" and n: "n \<le> pl_max_records limits"
    and size: "40 + length body \<le> pl_max_file_bytes limits"
  shows "decode_durable_state limits (container_bytes n body) =
    and_then (read_records n limits (empty_durable \<lparr>du_format_version := kPersistenceFormatVersion\<rparr>)
        (new_reader body))
      (\<lambda>s r. if \<not> reader_exhausted r then Inl E_PERSISTENCE_TRAILING_GARBAGE
         else Inr \<lparr>lr_state = s, lr_records_read = n, lr_bytes_read = 40 + length body\<rparr>)"
proof -
  let ?crc = "crc32c (container_header n (length body)) 0"
  have bytes: "container_bytes n body =
      container_header n (length body) @ writer_u32 ?crc @ body @ writer_u32 (crc32c body 0)"
    by (simp add: container_bytes_def Let_def kContainerChecksumCoverage_def)
  have small: "length body < 2 ^ 64" "n < 2 ^ 64"
    using assms by (auto simp: limits_sensible_def)
  then have counts: "unat (of_nat (length body) :: u64) = length body" "unat (of_nat n :: u64) = n"
    by (simp_all add: unat_of_nat)
  have covered: "take 32 (container_bytes n body) = container_header n (length body)"
    by (simp add: bytes)
  have the_body: "take (length body) (drop 36 (container_bytes n body)) = body"
    by (simp add: bytes)
  have trailer: "le_word (take 4 (drop (36 + length body) (container_bytes n body))) =
      (crc32c body 0 :: u32)"
    by (simp add: bytes le_word_inverse writer_u32_def)
  have stored: "le_word (writer_u32 v) = v" for v :: u32
    by (simp add: le_word_inverse writer_u32_def)
  show ?thesis
    unfolding decode_durable_state_def container_sizes
    using size n
    by (cases "read_records n limits (empty_durable \<lparr>du_format_version := kPersistenceFormatVersion\<rparr>)
          (new_reader body)";
        simp add: counts covered the_body trailer Let_def;
        auto simp add: bytes container_header_def codec_simps counts stored)
qed

lemma encoded_decodes:
  assumes "encode_durable_state limits s = Inr bytes"
    and "limits_sensible limits" "records_storable limits s" "identities_unique s"
    and "du_format_version s = kPersistenceFormatVersion"
    and "length (durable_payloads s) \<le> pl_max_records limits"
    and "length bytes \<le> pl_max_file_bytes limits"
  shows "decode_durable_state limits bytes =
    Inr \<lparr>lr_state = durable_kept s, lr_records_read = length (durable_payloads s),
      lr_bytes_read = length bytes\<rparr>"
proof -
  note enc = assms(1) [unfolded encode_durable_state_iff]
  let ?body = "concat (map record_bytes (durable_payloads s))"
  have bytes: "bytes = container_bytes (length (durable_payloads s)) ?body" using enc by blast
  have "40 + length ?body \<le> pl_max_file_bytes limits" using assms(7) bytes by simp
  moreover have "read_records (length (durable_payloads s)) limits
      (empty_durable \<lparr>du_format_version := kPersistenceFormatVersion\<rparr>) (new_reader ?body) =
      Inr (durable_kept s, new_reader [])"
    using records_written [OF assms(2) _ assms(5,3,4)] enc assms(5) by metis
  ultimately show ?thesis
    using container_decoded [OF assms(2,6)] bytes by (simp add: reader_exhausted_def)
qed

section \<open>Corruption\<close>

lemma bit_le_word: "bit (le_word xs :: 'a::len word) i \<Longrightarrow> i < 8 * length xs"
proof (induction xs arbitrary: i)
  case (Cons x xs)
  show ?case
  proof (cases "i < 8")
    case False
    then have "bit (le_word xs :: 'a word) (i - 8)"
      using Cons.prems by (auto simp: bit_simps dest: bit_imp_le_length)
    from Cons.IH [OF this] False show ?thesis by simp
  qed simp
qed simp

lemma le_word_inj:
  fixes xs ys :: "u8 list"
  assumes "length xs = length ys" "8 * length ys \<le> LENGTH('a)"
    and "(le_word xs :: 'a::len word) = le_word ys"
  shows "xs = ys"
  using assms
proof (induction xs ys rule: list_induct2)
  case (Cons x xs y ys)
  have bits: "bit (le_word (x # xs) :: 'a word) i = bit (le_word (y # ys) :: 'a word) i" for i
    using Cons.prems by simp
  have "bit x i = bit y i" if "i < 8" for i
    using bits [of i] that Cons.prems(1) by (simp add: bit_simps)
  then have "x = y" by (intro bit_word_eqI) simp
  moreover have "bit (le_word xs :: 'a word) i = bit (le_word ys :: 'a word) i" for i
  proof (cases "i < 8 * length ys")
    case True
    then show ?thesis
      using bits [of "8 + i"] Cons.prems(1) by (auto simp: bit_simps dest: bit_imp_le_length)
  next
    case False
    then show ?thesis using bit_le_word Cons.hyps by metis
  qed
  then have "(le_word xs :: 'a word) = le_word ys" by (rule bit_word_eqI)
  then have "xs = ys" using Cons by simp
  ultimately show ?case by simp
qed simp

text \<open>What an accepted container satisfies.\<close>

lemma reader_u64_at:
  "8 \<le> length bs \<Longrightarrow> reader_u64 (new_reader bs) = (le_word (take 8 bs), new_reader (drop 8 bs))"
  by (simp add: reader_u64_def reader_word_def)

lemma reader_u32_at:
  "4 \<le> length bs \<Longrightarrow> reader_u32 (new_reader bs) = (le_word (take 4 bs), new_reader (drop 4 bs))"
  by (simp add: reader_u32_def reader_word_def)

lemma u64_of_nat_inj: "j < 2 ^ 64 \<Longrightarrow> k < 2 ^ 64 \<Longrightarrow> of_nat j = (of_nat k :: u64) \<Longrightarrow> j = k"
  by (drule arg_cong [of _ _ unat]) (simp add: unat_of_nat)

lemma decoded_container:
  assumes ok: "decode_durable_state limits bs = Inr result" and limits: "limits_sensible limits"
  shows "length bs = 40 + unat (le_word (take 8 (drop 24 bs)) :: u64)"
    and "crc32c (take 32 bs) 0 = le_word (take 4 (drop 32 bs))"
    and "crc32c (take (length bs - 40) (drop 36 bs)) 0 = le_word (take 4 (drop (length bs - 4) bs))"
proof -
  let ?n = "le_word (take 8 (drop 24 bs)) :: u64"
  have len: "40 \<le> length bs" and small: "length bs \<le> pl_max_file_bytes limits"
    using ok by (auto simp: decode_durable_state_def container_sizes not_less split: if_splits)
  note facts = ok [unfolded decode_durable_state_def container_sizes]
  have crcs: "crc32c (take 32 bs) 0 = le_word (take 4 (drop 32 bs))"
    "unat ?n \<le> pl_max_file_bytes limits" "of_nat (length bs) = 40 + ?n"
    "crc32c (take (unat ?n) (drop 36 bs)) 0 = le_word (take 4 (drop (36 + unat ?n) bs))"
    using facts len
    by (auto simp: reader_u64_at reader_u32_at not_less Let_def add_ac split: if_splits)
  then show "crc32c (take 32 bs) 0 = le_word (take 4 (drop 32 bs))" by blast
  have "length bs < 2 ^ 64" "40 + unat ?n < 2 ^ 64"
    using small crcs(2) limits unfolding limits_sensible_def by linarith+
  moreover have "of_nat (length bs) = (of_nat (40 + unat ?n) :: u64)"
    using crcs(3) by simp
  ultimately show n: "length bs = 40 + unat ?n" by (rule u64_of_nat_inj)
  have "length bs - 40 = unat ?n" "length bs - 4 = 36 + unat ?n" using n by linarith+
  then show "crc32c (take (length bs - 40) (drop 36 bs)) 0 = le_word (take 4 (drop (length bs - 4) bs))"
    using crcs(4) by (simp only:)
qed

text \<open>Bytes outside the changed position are the same.\<close>

lemma take_update_out: "n \<le> i \<Longrightarrow> take n (xs[i := x]) = take n xs"
  by (simp add: take_update_swap list_update_beyond)

lemma drop_update_out: "i < n \<Longrightarrow> drop n (xs[i := x]) = drop n xs"
  by (simp add: drop_update_swap)

lemma segment_update_out: "i < n \<or> n + k \<le> i \<Longrightarrow> take k (drop n (xs[i := x])) = take k (drop n xs)"
  by (cases "i < n") (auto simp: drop_update_swap take_update_swap list_update_beyond)

lemma segment_update_in:
  "n \<le> i \<Longrightarrow> i < n + k \<Longrightarrow> take k (drop n (xs[i := x])) = (take k (drop n xs))[i - n := x]"
  by (simp add: drop_update_swap take_update_swap)

lemma segment_changed:
  assumes "n \<le> i" "i < n + k" "i < length xs" "x \<noteq> xs ! i"
  shows "take k (drop n (xs[i := x])) \<noteq> take k (drop n xs)"
proof
  assume "take k (drop n (xs[i := x])) = take k (drop n xs)"
  then have "take k (drop n (xs[i := x])) ! (i - n) = take k (drop n xs) ! (i - n)" by simp
  then show False using assms by simp
qed

text \<open>
  A segment and its stored checksum: when both readings pass the check, no byte of the segment or
  of the checksum was changed.
\<close>

lemma checked_segment_unchanged:
  assumes old: "crc32c (take k (drop n bs)) 0 = le_word (take 4 (drop m bs))"
    and new: "crc32c (take k (drop n (bs[i := b]))) 0 = le_word (take 4 (drop m (bs[i := b])))"
    and apart: "n + k \<le> m" "m + 4 \<le> length bs"
    and i: "n \<le> i \<and> i < n + k \<or> m \<le> i \<and> i < m + 4"
  shows "b = bs ! i"
proof (rule ccontr)
  assume b: "b \<noteq> bs ! i"
  have len: "i < length bs" using apart i by auto
  from i show False
  proof
    assume seg: "n \<le> i \<and> i < n + k"
    have "take 4 (drop m (bs[i := b])) = take 4 (drop m bs)"
      using seg apart by (intro segment_update_out) auto
    moreover have "take k (drop n (bs[i := b])) = (take k (drop n bs))[i - n := b]"
      using seg by (intro segment_update_in) auto
    ultimately have "crc32c ((take k (drop n bs))[i - n := b]) 0 = crc32c (take k (drop n bs)) 0"
      using old new by simp
    moreover have "i - n < length (take k (drop n bs))" using seg len by auto
    moreover have "i - n < k" "n + (i - n) = i" "n \<le> length bs" using seg len by auto
    then have "take k (drop n bs) ! (i - n) = bs ! i" by simp
    ultimately show False using crc32c_detects b by metis
  next
    assume stored: "m \<le> i \<and> i < m + 4"
    have "take k (drop n (bs[i := b])) = take k (drop n bs)"
      using stored apart by (intro segment_update_out) auto
    then have "(le_word (take 4 (drop m (bs[i := b]))) :: u32) = le_word (take 4 (drop m bs))"
      using old new by simp
    then have "take 4 (drop m (bs[i := b])) = take 4 (drop m bs)"
      by (rule le_word_inj [rotated 2]) auto
    then show False using segment_changed [of m i 4 bs b] stored len b by simp
  qed
qed

lemma single_byte_change:
  assumes ok: "decode_durable_state limits bs = Inr result" and limits: "limits_sensible limits"
    and i: "i < length bs" and ok': "decode_durable_state limits (bs[i := b]) = Inr result'"
  shows "b = bs ! i"
proof -
  note old = decoded_container [OF ok limits]
  note new = decoded_container [OF ok' limits, unfolded length_list_update]
  have len: "40 \<le> length bs" unfolding old(1) by linarith
  show ?thesis
  proof (cases "i < 36")
    case True
    have "crc32c (take 32 (drop 0 bs)) 0 = le_word (take 4 (drop 32 bs))"
      "crc32c (take 32 (drop 0 (bs[i := b]))) 0 = le_word (take 4 (drop 32 (bs[i := b])))"
      using old(2) new(2) by simp_all
    then show ?thesis by (rule checked_segment_unchanged) (use True len in auto)
  next
    case False
    show ?thesis by (rule checked_segment_unchanged [OF old(3) new(3)]) (use False len i in auto)
  qed
qed

text \<open>The container states its own length, so no accepted file is a prefix of another.\<close>

lemma prefix_same_length:
  assumes "decode_durable_state limits bs = Inr result" "limits_sensible limits"
    and "decode_durable_state limits (bs @ tail) = Inr result'"
  shows "tail = []"
proof -
  note old = decoded_container(1) [OF assms(1,2)] and new = decoded_container(1) [OF assms(3,2)]
  have len: "40 \<le> length bs" unfolding old by linarith
  then have "take 8 (drop 24 (bs @ tail)) = take 8 (drop 24 bs)" by simp
  then have "length (bs @ tail) = length bs" using old new by (simp only:)
  then show ?thesis by simp
qed

lemma truncated_file:
  assumes "decode_durable_state limits bs = Inr result" "limits_sensible limits" "n < length bs"
  shows "\<exists>e. decode_durable_state limits (take n bs) = Inl e"
proof (cases "decode_durable_state limits (take n bs)")
  case (Inr result')
  then have "drop n bs = []"
    using prefix_same_length [OF Inr assms(2), of "drop n bs"] assms(1) by simp
  then show ?thesis using assms(3) by simp
qed simp

end
