(* ===== verification/Store.thy ===== *)
theory Store
  imports DurableFile
begin

text \<open>
  \<^verbatim>\<open>DurableStore\<close> of \<^verbatim>\<open>persistence.cpp\<close>, in its POSIX form: a save writes a temporary sibling
  and renames it over the durable file. A file system is a map from paths to contents; what the
  system calls do is a parameter of each operation, and a save returns every file system state
  it passes through, so that a crash between any two steps can be asked about.
\<close>

section \<open>Operations\<close>

type_synonym files = "string \<Rightarrow> u8 list option"

text \<open>
  The outcome of the calls of one save: \<^verbatim>\<open>fopen\<close>, the number of bytes \<^verbatim>\<open>fwrite\<close> accepts,
  \<^verbatim>\<open>fflush\<close> and \<^verbatim>\<open>rename\<close>.
\<close>

record save_outcome =
  so_opened :: bool
  so_written :: nat
  so_flushed :: bool
  so_renamed :: bool

definition unique_temporary_path :: "string \<Rightarrow> u64 \<Rightarrow> string" where
  "unique_temporary_path base index = base @ ''.tmp-'' @ unsigned_decimal index"

text \<open>\<^verbatim>\<open>rename\<close> replaces the target in one step.\<close>

definition atomic_replace :: "bool \<Rightarrow> string \<Rightarrow> string \<Rightarrow> files \<Rightarrow> status \<times> files" where
  "atomic_replace renamed temp target fs =
     (if renamed then (success, fs(target := fs temp, temp := None))
      else (Inl E_PERSISTENCE_IO, fs))"

text \<open>The states in which the temporary file holds a growing prefix of the bytes.\<close>

definition write_states ::
  "'p \<Rightarrow> u8 list \<Rightarrow> nat \<Rightarrow> ('p \<Rightarrow> u8 list option) \<Rightarrow> ('p \<Rightarrow> u8 list option) list" where
  "write_states temp bytes n fs = map (\<lambda>k. fs(temp \<mapsto> take k bytes)) [0..<Suc n]"

text \<open>
  Write the temporary sibling and rename it; on failure it is removed again. The removal, whose outcome
  the source ignores, is assumed to succeed; the durable file does not depend on it.
\<close>

definition write_durable_file ::
  "string \<Rightarrow> u64 \<Rightarrow> save_outcome \<Rightarrow> u8 list \<Rightarrow> files \<Rightarrow> status \<times> files list" where
  "write_durable_file path index io bytes fs =
     (let temp = unique_temporary_path path index; written = min (so_written io) (length bytes)
      in if \<not> so_opened io then (Inl E_PERSISTENCE_IO, [fs])
         else
           let states = fs # write_states temp bytes written fs; full = last states
           in if written \<noteq> length bytes \<or> \<not> so_flushed io
              then (Inl E_PERSISTENCE_IO, states @ [full(temp := None)])
              else case atomic_replace (so_renamed io) temp path full of
                (Inl e, fs') \<Rightarrow> (Inl e, states @ [fs'(temp := None)])
              | (Inr _, fs') \<Rightarrow> (success, states @ [fs']))"

definition store_save ::
  "persistence_limits \<Rightarrow> string \<Rightarrow> u64 \<Rightarrow> save_outcome \<Rightarrow> durable_state \<Rightarrow> files \<Rightarrow> status \<times> files list" where
  "store_save limits path index io s fs =
     (if path = [] then (Inl E_INVALID_ARGUMENT, [fs])
      else case encode_durable_state limits s of
        Inl e \<Rightarrow> (Inl e, [fs])
      | Inr bytes \<Rightarrow> write_durable_file path index io bytes fs)"

definition store_exists :: "string \<Rightarrow> files \<Rightarrow> bool" where
  "store_exists path fs \<longleftrightarrow> fs path \<noteq> None"

definition read_durable_file :: "persistence_limits \<Rightarrow> string \<Rightarrow> files \<Rightarrow> load_result result" where
  "read_durable_file limits path fs =
     (case fs path of
        None \<Rightarrow> Inl E_PERSISTENCE_IO
      | Some bytes \<Rightarrow>
          if pl_max_file_bytes limits < length bytes then Inl E_PERSISTENCE_CORRUPT
          else decode_durable_state limits bytes)"

definition store_load :: "persistence_limits \<Rightarrow> string \<Rightarrow> files \<Rightarrow> load_result result" where
  "store_load limits path fs =
     (if path = [] then Inl E_INVALID_ARGUMENT else read_durable_file limits path fs)"

text \<open>
  \<^verbatim>\<open>remove_all\<close> removes the durable file and the temporary siblings it can name; \<open>removable\<close> is
  which paths \<^verbatim>\<open>remove\<close> can remove.
\<close>

definition remove_file :: "(string \<Rightarrow> bool) \<Rightarrow> string \<Rightarrow> files \<Rightarrow> bool \<times> files" where
  "remove_file removable path fs =
     (if fs path \<noteq> None \<and> removable path then (True, fs(path := None)) else (False, fs))"

definition store_remove_all :: "(string \<Rightarrow> bool) \<Rightarrow> string \<Rightarrow> files \<Rightarrow> status \<times> files" where
  "store_remove_all removable path fs =
     (let names = (path @ ''.tmp'') # map (\<lambda>i. unique_temporary_path path (of_nat i)) [1..<65];
          fs = foldl (\<lambda>fs p. snd (remove_file removable p fs)) fs names
      in case remove_file removable path fs of
           (True, fs) \<Rightarrow> (success, fs)
         | (False, fs) \<Rightarrow> (if store_exists path fs then Inl E_PERSISTENCE_IO else success, fs))"

section \<open>Laws\<close>

lemma temporary_is_not_target [simp]:
  "unique_temporary_path path index \<noteq> path" "path \<noteq> unique_temporary_path path index"
  by (simp_all add: unique_temporary_path_def)

lemma last_write_states [simp]: "last (write_states temp bytes n fs) = fs(temp \<mapsto> take n bytes)"
  by (simp add: write_states_def)

lemma write_states_nonempty [simp]: "write_states temp bytes n fs \<noteq> []"
  by (simp add: write_states_def)

lemma write_states_frame: "fs' \<in> set (write_states temp bytes n fs) \<Longrightarrow> p \<noteq> temp \<Longrightarrow> fs' p = fs p"
  by (auto simp: write_states_def)

text \<open>The shape of a save that reaches the file system.\<close>

lemma store_save_states:
  assumes "store_save limits path index io s fs = (r, states)" "fs' \<in> set states"
  shows "fs' path = fs path \<or>
    (\<exists>bytes. encode_durable_state limits s = Inr bytes \<and> fs' path = Some bytes)"
  using assms
  by (auto simp: store_save_def write_durable_file_def atomic_replace_def Let_def split: if_splits sum.splits
      dest!: write_states_frame [where p = path])

lemma store_save_success:
  assumes "store_save limits path index io s fs = (success, states)"
  shows "\<exists>bytes. encode_durable_state limits s = Inr bytes \<and> last states path = Some bytes"
  using assms
  by (auto simp: store_save_def write_durable_file_def atomic_replace_def Let_def split: if_splits sum.splits)

lemma store_save_failure:
  assumes "store_save limits path index io s fs = (Inl e, states)"
  shows "last states path = fs path"
  using assms
  by (auto simp: store_save_def write_durable_file_def atomic_replace_def Let_def split: if_splits sum.splits)

lemma store_save_no_leftovers:
  assumes "store_save limits path index io s fs = (r, states)"
    and "fs (unique_temporary_path path index) = None"
  shows "last states (unique_temporary_path path index) = None"
  using assms
  by (auto simp: store_save_def write_durable_file_def atomic_replace_def Let_def split: if_splits sum.splits)

lemma store_load_encoded:
  assumes "encode_durable_state limits s = Inr bytes" "fs path = Some bytes" "path \<noteq> []"
    and "limits_sensible limits" "records_storable limits s" "identities_unique s"
    and "du_format_version s = kPersistenceFormatVersion"
    and "length (durable_payloads s) \<le> pl_max_records limits"
    and "length bytes \<le> pl_max_file_bytes limits"
  shows "store_load limits path fs = Inr \<lparr>lr_state = durable_kept s,
    lr_records_read = length (durable_payloads s), lr_bytes_read = length bytes\<rparr>"
  using encoded_decodes [OF assms(1,4-9)] assms(2,3,9) by (simp add: store_load_def read_durable_file_def)

lemma remove_file_other: "p \<noteq> q \<Longrightarrow> snd (remove_file removable p fs) q = fs q"
  by (simp add: remove_file_def)

lemma remove_files_other:
  "q \<notin> set ps \<Longrightarrow> foldl (\<lambda>fs p. snd (remove_file removable p fs)) fs ps q = fs q"
  by (induction ps arbitrary: fs) (auto simp: remove_file_other)

text \<open>After a successful removal the durable file is gone; a failed one leaves it alone.\<close>

lemma store_remove_all_result:
  assumes "store_remove_all removable path fs = (r, fs')"
  shows "fs' path = (if r = success then None else fs path)"
proof -
  let ?names = "(path @ ''.tmp'') # map (\<lambda>i. unique_temporary_path path (of_nat i)) [1..<65]"
  have "path \<notin> set ?names" by (auto simp del: upt_rec_numeral)
  then have "foldl (\<lambda>fs p. snd (remove_file removable p fs)) fs ?names path = fs path"
    by (rule remove_files_other)
  then show ?thesis
    using assms
    by (auto simp: store_remove_all_def Let_def remove_file_def [of removable path] store_exists_def
        simp del: upt_rec_numeral foldl_Cons split: if_splits)
qed

end
