(* ===== verification/WindowsStore.thy ===== *)
theory WindowsStore
  imports Store
begin

text \<open>
  The Windows branch of \<^verbatim>\<open>DurableStore\<close> in \<^verbatim>\<open>persistence.cpp\<close>. The calls of the system that
  act on paths are a record of functions; what they are documented to do is the predicate
  \<open>windows_documented\<close>. The calls on an open handle are scripts of what they return.
\<close>

section \<open>The system\<close>

type_synonym wide_path = "16 word list"
type_synonym wide_files = "wide_path \<Rightarrow> u8 list option"

text \<open>
  \<^verbatim>\<open>MultiByteToWideChar\<close>, \<^verbatim>\<open>ReplaceFileW\<close> on a target and a replacement (with the error of a
  failed call), \<^verbatim>\<open>MoveFileExW\<close> with replacement, and \<^verbatim>\<open>DeleteFileW\<close>.
\<close>

record windows_calls =
  wc_wide :: "string \<Rightarrow> wide_path"
  wc_replace :: "wide_path \<Rightarrow> wide_path \<Rightarrow> wide_files \<Rightarrow> u32 option \<times> wide_files"
  wc_move :: "wide_path \<Rightarrow> wide_path \<Rightarrow> wide_files \<Rightarrow> bool \<times> wide_files"
  wc_delete :: "wide_path \<Rightarrow> wide_files \<Rightarrow> wide_files"

definition ERROR_FILE_NOT_FOUND :: u32 where "ERROR_FILE_NOT_FOUND = 2"
definition ERROR_PATH_NOT_FOUND :: u32 where "ERROR_PATH_NOT_FOUND = 3"

text \<open>Errors after which \<^verbatim>\<open>ReplaceFileW\<close>, given no backup name, has already removed its target.\<close>

definition ERROR_UNABLE_TO_MOVE_REPLACEMENT :: u32 where "ERROR_UNABLE_TO_MOVE_REPLACEMENT = 1176"
definition ERROR_UNABLE_TO_MOVE_REPLACEMENT_2 :: u32 where "ERROR_UNABLE_TO_MOVE_REPLACEMENT_2 = 1177"

lemmas windows_errors = ERROR_FILE_NOT_FOUND_def ERROR_PATH_NOT_FOUND_def
  ERROR_UNABLE_TO_MOVE_REPLACEMENT_def ERROR_UNABLE_TO_MOVE_REPLACEMENT_2_def

fun replace_effect :: "u32 option \<Rightarrow> wide_path \<Rightarrow> wide_path \<Rightarrow> wide_files \<Rightarrow> wide_files \<Rightarrow> bool" where
  "replace_effect None target temp fs fs' \<longleftrightarrow> fs' = fs(target := fs temp, temp := None)"
| "replace_effect (Some e) target temp fs fs' \<longleftrightarrow>
     (if e = ERROR_UNABLE_TO_MOVE_REPLACEMENT then fs' = fs(target := None)
      else if e = ERROR_UNABLE_TO_MOVE_REPLACEMENT_2
      then \<exists>aside. aside \<notin> {target, temp} \<and> fs' = fs(aside := fs target, target := None)
      else fs' = fs)"

definition replace_documented :: "windows_calls \<Rightarrow> bool" where
  "replace_documented w \<longleftrightarrow> (\<forall>target temp fs r fs'.
     wc_replace w target temp fs = (r, fs') \<longrightarrow> replace_effect r target temp fs fs')"

definition move_documented :: "windows_calls \<Rightarrow> bool" where
  "move_documented w \<longleftrightarrow> (\<forall>temp target fs.
     wc_move w temp target fs = (True, fs(target := fs temp, temp := None)) \<or>
     wc_move w temp target fs = (False, fs))"

definition delete_documented :: "windows_calls \<Rightarrow> bool" where
  "delete_documented w \<longleftrightarrow> (\<forall>p fs. wc_delete w p fs \<in> {fs, fs(p := None)})"

definition windows_documented :: "windows_calls \<Rightarrow> bool" where
  "windows_documented w \<longleftrightarrow> replace_documented w \<and> move_documented w \<and> delete_documented w \<and>
     (\<forall>path index. wc_wide w (unique_temporary_path path index) \<noteq> wc_wide w path)"

section \<open>Operations\<close>

definition to_wide :: "windows_calls \<Rightarrow> string \<Rightarrow> wide_path" where
  "to_wide w text = (if text = [] then [] else wc_wide w text)"

text \<open>Replace the target; where there is none yet, move the temporary file there.\<close>

definition windows_replace :: "windows_calls \<Rightarrow> string \<Rightarrow> string \<Rightarrow> wide_files \<Rightarrow> status \<times> wide_files" where
  "windows_replace w temp target fs =
     (let wide_temp = to_wide w temp; wide_target = to_wide w target
      in case wc_replace w wide_target wide_temp fs of
           (None, fs) \<Rightarrow> (success, fs)
         | (Some replace_error, fs) \<Rightarrow>
             if replace_error \<noteq> ERROR_FILE_NOT_FOUND \<and> replace_error \<noteq> ERROR_PATH_NOT_FOUND
             then (Inl E_PERSISTENCE_IO, fs)
             else case wc_move w wide_temp wide_target fs of
               (True, fs) \<Rightarrow> (success, fs)
             | (False, fs) \<Rightarrow> (Inl E_PERSISTENCE_IO, fs))"

text \<open>
  The loop of \<^verbatim>\<open>WriteFile\<close> and of \<^verbatim>\<open>ReadFile\<close>: each call is asked for at most a mebibyte of what
  is left and transfers some bytes, which the script counts, or fails. The
  result is whether the loop ended well, \<open>None\<close> while the calls of the script do not end it, and
  the bytes transferred.
\<close>

fun transfer :: "u32 option list \<Rightarrow> nat \<Rightarrow> nat \<Rightarrow> bool option \<times> nat" where
  "transfer script wanted moved =
     (if wanted \<le> moved then (Some True, moved)
      else case script of
        [] \<Rightarrow> (None, moved)
      | None # _ \<Rightarrow> (Some False, moved)
      | Some n # script \<Rightarrow> transfer script wanted (moved + unat n))"

declare transfer.simps [simp del]

record windows_save_script =
  ws_created :: bool
  ws_writes :: "u32 option list"
  ws_flushed :: bool

definition write_windows_file ::
  "windows_calls \<Rightarrow> string \<Rightarrow> u64 \<Rightarrow> windows_save_script \<Rightarrow> u8 list \<Rightarrow> wide_files \<Rightarrow>
     status option \<times> wide_files list" where
  "write_windows_file w path index script bytes fs =
     (let temp = unique_temporary_path path index; wide_temp = wc_wide w temp
      in if \<not> ws_created script then (Some (Inl E_PERSISTENCE_IO), [fs])
         else case transfer (ws_writes script) (length bytes) 0 of (ended, written) \<Rightarrow>
           let states = fs # write_states wide_temp bytes written fs; full = last states
           in case ended of
                None \<Rightarrow> (None, states)
              | Some ok \<Rightarrow>
                  if \<not> ok \<or> \<not> ws_flushed script
                  then (Some (Inl E_PERSISTENCE_IO), states @ [wc_delete w wide_temp full])
                  else case windows_replace w temp path full of
                    (Inl e, fs') \<Rightarrow> (Some (Inl e), states @ [fs', wc_delete w wide_temp fs'])
                  | (Inr _, fs') \<Rightarrow> (Some success, states @ [fs']))"

definition windows_save ::
  "persistence_limits \<Rightarrow> windows_calls \<Rightarrow> string \<Rightarrow> u64 \<Rightarrow> windows_save_script \<Rightarrow> durable_state \<Rightarrow>
     wide_files \<Rightarrow> status option \<times> wide_files list" where
  "windows_save limits w path index script s fs =
     (if path = [] then (Some (Inl E_INVALID_ARGUMENT), [fs])
      else case encode_durable_state limits s of
        Inl e \<Rightarrow> (Some (Inl e), [fs])
      | Inr bytes \<Rightarrow> write_windows_file w path index script bytes fs)"

text \<open>\<^verbatim>\<open>GetFileAttributesW\<close> answers the attributes or all ones.\<close>

definition windows_exists :: "u32 \<Rightarrow> bool" where
  "windows_exists attributes \<longleftrightarrow> attributes \<noteq> 0xFFFFFFFF \<and> and attributes 0x10 = 0"

text \<open>The handle calls of a load: opening, the size as a signed number, the reads.\<close>

record windows_load_script =
  wl_opened :: bool
  wl_size :: "u64 option"
  wl_reads :: "u32 option list"

text \<open>The buffer of the answered size, holding what the file has of it.\<close>

definition read_buffer :: "nat \<Rightarrow> u8 list \<Rightarrow> u8 list" where
  "read_buffer n contents = take n contents @ replicate (n - length contents) 0"

definition read_windows_file ::
  "persistence_limits \<Rightarrow> windows_load_script \<Rightarrow> u8 list \<Rightarrow> load_result result option" where
  "read_windows_file limits script contents =
     (if \<not> wl_opened script then Some (Inl E_PERSISTENCE_IO)
      else case wl_size script of
        None \<Rightarrow> Some (Inl E_PERSISTENCE_IO)
      | Some file_size \<Rightarrow>
          if sint file_size < 0 \<or> pl_max_file_bytes limits < unat file_size then Some (Inl E_PERSISTENCE_CORRUPT)
          else case transfer (wl_reads script) (unat file_size) 0 of
            (None, _) \<Rightarrow> None
          | (Some False, _) \<Rightarrow> Some (Inl E_PERSISTENCE_IO)
          | (Some True, _) \<Rightarrow> Some (decode_durable_state limits (read_buffer (unat file_size) contents)))"

definition windows_load ::
  "persistence_limits \<Rightarrow> string \<Rightarrow> windows_load_script \<Rightarrow> u8 list \<Rightarrow> load_result result option" where
  "windows_load limits path script contents =
     (if path = [] then Some (Inl E_INVALID_ARGUMENT) else read_windows_file limits script contents)"

section \<open>Laws\<close>

lemma transfer_end: "transfer script wanted moved = (Some True, n) \<Longrightarrow> wanted \<le> n"
  by (induction script wanted moved rule: transfer.induct)
    (subst (asm) (2) transfer.simps, auto split: if_splits list.splits option.splits)

text \<open>Calls that each move at least one byte end the loop once there are enough of them.\<close>

lemma transfer_progress:
  assumes "wanted \<le> moved + length script" "\<forall>answer \<in> set script. \<exists>n. answer = Some n \<and> n \<noteq> 0"
  shows "\<exists>n. transfer script wanted moved = (Some True, n)"
  using assms
proof (induction script arbitrary: moved)
  case (Cons answer script)
  then obtain n where n: "answer = Some n" "0 < unat n" by (auto simp: unat_gt_0)
  then show ?case using Cons.IH [of "moved + unat n"] Cons.prems by (subst transfer.simps) auto
qed (simp add: transfer.simps)

lemma documented_replace:
  "windows_documented w \<Longrightarrow> wc_replace w target temp fs = (r, fs') \<Longrightarrow> replace_effect r target temp fs fs'"
  by (simp add: windows_documented_def replace_documented_def)

lemma documented_move:
  assumes "windows_documented w" "wc_move w temp target fs = (r, fs')"
  shows "fs' = (if r then fs(target := fs temp, temp := None) else fs)"
proof -
  have "wc_move w temp target fs = (True, fs(target := fs temp, temp := None)) \<or>
      wc_move w temp target fs = (False, fs)"
    using assms(1) by (simp add: windows_documented_def move_documented_def)
  then show ?thesis using assms(2) by auto
qed

lemma documented_delete:
  assumes "windows_documented w" "q \<noteq> p"
  shows "wc_delete w p fs q = fs q"
proof -
  have "wc_delete w p fs \<in> {fs, fs(p := None)}"
    using assms(1) by (simp add: windows_documented_def delete_documented_def)
  then show ?thesis using assms(2) by auto
qed

text \<open>What a replacement leaves at the target.\<close>

lemma windows_replace_target:
  assumes "windows_documented w" "windows_replace w temp target fs = (r, fs')"
    and "to_wide w temp \<noteq> to_wide w target"
  shows "(r = success \<longrightarrow> fs' (to_wide w target) = fs (to_wide w temp)) \<and>
    (r \<noteq> success \<longrightarrow> r = Inl E_PERSISTENCE_IO \<and> (fs' (to_wide w target) = fs (to_wide w target) \<or>
       fs' (to_wide w target) = None \<and>
       fst (wc_replace w (to_wide w target) (to_wide w temp) fs) \<in>
         {Some ERROR_UNABLE_TO_MOVE_REPLACEMENT, Some ERROR_UNABLE_TO_MOVE_REPLACEMENT_2}))"
proof -
  obtain a fs1 where a: "wc_replace w (to_wide w target) (to_wide w temp) fs = (a, fs1)" by fastforce
  obtain b fs2 where b: "wc_move w (to_wide w temp) (to_wide w target) fs1 = (b, fs2)" by fastforce
  note effects = documented_replace [OF assms(1) a] documented_move [OF assms(1) b]
  show ?thesis
  proof (cases a)
    case None
    then show ?thesis using effects assms(2,3) a by (auto simp: windows_replace_def Let_def)
  next
    case (Some e)
    then show ?thesis using effects assms(2,3) a b
      by (auto simp: windows_replace_def Let_def windows_errors split: if_splits bool.splits)
  qed
qed

text \<open>The shape of a save that reaches the file system.\<close>

lemma to_wide_save [simp]:
  "path \<noteq> [] \<Longrightarrow> to_wide w path = wc_wide w path"
  "to_wide w (unique_temporary_path path index) = wc_wide w (unique_temporary_path path index)"
  by (simp_all add: to_wide_def unique_temporary_path_def)

lemma windows_save_states:
  assumes w: "windows_documented w" and run: "windows_save limits w path index script s fs = (r, states)"
  defines "target \<equiv> wc_wide w path" and "temp \<equiv> wc_wide w (unique_temporary_path path index)"
  shows "(\<forall>fs' \<in> set states. fs' target = fs target \<or>
      (\<exists>bytes. encode_durable_state limits s = Inr bytes \<and> fs' target = Some bytes) \<or>
      fs' target = None \<and> r = Some (Inl E_PERSISTENCE_IO) \<and>
        (\<exists>full. fst (wc_replace w target temp full) \<in>
          {Some ERROR_UNABLE_TO_MOVE_REPLACEMENT, Some ERROR_UNABLE_TO_MOVE_REPLACEMENT_2})) \<and>
    (r = Some success \<longrightarrow> (\<exists>bytes. encode_durable_state limits s = Inr bytes \<and>
       last states target = Some bytes))"
proof (cases "path = [] \<or> (\<exists>e. encode_durable_state limits s = Inl e) \<or> \<not> ws_created script")
  case True
  then show ?thesis using run
    by (auto simp: windows_save_def write_windows_file_def Let_def split: sum.splits if_splits)
next
  case False
  then obtain bytes where bytes: "encode_durable_state limits s = Inr bytes" by (metis sum.exhaust)
  obtain ended n where t: "transfer (ws_writes script) (length bytes) 0 = (ended, n)" by fastforce
  define full where "full = fs(temp \<mapsto> take n bytes)"
  obtain a fs1 where a: "windows_replace w (unique_temporary_path path index) path full = (a, fs1)" by fastforce
  have neq: "temp \<noteq> target" using w by (simp add: windows_documented_def target_def temp_def)
  have writes: "fs' target = fs target" if "fs' \<in> set (fs # write_states temp bytes n fs)" for fs'
    using that neq write_states_frame [of fs' temp bytes n fs target] by auto
  have full: "full target = fs target" "full temp = Some (take n bytes)" using neq by (simp_all add: full_def)
  note replaced = windows_replace_target [OF w a]
  have run': "(case ended of None \<Rightarrow> (None, fs # write_states temp bytes n fs)
      | Some ok \<Rightarrow> if \<not> ok \<or> \<not> ws_flushed script
          then (Some (Inl E_PERSISTENCE_IO), (fs # write_states temp bytes n fs) @ [wc_delete w temp full])
          else case a of Inl e \<Rightarrow> (Some (Inl e), (fs # write_states temp bytes n fs) @ [fs1, wc_delete w temp fs1])
          | Inr _ \<Rightarrow> (Some success, (fs # write_states temp bytes n fs) @ [fs1])) = (r, states)"
    using run False bytes t a
    by (cases ended; cases a; cases "ended = Some True"; cases "ws_flushed script")
      (simp_all add: windows_save_def write_windows_file_def Let_def temp_def full_def)
  show ?thesis
  proof (cases "ended = Some True \<and> ws_flushed script")
    case False
    then show ?thesis using run' writes documented_delete [OF w neq [symmetric], of full] full
      by (auto split: option.splits if_splits)
  next
    case True
    then have "take n bytes = bytes" using transfer_end t by simp
    then show ?thesis
      using True run' writes documented_delete [OF w neq [symmetric], of fs1] full replaced neq bytes False
      by (cases a) (auto simp: temp_def target_def)
  qed
qed

text \<open>
  When \<^verbatim>\<open>ReplaceFileW\<close> fails after removing its target, the save still deletes the temporary file.
\<close>

lemma windows_save_lost:
  assumes w: "windows_documented w" and path: "path \<noteq> []"
    and bytes: "encode_durable_state limits s = Inr bytes"
    and script: "ws_created script" "ws_flushed script"
      "fst (transfer (ws_writes script) (length bytes) 0) = Some True"
    and broken: "fst (wc_replace w (wc_wide w path) (wc_wide w (unique_temporary_path path index))
      (fs(wc_wide w (unique_temporary_path path index) \<mapsto> bytes))) = Some ERROR_UNABLE_TO_MOVE_REPLACEMENT"
    and deletes: "\<forall>p fs. wc_delete w p fs = fs(p := None)"
  shows "fst (windows_save limits w path index script s fs) = Some (Inl E_PERSISTENCE_IO) \<and>
    last (snd (windows_save limits w path index script s fs)) =
      fs(wc_wide w path := None, wc_wide w (unique_temporary_path path index) := None)"
proof -
  obtain n where n: "transfer (ws_writes script) (length bytes) 0 = (Some True, n)" "take n bytes = bytes"
    using script(3) transfer_end by (metis prod.collapse take_all)
  have neq: "wc_wide w (unique_temporary_path path index) \<noteq> wc_wide w path"
    using w by (simp add: windows_documented_def)
  let ?full = "fs(wc_wide w (unique_temporary_path path index) \<mapsto> bytes)"
  obtain fs1 where r: "wc_replace w (wc_wide w path) (wc_wide w (unique_temporary_path path index)) ?full =
      (Some ERROR_UNABLE_TO_MOVE_REPLACEMENT, fs1)"
    using broken by (metis prod.collapse)
  have "windows_replace w (unique_temporary_path path index) path ?full = (Inl E_PERSISTENCE_IO, ?full(wc_wide w path := None))"
    using documented_replace [OF w r] r path by (simp add: windows_replace_def windows_errors)
  then show ?thesis using path bytes script n deletes neq
    by (simp add: windows_save_def write_windows_file_def Let_def fun_upd_twist)
qed

section \<open>Loading\<close>

lemma read_buffer_whole: "read_buffer (length contents) contents = contents"
  by (simp add: read_buffer_def)

text \<open>On a file that can be read to its end both branches load the same.\<close>

lemma windows_load_is_load:
  assumes "wl_opened script" "wl_size script = Some (of_nat (length contents))" "length contents < 2 ^ 63"
    and "\<forall>answer \<in> set (wl_reads script). \<exists>n. answer = Some n \<and> n \<noteq> 0"
    and "length contents \<le> length (wl_reads script)"
    and "fs path = Some contents"
  shows "windows_load limits path script contents = Some (store_load limits path fs)"
proof -
  have unat: "unat (of_nat (length contents) :: u64) = length contents"
    using assms(3) by (simp add: unat_of_nat)
  have "0 \<le> sint (of_nat (length contents) :: u64)"
    using assms(3) 
    by (simp add: sint_uint unsigned_of_nat signed_take_bit_int_eq_self take_bit_nat_eq_self)
  moreover obtain n where "transfer (wl_reads script) (length contents) 0 = (Some True, n)"
    using transfer_progress [of "length contents" 0 "wl_reads script"] assms(4,5) by auto
  ultimately show ?thesis
    using assms(1,2,6) unat
    by (auto simp: windows_load_def read_windows_file_def store_load_def read_durable_file_def read_buffer_whole)
qed

end
