(* ===== verification/SaveGate.thy ===== *)
theory SaveGate
  imports Store
begin

text \<open>
  Concurrent saves of one durable path: \<^verbatim>\<open>save_gate_for\<close> and \<^verbatim>\<open>unique_temporary_path\<close> of
  \<^verbatim>\<open>persistence.cpp\<close>. The calls of a save that act on the file system are a list of effects, each
  a step of its own, so that the threads of the process interleave at every call.
\<close>

section \<open>The calls of one save\<close>

text \<open>The encoded state and what the calls of its save answer.\<close>

type_synonym save_job = "u8 list \<times> save_outcome"
type_synonym file_effect = "files \<Rightarrow> files"

definition save_effects :: "string \<Rightarrow> u64 \<Rightarrow> save_job \<Rightarrow> file_effect list" where
  "save_effects path index job =
     (let (bytes, io) = job; temp = unique_temporary_path path index;
          written = min (so_written io) (length bytes)
      in if \<not> so_opened io then []
         else map (\<lambda>k fs. fs(temp \<mapsto> take k bytes)) [0..<Suc written] @
           (if written \<noteq> length bytes \<or> \<not> so_flushed io \<or> \<not> so_renamed io
            then [\<lambda>fs. fs(temp := None)]
            else [\<lambda>fs. fs(path := fs temp, temp := None)]))"

fun effect_states :: "file_effect list \<Rightarrow> files \<Rightarrow> files list" where
  "effect_states [] fs = [fs]"
| "effect_states (e # es) fs = fs # effect_states es (e fs)"

definition run_effects :: "file_effect list \<Rightarrow> files \<Rightarrow> files" where
  "run_effects es fs = foldl (\<lambda>fs e. e fs) fs es"

section \<open>Threads and the gate\<close>

text \<open>
  The files, the counter of temporary names, the saves that wait for the mutex of the path, the one
  that holds it with its number and the calls it has left, and the saves done, oldest first.
\<close>

record save_world =
  sv_files :: files
  sv_counter :: u64
  sv_waiting :: "save_job list"
  sv_holder :: "(u64 \<times> save_job \<times> file_effect list) option"
  sv_done :: "(u64 \<times> save_job) list"

definition idle_world :: "files \<Rightarrow> save_world" where
  "idle_world fs = \<lparr>sv_files = fs, sv_counter = 0, sv_waiting = [], sv_holder = None, sv_done = []\<rparr>"

text \<open>A thread has encoded its state and asks for the mutex.\<close>

definition request_gate :: "save_job \<Rightarrow> save_world \<Rightarrow> save_world" where
  "request_gate job w = w\<lparr>sv_waiting := sv_waiting w @ [job]\<rparr>"

text \<open>Any of the waiting threads gets the free mutex; it then takes the next number.\<close>

definition enter_gate :: "string \<Rightarrow> nat \<Rightarrow> save_world \<Rightarrow> save_world" where
  "enter_gate path i w =
     (let job = sv_waiting w ! i; index = sv_counter w + 1
      in w\<lparr>sv_waiting := take i (sv_waiting w) @ drop (Suc i) (sv_waiting w), sv_counter := index,
           sv_holder := Some (index, job, save_effects path index job)\<rparr>)"

text \<open>The next call of the holder; after the last one the guard gives the mutex back.\<close>

definition holder_call :: "save_world \<Rightarrow> save_world" where
  "holder_call w =
     (case sv_holder w of
        Some (index, job, e # es) \<Rightarrow> w\<lparr>sv_files := e (sv_files w), sv_holder := Some (index, job, es)\<rparr>
      | Some (index, job, []) \<Rightarrow> w\<lparr>sv_holder := None, sv_done := sv_done w @ [(index, job)]\<rparr>
      | None \<Rightarrow> w)"

inductive save_step :: "string \<Rightarrow> save_world \<Rightarrow> save_world \<Rightarrow> bool" for path where
  sv_request: "save_step path w (request_gate job w)"
| sv_enter: "sv_holder w = None \<Longrightarrow> i < length (sv_waiting w) \<Longrightarrow> save_step path w (enter_gate path i w)"
| sv_call: "sv_holder w \<noteq> None \<Longrightarrow> save_step path w (holder_call w)"

inductive saves_reachable :: "string \<Rightarrow> files \<Rightarrow> save_world \<Rightarrow> bool" for path fs where
  svr_start: "saves_reachable path fs (idle_world fs)"
| svr_step: "saves_reachable path fs w \<Longrightarrow> save_step path w w' \<Longrightarrow> saves_reachable path fs w'"

text \<open>The saves one after the other, each undisturbed.\<close>

definition save_alone :: "string \<Rightarrow> files \<Rightarrow> u64 \<times> save_job \<Rightarrow> files" where
  "save_alone path fs = (\<lambda>(index, bytes, io). last (snd (write_durable_file path index io bytes fs)))"

definition saves_in_turn :: "string \<Rightarrow> files \<Rightarrow> (u64 \<times> save_job) list \<Rightarrow> files" where
  "saves_in_turn path = foldl (save_alone path)"

section \<open>Laws\<close>

lemma run_effects_simps [simp]:
  "run_effects [] fs = fs" "run_effects (e # es) fs = run_effects es (e fs)"
  "run_effects (es @ es') fs = run_effects es' (run_effects es fs)"
  by (simp_all add: run_effects_def)

lemma effect_states_append:
  "effect_states (es @ es') fs = butlast (effect_states es fs) @ effect_states es' (run_effects es fs)"
  by (induction es arbitrary: fs) (auto, metis effect_states.elims list.distinct(1))

lemma last_effect_states [simp]: "last (effect_states es fs) = run_effects es fs"
  by (induction es arbitrary: fs) (auto, metis effect_states.elims list.distinct(1))

lemma effect_states_member: "run_effects (take k es) fs \<in> set (effect_states es fs)"
proof (induction k arbitrary: es fs)
  case 0
  then show ?case by (cases es) auto
next
  case (Suc k)
  then show ?case by (cases es) auto
qed

lemma effect_states_writes:
  "effect_states (map (\<lambda>k fs. fs(temp \<mapsto> f k)) ks) fs = fs # map (\<lambda>k. fs(temp \<mapsto> f k)) ks"
  by (induction ks arbitrary: fs) (auto simp: fun_eq_iff)

text \<open>The effects of a save pass through exactly the states of \<open>write_durable_file\<close>.\<close>

lemma save_effects_states:
  "effect_states (save_effects path index (bytes, io)) fs = snd (write_durable_file path index io bytes fs)"
proof -
  let ?temp = "unique_temporary_path path index" and ?n = "min (so_written io) (length bytes)"
  let ?writes = "map (\<lambda>k fs. fs(?temp \<mapsto> take k bytes)) [0..<Suc ?n] :: file_effect list"
  have all: "effect_states ?writes fs = fs # write_states ?temp bytes ?n fs"
    by (simp only: effect_states_writes write_states_def)
  have "run_effects ?writes fs = last (effect_states ?writes fs)" by simp
  also have "\<dots> = fs(?temp \<mapsto> take ?n bytes)"
    unfolding all by simp
  finally have full: "run_effects ?writes fs = fs(?temp \<mapsto> take ?n bytes)" .
  have split: "effect_states (?writes @ [e]) fs = fs # write_states ?temp bytes ?n fs @ [e (fs(?temp \<mapsto> take ?n bytes))]" for e
  proof -
    have "effect_states (?writes @ [e]) fs =
        butlast (effect_states ?writes fs) @ [last (effect_states ?writes fs), e (run_effects ?writes fs)]"
      by (simp only: effect_states_append effect_states.simps last_effect_states)
    also have "\<dots> = effect_states ?writes fs @ [e (run_effects ?writes fs)]"
      unfolding all by (simp del: butlast.simps last.simps)
    finally show ?thesis unfolding full all by simp
  qed
  show ?thesis
    using split [of "\<lambda>fs. fs(?temp := None)"] split [of "\<lambda>fs. fs(path := fs ?temp, ?temp := None)"]
    by (cases "so_opened io"; cases "length bytes \<le> so_written io"; cases "so_flushed io"; cases "so_renamed io")
      (simp_all add: save_effects_def write_durable_file_def atomic_replace_def Let_def del: upt_Suc map_append)
qed

lemma save_alone_effects: "save_alone path fs (index, job) = run_effects (save_effects path index job) fs"
  by (cases job) (simp add: save_alone_def flip: save_effects_states)

text \<open>The numbers drawn so far, by the saves done and the one that holds the mutex.\<close>

definition drawn_numbers :: "save_world \<Rightarrow> u64 list" where
  "drawn_numbers w = map fst (sv_done w) @ (case sv_holder w of None \<Rightarrow> [] | Some (index, _) \<Rightarrow> [index])"

definition first_numbers :: "nat \<Rightarrow> u64 list" where
  "first_numbers n = map of_nat [1..<Suc n]"

lemma first_numbers_simps [simp]:
  "first_numbers 0 = []" "first_numbers (Suc n) = first_numbers n @ [of_nat n + 1]"
  by (simp_all add: first_numbers_def)

definition gate_kept :: "string \<Rightarrow> files \<Rightarrow> save_world \<Rightarrow> bool" where
  "gate_kept path fs w \<longleftrightarrow>
     (\<exists>n. drawn_numbers w = first_numbers n \<and> sv_counter w = of_nat n) \<and>
     (case sv_holder w of
        None \<Rightarrow> sv_files w = saves_in_turn path fs (sv_done w)
      | Some (index, job, es) \<Rightarrow> \<exists>k. es = drop k (save_effects path index job) \<and>
          sv_files w = run_effects (take k (save_effects path index job)) (saves_in_turn path fs (sv_done w)))"

lemma gate_kept_step:
  assumes "save_step path w w'" "gate_kept path fs w"
  shows "gate_kept path fs w'"
  using assms
proof cases
  case (sv_request job)
  then show ?thesis using assms(2) by (cases "sv_holder w") (auto simp: gate_kept_def drawn_numbers_def request_gate_def)
next
  case (sv_enter i)
  then show ?thesis using assms(2) by (auto simp: gate_kept_def drawn_numbers_def enter_gate_def Let_def intro: exI [of _ 0] exI [of _ "Suc _"])
next
  case sv_call
  then obtain index job es where h: "sv_holder w = Some (index, job, es)" by auto
  with assms(2) obtain k where k: "es = drop k (save_effects path index job)"
    "sv_files w = run_effects (take k (save_effects path index job)) (saves_in_turn path fs (sv_done w))"
    by (auto simp: gate_kept_def)
  obtain n where n: "map fst (sv_done w) @ [index] = first_numbers n" "sv_counter w = of_nat n"
    using assms(2) h by (auto simp: gate_kept_def drawn_numbers_def)
  show ?thesis
  proof (cases es)
    case Nil
    then have "take k (save_effects path index job) = save_effects path index job" using k(1) by simp
    then show ?thesis using assms(2) sv_call h k Nil
      by (simp add: gate_kept_def drawn_numbers_def holder_call_def saves_in_turn_def save_alone_effects)
  next
    case (Cons e rest)
    then have "take (Suc k) (save_effects path index job) = take k (save_effects path index job) @ [e]"
      "rest = drop (Suc k) (save_effects path index job)"
      using k(1) by (metis take_hd_drop drop_eq_Nil list.distinct(1) list.sel(1) not_le_imp_less, metis drop_Suc tl_drop list.sel(3))
    moreover have "w' = w\<lparr>sv_files := e (sv_files w), sv_holder := Some (index, job, rest)\<rparr>"
      using sv_call h Cons by (simp add: holder_call_def)
    ultimately show ?thesis using n k(2) by (auto simp: gate_kept_def drawn_numbers_def intro: exI [of _ "Suc k"])
  qed
qed

lemma saves_keep_gate: "saves_reachable path fs w \<Longrightarrow> gate_kept path fs w"
proof (induction rule: saves_reachable.induct)
  case svr_start
  then show ?case by (auto simp: gate_kept_def drawn_numbers_def idle_world_def saves_in_turn_def intro: exI [of _ 0])
qed (rule gate_kept_step)

text \<open>What the invariant says of every interleaving.\<close>

lemma gate_numbers:
  assumes "saves_reachable path fs w"
  shows "map fst (sv_done w) = first_numbers (length (sv_done w))"
proof -
  obtain n where n: "drawn_numbers w = first_numbers n"
    using saves_keep_gate [OF assms] by (auto simp: gate_kept_def)
  have "take (length (sv_done w)) (drawn_numbers w) = map fst (sv_done w)"
    by (simp add: drawn_numbers_def)
  moreover have "length (sv_done w) \<le> n"
    using arg_cong [OF n, of length] by (simp add: drawn_numbers_def first_numbers_def del: upt_Suc
        split: option.splits prod.splits)
  ultimately show ?thesis unfolding n by (simp add: first_numbers_def take_map del: upt_Suc)
qed

lemma gate_files:
  assumes "saves_reachable path fs w"
  shows "case sv_holder w of
      None \<Rightarrow> sv_files w = saves_in_turn path fs (sv_done w)
    | Some (index, (bytes, io), _) \<Rightarrow> sv_files w \<in>
        set (snd (write_durable_file path index io bytes (saves_in_turn path fs (sv_done w))))"
  using saves_keep_gate [OF assms]
  by (auto simp: gate_kept_def effect_states_member simp flip: save_effects_states split: option.splits)

lemma write_durable_file_target:
  assumes "fs' \<in> set (snd (write_durable_file path index io bytes fs))"
  shows "fs' path = fs path \<or> fs' path = Some bytes"
  using assms
  by (auto simp: write_durable_file_def atomic_replace_def Let_def split: if_splits sum.splits
      dest!: write_states_frame [where p = path])

lemma one_more_writer:
  assumes "x \<in> {y, Some b}" "y \<in> {z} \<union> Some ` A" "A \<subseteq> B" "b \<in> B"
  shows "x \<in> {z} \<union> Some ` B"
  using assms by blast

lemma saves_in_turn_target:
  "saves_in_turn path fs jobs path \<in> {fs path} \<union> Some ` fst ` snd ` set jobs"
proof (induction jobs rule: rev_induct)
  case (snoc job jobs)
  obtain index bytes io where job: "job = (index, bytes, io)" by (cases job) auto
  let ?states = "snd (write_durable_file path index io bytes (saves_in_turn path fs jobs))"
  have "?states \<noteq> []" by (simp add: write_durable_file_def Let_def split: sum.splits prod.splits)
  then have "last ?states \<in> set ?states" by simp
  from write_durable_file_target [OF this]
  have "saves_in_turn path fs (jobs @ [job]) path \<in> {saves_in_turn path fs jobs path, Some bytes}"
    by (simp add: saves_in_turn_def save_alone_def job)
  then show ?case by (rule one_more_writer [OF _ snoc]) (auto simp: job)
qed (simp add: saves_in_turn_def)

lemma gate_target:
  assumes "saves_reachable path fs w"
  shows "sv_files w path \<in> {fs path} \<union> Some ` fst ` (snd ` set (sv_done w) \<union>
    (case sv_holder w of None \<Rightarrow> {} | Some (_, job, _) \<Rightarrow> {job}))"
proof (cases "sv_holder w")
  case None
  then show ?thesis using gate_files [OF assms] saves_in_turn_target [of path fs "sv_done w"] by simp
next
  case (Some h)
  obtain index bytes io es where h: "h = (index, (bytes, io), es)" by (cases h) auto
  have "sv_files w path \<in> {saves_in_turn path fs (sv_done w) path, Some bytes}"
    using write_durable_file_target [of "sv_files w" path index io bytes] gate_files [OF assms]
    by (simp add: Some h)
  then show ?thesis
    by (rule one_more_writer [OF _ saves_in_turn_target [of path fs "sv_done w"]]) (auto simp: Some h)
qed

lemma holder_calls_reachable:
  assumes "saves_reachable path fs w"
  shows "saves_reachable path fs ((holder_call ^^ n) w)"
proof (induction n)
  case (Suc n)
  have "holder_call v = v" if "sv_holder v = None" for v using that by (simp add: holder_call_def)
  then show ?case using Suc svr_step [OF Suc sv_call] by (cases "sv_holder ((holder_call ^^ n) w) = None") simp_all
qed (simp add: assms)

end
