(* ===== verification/Frame.thy ===== *)
theory Frame
  imports DurableFile
begin

text \<open>
  \<^verbatim>\<open>protocol.hpp\<close> and \<^verbatim>\<open>protocol.cpp\<close>: message frames with a checksummed header and a
  checksummed payload. The null-pointer checks have no counterpart: a byte list is never null.
\<close>

section \<open>Message kinds\<close>

datatype message_kind =
    MK_INVALID
  | MK_HELLO
  | MK_HELLO_ACK
  | MK_REGISTER_WORKER
  | MK_REGISTER_ACK
  | MK_PUBLISH_EVIDENCE
  | MK_PUBLISH_ACK
  | MK_EVALUATE_REQUEST
  | MK_EVALUATE_RESPONSE
  | MK_DISPATCH_INTENT
  | MK_INTENT_ACK
  | MK_INTENT_RESULT
  | MK_SNAPSHOT_REQUEST
  | MK_SNAPSHOT_RESPONSE
  | MK_HEARTBEAT
  | MK_SHUTDOWN
  | MK_ERROR_RESPONSE
  | MK_RECOVERY_AUTHORIZE
  | MK_VERIFICATION_REPORT
  | MK_QUERY_REQUEST
  | MK_QUERY_RESPONSE
  | MK_DISCONNECT
  | MK_RESPONSE_END

fun to_string_message_kind :: "message_kind \<Rightarrow> string" where
    "to_string_message_kind MK_INVALID = ''INVALID''"
  | "to_string_message_kind MK_HELLO = ''HELLO''"
  | "to_string_message_kind MK_HELLO_ACK = ''HELLO_ACK''"
  | "to_string_message_kind MK_REGISTER_WORKER = ''REGISTER_WORKER''"
  | "to_string_message_kind MK_REGISTER_ACK = ''REGISTER_ACK''"
  | "to_string_message_kind MK_PUBLISH_EVIDENCE = ''PUBLISH_EVIDENCE''"
  | "to_string_message_kind MK_PUBLISH_ACK = ''PUBLISH_ACK''"
  | "to_string_message_kind MK_EVALUATE_REQUEST = ''EVALUATE_REQUEST''"
  | "to_string_message_kind MK_EVALUATE_RESPONSE = ''EVALUATE_RESPONSE''"
  | "to_string_message_kind MK_DISPATCH_INTENT = ''DISPATCH_INTENT''"
  | "to_string_message_kind MK_INTENT_ACK = ''INTENT_ACK''"
  | "to_string_message_kind MK_INTENT_RESULT = ''INTENT_RESULT''"
  | "to_string_message_kind MK_SNAPSHOT_REQUEST = ''SNAPSHOT_REQUEST''"
  | "to_string_message_kind MK_SNAPSHOT_RESPONSE = ''SNAPSHOT_RESPONSE''"
  | "to_string_message_kind MK_HEARTBEAT = ''HEARTBEAT''"
  | "to_string_message_kind MK_SHUTDOWN = ''SHUTDOWN''"
  | "to_string_message_kind MK_ERROR_RESPONSE = ''ERROR_RESPONSE''"
  | "to_string_message_kind MK_RECOVERY_AUTHORIZE = ''RECOVERY_AUTHORIZE''"
  | "to_string_message_kind MK_VERIFICATION_REPORT = ''VERIFICATION_REPORT''"
  | "to_string_message_kind MK_QUERY_REQUEST = ''QUERY_REQUEST''"
  | "to_string_message_kind MK_QUERY_RESPONSE = ''QUERY_RESPONSE''"
  | "to_string_message_kind MK_DISCONNECT = ''DISCONNECT''"
  | "to_string_message_kind MK_RESPONSE_END = ''RESPONSE_END''"

definition all_message_kinds :: "message_kind list" where
  "all_message_kinds =
     [MK_INVALID, MK_HELLO, MK_HELLO_ACK, MK_REGISTER_WORKER, MK_REGISTER_ACK, MK_PUBLISH_EVIDENCE,
      MK_PUBLISH_ACK, MK_EVALUATE_REQUEST, MK_EVALUATE_RESPONSE, MK_DISPATCH_INTENT,
      MK_INTENT_ACK, MK_INTENT_RESULT, MK_SNAPSHOT_REQUEST, MK_SNAPSHOT_RESPONSE, MK_HEARTBEAT,
      MK_SHUTDOWN, MK_ERROR_RESPONSE, MK_RECOVERY_AUTHORIZE, MK_VERIFICATION_REPORT,
      MK_QUERY_REQUEST, MK_QUERY_RESPONSE, MK_DISCONNECT, MK_RESPONSE_END]"

definition message_kind_value :: "message_kind \<Rightarrow> u16" where
  "message_kind_value k = of_nat (length (takeWhile (\<lambda>x. x \<noteq> k) all_message_kinds))"

definition message_kind_at :: "u16 \<Rightarrow> message_kind" where
  "message_kind_at raw = all_message_kinds ! unat raw"

definition is_known_message_kind :: "u16 \<Rightarrow> bool" where
  "is_known_message_kind raw \<longleftrightarrow> raw \<noteq> 0 \<and> unat raw < length all_message_kinds"

lemma message_kind_written:
  "message_kind_at (message_kind_value k) = k"
  "is_known_message_kind (message_kind_value k) \<longleftrightarrow> k \<noteq> MK_INVALID"
  by (cases k; simp add: message_kind_at_def message_kind_value_def all_message_kinds_def
      is_known_message_kind_def)+

section \<open>Frames\<close>

definition kFrameMagic :: u32 where "kFrameMagic = 0x564F4754"
definition kProtocolVersion :: u16 where "kProtocolVersion = 1"
definition kFrameHeaderSize :: nat where "kFrameHeaderSize = 20"
definition kFrameTrailerSize :: nat where "kFrameTrailerSize = 4"
definition kFrameOverhead :: nat where "kFrameOverhead = kFrameHeaderSize + kFrameTrailerSize"

lemmas frame_sizes = kFrameHeaderSize_def kFrameTrailerSize_def kFrameOverhead_def

record frame =
  fm_kind :: message_kind
  fm_flags :: u32
  fm_payload :: "u8 list"

record frame_header =
  fh_version :: u16
  fh_kind :: message_kind
  fh_flags :: u32
  fh_payload_length :: u32

text \<open>The header fields; \<^verbatim>\<open>put_u16\<close> and \<^verbatim>\<open>put_u32\<close> are the little-endian bytes.\<close>

definition frame_head :: "message_kind \<Rightarrow> u32 \<Rightarrow> nat \<Rightarrow> u8 list" where
  "frame_head kind flags payload_length =
     le_bytes 4 kFrameMagic @ le_bytes 2 kProtocolVersion @ le_bytes 2 (message_kind_value kind) @
     le_bytes 4 flags @ le_bytes 4 (of_nat payload_length :: u32)"

definition encode_frame :: "message_kind \<Rightarrow> u32 \<Rightarrow> u8 list \<Rightarrow> u8 list result" where
  "encode_frame kind flags payload =
     (if \<not> is_known_message_kind (message_kind_value kind) then Inl E_INVALID_ARGUMENT
      else if 0xFFFFFFFF < length payload then Inl E_FRAME_TOO_LARGE
      else
        let head = frame_head kind flags (length payload)
        in Inr (head @ le_bytes 4 (crc32c head 0) @ payload @ le_bytes 4 (crc32c payload 0)))"

text \<open>\<open>get_u16\<close> and \<open>get_u32\<close> at an offset.\<close>

definition get_u16 :: "nat \<Rightarrow> u8 list \<Rightarrow> u16" where
  "get_u16 n bytes = le_word (take 2 (drop n bytes))"

definition get_u32 :: "nat \<Rightarrow> u8 list \<Rightarrow> u32" where
  "get_u32 n bytes = le_word (take 4 (drop n bytes))"

definition decode_frame_header :: "nat \<Rightarrow> u8 list \<Rightarrow> frame_header result" where
  "decode_frame_header max_payload header =
     (if length header < kFrameHeaderSize then Inl E_FRAME_TRUNCATED
      else if get_u32 0 header \<noteq> kFrameMagic then Inl E_FRAME_CORRUPT
      else if get_u32 16 header \<noteq> crc32c (take 16 header) 0 then Inl E_FRAME_CORRUPT
      else if get_u16 4 header \<noteq> kProtocolVersion then Inl E_PROTOCOL_UNSUPPORTED
      else if \<not> is_known_message_kind (get_u16 6 header) then Inl E_FRAME_CORRUPT
      else if max_payload < unat (get_u32 12 header) then Inl E_FRAME_TOO_LARGE
      else Inr \<lparr>fh_version = get_u16 4 header, fh_kind = message_kind_at (get_u16 6 header),
        fh_flags = get_u32 8 header, fh_payload_length = get_u32 12 header\<rparr>)"

definition decode_frame :: "nat \<Rightarrow> u8 list \<Rightarrow> frame result" where
  "decode_frame max_payload bytes =
     (if length bytes < kFrameOverhead then Inl E_FRAME_TRUNCATED
      else case decode_frame_header max_payload bytes of
        Inl e \<Rightarrow> Inl e
      | Inr h \<Rightarrow>
          let n = unat (fh_payload_length h); expected = kFrameOverhead + n;
              payload = take n (drop kFrameHeaderSize bytes)
          in if length bytes < expected then Inl E_FRAME_TRUNCATED
             else if expected < length bytes then Inl E_FRAME_CORRUPT
             else if get_u32 (kFrameHeaderSize + n) bytes \<noteq> crc32c payload 0 then Inl E_FRAME_CORRUPT
             else Inr \<lparr>fm_kind = fh_kind h, fm_flags = fh_flags h, fm_payload = payload\<rparr>)"

section \<open>Laws\<close>

lemma frame_decoded:
  assumes "encode_frame kind flags payload = Inr bytes" "length payload \<le> max_payload"
  shows "decode_frame max_payload bytes = Inr \<lparr>fm_kind = kind, fm_flags = flags, fm_payload = payload\<rparr>"
proof -
  have known: "kind \<noteq> MK_INVALID" and n: "length payload \<le> 0xFFFFFFFF"
    and bytes: "bytes = frame_head kind flags (length payload) @
      le_bytes 4 (crc32c (frame_head kind flags (length payload)) 0) @ payload @
      le_bytes 4 (crc32c payload 0)"
    using assms(1) by (auto simp: encode_frame_def Let_def message_kind_written split: if_splits)
  have count: "unat (of_nat (length payload) :: u32) = length payload"
    using n by (simp add: unat_of_nat)
  have head: "take 16 bytes = frame_head kind flags (length payload)" "length bytes = 24 + length payload"
    by (simp_all add: bytes frame_head_def)
  have fields: "get_u32 0 bytes = kFrameMagic" "get_u16 4 bytes = kProtocolVersion"
    "get_u16 6 bytes = message_kind_value kind" "get_u32 8 bytes = flags"
    "get_u32 12 bytes = of_nat (length payload)"
    "get_u32 16 bytes = crc32c (frame_head kind flags (length payload)) 0"
    "take (length payload) (drop 20 bytes) = payload"
    "get_u32 (20 + length payload) bytes = crc32c payload 0"
    by (simp_all add: bytes frame_head_def get_u32_def get_u16_def le_word_inverse)
  show ?thesis
    using assms(2) known
    by (simp add: decode_frame_def decode_frame_header_def frame_sizes head fields count
        message_kind_written Let_def)
qed

lemma decoded_frame_header:
  "decode_frame_header max_payload bs = Inr h \<Longrightarrow>
     get_u32 16 bs = crc32c (take 16 bs) 0 \<and> fh_payload_length h = get_u32 12 bs"
  by (auto simp: decode_frame_header_def split: if_splits)

lemma decoded_frame:
  assumes "decode_frame max_payload bs = Inr f"
  shows "24 \<le> length bs" "crc32c (take 16 (drop 0 bs)) 0 = le_word (take 4 (drop 16 bs))"
    "crc32c (take (length bs - 24) (drop 20 bs)) 0 = le_word (take 4 (drop (length bs - 4) bs))"
proof -
  let ?n = "unat (get_u32 12 bs)"
  obtain h where h: "decode_frame_header max_payload bs = Inr h"
    using assms by (auto simp: decode_frame_def split: if_splits sum.splits)
  note header = decoded_frame_header [OF h]
  have body: "24 \<le> length bs" "\<not> length bs < 24 + ?n" "\<not> 24 + ?n < length bs"
    "crc32c (take ?n (drop 20 bs)) 0 = get_u32 (20 + ?n) bs"
    using assms header
    by (simp_all add: decode_frame_def h frame_sizes Let_def split: if_splits)
  show "24 \<le> length bs" by (rule body(1))
  show "crc32c (take 16 (drop 0 bs)) 0 = le_word (take 4 (drop 16 bs))"
    using header by (simp add: get_u32_def)
  have "length bs - 24 = ?n" "length bs - 4 = 20 + ?n" using body(1-3) by linarith+
  then show "crc32c (take (length bs - 24) (drop 20 bs)) 0 = le_word (take 4 (drop (length bs - 4) bs))"
    using body(4) by (simp only: get_u32_def)
qed

lemma single_byte_change_in_frame:
  assumes ok: "decode_frame max_payload bs = Inr f" and i: "i < length bs"
    and ok': "decode_frame max_payload (bs[i := b]) = Inr f'"
  shows "b = bs ! i"
proof -
  note old = decoded_frame [OF ok]
  note new = decoded_frame [OF ok', unfolded length_list_update]
  show ?thesis
  proof (cases "i < 20")
    case True
    show ?thesis by (rule checked_segment_unchanged [OF old(2) new(2)]) (use True old(1) in auto)
  next
    case False
    show ?thesis by (rule checked_segment_unchanged [OF old(3) new(3)]) (use False old(1) i in auto)
  qed
qed

lemma decoded_frame_length:
  assumes "decode_frame max_payload bs = Inr f"
  shows "length bs = 24 + unat (get_u32 12 bs)" "length (fm_payload f) \<le> max_payload"
proof -
  obtain h where h: "decode_frame_header max_payload bs = Inr h"
    using assms by (auto simp: decode_frame_def split: if_splits sum.splits)
  have n: "fh_payload_length h = get_u32 12 bs" using decoded_frame_header [OF h] by blast
  have facts: "24 \<le> length bs" "\<not> length bs < 24 + unat (get_u32 12 bs)"
    "\<not> 24 + unat (get_u32 12 bs) < length bs"
    "fm_payload f = take (unat (get_u32 12 bs)) (drop 20 bs)"
    using assms n by (auto simp: decode_frame_def h frame_sizes Let_def split: if_splits)
  then show "length bs = 24 + unat (get_u32 12 bs)" by linarith
  have "unat (get_u32 12 bs) \<le> max_payload"
    using h by (auto simp: decode_frame_header_def not_less split: if_splits)
  then show "length (fm_payload f) \<le> max_payload" using facts(4) by simp
qed

lemma frame_prefix_same_length:
  assumes "decode_frame max_payload bs = Inr f" "decode_frame max_payload (bs @ tail) = Inr f'"
  shows "tail = []"
proof -
  note old = decoded_frame_length(1) [OF assms(1)] and new = decoded_frame_length(1) [OF assms(2)]
  have len: "24 \<le> length bs" unfolding old by linarith
  then have "get_u32 12 (bs @ tail) = get_u32 12 bs" by (simp add: get_u32_def)
  then have "length (bs @ tail) = length bs" using old new by (simp only:)
  then show ?thesis by simp
qed

lemma truncated_frame:
  assumes "decode_frame max_payload bs = Inr f" "n < length bs"
  shows "\<exists>e. decode_frame max_payload (take n bs) = Inl e"
proof (cases "decode_frame max_payload (take n bs)")
  case (Inr f')
  then have "drop n bs = []" using frame_prefix_same_length [OF Inr, of "drop n bs"] assms(1) by simp
  then show ?thesis using assms(2) by simp
qed simp

end
