(* ===== verification/Wire.thy ===== *)
theory Wire
  imports DurableLaws
begin

text \<open>
  \<^verbatim>\<open>wire.hpp\<close> and \<^verbatim>\<open>wire.cpp\<close>: the payloads of the messages between coordinator, workers and
  command line. The readers of this file return a partial value when they stop early and rely on
  the latch of the reader, which \<^verbatim>\<open>decode_with\<close> checks at the end; \<open>stop_with\<close> is such an
  early return. The subject, the authority and the optional values are written as in the durable
  file.
\<close>

section \<open>Early returns\<close>

record wire_limits =
  wl_max_string_bytes :: nat
  wl_max_devices :: nat
  wl_max_domain_members :: nat
  wl_max_intents :: nat

definition default_wire_limits :: wire_limits where
  "default_wire_limits =
     \<lparr>wl_max_string_bytes = 64 * 1024, wl_max_devices = 4096, wl_max_domain_members = 65536,
      wl_max_intents = 4096\<rparr>"

definition kMaxCollection :: nat where
  "kMaxCollection = 2 ^ 20"

text \<open>A step that may fail; on failure the caller returns \<open>early\<close> at once.\<close>

definition stop_with :: "'a \<Rightarrow> 'x option \<times> reader \<Rightarrow> ('x \<Rightarrow> reader \<Rightarrow> 'a \<times> reader) \<Rightarrow> 'a \<times> reader" where
  "stop_with early m f = (case m of (None, r) \<Rightarrow> (early, r) | (Some x, r) \<Rightarrow> f x r)"

lemma stop_with_simps [simp]:
  "stop_with early (None, r) f = (early, r)" "stop_with early (Some x, r) f = f x r"
  by (simp_all add: stop_with_def)

lemma stop_with_cong [cong]: "m = m' \<Longrightarrow> stop_with early m f = stop_with early m' f"
  by simp

text \<open>\<open>if (!step) { reader.fail(); return ...; }\<close> and a check of the same kind.\<close>

definition or_fail :: "'x option \<times> reader \<Rightarrow> 'x option \<times> reader" where
  "or_fail m = (case m of (None, r) \<Rightarrow> (None, reader_fail r) | (Some x, r) \<Rightarrow> (Some x, r))"

definition ensure :: "bool \<Rightarrow> reader \<Rightarrow> unit option \<times> reader" where
  "ensure b r = (if rd_ok r \<and> b then (Some (), r) else (None, reader_fail r))"

text \<open>An optional part: the flag, then the part, which may fail.\<close>

definition read_part :: "(reader \<Rightarrow> 'x option \<times> reader) \<Rightarrow> reader \<Rightarrow> 'x option option \<times> reader" where
  "read_part decode r =
     (case reader_presence r of
        (False, r) \<Rightarrow> (Some None, r)
      | (True, r) \<Rightarrow>
          (case or_fail (decode r) of (None, r) \<Rightarrow> (None, r) | (Some x, r) \<Rightarrow> (Some (Some x), r)))"

definition decode_with :: "(reader \<Rightarrow> 'a \<times> reader) \<Rightarrow> u8 list \<Rightarrow> 'a result" where
  "decode_with f data =
     (case f (new_reader data) of (v, r) \<Rightarrow>
        if \<not> rd_ok r \<or> \<not> reader_exhausted r then Inl E_FRAME_CORRUPT else Inr v)"

definition wire_temperature :: "reader \<Rightarrow> celsius option \<times> reader" where
  "wire_temperature r = (case reader_real r of (raw, r) \<Rightarrow> (celsius_try_from raw, r))"

definition wire_delta :: "reader \<Rightarrow> delta option \<times> reader" where
  "wire_delta r = (case reader_real r of (raw, r) \<Rightarrow> (delta_try_from raw, r))"

text \<open>\<open>false\<close> without a failure of the reader when the kind is out of range.\<close>

definition wire_subject :: "reader \<Rightarrow> subject_ref option \<times> reader" where
  "wire_subject r =
     (let (kind, r) = reader_u8 r
      in if \<not> rd_ok r \<or> \<not> enum_valid all_subject_kinds kind then (None, r)
         else
           let (device, r) = reader_u64 r; (device_generation, r) = reader_u64 r;
               (node, r) = reader_u64 r; (node_generation, r) = reader_u64 r;
               (rack, r) = reader_u64 r; (rack_generation, r) = reader_u64 r;
               (zone, r) = reader_u64 r; (chassis, r) = reader_u64 r;
               (domain, r) = reader_u64 r; (domain_generation, r) = reader_u64 r
           in if \<not> rd_ok r then (None, r)
              else (Some \<lparr>sr_kind = enum_at all_subject_kinds kind, sr_device = device,
                sr_device_generation = device_generation, sr_node = node,
                sr_node_generation = node_generation, sr_rack = rack,
                sr_rack_generation = rack_generation, sr_cooling_zone = zone,
                sr_chassis = chassis, sr_domain = domain,
                sr_domain_generation = domain_generation\<rparr>, r))"

section \<open>Registration\<close>

record worker_registration =
  wr_worker :: ident
  wr_boot :: ident
  wr_label :: string
  wr_coordinator_epoch :: ident
  wr_devices :: "device_registration list"

definition write_capability_set :: "capability_set \<Rightarrow> u8 list" where
  "write_capability_set cs =
     concat (map (write_capability cs) all_thermal_capabilities) @ writer_u64 (cap_generation cs)"

fun wire_capabilities ::
  "nat \<Rightarrow> thermal_capability list \<Rightarrow> capability_set \<Rightarrow> reader \<Rightarrow> capability_set option \<times> reader" where
  "wire_capabilities limit [] cs r = (Some cs, r)"
| "wire_capabilities limit (c # rest) cs r =
     (let (state, r) = reader_u8 r; (detail, r) = reader_text limit r
      in if \<not> rd_ok r \<or> \<not> enum_valid all_capability_states state then (None, r)
         else wire_capabilities limit rest
           (cap_set cs c (enum_at all_capability_states state) detail) r)"

definition read_capability_set :: "wire_limits \<Rightarrow> reader \<Rightarrow> capability_set option \<times> reader" where
  "read_capability_set limits r =
     (case wire_capabilities (wl_max_string_bytes limits) all_thermal_capabilities empty_capabilities r of
        (None, r) \<Rightarrow> (None, r)
      | (Some cs, r) \<Rightarrow>
          let (generation, r) = reader_u64 r
          in if rd_ok r then (Some (cs \<lparr>cap_generation := generation\<rparr>), r) else (None, r))"

definition write_registered_device :: "device_registration \<Rightarrow> u8 list" where
  "write_registered_device d =
     writer_u64 (dr_device d) @ writer_u64 (dr_generation d) @ writer_u64 (dr_node d) @
     writer_u64 (dr_node_generation d) @ writer_u64 (dr_rack d) @ writer_u64 (dr_rack_generation d) @
     writer_text (dr_label d) @ writer_u8 (enum_code all_provenances (dr_provenance d)) @
     write_capability_set (dr_capabilities d)"

definition write_registration :: "worker_registration \<Rightarrow> u8 list" where
  "write_registration w =
     writer_u64 (wr_worker w) @ writer_u64 (wr_boot w) @ writer_text (wr_label w) @
     writer_u64 (wr_coordinator_epoch w) @ writer_seq write_registered_device (wr_devices w)"

definition read_registered_device :: "wire_limits \<Rightarrow> reader \<Rightarrow> device_registration option \<times> reader" where
  "read_registered_device limits r =
     (let (device, r) = reader_u64 r; (generation, r) = reader_u64 r; (node, r) = reader_u64 r;
          (node_generation, r) = reader_u64 r; (rack, r) = reader_u64 r;
          (rack_generation, r) = reader_u64 r; (label, r) = reader_text (wl_max_string_bytes limits) r;
          (provenance, r) = reader_u8 r
      in if \<not> rd_ok r \<or> \<not> enum_valid all_provenances provenance then (None, reader_fail r)
         else case or_fail (read_capability_set limits r) of
           (None, r) \<Rightarrow> (None, r)
         | (Some cs, r) \<Rightarrow> (Some \<lparr>dr_device = device, dr_generation = generation, dr_node = node,
             dr_node_generation = node_generation, dr_rack = rack,
             dr_rack_generation = rack_generation, dr_label = label, dr_capabilities = cs,
             dr_provenance = enum_at all_provenances provenance\<rparr>, r))"

text \<open>The loop over the devices stops at the first one that fails.\<close>

fun read_registered_devices ::
  "nat \<Rightarrow> wire_limits \<Rightarrow> device_registration list \<Rightarrow> reader \<Rightarrow> device_registration list \<times> reader" where
  "read_registered_devices 0 limits ds r = (ds, r)"
| "read_registered_devices (Suc n) limits ds r =
     stop_with ds (read_registered_device limits r)
       (\<lambda>d r. read_registered_devices n limits (ds @ [d]) r)"

definition read_registration :: "wire_limits \<Rightarrow> reader \<Rightarrow> worker_registration \<times> reader" where
  "read_registration limits r =
     (let (worker, r) = reader_u64 r; (boot, r) = reader_u64 r;
          (label, r) = reader_text (wl_max_string_bytes limits) r; (epoch, r) = reader_u64 r;
          (count, r) = reader_u32 r;
          registration = \<lparr>wr_worker = worker, wr_boot = boot, wr_label = label,
            wr_coordinator_epoch = epoch, wr_devices = []\<rparr>
      in if \<not> rd_ok r \<or> wl_max_devices limits < unat count then (registration, reader_fail r)
         else case read_registered_devices (unat count) limits [] r of
           (devices, r) \<Rightarrow> (registration \<lparr>wr_devices := devices\<rparr>, r))"

definition encode_worker_registration :: "worker_registration \<Rightarrow> u8 list" where
  "encode_worker_registration w = write_registration w"

definition decode_worker_registration :: "wire_limits \<Rightarrow> u8 list \<Rightarrow> worker_registration result" where
  "decode_worker_registration limits data = decode_with (read_registration limits) data"

section \<open>Evidence\<close>

definition write_throttle :: "throttle_observation \<Rightarrow> u8 list" where
  "write_throttle t =
     writer_u64 (thr_raw t) @ writer_u8 (enum_code all_throttle_classes (thr_class t))"

definition write_cooling :: "cooling_evidence \<Rightarrow> u8 list" where
  "write_cooling c =
     writer_u64 (co_zone c) @ writer_optional writer_real (co_air_inlet c) @
     writer_optional writer_real (co_air_outlet c) @
     writer_optional writer_real (co_liquid_inlet c) @
     writer_optional writer_real (co_liquid_outlet c) @
     writer_optional writer_real (co_coolant_flow c) @
     writer_u8 (enum_code all_provenances (co_provenance c))"

definition write_fan :: "fan_evidence \<Rightarrow> u8 list" where
  "write_fan f =
     writer_u32 (fan_count f) @ writer_optional writer_real (fan_speed_percent f) @
     writer_optional writer_u32 (fan_speed_rpm f) @
     writer_u8 (enum_code all_provenances (fan_provenance f))"

definition write_evidence :: "evidence \<Rightarrow> u8 list" where
  "write_evidence e =
     writer_u64 (ev_evidence_id e) @ write_subject (ev_subject e) @ writer_u64 (ev_domain e) @
     writer_u64 (ev_domain_generation e) @ writer_real (ev_temperature e) @
     writer_u8 (enum_code all_measurement_sources (ev_source e)) @
     writer_u8 (enum_code all_provenances (ev_provenance e)) @
     writer_u64 (ev_measurement_sequence e) @ writer_u64 (ev_telemetry_generation e) @
     writer_u64 (ev_worker e) @ writer_u64 (ev_worker_boot e) @
     writer_u64 (ev_coordinator_epoch e) @ writer_i64 (ev_measured_at e) @
     writer_i64 (ev_measured_wall_at e) @ writer_u64 (ev_capability_generation e) @
     writer_u64 (ev_topology_generation e) @
     writer_u8 (enum_code all_integrity_statuses (ev_integrity e)) @
     writer_optional write_throttle (ev_throttle e) @
     writer_optional writer_real (ev_temperature_limit e) @
     writer_optional writer_real (ev_shutdown_limit e) @
     writer_optional writer_u32 (ev_current_clock e) @
     writer_optional writer_u32 (ev_max_clock e) @
     writer_optional write_cooling (ev_cooling e) @
     writer_optional write_fan (ev_fan e) @
     writer_optional writer_real (ev_confidence e)"

definition read_throttle :: "reader \<Rightarrow> throttle_observation option \<times> reader" where
  "read_throttle r =
     (let (raw, r) = reader_u64 r; (classification, r) = reader_u8 r
      in if \<not> rd_ok r \<or> \<not> enum_valid all_throttle_classes classification then (None, reader_fail r)
         else (Some \<lparr>thr_raw = raw, thr_class = enum_at all_throttle_classes classification\<rparr>, r))"

text \<open>The parts of the cooling evidence, any of which may end the whole decoding.\<close>

definition read_cooling :: "reader \<Rightarrow> cooling_evidence option \<times> reader" where
  "read_cooling r =
     (let (zone, r) = reader_u64 r
      in stop_with None (read_part wire_temperature r) (\<lambda>air_inlet r.
         stop_with None (read_part wire_temperature r) (\<lambda>air_outlet r.
         stop_with None (read_part wire_temperature r) (\<lambda>liquid_inlet r.
         stop_with None (read_part wire_temperature r) (\<lambda>liquid_outlet r.
           let (flow, r) = reader_optional reader_real r; (provenance, r) = reader_u8 r
           in if \<not> rd_ok r \<or> \<not> enum_valid all_provenances provenance then (None, reader_fail r)
              else (Some \<lparr>co_zone = zone, co_air_inlet = air_inlet, co_air_outlet = air_outlet,
                co_liquid_inlet = liquid_inlet, co_liquid_outlet = liquid_outlet,
                co_coolant_flow = flow, co_provenance = enum_at all_provenances provenance\<rparr>, r))))))"

definition read_fan :: "reader \<Rightarrow> fan_evidence option \<times> reader" where
  "read_fan r =
     (let (count, r) = reader_u32 r; (percent, r) = reader_optional reader_real r;
          (rpm, r) = reader_optional reader_u32 r; (provenance, r) = reader_u8 r
      in if \<not> rd_ok r \<or> \<not> enum_valid all_provenances provenance then (None, reader_fail r)
         else (Some \<lparr>fan_count = count, fan_speed_percent = percent, fan_speed_rpm = rpm,
           fan_provenance = enum_at all_provenances provenance\<rparr>, r))"

text \<open>The optional parts at the end of the evidence.\<close>

definition read_evidence_parts :: "evidence \<Rightarrow> reader \<Rightarrow> evidence \<times> reader" where
  "read_evidence_parts e r =
     stop_with e (read_part read_throttle r) (\<lambda>throttle r.
     let e = e \<lparr>ev_throttle := throttle\<rparr>
     in stop_with e (read_part wire_temperature r) (\<lambda>limit r.
     let e = e \<lparr>ev_temperature_limit := limit\<rparr>
     in stop_with e (read_part wire_temperature r) (\<lambda>shutdown r.
     let (current, r) = reader_optional reader_u32 r; (max, r) = reader_optional reader_u32 r;
         e = e \<lparr>ev_shutdown_limit := shutdown, ev_current_clock := current, ev_max_clock := max\<rparr>
     in stop_with e (read_part read_cooling r) (\<lambda>cooling r.
     let e = e \<lparr>ev_cooling := cooling\<rparr>
     in stop_with e (read_part read_fan r) (\<lambda>fan r.
     let (confidence, r) = reader_optional reader_real r
     in (e \<lparr>ev_fan := fan, ev_confidence := confidence\<rparr>, r))))))"

definition read_evidence :: "reader \<Rightarrow> evidence \<times> reader" where
  "read_evidence r =
     (let (id, r) = reader_u64 r; e = empty_evidence \<lparr>ev_evidence_id := id\<rparr>
      in stop_with e (wire_subject r) (\<lambda>subject r.
     let (domain, r) = reader_u64 r; (domain_generation, r) = reader_u64 r;
         e = e \<lparr>ev_subject := subject, ev_domain := domain,
               ev_domain_generation := domain_generation\<rparr>
     in stop_with e (or_fail (wire_temperature r)) (\<lambda>temperature r.
     let (source, r) = reader_u8 r; (provenance, r) = reader_u8 r;
         e = e \<lparr>ev_temperature := temperature\<rparr>
     in stop_with e (ensure (enum_valid all_measurement_sources source \<and>
            enum_valid all_provenances provenance) r) (\<lambda>_ r.
     let (sequence, r) = reader_u64 r; (telemetry, r) = reader_u64 r; (worker, r) = reader_u64 r;
         (boot, r) = reader_u64 r; (epoch, r) = reader_u64 r; (measured, r) = reader_i64 r;
         (wall, r) = reader_i64 r; (capability, r) = reader_u64 r; (topology, r) = reader_u64 r;
         (integrity, r) = reader_u8 r;
         e = e \<lparr>ev_source := enum_at all_measurement_sources source,
               ev_provenance := enum_at all_provenances provenance,
               ev_measurement_sequence := sequence, ev_telemetry_generation := telemetry,
               ev_worker := worker, ev_worker_boot := boot, ev_coordinator_epoch := epoch,
               ev_measured_at := measured, ev_measured_wall_at := wall,
               ev_capability_generation := capability, ev_topology_generation := topology\<rparr>
     in stop_with e (ensure (enum_valid all_integrity_statuses integrity) r) (\<lambda>_ r.
     read_evidence_parts (e \<lparr>ev_integrity := enum_at all_integrity_statuses integrity\<rparr>) r)))))"

definition encode_evidence :: "evidence \<Rightarrow> u8 list" where
  "encode_evidence e = write_evidence e"

definition decode_evidence :: "u8 list \<Rightarrow> evidence result" where
  "decode_evidence data = decode_with read_evidence data"

section \<open>Actions\<close>

definition write_wire_action :: "thermal_action \<Rightarrow> u8 list" where
  "write_wire_action a =
     writer_u64 (ac_id a) @ writer_u64 (ac_generation a) @ write_authority (ac_authority a) @
     writer_u8 (enum_code all_mitigation_intents (ac_intent a)) @
     writer_u8 (enum_code all_action_lifecycles (ac_lifecycle a)) @
     writer_u8 (enum_code all_provenances (ac_provenance a)) @
     writer_optional writer_u32 (ac_requested_clock_ceiling a) @
     writer_optional writer_real (ac_requested_concurrency a) @
     writer_optional writer_real (ac_requested_admission a) @ writer_text (ac_detail a)"

definition wire_percent :: "reader \<Rightarrow> percent option \<times> reader" where
  "wire_percent r = (case reader_real r of (raw, r) \<Rightarrow> (percent_try_from raw, r))"

definition read_wire_action :: "wire_limits \<Rightarrow> reader \<Rightarrow> thermal_action \<times> reader" where
  "read_wire_action limits r =
     (let (id, r) = reader_u64 r; (generation, r) = reader_u64 r; (authority, r) = read_authority r;
          (intent, r) = reader_u8 r; (lifecycle, r) = reader_u8 r; (provenance, r) = reader_u8 r;
          a = empty_action \<lparr>ac_id := id, ac_generation := generation, ac_authority := authority\<rparr>
      in stop_with a (ensure (enum_valid all_mitigation_intents intent \<and>
           enum_valid all_action_lifecycles lifecycle \<and> enum_valid all_provenances provenance) r) (\<lambda>_ r.
     let (clock, r) = reader_optional reader_u32 r;
         a = a \<lparr>ac_intent := enum_at all_mitigation_intents intent,
               ac_lifecycle := enum_at all_action_lifecycles lifecycle,
               ac_provenance := enum_at all_provenances provenance,
               ac_requested_clock_ceiling := clock\<rparr>
     in stop_with a (read_part wire_percent r) (\<lambda>concurrency r.
     let a = a \<lparr>ac_requested_concurrency := concurrency\<rparr>
     in stop_with a (read_part wire_percent r) (\<lambda>admission r.
     let (detail, r) = reader_text (wl_max_string_bytes limits) r
     in (a \<lparr>ac_requested_admission := admission, ac_detail := detail\<rparr>, r)))))"

definition encode_action :: "thermal_action \<Rightarrow> u8 list" where
  "encode_action a = write_wire_action a"

definition decode_action :: "wire_limits \<Rightarrow> u8 list \<Rightarrow> thermal_action result" where
  "decode_action limits data = decode_with (read_wire_action limits) data"

section \<open>Acknowledgements and results\<close>

definition write_ack :: "action_ack \<Rightarrow> u8 list" where
  "write_ack k =
     writer_u64 (ak_action_id k) @ writer_u64 (ak_action_generation k) @
     writer_u64 (ak_coordinator_epoch k) @ writer_u64 (ak_worker_boot k) @
     writer_u64 (ak_device_generation k) @ writer_u64 (ak_domain_generation k) @
     writer_bool (ak_accepted k) @ writer_text (ak_detail k)"

definition encode_action_ack :: "action_ack \<Rightarrow> u8 list" where
  "encode_action_ack k = write_ack k"

definition decode_action_ack :: "wire_limits \<Rightarrow> u8 list \<Rightarrow> action_ack result" where
  "decode_action_ack limits data =
     (let r = new_reader data; (id, r) = reader_u64 r; (generation, r) = reader_u64 r;
          (epoch, r) = reader_u64 r; (boot, r) = reader_u64 r; (device_generation, r) = reader_u64 r;
          (domain_generation, r) = reader_u64 r; (accepted, r) = reader_u8 r;
          (detail, r) = reader_text (wl_max_string_bytes limits) r
      in if \<not> rd_ok r \<or> \<not> reader_exhausted r \<or> 1 < accepted then Inl E_FRAME_CORRUPT
         else Inr \<lparr>ak_action_id = id, ak_action_generation = generation,
           ak_coordinator_epoch = epoch, ak_worker_boot = boot,
           ak_device_generation = device_generation, ak_domain_generation = domain_generation,
           ak_accepted = (accepted \<noteq> 0), ak_detail = detail\<rparr>)"

definition write_result :: "action_report \<Rightarrow> u8 list" where
  "write_result x =
     writer_u64 (rr_action_id x) @ writer_u64 (rr_action_generation x) @
     writer_u64 (rr_coordinator_epoch x) @ writer_u64 (rr_worker_boot x) @
     writer_u64 (rr_device_generation x) @ writer_u64 (rr_domain_generation x) @
     writer_u64 (rr_policy_generation x) @ writer_u64 (rr_telemetry_generation x) @
     writer_bool (rr_backend_succeeded x) @ writer_text (rr_detail x)"

definition encode_action_result :: "action_report \<Rightarrow> u8 list" where
  "encode_action_result x = write_result x"

definition decode_action_result :: "wire_limits \<Rightarrow> u8 list \<Rightarrow> action_report result" where
  "decode_action_result limits data =
     (let r = new_reader data; (id, r) = reader_u64 r; (generation, r) = reader_u64 r;
          (epoch, r) = reader_u64 r; (boot, r) = reader_u64 r; (device_generation, r) = reader_u64 r;
          (domain_generation, r) = reader_u64 r; (policy_generation, r) = reader_u64 r;
          (telemetry_generation, r) = reader_u64 r; (succeeded, r) = reader_u8 r;
          (detail, r) = reader_text (wl_max_string_bytes limits) r
      in if \<not> rd_ok r \<or> \<not> reader_exhausted r \<or> 1 < succeeded then Inl E_FRAME_CORRUPT
         else Inr \<lparr>rr_action_id = id, rr_action_generation = generation,
           rr_coordinator_epoch = epoch, rr_worker_boot = boot,
           rr_device_generation = device_generation, rr_domain_generation = domain_generation,
           rr_policy_generation = policy_generation,
           rr_telemetry_generation = telemetry_generation,
           rr_backend_succeeded = (succeeded \<noteq> 0), rr_detail = detail\<rparr>)"

section \<open>Evaluation summaries\<close>

text \<open>The reason codes of a decoded summary are not checked, so they are raw 16-bit values.\<close>

record evaluation_summary =
  es_domain :: ident
  es_domain_generation :: ident
  es_device :: ident
  es_device_generation :: ident
  es_state :: thermal_state
  es_derating :: derating_level
  es_decision :: thermal_decision
  es_throttle_class :: throttle_class
  es_provenance :: provenance
  es_temperature :: celsius
  es_governing_limit :: celsius
  es_effective_headroom :: delta
  es_permitted_concurrency :: percent
  es_recovery_allowed :: bool
  es_qualifying_samples :: u32
  es_required_samples :: u32
  es_coordinator_epoch :: ident
  es_policy_generation :: ident
  es_telemetry_generation :: ident
  es_required_intents :: "mitigation_intent list"
  es_reasons :: "u16 list"

definition summarise :: "evaluation \<Rightarrow> evaluation_summary" where
  "summarise t =
     \<lparr>es_domain = te_domain t, es_domain_generation = te_domain_generation t, es_device = 0,
      es_device_generation = 0, es_state = te_state t, es_derating = te_derating t,
      es_decision = te_decision t, es_throttle_class = te_throttle_class t,
      es_provenance = te_provenance t,
      es_temperature = hb_current_temperature (te_headroom t),
      es_governing_limit = hb_governing_limit (te_headroom t),
      es_effective_headroom = hb_effective_headroom (te_headroom t),
      es_permitted_concurrency = te_permitted_concurrency t,
      es_recovery_allowed = ra_allowed (te_recovery t),
      es_qualifying_samples = ra_qualifying_samples (te_recovery t),
      es_required_samples = ra_required_samples (te_recovery t),
      es_coordinator_epoch = te_coordinator_epoch t,
      es_policy_generation = te_policy_generation t,
      es_telemetry_generation = te_telemetry_generation t,
      es_required_intents = map ir_intent (te_intents t),
      es_reasons = map (\<lambda>c. of_nat (reason_code_value c)) (te_reasons t)\<rparr>"

definition encode_evaluation_summary :: "evaluation_summary \<Rightarrow> u8 list" where
  "encode_evaluation_summary s =
     writer_u64 (es_domain s) @ writer_u64 (es_domain_generation s) @ writer_u64 (es_device s) @
     writer_u64 (es_device_generation s) @ writer_u8 (enum_code all_thermal_states (es_state s)) @
     writer_u8 (enum_code all_derating_levels (es_derating s)) @
     writer_u8 (enum_code all_thermal_decisions (es_decision s)) @
     writer_u8 (enum_code all_throttle_classes (es_throttle_class s)) @
     writer_u8 (enum_code all_provenances (es_provenance s)) @ writer_real (es_temperature s) @
     writer_real (es_governing_limit s) @ writer_real (es_effective_headroom s) @
     writer_real (es_permitted_concurrency s) @ writer_bool (es_recovery_allowed s) @
     writer_u32 (es_qualifying_samples s) @ writer_u32 (es_required_samples s) @
     writer_u64 (es_coordinator_epoch s) @ writer_u64 (es_policy_generation s) @
     writer_u64 (es_telemetry_generation s) @
     writer_seq (\<lambda>i. writer_u8 (enum_code all_mitigation_intents i)) (es_required_intents s) @
     writer_seq writer_u16 (es_reasons s)"

definition read_intent :: "reader \<Rightarrow> mitigation_intent decoded" where
  "read_intent r =
     (let (intent, r) = reader_u8 r
      in if \<not> rd_ok r \<or> \<not> enum_valid all_mitigation_intents intent then Inl E_FRAME_CORRUPT
         else Inr (enum_at all_mitigation_intents intent, r))"

definition read_reason :: "reader \<Rightarrow> u16 decoded" where
  "read_reason r = (case reader_u16 r of (code, r) \<Rightarrow> Inr (code, r))"

text \<open>The count check of the collections of this file.\<close>

definition read_count :: "nat \<Rightarrow> reader \<Rightarrow> nat decoded" where
  "read_count limit r =
     (let (count, r) = reader_u32 r
      in if \<not> rd_ok r \<or> limit < unat count then Inl E_FRAME_CORRUPT else Inr (unat count, r))"

definition or_corrupt :: "'a option \<times> reader \<Rightarrow> 'a decoded" where
  "or_corrupt m = (case m of (None, r) \<Rightarrow> Inl E_FRAME_CORRUPT | (Some x, r) \<Rightarrow> Inr (x, r))"

definition decode_evaluation_summary :: "wire_limits \<Rightarrow> u8 list \<Rightarrow> evaluation_summary result" where
  "decode_evaluation_summary limits data =
     (let r = new_reader data; (domain, r) = reader_u64 r; (domain_generation, r) = reader_u64 r;
          (device, r) = reader_u64 r; (device_generation, r) = reader_u64 r;
          (state, r) = reader_u8 r; (derating, r) = reader_u8 r; (decision, r) = reader_u8 r;
          (throttle, r) = reader_u8 r; (provenance, r) = reader_u8 r
      in if \<not> rd_ok r \<or> \<not> enum_valid all_thermal_states state \<or>
            \<not> enum_valid all_derating_levels derating \<or> \<not> enum_valid all_thermal_decisions decision \<or>
            \<not> enum_valid all_throttle_classes throttle \<or> \<not> enum_valid all_provenances provenance
         then Inl E_FRAME_CORRUPT
         else and_then (or_corrupt (wire_temperature r)) (\<lambda>temperature r.
              and_then (or_corrupt (wire_temperature r)) (\<lambda>governing_limit r.
              and_then (or_corrupt (wire_delta r)) (\<lambda>headroom r.
      let (concurrency, r) = reader_real r; (recovery, r) = reader_u8 r;
          (qualifying, r) = reader_u32 r; (required, r) = reader_u32 r; (epoch, r) = reader_u64 r;
          (policy_generation, r) = reader_u64 r; (telemetry_generation, r) = reader_u64 r
      in and_then (read_count (wl_max_intents limits) r) (\<lambda>intent_count r.
         and_then (reader_many intent_count read_intent r) (\<lambda>intents r.
         and_then (read_count (wl_max_intents limits) r) (\<lambda>reason_count r.
         and_then (reader_many reason_count read_reason r) (\<lambda>reasons r.
         if \<not> rd_ok r \<or> \<not> reader_exhausted r \<or> 1 < recovery then Inl E_FRAME_CORRUPT
         else Inr \<lparr>es_domain = domain, es_domain_generation = domain_generation,
           es_device = device, es_device_generation = device_generation,
           es_state = enum_at all_thermal_states state,
           es_derating = enum_at all_derating_levels derating,
           es_decision = enum_at all_thermal_decisions decision,
           es_throttle_class = enum_at all_throttle_classes throttle,
           es_provenance = enum_at all_provenances provenance, es_temperature = temperature,
           es_governing_limit = governing_limit, es_effective_headroom = headroom,
           es_permitted_concurrency = concurrency, es_recovery_allowed = (recovery \<noteq> 0),
           es_qualifying_samples = qualifying, es_required_samples = required,
           es_coordinator_epoch = epoch, es_policy_generation = policy_generation,
           es_telemetry_generation = telemetry_generation, es_required_intents = intents,
           es_reasons = reasons\<rparr>))))))))"

section \<open>Status, commands and responses\<close>

text \<open>The error code of a decoded status is not checked: a raw 32-bit value.\<close>

record status_payload =
  sp_code :: u32
  sp_detail :: string

definition encode_status :: "status_payload \<Rightarrow> u8 list" where
  "encode_status s = writer_u32 (sp_code s) @ writer_text (sp_detail s)"

definition decode_status :: "wire_limits \<Rightarrow> u8 list \<Rightarrow> status_payload result" where
  "decode_status limits data =
     (let r = new_reader data; (code, r) = reader_u32 r;
          (detail, r) = reader_text (wl_max_string_bytes limits) r
      in if \<not> rd_ok r \<or> \<not> reader_exhausted r then Inl E_FRAME_CORRUPT
         else Inr \<lparr>sp_code = code, sp_detail = detail\<rparr>)"

record command_request =
  cq_verb :: string
  cq_arguments :: "string list"
  cq_payload :: string

definition encode_command :: "command_request \<Rightarrow> u8 list" where
  "encode_command q =
     writer_text (cq_verb q) @ writer_seq writer_text (cq_arguments q) @ writer_text (cq_payload q)"

definition read_argument :: "nat \<Rightarrow> reader \<Rightarrow> string decoded" where
  "read_argument limit r = (case reader_text limit r of (s, r) \<Rightarrow> Inr (s, r))"

definition decode_command :: "wire_limits \<Rightarrow> u8 list \<Rightarrow> command_request result" where
  "decode_command limits data =
     (let r = new_reader data; (verb, r) = reader_text (wl_max_string_bytes limits) r
      in and_then (read_count (wl_max_intents limits) r) (\<lambda>count r.
         and_then (reader_many count (read_argument (wl_max_string_bytes limits)) r) (\<lambda>arguments r.
         let (payload, r) = reader_text kMaxCollection r
         in if \<not> rd_ok r \<or> \<not> reader_exhausted r then Inl E_FRAME_CORRUPT
            else Inr \<lparr>cq_verb = verb, cq_arguments = arguments, cq_payload = payload\<rparr>)))"

record command_response =
  cs_status :: status_payload
  cs_payload :: string

definition encode_response :: "command_response \<Rightarrow> u8 list" where
  "encode_response s =
     writer_u32 (sp_code (cs_status s)) @ writer_text (sp_detail (cs_status s)) @
     writer_text (cs_payload s)"

definition decode_response :: "wire_limits \<Rightarrow> u8 list \<Rightarrow> command_response result" where
  "decode_response limits data =
     (let r = new_reader data; (code, r) = reader_u32 r;
          (detail, r) = reader_text (wl_max_string_bytes limits) r;
          (payload, r) = reader_text kMaxCollection r
      in if \<not> rd_ok r \<or> \<not> reader_exhausted r then Inl E_FRAME_CORRUPT
         else Inr \<lparr>cs_status = \<lparr>sp_code = code, sp_detail = detail\<rparr>, cs_payload = payload\<rparr>)"

end
