(* ===== verification/WireLaws.thy ===== *)
theory WireLaws
  imports Wire
begin

text \<open>
  A message that meets the bounds of its decoder is decoded to what the format keeps of it, and
  the same bytes with anything appended are refused.
\<close>

section \<open>The contract of a message\<close>

locale message =
  fixes encode :: "'a \<Rightarrow> u8 list"
    and decode :: "u8 list \<Rightarrow> 'a result"
    and valid :: "'a \<Rightarrow> bool"
    and kept :: "'a \<Rightarrow> 'a"
  assumes exact: "valid x \<Longrightarrow>
    decode (encode x @ bs) = (if bs = [] then Inr (kept x) else Inl E_FRAME_CORRUPT)"
begin

lemma decoded: "valid x \<Longrightarrow> decode (encode x) = Inr (kept x)"
  using exact [of x "[]"] by simp

text \<open>Two messages with the same bytes agree on everything the format keeps.\<close>

lemma bytes_identify: "valid x \<Longrightarrow> valid y \<Longrightarrow> encode x = encode y \<Longrightarrow> kept x = kept y"
  using decoded [of x] decoded [of y] by simp

text \<open>No message is a proper prefix of another.\<close>

lemma prefix_free: "valid x \<Longrightarrow> valid y \<Longrightarrow> encode y = encode x @ bs \<Longrightarrow> bs = []"
  using exact [of x bs] decoded [of y] by (auto split: if_splits)

end

locale payload_format =
  fixes emit :: "'a \<Rightarrow> u8 list"
    and read :: "reader \<Rightarrow> 'a \<times> reader"
    and valid :: "'a \<Rightarrow> bool"
    and kept :: "'a \<Rightarrow> 'a"
  assumes written: "valid x \<Longrightarrow> read (new_reader (emit x @ bs)) = (kept x, new_reader bs)"

sublocale payload_format \<subseteq> message emit "decode_with read" valid kept
  by unfold_locales (simp add: decode_with_def reader_exhausted_def written)

section \<open>Leaves\<close>

definition delta_storable :: "delta \<Rightarrow> bool" where
  "delta_storable d \<longleftrightarrow> is_double d \<and> delta_try_from d = Some d"

lemma wire_temperature_written [codec_simps]:
  "temperature_storable t \<Longrightarrow> wire_temperature (new_reader (writer_real t @ bs)) = (Some t, new_reader bs)"
  by (simp add: wire_temperature_def codec_simps storable_try_from temperature_storable_def)

lemma wire_delta_written [codec_simps]:
  "delta_storable d \<Longrightarrow> wire_delta (new_reader (writer_real d @ bs)) = (Some d, new_reader bs)"
  by (simp add: wire_delta_def delta_storable_def codec_simps)

lemma wire_percent_written [codec_simps]:
  "percent_storable (Some p) \<Longrightarrow>
     wire_percent (new_reader (writer_real p @ bs)) = (Some p, new_reader bs)"
  by (simp add: wire_percent_def percent_storable_def codec_simps)

lemma wire_subject_written [codec_simps]:
  "wire_subject (new_reader (write_subject s @ bs)) = (Some s, new_reader bs)"
  by (simp add: wire_subject_def write_subject_def codec_simps)

lemma ensure_new_reader [simp]:
  "b \<Longrightarrow> ensure b (new_reader bs) = (Some (), new_reader bs)"
  by (simp add: ensure_def)

definition all_part :: "('a \<Rightarrow> bool) \<Rightarrow> 'a option \<Rightarrow> bool" where
  "all_part p v = (case v of None \<Rightarrow> True | Some x \<Rightarrow> p x)"

lemma all_part_simps [simp]: "all_part p None" "all_part p (Some x) = p x"
  by (simp_all add: all_part_def)

lemma read_part_written:
  "(\<And>x bs. p x \<Longrightarrow> decode (new_reader (encode x @ bs)) = (Some x, new_reader bs)) \<Longrightarrow> all_part p v \<Longrightarrow>
     read_part decode (new_reader (writer_optional encode v @ bs)) = (Some v, new_reader bs)"
  by (cases v) (simp_all add: read_part_def or_fail_def codec_simps)

lemmas read_temperature_part [codec_simps] =
  read_part_written [of temperature_storable, OF wire_temperature_written]

lemma read_percent_part [codec_simps]:
  "percent_storable v \<Longrightarrow>
     read_part wire_percent (new_reader (writer_optional writer_real v @ bs)) = (Some v, new_reader bs)"
  by (rule read_part_written [where p = "\<lambda>p. percent_storable (Some p)"])
    (auto simp: codec_simps percent_storable_def all_part_def split: option.splits)

lemma reader_optional_u32 [codec_simps]:
  "reader_optional reader_u32 (new_reader (writer_optional writer_u32 v @ bs)) = (v, new_reader bs)"
  by (rule reader_optional_written) (simp add: codec_simps)

section \<open>Registration\<close>

lemma wire_capabilities_written:
  "list_all (\<lambda>c. text_fits limit (cap_detail cs c)) caps \<Longrightarrow>
     wire_capabilities limit caps acc (new_reader (concat (map (write_capability cs) caps) @ bs)) =
       (Some (foldl (copy_capability cs) acc caps), new_reader bs)"
  by (induction caps arbitrary: acc)
    (simp_all add: write_capability_def copy_capability_def codec_simps)

lemma read_capability_set_written [codec_simps]:
  "capabilities_storable (wl_max_string_bytes limits) cs \<Longrightarrow>
     read_capability_set limits (new_reader (write_capability_set cs @ bs)) = (Some cs, new_reader bs)"
  by (simp add: read_capability_set_def write_capability_set_def capabilities_storable_def
      wire_capabilities_written copy_all_capabilities codec_simps)

definition device_sendable :: "wire_limits \<Rightarrow> device_registration \<Rightarrow> bool" where
  "device_sendable limits d \<longleftrightarrow>
     text_fits (wl_max_string_bytes limits) (dr_label d) \<and>
     capabilities_storable (wl_max_string_bytes limits) (dr_capabilities d)"

lemma read_registered_device_written [codec_simps]:
  "device_sendable limits d \<Longrightarrow>
     read_registered_device limits (new_reader (write_registered_device d @ bs)) =
       (Some d, new_reader bs)"
  by (simp add: read_registered_device_def write_registered_device_def device_sendable_def or_fail_def
      codec_simps)

lemma read_registered_devices_written:
  "list_all (device_sendable limits) xs \<Longrightarrow>
     read_registered_devices (length xs) limits ds
       (new_reader (concat (map write_registered_device xs) @ bs)) = (ds @ xs, new_reader bs)"
  by (induction xs arbitrary: ds) (simp_all add: codec_simps)

definition registration_sendable :: "wire_limits \<Rightarrow> worker_registration \<Rightarrow> bool" where
  "registration_sendable limits w \<longleftrightarrow>
     text_fits (wl_max_string_bytes limits) (wr_label w) \<and>
     count_fits (wl_max_devices limits) (length (wr_devices w)) \<and>
     list_all (device_sendable limits) (wr_devices w)"

interpretation registration: payload_format write_registration "read_registration limits"
    "registration_sendable limits" "\<lambda>w. w" for limits
  by unfold_locales
    (simp add: read_registration_def write_registration_def registration_sendable_def count_fits_def
      codec_simps unat_of_fits read_registered_devices_written)

section \<open>Evidence\<close>

lemma read_throttle_written [codec_simps]:
  "read_throttle (new_reader (write_throttle t @ bs)) = (Some t, new_reader bs)"
  by (simp add: read_throttle_def write_throttle_def codec_simps)

definition cooling_sendable :: "cooling_evidence \<Rightarrow> bool" where
  "cooling_sendable c \<longleftrightarrow>
     all_part temperature_storable (co_air_inlet c) \<and> all_part temperature_storable (co_air_outlet c) \<and>
     all_part temperature_storable (co_liquid_inlet c) \<and>
     all_part temperature_storable (co_liquid_outlet c) \<and> optional_double (co_coolant_flow c)"

lemma read_cooling_written [codec_simps]:
  "cooling_sendable c \<Longrightarrow> read_cooling (new_reader (write_cooling c @ bs)) = (Some c, new_reader bs)"
  by (simp add: read_cooling_def write_cooling_def cooling_sendable_def codec_simps)

lemma read_fan_written [codec_simps]:
  "optional_double (fan_speed_percent f) \<Longrightarrow>
     read_fan (new_reader (write_fan f @ bs)) = (Some f, new_reader bs)"
  by (simp add: read_fan_def write_fan_def codec_simps)

lemmas read_evidence_part_written [codec_simps] =
  read_part_written [of "\<lambda>t. True", OF read_throttle_written]
  read_part_written [of cooling_sendable, OF read_cooling_written]
  read_part_written [of "\<lambda>f. optional_double (fan_speed_percent f)", OF read_fan_written]

definition evidence_sendable :: "evidence \<Rightarrow> bool" where
  "evidence_sendable e \<longleftrightarrow>
     temperature_storable (ev_temperature e) \<and> fits_i64 (ev_measured_at e) \<and>
     fits_i64 (ev_measured_wall_at e) \<and> all_part temperature_storable (ev_temperature_limit e) \<and>
     all_part temperature_storable (ev_shutdown_limit e) \<and> all_part cooling_sendable (ev_cooling e) \<and>
     all_part (\<lambda>f. optional_double (fan_speed_percent f)) (ev_fan e) \<and>
     optional_double (ev_confidence e)"

text \<open>Freshness is not sent: the receiver assesses it.\<close>

definition evidence_kept :: "evidence \<Rightarrow> evidence" where
  "evidence_kept e = e \<lparr>ev_freshness := FS_UNKNOWN\<rparr>"

lemma all_part_True [simp]: "all_part (\<lambda>x. True) v"
  by (simp add: all_part_def split: option.splits)

interpretation evidence: payload_format write_evidence read_evidence evidence_sendable evidence_kept
  by unfold_locales
    (simp add: read_evidence_def read_evidence_parts_def write_evidence_def evidence_sendable_def
      evidence_kept_def or_fail_def empty_evidence_def codec_simps)

section \<open>Actions\<close>

definition action_sendable :: "wire_limits \<Rightarrow> thermal_action \<Rightarrow> bool" where
  "action_sendable limits a \<longleftrightarrow>
     percent_storable (ac_requested_concurrency a) \<and> percent_storable (ac_requested_admission a) \<and>
     text_fits (wl_max_string_bytes limits) (ac_detail a)"

text \<open>The worker gets neither the history of the action nor its later links.\<close>

definition action_sent :: "thermal_action \<Rightarrow> thermal_action" where
  "action_sent a = action_kept a \<lparr>ac_verification_generation := 0,
     ac_verification_telemetry_generation := 0, ac_superseded_by := None,
     ac_authorization_source := ''''\<rparr>"

interpretation wire_action: payload_format write_wire_action "read_wire_action limits"
    "action_sendable limits" action_sent for limits
  by unfold_locales
    (simp add: read_wire_action_def write_wire_action_def action_sendable_def action_sent_def
      action_kept_def empty_action_def codec_simps)

section \<open>The other messages\<close>

lemma bool_byte [simp]: "(if b then 1 else 0 :: u8) \<noteq> 0 \<longleftrightarrow> b" "\<not> 1 < (if b then 1 else 0 :: u8)"
  by simp_all

interpretation ack: message encode_action_ack "decode_action_ack limits"
    "\<lambda>k. text_fits (wl_max_string_bytes limits) (ak_detail k)" "\<lambda>k. k" for limits
  by unfold_locales
    (simp add: decode_action_ack_def encode_action_ack_def write_ack_def reader_exhausted_def codec_simps)

interpretation report: message encode_action_result "decode_action_result limits"
    "\<lambda>x. text_fits (wl_max_string_bytes limits) (rr_detail x)" "\<lambda>x. x" for limits
  by unfold_locales
    (simp add: decode_action_result_def encode_action_result_def write_result_def
      reader_exhausted_def codec_simps)

lemma read_count_written [codec_simps]:
  "count_fits limit (length xs) \<Longrightarrow>
     read_count limit (new_reader (writer_seq f xs @ bs)) =
       Inr (length xs, new_reader (concat (map f xs) @ bs))"
  by (simp add: read_count_def count_fits_def codec_simps unat_of_fits)

interpretation intent: codec "\<lambda>i. writer_u8 (enum_code all_mitigation_intents i)" read_intent
    "\<lambda>i. True" "\<lambda>i. i"
  by unfold_locales (simp add: read_intent_def codec_simps)

interpretation reason: codec writer_u16 read_reason "\<lambda>c. True" "\<lambda>c. c"
  by unfold_locales (simp add: read_reason_def codec_simps)

interpretation argument: codec writer_text "read_argument limit" "text_fits limit" "\<lambda>s. s" for limit
  by unfold_locales (simp add: read_argument_def codec_simps)

definition summary_sendable :: "wire_limits \<Rightarrow> evaluation_summary \<Rightarrow> bool" where
  "summary_sendable limits s \<longleftrightarrow>
     temperature_storable (es_temperature s) \<and> temperature_storable (es_governing_limit s) \<and>
     delta_storable (es_effective_headroom s) \<and> is_double (es_permitted_concurrency s) \<and>
     count_fits (wl_max_intents limits) (length (es_required_intents s)) \<and>
     count_fits (wl_max_intents limits) (length (es_reasons s))"

interpretation summary: message encode_evaluation_summary "decode_evaluation_summary limits"
    "summary_sendable limits" "\<lambda>s. s" for limits
  by unfold_locales
    (simp add: decode_evaluation_summary_def encode_evaluation_summary_def summary_sendable_def
      or_corrupt_def reader_exhausted_def codec_simps intent.many reason.many list_all_True)

interpretation status: message encode_status "decode_status limits"
    "\<lambda>s. text_fits (wl_max_string_bytes limits) (sp_detail s)" "\<lambda>s. s" for limits
  by unfold_locales
    (simp add: decode_status_def encode_status_def reader_exhausted_def codec_simps)

definition command_sendable :: "wire_limits \<Rightarrow> command_request \<Rightarrow> bool" where
  "command_sendable limits q \<longleftrightarrow>
     text_fits (wl_max_string_bytes limits) (cq_verb q) \<and>
     count_fits (wl_max_intents limits) (length (cq_arguments q)) \<and>
     list_all (text_fits (wl_max_string_bytes limits)) (cq_arguments q) \<and>
     text_fits kMaxCollection (cq_payload q)"

interpretation command: message encode_command "decode_command limits" "command_sendable limits"
    "\<lambda>q. q" for limits
  by unfold_locales
    (simp add: decode_command_def encode_command_def command_sendable_def reader_exhausted_def
      codec_simps argument.many)

definition response_sendable :: "wire_limits \<Rightarrow> command_response \<Rightarrow> bool" where
  "response_sendable limits s \<longleftrightarrow>
     text_fits (wl_max_string_bytes limits) (sp_detail (cs_status s)) \<and>
     text_fits kMaxCollection (cs_payload s)"

interpretation response: message encode_response "decode_response limits" "response_sendable limits"
    "\<lambda>s. s" for limits
  by unfold_locales
    (simp add: decode_response_def encode_response_def response_sendable_def reader_exhausted_def
      codec_simps)

end
