(* ===== verification/Durability.thy ===== *)
theory Durability
  imports Examples Store WindowsStore SaveGate Frame WireLaws
begin

text \<open>
  The properties of the durable file and of the messages: what survives a save and a reload, what
  a receiver gets, and which damage is noticed. Each property is followed by its instance at a
  concrete input.
\<close>

section \<open>The durable state of a governor\<close>

text \<open>The identities of a governor's durable state are those of its keyed tables.\<close>

lemma distinct_sorted_keys:
  assumes "keyed key t"
  shows "distinct (map key (sort_key order (map snd t)))"
proof -
  have keys: "map key (map snd t) = map fst t"
    using assms by (auto simp: keyed_def)
  have "distinct (map key (sort_key order (map snd t))) \<longleftrightarrow> distinct (map key (map snd t))"
    by (rule mset_eq_imp_distinct_iff) (simp only: mset_map mset_sort)
  then show ?thesis
    unfolding keys using assms by (simp add: keyed_def table_ok_def)
qed

lemma governor_identities_unique:
  assumes "structure_ok g"
  shows "identities_unique (durable_of g)"
proof -
  have "topology_ok (g_domains g) (g_couplings g)" "policies_from UNIV (g_policies g)"
    "keyed dr_device (g_devices g)" "keyed ac_id (g_actions g)"
    using assms by (simp_all only: structure_from_def)
  then show ?thesis
    using saved_domains_keyed [of "g_domains g" "all_domain_ids (g_domains g)"]
    by (simp add: identities_unique_def durable_domains)
      (simp add: durable_of_def distinct_sorted_keys policies_from_def topology_ok_def coupling_ok_def
        all_domain_ids_def registry_ok_def table_ok_def)
qed

lemma default_limits_sensible: "limits_sensible default_persistence_limits"
  by (simp add: limits_sensible_def default_persistence_limits_def)

section \<open>A governor on disk\<close>

text \<open>The governor right after its creation, saved on a disk whose calls all succeed.\<close>

lemma booted_durable [simp]:
  "du_policies (durable_of booted) = [make_default]" "du_devices (durable_of booted) = []"
  "du_domains (durable_of booted) = []" "du_couplings (durable_of booted) = []"
  "du_transitions (durable_of booted) = []" "du_actions (durable_of booted) = []"
  "du_verifications (durable_of booted) = []"
  by (simp_all add: durable_of_def all_domain_ids_def empty_registry_def)
    (simp_all add: booted_def publish_locked_def initial_governor_def)

lemma booted_payloads:
  "durable_payloads (durable_of booted) =
     [(RT_COORDINATOR_STATE, write_coordinator (durable_of booted)), (RT_POLICY, write_policy make_default)]"
  by (simp add: durable_payloads_def)

lemma writer_lengths [simp]:
  "length (writer_u8 a) = 1" "length (writer_real x) = 8" "length (writer_i64 v) = 8"
  "length (writer_bool b) = 1" "length (writer_text s) = 4 + length s"
  by (simp_all add: writer_u8_def writer_real_def writer_i64_def writer_bool_def writer_text_def)

lemmas policy_writers = write_thresholds_def write_margins_def write_freshness_def
  write_recovery_policy_def write_verification_policy_def write_admission_policy_def
  write_concurrency_policy_def write_emergency_policy_def write_coupling_policy_def
  write_restriction_def

lemma default_policy_length: "length (write_policy make_default) \<le> 1000"
  by (simp add: write_policy_def make_default_def writer_seq_def default_restrictions_def policy_writers)

lemma half_double: "is_double (Fin (1 / 2))"
proof -
  have "rne (1 / 2) = Fin (1 / 2)" by code_simp
  then show ?thesis using is_double_rne [of "1 / 2"] by simp
qed

lemma temperature_storable_numeral:
  "numeral w \<le> (200 :: int) \<Longrightarrow> temperature_storable (Fin (numeral w))"
proof -
  assume w: "numeral w \<le> (200 :: int)"
  then have "(numeral w :: rat) \<le> 200" by (simp only: numeral_le_iff)
  moreover have "(0 :: rat) < numeral w" by simp
  ultimately have "- (2402652809016115 / 8796093022208) \<le> (numeral w :: rat)" "numeral w \<le> (1500 :: rat)"
    by linarith+
  then have "celsius_is_valid (Fin (numeral w))"
    by (simp add: celsius_valid_iff_try_from celsius_try_from_def kAbsoluteZero_def kMaxPlausible_def not_less)
  moreover have "is_double (Fin (numeral w))" by (rule is_double_numeral(1), rule order_trans [OF w]) simp
  ultimately show ?thesis by (simp add: temperature_storable_def)
qed

lemma default_policy_storable: "policy_storable default_persistence_limits make_default"
  by (simp add: policy_storable_def make_default_def default_persistence_limits_def text_fits_def
      fits_u32_def thresholds_storable_def margins_storable_def freshness_storable_def fits_i64_def
      concurrency_storable_def default_restrictions_def restriction_storable_def half_double
      default_thresholds_def temperature_storable_numeral)

lemma booted_encodes:
  obtains bytes where "encode_durable_state default_persistence_limits (durable_of booted) = Inr bytes"
    "length bytes \<le> 2000"
proof -
  let ?body = "concat (map record_bytes (durable_payloads (durable_of booted)))"
  have coordinator: "length (write_coordinator (durable_of booted)) = 44"
    by (simp add: write_coordinator_def)
  have len: "length ?body \<le> 1068"
    using default_policy_length coordinator by (simp add: booted_payloads record_bytes_def Let_def)
  have "encode_durable_state default_persistence_limits (durable_of booted) =
      Inr (container_bytes (length (durable_payloads (durable_of booted))) ?body)"
    unfolding encode_durable_state_iff
    using len default_policy_length coordinator
    by (simp add: within_counts_def booted_payloads default_persistence_limits_def)
  moreover have "length (container_bytes (length (durable_payloads (durable_of booted))) ?body) \<le> 2000"
    using len by simp
  ultimately show ?thesis by (rule that)
qed

definition working_disk :: save_outcome where
  "working_disk = \<lparr>so_opened = True, so_written = 2000, so_flushed = True, so_renamed = True\<rparr>"

lemma booted_saved:
  obtains states bytes where
    "store_save default_persistence_limits ''state'' 1 working_disk (durable_of booted) (\<lambda>_. None) = (success, states)"
    "last states ''state'' = Some bytes" "length bytes \<le> 2000"
proof -
  obtain bytes where bytes: "encode_durable_state default_persistence_limits (durable_of booted) = Inr bytes"
    "length bytes \<le> 2000" by (rule booted_encodes)
  then obtain states where states: "store_save default_persistence_limits ''state'' 1 working_disk (durable_of booted)
      (\<lambda>_. None) = (success, states)"
    by (simp add: store_save_def write_durable_file_def working_disk_def atomic_replace_def)
  then have "last states ''state'' = Some bytes"
    using store_save_success [OF states] bytes(1) by simp
  then show ?thesis using that states bytes(2) by blast
qed

lemma booted_storable: "records_storable default_persistence_limits (durable_of booted)"
  by (simp add: records_storable_def default_policy_storable)

lemma booted_decodes:
  obtains bytes result where "decode_durable_state default_persistence_limits bytes = Inr result"
    "bytes \<noteq> []"
proof -
  obtain bytes where bytes: "encode_durable_state default_persistence_limits (durable_of booted) = Inr bytes"
    "length bytes \<le> 2000" by (rule booted_encodes)
  have "du_format_version (durable_of booted) = kPersistenceFormatVersion" by (simp add: durable_of_def)
  moreover have "identities_unique (durable_of booted)"
    by (rule governor_identities_unique [OF structure_examples(1)])
  ultimately have "decode_durable_state default_persistence_limits bytes = Inr
      \<lparr>lr_state = durable_kept (durable_of booted), lr_records_read = length (durable_payloads (durable_of booted)),
       lr_bytes_read = length bytes\<rparr>"
    using encoded_decodes [OF bytes(1) default_limits_sensible booted_storable] bytes(2)
    by (simp add: booted_payloads default_persistence_limits_def)
  moreover have "bytes \<noteq> []" using decoded_container(1) [OF calculation default_limits_sensible] by auto
  ultimately show ?thesis by (rule that)
qed

section \<open>Files\<close>

text \<open>
  C30: the table-driven checksum of files and frames is the bit-by-bit
  division by the Castagnoli polynomial, for every input and every seed.
\<close>

theorem checksum_table_is_the_polynomial:
  "crc32c bytes seed = crc32c_bitwise bytes seed"
  by (rule crc32c_is_bitwise)

text \<open>
  C14: whatever operations ran before, a governor whose save succeeded is read
  back from the file, provided its texts and numbers fit the bounds of the format, its records are no
  more than \<open>max_records\<close> and its file is no longer than \<open>max_file_bytes\<close> (the encoder does not
  check the first two, and checks the third of the body alone): all of its
  durable state except the expiry of couplings, the times and reasons of actions and the reasons
  of verifications. No identity is repeated, so the duplicate checks of the decoder never refuse
  the file of a reachable governor.
\<close>

theorem saved_governor_reloads:
  assumes "reachable g" "store_save limits path index io (durable_of g) fs = (success, states)"
    and "limits_sensible limits" "records_storable limits (durable_of g)"
    and "length (durable_payloads (durable_of g)) \<le> pl_max_records limits"
    and "\<And>bytes. last states path = Some bytes \<Longrightarrow> length bytes \<le> pl_max_file_bytes limits"
  shows "\<exists>result. store_load limits path (last states) = Inr result \<and>
    lr_state result = durable_kept (durable_of g)"
proof -
  have path: "path \<noteq> []" using assms(2) by (auto simp: store_save_def)
  obtain bytes where bytes: "encode_durable_state limits (durable_of g) = Inr bytes"
    "last states path = Some bytes"
    using store_save_success [OF assms(2)] by blast
  have unique: "identities_unique (durable_of g)"
    by (rule governor_identities_unique) (rule structural.reachable_inv [OF assms(1)])
  have "du_format_version (durable_of g) = kPersistenceFormatVersion" by (simp add: durable_of_def)
  then show ?thesis
    using store_load_encoded [where fs = "last states", OF bytes path assms(3,4) unique _ assms(5)]
      assms(6) [OF bytes(2)] by simp
qed

theorem saved_governor_reloads_witness:
  "\<exists>fs result. store_load default_persistence_limits ''state'' fs = Inr result \<and>
     du_policies (lr_state result) = [make_default]"
proof -
  obtain states bytes where states:
    "store_save default_persistence_limits ''state'' 1 working_disk (durable_of booted) (\<lambda>_. None) = (success, states)"
    "last states ''state'' = Some bytes" "length bytes \<le> 2000" by (rule booted_saved)
  have "\<exists>result. store_load default_persistence_limits ''state'' (last states) = Inr result \<and>
      lr_state result = durable_kept (durable_of booted)"
    by (rule saved_governor_reloads [OF reachable_examples(1) states(1) default_limits_sensible booted_storable])
      (use states(2,3) in \<open>simp_all add: booted_payloads default_persistence_limits_def\<close>)
  then obtain result where "store_load default_persistence_limits ''state'' (last states) = Inr result"
    "lr_state result = durable_kept (durable_of booted)" by blast
  moreover from this(2) have "du_policies (lr_state result) = [make_default]"
    by (simp add: durable_kept_def)
  ultimately show ?thesis by blast
qed

text \<open>
  C15: when a file is accepted, every file that differs from it in one byte,
  is cut short anywhere, or has anything appended is refused.
\<close>

theorem damaged_file_is_refused:
  assumes "decode_durable_state limits bs = Inr result" "limits_sensible limits"
  shows "(\<forall>i b. i < length bs \<and> b \<noteq> bs ! i \<longrightarrow>
      (\<exists>e. decode_durable_state limits (bs[i := b]) = Inl e)) \<and>
    (\<forall>n < length bs. \<exists>e. decode_durable_state limits (take n bs) = Inl e) \<and>
    (\<forall>tail. tail \<noteq> [] \<longrightarrow> (\<exists>e. decode_durable_state limits (bs @ tail) = Inl e))"
  using single_byte_change [OF assms] truncated_file [OF assms] prefix_same_length [OF assms]
  by (metis sum.exhaust)

theorem damaged_file_is_refused_witness:
  "\<exists>bytes result e. decode_durable_state default_persistence_limits bytes = Inr result \<and>
     decode_durable_state default_persistence_limits (bytes[0 := bytes ! 0 + 1]) = Inl e"
proof -
  obtain bytes result where ok: "decode_durable_state default_persistence_limits bytes = Inr result"
    "bytes \<noteq> []" by (rule booted_decodes)
  then show ?thesis
    using damaged_file_is_refused [OF ok(1) default_limits_sensible] by fastforce
qed

text \<open>
  C16: at every moment of a POSIX save the durable file holds either
  its old contents or the complete encoding of the new state; a failed save leaves the old
  contents, a successful one the new, and the temporary file does not outlive the save.
\<close>

theorem interrupted_save_keeps_old_or_new:
  assumes "store_save limits path index io s fs = (r, states)"
  shows "(\<forall>fs' \<in> set states. fs' path = fs path \<or>
      (\<exists>bytes. encode_durable_state limits s = Inr bytes \<and> fs' path = Some bytes)) \<and>
    (r \<noteq> success \<longrightarrow> last states path = fs path) \<and>
    (r = success \<longrightarrow> (\<exists>bytes. encode_durable_state limits s = Inr bytes \<and> last states path = Some bytes)) \<and>
    (fs (unique_temporary_path path index) = None \<longrightarrow>
       last states (unique_temporary_path path index) = None)"
proof (intro conjI ballI impI)
  show "fs' path = fs path \<or> (\<exists>bytes. encode_durable_state limits s = Inr bytes \<and> fs' path = Some bytes)"
    if "fs' \<in> set states" for fs' using store_save_states [OF assms that] .
  show "last states path = fs path" if "r \<noteq> success"
    using store_save_failure [of limits path index io s fs] assms that by (cases r) auto
  show "\<exists>bytes. encode_durable_state limits s = Inr bytes \<and> last states path = Some bytes"
    if "r = success" using store_save_success assms that by blast
  show "last states (unique_temporary_path path index) = None"
    if "fs (unique_temporary_path path index) = None" using store_save_no_leftovers [OF assms that] .
qed

theorem interrupted_save_keeps_old_or_new_witness:
  "\<exists>states bytes. store_save default_persistence_limits ''state'' 1 working_disk (durable_of booted) (\<lambda>_. None) =
      (success, states) \<and>
     encode_durable_state default_persistence_limits (durable_of booted) = Inr bytes \<and>
     last states ''state'' = Some bytes"
proof -
  obtain states bytes where states:
    "store_save default_persistence_limits ''state'' 1 working_disk (durable_of booted) (\<lambda>_. None) = (success, states)"
    by (rule booted_saved)
  then show ?thesis using interrupted_save_keeps_old_or_new [OF states(1)] by auto
qed

text \<open>
  C17: however the calls of concurrent saves of one path interleave, the
  files are those of the saves done one after the other in the order of their numbers, with at
  most one further save under way, in one of the states it passes through on its own. The durable
  file is never anything but its first contents or a complete encoding one of these saves wrote.
\<close>

theorem concurrent_saves_are_sequential:
  assumes "saves_reachable path fs w"
  shows "map fst (sv_done w) = first_numbers (length (sv_done w)) \<and>
    (case sv_holder w of
       None \<Rightarrow> sv_files w = saves_in_turn path fs (sv_done w)
     | Some (index, (bytes, io), _) \<Rightarrow> sv_files w \<in>
         set (snd (write_durable_file path index io bytes (saves_in_turn path fs (sv_done w))))) \<and>
    sv_files w path \<in> {fs path} \<union> Some ` fst ` (snd ` set (sv_done w) \<union>
      (case sv_holder w of None \<Rightarrow> {} | Some (_, job, _) \<Rightarrow> {job}))"
  using gate_numbers [OF assms] gate_files [OF assms] gate_target [OF assms] by blast

theorem concurrent_saves_are_sequential_witness:
  "\<exists>w. saves_reachable ''state'' (\<lambda>_. None) w \<and> sv_files w ''state'' = Some [7] \<and>
     sv_done w = [(1, [7], working_disk)] \<and> sv_waiting w = [([8], working_disk)] \<and>
     map fst (sv_done w) = first_numbers (length (sv_done w))"
proof -
  let ?queued = "request_gate ([7], working_disk) (request_gate ([8], working_disk) (idle_world (\<lambda>_. None)))"
  let ?done = "(holder_call ^^ Suc (Suc (Suc (Suc 0)))) (enter_gate ''state'' 1 ?queued)"
  have queued: "saves_reachable ''state'' (\<lambda>_. None) ?queued"
    by (rule svr_step [OF svr_step [OF svr_start sv_request] sv_request])
  have entered: "saves_reachable ''state'' (\<lambda>_. None) (enter_gate ''state'' 1 ?queued)"
    by (rule svr_step [OF queued sv_enter]) (simp_all add: request_gate_def idle_world_def)
  have reached: "saves_reachable ''state'' (\<lambda>_. None) ?done"
    by (rule holder_calls_reachable [OF entered])
  moreover have "sv_files ?done ''state'' = Some [7]" "sv_done ?done = [(1, [7], working_disk)]"
    "sv_waiting ?done = [([8], working_disk)]"
    by (simp_all add: holder_call_def enter_gate_def request_gate_def idle_world_def
        save_effects_def working_disk_def Let_def)
  ultimately show ?thesis using concurrent_saves_are_sequential [OF reached] by blast
qed

text \<open>
  C18: a save of the Windows branch leaves the old or the new contents
  at every moment unless \<^verbatim>\<open>ReplaceFileW\<close> reports that it could not move the replacement after it
  removed the target; then the save deletes the replacement as well, and neither is left.
\<close>

theorem windows_saves_may_lose_the_state:
  assumes "windows_documented w" "windows_save limits w path index script s fs = (r, states)"
  shows "(\<forall>fs' \<in> set states. fs' (wc_wide w path) = fs (wc_wide w path) \<or>
      (\<exists>bytes. encode_durable_state limits s = Inr bytes \<and> fs' (wc_wide w path) = Some bytes) \<or>
      fs' (wc_wide w path) = None \<and> r = Some (Inl E_PERSISTENCE_IO) \<and>
        (\<exists>full. fst (wc_replace w (wc_wide w path) (wc_wide w (unique_temporary_path path index)) full) \<in>
          {Some ERROR_UNABLE_TO_MOVE_REPLACEMENT, Some ERROR_UNABLE_TO_MOVE_REPLACEMENT_2})) \<and>
    (r = Some success \<longrightarrow> (\<exists>bytes. encode_durable_state limits s = Inr bytes \<and>
       last states (wc_wide w path) = Some bytes)) \<and>
    (\<forall>bytes. path \<noteq> [] \<and> encode_durable_state limits s = Inr bytes \<and> ws_created script \<and> ws_flushed script \<and>
       fst (transfer (ws_writes script) (length bytes) 0) = Some True \<and>
       fst (wc_replace w (wc_wide w path) (wc_wide w (unique_temporary_path path index))
         (fs(wc_wide w (unique_temporary_path path index) \<mapsto> bytes))) = Some ERROR_UNABLE_TO_MOVE_REPLACEMENT \<and>
       (\<forall>p fs. wc_delete w p fs = fs(p := None)) \<longrightarrow>
       r = Some (Inl E_PERSISTENCE_IO) \<and>
       last states = fs(wc_wide w path := None, wc_wide w (unique_temporary_path path index) := None))"
  using windows_save_states [OF assms] windows_save_lost [OF assms(1), of path limits s _ script index fs] assms(2)
  by auto

text \<open>A Windows on which the replacement fails half-way.\<close>

definition failing_windows :: windows_calls where
  "failing_windows = \<lparr>
     wc_wide = map (\<lambda>c. of_nat (of_char c)),
     wc_replace = (\<lambda>target temp fs. (Some ERROR_UNABLE_TO_MOVE_REPLACEMENT, fs(target := None))),
     wc_move = (\<lambda>temp target fs. (True, fs(target := fs temp, temp := None))),
     wc_delete = (\<lambda>p fs. fs(p := None))\<rparr>"

lemma failing_windows_documented: "windows_documented failing_windows"
  by (auto simp: windows_documented_def replace_documented_def move_documented_def delete_documented_def
      failing_windows_def unique_temporary_path_def)

theorem windows_saves_may_lose_the_state_witness:
  "\<exists>script states. windows_save default_persistence_limits failing_windows ''state'' 1 script (durable_of booted)
       (\<lambda>_. Some [1]) = (Some (Inl E_PERSISTENCE_IO), states) \<and>
     last states (wc_wide failing_windows ''state'') = None \<and>
     last states (wc_wide failing_windows (unique_temporary_path ''state'' 1)) = None"
proof -
  obtain bytes where bytes: "encode_durable_state default_persistence_limits (durable_of booted) = Inr bytes"
    by (rule booted_encodes)
  let ?script = "\<lparr>ws_created = True, ws_writes = replicate (length bytes) (Some 1), ws_flushed = True\<rparr>"
  obtain r states where run: "windows_save default_persistence_limits failing_windows ''state'' 1 ?script
      (durable_of booted) (\<lambda>_. Some [1]) = (r, states)" by fastforce
  have "fst (transfer (ws_writes ?script) (length bytes) 0) = Some True"
    using transfer_progress [of "length bytes" 0 "replicate (length bytes) (Some 1)"] by auto
  moreover have "fst (wc_replace failing_windows target temp fs) = Some ERROR_UNABLE_TO_MOVE_REPLACEMENT"
    "wc_delete failing_windows p fs = fs(p := None)" for target temp p fs
    by (simp_all add: failing_windows_def)
  ultimately have "r = Some (Inl E_PERSISTENCE_IO) \<and> last states = (\<lambda>_. Some [1])
      (wc_wide failing_windows ''state'' := None,
       wc_wide failing_windows (unique_temporary_path ''state'' 1) := None)"
    using windows_saves_may_lose_the_state [OF failing_windows_documented run] bytes by auto
  then show ?thesis using run by (intro exI [of _ ?script] exI [of _ states]) simp
qed

section \<open>Messages\<close>

text \<open>
  C19: an encoded frame is decoded to its kind, flags and payload, and a
  frame with one byte changed, cut short or continued is refused.
\<close>

theorem frames_are_intact_or_refused:
  assumes "encode_frame kind flags content = Inr bytes" "length content \<le> max_payload"
  shows "decode_frame max_payload bytes =
      Inr \<lparr>fm_kind = kind, fm_flags = flags, fm_payload = content\<rparr> \<and>
    (\<forall>i b. i < length bytes \<and> b \<noteq> bytes ! i \<longrightarrow>
      (\<exists>e. decode_frame max_payload (bytes[i := b]) = Inl e)) \<and>
    (\<forall>n < length bytes. \<exists>e. decode_frame max_payload (take n bytes) = Inl e) \<and>
    (\<forall>tail. tail \<noteq> [] \<longrightarrow> (\<exists>e. decode_frame max_payload (bytes @ tail) = Inl e))"
  using frame_decoded [OF assms] single_byte_change_in_frame [OF frame_decoded [OF assms]]
    truncated_frame [OF frame_decoded [OF assms]] frame_prefix_same_length [OF frame_decoded [OF assms]]
  by (metis sum.exhaust)

theorem frames_are_intact_or_refused_witness:
  "\<exists>bytes e. encode_frame MK_HEARTBEAT 0 [7] = Inr bytes \<and>
     decode_frame 10 bytes = Inr \<lparr>fm_kind = MK_HEARTBEAT, fm_flags = 0, fm_payload = [7]\<rparr> \<and>
     decode_frame 10 (bytes @ [0]) = Inl e"
proof -
  obtain bytes where bytes: "encode_frame MK_HEARTBEAT 0 [7] = Inr bytes"
    by (simp add: encode_frame_def message_kind_written Let_def)
  then show ?thesis using frames_are_intact_or_refused [OF bytes, of 10] by simp
qed

lemma reading_sendable: "evidence_sendable (reading 3 62)"
  by (simp add: evidence_sendable_def temperature_storable_numeral optional_double_def fits_i64_def)
    (simp add: reading_def empty_evidence_def fits_i64_def)

text \<open>
  Evidence sent in a frame arrives as it was measured, except for the
  freshness, which is not sent and arrives as UNKNOWN for the receiver to assess.
\<close>

theorem published_evidence_arrives:
  assumes "evidence_sendable e" "encode_frame MK_PUBLISH_EVIDENCE flags (encode_evidence e) = Inr bytes"
    and "length (encode_evidence e) \<le> max_payload"
  shows "\<exists>f. decode_frame max_payload bytes = Inr f \<and> fm_kind f = MK_PUBLISH_EVIDENCE \<and>
    decode_evidence (fm_payload f) = Inr (evidence_kept e)"
  using frame_decoded [OF assms(2,3)] evidence.decoded [OF assms(1)]
  by (simp add: decode_evidence_def encode_evidence_def)

theorem published_evidence_arrives_witness:
  "\<exists>bytes f. encode_frame MK_PUBLISH_EVIDENCE 0 (encode_evidence (reading 3 62)) = Inr bytes \<and>
     decode_frame 4194304 bytes = Inr f \<and>
     decode_evidence (fm_payload f) = Inr (evidence_kept (reading 3 62))"
proof -
  have len: "length (encode_evidence (reading 3 62)) \<le> 1000"
    by (simp add: encode_evidence_def write_evidence_def write_subject_def writer_optional_def)
      (simp add: reading_def empty_evidence_def)
  then obtain bytes where bytes:
    "encode_frame MK_PUBLISH_EVIDENCE 0 (encode_evidence (reading 3 62)) = Inr bytes"
    by (simp add: encode_frame_def message_kind_written Let_def)
  then show ?thesis using published_evidence_arrives [OF reading_sendable bytes, of 4194304] len by auto
qed

text \<open>
  An action instruction arrives with the authority it was
  planned under, so the receiver revalidates it with the same outcome as the sender would.
\<close>

theorem instructed_action_keeps_its_authority:
  assumes "action_sendable limits a"
  shows "\<exists>b. decode_action limits (encode_action a) = Inr b \<and> b = action_sent a \<and>
    ac_authority b = ac_authority a \<and>
    revalidate_action_authority (ac_authority b) current = revalidate_action_authority (ac_authority a) current"
  using wire_action.decoded [OF assms]
  by (simp add: decode_action_def encode_action_def action_sent_def action_kept_def)

theorem instructed_action_keeps_its_authority_witness:
  "\<exists>b. decode_action default_wire_limits (encode_action (empty_action \<lparr>ac_id := 4\<rparr>)) = Inr b \<and> ac_id b = 4"
  using instructed_action_keeps_its_authority [of default_wire_limits "empty_action \<lparr>ac_id := 4\<rparr>"]
  by (simp add: action_sendable_def empty_action_def percent_storable_def text_fits_def fits_u32_def
      action_sent_def action_kept_def)

section \<open>What the checks do not cover\<close>

text \<open>
  An evidence payload that ends right after an out-of-range
  subject kind is decoded successfully, to evidence that is empty but for its identity: the
  decoder stops early without latching the failure of the reader.
\<close>

theorem truncated_evidence_is_accepted:
  "\<not> enum_valid all_subject_kinds kind \<Longrightarrow>
     decode_evidence (writer_u64 i @ [kind]) = Inr (empty_evidence \<lparr>ev_evidence_id := i\<rparr>)"
  using reader_u8_written [of kind "[]"]
  by (simp add: decode_evidence_def decode_with_def read_evidence_def wire_subject_def codec_simps
      writer_u8_def reader_exhausted_def)

theorem truncated_evidence_is_accepted_witness:
  "decode_evidence [5, 0, 0, 0, 0, 0, 0, 0, 6] = Inr (empty_evidence \<lparr>ev_evidence_id := 5\<rparr>)"
proof -
  have "writer_u64 5 @ [6] = [5, 0, 0, 0, 0, 0, 0, 0, 6]" by code_simp
  moreover have "\<not> enum_valid all_subject_kinds 6" by code_simp
  ultimately show ?thesis using truncated_evidence_is_accepted [of 6 5] by simp
qed

definition tight_limits :: persistence_limits where
  "tight_limits = default_persistence_limits \<lparr>pl_max_file_bytes := 56\<rparr>"

definition blank_state :: durable_state where
  "blank_state = empty_durable \<lparr>du_format_version := kPersistenceFormatVersion\<rparr>"

text \<open>
  The bound of the encoder covers the body alone, that of
  the loader the whole file; a state whose body is within 40 bytes of the bound is saved
  successfully and then refused.
\<close>

theorem saved_file_can_exceed_the_load_bound:
  "\<exists>states. store_save tight_limits ''state'' 1 working_disk blank_state (\<lambda>_. None) = (success, states) \<and>
     store_load tight_limits ''state'' (last states) = Inl E_PERSISTENCE_CORRUPT"
proof -
  let ?body = "concat (map record_bytes (durable_payloads blank_state))"
  have payloads: "durable_payloads blank_state = [(RT_COORDINATOR_STATE, write_coordinator blank_state)]"
    by (simp add: durable_payloads_def blank_state_def empty_durable_def)
  have coordinator: "length (write_coordinator blank_state) = 44" by (simp add: write_coordinator_def)
  have len: "length ?body = 56" by (simp add: payloads record_bytes_def Let_def coordinator)
  have encoded: "encode_durable_state tight_limits blank_state = Inr (container_bytes 1 ?body)"
    unfolding encode_durable_state_iff
    using len by (simp add: within_counts_def payloads coordinator tight_limits_def
        default_persistence_limits_def) (simp add: blank_state_def empty_durable_def)
  have "length (container_bytes 1 ?body) = 96" using len by simp
  then obtain states where states:
    "store_save tight_limits ''state'' 1 working_disk blank_state (\<lambda>_. None) = (success, states)"
    by (simp add: store_save_def encoded write_durable_file_def working_disk_def atomic_replace_def)
  then have "last states ''state'' = Some (container_bytes 1 ?body)"
    using store_save_success [OF states] encoded by simp
  then have "store_load tight_limits ''state'' (last states) = Inl E_PERSISTENCE_CORRUPT"
    using len by (simp add: store_load_def read_durable_file_def tight_limits_def)
  then show ?thesis using states by blast
qed

end
