(* ===== verification/Session.thy ===== *)
theory Session
  imports Store
begin

text \<open>
  \<^verbatim>\<open>tools/session.cpp\<close>: the helpers the process tools share. Hexadecimal text carries opaque wire
  payloads inside text commands; \<^verbatim>\<open>parse_u64\<close> and \<^verbatim>\<open>parse_double\<close> are thin wrappers of \<^verbatim>\<open>strtoull\<close>
  and \<^verbatim>\<open>strtod\<close>, so what these two accept is written out here, in the C locale and with the range
  errors of glibc.
\<close>

section \<open>Hexadecimal text\<close>

definition kHexDigits :: string where
  "kHexDigits = ''0123456789abcdef''"

definition char_between :: "char \<Rightarrow> char \<Rightarrow> char \<Rightarrow> bool" where
  "char_between lo hi c \<longleftrightarrow> (of_char lo :: nat) \<le> of_char c \<and> (of_char c :: nat) \<le> of_char hi"

text \<open>\<open>None\<close> is the source's \<open>-1\<close>.\<close>

definition hex_value :: "char \<Rightarrow> nat option" where
  "hex_value c =
     (if char_between CHR ''0'' CHR ''9'' c then Some (of_char c - of_char (CHR ''0''))
      else if char_between CHR ''a'' CHR ''f'' c then Some (of_char c - of_char (CHR ''a'') + 10)
      else if char_between CHR ''A'' CHR ''F'' c then Some (of_char c - of_char (CHR ''A'') + 10)
      else None)"

definition hex_byte :: "u8 \<Rightarrow> string" where
  "hex_byte b = [kHexDigits ! unat (drop_bit 4 b AND 0x0F), kHexDigits ! unat (b AND 0x0F)]"

definition to_hex :: "u8 list \<Rightarrow> string" where
  "to_hex data = concat (map hex_byte data)"

fun from_hex_pairs :: "string \<Rightarrow> u8 list option" where
  "from_hex_pairs (a # b # rest) =
     (case (hex_value a, hex_value b) of
        (Some high, Some low) \<Rightarrow>
          map_option ((#) (push_bit 4 (of_nat high) OR of_nat low)) (from_hex_pairs rest)
      | _ \<Rightarrow> None)"
| "from_hex_pairs _ = Some []"

definition from_hex :: "string \<Rightarrow> u8 list option" where
  "from_hex s = (if odd (length s) then None else from_hex_pairs s)"

section \<open>Numbers\<close>

text \<open>What a C function sees of a \<^verbatim>\<open>std::string\<close>: everything before its first NUL.\<close>

definition c_str :: "string \<Rightarrow> string" where
  "c_str s = takeWhile (\<lambda>c. c \<noteq> CHR 0x00) s"

definition is_space :: "char \<Rightarrow> bool" where
  "is_space c \<longleftrightarrow> c = CHR '' '' \<or> char_between (CHR 0x09) (CHR 0x0D) c"

definition is_digit :: "char \<Rightarrow> bool" where
  "is_digit c \<longleftrightarrow> char_between CHR ''0'' CHR ''9'' c"

definition scan_sign :: "string \<Rightarrow> bool \<times> string" where
  "scan_sign s =
     (case s of
        c # rest \<Rightarrow> if c = CHR ''-'' then (True, rest) else if c = CHR ''+'' then (False, rest)
          else (False, s)
      | [] \<Rightarrow> (False, s))"

text \<open>
  \<^verbatim>\<open>strtoull\<close> in base 10: the value, whether \<open>ERANGE\<close> is set, and where the conversion stopped. A
  minus sign negates the value in the unsigned type. Without a digit nothing is converted.
\<close>

definition strtoull :: "string \<Rightarrow> u64 \<times> bool \<times> string" where
  "strtoull s =
     (let (negative, body) = scan_sign (dropWhile is_space s); digits = takeWhile is_digit body;
          value = parse_decimal digits
      in if digits = [] then (0, False, s)
         else if 2 ^ 64 \<le> value then (- 1, True, dropWhile is_digit body)
         else (if negative then - of_int value else of_int value, False, dropWhile is_digit body))"

definition parse_u64 :: "string \<Rightarrow> u64 option" where
  "parse_u64 s =
     (if s = [] then None
      else case strtoull (c_str s) of
        (value, range_error, rest) \<Rightarrow> if range_error \<or> rest \<noteq> [] then None else Some value)"

definition lower_case :: "char \<Rightarrow> char" where
  "lower_case c = (if char_between CHR ''A'' CHR ''Z'' c then char_of (of_char c + (32 :: nat)) else c)"

definition has_prefix :: "string \<Rightarrow> string \<Rightarrow> bool" where
  "has_prefix p s \<longleftrightarrow> map lower_case (take (length p) s) = p"

text \<open>An exponent counts only when a digit follows its letter and sign.\<close>

definition scan_exponent :: "char \<Rightarrow> string \<Rightarrow> int \<times> string" where
  "scan_exponent letter s =
     (case s of
        c # rest \<Rightarrow>
          (let (negative, body) = scan_sign rest; digits = takeWhile is_digit body
           in if lower_case c = letter \<and> digits \<noteq> []
              then (if negative then - parse_decimal digits else parse_decimal digits, dropWhile is_digit body)
              else (0, s))
      | [] \<Rightarrow> (0, s))"

text \<open>Integral digits, then a point with fractional digits: the digits, how many are fractional.\<close>

definition scan_mantissa :: "(char \<Rightarrow> bool) \<Rightarrow> string \<Rightarrow> string \<times> nat \<times> string" where
  "scan_mantissa digit s =
     (let integral = takeWhile digit s; rest = dropWhile digit s
      in case rest of
           c # fraction \<Rightarrow>
             if c = CHR ''.'' \<and> (integral \<noteq> [] \<or> takeWhile digit fraction \<noteq> [])
             then (integral @ takeWhile digit fraction, length (takeWhile digit fraction),
                   dropWhile digit fraction)
             else (integral, 0, rest)
         | [] \<Rightarrow> (integral, 0, rest))"

text \<open>\<open>rne\<close> rounds correctly; \<open>ERANGE\<close> is an overflow, or a tiny result that is not exact.\<close>

definition strtod_finite :: "bool \<Rightarrow> rat \<Rightarrow> f64 \<times> bool" where
  "strtod_finite negative exact =
     (let x = rne exact
      in (if negative then fneg x else x,
          x = PosInf \<or> (exact \<noteq> 0 \<and> exact < 1 / 2 ^ 1022 \<and> x \<noteq> Fin exact)))"

definition is_hex_digit :: "char \<Rightarrow> bool" where
  "is_hex_digit c \<longleftrightarrow> hex_value c \<noteq> None"

definition parse_hex :: "string \<Rightarrow> int" where
  "parse_hex s = foldl (\<lambda>acc c. 16 * acc + int (the (hex_value c))) 0 s"

text \<open>The characters glibc accepts between the parentheses of \<^verbatim>\<open>nan(...)\<close>.\<close>

definition is_nan_char :: "char \<Rightarrow> bool" where
  "is_nan_char c \<longleftrightarrow> is_digit c \<or> char_between CHR ''a'' CHR ''z'' (lower_case c) \<or> c = CHR ''_''"

definition scan_nan_tag :: "string \<Rightarrow> string" where
  "scan_nan_tag s =
     (case s of
        c # body \<Rightarrow>
          (case dropWhile is_nan_char body of
             d # rest \<Rightarrow> if c = CHR ''('' \<and> d = CHR '')'' then rest else s
           | [] \<Rightarrow> s)
      | [] \<Rightarrow> s)"

definition strtod_hex :: "bool \<Rightarrow> string \<Rightarrow> (f64 \<times> bool \<times> string) option" where
  "strtod_hex negative body =
     (case scan_mantissa is_hex_digit body of
        (digits, fractional, rest) \<Rightarrow>
          if digits = [] then None
          else case scan_exponent CHR ''p'' rest of
            (e, rest) \<Rightarrow>
              (case strtod_finite negative (of_int (parse_hex digits) * 2 powi (e - 4 * int fractional)) of
                 (x, range_error) \<Rightarrow> Some (x, range_error, rest)))"

definition strtod_decimal :: "bool \<Rightarrow> string \<Rightarrow> (f64 \<times> bool \<times> string) option" where
  "strtod_decimal negative body =
     (case scan_mantissa is_digit body of
        (digits, fractional, rest) \<Rightarrow>
          if digits = [] then None
          else case scan_exponent CHR ''e'' rest of
            (e, rest) \<Rightarrow>
              (case strtod_finite negative (of_int (parse_decimal digits) * 10 powi (e - int fractional)) of
                 (x, range_error) \<Rightarrow> Some (x, range_error, rest)))"

definition strtod :: "string \<Rightarrow> f64 \<times> bool \<times> string" where
  "strtod s =
     (let (negative, body) = scan_sign (dropWhile is_space s)
      in if has_prefix ''infinity'' body then (if negative then NegInf else PosInf, False, drop 8 body)
         else if has_prefix ''inf'' body then (if negative then NegInf else PosInf, False, drop 3 body)
         else if has_prefix ''nan'' body then (NaN, False, scan_nan_tag (drop 3 body))
         else
           let hex = (if has_prefix ''0x'' body then strtod_hex negative (drop 2 body) else None)
           in case hex of
                Some r \<Rightarrow> r
              | None \<Rightarrow> (case strtod_decimal negative body of
                   Some r \<Rightarrow> r | None \<Rightarrow> (Fin 0, False, s)))"

definition parse_double :: "string \<Rightarrow> f64 option" where
  "parse_double s =
     (if s = [] then None
      else case strtod (c_str s) of
        (value, range_error, rest) \<Rightarrow> if range_error \<or> rest \<noteq> [] then None else Some value)"

section \<open>Splitting and the ready file\<close>

definition split_step :: "char \<Rightarrow> string list \<times> string \<Rightarrow> char \<Rightarrow> string list \<times> string" where
  "split_step separator st c =
     (case st of (out, current) \<Rightarrow>
       if c = separator then (out @ [current], []) else (out, current @ [c]))"

definition split_text :: "string \<Rightarrow> char \<Rightarrow> string list" where
  "split_text s separator =
     (case foldl (split_step separator) ([], []) s of (out, current) \<Rightarrow> out @ [current])"

text \<open>
  Opening with \<^verbatim>\<open>trunc\<close> empties the file before the content is written: every state the file
  passes through. \<open>opened\<close> and \<open>written\<close> are what opening and writing achieve.
\<close>

definition write_ready_file ::
  "string \<Rightarrow> bool \<Rightarrow> nat \<Rightarrow> u8 list \<Rightarrow> files \<Rightarrow> bool \<times> files list" where
  "write_ready_file path opened written content fs =
     (if path = [] then (True, [fs])
      else if \<not> opened then (False, [fs])
      else
        let n = min written (length content)
        in (n = length content, fs # write_states path content n fs))"

section \<open>Laws\<close>

lemma hex_digits_value: "n < 16 \<Longrightarrow> hex_value (kHexDigits ! n) = Some n"
proof -
  have "list_all (\<lambda>n. hex_value (kHexDigits ! n) = Some n) [0..<16]" by code_simp
  then show "n < 16 \<Longrightarrow> ?thesis" by (simp add: list_all_iff del: upt_rec_numeral)
qed

lemma of_nat_unat_id: "of_nat (unat b) = (b :: u8)"
  by simp

lemma low_nibble_mask: "(0x0F :: u8) = mask 4"
  by (simp add: mask_eq_exp_minus_1)

lemma nibble_low: "unat (b AND 0x0F :: u8) < 16"
  using word_and_le1 [of b "0x0F"] by (simp add: word_le_nat_alt)

lemma nibbles_join: "push_bit 4 (drop_bit 4 b AND 0x0F) OR (b AND 0x0F) = (b :: u8)"
  unfolding low_nibble_mask by (rule bit_word_eqI) (auto simp: bit_simps)

lemma from_hex_pairs_byte: "from_hex_pairs (hex_byte b @ s) = map_option ((#) b) (from_hex_pairs s)"
  by (simp only: hex_byte_def append_Cons append_Nil from_hex_pairs.simps
      hex_digits_value [OF nibble_low] prod.case option.case of_nat_unat_id nibbles_join)

lemma hex_length: "length (to_hex bs) = 2 * length bs"
  by (induction bs) (simp_all add: to_hex_def hex_byte_def)

lemma hex_round_trip: "from_hex (to_hex bs) = Some bs"
proof -
  have "from_hex_pairs (to_hex bs) = Some bs"
    by (induction bs) (simp_all add: to_hex_def from_hex_pairs_byte)
  then show ?thesis by (simp add: from_hex_def hex_length)
qed

lemma digit_chars_are_digits: "set s \<subseteq> set ''0123456789'' \<Longrightarrow> c \<in> set s \<Longrightarrow> is_digit c"
  by (auto simp: is_digit_def char_between_def)

lemma digit_is_not_special:
  "is_digit c \<Longrightarrow> \<not> is_space c \<and> c \<noteq> CHR ''-'' \<and> c \<noteq> CHR ''+'' \<and> c \<noteq> CHR 0x00"
  by (auto simp: is_digit_def is_space_def char_between_def)

lemma decimal_nonempty: "decimal n \<noteq> []"
  by (subst decimal.simps) simp

lemma strtoull_decimal:
  assumes "0 \<le> n" "n < 2 ^ 64"
  shows "strtoull (decimal n) = (of_int n, False, [])"
proof -
  have digits: "\<forall>c \<in> set (decimal n). is_digit c"
    using decimal_digits [OF assms(1)] digit_chars_are_digits by blast
  obtain c rest where cs: "decimal n = c # rest" by (metis decimal_nonempty neq_Nil_conv)
  then have "scan_sign (dropWhile is_space (decimal n)) = (False, decimal n)"
    using digits digit_is_not_special [of c] by (simp add: scan_sign_def)
  moreover have "takeWhile is_digit (decimal n) = decimal n" "dropWhile is_digit (decimal n) = []"
    using digits by (simp_all add: takeWhile_eq_all_conv)
  ultimately show ?thesis
    using assms by (simp add: strtoull_def Let_def parse_decimal_decimal decimal_nonempty
        del: takeWhile_eq_all_conv)
qed

lemma parse_u64_decimal: "parse_u64 (unsigned_decimal v) = Some v"
proof -
  have v: "0 \<le> uint v" "uint v < 2 ^ 64" using uint_lt2p [of v] by simp_all
  have "c_str (decimal (uint v)) = decimal (uint v)"
    unfolding c_str_def takeWhile_eq_all_conv
    using decimal_digits [OF v(1)] digit_chars_are_digits digit_is_not_special by blast
  then show ?thesis
    using strtoull_decimal [OF v] decimal_nonempty
    by (simp add: parse_u64_def unsigned_decimal_def)
qed

text \<open>\<^verbatim>\<open>strtoull\<close> negates a number with a minus sign modulo 2 to the 64 and reports no error.\<close>

lemma parse_u64_minus: "parse_u64 (CHR ''-'' # unsigned_decimal v) = Some (- v)"
proof -
  have v: "0 \<le> uint v" "uint v < 2 ^ 64" using uint_lt2p [of v] by simp_all
  have digits: "\<forall>c \<in> set (decimal (uint v)). is_digit c"
    using decimal_digits [OF v(1)] digit_chars_are_digits by blast
  have c: "c_str (CHR ''-'' # decimal (uint v)) = CHR ''-'' # decimal (uint v)"
    using digits digit_is_not_special by (simp add: c_str_def takeWhile_eq_all_conv)
  have "scan_sign (dropWhile is_space (CHR ''-'' # decimal (uint v))) = (True, decimal (uint v))"
    by (simp add: scan_sign_def is_space_def char_between_def)
  moreover have "takeWhile is_digit (decimal (uint v)) = decimal (uint v)"
      "dropWhile is_digit (decimal (uint v)) = []"
    using digits by (simp_all add: takeWhile_eq_all_conv)
  ultimately have "strtoull (CHR ''-'' # decimal (uint v)) = (- v, False, [])"
    using v by (simp add: strtoull_def Let_def parse_decimal_decimal decimal_nonempty
        del: takeWhile_eq_all_conv)
  then show ?thesis using c by (simp add: parse_u64_def unsigned_decimal_def)
qed

text \<open>An integer that fits the significand is read back exactly as a \<^verbatim>\<open>double\<close>.\<close>

lemma digits_have_no_prefix:
  assumes "\<forall>c \<in> set s. is_digit c" "\<exists>c \<in> set p. \<not> is_digit c"
  shows "\<not> has_prefix p s"
proof
  assume "has_prefix p s"
  then have "set p = lower_case ` set (take (length p) s)" by (metis has_prefix_def set_map)
  moreover have "is_digit c \<Longrightarrow> lower_case c = c" for c
    by (auto simp: lower_case_def is_digit_def char_between_def)
  ultimately show False using assms by (metis imageE in_set_takeD)
qed

lemma parse_double_decimal:
  assumes "0 \<le> n" "n \<le> 2 ^ 53"
  shows "parse_double (decimal n) = Some (Fin (of_int n))"
proof -
  have digits: "\<forall>c \<in> set (decimal n). is_digit c"
    using decimal_digits [OF assms(1)] digit_chars_are_digits by blast
  obtain c rest where cs: "decimal n = c # rest" by (metis decimal_nonempty neq_Nil_conv)
  have sign: "scan_sign (dropWhile is_space (decimal n)) = (False, decimal n)"
    using digits digit_is_not_special [of c] cs by (simp add: scan_sign_def)
  have no_prefix: "\<not> has_prefix ''infinity'' (decimal n)" "\<not> has_prefix ''inf'' (decimal n)"
      "\<not> has_prefix ''nan'' (decimal n)" "\<not> has_prefix ''0x'' (decimal n)"
    by (rule digits_have_no_prefix [OF digits], simp add: is_digit_def char_between_def)+
  have whole: "takeWhile is_digit (decimal n) = decimal n" "dropWhile is_digit (decimal n) = []"
    using digits by (simp_all add: takeWhile_eq_all_conv)
  have mantissa: "scan_mantissa is_digit (decimal n) = (decimal n, 0, [])"
    by (simp add: scan_mantissa_def Let_def whole del: takeWhile_eq_all_conv dropWhile_eq_Nil_conv)
  have "rne (of_int n) = Fin (of_int n)" using assms rne_of_int [of n] by simp
  then have finite: "strtod_finite False (of_int n) = (Fin (of_int n), False)"
    by (simp add: strtod_finite_def)
  have "strtod_decimal False (decimal n) = Some (Fin (of_int n), False, [])"
    by (simp add: strtod_decimal_def mantissa decimal_nonempty scan_exponent_def
        parse_decimal_decimal [OF assms(1)] finite)
  then have "strtod (decimal n) = (Fin (of_int n), False, [])"
    by (simp add: strtod_def sign no_prefix)
  moreover have "c_str (decimal n) = decimal n"
    unfolding c_str_def takeWhile_eq_all_conv using digits digit_is_not_special by blast
  ultimately show ?thesis by (simp add: parse_double_def decimal_nonempty)
qed

text \<open>The number of parts is one more than the number of separators, and joining restores the text.\<close>

lemma split_step_simp:
  "split_step c (out, current) x = (if x = c then (out @ [current], []) else (out, current @ [x]))"
  by (simp add: split_step_def)

lemma split_fold:
  "foldl (split_step c) (out, current) s = (out', current') \<Longrightarrow>
     concat (map (\<lambda>p. p @ [c]) out') @ current' = concat (map (\<lambda>p. p @ [c]) out) @ current @ s \<and>
     length out' = length out + count_list s c"
proof (induction s arbitrary: out current)
  case (Cons x s)
  show ?case
  proof (cases "x = c")
    case True
    then have "foldl (split_step c) (out @ [current], []) s = (out', current')"
      using Cons.prems by (simp add: split_step_simp)
    note ih = Cons.IH [OF this]
    show ?thesis
    proof
      show "concat (map (\<lambda>p. p @ [c]) out') @ current' =
          concat (map (\<lambda>p. p @ [c]) out) @ current @ x # s"
        using ih [THEN conjunct1] True by simp
      show "length out' = length out + count_list (x # s) c"
        using ih [THEN conjunct2] True by simp
    qed
  next
    case False
    then have "foldl (split_step c) (out, current @ [x]) s = (out', current')"
      using Cons.prems by (simp add: split_step_simp)
    note ih = Cons.IH [OF this]
    show ?thesis
    proof
      show "concat (map (\<lambda>p. p @ [c]) out') @ current' =
          concat (map (\<lambda>p. p @ [c]) out) @ current @ x # s"
        using ih [THEN conjunct1] by simp
      show "length out' = length out + count_list (x # s) c"
        using ih [THEN conjunct2] False by simp
    qed
  qed
qed simp

lemma split_fold_clean:
  "foldl (split_step c) (out, current) s = (out', current') \<Longrightarrow>
     c \<notin> \<Union> (set ` set (current # out)) \<Longrightarrow> c \<notin> \<Union> (set ` set (current' # out'))"
proof (induction s arbitrary: out current)
  case (Cons x s)
  show ?case
  proof (cases "x = c")
    case True
    then have "foldl (split_step c) (out @ [current], []) s = (out', current')"
      using Cons.prems by (simp add: split_step_simp)
    then show ?thesis by (rule Cons.IH) (use Cons.prems(2) in simp)
  next
    case False
    then have "foldl (split_step c) (out, current @ [x]) s = (out', current')"
      using Cons.prems by (simp add: split_step_simp)
    then show ?thesis by (rule Cons.IH) (use Cons.prems(2) False in simp)
  qed
qed simp

lemma split_text_joins:
  "concat (map (\<lambda>p. p @ [c]) (butlast (split_text s c))) @ last (split_text s c) = s \<and>
   length (split_text s c) = Suc (count_list s c) \<and> (\<forall>p \<in> set (split_text s c). c \<notin> set p)"
proof -
  obtain out current where f: "foldl (split_step c) ([], []) s = (out, current)" by fastforce
  have "c \<notin> \<Union> (set ` set (current # out))" by (rule split_fold_clean [OF f]) simp
  moreover have "concat (map (\<lambda>p. p @ [c]) out) @ current = s" "length out = count_list s c"
    using split_fold [OF f] by simp_all
  ultimately show ?thesis by (simp add: split_text_def f)
qed

end
