(* ===== verification/Explanation.thy ===== *)
theory Explanation
  imports Codes "HOL-Library.Sublist"
begin

text \<open>
  \<^verbatim>\<open>explanation.cpp\<close> and the governor's \<^verbatim>\<open>explain\<close> and \<^verbatim>\<open>explain_admission\<close>: the sections an
  explanation is built from, their fixed order, and the bounded rendering. The look-ups and the
  summary of \<^verbatim>\<open>snapshot.cpp\<close> and the remaining renderings (\<^verbatim>\<open>capability.cpp\<close>, \<^verbatim>\<open>throttle.cpp\<close>)
  are here too.
\<close>

section \<open>Sections and the bounded rendering\<close>

type_synonym explanation_line = "string \<times> string"

record explanation_section =
  xs_title :: string
  xs_lines :: "explanation_line list"
  xs_bullets :: "string list"

type_synonym explanation = "explanation_section list"

definition kMaxRenderedBytes :: nat where
  "kMaxRenderedBytes = 256 * 1024"

text \<open>A text that would pass the bound is left out; the ones after it are still tried.\<close>

definition append_bounded :: "string \<Rightarrow> string \<Rightarrow> string" where
  "append_bounded out piece =
     (if kMaxRenderedBytes < length out + length piece then out else out @ piece)"

definition section_pieces :: "explanation_section \<Rightarrow> string list" where
  "section_pieces s =
     [xs_title s, '':'' @ nl] @
     concat (map (\<lambda>(key, value). [key, '': '', value, nl]) (xs_lines s)) @
     concat (map (\<lambda>b. [''  - '', b, nl]) (xs_bullets s))"

fun explanation_pieces :: "explanation \<Rightarrow> string list" where
  "explanation_pieces [] = []"
| "explanation_pieces (s # rest) =
     section_pieces s @ concat (map (\<lambda>s. nl # section_pieces s) rest)"

definition render_explanation :: "explanation \<Rightarrow> string" where
  "render_explanation e = foldl append_bounded [] (explanation_pieces e)"

section \<open>The sections\<close>

definition explanation_section :: "string \<Rightarrow> explanation_line list \<Rightarrow> string list \<Rightarrow> explanation_section"
  where
  "explanation_section title ls bullets = \<lparr>xs_title = title, xs_lines = ls, xs_bullets = bullets\<rparr>"

definition domain_section :: "evaluation \<Rightarrow> domain_definition option \<Rightarrow> explanation_section" where
  "domain_section ev def =
     explanation_section ''Thermal domain''
       ([(''Label'', case def of
            Some d \<Rightarrow> if dd_label d \<noteq> [] then dd_label d else ''<unlabelled>''
          | None \<Rightarrow> ''<unlabelled>''),
         (''ThermalDomainId'', unsigned_decimal (te_domain ev)),
         (''ThermalDomainGeneration'', unsigned_decimal (te_domain_generation ev)),
         (''ThermalDomainType'', case def of
            Some d \<Rightarrow> to_string_domain_type (dd_type d) | None \<Rightarrow> ''<unknown>'')] @
        (case def of
           Some d \<Rightarrow> if dd_evidence_source d \<noteq> [] then [(''EvidenceSource'', dd_evidence_source d)] else []
         | None \<Rightarrow> [])) []"

definition temperature_section :: "evaluation \<Rightarrow> thermal_policy \<Rightarrow> explanation_section" where
  "temperature_section ev policy =
     (let h = te_headroom ev; t = pol_thresholds policy
      in explanation_section ''Temperature''
        [(''Current'', number (hb_current_temperature h)),
         (''Warning'', number (th_warning t)),
         (''NearLimitStart'', number (near_limit_start t)),
         (''Derating'', number (th_derating t)),
         (''Critical'', number (th_critical t)),
         (''Recovery'', number (th_recovery t)),
         (''VendorLimit'', case hb_vendor_limit h of Some v \<Rightarrow> number v | None \<Rightarrow> ''<unsupported>''),
         (''GoverningLimit'', number (hb_governing_limit h))] [])"

definition headroom_section :: "evaluation \<Rightarrow> explanation_section" where
  "headroom_section ev =
     (let h = te_headroom ev
      in explanation_section ''Headroom''
        [(''RawHeadroom'', number (hb_raw_headroom h)),
         (''PolicySafetyMargin'', number (hb_policy_safety_margin h)),
         (''UncertaintyMargin'', number (hb_uncertainty_margin h)),
         (''EffectiveHeadroom'', number (hb_effective_headroom h)),
         (''RecoveryMargin'', number (hb_recovery_margin h))] [])"

definition state_section :: "evaluation \<Rightarrow> explanation_section" where
  "state_section ev =
     explanation_section ''Thermal state''
       [(''State'', to_string_thermal_state (te_state ev)),
        (''Derating'', to_string_derating_level (te_derating ev)),
        (''Decision'', to_string_thermal_decision (te_decision ev)),
        (''RetainedByHysteresis'', bool_text (te_retained_by_hysteresis ev))] []"

definition throttle_section :: "evaluation \<Rightarrow> explanation_section" where
  "throttle_section ev =
     explanation_section ''Throttle'' [(''Classification'', to_string_throttle_class (te_throttle_class ev))] []"

definition intent_bullet :: "intent_record \<Rightarrow> string" where
  "intent_bullet r = to_string_mitigation_intent (ir_intent r) @
     (if ir_rationale r \<noteq> [] then '' - '' @ ir_rationale r else [])"

definition restrictions_section :: "evaluation \<Rightarrow> explanation_section" where
  "restrictions_section ev =
     explanation_section ''Restrictions''
       ([(''PermittedConcurrency'', number (te_permitted_concurrency ev)),
         (''PermittedExecutionClass'', to_string_execution_class (te_permitted_execution_class ev)),
         (''PermittedWorkloadIntensity'', number (te_permitted_workload_intensity ev))] @
        (case te_permitted_clock_ceiling ev of
           Some c \<Rightarrow> [(''PermittedClockCeilingMHz'', unsigned_decimal (ucast c))] | None \<Rightarrow> []))
       (map intent_bullet (te_intents ev))"

text \<open>The sort is stable and its key is the underlying value of the candidate.\<close>

definition rejected_section :: "evaluation \<Rightarrow> explanation_section" where
  "rejected_section ev =
     explanation_section ''Rejected'' []
       (map (\<lambda>(candidate, reason). to_string_derating_level candidate @ '' - '' @ to_string_reason_code reason)
         (sort_key (\<lambda>(candidate, _). enum_code all_derating_levels candidate) (te_rejected ev)))"

definition recovery_section :: "evaluation \<Rightarrow> explanation_section" where
  "recovery_section ev =
     (let r = te_recovery ev
      in explanation_section ''Recovery''
        [(''Allowed'', bool_text (ra_allowed r)),
         (''RecoveryThreshold'', number (ra_recovery_threshold r)),
         (''QualifyingSamples'', unsigned_decimal (ucast (ra_qualifying_samples r)) @ ''/'' @
            unsigned_decimal (ucast (ra_required_samples r))),
         (''QualifyingSpanMs'', millis_text (ra_qualifying_span r) @ ''/'' @ millis_text (ra_required_span r)),
         (''TemperatureBelowThreshold'', bool_text (ra_temperature_below_threshold r)),
         (''HeadroomSatisfied'', bool_text (ra_headroom_requirement_satisfied r)),
         (''ThrottleClear'', bool_text (ra_throttle_clear r)),
         (''GenerationBindingOk'', bool_text (ra_generation_binding_ok r)),
         (''CoupledDomainsSatisfied'', bool_text (ra_coupled_domains_satisfied r)),
         (''Reasons'', render_reasons (ra_blocking_reasons r))] [])"

definition authority_section :: "evaluation \<Rightarrow> explanation_section" where
  "authority_section ev =
     explanation_section ''Authority''
       [(''CoordinatorEpoch'', unsigned_decimal (te_coordinator_epoch ev)),
        (''ThermalPolicyGeneration'', unsigned_decimal (te_policy_generation ev)),
        (''TelemetryGeneration'', unsigned_decimal (te_telemetry_generation ev)),
        (''ThermalDomainGeneration'', unsigned_decimal (te_domain_generation ev)),
        (''CapabilityGeneration'', unsigned_decimal (te_capability_generation ev)),
        (''TopologyGeneration'', unsigned_decimal (te_topology_generation ev))] []"

text \<open>The envelope argument is ignored, and the domain section is given no definition.\<close>

definition build_explanation :: "evaluation \<Rightarrow> envelope \<Rightarrow> thermal_policy \<Rightarrow> explanation" where
  "build_explanation ev env policy =
     [domain_section ev None, temperature_section ev policy, headroom_section ev, throttle_section ev,
      state_section ev, restrictions_section ev, rejected_section ev, recovery_section ev,
      explanation_section ''Reasons''
        [(''Codes'', render_reasons (te_reasons ev)),
         (''Provenance'', to_string_provenance (te_provenance ev))] [],
      authority_section ev]"

definition build_admission_explanation :: "admission_result \<Rightarrow> thermal_policy \<Rightarrow> explanation" where
  "build_admission_explanation a policy =
     [explanation_section ''Thermal admission''
        [(''Decision'', to_string_admission_decision (ad_decision a)),
         (''ThermalDomainId'', unsigned_decimal (ad_domain a)),
         (''ThermalDomainGeneration'', unsigned_decimal (ad_domain_generation a)),
         (''WorkloadProfile'', to_string_workload_profile (ad_profile a))] [],
      explanation_section ''Thermal state''
        [(''State'', to_string_thermal_state (ad_state a)),
         (''Derating'', to_string_derating_level (ad_derating a))] [],
      explanation_section ''Headroom''
        [(''GoverningLimit'', number (ad_governing_limit a)),
         (''CurrentTemperature'', number (ad_current_temperature a)),
         (''EffectiveHeadroom'', number (ad_effective_headroom a)),
         (''RequiredHeadroom'', number (ad_required_headroom a))] [],
      explanation_section ''Restrictions''
        [(''PermittedConcurrency'', number (ad_permitted_concurrency a)),
         (''PermittedExecutionClass'', to_string_execution_class (ad_permitted_class a)),
         (''PermittedClockCeilingMHz'', case ad_permitted_clock_ceiling a of
            Some c \<Rightarrow> unsigned_decimal (ucast c) | None \<Rightarrow> ''<unconstrained>'')]
        (map intent_bullet (ad_constraints a)),
      explanation_section ''Reasons'' [(''Codes'', render_reasons (ad_reasons a))] [],
      explanation_section ''Authority''
        [(''CoordinatorEpoch'', unsigned_decimal (ad_coordinator_epoch a)),
         (''ThermalPolicyGeneration'', unsigned_decimal (ad_policy_generation a)),
         (''TelemetryGeneration'', unsigned_decimal (ad_telemetry_generation a)),
         (''CapabilityGeneration'', unsigned_decimal (ad_capability_generation a)),
         (''TopologyGeneration'', unsigned_decimal (ad_topology_generation a))] []]"

definition build_recovery_explanation :: "recovery_assessment \<Rightarrow> thermal_policy \<Rightarrow> explanation" where
  "build_recovery_explanation r policy =
     [explanation_section ''Recovery''
        [(''Allowed'', bool_text (ra_allowed r)),
         (''RecoveryThreshold'', number (ra_recovery_threshold r)),
         (''RecoveryMargin'', number (ra_recovery_margin r)),
         (''CurrentTemperature'', number (ra_current_temperature r)),
         (''EffectiveHeadroom'', number (ra_effective_headroom r)),
         (''QualifyingSamples'', unsigned_decimal (ucast (ra_qualifying_samples r)) @ ''/'' @
            unsigned_decimal (ucast (ra_required_samples r))),
         (''QualifyingSpanMs'', millis_text (ra_qualifying_span r) @ ''/'' @ millis_text (ra_required_span r)),
         (''DistinctWitnesses'', unsigned_decimal (of_nat (ra_distinct_witnesses r)) @ ''/'' @
            unsigned_decimal (of_nat (ra_required_witnesses r))),
         (''TemperatureBelowThreshold'', bool_text (ra_temperature_below_threshold r)),
         (''HeadroomSatisfied'', bool_text (ra_headroom_requirement_satisfied r)),
         (''ThrottleClear'', bool_text (ra_throttle_clear r)),
         (''GenerationBindingOk'', bool_text (ra_generation_binding_ok r)),
         (''CoupledDomainsSatisfied'', bool_text (ra_coupled_domains_satisfied r)),
         (''ExplicitAuthorization'', bool_text (ra_explicit_authorization_present r)),
         (''Reasons'', render_reasons (ra_blocking_reasons r))] []]"

section \<open>The governor's explanations\<close>

text \<open>
  \<^verbatim>\<open>explain\<close> dereferences \<^verbatim>\<open>policy_for\<close> without a test; \<open>explained_domain_has_policy\<close> below shows that it is
  never null there.
\<close>

definition explain :: "time_ns \<Rightarrow> ident \<Rightarrow> governor \<Rightarrow> explanation result \<times> governor" where
  "explain now domain g =
     (case evaluate_domain now domain g of
        (Inl e, g) \<Rightarrow> (Inl e, g)
      | (Inr ev, g) \<Rightarrow>
        (case query_envelope domain g of
           Inl e \<Rightarrow> (Inl e, g)
         | Inr env \<Rightarrow>
           (case registry_find (g_domains g) domain of
              None \<Rightarrow> (Inl E_UNKNOWN_DOMAIN, g)
            | Some d \<Rightarrow> (Inr (build_explanation ev env (the (policy_for g d))), g))))"

text \<open>\<^verbatim>\<open>ThermalPolicy{}\<close>, the member initialisers alone.\<close>

definition blank_policy :: thermal_policy where
  "blank_policy =
     make_default \<lparr>pol_label := [], pol_allowed_intents := 0, pol_workload_restrictions := []\<rparr>"

definition explain_admission ::
  "time_ns \<Rightarrow> admission_request \<Rightarrow> governor \<Rightarrow> explanation result" where
  "explain_admission now rq g =
     (case evaluate_admission now rq g of
        Inl e \<Rightarrow> Inl e
      | Inr a \<Rightarrow>
        (case registry_find (g_domains g) (rq_domain rq) of
           None \<Rightarrow> Inl E_UNKNOWN_DOMAIN
         | Some d \<Rightarrow> Inr (build_admission_explanation a
             (case policy_for g d of Some p \<Rightarrow> p | None \<Rightarrow> blank_policy))))"

section \<open>Snapshot look-ups and the other renderings\<close>

definition snapshot_find_domain :: "governance_snapshot \<Rightarrow> ident \<Rightarrow> domain_snapshot option" where
  "snapshot_find_domain s i = map_of (gs_domains s) i"

definition snapshot_find_device :: "governance_snapshot \<Rightarrow> ident \<Rightarrow> device_snapshot option" where
  "snapshot_find_device s i = map_of (gs_devices s) i"

definition snapshot_find_worker :: "governance_snapshot \<Rightarrow> ident \<Rightarrow> worker_snapshot option" where
  "snapshot_find_worker s i = map_of (gs_workers s) i"

definition snapshot_find_action :: "governance_snapshot \<Rightarrow> ident \<Rightarrow> thermal_action option" where
  "snapshot_find_action s i = map_of (gs_actions s) i"

definition snapshot_find_policy :: "governance_snapshot \<Rightarrow> ident \<Rightarrow> thermal_policy option" where
  "snapshot_find_policy s i = map_of (gs_policies s) i"

definition render_summary :: "governance_snapshot \<Rightarrow> string" where
  "render_summary s =
     id_line ''CoordinatorId'' (gs_coordinator s) @
     id_line ''CoordinatorEpoch'' (gs_coordinator_epoch s) @
     id_line ''ThermalPolicyGeneration'' (gs_policy_generation s) @
     id_line ''TopologyGeneration'' (gs_topology_generation s) @
     id_line ''CapabilityGeneration'' (gs_capability_generation s) @
     id_line ''Domains'' (of_nat (length (gs_domains s))) @
     id_line ''Devices'' (of_nat (length (gs_devices s))) @
     id_line ''Workers'' (of_nat (length (gs_workers s))) @
     id_line ''Actions'' (of_nat (length (gs_actions s))) @
     id_line ''HistoricalTransitions'' (of_nat (gs_historical_transitions s)) @
     id_line ''HistoricalActions'' (of_nat (gs_historical_actions s)) @
     id_line ''HistoricalVerifications'' (of_nat (gs_historical_verifications s)) @
     id_line ''Policies'' (of_nat (length (gs_policies s))) @
     id_line ''Couplings'' (of_nat (length (gs_couplings s)))"

definition render_capability :: "capability_set \<Rightarrow> thermal_capability \<Rightarrow> string" where
  "render_capability cs c =
     (let i = thermal_capability_value c; detail = cap_details cs ! i
      in to_string_thermal_capability c @ '': '' @ to_string_capability_state (cap_states cs ! i) @
         (if detail \<noteq> [] then '' ('' @ detail @ '')'' else []))"

definition render_capabilities :: "capability_set \<Rightarrow> string" where
  "render_capabilities cs =
     foldl (\<lambda>out c. out @ (if out \<noteq> [] then nl else []) @ render_capability cs c) [] all_thermal_capabilities"

definition kReasonNames :: "(nat \<times> string) list" where
  "kReasonNames =
     [(0, ''GPU_IDLE''), (1, ''APPLICATIONS_CLOCKS_SETTING''), (2, ''SW_POWER_CAP''),
      (3, ''HW_SLOWDOWN''), (4, ''SYNC_BOOST''), (5, ''SW_THERMAL_SLOWDOWN''),
      (6, ''HW_THERMAL_SLOWDOWN''), (7, ''HW_POWER_BRAKE_SLOWDOWN''), (8, ''DISPLAY_CLOCK_SETTING''),
      (9, ''THERMAL_SENSOR_SLOWDOWN''), (10, ''BOARD_LIMIT''), (11, ''RELIABILITY''),
      (63, ''UNKNOWN_REASON'')]"

definition render_throttle_reasons :: "throttle_observation \<Rightarrow> string" where
  "render_throttle_reasons t =
     (let out = foldl (\<lambda>out (k, name).
            if thr_raw t AND push_bit k 1 = 0 then out
            else out @ (if out \<noteq> [] then '','' else []) @ name) [] kReasonNames
      in if out = [] then ''NONE'' else out)"

definition build_identity :: string where
  "build_identity = ''thermal-governor/'' @ ''1.0.0''"

section \<open>The rendering is bounded\<close>

lemma append_bounded_length:
  "length out \<le> kMaxRenderedBytes \<Longrightarrow> length (append_bounded out piece) \<le> kMaxRenderedBytes"
  by (simp add: append_bounded_def)

lemma foldl_append_bounded_length:
  "length out \<le> kMaxRenderedBytes \<Longrightarrow> length (foldl append_bounded out pieces) \<le> kMaxRenderedBytes"
  by (induction pieces arbitrary: out) (simp_all add: append_bounded_length)

text \<open>Below the bound nothing is left out.\<close>

lemma foldl_append_bounded_full:
  "length out + length (concat pieces) \<le> kMaxRenderedBytes \<Longrightarrow>
     foldl append_bounded out pieces = out @ concat pieces"
proof (induction pieces arbitrary: out)
  case (Cons piece pieces)
  then have "append_bounded out piece = out @ piece" by (simp add: append_bounded_def)
  then show ?case using Cons by simp
qed simp

text \<open>Beyond it, whole pieces are left out; the ones that remain keep their order.\<close>

lemma foldl_append_bounded_subseq:
  "\<exists>kept. subseq kept pieces \<and> foldl append_bounded out pieces = out @ concat kept"
proof (induction pieces arbitrary: out)
  case Nil
  show ?case by (intro exI [of _ "[]"]) simp
next
  case (Cons piece pieces)
  show ?case
  proof (cases "kMaxRenderedBytes < length out + length piece")
    case True
    then show ?thesis using Cons [of out] by (auto simp: append_bounded_def)
  next
    case False
    from Cons [of "out @ piece"] obtain kept where
      "subseq kept pieces" "foldl append_bounded (out @ piece) pieces = (out @ piece) @ concat kept"
      by blast
    moreover have "append_bounded out piece = out @ piece" using False by (simp add: append_bounded_def)
    ultimately show ?thesis by (intro exI [of _ "piece # kept"]) simp
  qed
qed

section \<open>The policy of an explained domain\<close>

lemma evaluate_domain_frame:
  "snd (evaluate_domain now domain g) = g' \<Longrightarrow>
     g_domains g' = g_domains g \<and> g_policies g' = g_policies g"
  by (auto simp: evaluate_domain_def record_transition_def Let_def split: option.splits sum.splits if_splits)

lemma explained_domain_has_policy:
  assumes "evaluate_domain now domain g = (Inr ev, g')" "registry_find (g_domains g') domain = Some d"
  shows "policy_for g' d \<noteq> None"
proof -
  have frame: "g_domains g' = g_domains g" "g_policies g' = g_policies g"
    using evaluate_domain_frame [of now domain g g'] assms(1) by simp_all
  then have "registry_find (g_domains g) domain = Some d" using assms(2) by simp
  then obtain ev where "evaluate_locked g now d = Inr ev"
    using assms(1) by (auto simp: evaluate_domain_def split: sum.splits)
  then have "policy_for g d \<noteq> None" by (auto simp: evaluate_locked_def split: option.splits)
  then show ?thesis by (simp add: policy_for_def frame split: option.splits)
qed

end
