(* ===== verification/Verbs.thy ===== *)
theory Verbs
  imports Session Explanation Wire
begin

text \<open>
  \<^verbatim>\<open>CoordinatorSession\<close> of \<^verbatim>\<open>tools/tg_coordinator.cpp\<close>: the text commands a client sends and what
  each does to the governor, to the durable file and to the reply. The detail texts of error
  replies are not modelled, only their codes.
\<close>

section \<open>The session and its surroundings\<close>

text \<open>
  \<open>vx_now k\<close> is what the clock reads at the \<open>k\<close>-th governor call of a request, \<open>vx_save\<close> and
  \<open>vx_index\<close> the outcome and the temporary file number of its save, \<open>vx_nan\<close> how
  \<^verbatim>\<open>std::to_string\<close> prints a NaN (its sign is not part of \<open>f64\<close>).
\<close>

record verb_context =
  vx_now :: "nat \<Rightarrow> time_ns"
  vx_save :: save_outcome
  vx_index :: u64
  vx_nan :: string

record coordinator =
  co_governor :: governor
  co_files :: files
  co_state_path :: string

record reply =
  rep_code :: error_code
  rep_payload :: string

definition reply_ok :: "string \<Rightarrow> reply" where
  "reply_ok s = \<lparr>rep_code = E_NONE, rep_payload = s\<rparr>"

definition reply_fail :: "error_code \<Rightarrow> reply" where
  "reply_fail e = \<lparr>rep_code = e, rep_payload = []\<rparr>"

text \<open>
  The reply and the session after it; \<open>None\<close> when the request reads past the end of the argument
  vector or through a null snapshot, where the program has no defined behaviour.
\<close>

type_synonym verb_outcome = "reply option \<times> coordinator"

definition rejected :: "error_code \<Rightarrow> coordinator \<Rightarrow> verb_outcome" where
  "rejected e c = (Some (reply_fail e), c)"

definition answered :: "string result \<Rightarrow> coordinator \<Rightarrow> verb_outcome" where
  "answered r c = (Some (case r of Inl e \<Rightarrow> reply_fail e | Inr s \<Rightarrow> reply_ok s), c)"

definition undefined_behaviour :: "coordinator \<Rightarrow> verb_outcome" where
  "undefined_behaviour c = (None, c)"

text \<open>\<^verbatim>\<open>ThermalGovernor::persist\<close> with the store it writes to.\<close>

definition save_governor :: "verb_context \<Rightarrow> coordinator \<Rightarrow> status \<times> coordinator" where
  "save_governor vx c =
     (case persist (co_governor c) of
        Inl e \<Rightarrow> (Inl e, c)
      | Inr s \<Rightarrow>
        (case store_save default_persistence_limits (cf_durable_path (g_config (co_governor c)))
             (vx_index vx) (vx_save vx) s (co_files c) of
           (r, states) \<Rightarrow> (r, c\<lparr>co_files := last states\<rparr>)))"

definition persist_now :: "verb_context \<Rightarrow> coordinator \<Rightarrow> status \<times> coordinator" where
  "persist_now vx c = (if co_state_path c = [] then (success, c) else save_governor vx c)"

definition acknowledged :: "string \<Rightarrow> status \<times> coordinator \<Rightarrow> verb_outcome" where
  "acknowledged s m =
     (case m of (Inl e, c) \<Rightarrow> rejected e c | (Inr _, c) \<Rightarrow> answered (Inr s) c)"

text \<open>The common tails: reply after an operation, with or without making it durable first.\<close>

definition reply_after ::
  "('a \<Rightarrow> string) \<Rightarrow> (governor \<Rightarrow> 'a result \<times> governor) \<Rightarrow> coordinator \<Rightarrow> verb_outcome" where
  "reply_after show_value op c =
     (case op (co_governor c) of
        (Inl e, g) \<Rightarrow> rejected e (c\<lparr>co_governor := g\<rparr>)
      | (Inr x, g) \<Rightarrow> answered (Inr (show_value x)) (c\<lparr>co_governor := g\<rparr>))"

definition commit_after ::
  "verb_context \<Rightarrow> ('a \<Rightarrow> string) \<Rightarrow> (governor \<Rightarrow> 'a result \<times> governor) \<Rightarrow> coordinator \<Rightarrow> verb_outcome"
  where
  "commit_after vx show_value op c =
     (case op (co_governor c) of
        (Inl e, g) \<Rightarrow> rejected e (c\<lparr>co_governor := g\<rparr>)
      | (Inr x, g) \<Rightarrow> acknowledged (show_value x) (persist_now vx (c\<lparr>co_governor := g\<rparr>)))"

section \<open>Parsing arguments\<close>

definition parse_typed_member :: "string \<Rightarrow> domain_member option" where
  "parse_typed_member token =
     (case split_text token CHR '':'' of
        [kind, id_text, generation_text] \<Rightarrow>
          (case (parse_u64 id_text, parse_u64 generation_text) of
             (Some i, Some generation) \<Rightarrow>
               if kind = ''d'' then Some \<lparr>dm_subject = for_device i generation, dm_weight = Fin 1\<rparr>
               else if kind = ''n'' then Some \<lparr>dm_subject = for_node i generation, dm_weight = Fin 1\<rparr>
               else if kind = ''r'' then Some \<lparr>dm_subject = for_rack i generation, dm_weight = Fin 1\<rparr>
               else None
           | _ \<Rightarrow> None)
      | [kind, id_text] \<Rightarrow>
          if kind = ''z''
          then map_option (\<lambda>i. \<lparr>dm_subject = for_cooling_zone i, dm_weight = Fin 1\<rparr>) (parse_u64 id_text)
          else None
      | _ \<Rightarrow> None)"

definition parse_domain_type :: "string \<Rightarrow> domain_type option" where
  "parse_domain_type s =
     map_of [(''ACCELERATOR'', DT_ACCELERATOR), (''ACCELERATOR_PARTITION'', DT_ACCELERATOR_PARTITION),
       (''NODE'', DT_NODE), (''CHASSIS'', DT_CHASSIS), (''RACK'', DT_RACK),
       (''COOLING_ZONE'', DT_COOLING_ZONE), (''COUPLED_RESOURCE_GROUP'', DT_COUPLED_RESOURCE_GROUP)] s"

definition parse_aggregation :: "string \<Rightarrow> aggregation_rule option" where
  "parse_aggregation s =
     map_of [(''HOTTEST_MEMBER_GOVERNS'', AR_HOTTEST_MEMBER_GOVERNS),
       (''CONFIGURED_WEIGHTED_RULE'', AR_CONFIGURED_WEIGHTED_RULE),
       (''NODE_SENSOR_GOVERNS'', AR_NODE_SENSOR_GOVERNS),
       (''SYNTHETIC_AGGREGATION'', AR_SYNTHETIC_AGGREGATION)] s"

definition parse_coupling_type :: "string \<Rightarrow> coupling_type option" where
  "parse_coupling_type s =
     map_of [(''UNKNOWN_COUPLING'', CT_UNKNOWN_COUPLING), (''SHARES_CHASSIS'', CT_SHARES_CHASSIS),
       (''SHARES_AIRFLOW_PATH'', CT_SHARES_AIRFLOW_PATH),
       (''SHARES_COOLING_ZONE'', CT_SHARES_COOLING_ZONE), (''SHARES_HEATSINK'', CT_SHARES_HEATSINK),
       (''THERMALLY_COUPLED'', CT_THERMALLY_COUPLED), (''SYNTHETIC_COUPLING'', CT_SYNTHETIC_COUPLING)] s"

definition parse_provenance :: "string \<Rightarrow> provenance option" where
  "parse_provenance s =
     (if s = ''REAL'' then Some P_REAL else if s = ''SYNTHETIC'' then Some P_SYNTHETIC
      else if s = ''UNSUPPORTED'' then Some P_UNSUPPORTED else None)"

definition parse_capability_state :: "string \<Rightarrow> capability_state option" where
  "parse_capability_state s =
     map_of [(''UNKNOWN'', CS_UNKNOWN), (''SUPPORTED_REAL'', CS_SUPPORTED_REAL),
       (''SUPPORTED_READ_ONLY'', CS_SUPPORTED_READ_ONLY), (''SUPPORTED_SYNTHETIC'', CS_SUPPORTED_SYNTHETIC),
       (''UNSUPPORTED'', CS_UNSUPPORTED)] s"

definition parse_intent :: "string \<Rightarrow> mitigation_intent option" where
  "parse_intent s = find (\<lambda>i. s = to_string_mitigation_intent i) all_mitigation_intents"

fun parse_numbers :: "string list \<Rightarrow> u64 list option" where
  "parse_numbers [] = Some []"
| "parse_numbers (s # rest) =
     (case parse_u64 s of None \<Rightarrow> None | Some v \<Rightarrow> map_option ((#) v) (parse_numbers rest))"

fun parse_doubles :: "string list \<Rightarrow> f64 list option" where
  "parse_doubles [] = Some []"
| "parse_doubles (s # rest) =
     (case parse_double s of None \<Rightarrow> None | Some v \<Rightarrow> map_option ((#) v) (parse_doubles rest))"

fun parse_members :: "string list \<Rightarrow> domain_member list option" where
  "parse_members [] = Some []"
| "parse_members (s # rest) =
     (case parse_typed_member s of None \<Rightarrow> None | Some m \<Rightarrow> map_option ((#) m) (parse_members rest))"

section \<open>Read-only verbs\<close>

text \<open>\<^verbatim>\<open>std::to_string(double)\<close>, which is \<^verbatim>\<open>printf("%f")\<close> into a buffer of the right size.\<close>

definition pad6 :: "int \<Rightarrow> string" where
  "pad6 n = pad3 (n div 1000) @ pad3 (n mod 1000)"

definition to_string_double :: "string \<Rightarrow> f64 \<Rightarrow> string" where
  "to_string_double nan_text x =
     (if is_nan x then nan_text
      else if \<not> is_finite x then (if sign_bit x then ''-inf'' else ''inf'')
      else let q = rhe (\<bar>fnum x\<bar> * 1000000)
           in (if sign_bit x then ''-'' else '''') @ decimal (q div 1000000) @ ''.'' @ pad6 (q mod 1000000))"

definition verb_status :: "coordinator \<Rightarrow> verb_outcome" where
  "verb_status c =
     answered (Inr (case g_published (co_governor c) of
       Some s \<Rightarrow> render_summary s | None \<Rightarrow> ''no snapshot'')) c"

definition verb_epoch :: "coordinator \<Rightarrow> verb_outcome" where
  "verb_epoch c = answered (Inr (unsigned_decimal (g_epoch (co_governor c)))) c"

text \<open>The snapshot pointer is dereferenced unchecked.\<close>

definition with_snapshot :: "coordinator \<Rightarrow> (governance_snapshot \<Rightarrow> verb_outcome) \<Rightarrow> verb_outcome" where
  "with_snapshot c f = (case g_published (co_governor c) of None \<Rightarrow> undefined_behaviour c | Some s \<Rightarrow> f s)"

definition verb_domains :: "coordinator \<Rightarrow> verb_outcome" where
  "verb_domains c =
     with_snapshot c (\<lambda>s. answered (Inr (concat (map (\<lambda>(key, d).
        unsigned_decimal key @ '' '' @ to_string_thermal_state (ds_state d) @ '' '' @
        to_string_derating_level (ds_derating d) @ nl) (gs_domains s)))) c)"

definition verb_devices :: "coordinator \<Rightarrow> verb_outcome" where
  "verb_devices c =
     with_snapshot c (\<lambda>s. answered (Inr (concat (map (\<lambda>(key, d).
        unsigned_decimal key @ '' gen='' @ unsigned_decimal (vs_generation d) @ '' '' @
        to_string_thermal_state (vs_state d) @
        opt_text (\<lambda>t. '' '' @ number t @ ''C'') (vs_temperature d) @ nl) (gs_devices s)))) c)"

definition verb_snapshot_info :: "coordinator \<Rightarrow> verb_outcome" where
  "verb_snapshot_info c = with_snapshot c (\<lambda>s. answered (Inr (render_summary s)) c)"

definition verb_actions :: "coordinator \<Rightarrow> verb_outcome" where
  "verb_actions c =
     answered (Inr (concat (map (\<lambda>a. render_action a @ ''--'' @ nl) (governor_actions (co_governor c))))) c"

definition verb_history :: "coordinator \<Rightarrow> verb_outcome" where
  "verb_history c =
     answered (Inr (concat (map (\<lambda>t. unsigned_decimal (tr_domain t) @ '' '' @
        to_string_thermal_state (tr_from t) @ '' -> '' @ to_string_thermal_state (tr_to t) @ '' epoch='' @
        unsigned_decimal (tr_coordinator_epoch t) @ '' seq='' @ unsigned_decimal (tr_sequence t) @ nl)
       (g_history (co_governor c))))) c"

definition verb_persist :: "verb_context \<Rightarrow> coordinator \<Rightarrow> verb_outcome" where
  "verb_persist vx c = acknowledged ''persisted'' (persist_now vx c)"

text \<open>\<^verbatim>\<open>ThermalGovernor::shutdown\<close> with the store; a repeated call succeeds without saving.\<close>

definition shutdown_coordinator :: "verb_context \<Rightarrow> coordinator \<Rightarrow> status \<times> coordinator" where
  "shutdown_coordinator vx c =
     (case shutdown (vx_now vx 0) (co_governor c) of
        (None, g) \<Rightarrow> (success, c\<lparr>co_governor := g\<rparr>)
      | (Some _, g) \<Rightarrow> save_governor vx (c\<lparr>co_governor := g\<rparr>))"

definition verb_shutdown :: "verb_context \<Rightarrow> coordinator \<Rightarrow> verb_outcome" where
  "verb_shutdown vx c = acknowledged ''shutdown'' (shutdown_coordinator vx c)"

definition verb_explain :: "verb_context \<Rightarrow> string list \<Rightarrow> coordinator \<Rightarrow> verb_outcome" where
  "verb_explain vx args c =
     (case args of
        [a] \<Rightarrow>
          (case parse_u64 a of
             None \<Rightarrow> rejected E_INVALID_ARGUMENT c
           | Some i \<Rightarrow> reply_after render_explanation (explain (vx_now vx 0) i) c)
      | _ \<Rightarrow> rejected E_INVALID_ARGUMENT c)"

section \<open>Verbs that change the governor\<close>

definition verb_publish :: "verb_context \<Rightarrow> string \<Rightarrow> coordinator \<Rightarrow> verb_outcome" where
  "verb_publish vx body c =
     (case from_hex body of
        None \<Rightarrow> rejected E_INVALID_ARGUMENT c
      | Some bytes \<Rightarrow>
        (case decode_evidence bytes of
           Inl e \<Rightarrow> rejected e c
         | Inr ev \<Rightarrow>
           reply_after (\<lambda>receipt. ''accepted=1 telemetry='' @
               unsigned_decimal (er_telemetry_generation receipt))
             (publish_temperature (vx_now vx 0) ev) c))"

definition registration_of ::
  "u64 list \<Rightarrow> string \<Rightarrow> capability_state \<Rightarrow> capability_state \<Rightarrow> capability_state \<Rightarrow> provenance \<Rightarrow>
     device_registration" where
  "registration_of v label temperature throttle temperature_limit provenance =
     \<lparr>dr_device = v ! 0, dr_generation = v ! 1, dr_node = v ! 2, dr_node_generation = v ! 3,
      dr_rack = v ! 4, dr_rack_generation = v ! 5, dr_label = label,
      dr_capabilities =
        foldl (\<lambda>cs (c, st). cap_set cs c st []) empty_capabilities
          [(TC_DEVICE_IDENTITY, CS_SUPPORTED_SYNTHETIC), (TC_TEMPERATURE, temperature),
           (TC_THROTTLE_REASONS, throttle), (TC_TEMPERATURE_LIMIT, temperature_limit),
           (TC_CURRENT_CLOCK, CS_SUPPORTED_SYNTHETIC), (TC_MAX_CLOCK, CS_SUPPORTED_SYNTHETIC)],
      dr_provenance = provenance\<rparr>"

definition verb_register_device :: "verb_context \<Rightarrow> string list \<Rightarrow> coordinator \<Rightarrow> verb_outcome" where
  "verb_register_device vx args c =
     (if length args < 11 then rejected E_INVALID_ARGUMENT c
      else case parse_numbers (take 6 args) of
        None \<Rightarrow> rejected E_INVALID_ARGUMENT c
      | Some v \<Rightarrow>
        (case (parse_capability_state (args ! 7), parse_capability_state (args ! 8),
               parse_capability_state (args ! 9), parse_provenance (args ! 10)) of
           (Some temperature, Some throttle, Some temperature_limit, Some provenance) \<Rightarrow>
             commit_after vx (\<lambda>_. ''registered'')
               (register_device (vx_now vx 0)
                 (registration_of v (args ! 6) temperature throttle temperature_limit provenance)) c
         | _ \<Rightarrow> rejected E_INVALID_ARGUMENT c))"

definition definition_of ::
  "governor \<Rightarrow> u64 \<Rightarrow> u64 \<Rightarrow> domain_type \<Rightarrow> provenance \<Rightarrow> aggregation_rule \<Rightarrow> string \<Rightarrow> u64 \<Rightarrow>
     domain_member list \<Rightarrow> domain_definition" where
  "definition_of g i generation ty provenance aggregation label policy members =
     \<lparr>dd_id = i, dd_generation = generation, dd_type = ty, dd_label = label, dd_members = members,
      dd_parent = None, dd_children = [], dd_policy = policy,
      dd_policy_generation = g_policy_generation g, dd_provenance = provenance,
      dd_evidence_source = [], dd_aggregation = aggregation, dd_rack = 0, dd_rack_generation = 0,
      dd_cooling_zone = 0, dd_synthetic_aggregate_offset = None\<rparr>"

text \<open>
  The count check asks for six arguments, but the policy id is the seventh: with exactly six, and
  the first five well formed, \<^verbatim>\<open>args[6]\<close> is read past the end of the vector.
\<close>

definition verb_register_domain :: "verb_context \<Rightarrow> string list \<Rightarrow> coordinator \<Rightarrow> verb_outcome" where
  "verb_register_domain vx args c =
     (if length args < 6 then rejected E_INVALID_ARGUMENT c
      else case (parse_u64 (args ! 0), parse_u64 (args ! 1), parse_domain_type (args ! 2),
                 parse_provenance (args ! 3), parse_aggregation (args ! 4)) of
        (Some i, Some generation, Some ty, Some provenance, Some aggregation) \<Rightarrow>
          if length args \<le> 6 then undefined_behaviour c
          else (case parse_u64 (args ! 6) of
            None \<Rightarrow> rejected E_INVALID_ARGUMENT c
          | Some policy \<Rightarrow>
            (case parse_members (drop 7 args) of
               None \<Rightarrow> rejected E_INVALID_ARGUMENT c
             | Some members \<Rightarrow>
               commit_after vx (\<lambda>_. ''registered'')
                 (\<lambda>g. register_thermal_domain (vx_now vx 0)
                   (definition_of g i generation ty provenance aggregation (args ! 5) policy members) g) c))
      | _ \<Rightarrow> rejected E_INVALID_ARGUMENT c)"

definition verb_register_coupling :: "verb_context \<Rightarrow> string list \<Rightarrow> coordinator \<Rightarrow> verb_outcome" where
  "verb_register_coupling vx args c =
     (if length args < 6 then rejected E_INVALID_ARGUMENT c
      else case (parse_u64 (args ! 0), parse_u64 (args ! 1), parse_u64 (args ! 2),
                 parse_coupling_type (args ! 3), parse_provenance (args ! 4), parse_double (args ! 5)) of
        (Some i, Some source, Some destination, Some ty, Some provenance, Some weight) \<Rightarrow>
          commit_after vx (\<lambda>_. ''registered'')
            (register_coupling (vx_now vx 0)
              \<lparr>cr_id = i, cr_source = source, cr_destination = destination, cr_type = ty,
               cr_generation = i, cr_provenance = provenance,
               cr_evidence_source = ''operator-configured coupling'', cr_weight = weight,
               cr_directed = True, cr_valid_until = None\<rparr>) c
      | _ \<Rightarrow> rejected E_INVALID_ARGUMENT c)"

text \<open>\<^verbatim>\<open>static_cast<std::int64_t>\<close> reads the two's complement, \<^verbatim>\<open>static_cast<std::uint32_t>\<close> truncates.\<close>

definition retuned_policy :: "f64 list \<Rightarrow> u64 list \<Rightarrow> thermal_policy \<Rightarrow> thermal_policy" where
  "retuned_policy v n p =
     p \<lparr>pol_generation := n ! 0,
        pol_thresholds := \<lparr>th_warning = v ! 0, th_derating = v ! 1, th_critical = v ! 2,
          th_recovery = v ! 3, th_near_limit_band = v ! 4\<rparr>,
        pol_margins := \<lparr>mg_policy_safety = v ! 5, mg_uncertainty = v ! 6, mg_recovery = v ! 7\<rparr>,
        pol_freshness := (pol_freshness p) \<lparr>fr_max_age := sint (n ! 1),
          fr_required_consecutive_samples := ucast (n ! 2), fr_min_evidence_span := sint (n ! 3)\<rparr>\<rparr>"

definition verb_set_thresholds :: "verb_context \<Rightarrow> string list \<Rightarrow> coordinator \<Rightarrow> verb_outcome" where
  "verb_set_thresholds vx args c =
     (if length args < 12 then rejected E_INVALID_ARGUMENT c
      else case parse_doubles (take 8 args) of
        None \<Rightarrow> rejected E_INVALID_ARGUMENT c
      | Some v \<Rightarrow>
        (case parse_numbers (take 4 (drop 8 args)) of
           None \<Rightarrow> rejected E_INVALID_ARGUMENT c
         | Some n \<Rightarrow>
           (case get_policy 1 (co_governor c) of
              Inl e \<Rightarrow> rejected e c
            | Inr p \<Rightarrow>
              commit_after vx (\<lambda>generation. ''policy-generation='' @ unsigned_decimal generation)
                (set_policy (vx_now vx 0) (retuned_policy v n p)) c)))"

definition single_id :: "string list \<Rightarrow> u64 option" where
  "single_id args = (case args of [a] \<Rightarrow> parse_u64 a | _ \<Rightarrow> None)"

definition verb_bump_domain_generation :: "verb_context \<Rightarrow> string list \<Rightarrow> coordinator \<Rightarrow> verb_outcome" where
  "verb_bump_domain_generation vx args c =
     (case single_id args of
        None \<Rightarrow> rejected E_INVALID_ARGUMENT c
      | Some i \<Rightarrow>
        with_snapshot c (\<lambda>s.
          case snapshot_find_domain s i of
            None \<Rightarrow> rejected E_UNKNOWN_DOMAIN c
          | Some d \<Rightarrow>
            (let bumped = (ds_definition d) \<lparr>dd_generation := dd_generation (ds_definition d) + 1\<rparr>
             in commit_after vx (\<lambda>_. ''domain-generation='' @ unsigned_decimal (dd_generation bumped))
               (update_thermal_domain (vx_now vx 0) bumped) c)))"

definition verb_bump_device_generation :: "verb_context \<Rightarrow> string list \<Rightarrow> coordinator \<Rightarrow> verb_outcome" where
  "verb_bump_device_generation vx args c =
     (case single_id args of
        None \<Rightarrow> rejected E_INVALID_ARGUMENT c
      | Some i \<Rightarrow>
        with_snapshot c (\<lambda>s.
          case snapshot_find_device s i of
            None \<Rightarrow> rejected E_UNKNOWN_DEVICE c
          | Some d \<Rightarrow>
            (let bumped = \<lparr>dr_device = vs_device d, dr_generation = vs_generation d + 1,
                   dr_node = vs_node d,
                   dr_node_generation = (case vs_evidence d of
                     Some e \<Rightarrow> sr_node_generation (ev_subject e) | None \<Rightarrow> 1),
                   dr_rack = vs_rack d, dr_rack_generation = 1, dr_label = vs_label d,
                   dr_capabilities = vs_capabilities d, dr_provenance = vs_provenance d\<rparr>
             in commit_after vx (\<lambda>_. ''device-generation='' @ unsigned_decimal (dr_generation bumped))
               (register_device (vx_now vx 0) bumped) c)))"

definition verb_worker_death :: "verb_context \<Rightarrow> string list \<Rightarrow> coordinator \<Rightarrow> verb_outcome" where
  "verb_worker_death vx args c =
     (if length args < 2 then rejected E_INVALID_ARGUMENT c
      else case (parse_u64 (args ! 0), parse_u64 (args ! 1)) of
        (Some worker, Some boot) \<Rightarrow>
          commit_after vx (\<lambda>_. ''retired'')
            (note_worker_death (vx_now vx 0) worker boot ''worker process terminated'') c
      | _ \<Rightarrow> rejected E_INVALID_ARGUMENT c)"

definition verb_authorize :: "verb_context \<Rightarrow> bool \<Rightarrow> string list \<Rightarrow> coordinator \<Rightarrow> verb_outcome" where
  "verb_authorize vx derating args c =
     (if length args < 2 then rejected E_INVALID_ARGUMENT c
      else case (parse_u64 (args ! 0), parse_intent (args ! 1)) of
        (Some domain, Some intent) \<Rightarrow>
          (let r = default_intent_record \<lparr>ir_intent := intent, ir_domain := domain,
                 ir_concurrency_ceiling := (if intent = MI_REQUEST_CONCURRENCY_REDUCTION
                   then Some (Fin 50) else None)\<rparr>
           in commit_after vx (\<lambda>i. ''action='' @ unsigned_decimal i)
             (if derating then authorize_derating (vx_now vx 0) domain r ''operator request''
              else authorize_mitigation (vx_now vx 0) domain r ''operator request'') c)
      | _ \<Rightarrow> rejected E_INVALID_ARGUMENT c)"

definition verb_dispatch :: "verb_context \<Rightarrow> string list \<Rightarrow> coordinator \<Rightarrow> verb_outcome" where
  "verb_dispatch vx args c =
     (case single_id args of
        None \<Rightarrow> rejected E_INVALID_ARGUMENT c
      | Some i \<Rightarrow> reply_after to_string_action_lifecycle (record_action_dispatch (vx_now vx 0) i) c)"

definition verb_cancel :: "verb_context \<Rightarrow> string list \<Rightarrow> coordinator \<Rightarrow> verb_outcome" where
  "verb_cancel vx args c =
     (case single_id args of
        None \<Rightarrow> rejected E_INVALID_ARGUMENT c
      | Some i \<Rightarrow> reply_after to_string_cancellation_result
          (cancel_action (vx_now vx 0) i ''operator cancel'') c)"

definition verb_verify :: "verb_context \<Rightarrow> string list \<Rightarrow> string \<Rightarrow> coordinator \<Rightarrow> verb_outcome" where
  "verb_verify vx args body c =
     (case single_id args of
        None \<Rightarrow> rejected E_INVALID_ARGUMENT c
      | Some i \<Rightarrow>
        (case from_hex body of
           None \<Rightarrow> rejected E_INVALID_ARGUMENT c
         | Some bytes \<Rightarrow>
           (case decode_evidence bytes of
              Inl e \<Rightarrow> rejected e c
            | Inr fresh \<Rightarrow>
              commit_after vx render_verification (verify_governed_action (vx_now vx 0) i fresh) c)))"

section \<open>Queries about one identity\<close>

definition render_device :: "ident \<Rightarrow> device_snapshot \<Rightarrow> string" where
  "render_device i d =
     id_line ''DeviceId'' i @ id_line ''DeviceGeneration'' (vs_generation d) @
     text_line ''ThermalState'' (to_string_thermal_state (vs_state d)) @
     text_line ''Provenance'' (to_string_provenance (vs_provenance d)) @
     text_line ''Temperature'' (case vs_temperature d of Some t \<Rightarrow> number t | None \<Rightarrow> ''<unknown>'') @
     render_capabilities (vs_capabilities d) @ nl"

definition render_evaluation :: "string \<Rightarrow> evaluation \<Rightarrow> string" where
  "render_evaluation nan_text ev =
     text_line ''State'' (to_string_thermal_state (te_state ev)) @
     text_line ''Decision'' (to_string_thermal_decision (te_decision ev)) @
     text_line ''Derating'' (to_string_derating_level (te_derating ev)) @
     text_line ''Temperature'' (number (hb_current_temperature (te_headroom ev))) @
     text_line ''Headroom'' (to_string_double nan_text (hb_effective_headroom (te_headroom ev))) @
     text_line ''Throttle'' (to_string_throttle_class (te_throttle_class ev)) @
     text_line ''RecoveryAllowed'' (bool_text (ra_allowed (te_recovery ev))) @
     text_line ''Provenance'' (to_string_provenance (te_provenance ev)) @
     text_line ''Reasons'' (render_reasons (te_reasons ev))"

definition shown :: "('a \<Rightarrow> string) \<Rightarrow> 'a result \<Rightarrow> string result" where
  "shown f r = (case r of Inl e \<Rightarrow> Inl e | Inr x \<Rightarrow> Inr (f x))"

definition query_verbs :: "string list" where
  "query_verbs = [''evaluate'', ''domain'', ''headroom'', ''throttle'', ''recovery'', ''temperature'', ''device'']"

definition verb_query :: "verb_context \<Rightarrow> string \<Rightarrow> string list \<Rightarrow> coordinator \<Rightarrow> verb_outcome" where
  "verb_query vx verb args c =
     (let g = co_governor c
      in case single_id args of
        None \<Rightarrow> rejected E_INVALID_ARGUMENT c
      | Some i \<Rightarrow>
        if verb = ''device'' then with_snapshot c (\<lambda>s.
          case snapshot_find_device s i of
            None \<Rightarrow> rejected E_UNKNOWN_DEVICE c | Some d \<Rightarrow> answered (Inr (render_device i d)) c)
        else if verb = ''temperature'' then with_snapshot c (\<lambda>s.
          case snapshot_find_domain s i of
            None \<Rightarrow> rejected E_EVIDENCE_UNKNOWN c
          | Some d \<Rightarrow>
            (case ds_evidence d of
               None \<Rightarrow> rejected E_EVIDENCE_UNKNOWN c
             | Some e \<Rightarrow> answered (Inr (number (ev_temperature e) @ '' provenance='' @
                 to_string_provenance (ev_provenance e))) c))
        else if verb = ''headroom'' then answered (shown render_headroom (query_headroom i g)) c
        else if verb = ''throttle''
        then answered (shown (\<lambda>env. to_string_throttle_class (en_throttle_class env)) (query_envelope i g)) c
        else if verb = ''recovery''
        then answered (shown (\<lambda>r. render_explanation (build_recovery_explanation r blank_policy))
          (query_recovery i g)) c
        else if verb = ''domain'' then answered (shown render_envelope (query_envelope i g)) c
        else reply_after (render_evaluation (vx_nan vx)) (evaluate_domain (vx_now vx 0) i) c)"

text \<open>An unknown profile name leaves the default profile in place.\<close>

definition named_profile :: "string \<Rightarrow> workload_profile" where
  "named_profile s =
     foldl (\<lambda>p q. if s = to_string_workload_profile q then q else p) WP_UNKNOWN_PROFILE all_workload_profiles"

definition admission_for :: "u64 \<Rightarrow> u64 \<Rightarrow> string \<Rightarrow> admission_request" where
  "admission_for domain workload profile =
     \<lparr>rq_domain = domain, rq_expected_domain_generation = 0, rq_workload = workload,
      rq_profile = named_profile profile, rq_requested_class = XC_UNRESTRICTED,
      rq_requested_concurrency = None, rq_requested_clock = None,
      rq_expected_policy_generation = None, rq_expected_coordinator_epoch = None\<rparr>"

definition verb_admission ::
  "(admission_request \<Rightarrow> string result) \<Rightarrow> string list \<Rightarrow> coordinator \<Rightarrow> verb_outcome" where
  "verb_admission ask args c =
     (if length args < 3 then rejected E_INVALID_ARGUMENT c
      else case (parse_u64 (args ! 0), parse_u64 (args ! 1)) of
        (Some domain, Some workload) \<Rightarrow> answered (ask (admission_for domain workload (args ! 2))) c
      | _ \<Rightarrow> rejected E_INVALID_ARGUMENT c)"

section \<open>The command surface\<close>

definition handle_structured :: "verb_context \<Rightarrow> command_request \<Rightarrow> coordinator \<Rightarrow> verb_outcome" where
  "handle_structured vx q c =
     (let verb = cq_verb q; args = cq_arguments q; body = cq_payload q;
          g = co_governor c; now = vx_now vx 0
      in if verb = ''publish'' then verb_publish vx body c
         else if verb = ''register-device'' then verb_register_device vx args c
         else if verb = ''register-domain'' then verb_register_domain vx args c
         else if verb = ''register-coupling'' then verb_register_coupling vx args c
         else if verb = ''set-thresholds'' then verb_set_thresholds vx args c
         else if verb = ''bump-domain-generation'' then verb_bump_domain_generation vx args c
         else if verb = ''bump-device-generation'' then verb_bump_device_generation vx args c
         else if verb = ''worker-death'' then verb_worker_death vx args c
         else if verb = ''authorize-mitigation'' then verb_authorize vx False args c
         else if verb = ''authorize-derating'' then verb_authorize vx True args c
         else if verb = ''dispatch'' then verb_dispatch vx args c
         else if verb = ''cancel'' then verb_cancel vx args c
         else if verb = ''verify'' then verb_verify vx args body c
         else if verb \<in> set query_verbs then verb_query vx verb args c
         else if verb = ''policy'' then answered (shown render_policy (get_policy 1 g)) c
         else if verb = ''explain-admission''
         then verb_admission (\<lambda>rq. shown render_explanation (explain_admission now rq g)) args c
         else if verb = ''admission''
         then verb_admission (\<lambda>rq. shown render_admission (evaluate_admission now rq g)) args c
         else rejected E_NOT_IMPLEMENTED c)"

definition handle :: "verb_context \<Rightarrow> command_request \<Rightarrow> coordinator \<Rightarrow> verb_outcome" where
  "handle vx q c =
     (let verb = cq_verb q
      in if verb = ''status'' then verb_status c
         else if verb = ''epoch'' then verb_epoch c
         else if verb = ''domains'' then verb_domains c
         else if verb = ''devices'' then verb_devices c
         else if verb = ''snapshot-info'' then verb_snapshot_info c
         else if verb = ''actions'' then verb_actions c
         else if verb = ''history'' then verb_history c
         else if verb = ''persist'' then verb_persist vx c
         else if verb = ''shutdown'' then verb_shutdown vx c
         else if verb = ''explain'' then verb_explain vx (cq_arguments q) c
         else handle_structured vx q c)"

end
