(* ===== verification/Coordinator.thy ===== *)
theory Coordinator
  imports Verbs Frame
begin

text \<open>
  The session loop of \<^verbatim>\<open>tools/tg_coordinator.cpp\<close>: what each received frame does to the governor
  and which frames answer it, the loop itself, and the start of the process. A reply is kept as
  its code and payload and not as bytes, because the detail texts are not modelled.
\<close>

section \<open>Replies to one frame\<close>

datatype session_frame =
    SF_RESPONSE message_kind reply
  | SF_SUMMARY evaluation_summary
  | SF_STATUS message_kind error_code
  | SF_END

text \<open>
  What a frame is answered with, in sending order, whether the session goes on, and whether the
  cooperative stop flag is raised. A send that fails also ends the session; it changes nothing.
\<close>

record session_step =
  ss_frames :: "session_frame list"
  ss_continue :: bool
  ss_stop :: bool

type_synonym step_outcome = "session_step option \<times> coordinator"

definition reply_step :: "message_kind \<Rightarrow> reply \<Rightarrow> coordinator \<Rightarrow> step_outcome" where
  "reply_step kind r c = (Some \<lparr>ss_frames = [SF_RESPONSE kind r, SF_END], ss_continue = True, ss_stop = False\<rparr>, c)"

text \<open>The devices of a registration, up to the first that is refused; \<open>k\<close> counts clock readings.\<close>

fun register_devices ::
  "verb_context \<Rightarrow> nat \<Rightarrow> device_registration list \<Rightarrow> governor \<Rightarrow> status \<times> governor" where
  "register_devices vx k [] g = (success, g)"
| "register_devices vx k (d # ds) g =
     (case register_device (vx_now vx k) d g of
        (Inl e, g) \<Rightarrow> (Inl e, g)
      | (Inr _, g) \<Rightarrow> register_devices vx (Suc k) ds g)"

definition register_hello ::
  "verb_context \<Rightarrow> worker_registration \<Rightarrow> governor \<Rightarrow> status \<times> governor" where
  "register_hello vx w g =
     (case register_worker (vx_now vx 0) (wr_worker w) (wr_boot w) (wr_label w) g of
        (Inl e, g) \<Rightarrow> (Inl e, g)
      | (Inr _, g) \<Rightarrow> register_devices vx 1 (wr_devices w) g)"

text \<open>The payload names the epoch even in a refusal, and a failed save is only logged.\<close>

definition step_hello :: "verb_context \<Rightarrow> u8 list \<Rightarrow> coordinator \<Rightarrow> step_outcome" where
  "step_hello vx data c =
     (case decode_worker_registration default_wire_limits data of
        Inl e \<Rightarrow> reply_step MK_HELLO_ACK (reply_fail e) c
      | Inr w \<Rightarrow>
        (case register_hello vx w (co_governor c) of
           (s, g) \<Rightarrow>
             let c = c\<lparr>co_governor := g\<rparr>;
                 r = \<lparr>rep_code = (case s of Inl e \<Rightarrow> e | Inr _ \<Rightarrow> E_NONE),
                      rep_payload = ''epoch='' @ unsigned_decimal (g_epoch g)\<rparr>;
                 c = (if s = success \<and> co_state_path c \<noteq> [] then snd (save_governor vx c) else c)
             in reply_step MK_HELLO_ACK r c))"

text \<open>
  The summary of the affected domains. The first domain is evaluated twice; a candidate replaces
  the summary only when its state is strictly more severe.
\<close>

fun most_severe ::
  "verb_context \<Rightarrow> nat \<Rightarrow> ident list \<Rightarrow> evaluation_summary \<Rightarrow> governor \<Rightarrow> evaluation_summary \<times> governor"
  where
  "most_severe vx k [] s g = (s, g)"
| "most_severe vx k (d # ds) s g =
     (case evaluate_domain (vx_now vx k) d g of
        (Inl _, g) \<Rightarrow> most_severe vx (Suc k) ds s g
      | (Inr candidate, g) \<Rightarrow>
          most_severe vx (Suc k) ds
            (if severity (es_state s) < severity (te_state candidate) then summarise candidate else s) g)"

definition summarise_affected ::
  "verb_context \<Rightarrow> ident list \<Rightarrow> governor \<Rightarrow> evaluation_summary option \<times> governor" where
  "summarise_affected vx affected g =
     (case affected of
        [] \<Rightarrow> (None, g)
      | front # _ \<Rightarrow>
        (case evaluate_domain (vx_now vx 1) front g of
           (Inl _, g) \<Rightarrow> (None, g)
         | (Inr ev, g) \<Rightarrow>
           (case most_severe vx 2 affected (summarise ev) g of (s, g) \<Rightarrow> (Some s, g))))"

definition step_publish :: "verb_context \<Rightarrow> u8 list \<Rightarrow> coordinator \<Rightarrow> step_outcome" where
  "step_publish vx data c =
     (case decode_evidence data of
        Inl e \<Rightarrow> reply_step MK_PUBLISH_ACK (reply_fail e) c
      | Inr ev \<Rightarrow>
        (case publish_temperature (vx_now vx 0) ev (co_governor c) of
           (Inl e, g) \<Rightarrow> reply_step MK_PUBLISH_ACK (reply_fail e) (c\<lparr>co_governor := g\<rparr>)
         | (Inr receipt, g) \<Rightarrow>
           (case summarise_affected vx (er_affected_domains receipt) g of
              (summary, g) \<Rightarrow>
                (Some \<lparr>ss_frames = [SF_RESPONSE MK_PUBLISH_ACK (reply_ok ''accepted=1'')] @
                     (case summary of Some s \<Rightarrow> [SF_SUMMARY s] | None \<Rightarrow> []) @ [SF_END],
                   ss_continue = True, ss_stop = False\<rparr>, c\<lparr>co_governor := g\<rparr>))))"

definition step_action ::
  "('a result \<Rightarrow> (governor \<Rightarrow> 'a \<Rightarrow> action_lifecycle result \<times> governor) \<Rightarrow> coordinator \<Rightarrow> step_outcome)" where
  "step_action decoded record_it c =
     (case decoded of
        Inl e \<Rightarrow> reply_step MK_INTENT_RESULT (reply_fail e) c
      | Inr x \<Rightarrow>
        (case record_it (co_governor c) x of
           (Inl e, g) \<Rightarrow> reply_step MK_INTENT_RESULT (reply_fail e) (c\<lparr>co_governor := g\<rparr>)
         | (Inr lifecycle, g) \<Rightarrow>
             reply_step MK_INTENT_RESULT (reply_ok (to_string_action_lifecycle lifecycle))
               (c\<lparr>co_governor := g\<rparr>)))"

text \<open>A \<open>shutdown\<close> command raises the stop flag whatever its reply is.\<close>

definition step_query :: "verb_context \<Rightarrow> u8 list \<Rightarrow> coordinator \<Rightarrow> step_outcome" where
  "step_query vx data c =
     (case decode_command default_wire_limits data of
        Inl e \<Rightarrow> reply_step MK_QUERY_RESPONSE (reply_fail e) c
      | Inr q \<Rightarrow>
        (case handle vx q c of
           (None, c) \<Rightarrow> (None, c)
         | (Some r, c) \<Rightarrow>
             (if cq_verb q = ''shutdown''
              then (Some \<lparr>ss_frames = [SF_RESPONSE MK_QUERY_RESPONSE r, SF_END],
                      ss_continue = False, ss_stop = True\<rparr>, c)
              else reply_step MK_QUERY_RESPONSE r c)))"

definition session_step :: "verb_context \<Rightarrow> message_kind \<Rightarrow> u8 list \<Rightarrow> coordinator \<Rightarrow> step_outcome" where
  "session_step vx kind data c =
     (if kind = MK_HELLO then step_hello vx data c
      else if kind = MK_PUBLISH_EVIDENCE then step_publish vx data c
      else if kind = MK_INTENT_ACK
      then step_action (decode_action_ack default_wire_limits data) (\<lambda>g k. record_action_ack (vx_now vx 0) k g) c
      else if kind = MK_INTENT_RESULT
      then step_action (decode_action_result default_wire_limits data) (\<lambda>g x. record_action_result (vx_now vx 0) x g) c
      else if kind = MK_HEARTBEAT
      then (Some \<lparr>ss_frames = [SF_STATUS MK_HEARTBEAT E_NONE, SF_END], ss_continue = True, ss_stop = False\<rparr>, c)
      else if kind = MK_QUERY_REQUEST then step_query vx data c
      else if kind = MK_DISCONNECT
      then (Some \<lparr>ss_frames = [], ss_continue = False, ss_stop = False\<rparr>, c)
      else (Some \<lparr>ss_frames = [SF_STATUS MK_ERROR_RESPONSE E_PROTOCOL_UNSUPPORTED, SF_END],
              ss_continue = True, ss_stop = False\<rparr>, c))"

section \<open>A session\<close>

text \<open>
  A session is a sequence of received frames, each with the surroundings it is handled in. It ends
  at the first frame that does not let it continue; \<open>None\<close> is undefined behaviour on the way.
\<close>

type_synonym received = "verb_context \<times> message_kind \<times> u8 list"

fun run_session :: "received list \<Rightarrow> coordinator \<Rightarrow> session_frame list option \<times> coordinator" where
  "run_session [] c = (Some [], c)"
| "run_session ((vx, kind, data) # rest) c =
     (case session_step vx kind data c of
        (None, c) \<Rightarrow> (None, c)
      | (Some s, c) \<Rightarrow>
          if \<not> ss_continue s then (Some (ss_frames s), c)
          else (case run_session rest c of
            (None, c) \<Rightarrow> (None, c) | (Some fs, c) \<Rightarrow> (Some (ss_frames s @ fs), c)))"

section \<open>Accepting connections\<close>

text \<open>
  The accept loop starts a thread per connection and refuses one when the thread vector has reached
  its bound. A session that ends leaves its thread in the vector; only the end of the process
  clears it.
\<close>

datatype connection_event = CE_CONNECTED | CE_SESSION_ENDED

fun accept_connections :: "nat \<Rightarrow> connection_event list \<Rightarrow> nat \<Rightarrow> bool list" where
  "accept_connections bound [] threads = []"
| "accept_connections bound (CE_CONNECTED # rest) threads =
     (if bound \<le> threads then False # accept_connections bound rest threads
      else True # accept_connections bound rest (Suc threads))"
| "accept_connections bound (CE_SESSION_ENDED # rest) threads = accept_connections bound rest threads"

section \<open>The start of the process\<close>

record options =
  op_port :: u16
  op_state_path :: string
  op_epoch :: u64
  op_ready_file :: string
  op_max_connections :: nat

definition default_options :: options where
  "default_options =
     \<lparr>op_port = 0, op_state_path = [], op_epoch = 1, op_ready_file = [], op_max_connections = 64\<rparr>"

text \<open>\<open>None\<close> is exit code 2. A repeated option overrides the earlier one.\<close>

fun parse_options :: "string list \<Rightarrow> options \<Rightarrow> options option" where
  "parse_options [] o1 = Some o1"
| "parse_options (name # rest) o1 =
     (if name = ''--port'' then
        (case rest of [] \<Rightarrow> None | v # rest \<Rightarrow>
          (case parse_u64 v of None \<Rightarrow> None
           | Some port \<Rightarrow> if 65535 < port then None
               else parse_options rest (o1\<lparr>op_port := ucast port\<rparr>)))
      else if name = ''--state'' then
        (case rest of [] \<Rightarrow> None | v # rest \<Rightarrow> parse_options rest (o1\<lparr>op_state_path := v\<rparr>))
      else if name = ''--epoch'' then
        (case rest of [] \<Rightarrow> None | v # rest \<Rightarrow>
          (case parse_u64 v of None \<Rightarrow> None | Some e \<Rightarrow> parse_options rest (o1\<lparr>op_epoch := e\<rparr>)))
      else if name = ''--ready-file'' then
        (case rest of [] \<Rightarrow> None | v # rest \<Rightarrow> parse_options rest (o1\<lparr>op_ready_file := v\<rparr>))
      else None)"

definition coordinator_config :: "options \<Rightarrow> governor_config" where
  "coordinator_config o1 =
     default_config \<lparr>cf_coordinator := 1, cf_initial_epoch := op_epoch o1, cf_durable_path := op_state_path o1\<rparr>"

text \<open>What \<^verbatim>\<open>load_durable\<close> finds at the configured path.\<close>

definition load_from_files :: "time_ns \<Rightarrow> files \<Rightarrow> governor \<Rightarrow> status \<times> governor" where
  "load_from_files now fs g =
     (let path = cf_durable_path (g_config g)
      in load_durable now
        (if store_exists path fs
         then Some (case store_load default_persistence_limits path fs of
           Inl e \<Rightarrow> Inl e | Inr r \<Rightarrow> Inr (lr_state r))
         else None) g)"

text \<open>The coordinator before it listens; \<open>sockets\<close> is the outcome of the socket start-up.\<close>

definition start_coordinator ::
  "time_ns \<Rightarrow> time_ns \<Rightarrow> status \<Rightarrow> options \<Rightarrow> files \<Rightarrow> coordinator result" where
  "start_coordinator now loaded sockets o1 fs =
     (case create now sockets (coordinator_config o1) of
        Inl e \<Rightarrow> Inl e
      | Inr g \<Rightarrow>
        if op_state_path o1 = []
        then Inr \<lparr>co_governor = g, co_files = fs, co_state_path = op_state_path o1\<rparr>
        else (case load_from_files loaded fs g of
          (Inl e, _) \<Rightarrow> Inl e
        | (Inr _, g) \<Rightarrow> Inr \<lparr>co_governor = g, co_files = fs, co_state_path = op_state_path o1\<rparr>))"

end
