(* ===== verification/CoordinatorLaws.thy ===== *)
theory CoordinatorLaws
  imports Coordinator Lifetime
begin

text \<open>
  Laws of the coordinator: a governor always has a published snapshot, every command and every
  frame is a sequence of governor operations, and what the replies promise.
\<close>

section \<open>The published snapshot\<close>

definition has_snapshot :: "governor \<Rightarrow> bool" where
  "has_snapshot g \<longleftrightarrow> g_published g \<noteq> None"

lemma published_record [simp]: "g_published (record_transition i dg ev g) = g_published g"
  by (simp add: record_transition_def Let_def split: option.split)

lemma published_recompute [simp]: "g_published (recompute_domain now i g) = g_published g"
  by (simp add: recompute_domain_def split: option.split sum.split)

lemma published_recompute_domains [simp]: "g_published (recompute_domains now ids g) = g_published g"
  by (induction ids arbitrary: g) (simp_all add: recompute_domains_def)

lemma published_recompute_all [simp]: "g_published (recompute_all_domains now g) = g_published g"
  by (simp add: recompute_all_domains_def)

lemma published_restore_domains [simp]: "g_published (snd (restore_domains ds g)) = g_published g"
  by (induction ds g rule: restore_domains.induct) (simp_all add: size_history_def split: sum.split)

lemma published_restore_couplings [simp]: "g_published (snd (restore_couplings cs g)) = g_published g"
  by (induction cs g rule: restore_couplings.induct) simp_all

lemma published_updates [simp]:
  "g_published (size_history i g) = g_published g"
  "g_published (restore_basics s g) = g_published g"
  "g_published (put_action i a g) = g_published g"
  "g_published (advance_topology g) = g_published g"
  "g_published (retire_boot_locked now worker boot g) = g_published g"
  by (simp_all add: size_history_def restore_basics_def put_action_def advance_topology_def
      retire_boot_locked_def)

lemma snapshot_load: "has_snapshot g \<Longrightarrow> has_snapshot (snd (load_durable now loaded g))"
proof -
  assume g: "has_snapshot g"
  have d: "g_published g1 = g_published g"
    if "restore_domains (du_domains s) (restore_basics s g) = (r, g1)" for s r g1
    using published_restore_domains [of "du_domains s" "restore_basics s g"] that by simp
  have c: "g_published g2 = g_published g1" if "restore_couplings cs g1 = (r, g2)" for cs r g1 g2
    using published_restore_couplings [of cs g1] that by simp
  show ?thesis
    using g d c
    by (auto simp: load_durable_def restart_state_def has_snapshot_def split: option.split sum.split prod.split)
qed

lemma snapshot_registration:
  "has_snapshot g \<Longrightarrow> has_snapshot (snd (register_device now r g))"
  "has_snapshot g \<Longrightarrow> has_snapshot (snd (publish_capabilities now i n caps g))"
  "has_snapshot g \<Longrightarrow> has_snapshot (snd (register_thermal_domain now d g))"
  "has_snapshot g \<Longrightarrow> has_snapshot (snd (update_thermal_domain now d g))"
  "has_snapshot g \<Longrightarrow> has_snapshot (snd (register_coupling now c g))"
  "has_snapshot g \<Longrightarrow> has_snapshot (snd (remove_coupling now i g))"
  "has_snapshot g \<Longrightarrow> has_snapshot (snd (set_policy now p g))"
  by (simp_all add: has_snapshot_def register_device_def publish_capabilities_def
      register_thermal_domain_def update_thermal_domain_def register_coupling_def remove_coupling_def
      set_policy_def Let_def split: option.split sum.split prod.split bool.split)

lemma snapshot_workers:
  "has_snapshot g \<Longrightarrow> has_snapshot (snd (register_worker now w b label g))"
  "has_snapshot g \<Longrightarrow> has_snapshot (snd (worker_heartbeat now w b g))"
  "has_snapshot g \<Longrightarrow> has_snapshot (snd (note_worker_death now w b why g))"
  by (simp_all add: has_snapshot_def register_worker_def worker_heartbeat_def note_worker_death_def Let_def
      split: option.split)

lemma snapshot_publish_impl: "has_snapshot g \<Longrightarrow> has_snapshot (snd (publish_impl now e g))"
  by (simp add: has_snapshot_def publish_impl_def Let_def split: option.split sum.split)

lemma snapshot_publications:
  "has_snapshot g \<Longrightarrow> has_snapshot (snd (publish_temperature now e g))"
  "has_snapshot g \<Longrightarrow> has_snapshot (snd (publish_throttle_evidence now e g))"
  "has_snapshot g \<Longrightarrow> has_snapshot (snd (publish_cooling_evidence now e g))"
  "has_snapshot g \<Longrightarrow> has_snapshot (snd (publish_node_temperature now e g))"
  "has_snapshot g \<Longrightarrow> has_snapshot (snd (publish_rack_temperature now e g))"
  by (simp_all add: snapshot_publish_impl publish_temperature_def publish_throttle_evidence_def
      publish_cooling_evidence_def publish_node_temperature_def publish_rack_temperature_def)

lemma snapshot_evaluate:
  "has_snapshot g \<Longrightarrow> has_snapshot (snd (evaluate_domain now i g))"
  "has_snapshot g \<Longrightarrow> has_snapshot (snd (evaluate_device now i g))"
  "has_snapshot g \<Longrightarrow> has_snapshot (snd (authorize_recovery now i why g))"
  "has_snapshot g \<Longrightarrow> has_snapshot (snd (revoke_recovery now i g))"
  by (simp_all add: has_snapshot_def evaluate_domain_def evaluate_device_def authorize_recovery_def
      revoke_recovery_def split: option.split sum.split list.split)

lemma snapshot_authorize: "has_snapshot g \<Longrightarrow> has_snapshot (snd (authorize_mitigation now i r why g))"
  by (simp add: has_snapshot_def authorize_mitigation_def Let_def split: option.split sum.split)

lemma snapshot_authorize_derating:
  "has_snapshot g \<Longrightarrow> has_snapshot (snd (authorize_derating now i r why g))"
proof -
  assume g: "has_snapshot g"
  obtain res g1 where e: "evaluate_domain now i g = (res, g1)" by (cases "evaluate_domain now i g")
  then have "has_snapshot g1" using snapshot_evaluate(1) [OF g, of now i] by simp
  then show ?thesis by (simp add: authorize_derating_def e snapshot_authorize Let_def split: sum.split)
qed

lemma snapshot_actions:
  "has_snapshot g \<Longrightarrow> has_snapshot (snd (record_action_dispatch now i g))"
  "has_snapshot g \<Longrightarrow> has_snapshot (snd (record_action_ack now k g))"
  "has_snapshot g \<Longrightarrow> has_snapshot (snd (record_action_result now x g))"
  "has_snapshot g \<Longrightarrow> has_snapshot (snd (cancel_action now i why g))"
  "has_snapshot g \<Longrightarrow> has_snapshot (snd (verify_locked now i e g))"
  "has_snapshot g \<Longrightarrow> has_snapshot (snd (shutdown now g))"
  by (simp_all add: has_snapshot_def record_action_dispatch_def record_action_ack_def
      record_action_result_def cancel_action_def verify_locked_def commit_verification_def shutdown_def
      Let_def split: option.split sum.split prod.split)

lemma snapshot_perform: "has_snapshot g \<Longrightarrow> has_snapshot (perform now op g)"
  by (cases op) (simp_all only: perform.simps snapshot_registration snapshot_workers snapshot_publications
      snapshot_evaluate snapshot_authorize snapshot_authorize_derating snapshot_actions snapshot_load,
      simp add: set_clock_def has_snapshot_def)

interpretation observable: governor_invariant has_snapshot
proof unfold_locales
  fix now sockets cf g
  show "create now sockets cf = Inr g \<Longrightarrow> has_snapshot g"
    by (auto simp: create_def has_snapshot_def split: if_splits)
next
  fix g op now
  show "has_snapshot g \<Longrightarrow> has_snapshot (perform now op g)" by (rule snapshot_perform)
qed

section \<open>Commands as governor operations\<close>

lemma persist_now_keeps [simp]:
  "co_governor (snd (persist_now vx c)) = co_governor c"
  "co_state_path (snd (persist_now vx c)) = co_state_path c"
  "co_governor (snd (save_governor vx c)) = co_governor c"
  "co_state_path (snd (save_governor vx c)) = co_state_path c"
  by (simp_all add: persist_now_def save_governor_def split: sum.split prod.split)

lemma outcome_simps [simp]:
  "snd (rejected e c) = c" "snd (answered r c) = c" "snd (undefined_behaviour c) = c"
  by (simp_all add: rejected_def answered_def undefined_behaviour_def)

lemma acknowledged_snd [simp]: "snd (acknowledged s m) = snd m"
  by (simp add: acknowledged_def split: prod.split sum.split)

lemma reply_after_governor [simp]:
  "co_governor (snd (reply_after f op c)) = snd (op (co_governor c))"
  by (simp add: reply_after_def split: prod.split sum.split)

lemma commit_after_governor [simp]:
  "co_governor (snd (commit_after vx f op c)) = snd (op (co_governor c))"
  by (simp add: commit_after_def split: prod.split sum.split)

text \<open>
  What a client of the governor may assume of a property of its states: every operation but a load
  keeps it. Then every command and every frame keeps it too, because none of them loads a file.
\<close>

locale operation_closed =
  fixes P :: "governor \<Rightarrow> bool"
  assumes closed: "P g \<Longrightarrow> \<forall>f. op \<noteq> OP_LOAD_DURABLE f \<Longrightarrow> P (perform now op g)"
begin

lemma closed_operations:
  assumes "P g"
  shows "P (snd (register_device now r g))" "P (snd (register_thermal_domain now d g))"
    "P (snd (update_thermal_domain now d g))" "P (snd (register_coupling now e g))"
    "P (snd (set_policy now p g))" "P (snd (register_worker now w b label g))"
    "P (snd (note_worker_death now w b why g))" "P (snd (publish_temperature now ev g))"
    "P (snd (evaluate_domain now i g))" "P (snd (authorize_mitigation now i ir why g))"
    "P (snd (authorize_derating now i ir why g))" "P (snd (record_action_dispatch now i g))"
    "P (snd (record_action_ack now k g))" "P (snd (record_action_result now x g))"
    "P (snd (verify_locked now i ev g))" "P (snd (cancel_action now i why g))" "P (snd (shutdown now g))"
  using closed [OF assms, of "OP_REGISTER_DEVICE r" now] closed [OF assms, of "OP_REGISTER_THERMAL_DOMAIN d" now]
    closed [OF assms, of "OP_UPDATE_THERMAL_DOMAIN d" now] closed [OF assms, of "OP_REGISTER_COUPLING e" now]
    closed [OF assms, of "OP_SET_POLICY p" now] closed [OF assms, of "OP_REGISTER_WORKER w b label" now]
    closed [OF assms, of "OP_NOTE_WORKER_DEATH w b why" now] closed [OF assms, of "OP_PUBLISH_TEMPERATURE ev" now]
    closed [OF assms, of "OP_EVALUATE_DOMAIN i" now] closed [OF assms, of "OP_AUTHORIZE_MITIGATION i ir why" now]
    closed [OF assms, of "OP_AUTHORIZE_DERATING i ir why" now]
    closed [OF assms, of "OP_RECORD_ACTION_DISPATCH i" now] closed [OF assms, of "OP_RECORD_ACTION_ACK k" now]
    closed [OF assms, of "OP_RECORD_ACTION_RESULT x" now] closed [OF assms, of "OP_VERIFY_ACTION i ev" now]
    closed [OF assms, of "OP_CANCEL_ACTION i why" now] closed [OF assms, of OP_SHUTDOWN now]
  by simp_all

lemma closed_explain: "P g \<Longrightarrow> P (snd (explain now i g))"
proof -
  assume "P g"
  then have "P (snd (evaluate_domain now i g))" by (rule closed_operations)
  then show ?thesis by (auto simp: explain_def split: prod.split sum.split option.split)
qed

lemma closed_verify: "P g \<Longrightarrow> P (snd (verify_governed_action now i ev g))"
proof -
  assume g: "P g"
  obtain r g1 where e: "publish_temperature now ev g = (r, g1)" by (cases "publish_temperature now ev g")
  have "P (snd (publish_temperature now ev g))" by (rule closed_operations) (rule g)
  then have "P g1" by (simp add: e)
  then show ?thesis by (simp add: verify_governed_action_def e closed_operations split: sum.split)
qed

lemma closed_with_snapshot:
  "P (co_governor c) \<Longrightarrow> (\<And>s. P (co_governor (snd (f s)))) \<Longrightarrow> P (co_governor (snd (with_snapshot c f)))"
  by (simp add: with_snapshot_def split: option.split)

lemma closed_simple_verbs:
  assumes "P (co_governor c)"
  shows "P (co_governor (snd (verb_status c)))" "P (co_governor (snd (verb_epoch c)))"
    "P (co_governor (snd (verb_domains c)))" "P (co_governor (snd (verb_devices c)))"
    "P (co_governor (snd (verb_snapshot_info c)))" "P (co_governor (snd (verb_actions c)))"
    "P (co_governor (snd (verb_history c)))" "P (co_governor (snd (verb_admission ask args c)))"
  using assms
  by (simp_all add: verb_status_def verb_epoch_def verb_domains_def verb_devices_def verb_snapshot_info_def
      verb_actions_def verb_history_def verb_admission_def closed_with_snapshot split: option.split)

lemma closed_persist: "P (co_governor c) \<Longrightarrow> P (co_governor (snd (verb_persist vx c)))"
  by (simp add: verb_persist_def)

lemma closed_shutdown: "P (co_governor c) \<Longrightarrow> P (co_governor (snd (verb_shutdown vx c)))"
proof -
  assume "P (co_governor c)"
  then have g: "P (snd (shutdown (vx_now vx 0) (co_governor c)))" by (rule closed_operations)
  then have "P (co_governor (snd (shutdown_coordinator vx c)))"
    by (auto simp: shutdown_coordinator_def split: prod.split option.split)
  then show ?thesis by (simp add: verb_shutdown_def)
qed

lemma closed_changing_verbs:
  assumes "P (co_governor c)"
  shows "P (co_governor (snd (verb_explain vx args c)))" "P (co_governor (snd (verb_publish vx body c)))"
    "P (co_governor (snd (verb_register_device vx args c)))"
    "P (co_governor (snd (verb_register_domain vx args c)))"
    "P (co_governor (snd (verb_register_coupling vx args c)))"
    "P (co_governor (snd (verb_set_thresholds vx args c)))"
    "P (co_governor (snd (verb_worker_death vx args c)))"
    "P (co_governor (snd (verb_authorize vx derating args c)))"
    "P (co_governor (snd (verb_dispatch vx args c)))" "P (co_governor (snd (verb_cancel vx args c)))"
    "P (co_governor (snd (verb_verify vx args body c)))"
  using assms
  by (simp_all add: verb_explain_def verb_publish_def verb_register_device_def verb_register_domain_def
      verb_register_coupling_def verb_set_thresholds_def verb_worker_death_def verb_authorize_def
      verb_dispatch_def verb_cancel_def verb_verify_def Let_def closed_operations closed_explain closed_verify
      split: option.split sum.split list.split)

lemma closed_bumps:
  assumes "P (co_governor c)"
  shows "P (co_governor (snd (verb_bump_domain_generation vx args c)))"
    "P (co_governor (snd (verb_bump_device_generation vx args c)))"
  using assms
  by (simp_all add: verb_bump_domain_generation_def verb_bump_device_generation_def Let_def
      closed_operations closed_with_snapshot split: option.split)

lemma closed_query: "P (co_governor c) \<Longrightarrow> P (co_governor (snd (verb_query vx verb args c)))"
  by (simp add: verb_query_def Let_def closed_operations closed_with_snapshot split: option.split)

lemma closed_handle: "P (co_governor c) \<Longrightarrow> P (co_governor (snd (handle vx q c)))"
  by (simp add: handle_def handle_structured_def Let_def closed_simple_verbs closed_persist closed_shutdown
      closed_changing_verbs closed_bumps closed_query)

lemma closed_register_devices: "P g \<Longrightarrow> P (snd (register_devices vx k ds g))"
proof (induction vx k ds g rule: register_devices.induct)
  case (2 vx k d ds g)
  obtain r g1 where e: "register_device (vx_now vx k) d g = (r, g1)" by (cases "register_device (vx_now vx k) d g")
  have "P (snd (register_device (vx_now vx k) d g))" by (rule closed_operations) (rule 2(2))
  then show ?case using 2(1) [OF e [symmetric]] by (cases r) (simp_all add: e)
qed simp

lemma closed_hello: "P (co_governor c) \<Longrightarrow> P (co_governor (snd (step_hello vx data c)))"
proof -
  assume c: "P (co_governor c)"
  have "P (snd (register_hello vx w (co_governor c)))" for w
  proof -
    obtain r g1 where e: "register_worker (vx_now vx 0) (wr_worker w) (wr_boot w) (wr_label w) (co_governor c) = (r, g1)"
      by (cases "register_worker (vx_now vx 0) (wr_worker w) (wr_boot w) (wr_label w) (co_governor c)")
    have "P (snd (register_worker (vx_now vx 0) (wr_worker w) (wr_boot w) (wr_label w) (co_governor c)))"
      by (rule closed_operations) (rule c)
    then show ?thesis by (simp add: register_hello_def e closed_register_devices split: sum.split)
  qed
  then show ?thesis
    using c by (simp add: step_hello_def reply_step_def Let_def case_prod_beta split: sum.split)
qed

lemma closed_most_severe: "P g \<Longrightarrow> P (snd (most_severe vx k ds s g))"
proof (induction vx k ds s g rule: most_severe.induct)
  case (2 vx k d ds s g)
  obtain r g1 where e: "evaluate_domain (vx_now vx k) d g = (r, g1)" by (cases "evaluate_domain (vx_now vx k) d g")
  have "P (snd (evaluate_domain (vx_now vx k) d g))" by (rule closed_operations) (rule 2(3))
  then show ?case using 2 by (cases r) (simp_all add: e)
qed simp

lemma closed_summary: "P g \<Longrightarrow> P (snd (summarise_affected vx ids g))"
proof (cases ids)
  case (Cons d ds)
  assume "P g"
  then have "P (snd (evaluate_domain (vx_now vx 1) d g))" by (rule closed_operations)
  then show ?thesis
    using closed_most_severe
    by (simp add: summarise_affected_def Cons case_prod_beta del: most_severe.simps split: sum.split)
qed (simp add: summarise_affected_def)

lemma closed_step_publish: "P (co_governor c) \<Longrightarrow> P (co_governor (snd (step_publish vx data c)))"
proof -
  assume c: "P (co_governor c)"
  have "P (snd (publish_temperature (vx_now vx 0) ev (co_governor c)))" for ev
    by (rule closed_operations) (rule c)
  then show ?thesis
    using c closed_summary by (simp add: step_publish_def reply_step_def case_prod_beta split: sum.split)
qed

lemma closed_step_action:
  "P (co_governor c) \<Longrightarrow> (\<And>x. P (snd (record_it (co_governor c) x))) \<Longrightarrow>
     P (co_governor (snd (step_action decoded record_it c)))"
  by (simp add: step_action_def reply_step_def case_prod_beta split: sum.split)

lemma closed_step_query: "P (co_governor c) \<Longrightarrow> P (co_governor (snd (step_query vx data c)))"
  using closed_handle
  by (simp add: step_query_def reply_step_def case_prod_beta split: sum.split option.split)

lemma closed_step: "P (co_governor c) \<Longrightarrow> P (co_governor (snd (session_step vx kind data c)))"
  by (simp add: session_step_def closed_hello closed_step_publish closed_step_action closed_step_query
      closed_operations)

lemma closed_session: "P (co_governor c) \<Longrightarrow> P (co_governor (snd (run_session frames c)))"
proof (induction frames arbitrary: c)
  case (Cons f frames)
  obtain vx kind data where f: "f = (vx, kind, data)" by (cases f)
  obtain r c1 where e: "session_step vx kind data c = (r, c1)" by (cases "session_step vx kind data c")
  have "P (co_governor c1)" using closed_step [OF Cons.prems, of vx kind data] e by simp
  then show ?case using Cons.IH [of c1] by (simp add: f e case_prod_beta split: option.split)
qed simp

end

sublocale governor_invariant \<subseteq> operation_closed inv
  by unfold_locales (rule perform_inv, assumption, rule TrueI)

interpretation wire: operation_closed reachable
  by unfold_locales (rule performed)

end
