(* ===== verification/ReplyLaws.thy ===== *)
theory ReplyLaws
  imports CoordinatorLaws
begin

text \<open>
  What the coordinator's replies mean: which requests have no defined behaviour, which change
  nothing, what a success reply promises about the durable file, and what the summary of a
  published reading reports.
\<close>

section \<open>Requests without defined behaviour\<close>

definition has_reply :: "verb_outcome \<Rightarrow> bool" where
  "has_reply out \<longleftrightarrow> fst out \<noteq> None"

lemma outcome_defined [simp]:
  "has_reply (rejected e c)" "has_reply (answered r c)" "\<not> has_reply (undefined_behaviour c)"
  by (simp_all add: has_reply_def rejected_def answered_def undefined_behaviour_def)

lemma acknowledged_defined [simp]: "has_reply (acknowledged s m)"
  by (simp add: acknowledged_def split: prod.split sum.split)

lemma reply_after_defined [simp]: "has_reply (reply_after f op c)"
  by (simp add: reply_after_def split: prod.split sum.split)

lemma commit_after_defined [simp]: "has_reply (commit_after vx f op c)"
  by (simp add: commit_after_def split: prod.split sum.split)

lemma with_snapshot_defined:
  "has_snapshot (co_governor c) \<Longrightarrow> (\<And>s. has_reply (f s)) \<Longrightarrow> has_reply (with_snapshot c f)"
  by (auto simp: with_snapshot_def has_snapshot_def)

text \<open>The one request that reads past its arguments.\<close>

definition short_domain_arguments :: "string list \<Rightarrow> bool" where
  "short_domain_arguments args \<longleftrightarrow>
     length args = 6 \<and> parse_u64 (args ! 0) \<noteq> None \<and> parse_u64 (args ! 1) \<noteq> None \<and>
     parse_domain_type (args ! 2) \<noteq> None \<and> parse_provenance (args ! 3) \<noteq> None \<and>
     parse_aggregation (args ! 4) \<noteq> None"

definition short_domain_request :: "command_request \<Rightarrow> bool" where
  "short_domain_request q \<longleftrightarrow> cq_verb q = ''register-domain'' \<and> short_domain_arguments (cq_arguments q)"

lemma register_domain_defined:
  "has_reply (verb_register_domain vx args c) \<longleftrightarrow> \<not> short_domain_arguments args"
  by (auto simp: verb_register_domain_def short_domain_arguments_def split: option.split)

lemma simple_verbs_defined:
  assumes "has_snapshot (co_governor c)"
  shows "has_reply (verb_status c)" "has_reply (verb_epoch c)" "has_reply (verb_domains c)"
    "has_reply (verb_devices c)" "has_reply (verb_snapshot_info c)" "has_reply (verb_actions c)"
    "has_reply (verb_history c)" "has_reply (verb_persist vx c)" "has_reply (verb_shutdown vx c)"
  using assms
  by (simp_all add: verb_status_def verb_epoch_def verb_domains_def verb_devices_def verb_snapshot_info_def
      verb_actions_def verb_history_def verb_persist_def verb_shutdown_def with_snapshot_defined)

lemma structured_verbs_defined:
  "has_reply (verb_explain vx args c)" "has_reply (verb_publish vx body c)"
  "has_reply (verb_register_device vx args c)" "has_reply (verb_register_coupling vx args c)"
  "has_reply (verb_set_thresholds vx args c)" "has_reply (verb_worker_death vx args c)"
  "has_reply (verb_authorize vx derating args c)" "has_reply (verb_dispatch vx args c)"
  "has_reply (verb_cancel vx args c)" "has_reply (verb_verify vx args body c)"
  "has_reply (verb_admission ask args c)"
  by (simp_all add: verb_explain_def verb_publish_def verb_register_device_def verb_register_coupling_def
      verb_set_thresholds_def verb_worker_death_def verb_authorize_def verb_dispatch_def verb_cancel_def
      verb_verify_def verb_admission_def Let_def split: option.split sum.split list.split)

lemma snapshot_verbs_defined:
  assumes "has_snapshot (co_governor c)"
  shows "has_reply (verb_bump_domain_generation vx args c)"
    "has_reply (verb_bump_device_generation vx args c)" "has_reply (verb_query vx verb args c)"
  using assms
  by (simp_all add: verb_bump_domain_generation_def verb_bump_device_generation_def verb_query_def Let_def
      with_snapshot_defined split: option.split)

lemma handle_defined:
  assumes "has_snapshot (co_governor c)"
  shows "has_reply (handle vx q c) \<longleftrightarrow> \<not> short_domain_request q"
  using simple_verbs_defined [OF assms] structured_verbs_defined snapshot_verbs_defined [OF assms]
  by (simp add: handle_def handle_structured_def Let_def short_domain_request_def register_domain_defined)

section \<open>Requests that change nothing\<close>

definition read_only_verbs :: "string list" where
  "read_only_verbs =
     [''status'', ''epoch'', ''domains'', ''devices'', ''snapshot-info'', ''actions'', ''history'', ''domain'',
      ''headroom'', ''throttle'', ''recovery'', ''temperature'', ''device'', ''policy'', ''explain-admission'',
      ''admission'']"

lemma with_snapshot_unchanged: "(\<And>s. snd (f s) = c) \<Longrightarrow> snd (with_snapshot c f) = c"
  by (simp add: with_snapshot_def split: option.split)

lemma query_unchanged: "verb \<noteq> ''evaluate'' \<Longrightarrow> verb \<in> set query_verbs \<Longrightarrow> snd (verb_query vx verb args c) = c"
  by (auto simp: verb_query_def query_verbs_def Let_def with_snapshot_unchanged split: option.split)

lemma simple_verbs_unchanged:
  "snd (verb_status c) = c" "snd (verb_epoch c) = c" "snd (verb_domains c) = c" "snd (verb_devices c) = c"
  "snd (verb_snapshot_info c) = c" "snd (verb_actions c) = c" "snd (verb_history c) = c"
  "snd (verb_admission ask args c) = c"
  by (simp_all add: verb_status_def verb_epoch_def verb_domains_def verb_devices_def verb_snapshot_info_def
      verb_actions_def verb_history_def verb_admission_def with_snapshot_unchanged split: option.split)

lemma read_only_unchanged:
  assumes "cq_verb q \<in> set read_only_verbs"
  shows "snd (handle vx q c) = c"
proof -
  note plain = handle_def handle_structured_def Let_def simple_verbs_unchanged
  have "cq_verb q \<in> {''status'', ''epoch'', ''domains'', ''devices'', ''snapshot-info'', ''actions'', ''history''} \<or>
      cq_verb q \<in> set query_verbs - {''evaluate''} \<or> cq_verb q \<in> {''policy'', ''explain-admission'', ''admission''}"
    using assms by (simp add: read_only_verbs_def query_verbs_def)
  then consider
      "cq_verb q \<in> {''status'', ''epoch'', ''domains'', ''devices'', ''snapshot-info'', ''actions'', ''history''}"
    | "cq_verb q \<in> set query_verbs" "cq_verb q \<noteq> ''evaluate''"
    | "cq_verb q \<in> {''policy'', ''explain-admission'', ''admission''}" by blast
  then show ?thesis
  proof cases
    case 1
    then show ?thesis by (elim insertE emptyE) (simp_all add: plain)
  next
    case 2
    have "handle vx q c = verb_query vx (cq_verb q) (cq_arguments q) c"
      using 2(1) unfolding query_verbs_def set_simps
      by (elim insertE emptyE) (simp_all add: plain query_verbs_def)
    then show ?thesis using 2 by (simp add: query_unchanged)
  next
    case 3
    then show ?thesis by (elim insertE emptyE) (simp_all add: plain query_verbs_def)
  qed
qed

section \<open>A success reply is durable\<close>

definition file_holds_governor :: "coordinator \<Rightarrow> bool" where
  "file_holds_governor c \<longleftrightarrow>
     (\<exists>bytes. encode_durable_state default_persistence_limits (durable_of (co_governor c)) = Inr bytes \<and>
        co_files c (cf_durable_path (g_config (co_governor c))) = Some bytes)"

lemma reply_payload_success: "rep_payload (reply_fail e) = []"
  by (simp add: reply_fail_def)

lemma save_governor_success:
  assumes "save_governor vx c = (Inr u, c')"
  shows "file_holds_governor c'"
proof -
  obtain s where s: "persist (co_governor c) = Inr s"
    using assms by (cases "persist (co_governor c)") (simp_all add: save_governor_def)
  obtain r states where st: "store_save default_persistence_limits (cf_durable_path (g_config (co_governor c)))
      (vx_index vx) (vx_save vx) s (co_files c) = (r, states)" by fastforce
  have c': "r = success" "c' = c\<lparr>co_files := last states\<rparr>"
    using assms by (simp_all add: save_governor_def s st)
  have "s = durable_of (co_governor c)" using s by (simp add: persist_def split: if_splits)
  with store_save_success [of default_persistence_limits "cf_durable_path (g_config (co_governor c))"
      "vx_index vx" "vx_save vx" s "co_files c" states] st c'
  show ?thesis by (auto simp: file_holds_governor_def)
qed

lemma commit_after_durable:
  assumes "fst (commit_after vx f op c) = Some r" "rep_payload r \<noteq> []" "co_state_path c \<noteq> []"
  shows "file_holds_governor (snd (commit_after vx f op c))"
proof -
  obtain res g where e: "op (co_governor c) = (res, g)" by (cases "op (co_governor c)")
  obtain x where x: "res = Inr x"
    using assms(1,2) by (cases res) (auto simp: commit_after_def e rejected_def reply_payload_success)
  obtain st c' where p: "persist_now vx (c\<lparr>co_governor := g\<rparr>) = (st, c')" by fastforce
  obtain u where u: "st = Inr u"
    using assms(1,2)
    by (cases st) (auto simp: commit_after_def e x p acknowledged_def rejected_def reply_payload_success)
  have "save_governor vx (c\<lparr>co_governor := g\<rparr>) = (Inr u, c')"
    using p u assms(3) by (simp add: persist_now_def)
  then have "file_holds_governor c'" by (rule save_governor_success)
  then show ?thesis by (simp add: commit_after_def e x p u acknowledged_def)
qed

lemma rejected_empty: "fst (rejected e c) = Some r \<Longrightarrow> rep_payload r = []"
  by (auto simp: rejected_def reply_payload_success)

lemma with_snapshot_durable:
  assumes "\<And>s. fst (f s) = Some r \<Longrightarrow> file_holds_governor (snd (f s))" "fst (with_snapshot c f) = Some r"
  shows "file_holds_governor (snd (with_snapshot c f))"
  using assms by (auto simp: with_snapshot_def undefined_behaviour_def split: option.splits)

text \<open>The verbs whose success is acknowledged only after the save.\<close>

definition durable_verbs :: "string list" where
  "durable_verbs =
     [''register-device'', ''register-domain'', ''register-coupling'', ''set-thresholds'',
      ''bump-domain-generation'', ''bump-device-generation'', ''worker-death'', ''authorize-mitigation'',
      ''authorize-derating'', ''verify'', ''persist'']"

lemma durable_registration_verbs:
  assumes "rep_payload r \<noteq> []" "co_state_path c \<noteq> []"
  shows
    "fst (verb_register_device vx args c) = Some r \<Longrightarrow> file_holds_governor (snd (verb_register_device vx args c))"
    "fst (verb_register_domain vx args c) = Some r \<Longrightarrow> file_holds_governor (snd (verb_register_domain vx args c))"
    "fst (verb_register_coupling vx args c) = Some r \<Longrightarrow> file_holds_governor (snd (verb_register_coupling vx args c))"
    "fst (verb_set_thresholds vx args c) = Some r \<Longrightarrow> file_holds_governor (snd (verb_set_thresholds vx args c))"
    "fst (verb_worker_death vx args c) = Some r \<Longrightarrow> file_holds_governor (snd (verb_worker_death vx args c))"
    "fst (verb_authorize vx derating args c) = Some r \<Longrightarrow> file_holds_governor (snd (verb_authorize vx derating args c))"
    "fst (verb_verify vx args body c) = Some r \<Longrightarrow> file_holds_governor (snd (verb_verify vx args body c))"
  using assms commit_after_durable [OF _ assms]
  by (auto simp: verb_register_device_def verb_register_domain_def verb_register_coupling_def
      verb_set_thresholds_def verb_worker_death_def verb_authorize_def verb_verify_def Let_def
      undefined_behaviour_def dest: rejected_empty split: option.splits sum.splits if_splits)

lemma durable_other_verbs:
  assumes "rep_payload r \<noteq> []" "co_state_path c \<noteq> []"
  shows
    "fst (verb_bump_domain_generation vx args c) = Some r \<Longrightarrow>
       file_holds_governor (snd (verb_bump_domain_generation vx args c))"
    "fst (verb_bump_device_generation vx args c) = Some r \<Longrightarrow>
       file_holds_governor (snd (verb_bump_device_generation vx args c))"
    "fst (verb_persist vx c) = Some r \<Longrightarrow> file_holds_governor (snd (verb_persist vx c))"
proof -
  note durable = commit_after_durable [OF _ assms] and refused = rejected_empty
  show "fst (verb_bump_domain_generation vx args c) = Some r \<Longrightarrow>
      file_holds_governor (snd (verb_bump_domain_generation vx args c))"
    using assms(1)
    by (auto simp: verb_bump_domain_generation_def with_snapshot_def undefined_behaviour_def Let_def
        intro: durable dest: refused split: option.splits)
  show "fst (verb_bump_device_generation vx args c) = Some r \<Longrightarrow>
      file_holds_governor (snd (verb_bump_device_generation vx args c))"
    using assms(1)
    by (auto simp: verb_bump_device_generation_def with_snapshot_def undefined_behaviour_def Let_def
        intro: durable dest: refused split: option.splits)
  show "fst (verb_persist vx c) = Some r \<Longrightarrow> file_holds_governor (snd (verb_persist vx c))"
    using assms save_governor_success [of vx c]
    by (auto simp: verb_persist_def acknowledged_def persist_now_def dest: refused
        split: prod.splits sum.splits)
qed

lemma handle_durable:
  assumes verb: "cq_verb q \<in> set durable_verbs"
    and r: "fst (handle vx q c) = Some r" "rep_payload r \<noteq> []" "co_state_path c \<noteq> []"
  shows "file_holds_governor (snd (handle vx q c))"
proof -
  note verbs = durable_registration_verbs [OF r(2,3)] durable_other_verbs [OF r(2,3)]
  show ?thesis
    using verb r(1) verbs unfolding durable_verbs_def set_simps
    by (elim insertE emptyE) (simp_all add: handle_def handle_structured_def Let_def)
qed

text \<open>Every other verb but \<open>shutdown\<close> leaves the files as they are.\<close>

lemma reply_after_files: "co_files (snd (reply_after show_value op c)) = co_files c"
  by (simp add: reply_after_def rejected_def answered_def split: prod.split sum.split)

lemma with_snapshot_files:
  "(\<And>s. co_files (snd (f s)) = co_files c) \<Longrightarrow> co_files (snd (with_snapshot c f)) = co_files c"
  by (simp add: with_snapshot_def undefined_behaviour_def split: option.split)

lemma unsaved_verbs:
  "co_files (snd (verb_publish vx body c)) = co_files c" "co_files (snd (verb_dispatch vx args c)) = co_files c"
  "co_files (snd (verb_cancel vx args c)) = co_files c" "co_files (snd (verb_explain vx args c)) = co_files c"
  "co_files (snd (verb_query vx verb args c)) = co_files c"
  by (simp_all add: verb_publish_def verb_dispatch_def verb_cancel_def verb_explain_def verb_query_def Let_def
      reply_after_files with_snapshot_files rejected_def answered_def split: option.split sum.split list.split)

lemma handle_unsaved:
  assumes "cq_verb q \<notin> set durable_verbs" "cq_verb q \<noteq> ''shutdown''"
  shows "co_files (snd (handle vx q c)) = co_files c"
  using assms
  by (simp add: handle_def handle_structured_def Let_def durable_verbs_def simple_verbs_unchanged unsaved_verbs
      rejected_def answered_def)

section \<open>The summary of a published reading\<close>

text \<open>The evaluations the loop over the affected domains makes, in order.\<close>

fun evaluated :: "verb_context \<Rightarrow> nat \<Rightarrow> ident list \<Rightarrow> governor \<Rightarrow> evaluation list" where
  "evaluated vx k [] g = []"
| "evaluated vx k (d # ds) g =
     (case evaluate_domain (vx_now vx k) d g of
        (Inl _, g) \<Rightarrow> evaluated vx (Suc k) ds g
      | (Inr ev, g) \<Rightarrow> ev # evaluated vx (Suc k) ds g)"

lemma summarise_state [simp]: "es_state (summarise ev) = te_state ev"
  by (simp add: summarise_def)

lemma most_severe_max:
  "most_severe vx k ds s g = (s', g') \<Longrightarrow>
     s' \<in> insert s (summarise ` set (evaluated vx k ds g)) \<and> severity (es_state s) \<le> severity (es_state s') \<and>
     (\<forall>ev \<in> set (evaluated vx k ds g). severity (te_state ev) \<le> severity (es_state s'))"
proof (induction vx k ds s g rule: most_severe.induct)
  case (2 vx k d ds s g)
  obtain r g1 where e: "evaluate_domain (vx_now vx k) d g = (r, g1)" by (cases "evaluate_domain (vx_now vx k) d g")
  show ?case
  proof (cases r)
    case (Inl err)
    have "most_severe vx (Suc k) ds s g1 = (s', g')" using "2.prems" by (simp add: e Inl)
    with "2.IH"(1) [OF e [symmetric] Inl] show ?thesis by (simp add: e Inl)
  next
    case (Inr ev)
    have "most_severe vx (Suc k) ds
        (if severity (es_state s) < severity (te_state ev) then summarise ev else s) g1 = (s', g')"
      using "2.prems" by (simp add: e Inr)
    with "2.IH"(2) [OF e [symmetric] Inr] show ?thesis by (auto simp: e Inr split: if_splits)
  qed
qed simp

section \<open>Duplicates, partial registrations, shutdown\<close>

lemma unaccepted_publication:
  assumes "publish_temperature now e g = (Inr receipt, g')" "\<not> er_accepted receipt"
  shows "g' = g \<and> er_affected_domains receipt = []"
  using assms
  by (auto simp: publish_temperature_def publish_impl_def sequence_check_def Let_def
      split: sum.splits option.splits if_splits evidence_comparison.splits)

lemma duplicate_reply:
  assumes "decode_evidence data = Inr e"
    and "publish_temperature (vx_now vx 0) e (co_governor c) = (Inr receipt, g')" "\<not> er_accepted receipt"
  shows "step_publish vx data c = (Some \<lparr>ss_frames = [SF_RESPONSE MK_PUBLISH_ACK (reply_ok ''accepted=1''), SF_END],
    ss_continue = True, ss_stop = False\<rparr>, c)"
proof -
  have "g' = co_governor c" "er_affected_domains receipt = []"
    using unaccepted_publication [OF assms(2,3)] by simp_all
  then show ?thesis using assms(1,2) by (simp add: step_publish_def summarise_affected_def)
qed

lemma register_device_workers [simp]: "g_workers (snd (register_device now d g)) = g_workers g"
  by (simp add: register_device_def)

lemma register_devices_workers: "g_workers (snd (register_devices vx k ds g)) = g_workers g"
proof (induction vx k ds g rule: register_devices.induct)
  case (2 vx k d ds g)
  obtain r g1 where e: "register_device (vx_now vx k) d g = (r, g1)" by (cases "register_device (vx_now vx k) d g")
  have "g_workers g1 = g_workers g" using register_device_workers [of "vx_now vx k" d g] by (simp add: e)
  then show ?case using 2 [OF e [symmetric]] by (cases r) (simp_all add: e)
qed simp

lemma register_worker_enrols:
  assumes "register_worker now w b label g = (Inr u, g')"
  shows "\<exists>wk. map_of (g_workers g') w = Some wk \<and> wo_boot wk = b \<and> wo_alive wk \<and> wo_label wk = label"
  using assms
  by (auto simp: register_worker_def Let_def table_find_update split: option.splits if_splits)

lemma hello_refusal_keeps_worker:
  assumes "decode_worker_registration default_wire_limits data = Inr w"
    and "register_worker (vx_now vx 0) (wr_worker w) (wr_boot w) (wr_label w) (co_governor c) = (Inr u, g1)"
    and "register_devices vx 1 (wr_devices w) g1 = (Inl e, g2)"
  shows "step_hello vx data c = reply_step MK_HELLO_ACK
      \<lparr>rep_code = e, rep_payload = ''epoch='' @ unsigned_decimal (g_epoch g2)\<rparr> (c\<lparr>co_governor := g2\<rparr>) \<and>
    (\<exists>wk. map_of (g_workers g2) (wr_worker w) = Some wk \<and> wo_boot wk = wr_boot w \<and> wo_alive wk)"
proof -
  have "g_workers g2 = g_workers g1" using register_devices_workers [of vx 1 "wr_devices w" g1] assms(3) by simp
  then show ?thesis
    using register_worker_enrols [OF assms(2)] assms by (auto simp: step_hello_def register_hello_def Let_def)
qed

lemma shutdown_always_stops:
  assumes "decode_command default_wire_limits data = Inr q" "cq_verb q = ''shutdown''"
  shows "\<exists>r. step_query vx data c = (Some \<lparr>ss_frames = [SF_RESPONSE MK_QUERY_RESPONSE r, SF_END],
    ss_continue = False, ss_stop = True\<rparr>, snd (verb_shutdown vx c))"
proof -
  have h: "handle vx q c = verb_shutdown vx c" using assms(2) by (simp add: handle_def)
  obtain r c' where s: "verb_shutdown vx c = (r, c')" by (cases "verb_shutdown vx c")
  have "r \<noteq> None"
    using s acknowledged_defined [of "''shutdown''" "shutdown_coordinator vx c"]
    by (auto simp: verb_shutdown_def has_reply_def)
  then show ?thesis using assms s h by (auto simp: step_query_def)
qed

section \<open>Connections\<close>

lemma accept_split:
  "accept_connections bound (es @ es') threads =
     accept_connections bound es threads @
       accept_connections bound es' (threads + length (filter id (accept_connections bound es threads)))"
  by (induction bound es threads rule: accept_connections.induct) simp_all

lemma accept_full:
  "bound \<le> threads \<Longrightarrow>
     accept_connections bound es threads = replicate (count_list es CE_CONNECTED) False"
  by (induction bound es threads rule: accept_connections.induct) simp_all

lemma accept_count:
  "threads \<le> bound \<Longrightarrow>
     length (filter id (accept_connections bound es threads)) = min (count_list es CE_CONNECTED) (bound - threads)"
proof (induction bound es threads rule: accept_connections.induct)
  case (2 bound rest threads)
  then show ?case by (cases "bound \<le> threads") (auto simp: accept_full)
qed auto

lemma accept_exhausted:
  assumes "bound \<le> count_list es CE_CONNECTED"
  shows "accept_connections bound (es @ es') 0 =
    accept_connections bound es 0 @ replicate (count_list es' CE_CONNECTED) False"
  unfolding accept_split using accept_count [of 0 bound es] assms by (simp add: accept_full)

section \<open>Thresholds that are not numbers\<close>

lemma parse_double_nan: "parse_double ''nan'' = Some NaN"
  by code_simp

lemma parse_doubles_length: "parse_doubles xs = Some v \<Longrightarrow> length v = length xs"
  by (induction xs arbitrary: v) (auto split: option.splits)

lemma parse_doubles_update:
  "parse_doubles xs = Some v \<Longrightarrow> parse_double s = Some y \<Longrightarrow> parse_doubles (xs[i := s]) = Some (v[i := y])"
proof (induction xs arbitrary: v i)
  case (Cons x xs)
  then obtain a w where v: "parse_double x = Some a" "parse_doubles xs = Some w" "v = a # w"
    by (auto split: option.splits)
  show ?case using Cons.IH [OF v(2) Cons.prems(2)] v Cons.prems(2) by (cases i) simp_all
qed simp

lemma retuned_nan:
  "length v = 8 \<Longrightarrow> retuned_policy (v[5 := NaN]) n p =
     (retuned_policy v n p) \<lparr>pol_margins := (pol_margins (retuned_policy v n p)) \<lparr>mg_policy_safety := NaN\<rparr>\<rparr>"
  by (simp add: retuned_policy_def)

lemma nan_margin_valid:
  "validate_policy p = success \<Longrightarrow>
     validate_policy (p \<lparr>pol_margins := (pol_margins p) \<lparr>mg_policy_safety := NaN\<rparr>\<rparr>) = success"
  unfolding validate_policy_success_iff by simp

lemma set_policy_installs:
  assumes "set_policy now p g = (Inr n, g')"
  shows "validate_policy p = success" "map_of (g_policies g') (pol_id p) = Some p"
    "\<And>p'. validate_policy p' = success \<Longrightarrow> pol_id p' = pol_id p \<Longrightarrow> pol_generation p' = pol_generation p \<Longrightarrow>
       map_of (g_policies (snd (set_policy now p' g))) (pol_id p) = Some p'"
  using assms by (auto simp: set_policy_def Let_def table_find_update split: sum.splits if_splits option.splits)

lemma set_thresholds_nan:
  assumes "fst (verb_set_thresholds vx args c) = Some r" "rep_payload r \<noteq> []"
  shows "\<exists>p. map_of (g_policies (co_governor (snd (verb_set_thresholds vx (args[5 := ''nan'']) c)))) (pol_id p) = Some p \<and>
    mg_policy_safety (pol_margins p) = NaN"
proof -
  obtain v n p where ok: "\<not> length args < 12" "parse_doubles (take 8 args) = Some v"
      "parse_numbers (take 4 (drop 8 args)) = Some n" "get_policy 1 (co_governor c) = Inr p"
    using assms by (auto simp: verb_set_thresholds_def dest: rejected_empty split: if_splits option.splits sum.splits)
  let ?p = "retuned_policy v n p" and ?q = "retuned_policy (v[5 := NaN]) n p"
  have verb: "verb_set_thresholds vx args c = commit_after vx (\<lambda>generation. ''policy-generation='' @ unsigned_decimal generation)
      (set_policy (vx_now vx 0) ?p) c"
    by (simp add: verb_set_thresholds_def ok)
  obtain res g where e: "set_policy (vx_now vx 0) ?p (co_governor c) = (res, g)"
    by (cases "set_policy (vx_now vx 0) ?p (co_governor c)")
  obtain k where k: "res = Inr k"
    using assms by (cases res) (auto simp: verb commit_after_def e dest: rejected_empty)
  have len: "length v = 8" using parse_doubles_length [OF ok(2)] ok(1) by simp
  have q: "?q = ?p \<lparr>pol_margins := (pol_margins ?p) \<lparr>mg_policy_safety := NaN\<rparr>\<rparr>"
    by (rule retuned_nan) (rule len)
  have "validate_policy ?p = success" using set_policy_installs(1) e k by blast
  then have valid: "validate_policy ?q = success" unfolding q by (rule nan_margin_valid)
  have "parse_doubles (take 8 (args[5 := ''nan''])) = Some (v[5 := NaN])"
    using parse_doubles_update [OF ok(2) parse_double_nan, of 5] by (simp add: take_update_swap)
  then have verb': "verb_set_thresholds vx (args[5 := ''nan'']) c =
      commit_after vx (\<lambda>generation. ''policy-generation='' @ unsigned_decimal generation)
        (set_policy (vx_now vx 0) ?q) c"
    using ok by (simp add: verb_set_thresholds_def)
  have "map_of (g_policies (snd (set_policy (vx_now vx 0) ?q (co_governor c)))) (pol_id ?p) = Some ?q"
    by (rule set_policy_installs(3) [OF e [unfolded k] valid]) (simp_all add: q)
  then show ?thesis
    unfolding verb' commit_after_governor by (intro exI [of _ ?q]) (simp add: q)
qed

section \<open>The start of the process\<close>

lemma started_reachable:
  assumes "start_coordinator now loaded sockets o1 fs = Inr c"
  shows "reachable (co_governor c)"
proof -
  obtain g where g: "create now sockets (coordinator_config o1) = Inr g"
    using assms by (auto simp: start_coordinator_def split: sum.splits)
  then have r: "reachable g" by (rule created)
  have cf: "g_config g = coordinator_config o1"
    using g by (auto simp: create_def initial_governor_def split: if_splits)
  have path: "cf_durable_path (coordinator_config o1) = op_state_path o1"
    by (simp add: coordinator_config_def)
  define found where "found = (if store_exists (op_state_path o1) fs
    then Some (case store_load default_persistence_limits (op_state_path o1) fs of
      Inl e \<Rightarrow> Inl e | Inr r \<Rightarrow> Inr (lr_state r)) else None)"
  from performed [OF r, of loaded "OP_LOAD_DURABLE found"] have "reachable (snd (load_from_files loaded fs g))"
    by (simp add: load_from_files_def found_def cf path Let_def)
  then show ?thesis
    using assms r by (auto simp: start_coordinator_def g split: if_splits sum.splits prod.splits)
qed

end
