(* ===== verification/Cycle.thy ===== *)
theory Cycle
  imports Coupling
begin

text \<open>
  \<^verbatim>\<open>CouplingGraph::has_cycle\<close> of \<^verbatim>\<open>coupling.cpp\<close>: the iterative depth-first search over the
  coupled domains, with its three marks and its explicit stack of a node and the position in that
  node's successor list. It always ends, and it finds a cycle exactly when there is one.
\<close>

section \<open>The search\<close>

datatype mark = White | Grey | Black

type_synonym marks = "ident \<Rightarrow> mark"
type_synonym search_stack = "(ident \<times> nat) list"

text \<open>The adjacency list of a node, in edge order.\<close>

definition adjacency :: "coupling_graph \<Rightarrow> ident \<Rightarrow> ident list" where
  "adjacency edges n = map cr_destination (filter (\<lambda>e. cr_source e = n) edges)"

definition graph_nodes :: "coupling_graph \<Rightarrow> ident list" where
  "graph_nodes edges = sort (remdups (map cr_source edges @ map cr_destination edges))"

lemma adjacency_destination: "i < length (adjacency edges n) \<Longrightarrow> adjacency edges n ! i \<in> cr_destination ` set edges"
proof -
  assume "i < length (adjacency edges n)"
  then have "adjacency edges n ! i \<in> set (adjacency edges n)" by (rule nth_mem)
  then show ?thesis by (auto simp: adjacency_def)
qed

text \<open>The top of the stack is its head; \<^verbatim>\<open>++index\<close> is written before the mark is looked at.\<close>

function (sequential) depth_first ::
  "coupling_graph \<Rightarrow> marks \<Rightarrow> search_stack \<Rightarrow> bool \<times> marks" where
  "depth_first edges marks [] = (False, marks)"
| "depth_first edges marks ((node, index) # stack) =
     (if length (adjacency edges node) \<le> index
      then depth_first edges (marks(node := Black)) stack
      else
        let target = adjacency edges node ! index; stack = (node, Suc index) # stack
        in case marks target of
             Grey \<Rightarrow> (True, marks)
           | White \<Rightarrow> depth_first edges (marks(target := Grey)) ((target, 0) # stack)
           | Black \<Rightarrow> depth_first edges marks stack)"
  by pat_completeness auto

definition white_targets :: "coupling_graph \<Rightarrow> marks \<Rightarrow> ident set" where
  "white_targets edges marks = {d \<in> cr_destination ` set edges. marks d = White}"

definition unexplored :: "coupling_graph \<Rightarrow> search_stack \<Rightarrow> nat" where
  "unexplored edges stack = (\<Sum>(n, i) \<leftarrow> stack. length (adjacency edges n) - i)"

lemma white_targets_finite [simp]: "finite (white_targets edges marks)"
  by (simp add: white_targets_def)

lemma white_targets_mark:
  "m \<noteq> White \<Longrightarrow> card (white_targets edges (marks(n := m))) \<le> card (white_targets edges marks)"
  by (rule card_mono) (auto simp: white_targets_def split: if_splits)

lemma white_targets_visit:
  assumes "i < length (adjacency edges n)" "marks (adjacency edges n ! i) = White"
  shows "card (white_targets edges (marks(adjacency edges n ! i := Grey)))
    < card (white_targets edges marks)"
  by (rule psubset_card_mono)
    (use assms adjacency_destination [OF assms(1)] in \<open>auto simp: white_targets_def split: if_splits\<close>)

termination depth_first
proof (relation "measures
    [\<lambda>(edges, marks, stack). card (white_targets edges marks),
     \<lambda>(edges, marks, stack). unexplored edges stack,
     \<lambda>(edges, marks, stack). length stack]", goal_cases)
  case 1
  show ?case by simp
next
  case (2 edges marks node index stack)
  then show ?case
    using white_targets_mark [of Black edges marks node] by (auto simp: unexplored_def)
next
  case (3 edges marks node index stack target stack')
  then show ?case using white_targets_visit [of index edges node marks] by simp
next
  case (4 edges marks node index stack target stack')
  then show ?case by (simp add: unexplored_def)
qed

declare depth_first.simps(2) [simp del]

lemma depth_first_steps:
  "length (adjacency edges node) \<le> index \<Longrightarrow>
     depth_first edges marks ((node, index) # stack) = depth_first edges (marks(node := Black)) stack"
  "index < length (adjacency edges node) \<Longrightarrow> marks (adjacency edges node ! index) = Grey \<Longrightarrow>
     depth_first edges marks ((node, index) # stack) = (True, marks)"
  "index < length (adjacency edges node) \<Longrightarrow> marks (adjacency edges node ! index) = White \<Longrightarrow>
     depth_first edges marks ((node, index) # stack) =
       depth_first edges (marks(adjacency edges node ! index := Grey))
         ((adjacency edges node ! index, 0) # (node, Suc index) # stack)"
  "index < length (adjacency edges node) \<Longrightarrow> marks (adjacency edges node ! index) = Black \<Longrightarrow>
     depth_first edges marks ((node, index) # stack) =
       depth_first edges marks ((node, Suc index) # stack)"
  by (simp_all add: depth_first.simps(2) [of edges marks node index stack] Let_def)

fun cycle_from :: "coupling_graph \<Rightarrow> ident list \<Rightarrow> marks \<Rightarrow> bool" where
  "cycle_from edges [] marks = False"
| "cycle_from edges (start # nodes) marks =
     (if marks start \<noteq> White then cycle_from edges nodes marks
      else case depth_first edges (marks(start := Grey)) [(start, 0)] of
        (True, _) \<Rightarrow> True
      | (False, marks) \<Rightarrow> cycle_from edges nodes marks)"

definition has_cycle :: "coupling_graph \<Rightarrow> bool" where
  "has_cycle edges = cycle_from edges (graph_nodes edges) (\<lambda>_. White)"

section \<open>The search is correct\<close>

abbreviation coupling_edges :: "coupling_graph \<Rightarrow> (ident \<times> ident) set" where
  "coupling_edges edges \<equiv> edge_rel cr_source cr_destination edges"

lemma adjacency_edges: "m \<in> set (adjacency edges n) \<longleftrightarrow> (n, m) \<in> coupling_edges edges"
  by (auto simp: adjacency_def edge_rel_def)

text \<open>
  The stack is a path from its last node to its head; the successors a node has already passed are
  black, the one above it excepted.
\<close>

fun stack_ok :: "coupling_graph \<Rightarrow> ident set \<Rightarrow> ident option \<Rightarrow> search_stack \<Rightarrow> bool" where
  "stack_ok edges B upper [] \<longleftrightarrow> True"
| "stack_ok edges B upper ((n, i) # stack) \<longleftrightarrow>
     set (take i (adjacency edges n)) \<subseteq> B \<union> set_option upper \<and>
     (\<forall>m \<in> set_option upper. (n, m) \<in> coupling_edges edges) \<and> stack_ok edges B (Some n) stack"

definition closed_acyclic :: "coupling_graph \<Rightarrow> ident set \<Rightarrow> bool" where
  "closed_acyclic edges B \<longleftrightarrow>
     coupling_edges edges `` B \<subseteq> B \<and> (\<forall>n \<in> B. (n, n) \<notin> (coupling_edges edges)\<^sup>+)"

definition search_inv :: "coupling_graph \<Rightarrow> marks \<Rightarrow> search_stack \<Rightarrow> bool" where
  "search_inv edges marks stack \<longleftrightarrow>
     distinct (map fst stack) \<and> {n. marks n = Grey} = fst ` set stack \<and>
     stack_ok edges {n. marks n = Black} None stack \<and> closed_acyclic edges {n. marks n = Black}"

lemma stack_ok_mono: "stack_ok edges B upper stack \<Longrightarrow> B \<subseteq> B' \<Longrightarrow> stack_ok edges B' upper stack"
  by (induction edges B upper stack rule: stack_ok.induct) auto

lemma stack_ok_pop: "stack_ok edges B (Some n) stack \<Longrightarrow> stack_ok edges (insert n B) None stack"
  by (cases stack) (auto intro: stack_ok_mono)

lemma stack_path:
  "stack_ok edges B upper ((n, i) # stack) \<Longrightarrow> m \<in> fst ` set ((n, i) # stack) \<Longrightarrow>
     (m, n) \<in> (coupling_edges edges)\<^sup>*"
proof (induction stack arbitrary: n i upper)
  case Nil
  then show ?case by simp
next
  case (Cons x stack)
  obtain k j where x: "x = (k, j)" by (cases x)
  show ?case
  proof (cases "m = n")
    case False
    then have "m \<in> fst ` set ((k, j) # stack)" using Cons.prems(2) x by auto
    then have "(m, k) \<in> (coupling_edges edges)\<^sup>*"
      by (rule Cons.IH [rotated]) (use Cons.prems(1) x in auto)
    moreover have "(k, n) \<in> coupling_edges edges" using Cons.prems x by simp
    ultimately show ?thesis by (rule rtrancl_into_rtrancl)
  qed simp
qed

lemma closed_rtrancl: "R `` B \<subseteq> B \<Longrightarrow> (n, m) \<in> R\<^sup>* \<Longrightarrow> n \<in> B \<Longrightarrow> m \<in> B"
  by (rule Image_closed_trancl [THEN equalityD1, THEN subsetD]) auto

text \<open>A node whose successors are all black can turn black.\<close>

lemma closed_acyclic_insert:
  assumes B: "closed_acyclic edges B" and n: "n \<notin> B" "set (adjacency edges n) \<subseteq> B"
  shows "closed_acyclic edges (insert n B)"
proof -
  have "(n, n) \<notin> (coupling_edges edges)\<^sup>+"
  proof
    assume "(n, n) \<in> (coupling_edges edges)\<^sup>+"
    then obtain m where m: "(n, m) \<in> coupling_edges edges" "(m, n) \<in> (coupling_edges edges)\<^sup>*"
      by (auto dest: tranclD)
    then have "m \<in> B" using n(2) by (auto simp: adjacency_edges [symmetric])
    moreover have "coupling_edges edges `` B \<subseteq> B" using B by (simp add: closed_acyclic_def)
    ultimately have "n \<in> B" using m(2) by (blast intro: closed_rtrancl)
    with n(1) show False by contradiction
  qed
  then show ?thesis
    using B n(2) by (auto simp: closed_acyclic_def adjacency_edges [symmetric])
qed

lemma inv_pop:
  assumes inv: "search_inv edges marks ((node, index) # stack)"
    and "length (adjacency edges node) \<le> index"
  shows "search_inv edges (marks(node := Black)) stack"
proof -
  have node: "marks node = Grey" "node \<notin> fst ` set stack"
    using inv by (auto simp: search_inv_def)
  have black: "{n. (marks(node := Black)) n = Black} = insert node {n. marks n = Black}" by auto
  have "{n. (marks(node := Black)) n = Grey} = {n. marks n = Grey} - {node}" by auto
  then have "{n. (marks(node := Black)) n = Grey} = fst ` set stack"
    using inv node by (auto simp: search_inv_def)
  moreover have "closed_acyclic edges (insert node {n. marks n = Black})"
    by (rule closed_acyclic_insert) (use inv assms(2) node in \<open>simp_all add: search_inv_def\<close>)
  ultimately show ?thesis
    using inv unfolding search_inv_def black by (auto intro: stack_ok_pop)
qed

lemma take_next:
  "index < length xs \<Longrightarrow> set (take (Suc index) xs) = insert (xs ! index) (set (take index xs))"
  by (simp add: take_Suc_conv_app_nth)

lemma inv_advance:
  assumes "search_inv edges marks ((node, index) # stack)" "index < length (adjacency edges node)"
    and "marks (adjacency edges node ! index) = Black"
  shows "search_inv edges marks ((node, Suc index) # stack)"
  using assms by (auto simp: search_inv_def take_next)

lemma inv_push:
  assumes inv: "search_inv edges marks ((node, index) # stack)"
    and i: "index < length (adjacency edges node)"
    and white: "marks (adjacency edges node ! index) = White"
  shows "search_inv edges (marks(adjacency edges node ! index := Grey))
    ((adjacency edges node ! index, 0) # (node, Suc index) # stack)"
proof -
  let ?target = "adjacency edges node ! index"
  have black: "{n. (marks(?target := Grey)) n = Black} = {n. marks n = Black}" using white by auto
  have "{n. (marks(?target := Grey)) n = Grey} = insert ?target {n. marks n = Grey}" by auto
  moreover have "?target \<notin> fst ` set ((node, index) # stack)"
    using inv white unfolding search_inv_def by (metis mark.distinct(1) mem_Collect_eq)
  moreover have "(node, ?target) \<in> coupling_edges edges" using i by (simp add: adjacency_edges [symmetric])
  ultimately show ?thesis
    using inv unfolding search_inv_def black by (auto simp: take_next i)
qed

lemma grey_closes_cycle:
  assumes inv: "search_inv edges marks ((node, index) # stack)"
    and i: "index < length (adjacency edges node)"
    and grey: "marks (adjacency edges node ! index) = Grey"
  shows "\<exists>n. (n, n) \<in> (coupling_edges edges)\<^sup>+"
proof -
  let ?target = "adjacency edges node ! index"
  have "?target \<in> fst ` set ((node, index) # stack)" using inv grey by (auto simp: search_inv_def)
  then have "(?target, node) \<in> (coupling_edges edges)\<^sup>*"
    by (rule stack_path [where B = "{n. marks n = Black}" and upper = None and i = index and stack = stack,
          rotated])
      (use inv in \<open>simp add: search_inv_def\<close>)
  moreover have "(node, ?target) \<in> coupling_edges edges" using i by (simp add: adjacency_edges [symmetric])
  ultimately show ?thesis by (blast intro: rtrancl_into_trancl1)
qed

lemma depth_first_correct:
  assumes "search_inv edges marks stack" "depth_first edges marks stack = (found, marks')"
  shows "if found then \<exists>n. (n, n) \<in> (coupling_edges edges)\<^sup>+
    else search_inv edges marks' [] \<and> (\<forall>n. marks n \<noteq> White \<longrightarrow> marks' n = Black)"
  using assms
proof (induction edges marks stack rule: depth_first.induct)
  case (1 edges marks)
  then show ?case by (auto simp: search_inv_def) (metis (mono_tags) mark.exhaust)
next
  case (2 edges marks node index stack)
  show ?case
  proof (cases "length (adjacency edges node) \<le> index")
    case True
    have "depth_first edges (marks(node := Black)) stack = (found, marks')"
      using "2.prems"(2) True by (simp add: depth_first_steps)
    from "2.IH"(1) [OF True inv_pop [OF "2.prems"(1) True] this] show ?thesis by auto
  next
    case False
    then have i: "index < length (adjacency edges node)" by simp
    show ?thesis
    proof (cases "marks (adjacency edges node ! index)")
      case Grey
      then have "found" using "2.prems"(2) i by (simp add: depth_first_steps)
      then show ?thesis using grey_closes_cycle [OF "2.prems"(1) i Grey] by simp
    next
      case White
      have "depth_first edges (marks(adjacency edges node ! index := Grey))
          ((adjacency edges node ! index, 0) # (node, Suc index) # stack) = (found, marks')"
        using "2.prems"(2) i White by (simp add: depth_first_steps)
      from "2.IH"(2) [OF False refl refl White inv_push [OF "2.prems"(1) i White] this]
      show ?thesis by auto
    next
      case Black
      have "depth_first edges marks ((node, Suc index) # stack) = (found, marks')"
        using "2.prems"(2) i Black by (simp add: depth_first_steps)
      from "2.IH"(3) [OF False refl refl Black inv_advance [OF "2.prems"(1) i Black] this]
      show ?thesis by auto
    qed
  qed
qed

lemma inv_start:
  "search_inv edges marks [] \<Longrightarrow> marks start = White \<Longrightarrow>
     search_inv edges (marks(start := Grey)) [(start, 0)]"
proof -
  assume inv: "search_inv edges marks []" "marks start = White"
  have "{n. (marks(start := Grey)) n = Black} = {n. marks n = Black}" using inv(2) by auto
  moreover have "{n. (marks(start := Grey)) n = Grey} = insert start {n. marks n = Grey}" by auto
  ultimately show ?thesis using inv by (simp add: search_inv_def)
qed

lemma cycle_from_correct:
  assumes "search_inv edges marks []"
    and "\<forall>n \<in> fst ` coupling_edges edges. marks n = White \<longrightarrow> n \<in> set nodes"
  shows "cycle_from edges nodes marks \<longleftrightarrow> (\<exists>n. (n, n) \<in> (coupling_edges edges)\<^sup>+)"
  using assms
proof (induction edges nodes marks rule: cycle_from.induct)
  case (1 edges marks)
  have black: "marks n = Black" if "(n, m) \<in> (coupling_edges edges)\<^sup>+" for n m
  proof -
    have "n \<in> Domain (coupling_edges edges)" using that by (metis DomainI trancl_domain)
    then obtain k where "(n, k) \<in> coupling_edges edges" by auto
    then have "marks n \<noteq> White" using 1(2) by force
    moreover have "marks n \<noteq> Grey" using 1(1) by (auto simp: search_inv_def)
    ultimately show ?thesis by (cases "marks n") auto
  qed
  have "(n, n) \<notin> (coupling_edges edges)\<^sup>+" for n
  proof
    assume "(n, n) \<in> (coupling_edges edges)\<^sup>+"
    with black [OF this] show False using 1(1) by (simp add: search_inv_def closed_acyclic_def)
  qed
  then show ?case by simp
next
  case (2 edges start nodes marks)
  show ?case
  proof (cases "marks start = White")
    case False
    then show ?thesis using 2 by auto
  next
    case True
    obtain found marks' where run: "depth_first edges (marks(start := Grey)) [(start, 0)] = (found, marks')"
      by (cases "depth_first edges (marks(start := Grey)) [(start, 0)]")
    note result = depth_first_correct [OF inv_start [OF "2.prems"(1) True] run]
    show ?thesis
    proof (cases found)
      case True
      then show ?thesis using result run \<open>marks start = White\<close> by simp
    next
      case False
      have left: "n \<in> set nodes" if "n \<in> fst ` coupling_edges edges" "marks' n = White" for n
      proof -
        have "(marks(start := Grey)) n = White" using result False that(2) by (cases "(marks(start := Grey)) n") auto
        then show ?thesis using 2(4) that(1) by (auto split: if_splits)
      qed
      have "cycle_from edges nodes marks' \<longleftrightarrow> (\<exists>n. (n, n) \<in> (coupling_edges edges)\<^sup>+)"
        by (rule "2.IH"(2) [OF _ run [symmetric]]) (use True False result left in auto)
      then show ?thesis using run True False by simp
    qed
  qed
qed

lemma has_cycle_correct: "has_cycle edges \<longleftrightarrow> (\<exists>n. (n, n) \<in> (coupling_edges edges)\<^sup>+)"
  unfolding has_cycle_def
  by (rule cycle_from_correct)
    (auto simp: search_inv_def closed_acyclic_def graph_nodes_def edge_rel_def)

end
