(* ===== verification/Transport.thy ===== *)
theory Transport
  imports Frame
begin

text \<open>
  The transfers of \<^verbatim>\<open>transport.cpp\<close> above its system calls. What \<^verbatim>\<open>recv\<close> and \<^verbatim>\<open>send\<close> return is
  a script each operation consumes; the loops that make whole frames of partial transfers are the
  model. A frame is received the same however the network cuts it up.
\<close>

section \<open>Receiving\<close>

text \<open>
  The incoming direction of a socket: the pieces the coming calls of \<^verbatim>\<open>recv\<close> find, none of them
  empty, and how it ends. A piece longer than the request is delivered in parts. \<open>open\<close> is
  whether the handle is valid.
\<close>

record incoming =
  in_open :: bool
  in_pieces :: "u8 list list"
  in_fails :: bool

definition kTransferChunk :: nat where
  "kTransferChunk = 2 ^ 20"

text \<open>The bytes of one \<^verbatim>\<open>recv_some\<close>; none of them means that the peer has closed.\<close>

definition recv_some :: "nat \<Rightarrow> incoming \<Rightarrow> u8 list result \<times> incoming" where
  "recv_some n s =
     (if \<not> in_open s then (Inl E_TRANSPORT_CLOSED, s)
      else if n = 0 then (Inr [], s)
      else case in_pieces s of
        [] \<Rightarrow> (if in_fails s then Inl E_TRANSPORT_IO else Inr [], s)
      | piece # rest \<Rightarrow>
          let k = min n kTransferChunk; left = drop k piece
          in (Inr (take k piece), s\<lparr>in_pieces := (if left = [] then rest else left # rest)\<rparr>))"

lemma recv_some_length: "recv_some n s = (Inr got, s') \<Longrightarrow> length got \<le> n"
  by (auto simp: recv_some_def Let_def split: if_splits list.splits)

text \<open>The loop both parts of \<^verbatim>\<open>recv_frame\<close> run: exactly \<open>n\<close> bytes, or the error, or \<open>early\<close>.\<close>

function recv_exactly :: "error_code \<Rightarrow> nat \<Rightarrow> incoming \<Rightarrow> u8 list result \<times> incoming" where
  "recv_exactly early n s =
     (if n = 0 then (Inr [], s)
      else case recv_some n s of
        (Inl e, s) \<Rightarrow> (Inl e, s)
      | (Inr got, s) \<Rightarrow>
          if got = [] then (Inl early, s)
          else (case recv_exactly early (n - length got) s of
            (Inl e, s) \<Rightarrow> (Inl e, s)
          | (Inr rest, s) \<Rightarrow> (Inr (got @ rest), s)))"
  by pat_completeness auto
termination by (relation "measure (\<lambda>(early, n, s). n)") (auto dest: recv_some_length)

declare recv_exactly.simps [simp del]

definition recv_frame :: "nat \<Rightarrow> incoming \<Rightarrow> frame result \<times> incoming" where
  "recv_frame max_payload s =
     (case recv_exactly E_TRANSPORT_CLOSED kFrameHeaderSize s of
        (Inl e, s) \<Rightarrow> (Inl e, s)
      | (Inr header, s) \<Rightarrow>
        (case decode_frame_header max_payload header of
           Inl e \<Rightarrow> (Inl e, s)
         | Inr h \<Rightarrow>
           (case recv_exactly E_FRAME_TRUNCATED
                (kFrameOverhead + unat (fh_payload_length h) - kFrameHeaderSize) s of
              (Inl e, s) \<Rightarrow> (Inl e, s)
            | (Inr body, s) \<Rightarrow> (decode_frame max_payload (header @ body), s))))"

text \<open>
  \<^verbatim>\<open>read_group\<close> of \<^verbatim>\<open>tools/session.cpp\<close>: frames up to the terminator. The peer may never send one,
  so the loop takes fuel; \<open>None\<close> is a loop that has not ended.
\<close>

fun read_group :: "nat \<Rightarrow> nat \<Rightarrow> incoming \<Rightarrow> frame list \<Rightarrow> (status \<times> frame list \<times> incoming) option" where
  "read_group 0 max_payload s out = None"
| "read_group (Suc fuel) max_payload s out =
     (case recv_frame max_payload s of
        (Inl e, s) \<Rightarrow> Some (Inl e, out, s)
      | (Inr f, s) \<Rightarrow>
          if fm_kind f = MK_RESPONSE_END then Some (success, out, s)
          else read_group fuel max_payload s (out @ [f]))"

section \<open>Sending\<close>

text \<open>
  \<open>rcs\<close> is what the coming calls of \<^verbatim>\<open>send\<close> return; a call that accepts more than it was given does
  not happen. The result carries the bytes that went out; \<open>None\<close> is a script that is too short.
\<close>

function send_loop :: "int list \<Rightarrow> u8 list \<Rightarrow> (status \<times> u8 list) option" where
  "send_loop rcs data =
     (if data = [] then Some (success, [])
      else case rcs of
        [] \<Rightarrow> None
      | rc # rcs \<Rightarrow>
          if rc \<le> 0 then Some (Inl E_TRANSPORT_IO, [])
          else let k = min (nat rc) (min (length data) kTransferChunk)
            in (case send_loop rcs (drop k data) of
                  None \<Rightarrow> None | Some (r, out) \<Rightarrow> Some (r, take k data @ out)))"
  by pat_completeness auto
termination by (relation "measure (\<lambda>(rcs, data). length rcs)") auto

declare send_loop.simps [simp del]

definition send_all :: "bool \<Rightarrow> int list \<Rightarrow> u8 list \<Rightarrow> (status \<times> u8 list) option" where
  "send_all is_open rcs data =
     (if \<not> is_open then Some (Inl E_TRANSPORT_CLOSED, []) else send_loop rcs data)"

definition send_frame ::
  "bool \<Rightarrow> int list \<Rightarrow> message_kind \<Rightarrow> u32 \<Rightarrow> u8 list \<Rightarrow> (status \<times> u8 list) option" where
  "send_frame is_open rcs kind flags data =
     (case encode_frame kind flags data of
        Inl e \<Rightarrow> Some (Inl e, [])
      | Inr bytes \<Rightarrow> send_all is_open rcs bytes)"

text \<open>\<^verbatim>\<open>send_bytes\<close> and \<^verbatim>\<open>send_end\<close> of \<^verbatim>\<open>tools/session.cpp\<close>.\<close>

definition send_bytes ::
  "bool \<Rightarrow> int list \<Rightarrow> message_kind \<Rightarrow> u32 \<Rightarrow> u8 list \<Rightarrow> (status \<times> u8 list) option" where
  "send_bytes is_open rcs kind flags data = send_frame is_open rcs kind flags data"

definition send_end :: "bool \<Rightarrow> int list \<Rightarrow> (status \<times> u8 list) option" where
  "send_end is_open rcs = send_frame is_open rcs MK_RESPONSE_END 0 []"

section \<open>Fragmentation does not matter\<close>

definition wellformed :: "incoming \<Rightarrow> bool" where
  "wellformed s \<longleftrightarrow> in_open s \<and> [] \<notin> set (in_pieces s)"

definition pending :: "incoming \<Rightarrow> u8 list" where
  "pending s = concat (in_pieces s)"

lemma recv_some_pending:
  assumes "wellformed s" "0 < n" "pending s \<noteq> []"
  shows "\<exists>got s'. recv_some n s = (Inr got, s') \<and> got \<noteq> [] \<and> got @ pending s' = pending s \<and>
    wellformed s' \<and> in_fails s' = in_fails s"
proof -
  obtain piece rest where p: "in_pieces s = piece # rest" "piece \<noteq> []"
    using assms(1,3) by (cases "in_pieces s") (auto simp: pending_def wellformed_def)
  have k: "0 < min n kTransferChunk" using assms(2) by (simp add: kTransferChunk_def)
  define k where "k = min n kTransferChunk"
  have "take k piece \<noteq> []" using p(2) k by (simp add: k_def)
  then show ?thesis
    using assms(1,2) p
    by (auto simp: recv_some_def Let_def wellformed_def pending_def k_def [symmetric])
qed

lemma recv_exactly_enough:
  assumes "wellformed s" "n \<le> length (pending s)"
  shows "\<exists>s'. recv_exactly early n s = (Inr (take n (pending s)), s') \<and> pending s' = drop n (pending s) \<and>
    wellformed s' \<and> in_fails s' = in_fails s"
  using assms
proof (induction early n s rule: recv_exactly.induct)
  case (1 early n s)
  show ?case
  proof (cases "n = 0")
    case False
    then have "pending s \<noteq> []" using "1.prems"(2) by auto
    then obtain got s' where g: "recv_some n s = (Inr got, s')" "got \<noteq> []" "got @ pending s' = pending s"
        "wellformed s'" "in_fails s' = in_fails s"
      using recv_some_pending [of s n] "1.prems"(1) False by auto
    have len: "length got \<le> n" by (rule recv_some_length [OF g(1)])
    have "n - length got \<le> length (pending s')" using "1.prems"(2) g(3) by (metis diff_le_mono length_append add_diff_cancel_left')
    from "1.IH" [OF False g(1) [symmetric] refl g(2) g(4) this] obtain s2 where
      "recv_exactly early (n - length got) s' = (Inr (take (n - length got) (pending s')), s2)"
      "pending s2 = drop (n - length got) (pending s')" "wellformed s2" "in_fails s2 = in_fails s'"
      by auto
    then show ?thesis
      using False g len by (subst recv_exactly.simps) (simp add: g(3) [symmetric])
  qed (use "1.prems" in \<open>simp add: recv_exactly.simps\<close>)
qed

lemma recv_exactly_short:
  assumes "wellformed s" "length (pending s) < n"
  shows "\<exists>s'. recv_exactly early n s = (Inl (if in_fails s then E_TRANSPORT_IO else early), s')"
  using assms
proof (induction early n s rule: recv_exactly.induct)
  case (1 early n s)
  then have n: "n \<noteq> 0" by auto
  show ?case
  proof (cases "pending s = []")
    case True
    then have "in_pieces s = []"
      using "1.prems"(1) by (cases "in_pieces s") (auto simp: pending_def wellformed_def)
    then show ?thesis
      using "1.prems"(1) n by (subst recv_exactly.simps) (simp add: recv_some_def wellformed_def)
  next
    case False
    then obtain got s' where g: "recv_some n s = (Inr got, s')" "got \<noteq> []" "got @ pending s' = pending s"
        "wellformed s'" "in_fails s' = in_fails s"
      using recv_some_pending [of s n] "1.prems"(1) n by auto
    have "length got + length (pending s') < n" using "1.prems"(2) g(3) by (metis length_append)
    then have "length (pending s') < n - length got" by simp
    from "1.IH" [OF n g(1) [symmetric] refl g(2) g(4) this] show ?thesis
      using n g by (subst recv_exactly.simps) auto
  qed
qed

lemma header_of_frame:
  assumes "decode_frame max_payload bytes = Inr f"
  shows "\<exists>h. decode_frame_header max_payload (take kFrameHeaderSize bytes) = Inr h \<and>
    length bytes = kFrameOverhead + unat (fh_payload_length h)"
proof -
  obtain h where h: "decode_frame_header max_payload bytes = Inr h"
    using assms by (auto simp: decode_frame_def split: if_splits sum.splits)
  have len: "24 \<le> length bytes" by (rule decoded_frame(1) [OF assms])
  have "get_u32 n (take 20 bytes) = get_u32 n bytes" if "n \<le> 16" for n
    using that by (simp add: get_u32_def drop_take min_def)
  moreover have "get_u16 n (take 20 bytes) = get_u16 n bytes" if "n \<le> 16" for n
    using that by (simp add: get_u16_def drop_take min_def)
  ultimately have "decode_frame_header max_payload (take kFrameHeaderSize bytes) = Inr h"
    using h len by (simp add: decode_frame_header_def frame_sizes min_def split: if_splits)
  moreover have "length bytes = kFrameOverhead + unat (fh_payload_length h)"
    using decoded_frame_length(1) [OF assms] decoded_frame_header [OF h] by (simp add: frame_sizes)
  ultimately show ?thesis by blast
qed

text \<open>A frame at the front of what is pending is received whole, whatever the pieces.\<close>

lemma recv_frame_intact:
  assumes "wellformed s" "pending s = bytes @ rest" "decode_frame max_payload bytes = Inr f"
  shows "\<exists>s'. recv_frame max_payload s = (Inr f, s') \<and> pending s' = rest \<and> wellformed s' \<and>
    in_fails s' = in_fails s"
proof -
  obtain h where h: "decode_frame_header max_payload (take kFrameHeaderSize bytes) = Inr h"
      "length bytes = kFrameOverhead + unat (fh_payload_length h)"
    using header_of_frame [OF assms(3)] by blast
  have header: "kFrameHeaderSize \<le> length bytes" using h(2) by (simp add: frame_sizes)
  obtain s1 where s1: "recv_exactly E_TRANSPORT_CLOSED kFrameHeaderSize s = (Inr (take kFrameHeaderSize bytes), s1)"
      "pending s1 = drop kFrameHeaderSize bytes @ rest" "wellformed s1" "in_fails s1 = in_fails s"
    using recv_exactly_enough [OF assms(1), of kFrameHeaderSize E_TRANSPORT_CLOSED] assms(2) header by auto
  let ?n = "kFrameOverhead + unat (fh_payload_length h) - kFrameHeaderSize"
  have n: "?n = length (drop kFrameHeaderSize bytes)" using h(2) by simp
  obtain s2 where s2: "recv_exactly E_FRAME_TRUNCATED ?n s1 = (Inr (drop kFrameHeaderSize bytes), s2)"
      "pending s2 = rest" "wellformed s2" "in_fails s2 = in_fails s1"
    using recv_exactly_enough [OF s1(3), of ?n E_FRAME_TRUNCATED] s1(2) unfolding n by auto
  show ?thesis
    using s1 s2 h assms(3) by (simp add: recv_frame_def)
qed

text \<open>A connection that ends inside a frame never yields one.\<close>

lemma recv_frame_truncated:
  assumes "wellformed s" "decode_frame max_payload bytes = Inr f" "pending s = take n bytes" "n < length bytes"
  shows "\<exists>s'. recv_frame max_payload s = (Inl (if in_fails s then E_TRANSPORT_IO
    else if n < kFrameHeaderSize then E_TRANSPORT_CLOSED else E_FRAME_TRUNCATED), s')"
proof -
  obtain h where h: "decode_frame_header max_payload (take kFrameHeaderSize bytes) = Inr h"
      "length bytes = kFrameOverhead + unat (fh_payload_length h)"
    using header_of_frame [OF assms(2)] by blast
  have len: "length (pending s) = n" using assms(3,4) by simp
  show ?thesis
  proof (cases "n < kFrameHeaderSize")
    case True
    then show ?thesis
      using recv_exactly_short [OF assms(1), of kFrameHeaderSize E_TRANSPORT_CLOSED] len
      by (auto simp: recv_frame_def)
  next
    case False
    then have header: "kFrameHeaderSize \<le> length (pending s)" using len by simp
    obtain s1 where s1: "recv_exactly E_TRANSPORT_CLOSED kFrameHeaderSize s = (Inr (take kFrameHeaderSize bytes), s1)"
        "length (pending s1) = n - kFrameHeaderSize" "wellformed s1" "in_fails s1 = in_fails s"
      using recv_exactly_enough [OF assms(1) header, of E_TRANSPORT_CLOSED] assms(3) False len
      by (auto simp: min_def)
    let ?n = "kFrameOverhead + unat (fh_payload_length h) - kFrameHeaderSize"
    have "length (pending s1) < ?n" using s1(2) False assms(4) h(2) by linarith
    from recv_exactly_short [OF s1(3) this, of E_FRAME_TRUNCATED] show ?thesis
      using s1 h False by (auto simp: recv_frame_def)
  qed
qed

text \<open>A group of frames followed by its terminator is read back as it was sent.\<close>

lemma read_group_intact:
  assumes "wellformed s" "pending s = concat parts @ terminator @ rest"
    and "list_all2 (\<lambda>bytes f. decode_frame max_payload bytes = Inr f \<and> fm_kind f \<noteq> MK_RESPONSE_END) parts fs"
    and "decode_frame max_payload terminator = Inr e" "fm_kind e = MK_RESPONSE_END"
    and "length parts < fuel"
  shows "\<exists>s'. read_group fuel max_payload s out = Some (success, out @ fs, s') \<and> pending s' = rest \<and> wellformed s'"
  using assms(3,1,2,6)
proof (induction parts fs arbitrary: s out fuel rule: list_all2_induct)
  case Nil
  then obtain n where fuel: "fuel = Suc n" by (cases fuel) auto
  have "pending s = terminator @ rest" using Nil by simp
  from recv_frame_intact [OF Nil(1) this assms(4)] show ?case
    using assms(5) by (auto simp: fuel)
next
  case (Cons bytes parts f fs)
  then obtain n where fuel: "fuel = Suc n" by (cases fuel) auto
  have "pending s = bytes @ concat parts @ terminator @ rest" using Cons by simp
  from recv_frame_intact [OF Cons(4) this] Cons(1) obtain s1 where
    s1: "recv_frame max_payload s = (Inr f, s1)" "pending s1 = concat parts @ terminator @ rest" "wellformed s1"
    by blast
  have "length parts < n" using Cons.prems(3) fuel by simp
  from Cons.IH [OF s1(3,2) this, of "out @ [f]"] show ?case
    using Cons(1) s1(1) by (auto simp: fuel)
qed

section \<open>Reading a group ends\<close>

text \<open>Every frame takes at least its overhead off the stream, so a finite stream ends the loop.\<close>

lemma recv_some_takes: "recv_some n s = (Inr got, s') \<Longrightarrow> pending s = got @ pending s'"
  by (auto simp: recv_some_def pending_def Let_def split: if_splits list.splits)

lemma recv_exactly_takes:
  "recv_exactly early n s = (Inr got, s') \<Longrightarrow> length got = n \<and> pending s = got @ pending s'"
proof (induction early n s arbitrary: got s' rule: recv_exactly.induct)
  case (1 early n s)
  show ?case
  proof (cases "n = 0")
    case True
    then show ?thesis using "1.prems" by (simp add: recv_exactly.simps)
  next
    case False
    then obtain piece s1 rest where r: "recv_some n s = (Inr piece, s1)" "piece \<noteq> []"
        "recv_exactly early (n - length piece) s1 = (Inr rest, s')" "got = piece @ rest"
      using "1.prems" by (subst (asm) recv_exactly.simps) (auto split: prod.splits sum.splits if_splits)
    have "length rest = n - length piece \<and> pending s1 = rest @ pending s'"
      by (rule "1.IH" [OF False r(1) [symmetric] refl r(2,3)])
    then show ?thesis using recv_some_length [OF r(1)] recv_some_takes [OF r(1)] r(4) by simp
  qed
qed

lemma recv_frame_consumes:
  assumes "recv_frame max_payload s = (Inr f, s')"
  shows "kFrameOverhead + length (pending s') \<le> length (pending s)"
proof -
  obtain x s1 where a: "recv_exactly E_TRANSPORT_CLOSED kFrameHeaderSize s = (x, s1)" by fastforce
  then obtain header where x: "x = Inr header" using assms by (cases x) (simp_all add: recv_frame_def)
  obtain h where h: "decode_frame_header max_payload header = Inr h"
    using assms a x by (auto simp: recv_frame_def split: sum.splits)
  obtain y s2 where b: "recv_exactly E_FRAME_TRUNCATED
      (kFrameOverhead + unat (fh_payload_length h) - kFrameHeaderSize) s1 = (y, s2)" by fastforce
  then obtain body where "y = Inr body" "s2 = s'"
    using assms a x h by (cases y) (simp_all add: recv_frame_def)
  note r = a [unfolded x] b [unfolded this]
  show ?thesis
    using recv_exactly_takes [OF r(1)] recv_exactly_takes [OF r(2)] by (simp add: frame_sizes)
qed

lemma read_group_ends:
  "length (pending s) div kFrameOverhead < fuel \<Longrightarrow>
     \<exists>r. \<forall>more_fuel. read_group (fuel + more_fuel) max_payload s out = Some r"
proof (induction fuel arbitrary: s out)
  case (Suc fuel)
  obtain r s1 where e: "recv_frame max_payload s = (r, s1)" by (cases "recv_frame max_payload s")
  show ?case
  proof (cases r)
    case (Inr f)
    have "kFrameOverhead + length (pending s1) \<le> length (pending s)"
      using recv_frame_consumes e Inr by simp
    then have "(kFrameOverhead + length (pending s1)) div kFrameOverhead \<le> length (pending s) div kFrameOverhead"
      by (rule div_le_mono)
    then have "length (pending s1) div kFrameOverhead < fuel"
      using Suc.prems by (simp add: frame_sizes)
    from Suc.IH [OF this, of "out @ [f]"] obtain r' where
      "\<forall>more_fuel. read_group (fuel + more_fuel) max_payload s1 (out @ [f]) = Some r'" by blast
    then show ?thesis
      by (intro exI [of _ "if fm_kind f = MK_RESPONSE_END then (success, out, s1) else r'"]) (simp add: e Inr)
  qed (simp add: e)
qed simp

section \<open>Sending is complete or fails\<close>

lemma send_loop_result:
  "send_loop rcs data = Some (r, out) \<Longrightarrow> (\<exists>rest. data = out @ rest \<and> (r = success \<longrightarrow> rest = []))"
proof (induction rcs data arbitrary: r out rule: send_loop.induct)
  case (1 rcs data)
  show ?case
  proof (cases "data = []")
    case True
    then show ?thesis using "1.prems" by (simp add: send_loop.simps)
  next
    case False
    then obtain rc rcs' where rcs: "rcs = rc # rcs'" using "1.prems" by (cases rcs) (auto simp: send_loop.simps)
    show ?thesis
    proof (cases "rc \<le> 0")
      case True
      then show ?thesis using "1.prems" False rcs by (auto simp: send_loop.simps)
    next
      case pos: False
      define k where "k = min (nat rc) (min (length data) kTransferChunk)"
      obtain out' where o: "send_loop rcs' (drop k data) = Some (r, out')" "out = take k data @ out'"
        using "1.prems" False rcs pos
        by (subst (asm) send_loop.simps) (auto simp: Let_def k_def split: option.splits)
      obtain rest where "drop k data = out' @ rest" "r = success \<longrightarrow> rest = []"
        using "1.IH" [OF False rcs pos k_def o(1)] by blast
      then show ?thesis using o(2) by (metis append.assoc append_take_drop_id)
    qed
  qed
qed

end
