(* ===== verification/Sockets.thy ===== *)
theory Sockets
  imports Transport "HOL-Library.Multiset"
begin

text \<open>
  The sockets of \<^verbatim>\<open>transport.cpp\<close> as resources: the descriptors the system holds open for the
  process, the reference count of the socket runtime and the \<^verbatim>\<open>TcpSocket\<close> and \<^verbatim>\<open>TcpListener\<close>
  objects that own them. What the system calls return is the script of an operation.
\<close>

section \<open>The runtime\<close>

text \<open>The reference count; \<open>started\<close> is whether \<^verbatim>\<open>WSAStartup\<close> succeeds where it is called.\<close>

record socket_runtime =
  sk_users :: nat
  sk_ready :: bool

definition runtime_ensure :: "bool \<Rightarrow> socket_runtime \<Rightarrow> status \<times> socket_runtime" where
  "runtime_ensure started r =
     (if sk_users r = 0
      then if \<not> started then (Inl E_TRANSPORT_IO, r)
           else (success, \<lparr>sk_users = 1, sk_ready = True\<rparr>)
      else (success, r\<lparr>sk_users := sk_users r + 1\<rparr>))"

definition runtime_release :: "socket_runtime \<Rightarrow> socket_runtime" where
  "runtime_release r =
     (if sk_users r = 0 then r
      else let r = r\<lparr>sk_users := sk_users r - 1\<rparr>
        in if sk_users r = 0 \<and> sk_ready r then r\<lparr>sk_ready := False\<rparr> else r)"

section \<open>Objects\<close>

text \<open>
  A socket or a listener: its handle when it is valid, and the bound port of a listener. The
  objects of the process are numbered in the order of their construction; one that was destroyed
  stays as a closed object. \<open>pr_governors\<close> counts the governors that were created and not shut down.
\<close>

record net_object =
  no_listener :: bool
  no_handle :: "nat option"
  no_port :: u16

record process =
  pr_runtime :: socket_runtime
  pr_governors :: nat
  pr_native :: "nat list"
  pr_objects :: "net_object list"

definition fresh_process :: process where
  "fresh_process = \<lparr>pr_runtime = \<lparr>sk_users = 0, sk_ready = False\<rparr>, pr_governors = 0, pr_native = [], pr_objects = []\<rparr>"

definition close_native :: "nat \<Rightarrow> nat list \<Rightarrow> nat list" where
  "close_native h native = remove1 h native"

definition invalidated :: "net_object \<Rightarrow> net_object" where
  "invalidated x = x\<lparr>no_handle := None, no_port := 0\<rparr>"

text \<open>\<^verbatim>\<open>close\<close>, which the destructors call as well.\<close>

definition object_close :: "nat \<Rightarrow> process \<Rightarrow> process" where
  "object_close i p =
     (let x = pr_objects p ! i
      in case no_handle x of
           None \<Rightarrow> p
         | Some h \<Rightarrow>
             p\<lparr>pr_native := close_native h (pr_native p), pr_objects := (pr_objects p)[i := invalidated x],
               pr_runtime := runtime_release (pr_runtime p)\<rparr>)"

text \<open>The move constructor and the move assignment to object \<open>i\<close>, from object \<open>j\<close>.\<close>

definition object_move :: "nat \<Rightarrow> process \<Rightarrow> process" where
  "object_move j p =
     (let x = pr_objects p ! j in p\<lparr>pr_objects := (pr_objects p)[j := invalidated x] @ [x]\<rparr>)"

definition object_assign :: "nat \<Rightarrow> nat \<Rightarrow> process \<Rightarrow> process" where
  "object_assign i j p =
     (if i = j then p
      else let p = object_close i p; x = pr_objects p ! j
        in p\<lparr>pr_objects := (pr_objects p)[i := x, j := invalidated x]\<rparr>)"

definition new_object :: "net_object \<Rightarrow> process \<Rightarrow> process" where
  "new_object x p = p\<lparr>pr_objects := pr_objects p @ [x]\<rparr>"

text \<open>A failure path gives the reference back.\<close>

definition give_up :: "process \<Rightarrow> status \<times> process" where
  "give_up p = (Inl E_TRANSPORT_IO, p\<lparr>pr_runtime := runtime_release (pr_runtime p)\<rparr>)"

text \<open>
  A governor takes a reference when it is created and gives it back when it is shut down for the
  first time; its destructor does not.
\<close>

definition governor_start :: "bool \<Rightarrow> process \<Rightarrow> status \<times> process" where
  "governor_start started p =
     (case runtime_ensure started (pr_runtime p) of
        (Inl e, r) \<Rightarrow> (Inl e, p\<lparr>pr_runtime := r\<rparr>)
      | (Inr _, r) \<Rightarrow> (success, p\<lparr>pr_runtime := r, pr_governors := pr_governors p + 1\<rparr>))"

definition governor_stop :: "process \<Rightarrow> process" where
  "governor_stop p = p\<lparr>pr_runtime := runtime_release (pr_runtime p), pr_governors := pr_governors p - 1\<rparr>"

section \<open>Connecting\<close>

text \<open>An address of the name resolution: what \<^verbatim>\<open>socket\<close> returns and whether \<^verbatim>\<open>connect\<close> succeeds.\<close>

record candidate =
  cd_socket :: "nat option"
  cd_connected :: bool

fun try_candidates :: "candidate list \<Rightarrow> nat list \<Rightarrow> nat option \<times> nat list" where
  "try_candidates [] native = (None, native)"
| "try_candidates (c # cs) native =
     (case cd_socket c of
        None \<Rightarrow> try_candidates cs native
      | Some h \<Rightarrow>
          if cd_connected c then (Some h, h # native)
          else try_candidates cs (close_native h (h # native)))"

text \<open>\<open>resolved\<close> is the outcome of \<^verbatim>\<open>getaddrinfo\<close>. The socket is the newest object.\<close>

definition connect_to :: "bool \<Rightarrow> candidate list option \<Rightarrow> process \<Rightarrow> status \<times> process" where
  "connect_to started resolved p =
     (case runtime_ensure started (pr_runtime p) of
        (Inl e, r) \<Rightarrow> (Inl e, p\<lparr>pr_runtime := r\<rparr>)
      | (Inr _, r) \<Rightarrow>
        let p = p\<lparr>pr_runtime := r\<rparr>
        in case resolved of
             None \<Rightarrow> give_up p
           | Some cs \<Rightarrow>
             (case try_candidates cs (pr_native p) of
                (None, native) \<Rightarrow> give_up (p\<lparr>pr_native := native\<rparr>)
              | (Some h, native) \<Rightarrow>
                  (success, new_object \<lparr>no_listener = False, no_handle = Some h, no_port = 0\<rparr>
                     (p\<lparr>pr_native := native\<rparr>))))"

section \<open>Listening\<close>

text \<open>What \<^verbatim>\<open>socket\<close>, \<^verbatim>\<open>bind\<close>, \<^verbatim>\<open>listen\<close> and \<^verbatim>\<open>getsockname\<close> return.\<close>

record bind_script =
  bi_socket :: "nat option"
  bi_bound :: bool
  bi_listening :: bool
  bi_name :: "u16 option"

definition bind_loopback :: "bool \<Rightarrow> bind_script \<Rightarrow> process \<Rightarrow> status \<times> process" where
  "bind_loopback started x p =
     (case runtime_ensure started (pr_runtime p) of
        (Inl e, r) \<Rightarrow> (Inl e, p\<lparr>pr_runtime := r\<rparr>)
      | (Inr _, r) \<Rightarrow>
        let p = p\<lparr>pr_runtime := r\<rparr>
        in case bi_socket x of
             None \<Rightarrow> give_up p
           | Some h \<Rightarrow>
             let p = p\<lparr>pr_native := h # pr_native p\<rparr>;
                 closed = p\<lparr>pr_native := close_native h (pr_native p)\<rparr>
             in if \<not> bi_bound x then give_up closed
                else if \<not> bi_listening x then give_up closed
                else case bi_name x of
                  None \<Rightarrow> give_up closed
                | Some port \<Rightarrow>
                    (success, new_object \<lparr>no_listener = True, no_handle = Some h, no_port = port\<rparr> p))"

text \<open>
  One round of the accept loop: the stop flag, what \<^verbatim>\<open>select\<close> and \<^verbatim>\<open>accept\<close> return and whether the
  runtime could be started. \<open>None\<close> is a listener that is still waiting when the script ends.
\<close>

record accept_round =
  ar_stopped :: bool
  ar_ready :: int
  ar_accepted :: "nat option"
  ar_started :: bool

fun accept_loop :: "accept_round list \<Rightarrow> process \<Rightarrow> (status \<times> process) option" where
  "accept_loop [] p = None"
| "accept_loop (x # rest) p =
     (if ar_stopped x then Some (Inl E_TRANSPORT_CLOSED, p)
      else if ar_ready x < 0 then Some (Inl E_TRANSPORT_IO, p)
      else if ar_ready x = 0 then accept_loop rest p
      else case ar_accepted x of
        None \<Rightarrow> Some (Inl E_TRANSPORT_IO, p)
      | Some h \<Rightarrow>
        let p = p\<lparr>pr_native := h # pr_native p\<rparr>
        in case runtime_ensure (ar_started x) (pr_runtime p) of
             (Inl e, r) \<Rightarrow>
               Some (Inl e, p\<lparr>pr_native := close_native h (pr_native p), pr_runtime := r\<rparr>)
           | (Inr _, r) \<Rightarrow>
               Some (success, new_object \<lparr>no_listener = False, no_handle = Some h, no_port = 0\<rparr>
                 (p\<lparr>pr_runtime := r\<rparr>)))"

definition accept_one :: "nat \<Rightarrow> accept_round list \<Rightarrow> process \<Rightarrow> (status \<times> process) option" where
  "accept_one i rounds p =
     (if no_handle (pr_objects p ! i) = None then Some (Inl E_TRANSPORT_CLOSED, p) else accept_loop rounds p)"

section \<open>Runs\<close>

text \<open>
  The operations of a process in any order. The system gives out no descriptor that is open, which
  is what \<^verbatim>\<open>socket\<close> and \<^verbatim>\<open>accept\<close> document.
\<close>

inductive net_step :: "process \<Rightarrow> process \<Rightarrow> bool" where
  ns_default: "net_step p (new_object \<lparr>no_listener = b, no_handle = None, no_port = 0\<rparr> p)"
| ns_connect:
    "\<forall>c \<in> set (case resolved of None \<Rightarrow> [] | Some cs \<Rightarrow> cs). \<forall>h. cd_socket c = Some h \<longrightarrow> h \<notin> set (pr_native p) \<Longrightarrow>
     net_step p (snd (connect_to started resolved p))"
| ns_bind:
    "\<forall>h. bi_socket x = Some h \<longrightarrow> h \<notin> set (pr_native p) \<Longrightarrow> net_step p (snd (bind_loopback started x p))"
| ns_accept:
    "i < length (pr_objects p) \<Longrightarrow> no_listener (pr_objects p ! i) \<Longrightarrow>
     \<forall>x \<in> set rounds. \<forall>h. ar_accepted x = Some h \<longrightarrow> h \<notin> set (pr_native p) \<Longrightarrow>
     accept_one i rounds p = Some (s, p') \<Longrightarrow> net_step p p'"
| ns_close: "i < length (pr_objects p) \<Longrightarrow> net_step p (object_close i p)"
| ns_move: "j < length (pr_objects p) \<Longrightarrow> net_step p (object_move j p)"
| ns_assign:
    "i < length (pr_objects p) \<Longrightarrow> j < length (pr_objects p) \<Longrightarrow>
     no_listener (pr_objects p ! i) = no_listener (pr_objects p ! j) \<Longrightarrow> net_step p (object_assign i j p)"
| ns_governor_start: "net_step p (snd (governor_start started p))"
| ns_governor_stop: "0 < pr_governors p \<Longrightarrow> net_step p (governor_stop p)"

inductive net_reachable :: "process \<Rightarrow> bool" where
  nr_start: "net_reachable fresh_process"
| nr_step: "net_reachable p \<Longrightarrow> net_step p p' \<Longrightarrow> net_reachable p'"

section \<open>Every descriptor has one owner\<close>

definition held :: "net_object \<Rightarrow> nat multiset" where
  "held x = (case no_handle x of None \<Rightarrow> {#} | Some h \<Rightarrow> {#h#})"

definition all_held :: "process \<Rightarrow> nat multiset" where
  "all_held p = sum_list (map held (pr_objects p))"

definition owned :: "process \<Rightarrow> bool" where
  "owned p \<longleftrightarrow>
     all_held p = mset (pr_native p) \<and> distinct (pr_native p) \<and>
     sk_users (pr_runtime p) = length (pr_native p) + pr_governors p \<and>
     (sk_ready (pr_runtime p) \<longleftrightarrow> 0 < sk_users (pr_runtime p))"

lemma sum_list_exchange:
  fixes xs :: "'a::comm_monoid_add list"
  assumes "i < length xs"
  shows "sum_list (xs[i := y]) + xs ! i = sum_list xs + y"
  using assms by (induction xs arbitrary: i) (auto simp: nth_Cons ac_simps split: nat.split)

lemma held_update:
  assumes "i < length xs"
  shows "sum_list (map held (xs[i := y])) + held (xs ! i) = sum_list (map held xs) + held y"
  using sum_list_exchange [of i "map held xs" "held y"] assms by (simp add: map_update)

lemma held_invalidated [simp]: "held (invalidated x) = {#}"
  by (simp add: held_def invalidated_def)

lemma held_new [simp]: "held \<lparr>no_listener = b, no_handle = h, no_port = n\<rparr> = (case h of None \<Rightarrow> {#} | Some h \<Rightarrow> {#h#})"
  by (simp add: held_def)

lemma close_native_new [simp]: "close_native h (h # native) = native"
  by (simp add: close_native_def)

lemma owned_default: "owned p \<Longrightarrow> owned (new_object \<lparr>no_listener = b, no_handle = None, no_port = 0\<rparr> p)"
  by (simp add: owned_def all_held_def new_object_def)

text \<open>A reference and a descriptor are taken together.\<close>

lemma owned_new:
  assumes "owned p" "runtime_ensure started (pr_runtime p) = (Inr u, r)" "h \<notin> set (pr_native p)"
  shows "owned (new_object \<lparr>no_listener = b, no_handle = Some h, no_port = n\<rparr>
    (p\<lparr>pr_runtime := r, pr_native := h # pr_native p\<rparr>))"
  using assms by (auto simp: owned_def all_held_def new_object_def runtime_ensure_def split: if_splits)

lemma owned_refused:
  "owned p \<Longrightarrow> runtime_ensure started (pr_runtime p) = (Inl e, r) \<Longrightarrow> owned (p\<lparr>pr_runtime := r\<rparr>)"
  by (auto simp: runtime_ensure_def split: if_splits)

lemma release_ensure:
  assumes "owned p" "runtime_ensure started (pr_runtime p) = (Inr u, r)"
  shows "runtime_release r = pr_runtime p"
  using assms
  by (cases "pr_runtime p") (auto simp: owned_def runtime_ensure_def runtime_release_def Let_def split: if_splits)

lemma owned_give_up:
  assumes "owned p" "runtime_ensure started (pr_runtime p) = (Inr u, r)"
  shows "owned (snd (give_up (p\<lparr>pr_runtime := r\<rparr>)))"
  using assms(1) by (simp add: give_up_def release_ensure [OF assms])

lemma owned_close:
  assumes "owned p" "i < length (pr_objects p)"
  shows "owned (object_close i p)"
proof (cases "no_handle (pr_objects p ! i)")
  case (Some h)
  have held: "sum_list (map held ((pr_objects p)[i := invalidated (pr_objects p ! i)])) + {#h#} = mset (pr_native p)"
    using held_update [OF assms(2), of "invalidated (pr_objects p ! i)"] assms(1) Some
    by (simp add: owned_def all_held_def held_def [of "pr_objects p ! i"])
  then have "h \<in># mset (pr_native p)" by (metis union_single_eq_member add_mset_add_single)
  then have h: "h \<in> set (pr_native p)" by simp
  have "sum_list (map held ((pr_objects p)[i := invalidated (pr_objects p ! i)])) = mset (remove1 h (pr_native p))"
    using held by (metis add_diff_cancel_right' mset_remove1 add_mset_add_single)
  moreover have "length (pr_native p) = Suc (length (remove1 h (pr_native p)))"
    using h length_pos_if_in_set [OF h] by (simp add: length_remove1)
  ultimately show ?thesis
    using assms(1) Some
    by (auto simp: object_close_def owned_def all_held_def close_native_def runtime_release_def Let_def)
qed (use assms in \<open>simp add: object_close_def\<close>)

lemma owned_governor_start: "owned p \<Longrightarrow> owned (snd (governor_start started p))"
  by (auto simp: governor_start_def owned_def all_held_def runtime_ensure_def split: prod.split sum.split)

lemma owned_governor_stop: "owned p \<Longrightarrow> 0 < pr_governors p \<Longrightarrow> owned (governor_stop p)"
  by (auto simp: governor_stop_def owned_def all_held_def runtime_release_def Let_def)

text \<open>Moving changes neither the descriptors nor the references.\<close>

lemma owned_objects:
  "owned p \<Longrightarrow> sum_list (map held xs) = all_held p \<Longrightarrow> owned (p\<lparr>pr_objects := xs\<rparr>)"
  by (simp add: owned_def all_held_def)

lemma owned_move:
  assumes "owned p" "j < length (pr_objects p)"
  shows "owned (object_move j p)"
  using held_update [OF assms(2), of "invalidated (pr_objects p ! j)"]
  unfolding object_move_def Let_def by (intro owned_objects [OF assms(1)]) (simp add: all_held_def)

lemma length_object_close [simp]: "length (pr_objects (object_close i p)) = length (pr_objects p)"
  by (simp add: object_close_def Let_def split: option.split)

lemma closed_held: "i < length (pr_objects p) \<Longrightarrow> held (pr_objects (object_close i p) ! i) = {#}"
  by (auto simp: object_close_def Let_def held_def invalidated_def split: option.split)

lemma owned_assign:
  assumes "owned p" "i < length (pr_objects p)" "j < length (pr_objects p)"
  shows "owned (object_assign i j p)"
proof (cases "i = j")
  case False
  let ?p = "object_close i p"
  let ?x = "pr_objects ?p ! j"
  have "sum_list (map held ((pr_objects ?p)[i := ?x])) = all_held ?p + held ?x"
    using held_update [of i "pr_objects ?p" ?x] assms(2) closed_held [OF assms(2)] by (simp add: all_held_def)
  moreover have "sum_list (map held ((pr_objects ?p)[i := ?x, j := invalidated ?x])) + held ?x =
      sum_list (map held ((pr_objects ?p)[i := ?x]))"
    using held_update [of j "(pr_objects ?p)[i := ?x]" "invalidated ?x"] assms(3) False by simp
  ultimately have "sum_list (map held ((pr_objects ?p)[i := ?x, j := invalidated ?x])) = all_held ?p" by simp
  from owned_objects [OF owned_close [OF assms(1,2)] this] show ?thesis
    using False by (simp add: object_assign_def Let_def)
qed (use assms(1) in \<open>simp add: object_assign_def\<close>)

text \<open>Connecting leaves behind only the socket it returns.\<close>

lemma tried_candidates:
  "try_candidates cs native = (r, native') \<Longrightarrow>
     (case r of None \<Rightarrow> native' = native | Some h \<Rightarrow> native' = h # native \<and> (\<exists>c \<in> set cs. cd_socket c = Some h))"
  by (induction cs native rule: try_candidates.induct) (auto split: option.splits if_splits)

lemma owned_connect:
  assumes "owned p"
    and fresh: "\<forall>c \<in> set (case resolved of None \<Rightarrow> [] | Some cs \<Rightarrow> cs). \<forall>h. cd_socket c = Some h \<longrightarrow> h \<notin> set (pr_native p)"
  shows "owned (snd (connect_to started resolved p))"
proof (cases "runtime_ensure started (pr_runtime p)")
  case (Pair s r)
  show ?thesis
  proof (cases s)
    case (Inl e)
    then show ?thesis using owned_refused [OF assms(1)] Pair by (simp add: connect_to_def)
  next
    case (Inr u)
    note ensured = Pair [unfolded Inr]
    show ?thesis
    proof (cases resolved)
      case None
      then show ?thesis using owned_give_up [OF assms(1) ensured] ensured by (simp add: connect_to_def)
    next
      case (Some cs)
      obtain h native where t: "try_candidates cs (pr_native p) = (h, native)" by fastforce
      show ?thesis
      proof (cases h)
        case None
        then show ?thesis
          using owned_give_up [OF assms(1) ensured] ensured Some t tried_candidates [OF t]
          by (simp add: connect_to_def)
      next
        case found: (Some x)
        then have "native = x # pr_native p" "x \<notin> set (pr_native p)"
          using tried_candidates [OF t] fresh Some by auto
        then show ?thesis
          using owned_new [OF assms(1) ensured, of x False 0] ensured Some t found by (simp add: connect_to_def)
      qed
    qed
  qed
qed

lemma owned_bind:
  assumes "owned p" and fresh: "\<forall>h. bi_socket x = Some h \<longrightarrow> h \<notin> set (pr_native p)"
  shows "owned (snd (bind_loopback started x p))"
proof (cases "runtime_ensure started (pr_runtime p)")
  case (Pair s r)
  show ?thesis
  proof (cases s)
    case (Inl e)
    then show ?thesis using owned_refused [OF assms(1)] Pair by (simp add: bind_loopback_def)
  next
    case (Inr u)
    note ensured = Pair [unfolded Inr]
    note failed = owned_give_up [OF assms(1) ensured]
    show ?thesis
    proof (cases "bi_socket x")
      case (Some h)
      show ?thesis
      proof (cases "bi_bound x \<and> bi_listening x \<and> bi_name x \<noteq> None")
        case True
        then show ?thesis
          using owned_new [OF assms(1) ensured, of h True] fresh ensured Some
          by (auto simp: bind_loopback_def Let_def)
      next
        case False
        then show ?thesis using failed ensured Some by (auto simp: bind_loopback_def Let_def)
      qed
    qed (use failed ensured in \<open>simp add: bind_loopback_def\<close>)
  qed
qed

lemma owned_accept_loop:
  "accept_loop rounds p = Some (s, p') \<Longrightarrow> owned p \<Longrightarrow>
     \<forall>x \<in> set rounds. \<forall>h. ar_accepted x = Some h \<longrightarrow> h \<notin> set (pr_native p) \<Longrightarrow> owned p'"
proof (induction rounds p rule: accept_loop.induct)
  case (2 x rest p)
  show ?case
  proof (cases "ar_stopped x \<or> ar_ready x \<le> 0 \<or> ar_accepted x = None")
    case True
    then show ?thesis using 2 by (auto split: if_splits)
  next
    case False
    then obtain h where h: "ar_accepted x = Some h" by auto
    then have new: "h \<notin> set (pr_native p)" using 2 by auto
    obtain t r where e: "runtime_ensure (ar_started x) (pr_runtime p) = (t, r)" by fastforce
    show ?thesis
    proof (cases t)
      case (Inl a)
      then show ?thesis using 2 False h e owned_refused [of p "ar_started x" a r] by auto
    next
      case (Inr u)
      then show ?thesis
        using 2 False h e owned_new [of p "ar_started x" u r h False 0] new
        by (cases p) (auto simp: new_object_def)
    qed
  qed
qed simp

lemma owned_accept:
  assumes "accept_one i rounds p = Some (s, p')" "owned p"
    and "\<forall>x \<in> set rounds. \<forall>h. ar_accepted x = Some h \<longrightarrow> h \<notin> set (pr_native p)"
  shows "owned p'"
  using assms owned_accept_loop by (auto simp: accept_one_def split: if_splits)

lemma owned_step: "net_step p p' \<Longrightarrow> owned p \<Longrightarrow> owned p'"
  by (induction rule: net_step.induct)
    (simp_all add: owned_default owned_connect owned_bind owned_close owned_move owned_assign owned_accept owned_governor_start owned_governor_stop)

lemma reachable_owned: "net_reachable p \<Longrightarrow> owned p"
proof (induction rule: net_reachable.induct)
  case nr_start
  then show ?case by (simp add: owned_def fresh_process_def all_held_def)
qed (rule owned_step)

text \<open>What ownership says of the objects.\<close>

lemma sum_held_size:
  "size (sum_list (map held xs)) = length (filter (\<lambda>x. no_handle x \<noteq> None) xs)"
  by (induction xs) (auto simp: held_def split: option.split)

lemma sum_held_member:
  "h \<in># sum_list (map held xs) \<longleftrightarrow> (\<exists>x \<in> set xs. no_handle x = Some h)"
  by (induction xs) (auto simp: held_def split: option.splits)

lemma sum_held_count:
  "i < length xs \<Longrightarrow> j < length xs \<Longrightarrow> i \<noteq> j \<Longrightarrow> no_handle (xs ! i) = Some h \<Longrightarrow> no_handle (xs ! j) = Some h \<Longrightarrow>
     2 \<le> count (sum_list (map held xs)) h"
proof (induction xs arbitrary: i j)
  case (Cons x xs)
  have one: "1 \<le> count (sum_list (map held xs)) h" if "k < length xs" "no_handle (xs ! k) = Some h" for k
    using that sum_held_member [of h xs] nth_mem by (metis count_greater_eq_one_iff)
  show ?case
  proof (cases "i = 0 \<or> j = 0")
    case True
    then show ?thesis using Cons.prems one by (auto simp: nth_Cons held_def split: nat.splits)
  next
    case False
    then show ?thesis
      using Cons.IH [of "i - 1" "j - 1"] Cons.prems by (auto simp: nth_Cons split: nat.splits)
  qed
qed simp

lemma owned_users:
  "owned p \<Longrightarrow>
     sk_users (pr_runtime p) = length (filter (\<lambda>x. no_handle x \<noteq> None) (pr_objects p)) + pr_governors p"
  by (metis owned_def all_held_def sum_held_size size_mset)

lemma owned_native:
  "owned p \<Longrightarrow> h \<in> set (pr_native p) \<longleftrightarrow> (\<exists>x \<in> set (pr_objects p). no_handle x = Some h)"
  by (metis owned_def all_held_def sum_held_member set_mset_mset)

lemma owned_unique:
  assumes "owned p" "i < length (pr_objects p)" "j < length (pr_objects p)"
    and "no_handle (pr_objects p ! i) = Some h" "no_handle (pr_objects p ! j) = Some h"
  shows "i = j"
proof (rule ccontr)
  assume "i \<noteq> j"
  then have "2 \<le> count (mset (pr_native p)) h"
    using sum_held_count [OF assms(2,3) _ assms(4,5)] assms(1) by (simp add: owned_def all_held_def)
  moreover have "count (mset (pr_native p)) h \<le> 1"
    using assms(1) by (simp add: owned_def distinct_count_atmost_1)
  ultimately show False by simp
qed

end
