(* ===== verification/Threads.thy ===== *)
theory Threads
  imports Coordinator Sockets
begin

text \<open>
  The threads of the coordinator process (\<^verbatim>\<open>main\<close> of \<^verbatim>\<open>tg_coordinator.cpp\<close>): the accept loop, one
  handler per connection, the stop flag, the registry of live sessions and the shutdown that
  interrupts and joins them. A step is what one thread does between two points at which another
  may run; what a handler does with a frame is \<open>session_step\<close>.
\<close>

section \<open>The start of the process\<close>

text \<open>What the host does during the start: clock readings, sockets and the ready file.\<close>

record start_host =
  sh_created :: time_ns
  sh_loaded :: time_ns
  sh_runtime :: bool
  sh_bind :: bind_script
  sh_opened :: bool
  sh_written :: nat

text \<open>
  From the arguments to the accept loop. An early end is the exit code; otherwise the coordinator
  serves the port the ready file names. The last object is the listener.
\<close>

definition coordinator_start ::
  "start_host \<Rightarrow> string list \<Rightarrow> files \<Rightarrow> process \<Rightarrow> (int + options \<times> coordinator) \<times> files \<times> process" where
  "coordinator_start h args fs p =
     (case parse_options args default_options of
        None \<Rightarrow> (Inl 2, fs, p)
      | Some o1 \<Rightarrow>
        (case governor_start (sh_runtime h) p of
           (sockets, p) \<Rightarrow>
             (case start_coordinator (sh_created h) (sh_loaded h) sockets o1 fs of
                Inl e \<Rightarrow> (Inl 1, fs, p)
              | Inr c \<Rightarrow>
                (case bind_loopback (sh_runtime h) (sh_bind h) p of
                   (Inl e, p) \<Rightarrow> (Inl 1, fs, p)
                 | (Inr _, p) \<Rightarrow>
                   let listener = length (pr_objects p) - 1;
                       port = unsigned_decimal (ucast (no_port (pr_objects p ! listener)) :: u64);
                       (ready, states) =
                         write_ready_file (op_ready_file o1) (sh_opened h) (sh_written h) (map byte_of_char port) fs
                   in if ready then (Inr (o1, c\<lparr>co_files := last states\<rparr>), last states, p)
                      else (Inl 1, last states, object_close listener p)))))"

text \<open>A start that fails leaves no descriptor open.\<close>

lemma governor_start_native: "pr_native (snd (governor_start started p)) = pr_native p"
  by (simp add: governor_start_def split: prod.split sum.split)

lemma bind_failed: "bind_loopback started x p = (Inl e, p') \<Longrightarrow> pr_native p' = pr_native p"
  by (auto simp: bind_loopback_def give_up_def Let_def split: prod.splits sum.splits option.splits if_splits)

lemma bind_closed:
  "bind_loopback started x p = (Inr u, p') \<Longrightarrow>
     pr_native (object_close (length (pr_objects p') - 1) p') = pr_native p"
  by (auto simp: bind_loopback_def give_up_def new_object_def object_close_def Let_def nth_append
      split: prod.splits sum.splits option.splits if_splits)

lemma failed_start:
  assumes "coordinator_start h args fs p = (Inl code, fs', p')"
  shows "code \<in> {1, 2} \<and> pr_native p' = pr_native p"
proof (cases "parse_options args default_options")
  case (Some o1)
  obtain sockets p1 where g: "governor_start (sh_runtime h) p = (sockets, p1)" by fastforce
  then have p1: "pr_native p1 = pr_native p" using governor_start_native [of "sh_runtime h" p] by simp
  obtain s p2 where b: "bind_loopback (sh_runtime h) (sh_bind h) p1 = (s, p2)" by fastforce
  show ?thesis
  proof (cases "start_coordinator (sh_created h) (sh_loaded h) sockets o1 fs")
    case (Inl e)
    then show ?thesis using assms Some g p1 by (simp add: coordinator_start_def)
  next
    case (Inr c)
    then show ?thesis
      using assms Some g b p1 bind_failed [of "sh_runtime h" "sh_bind h" p1] bind_closed [of "sh_runtime h" "sh_bind h" p1]
      by (cases s) (auto simp: coordinator_start_def Let_def split: prod.splits if_splits)
  qed
qed (use assms in \<open>simp add: coordinator_start_def\<close>)

section \<open>Threads\<close>

text \<open>Where a handler is.\<close>

datatype handler_point =
    HP_SPAWNED
  | HP_REGISTERED
  | HP_LOOPING
  | HP_RECEIVING
  | HP_HANDLING
  | HP_LEAVING
  | HP_GONE

text \<open>\<open>ht_shut\<close> is whether \<^verbatim>\<open>shutdown_both\<close> was called on its socket.\<close>

record handler_thread =
  ht_point :: handler_point
  ht_shut :: bool

text \<open>Where the main thread is: about to read the stop flag, in \<^verbatim>\<open>select\<close>, behind the accept loop, ...\<close>

datatype main_point =
    MP_CHECK
  | MP_WAIT
  | MP_LEFT
  | MP_STOPPED
  | MP_JOINING
  | MP_DONE

record threads =
  th_stopping :: bool
  th_main :: main_point
  th_handlers :: "handler_thread list"

definition listening_threads :: threads where
  "listening_threads = \<lparr>th_stopping = False, th_main = MP_CHECK, th_handlers = []\<rparr>"

text \<open>A session is in the registry from its insertion to the end of its guard.\<close>

fun registered_at :: "handler_point \<Rightarrow> bool" where
  "registered_at HP_SPAWNED = False"
| "registered_at HP_GONE = False"
| "registered_at _ = True"

definition interrupt :: "handler_thread \<Rightarrow> handler_thread" where
  "interrupt t = (if registered_at (ht_point t) then t\<lparr>ht_shut := True\<rparr> else t)"

definition interrupt_sessions :: "threads \<Rightarrow> threads" where
  "interrupt_sessions s = s\<lparr>th_handlers := map interrupt (th_handlers s)\<rparr>"

definition spawn :: "nat \<Rightarrow> threads \<Rightarrow> threads" where
  "spawn bound s =
     (if bound \<le> length (th_handlers s) then s
      else s\<lparr>th_handlers := th_handlers s @ [\<lparr>ht_point = HP_SPAWNED, ht_shut = False\<rparr>]\<rparr>)"

definition move_handler :: "nat \<Rightarrow> handler_point \<Rightarrow> threads \<Rightarrow> threads" where
  "move_handler i p s = s\<lparr>th_handlers := (th_handlers s)[i := (th_handlers s ! i)\<lparr>ht_point := p\<rparr>]\<rparr>"

text \<open>
  The steps of the main thread. The argument is whether the step has to wait for a peer. The last
  point of the accept loop is left when the flag is seen or a system call fails.
\<close>

inductive main_step :: "nat \<Rightarrow> bool \<Rightarrow> threads \<Rightarrow> threads \<Rightarrow> bool" for bound where
  ms_check:
    "th_main s = MP_CHECK \<Longrightarrow>
     main_step bound False s (s\<lparr>th_main := (if th_stopping s then MP_LEFT else MP_WAIT)\<rparr>)"
| ms_timeout: "th_main s = MP_WAIT \<Longrightarrow> main_step bound False s (s\<lparr>th_main := MP_CHECK\<rparr>)"
| ms_failed: "th_main s = MP_WAIT \<Longrightarrow> main_step bound True s (s\<lparr>th_main := MP_LEFT\<rparr>)"
| ms_accepted: "th_main s = MP_WAIT \<Longrightarrow> main_step bound True s (spawn bound (s\<lparr>th_main := MP_CHECK\<rparr>))"
| ms_stop: "th_main s = MP_LEFT \<Longrightarrow> main_step bound False s (s\<lparr>th_main := MP_STOPPED, th_stopping := True\<rparr>)"
| ms_interrupt:
    "th_main s = MP_STOPPED \<Longrightarrow> main_step bound False s (interrupt_sessions (s\<lparr>th_main := MP_JOINING\<rparr>))"
| ms_join:
    "th_main s = MP_JOINING \<Longrightarrow> \<forall>t \<in> set (th_handlers s). ht_point t = HP_GONE \<Longrightarrow>
     main_step bound False s (s\<lparr>th_main := MP_DONE\<rparr>)"

text \<open>
  The steps of handler \<open>i\<close>. Receiving a frame, and sending the answers while handling it, waits for
  the peer; on a socket that was shut down both end, which is what \<^verbatim>\<open>shutdown\<close> documents. A
  \<open>shutdown\<close> command raises the flag.
\<close>

inductive handler_step :: "nat \<Rightarrow> bool \<Rightarrow> threads \<Rightarrow> threads \<Rightarrow> bool" for i where
  hs_register: "ht_point (th_handlers s ! i) = HP_SPAWNED \<Longrightarrow> handler_step i False s (move_handler i HP_REGISTERED s)"
| hs_begin:
    "ht_point (th_handlers s ! i) = HP_REGISTERED \<Longrightarrow>
     handler_step i False s (move_handler i (if th_stopping s then HP_LEAVING else HP_LOOPING) s)"
| hs_check:
    "ht_point (th_handlers s ! i) = HP_LOOPING \<Longrightarrow>
     handler_step i False s (move_handler i (if th_stopping s then HP_LEAVING else HP_RECEIVING) s)"
| hs_frame: "ht_point (th_handlers s ! i) = HP_RECEIVING \<Longrightarrow> handler_step i True s (move_handler i HP_HANDLING s)"
| hs_closed: "ht_point (th_handlers s ! i) = HP_RECEIVING \<Longrightarrow> handler_step i True s (move_handler i HP_LEAVING s)"
| hs_unblocked:
    "ht_point (th_handlers s ! i) = HP_RECEIVING \<Longrightarrow> ht_shut (th_handlers s ! i) \<Longrightarrow>
     handler_step i False s (move_handler i HP_LEAVING s)"
| hs_answered:
    "ht_point (th_handlers s ! i) = HP_HANDLING \<Longrightarrow> p \<in> {HP_LOOPING, HP_LEAVING} \<Longrightarrow>
     handler_step i True s (move_handler i p s)"
| hs_cut_off:
    "ht_point (th_handlers s ! i) = HP_HANDLING \<Longrightarrow> ht_shut (th_handlers s ! i) \<Longrightarrow>
     p \<in> {HP_LOOPING, HP_LEAVING} \<Longrightarrow> handler_step i False s (move_handler i p s)"
| hs_shutdown:
    "ht_point (th_handlers s ! i) = HP_HANDLING \<Longrightarrow>
     handler_step i True s ((move_handler i HP_LEAVING s)\<lparr>th_stopping := True\<rparr>)"
| hs_erase: "ht_point (th_handlers s ! i) = HP_LEAVING \<Longrightarrow> handler_step i False s (move_handler i HP_GONE s)"

inductive thread_step :: "nat \<Rightarrow> bool \<Rightarrow> threads \<Rightarrow> threads \<Rightarrow> bool" for bound where
  ts_main: "main_step bound peer s s' \<Longrightarrow> thread_step bound peer s s'"
| ts_handler: "i < length (th_handlers s) \<Longrightarrow> handler_step i peer s s' \<Longrightarrow> thread_step bound peer s s'"

inductive threads_reachable :: "nat \<Rightarrow> threads \<Rightarrow> bool" for bound where
  tr_start: "threads_reachable bound listening_threads"
| tr_step: "threads_reachable bound s \<Longrightarrow> thread_step bound peer s s' \<Longrightarrow> threads_reachable bound s'"

section \<open>No handler is left waiting\<close>

text \<open>Once the sessions were interrupted, every handler that waits for its peer has been shut down.\<close>

definition interrupted :: "threads \<Rightarrow> bool" where
  "interrupted s \<longleftrightarrow>
     (th_main s \<in> {MP_STOPPED, MP_JOINING, MP_DONE} \<longrightarrow> th_stopping s) \<and>
     (th_main s \<in> {MP_JOINING, MP_DONE} \<longrightarrow>
        (\<forall>t \<in> set (th_handlers s). ht_point t \<in> {HP_RECEIVING, HP_HANDLING} \<longrightarrow> ht_shut t)) \<and>
     (th_main s = MP_DONE \<longrightarrow> (\<forall>t \<in> set (th_handlers s). ht_point t = HP_GONE))"

lemma set_moved:
  "t \<in> set (th_handlers (move_handler i p s)) \<Longrightarrow> i < length (th_handlers s) \<Longrightarrow>
     t \<in> set (th_handlers s) \<or> t = (th_handlers s ! i)\<lparr>ht_point := p\<rparr>"
  unfolding move_handler_def using set_update_subset_insert by fastforce

lemma moved_simps [simp]:
  "th_main (move_handler i p s) = th_main s" "th_stopping (move_handler i p s) = th_stopping s"
  by (simp_all add: move_handler_def)

text \<open>A handler that was not shut down starts to wait only while the flag is down.\<close>

lemma interrupted_moved:
  assumes "interrupted s" "i < length (th_handlers s)" "ht_point (th_handlers s ! i) \<noteq> HP_GONE"
    and "p \<in> {HP_RECEIVING, HP_HANDLING} \<Longrightarrow> th_stopping s \<Longrightarrow> ht_point (th_handlers s ! i) \<in> {HP_RECEIVING, HP_HANDLING}"
  shows "interrupted (move_handler i p s)"
proof -
  have old: "th_handlers s ! i \<in> set (th_handlers s)" using assms(2) by simp
  then have "th_main s \<noteq> MP_DONE" using assms(1,3) by (auto simp: interrupted_def)
  moreover have "ht_shut t" if "th_main s = MP_JOINING" "t \<in> set (th_handlers (move_handler i p s))"
      "ht_point t \<in> {HP_RECEIVING, HP_HANDLING}" for t
    using set_moved [OF that(2) assms(2)] that assms(1,4) old by (auto simp: interrupted_def)
  ultimately show ?thesis using assms(1) by (auto simp: interrupted_def)
qed

lemma interrupted_stop: "interrupted s \<Longrightarrow> interrupted (s\<lparr>th_stopping := True\<rparr>)"
  by (auto simp: interrupted_def)

lemma interrupted_handler:
  "handler_step i peer s s' \<Longrightarrow> i < length (th_handlers s) \<Longrightarrow> interrupted s \<Longrightarrow> interrupted s'"
proof (induction rule: handler_step.induct)
  case (hs_shutdown s)
  then show ?case by (intro interrupted_stop interrupted_moved) auto
qed (intro interrupted_moved; auto split: if_splits)+

lemma interrupted_main: "main_step bound peer s s' \<Longrightarrow> interrupted s \<Longrightarrow> interrupted s'"
  by (induction rule: main_step.induct)
    (auto simp: interrupted_def spawn_def interrupt_sessions_def interrupt_def split: if_splits)

lemma reachable_interrupted: "threads_reachable bound s \<Longrightarrow> interrupted s"
proof (induction rule: threads_reachable.induct)
  case tr_start
  then show ?case by (simp add: interrupted_def listening_threads_def)
next
  case (tr_step s peer s')
  from tr_step.hyps(2) show ?case
    by cases (use tr_step.IH interrupted_main interrupted_handler in blast)+
qed

section \<open>A raised flag ends the process\<close>

fun handler_effort :: "handler_point \<Rightarrow> nat" where
  "handler_effort HP_SPAWNED = 3"
| "handler_effort HP_REGISTERED = 2"
| "handler_effort HP_LOOPING = 2"
| "handler_effort HP_RECEIVING = 4"
| "handler_effort HP_HANDLING = 3"
| "handler_effort HP_LEAVING = 1"
| "handler_effort HP_GONE = 0"

fun main_effort :: "main_point \<Rightarrow> nat" where
  "main_effort MP_CHECK = 4"
| "main_effort MP_WAIT = 8"
| "main_effort MP_LEFT = 3"
| "main_effort MP_STOPPED = 2"
| "main_effort MP_JOINING = 1"
| "main_effort MP_DONE = 0"

definition effort :: "threads \<Rightarrow> nat" where
  "effort s = main_effort (th_main s) + sum_list (map (handler_effort \<circ> ht_point) (th_handlers s))"

lemma effort_moved:
  assumes "i < length (th_handlers s)" "handler_effort p < handler_effort (ht_point (th_handlers s ! i))"
  shows "effort (move_handler i p s) < effort s"
proof -
  let ?f = "handler_effort \<circ> ht_point" and ?y = "(th_handlers s ! i)\<lparr>ht_point := p\<rparr>"
  have "sum_list (map ?f ((th_handlers s)[i := ?y])) =
      sum_list (map ?f (th_handlers s)) + ?f ?y - ?f (th_handlers s ! i)"
    using assms(1) by (simp add: map_update sum_list_update)
  moreover have "?f (th_handlers s ! i) \<le> sum_list (map ?f (th_handlers s))"
    using elem_le_sum_list [of i "map ?f (th_handlers s)"] assms(1) by simp
  ultimately show ?thesis using assms(2) by (simp add: effort_def move_handler_def)
qed

lemma effort_interrupt: "map (handler_effort \<circ> ht_point) (map interrupt ts) = map (handler_effort \<circ> ht_point) ts"
  by (simp add: interrupt_def)

lemma effort_flag [simp]: "effort (s\<lparr>th_stopping := b\<rparr>) = effort s"
  by (simp add: effort_def)

lemma effort_main: "main_step bound peer s s' \<Longrightarrow> th_stopping s \<Longrightarrow> effort s' < effort s"
  by (induction rule: main_step.induct)
    (simp_all add: effort_def spawn_def interrupt_sessions_def effort_interrupt del: map_map)

lemma effort_handler:
  "handler_step i peer s s' \<Longrightarrow> i < length (th_handlers s) \<Longrightarrow> th_stopping s \<Longrightarrow> effort s' < effort s"
  by (induction rule: handler_step.induct) (auto intro!: effort_moved)

lemma effort_step: "thread_step bound peer s s' \<Longrightarrow> th_stopping s \<Longrightarrow> effort s' < effort s"
  by (induction rule: thread_step.induct) (auto intro: effort_main effort_handler)

lemma stopping_step: "thread_step bound peer s s' \<Longrightarrow> th_stopping s \<Longrightarrow> th_stopping s'"
  by (auto elim!: thread_step.cases main_step.cases handler_step.cases simp: spawn_def interrupt_sessions_def)

text \<open>Until the process is done some thread can go on without any peer.\<close>

lemma handler_goes_on:
  assumes "th_stopping s" "ht_point (th_handlers s ! i) \<noteq> HP_GONE"
    and "ht_point (th_handlers s ! i) \<in> {HP_RECEIVING, HP_HANDLING} \<Longrightarrow> ht_shut (th_handlers s ! i)"
  shows "\<exists>s'. handler_step i False s s'"
proof (cases "ht_point (th_handlers s ! i)")
  case HP_SPAWNED then show ?thesis by (blast intro: hs_register)
next
  case HP_REGISTERED then show ?thesis by (blast intro: hs_begin)
next
  case HP_LOOPING then show ?thesis by (blast intro: hs_check)
next
  case HP_RECEIVING then show ?thesis using assms(3) by (blast intro: hs_unblocked)
next
  case HP_HANDLING then show ?thesis using assms(3) by (blast intro: hs_cut_off)
next
  case HP_LEAVING then show ?thesis by (blast intro: hs_erase)
qed (use assms(2) in simp)

lemma threads_go_on:
  assumes "interrupted s" "th_stopping s" "th_main s \<noteq> MP_DONE"
  shows "\<exists>s'. thread_step bound False s s'"
proof (cases "th_main s = MP_JOINING")
  case True
  show ?thesis
  proof (cases "\<forall>t \<in> set (th_handlers s). ht_point t = HP_GONE")
    case all: True
    then show ?thesis using True by (blast intro: ts_main ms_join)
  next
    case False
    then obtain i where i: "i < length (th_handlers s)" "ht_point (th_handlers s ! i) \<noteq> HP_GONE"
      by (auto simp: in_set_conv_nth)
    have "ht_shut (th_handlers s ! i)" if "ht_point (th_handlers s ! i) \<in> {HP_RECEIVING, HP_HANDLING}"
      using assms(1) True i(1) that nth_mem by (auto simp: interrupted_def)
    then show ?thesis using handler_goes_on [OF assms(2) i(2)] ts_handler [OF i(1)] by blast
  qed
next
  case False
  then have "\<exists>s'. main_step bound False s s'"
    using assms(3) by (cases "th_main s") (blast intro: ms_check ms_timeout ms_stop ms_interrupt)+
  then show ?thesis by (blast intro: ts_main)
qed

text \<open>Runs of steps.\<close>

inductive thread_run :: "nat \<Rightarrow> threads \<Rightarrow> nat \<Rightarrow> threads \<Rightarrow> bool" for bound where
  tr_none: "thread_run bound s 0 s"
| tr_more: "thread_step bound peer s s' \<Longrightarrow> thread_run bound s' n s'' \<Longrightarrow> thread_run bound s (Suc n) s''"

lemma run_bounded: "thread_run bound s n s' \<Longrightarrow> th_stopping s \<Longrightarrow> n + effort s' \<le> effort s"
proof (induction rule: thread_run.induct)
  case (tr_more peer s s' n s'')
  then show ?case using effort_step [OF tr_more.hyps(1)] stopping_step [OF tr_more.hyps(1)] by simp
qed simp

lemma run_reachable: "thread_run bound s n s' \<Longrightarrow> threads_reachable bound s \<Longrightarrow> threads_reachable bound s'"
  by (induction rule: thread_run.induct) (auto intro: tr_step)

lemma run_stopping: "thread_run bound s n s' \<Longrightarrow> th_stopping s \<Longrightarrow> th_stopping s'"
  by (induction rule: thread_run.induct) (auto dest: stopping_step)

lemma effort_bound: "effort s \<le> 8 + 4 * length (th_handlers s)"
proof -
  have "handler_effort p \<le> 4" for p by (cases p) simp_all
  then have "sum_list (map (handler_effort \<circ> ht_point) ts) \<le> 4 * length ts" for ts
    by (induction ts) (auto intro: add_mono)
  moreover have "main_effort (th_main s) \<le> 8" by (cases "th_main s") simp_all
  ultimately show ?thesis unfolding effort_def by (blast intro: add_mono)
qed

end
