(* ===== verification/Service.thy ===== *)
theory Service
  imports Durability ReplyLaws Cycle Transport Threads
begin

text \<open>
  The properties of the coordinator process: its sessions, its commands, the frames it receives,
  the texts it renders and the cycle check of the coupling graph. Each property is followed by its
  instance at a concrete input.
\<close>

section \<open>A coordinator at work\<close>

definition steady :: verb_context where
  "steady = \<lparr>vx_now = (\<lambda>k. int k), vx_save = working_disk, vx_index = 1, vx_nan = ''nan''\<rparr>"

definition listening :: coordinator where
  "listening = \<lparr>co_governor = publish_locked 0 (initial_governor (coordinator_config default_options)),
     co_files = (\<lambda>_. None), co_state_path = []\<rparr>"

lemma listening_started: "start_coordinator 0 0 success default_options (\<lambda>_. None) = Inr listening"
  using booted_created
  by (simp add: start_coordinator_def create_def listening_def default_options_def split: if_splits)

text \<open>The same with a durable path, right after its creation.\<close>

definition saving :: coordinator where
  "saving = \<lparr>co_governor = booted \<lparr>g_config := default_config \<lparr>cf_durable_path := ''state''\<rparr>\<rparr>,
     co_files = (\<lambda>_. None), co_state_path = ''state''\<rparr>"

lemma saving_durable: "durable_of (co_governor saving) = durable_of booted"
  by (simp add: saving_def durable_of_def default_config_def booted_def publish_locked_def initial_governor_def)

text \<open>
  C11: whatever frames arrive in whatever sessions, with
  whatever payloads, clock readings and save outcomes, the governor of a started coordinator stays
  in a reachable state, so every invariant of the governor holds between any two frames.
\<close>

theorem sessions_keep_the_governor_reachable:
  assumes "start_coordinator now loaded sockets o1 fs = Inr c"
  shows "reachable (co_governor (foldl (\<lambda>c frames. snd (run_session frames c)) c sessions))"
proof -
  have "reachable (co_governor c)" by (rule started_reachable [OF assms])
  then show ?thesis by (induction sessions arbitrary: c) (simp_all add: wire.closed_session)
qed

theorem sessions_keep_the_governor_reachable_witness:
  "reachable (co_governor (foldl (\<lambda>c frames. snd (run_session frames c)) listening
     [[(steady, MK_HEARTBEAT, []), (steady, MK_QUERY_REQUEST, [1])], [(steady, MK_HELLO, [7, 7])]]))"
  by (rule sessions_keep_the_governor_reachable [OF listening_started])

text \<open>
  C12: in a reachable state every command gets a reply, whatever its verb,
  arguments and payload, with one exception: a \<open>register-domain\<close> whose five leading arguments are
  well formed and whose count is exactly six reads past the end of its arguments.
\<close>

theorem every_request_is_answered:
  assumes "reachable (co_governor c)"
  shows "fst (handle vx q c) = None \<longleftrightarrow>
    cq_verb q = ''register-domain'' \<and> length (cq_arguments q) = 6 \<and>
    parse_u64 (cq_arguments q ! 0) \<noteq> None \<and> parse_u64 (cq_arguments q ! 1) \<noteq> None \<and>
    parse_domain_type (cq_arguments q ! 2) \<noteq> None \<and> parse_provenance (cq_arguments q ! 3) \<noteq> None \<and>
    parse_aggregation (cq_arguments q ! 4) \<noteq> None"
  using handle_defined [OF observable.reachable_inv [OF assms], of vx q]
  unfolding has_reply_def short_domain_request_def short_domain_arguments_def by blast

theorem every_request_is_answered_witness:
  "fst (handle steady \<lparr>cq_verb = ''register-domain'', cq_arguments =
     [''7'', ''1'', ''RACK'', ''REAL'', ''HOTTEST_MEMBER_GOVERNS'', ''rack''], cq_payload = []\<rparr> listening) = None"
proof -
  have r: "reachable (co_governor listening)"
    by (rule started_reachable [OF listening_started])
  have "parse_u64 ''7'' \<noteq> None" "parse_u64 ''1'' \<noteq> None" by code_simp+
  then show ?thesis
    unfolding every_request_is_answered [OF r]
    by (simp add: parse_domain_type_def parse_provenance_def parse_aggregation_def)
qed

text \<open>
  C13: when a coordinator with a durable file answers one of the eleven
  commands that save before they acknowledge (the three registrations, \<open>set-thresholds\<close>, the two
  generation bumps, \<open>worker-death\<close>, the two authorisations, \<open>verify\<close> and \<open>persist\<close>) with success, the file
  holds the complete encoding of the governor the command left. A refusal has no payload
  and a success always has one. Every other command but \<open>shutdown\<close> leaves the files alone: \<open>dispatch\<close>,
  \<open>cancel\<close> and \<open>publish\<close> change the governor and are acknowledged without being saved. A HELLO is no command; the
  failure of its save is only logged.
\<close>

theorem acknowledged_changes_are_durable:
  assumes "handle vx q c = (Some r, c')"
  shows "(cq_verb q \<in> {''register-device'', ''register-domain'', ''register-coupling'', ''set-thresholds'',
        ''bump-domain-generation'', ''bump-device-generation'', ''worker-death'', ''authorize-mitigation'',
        ''authorize-derating'', ''verify'', ''persist''} \<and> rep_payload r \<noteq> [] \<and> co_state_path c \<noteq> [] \<longrightarrow>
      (\<exists>bytes. encode_durable_state default_persistence_limits (durable_of (co_governor c')) = Inr bytes \<and>
        co_files c' (cf_durable_path (g_config (co_governor c'))) = Some bytes)) \<and>
    (cq_verb q \<notin> {''register-device'', ''register-domain'', ''register-coupling'', ''set-thresholds'',
        ''bump-domain-generation'', ''bump-device-generation'', ''worker-death'', ''authorize-mitigation'',
        ''authorize-derating'', ''verify'', ''persist'', ''shutdown''} \<longrightarrow> co_files c' = co_files c)"
  using handle_durable [of q vx c r] handle_unsaved [of q vx c] assms
  by (simp add: file_holds_governor_def durable_verbs_def)

theorem acknowledged_changes_are_durable_witness:
  "\<exists>bytes c'. handle steady \<lparr>cq_verb = ''persist'', cq_arguments = [], cq_payload = []\<rparr> saving =
      (Some (reply_ok ''persisted''), c') \<and>
    encode_durable_state default_persistence_limits (durable_of (co_governor c')) = Inr bytes \<and>
    co_files c' (cf_durable_path (g_config (co_governor c'))) = Some bytes"
proof -
  let ?q = "\<lparr>cq_verb = ''persist'', cq_arguments = [], cq_payload = []\<rparr>"
  obtain states where "store_save default_persistence_limits ''state'' 1 working_disk (durable_of booted) (\<lambda>_. None) =
      (success, states)" by (rule booted_saved)
  moreover have "persist (co_governor saving) = Inr (durable_of booted)"
    using saving_durable by (simp add: persist_def saving_def)
  ultimately have "handle steady ?q saving = (Some (reply_ok ''persisted''), saving\<lparr>co_files := last states\<rparr>)"
    by (simp add: handle_def verb_persist_def persist_now_def save_governor_def acknowledged_def answered_def
        steady_def) (simp add: saving_def acknowledged_def answered_def)
  then show ?thesis
    using acknowledged_changes_are_durable [of steady ?q saving "reply_ok ''persisted''"]
    by (simp add: reply_ok_def saving_def)
qed

section \<open>Commands\<close>

text \<open>
  C21: evidence sent as the hexadecimal text of a \<open>publish\<close> command
  reaches the governor as it was measured, apart from the freshness, which the receiver assesses,
  and the reply follows the outcome of that publication.
\<close>

theorem hex_publication_is_publication:
  assumes "evidence_sendable e" "cq_verb q = ''publish''" "cq_payload q = to_hex (encode_evidence e)"
  shows "snd (handle vx q c) =
      c\<lparr>co_governor := snd (publish_temperature (vx_now vx 0) (e \<lparr>ev_freshness := FS_UNKNOWN\<rparr>) (co_governor c))\<rparr> \<and>
    map_option rep_code (fst (handle vx q c)) =
      Some (case fst (publish_temperature (vx_now vx 0) (e \<lparr>ev_freshness := FS_UNKNOWN\<rparr>) (co_governor c)) of
        Inl err \<Rightarrow> err | Inr _ \<Rightarrow> E_NONE)"
proof -
  have "decode_evidence (encode_evidence e) = Inr (evidence_kept e)"
    using evidence.decoded [OF assms(1)] by (simp add: decode_evidence_def encode_evidence_def)
  then have "handle vx q c = reply_after (\<lambda>receipt. ''accepted=1 telemetry='' @
      unsigned_decimal (er_telemetry_generation receipt)) (publish_temperature (vx_now vx 0) (evidence_kept e)) c"
    using assms(2,3) by (simp add: handle_def handle_structured_def verb_publish_def hex_round_trip)
  then show ?thesis
    by (simp add: reply_after_def evidence_kept_def rejected_def answered_def reply_fail_def reply_ok_def
        split: prod.split sum.split)
qed

theorem hex_publication_is_publication_witness:
  "snd (handle steady \<lparr>cq_verb = ''publish'', cq_arguments = [], cq_payload = to_hex (encode_evidence (reading 3 62))\<rparr>
     (listening\<lparr>co_governor := staffed\<rparr>)) =
   listening\<lparr>co_governor := snd (publish_temperature 0 ((reading 3 62) \<lparr>ev_freshness := FS_UNKNOWN\<rparr>) staffed)\<rparr>"
  using hex_publication_is_publication [OF reading_sendable,
      of "\<lparr>cq_verb = ''publish'', cq_arguments = [], cq_payload = to_hex (encode_evidence (reading 3 62))\<rparr>"
        steady "listening\<lparr>co_governor := staffed\<rparr>"]
  by (simp add: steady_def)

text \<open>The default thresholds under a new generation.\<close>

definition default_arguments :: "string list" where
  "default_arguments = [''75'', ''80'', ''88'', ''72'', ''3'', ''2'', ''1'', ''1'', ''2'', ''1000'', ''3'', ''2000'']"

lemma default_arguments_parse:
  "parse_doubles (take 8 default_arguments) =
     Some [Fin 75, Fin 80, Fin 88, Fin 72, Fin 3, Fin 2, Fin 1, Fin 1]"
  "parse_numbers (take 4 (drop 8 default_arguments)) = Some [2, 1000, 3, 2000]"
proof -
  have "decimal 75 = ''75''" "decimal 80 = ''80''" "decimal 88 = ''88''" "decimal 72 = ''72''"
      "decimal 3 = ''3''" "decimal 2 = ''2''" "decimal 1 = ''1''"
    by code_simp+
  then have "parse_double ''75'' = Some (Fin 75)" "parse_double ''80'' = Some (Fin 80)"
      "parse_double ''88'' = Some (Fin 88)" "parse_double ''72'' = Some (Fin 72)"
      "parse_double ''3'' = Some (Fin 3)" "parse_double ''2'' = Some (Fin 2)" "parse_double ''1'' = Some (Fin 1)"
    using parse_double_decimal [of 75] parse_double_decimal [of 80] parse_double_decimal [of 88]
      parse_double_decimal [of 72] parse_double_decimal [of 3] parse_double_decimal [of 2]
      parse_double_decimal [of 1] by simp_all
  then show "parse_doubles (take 8 default_arguments) =
      Some [Fin 75, Fin 80, Fin 88, Fin 72, Fin 3, Fin 2, Fin 1, Fin 1]"
    by (simp add: default_arguments_def)
  show "parse_numbers (take 4 (drop 8 default_arguments)) = Some [2, 1000, 3, 2000]"
    by code_simp
qed

lemma default_arguments_accepted:
  "\<exists>r. fst (verb_set_thresholds steady default_arguments listening) = Some r \<and> rep_payload r \<noteq> []"
proof -
  let ?p = "retuned_policy [Fin 75, Fin 80, Fin 88, Fin 72, Fin 3, Fin 2, Fin 1, Fin 1] [2, 1000, 3, 2000] make_default"
  have p: "validate_policy ?p = success" "pol_id ?p = 1" "pol_generation ?p = 2"
    using make_default_valid
    by (simp_all add: validate_policy_success_iff retuned_policy_def default_thresholds_def)
  have "get_policy 1 (co_governor listening) = Inr make_default"
    by (simp add: get_policy_def listening_def publish_locked_def initial_governor_def)
  moreover have "map_of (g_policies (co_governor listening)) 1 = Some make_default"
    by (simp add: listening_def publish_locked_def initial_governor_def)
  then have "\<exists>n g. set_policy 0 ?p (co_governor listening) = (Inr n, g)"
    using p by (simp add: set_policy_def Let_def word_le_nat_alt)
  ultimately show ?thesis
    by (auto simp: verb_set_thresholds_def default_arguments_parse commit_after_def persist_now_def
        acknowledged_def answered_def reply_ok_def steady_def)
      (simp_all add: default_arguments_def listening_def)
qed

text \<open>
  A \<open>set-thresholds\<close> command that succeeds also succeeds with the
  safety margin \<open>nan\<close>: the installed policy then has a margin that is not a number.
\<close>

theorem thresholds_may_be_not_a_number:
  assumes "fst (verb_set_thresholds vx args c) = Some r" "rep_payload r \<noteq> []"
  shows "\<exists>p. map_of (g_policies (co_governor (snd (verb_set_thresholds vx (args[5 := ''nan'']) c)))) (pol_id p) = Some p \<and>
    mg_policy_safety (pol_margins p) = NaN"
  by (rule set_thresholds_nan [OF assms])

theorem thresholds_may_be_not_a_number_witness:
  "\<exists>p. map_of (g_policies (co_governor (snd (verb_set_thresholds steady (default_arguments[5 := ''nan'']) listening))))
     (pol_id p) = Some p \<and> mg_policy_safety (pol_margins p) = NaN"
  using default_arguments_accepted thresholds_may_be_not_a_number by blast

section \<open>Connections and frames\<close>

text \<open>
  The bound on connections counts every connection since the start. After
  that many connections each later one is refused, however many sessions have ended meanwhile.
\<close>

theorem connections_are_used_up:
  assumes "bound \<le> count_list earlier CE_CONNECTED"
  shows "accept_connections bound (earlier @ later) 0 =
    accept_connections bound earlier 0 @ replicate (count_list later CE_CONNECTED) False"
  by (rule accept_exhausted [OF assms])

theorem connections_are_used_up_witness:
  "accept_connections 1 ([CE_CONNECTED, CE_SESSION_ENDED] @ [CE_CONNECTED]) 0 = [True, False]"
  using connections_are_used_up [of 1 "[CE_CONNECTED, CE_SESSION_ENDED]" "[CE_CONNECTED]"] by simp

text \<open>
  C20: the group of frames a peer sends, closed by the terminator, is
  read exactly as sent and nothing beyond it is consumed, however the network cuts the bytes up.
\<close>

theorem groups_survive_fragmentation:
  assumes "list_all2 (\<lambda>(kind, flags, content) bytes. encode_frame kind flags content = Inr bytes \<and>
      kind \<noteq> MK_RESPONSE_END \<and> length content \<le> max_payload) messages parts"
    and "encode_frame MK_RESPONSE_END 0 [] = Inr terminator"
    and "wellformed s" "pending s = concat parts @ terminator @ rest" "length messages < fuel"
  shows "\<exists>s'. read_group fuel max_payload s [] = Some (success,
      map (\<lambda>(kind, flags, content). \<lparr>fm_kind = kind, fm_flags = flags, fm_payload = content\<rparr>) messages, s') \<and>
    pending s' = rest"
proof -
  let ?fs = "map (\<lambda>(kind, flags, content). \<lparr>fm_kind = kind, fm_flags = flags, fm_payload = content\<rparr>) messages"
  have parts: "list_all2 (\<lambda>bytes f. decode_frame max_payload bytes = Inr f \<and> fm_kind f \<noteq> MK_RESPONSE_END) parts ?fs"
    using assms(1) by (induction messages parts rule: list_all2_induct) (auto dest: frame_decoded)
  have len: "length parts < fuel" using assms(1,5) by (simp add: list_all2_lengthD)
  have "decode_frame max_payload terminator = Inr \<lparr>fm_kind = MK_RESPONSE_END, fm_flags = 0, fm_payload = []\<rparr>"
    by (rule frame_decoded [OF assms(2)]) simp
  from read_group_intact [OF assms(3,4) parts this _ len, of "[]"] show ?thesis by auto
qed

theorem groups_survive_fragmentation_witness:
  "\<exists>bytes terminator s'. encode_frame MK_HEARTBEAT 0 [7] = Inr bytes \<and>
     read_group 2 100 \<lparr>in_open = True, in_pieces = [take 5 bytes, drop 5 bytes @ terminator], in_fails = False\<rparr> [] =
       Some (success, [\<lparr>fm_kind = MK_HEARTBEAT, fm_flags = 0, fm_payload = [7]\<rparr>], s')"
proof -
  obtain bytes where bytes: "encode_frame MK_HEARTBEAT 0 [7] = Inr bytes"
    by (simp add: encode_frame_def message_kind_written Let_def)
  obtain terminator where terminator: "encode_frame MK_RESPONSE_END 0 [] = Inr terminator"
    by (simp add: encode_frame_def message_kind_written Let_def)
  have "24 \<le> length bytes" by (rule decoded_frame(1) [OF frame_decoded [OF bytes, of 100]]) simp
  then have "wellformed \<lparr>in_open = True, in_pieces = [take 5 bytes, drop 5 bytes @ terminator], in_fails = False\<rparr>"
    by (auto simp: wellformed_def)
  then have "\<exists>s'. read_group 2 100
      \<lparr>in_open = True, in_pieces = [take 5 bytes, drop 5 bytes @ terminator], in_fails = False\<rparr> [] =
    Some (success, [\<lparr>fm_kind = MK_HEARTBEAT, fm_flags = 0, fm_payload = [7]\<rparr>], s')"
    using groups_survive_fragmentation [of 100 "[(MK_HEARTBEAT, 0, [7])]" "[bytes]" terminator
        "\<lparr>in_open = True, in_pieces = [take 5 bytes, drop 5 bytes @ terminator], in_fails = False\<rparr>" "[]" 2]
      bytes terminator by (auto simp: pending_def)
  then show ?thesis using bytes by blast
qed

text \<open>
  C27: on a finite stream, whatever its bytes, the loop that reads a group ends:
  a number of iterations above the frame-sized parts of the stream always gives its result, and
  allowing more changes nothing.
\<close>

theorem reading_a_group_ends:
  assumes "length (pending s) div kFrameOverhead < fuel"
  shows "\<exists>r. \<forall>extra. read_group (fuel + extra) max_payload s out = Some r"
  by (rule read_group_ends [OF assms])

theorem reading_a_group_ends_witness:
  "\<exists>r. read_group 3 100 \<lparr>in_open = True, in_pieces = [[1, 2], [3]], in_fails = True\<rparr> [] = Some r"
proof -
  have "\<exists>r. \<forall>extra. read_group (1 + extra) 100 \<lparr>in_open = True, in_pieces = [[1, 2], [3]], in_fails = True\<rparr> [] = Some r"
    by (rule reading_a_group_ends) (simp add: pending_def frame_sizes)
  then obtain r where r: "read_group (1 + extra) 100 \<lparr>in_open = True, in_pieces = [[1, 2], [3]], in_fails = True\<rparr> [] = Some r"
    for extra by blast
  have three: "1 + 2 = (3 :: nat)" by simp
  show ?thesis using r [of 2] unfolding three by blast
qed

section \<open>Threads\<close>

text \<open>
  C26: from every state of the threads in which the stop flag is up, whatever the
  peers do and however the threads interleave, the process makes at most \<open>8 + 4 n\<close> further steps for
  \<open>n\<close> handlers, and until it is done some thread can go on without waiting for a peer: when no
  thread can, the main thread has joined every handler and all of them have ended. No session that
  was idle, that had just been accepted, or that was about to receive is waited for.
\<close>

theorem shutdown_completes:
  assumes "threads_reachable bound s" "th_stopping s"
  shows "(\<forall>n s'. thread_run bound s n s' \<longrightarrow> n \<le> 8 + 4 * length (th_handlers s)) \<and>
    (\<forall>n s'. thread_run bound s n s' \<longrightarrow> (\<nexists>s''. thread_step bound False s' s'') \<longrightarrow>
       th_main s' = MP_DONE \<and> (\<forall>t \<in> set (th_handlers s'). ht_point t = HP_GONE))"
proof (intro conjI allI impI)
  fix n s' assume run: "thread_run bound s n s'"
  show "n \<le> 8 + 4 * length (th_handlers s)"
    using run_bounded [OF run assms(2)] effort_bound [of s] by linarith
next
  fix n s' assume run: "thread_run bound s n s'" and stuck: "\<nexists>s''. thread_step bound False s' s''"
  have i: "interrupted s'" by (rule reachable_interrupted [OF run_reachable [OF run assms(1)]])
  then show "th_main s' = MP_DONE" using threads_go_on run_stopping [OF run assms(2)] stuck by blast
  with i show "\<forall>t \<in> set (th_handlers s'). ht_point t = HP_GONE" by (simp add: interrupted_def)
qed

text \<open>A client that connects and sends \<open>shutdown\<close>.\<close>

definition one_session :: "handler_point \<Rightarrow> bool \<Rightarrow> threads" where
  "one_session p stopping =
     \<lparr>th_stopping = stopping, th_main = MP_CHECK, th_handlers = [\<lparr>ht_point = p, ht_shut = False\<rparr>]\<rparr>"

lemma one_session_moves:
  assumes "threads_reachable 64 (one_session p b)" "handler_step 0 peer (one_session p b) s"
  shows "threads_reachable 64 s"
  using tr_step [OF assms(1) ts_handler [OF _ assms(2)]] by (simp add: one_session_def)

lemma stopping_session: "threads_reachable 64 (one_session HP_LEAVING True)"
proof -
  have "threads_reachable 64 (listening_threads\<lparr>th_main := MP_WAIT\<rparr>)"
    using tr_step [OF tr_start ts_main [OF ms_check [of listening_threads]]] by (simp add: listening_threads_def)
  from tr_step [OF this ts_main [OF ms_accepted]]
  have "threads_reachable 64 (one_session HP_SPAWNED False)"
    by (simp add: listening_threads_def one_session_def spawn_def)
  from one_session_moves [OF this hs_register]
  have "threads_reachable 64 (one_session HP_REGISTERED False)" by (simp add: one_session_def move_handler_def)
  from one_session_moves [OF this hs_begin]
  have "threads_reachable 64 (one_session HP_LOOPING False)" by (simp add: one_session_def move_handler_def)
  from one_session_moves [OF this hs_check]
  have "threads_reachable 64 (one_session HP_RECEIVING False)" by (simp add: one_session_def move_handler_def)
  from one_session_moves [OF this hs_frame]
  have "threads_reachable 64 (one_session HP_HANDLING False)" by (simp add: one_session_def move_handler_def)
  from one_session_moves [OF this hs_shutdown] show ?thesis by (simp add: one_session_def move_handler_def)
qed

theorem shutdown_completes_witness:
  "threads_reachable 64 (one_session HP_LEAVING True) \<and>
   \<not> (\<exists>s'. thread_run 64 (one_session HP_LEAVING True) 13 s')"
proof -
  have "n \<le> 12" if "thread_run 64 (one_session HP_LEAVING True) n s'" for n s'
  proof -
    have "n \<le> 8 + 4 * length (th_handlers (one_session HP_LEAVING True))"
      using shutdown_completes [OF stopping_session] that by (auto simp: one_session_def)
    then show ?thesis by (simp add: one_session_def)
  qed
  from this [of 13] show ?thesis using stopping_session by auto
qed

section \<open>Renderings and the coupling graph\<close>

text \<open>
  C29: a rendered explanation never exceeds its bound; it consists of whole
  pieces in their order, and of all of them unless together they exceed the bound.
\<close>

theorem explanations_are_bounded:
  "length (render_explanation x) \<le> kMaxRenderedBytes \<and>
   (\<exists>kept. subseq kept (explanation_pieces x) \<and> render_explanation x = concat kept) \<and>
   (render_explanation x = concat (explanation_pieces x) \<or>
      kMaxRenderedBytes < length (concat (explanation_pieces x)))"
  using foldl_append_bounded_length [of "[]" "explanation_pieces x"]
    foldl_append_bounded_subseq [of "explanation_pieces x" "[]"]
    foldl_append_bounded_full [of "[]" "explanation_pieces x"]
  by (auto simp: render_explanation_def not_less)

text \<open>
  C28: the iterative three-colour search always ends and answers exactly whether the
  coupling graph has a cycle, self loops included.
\<close>

theorem cycles_are_found:
  "has_cycle edges \<longleftrightarrow> (\<exists>n. (n, n) \<in> (coupling_edges edges)\<^sup>+)"
  by (rule has_cycle_correct)

end
