(* ===== verification/ErrorNumbers.thy ===== *)
theory ErrorNumbers
  imports Errors
begin

text \<open>
  The numbers of \<^verbatim>\<open>ThermalErrorCode\<close> in \<^verbatim>\<open>error.hpp\<close>, as they travel in status payloads, and the
  name a receiver shows for a number.
\<close>

primrec error_code_value :: "error_code \<Rightarrow> u32" where
    "error_code_value E_NONE = 0"
  | "error_code_value E_STALE_EPOCH = 1"
  | "error_code_value E_STALE_WORKER = 2"
  | "error_code_value E_STALE_DEVICE_GENERATION = 3"
  | "error_code_value E_STALE_DOMAIN_GENERATION = 4"
  | "error_code_value E_STALE_TELEMETRY = 5"
  | "error_code_value E_STALE_POLICY = 6"
  | "error_code_value E_STALE_ACTION = 7"
  | "error_code_value E_STALE_TOPOLOGY = 8"
  | "error_code_value E_STALE_CAPABILITY = 9"
  | "error_code_value E_STALE_VERIFICATION = 10"
  | "error_code_value E_UNKNOWN_DEVICE = 20"
  | "error_code_value E_UNKNOWN_DOMAIN = 21"
  | "error_code_value E_UNKNOWN_WORKLOAD = 22"
  | "error_code_value E_UNKNOWN_NODE = 23"
  | "error_code_value E_UNKNOWN_RACK = 24"
  | "error_code_value E_UNKNOWN_ACTION = 25"
  | "error_code_value E_UNKNOWN_POLICY = 26"
  | "error_code_value E_UNKNOWN_COORDINATOR = 27"
  | "error_code_value E_CAPABILITY_UNSUPPORTED = 40"
  | "error_code_value E_EVIDENCE_UNKNOWN = 41"
  | "error_code_value E_EVIDENCE_STALE = 42"
  | "error_code_value E_EVIDENCE_CONFLICT = 43"
  | "error_code_value E_TEMPERATURE_INVALID = 44"
  | "error_code_value E_EVIDENCE_DUPLICATE = 45"
  | "error_code_value E_POLICY_INVALID = 60"
  | "error_code_value E_POLICY_CYCLE = 61"
  | "error_code_value E_POLICY_LIMIT_EXCEEDED = 62"
  | "error_code_value E_THERMAL_WARNING = 80"
  | "error_code_value E_THERMAL_DERATING_REQUIRED = 81"
  | "error_code_value E_THERMAL_CRITICAL = 82"
  | "error_code_value E_NO_SAFE_THERMAL_ENVELOPE = 83"
  | "error_code_value E_RECOVERY_FORBIDDEN = 84"
  | "error_code_value E_REVALIDATION_REQUIRED = 85"
  | "error_code_value E_ACTION_INFEASIBLE = 100"
  | "error_code_value E_ACTION_INEFFECTIVE = 101"
  | "error_code_value E_ACTION_SUPERSEDED = 102"
  | "error_code_value E_ACTION_CANCELLED = 103"
  | "error_code_value E_BACKEND_FAILURE = 104"
  | "error_code_value E_SECONDARY_VIOLATION = 105"
  | "error_code_value E_PERSISTENCE_CORRUPT = 120"
  | "error_code_value E_PERSISTENCE_UNSUPPORTED_VERSION = 121"
  | "error_code_value E_PERSISTENCE_IO = 122"
  | "error_code_value E_PERSISTENCE_TRUNCATED = 123"
  | "error_code_value E_PERSISTENCE_TRAILING_GARBAGE = 124"
  | "error_code_value E_PERSISTENCE_INTEGRITY = 125"
  | "error_code_value E_FRAME_CORRUPT = 140"
  | "error_code_value E_FRAME_TOO_LARGE = 141"
  | "error_code_value E_FRAME_TRUNCATED = 142"
  | "error_code_value E_PROTOCOL_UNSUPPORTED = 143"
  | "error_code_value E_TRANSPORT_IO = 144"
  | "error_code_value E_TRANSPORT_CLOSED = 145"
  | "error_code_value E_DUPLICATE_CONFLICT = 160"
  | "error_code_value E_RESOURCE_EXHAUSTED = 161"
  | "error_code_value E_OUTCOME_UNKNOWN = 162"
  | "error_code_value E_INVALID_ARGUMENT = 163"
  | "error_code_value E_NOT_IMPLEMENTED = 164"
  | "error_code_value E_INTERNAL = 165"

definition all_error_codes :: "error_code list" where
  "all_error_codes =
     [E_NONE, E_STALE_EPOCH, E_STALE_WORKER, E_STALE_DEVICE_GENERATION,
      E_STALE_DOMAIN_GENERATION, E_STALE_TELEMETRY, E_STALE_POLICY, E_STALE_ACTION,
      E_STALE_TOPOLOGY, E_STALE_CAPABILITY, E_STALE_VERIFICATION, E_UNKNOWN_DEVICE,
      E_UNKNOWN_DOMAIN, E_UNKNOWN_WORKLOAD, E_UNKNOWN_NODE, E_UNKNOWN_RACK, E_UNKNOWN_ACTION,
      E_UNKNOWN_POLICY, E_UNKNOWN_COORDINATOR, E_CAPABILITY_UNSUPPORTED, E_EVIDENCE_UNKNOWN,
      E_EVIDENCE_STALE, E_EVIDENCE_CONFLICT, E_TEMPERATURE_INVALID, E_EVIDENCE_DUPLICATE,
      E_POLICY_INVALID, E_POLICY_CYCLE, E_POLICY_LIMIT_EXCEEDED, E_THERMAL_WARNING,
      E_THERMAL_DERATING_REQUIRED, E_THERMAL_CRITICAL, E_NO_SAFE_THERMAL_ENVELOPE,
      E_RECOVERY_FORBIDDEN, E_REVALIDATION_REQUIRED, E_ACTION_INFEASIBLE,
      E_ACTION_INEFFECTIVE, E_ACTION_SUPERSEDED, E_ACTION_CANCELLED, E_BACKEND_FAILURE,
      E_SECONDARY_VIOLATION, E_PERSISTENCE_CORRUPT, E_PERSISTENCE_UNSUPPORTED_VERSION,
      E_PERSISTENCE_IO, E_PERSISTENCE_TRUNCATED, E_PERSISTENCE_TRAILING_GARBAGE,
      E_PERSISTENCE_INTEGRITY, E_FRAME_CORRUPT, E_FRAME_TOO_LARGE, E_FRAME_TRUNCATED,
      E_PROTOCOL_UNSUPPORTED, E_TRANSPORT_IO, E_TRANSPORT_CLOSED, E_DUPLICATE_CONFLICT,
      E_RESOURCE_EXHAUSTED, E_OUTCOME_UNKNOWN, E_INVALID_ARGUMENT, E_NOT_IMPLEMENTED,
      E_INTERNAL]"

lemma all_error_codes_complete [simp]: "e \<in> set all_error_codes"
  by (cases e) (simp_all add: all_error_codes_def)

definition error_code_of_value :: "u32 \<Rightarrow> error_code option" where
  "error_code_of_value v = find (\<lambda>e. error_code_value e = v) all_error_codes"

definition code_text :: "u32 \<Rightarrow> string" where
  "code_text v =
     (case error_code_of_value v of
        Some e \<Rightarrow> to_string_error_code e | None \<Rightarrow> ''UNRECOGNISED_ERROR_CODE'')"

text \<open>The numbers are pairwise different, so a received number names the code that was sent.\<close>

lemma error_numbers_distinct: "distinct (map error_code_value all_error_codes)"
  by code_simp

lemma error_code_of_value_of [simp]: "error_code_of_value (error_code_value e) = Some e"
proof -
  have "inj_on error_code_value (set all_error_codes)"
    using error_numbers_distinct by (simp only: distinct_map)
  then have "(\<lambda>d. error_code_value d = error_code_value e) = (\<lambda>d. d = e)"
    by (auto simp: inj_on_def)
  moreover have "find (\<lambda>d. d = e) xs = Some e" if "e \<in> set xs" for xs
    using that by (induction xs) auto
  ultimately show ?thesis by (simp add: error_code_of_value_def)
qed

lemma code_text_value: "code_text (error_code_value e) = to_string_error_code e"
  by (simp add: code_text_def)

lemma error_code_value_zero: "error_code_value e = 0 \<longleftrightarrow> e = E_NONE"
  by (cases e) simp_all

end
