(* ===== verification/Client.thy ===== *)
theory Client
  imports Session Wire Frame ErrorNumbers
begin

text \<open>
  The two client processes: \<^verbatim>\<open>tools/tg_worker.cpp\<close> and \<^verbatim>\<open>tools/tg_cli.cpp\<close>. A client talks to a
  \<open>channel\<close>, whatever is at its other end; the printed lines are values of \<open>worker_output\<close>.
\<close>

section \<open>Channels\<close>

text \<open>
  Sending a frame and receiving one, over a state \<open>'s\<close> of the connection. \<open>None\<close> is a receive that
  waits for ever.
\<close>

record 's channel =
  ch_send :: "message_kind \<Rightarrow> u8 list \<Rightarrow> 's \<Rightarrow> status \<times> 's"
  ch_recv :: "'s \<Rightarrow> frame result option \<times> 's"

text \<open>\<^verbatim>\<open>(void)send_end(socket)\<close>\<close>

definition channel_end :: "'s channel \<Rightarrow> 's \<Rightarrow> 's" where
  "channel_end ch s = snd (ch_send ch MK_RESPONSE_END [] s)"

text \<open>\<^verbatim>\<open>read_group\<close> over a channel; \<open>None\<close> when the peer never sends the terminator.\<close>

partial_function (option) channel_group ::
  "'s channel \<Rightarrow> frame list \<Rightarrow> 's \<Rightarrow> (status \<times> frame list \<times> 's) option" where
  "channel_group ch out s =
     (case ch_recv ch s of
        (None, s) \<Rightarrow> None
      | (Some (Inl e), s) \<Rightarrow> Some (Inl e, out, s)
      | (Some (Inr f), s) \<Rightarrow>
          if fm_kind f = MK_RESPONSE_END then Some (success, out, s) else channel_group ch (out @ [f]) s)"

section \<open>The options of a worker\<close>

record worker_options =
  wo_host :: string
  wo_port :: u16
  wo_worker_id :: u64
  wo_boot_id :: u64
  wo_name :: string
  wo_device_id :: u64
  wo_device_generation :: u64
  wo_node_id :: u64
  wo_node_generation :: u64
  wo_rack_id :: u64
  wo_rack_generation :: u64
  wo_domain_id :: u64
  wo_domain_generation :: u64
  wo_temperatures :: "f64 list"
  wo_repeat :: u32
  wo_ready_file :: string
  wo_hold :: bool
  wo_mitigation_delta :: f64
  wo_real_telemetry :: bool

definition default_worker_options :: worker_options where
  "default_worker_options =
     \<lparr>wo_host = ''127.0.0.1'', wo_port = 0, wo_worker_id = 1, wo_boot_id = 1, wo_name = ''worker'',
      wo_device_id = 1, wo_device_generation = 1, wo_node_id = 1, wo_node_generation = 1,
      wo_rack_id = 1, wo_rack_generation = 1, wo_domain_id = 1, wo_domain_generation = 1,
      wo_temperatures = [], wo_repeat = 1, wo_ready_file = [], wo_hold = False,
      wo_mitigation_delta = Fin (- 8), wo_real_telemetry = False\<rparr>"

text \<open>The options whose value is a number of 64 bits.\<close>

definition worker_number_options :: "(string \<times> (u64 \<Rightarrow> worker_options \<Rightarrow> worker_options)) list" where
  "worker_number_options =
     [(''--worker-id'', \<lambda>v. wo_worker_id_update (\<lambda>_. v)), (''--boot'', \<lambda>v. wo_boot_id_update (\<lambda>_. v)),
      (''--device'', \<lambda>v. wo_device_id_update (\<lambda>_. v)),
      (''--device-generation'', \<lambda>v. wo_device_generation_update (\<lambda>_. v)),
      (''--node'', \<lambda>v. wo_node_id_update (\<lambda>_. v)),
      (''--node-generation'', \<lambda>v. wo_node_generation_update (\<lambda>_. v)),
      (''--rack'', \<lambda>v. wo_rack_id_update (\<lambda>_. v)),
      (''--rack-generation'', \<lambda>v. wo_rack_generation_update (\<lambda>_. v)),
      (''--domain'', \<lambda>v. wo_domain_id_update (\<lambda>_. v)),
      (''--domain-generation'', \<lambda>v. wo_domain_generation_update (\<lambda>_. v)),
      (''--repeat'', \<lambda>v. wo_repeat_update (\<lambda>_. ucast v))]"

text \<open>The options and the temperature script; \<open>None\<close> is exit code 2.\<close>

fun parse_worker_args :: "string list \<Rightarrow> worker_options \<times> string \<Rightarrow> (worker_options \<times> string) option"
  where
  "parse_worker_args [] st = Some st"
| "parse_worker_args (name # rest) (w, script) =
     (if name = ''--hold'' then parse_worker_args rest (w\<lparr>wo_hold := True\<rparr>, script)
      else if name = ''--real-telemetry'' then parse_worker_args rest (w\<lparr>wo_real_telemetry := True\<rparr>, script)
      else case rest of
        [] \<Rightarrow> None
      | v # rest \<Rightarrow>
          if name = ''--host'' then parse_worker_args rest (w\<lparr>wo_host := v\<rparr>, script)
          else if name = ''--port'' then
            (case parse_u64 v of
               None \<Rightarrow> None
             | Some port \<Rightarrow> if 65535 < port then None
                 else parse_worker_args rest (w\<lparr>wo_port := ucast port\<rparr>, script))
          else if name = ''--label'' then parse_worker_args rest (w\<lparr>wo_name := v\<rparr>, script)
          else if name = ''--temps'' then parse_worker_args rest (w, v)
          else if name = ''--ready-file'' then parse_worker_args rest (w\<lparr>wo_ready_file := v\<rparr>, script)
          else if name = ''--mitigation-delta'' then
            (case parse_double v of
               None \<Rightarrow> None | Some x \<Rightarrow> parse_worker_args rest (w\<lparr>wo_mitigation_delta := x\<rparr>, script))
          else (case map_of worker_number_options name of
              None \<Rightarrow> None
            | Some assign \<Rightarrow>
              (case parse_u64 v of
                 None \<Rightarrow> None | Some n \<Rightarrow> parse_worker_args rest (assign n w, script))))"

fun parse_script :: "string list \<Rightarrow> f64 list option" where
  "parse_script [] = Some []"
| "parse_script (token # rest) =
     (if token = [] then parse_script rest
      else case parse_double token of
        None \<Rightarrow> None | Some v \<Rightarrow> map_option ((#) v) (parse_script rest))"

definition worker_options_of :: "string list \<Rightarrow> worker_options option" where
  "worker_options_of args =
     (case parse_worker_args args (default_worker_options, []) of
        None \<Rightarrow> None
      | Some (w, script) \<Rightarrow>
        (case parse_script (split_text script CHR '','') of
           None \<Rightarrow> None
         | Some [] \<Rightarrow> Some (w\<lparr>wo_temperatures := [Fin 0]\<rparr>)
         | Some ts \<Rightarrow> Some (w\<lparr>wo_temperatures := ts\<rparr>)))"

section \<open>Registration\<close>

definition worker_device :: "worker_options \<Rightarrow> device_registration" where
  "worker_device w =
     (let measured = (if wo_real_telemetry w then CS_SUPPORTED_REAL else CS_SUPPORTED_SYNTHETIC)
      in \<lparr>dr_device = wo_device_id w, dr_generation = wo_device_generation w, dr_node = wo_node_id w,
          dr_node_generation = wo_node_generation w, dr_rack = wo_rack_id w,
          dr_rack_generation = wo_rack_generation w, dr_label = wo_name w,
          dr_capabilities =
            foldl (\<lambda>cs (c, st). cap_set cs c st []) empty_capabilities
              [(TC_DEVICE_IDENTITY, measured), (TC_TEMPERATURE, measured),
               (TC_TEMPERATURE_LIMIT, CS_SUPPORTED_SYNTHETIC), (TC_THROTTLE_REASONS, CS_SUPPORTED_SYNTHETIC),
               (TC_CURRENT_CLOCK, CS_SUPPORTED_SYNTHETIC), (TC_MAX_CLOCK, CS_SUPPORTED_SYNTHETIC)],
          dr_provenance = (if wo_real_telemetry w then P_REAL else P_SYNTHETIC)\<rparr>)"

definition worker_hello :: "worker_options \<Rightarrow> worker_registration" where
  "worker_hello w =
     \<lparr>wr_worker = wo_worker_id w, wr_boot = wo_boot_id w, wr_label = wo_name w, wr_coordinator_epoch = 1,
      wr_devices = [worker_device w]\<rparr>"

text \<open>What follows the first occurrence of a text, \<^verbatim>\<open>find\<close> and \<^verbatim>\<open>substr\<close>.\<close>

fun after_text :: "string \<Rightarrow> string \<Rightarrow> string option" where
  "after_text p [] = (if p = [] then Some [] else None)"
| "after_text p (c # s) =
     (if take (length p) (c # s) = p then Some (drop (length p) (c # s)) else after_text p s)"

text \<open>The epoch the answers to the registration name; \<open>None\<close> when one of them is a refusal.\<close>

fun hello_epoch :: "frame list \<Rightarrow> ident \<Rightarrow> ident option" where
  "hello_epoch [] epoch = Some epoch"
| "hello_epoch (f # frames) epoch =
     (if fm_kind f \<noteq> MK_HELLO_ACK then hello_epoch frames epoch
      else case decode_response default_wire_limits (fm_payload f) of
        Inl _ \<Rightarrow> None
      | Inr r \<Rightarrow>
          if sp_code (cs_status r) \<noteq> 0 then None
          else hello_epoch frames
            (case after_text ''epoch='' (cs_payload r) of
               None \<Rightarrow> epoch
             | Some digits \<Rightarrow> (case parse_u64 digits of None \<Rightarrow> epoch | Some v \<Rightarrow> v)))"

section \<open>Publication\<close>

text \<open>\<open>clock\<close> gives the two clock readings taken for an observation.\<close>

definition make_evidence ::
  "worker_options \<Rightarrow> (u64 \<Rightarrow> time_ns \<times> time_ns) \<Rightarrow> ident \<Rightarrow> ident \<Rightarrow> u64 \<Rightarrow> celsius \<Rightarrow>
     throttle_observation option \<Rightarrow> evidence" where
  "make_evidence w clock epoch telemetry sequence temperature throttle =
     empty_evidence
       \<lparr>ev_evidence_id := sequence, ev_subject := for_device (wo_device_id w) (wo_device_generation w),
        ev_domain := wo_domain_id w, ev_domain_generation := wo_domain_generation w,
        ev_temperature := temperature,
        ev_source := (if wo_real_telemetry w then MS_NVML_GPU_TEMPERATURE else MS_SYNTHETIC_MODEL),
        ev_provenance := (if wo_real_telemetry w then P_REAL else P_SYNTHETIC),
        ev_measurement_sequence := sequence, ev_telemetry_generation := telemetry,
        ev_worker := wo_worker_id w, ev_worker_boot := wo_boot_id w, ev_coordinator_epoch := epoch,
        ev_measured_at := fst (clock sequence), ev_measured_wall_at := snd (clock sequence),
        ev_capability_generation := 1, ev_topology_generation := 1, ev_integrity := IS_OK,
        ev_throttle := throttle\<rparr>"

datatype worker_output =
    WO_REGISTERED ident
  | WO_PUBLISHED u64 f64
  | WO_REJECTED u64 "u32 option"
  | WO_EVALUATED evaluation_summary
  | WO_MITIGATION ident mitigation_intent
  | WO_READY u64
  | WO_EXIT

record 's worker_state =
  wk_channel :: 's
  wk_current :: f64
  wk_sequence :: u64
  wk_log :: "worker_output list"

definition print_line :: "worker_output \<Rightarrow> 's worker_state \<Rightarrow> 's worker_state" where
  "print_line x st = st\<lparr>wk_log := wk_log st @ [x]\<rparr>"

definition worker_ack :: "thermal_action \<Rightarrow> action_ack" where
  "worker_ack a =
     \<lparr>ak_action_id = ac_id a, ak_action_generation = ac_generation a,
      ak_coordinator_epoch = aa_coordinator_epoch (ac_authority a),
      ak_worker_boot = aa_worker_boot (ac_authority a),
      ak_device_generation = aa_device_generation (ac_authority a),
      ak_domain_generation = aa_domain_generation (ac_authority a), ak_accepted = True,
      ak_detail = ''synthetic backend accepted the instruction''\<rparr>"

definition worker_report :: "thermal_action \<Rightarrow> u64 \<Rightarrow> action_report" where
  "worker_report a sequence =
     \<lparr>rr_action_id = ac_id a, rr_action_generation = ac_generation a,
      rr_coordinator_epoch = aa_coordinator_epoch (ac_authority a),
      rr_worker_boot = aa_worker_boot (ac_authority a),
      rr_device_generation = aa_device_generation (ac_authority a),
      rr_domain_generation = aa_domain_generation (ac_authority a), rr_policy_generation = 1,
      rr_telemetry_generation = sequence, rr_backend_succeeded = True,
      rr_detail = ''synthetic backend applied the instruction''\<rparr>"

text \<open>
  An instruction is acknowledged, applied to the synthetic temperature and reported. The answers
  to both messages are read and thrown away.
\<close>

definition answer_instruction ::
  "'s channel \<Rightarrow> worker_options \<Rightarrow> thermal_action \<Rightarrow> 's worker_state \<Rightarrow> (bool \<times> 's worker_state) option"
  where
  "answer_instruction ch w a st =
     (case ch_send ch MK_INTENT_ACK (encode_action_ack (worker_ack a)) (wk_channel st) of
        (Inl _, s) \<Rightarrow> Some (False, st\<lparr>wk_channel := s\<rparr>)
      | (Inr _, s) \<Rightarrow>
        (case channel_group ch [] (channel_end ch s) of
           None \<Rightarrow> None
         | Some (_, _, s) \<Rightarrow>
           (let st = st\<lparr>wk_current := fadd (wk_current st) (wo_mitigation_delta w)\<rparr>
            in case ch_send ch MK_INTENT_RESULT (encode_action_result (worker_report a (wk_sequence st))) s of
                 (Inl _, s) \<Rightarrow> Some (False, st\<lparr>wk_channel := s\<rparr>)
               | (Inr _, s) \<Rightarrow>
                 (case channel_group ch [] (channel_end ch s) of
                    None \<Rightarrow> None
                  | Some (_, _, s) \<Rightarrow>
                      Some (True, print_line (WO_MITIGATION (ac_id a) (ac_intent a)) (st\<lparr>wk_channel := s\<rparr>))))))"

definition publish_line :: "u64 \<Rightarrow> f64 \<Rightarrow> u8 list \<Rightarrow> worker_output" where
  "publish_line sequence temperature data =
     (case decode_response default_wire_limits data of
        Inl _ \<Rightarrow> WO_REJECTED sequence None
      | Inr r \<Rightarrow> if sp_code (cs_status r) = 0 then WO_PUBLISHED sequence temperature
          else WO_REJECTED sequence (Some (sp_code (cs_status r))))"

text \<open>The frames of an answer, in order; the result is whether the worker goes on.\<close>

fun handle_answer ::
  "'s channel \<Rightarrow> worker_options \<Rightarrow> f64 \<Rightarrow> frame list \<Rightarrow> 's worker_state \<Rightarrow> (bool \<times> 's worker_state) option"
  where
  "handle_answer ch w temperature [] st = Some (True, st)"
| "handle_answer ch w temperature (f # frames) st =
     (if fm_kind f = MK_PUBLISH_ACK
      then handle_answer ch w temperature frames
        (print_line (publish_line (wk_sequence st) temperature (fm_payload f)) st)
      else if fm_kind f = MK_EVALUATE_RESPONSE
      then handle_answer ch w temperature frames
        (case decode_evaluation_summary default_wire_limits (fm_payload f) of
           Inl _ \<Rightarrow> st | Inr s \<Rightarrow> print_line (WO_EVALUATED s) st)
      else if fm_kind f = MK_DISPATCH_INTENT
      then (case decode_action default_wire_limits (fm_payload f) of
          Inl _ \<Rightarrow> handle_answer ch w temperature frames st
        | Inr a \<Rightarrow>
          (case answer_instruction ch w a st of
             None \<Rightarrow> None
           | Some (False, st) \<Rightarrow> Some (False, st)
           | Some (True, st) \<Rightarrow> handle_answer ch w temperature frames st))
      else if fm_kind f = MK_SHUTDOWN then Some (False, st)
      else handle_answer ch w temperature frames st)"

definition worker_publish ::
  "'s channel \<Rightarrow> worker_options \<Rightarrow> (u64 \<Rightarrow> time_ns \<times> time_ns) \<Rightarrow> ident \<Rightarrow> f64 \<Rightarrow>
     throttle_observation option \<Rightarrow> 's worker_state \<Rightarrow> (bool \<times> 's worker_state) option" where
  "worker_publish ch w clock epoch temperature throttle st =
     (let sequence = wk_sequence st + 1; st = st\<lparr>wk_sequence := sequence\<rparr>;
          ev = make_evidence w clock epoch sequence sequence temperature throttle
      in case ch_send ch MK_PUBLISH_EVIDENCE (encode_evidence ev) (wk_channel st) of
           (Inl _, s) \<Rightarrow> Some (False, st\<lparr>wk_channel := s\<rparr>)
         | (Inr _, s) \<Rightarrow>
           (case channel_group ch [] (channel_end ch s) of
              None \<Rightarrow> None
            | Some (Inl _, _, s) \<Rightarrow> Some (False, st\<lparr>wk_channel := s\<rparr>)
            | Some (Inr _, frames, s) \<Rightarrow> handle_answer ch w temperature frames (st\<lparr>wk_channel := s\<rparr>)))"

fun publish_all ::
  "'s channel \<Rightarrow> worker_options \<Rightarrow> (u64 \<Rightarrow> time_ns \<times> time_ns) \<Rightarrow> ident \<Rightarrow> f64 list \<Rightarrow>
     's worker_state \<Rightarrow> (bool \<times> 's worker_state) option" where
  "publish_all ch w clock epoch [] st = Some (True, st)"
| "publish_all ch w clock epoch (t # ts) st =
     (case worker_publish ch w clock epoch t None (st\<lparr>wk_current := t\<rparr>) of
        None \<Rightarrow> None
      | Some (False, st) \<Rightarrow> Some (False, st)
      | Some (True, st) \<Rightarrow> publish_all ch w clock epoch ts st)"

section \<open>The worker process\<close>

text \<open>Idle until the connection ends or the peer asks to stop.\<close>

partial_function (option) hold_connection :: "'s channel \<Rightarrow> 's \<Rightarrow> 's option" where
  "hold_connection ch s =
     (case ch_recv ch s of
        (None, s) \<Rightarrow> None
      | (Some (Inl _), s) \<Rightarrow> Some s
      | (Some (Inr f), s) \<Rightarrow>
          if fm_kind f = MK_SHUTDOWN \<or> fm_kind f = MK_DISCONNECT then Some s
          else if fm_kind f = MK_HEARTBEAT
          then (case ch_send ch MK_HEARTBEAT (encode_status \<lparr>sp_code = 0, sp_detail = []\<rparr>) s of
              (Inl _, s) \<Rightarrow> Some s
            | (Inr _, s) \<Rightarrow> hold_connection ch (channel_end ch s))
          else hold_connection ch s)"

text \<open>The registration: exit code 1, or the epoch with which the worker goes on.\<close>

definition register_with ::
  "'s channel \<Rightarrow> worker_options \<Rightarrow> 's \<Rightarrow> (ident option \<times> 's) option" where
  "register_with ch w s =
     (case ch_send ch MK_HELLO (encode_worker_registration (worker_hello w)) s of
        (Inl _, s) \<Rightarrow> Some (None, s)
      | (Inr _, s) \<Rightarrow>
        (case channel_group ch [] (channel_end ch s) of
           None \<Rightarrow> None
         | Some (Inl _, _, s) \<Rightarrow> Some (None, s)
         | Some (Inr _, frames, s) \<Rightarrow> Some (hello_epoch frames 1, s)))"

text \<open>
  \<open>ready\<close> is whether the ready file can be written. The exit line is printed unless the registration
  or the ready file failed.
\<close>

definition worker_session ::
  "'s channel \<Rightarrow> worker_options \<Rightarrow> (u64 \<Rightarrow> time_ns \<times> time_ns) \<Rightarrow> bool \<Rightarrow> 's \<Rightarrow>
     (int \<times> 's worker_state) option" where
  "worker_session ch w clock ready s =
     (case register_with ch w s of
        None \<Rightarrow> None
      | Some (None, s) \<Rightarrow> Some (1, \<lparr>wk_channel = s, wk_current = Fin 0, wk_sequence = 0, wk_log = []\<rparr>)
      | Some (Some epoch, s) \<Rightarrow>
        (case publish_all ch w clock epoch (concat (replicate (unat (wo_repeat w)) (wo_temperatures w)))
            \<lparr>wk_channel = s, wk_current = hd (wo_temperatures w), wk_sequence = 0,
             wk_log = [WO_REGISTERED epoch]\<rparr> of
           None \<Rightarrow> None
         | Some (False, st) \<Rightarrow> Some (0, print_line WO_EXIT st)
         | Some (True, st) \<Rightarrow>
             if wo_ready_file w \<noteq> [] \<and> \<not> ready then Some (1, st)
             else let st = print_line (WO_READY (wk_sequence st)) st
               in if \<not> wo_hold w then Some (0, print_line WO_EXIT st)
                  else (case hold_connection ch (wk_channel st) of
                      None \<Rightarrow> None
                    | Some s \<Rightarrow> Some (0, print_line WO_EXIT (st\<lparr>wk_channel := s\<rparr>)))))"

text \<open>\<open>connect\<close> is the connection to a host and port, if there is one.\<close>

definition worker_main ::
  "'s channel \<Rightarrow> (string \<Rightarrow> u16 \<Rightarrow> 's option) \<Rightarrow> (u64 \<Rightarrow> time_ns \<times> time_ns) \<Rightarrow> bool \<Rightarrow> string list \<Rightarrow>
     (int \<times> worker_output list) option" where
  "worker_main ch connect clock ready args =
     (case worker_options_of args of
        None \<Rightarrow> Some (2, [])
      | Some w \<Rightarrow>
        (case connect (wo_host w) (wo_port w) of
           None \<Rightarrow> Some (1, [])
         | Some s \<Rightarrow> map_option (\<lambda>(code, st). (code, wk_log st)) (worker_session ch w clock ready s)))"

section \<open>The command-line client\<close>

datatype cli_arguments = CLI_HELP | CLI_BAD_PORT | CLI_COMMAND string u16 "string list"

text \<open>An option without its value is taken for a positional argument.\<close>

fun parse_cli :: "string list \<Rightarrow> string \<Rightarrow> u16 \<Rightarrow> string list \<Rightarrow> cli_arguments" where
  "parse_cli [] host port positional = CLI_COMMAND host port positional"
| "parse_cli (name # rest) host port positional =
     (if name = ''--help'' \<or> name = ''-h'' then CLI_HELP
      else case rest of
        [] \<Rightarrow> CLI_COMMAND host port (positional @ [name])
      | v # rest' \<Rightarrow>
          if name = ''--host'' then parse_cli rest' v port positional
          else if name = ''--port'' then
            (case parse_u64 v of
               None \<Rightarrow> CLI_BAD_PORT
             | Some n \<Rightarrow> if 65535 < n then CLI_BAD_PORT else parse_cli rest' host (ucast n) positional)
          else parse_cli rest host port (positional @ [name]))"

text \<open>The answers to a command: exit code and output.\<close>

fun show_answers :: "frame list \<Rightarrow> int \<Rightarrow> string \<Rightarrow> int \<times> string" where
  "show_answers [] code out = (code, out)"
| "show_answers (f # frames) code out =
     (if fm_kind f \<noteq> MK_QUERY_RESPONSE then show_answers frames code out
      else case decode_response default_wire_limits (fm_payload f) of
        Inl _ \<Rightarrow> (1, out)
      | Inr r \<Rightarrow>
          if sp_code (cs_status r) \<noteq> 0
          then show_answers frames 3 (out @ ''ERROR '' @ code_text (sp_code (cs_status r)) @ '' '' @
            c_str (sp_detail (cs_status r)) @ nl)
          else show_answers frames code (out @ c_str (cs_payload r) @
            (if cs_payload r \<noteq> [] \<and> last (cs_payload r) \<noteq> CHR 0x0A then nl else [])))"

definition cli_command :: "'s channel \<Rightarrow> string list \<Rightarrow> 's \<Rightarrow> (int \<times> string) option" where
  "cli_command ch positional s =
     (let q = \<lparr>cq_verb = hd positional, cq_arguments = tl positional, cq_payload = []\<rparr>
      in case ch_send ch MK_QUERY_REQUEST (encode_command q) s of
           (Inl _, s) \<Rightarrow> Some (1, [])
         | (Inr _, s) \<Rightarrow>
           (let s = channel_end ch s
            in if cq_verb q = ''shutdown'' then Some (0, ''shutdown requested'' @ nl)
               else (case channel_group ch [] s of
                   None \<Rightarrow> None
                 | Some (Inl _, _, _) \<Rightarrow> Some (1, [])
                 | Some (Inr _, frames, _) \<Rightarrow> Some (show_answers frames 0 []))))"

text \<open>\<open>usage\<close> is the text of \<^verbatim>\<open>print_usage\<close>.\<close>

definition cli_main ::
  "'s channel \<Rightarrow> string \<Rightarrow> (string \<Rightarrow> u16 \<Rightarrow> 's option) \<Rightarrow> string list \<Rightarrow> (int \<times> string) option" where
  "cli_main ch usage connect args =
     (case parse_cli args ''127.0.0.1'' 0 [] of
        CLI_HELP \<Rightarrow> Some (0, usage)
      | CLI_BAD_PORT \<Rightarrow> Some (2, [])
      | CLI_COMMAND host port positional \<Rightarrow>
          if positional = [] then Some (2, usage)
          else if port = 0 then Some (2, [])
          else (case connect host port of None \<Rightarrow> Some (1, []) | Some s \<Rightarrow> cli_command ch positional s))"

end
