(* ===== verification/Connection.thy ===== *)
theory Connection
  imports Client Coordinator WireLaws
begin

text \<open>
  A client connected to the coordinator: the frames it sends are handled by \<open>session_step\<close> in their
  order, and the answers wait to be read. Only the frames of one connection decide its answers, so
  handling each frame when it is sent gives the order in which they are read.
\<close>

section \<open>The coordinator at the other end\<close>

record connection =
  cn_coordinator :: coordinator
  cn_open :: bool
  cn_unread :: "frame list"
  cn_handled :: nat

text \<open>\<open>detail\<close> is the detail text of a refusal, which the replies of the model do not carry.\<close>

definition response_of :: "string \<Rightarrow> reply \<Rightarrow> command_response" where
  "response_of detail r =
     \<lparr>cs_status = \<lparr>sp_code = error_code_value (rep_code r), sp_detail = detail\<rparr>, cs_payload = rep_payload r\<rparr>"

fun frame_of :: "string \<Rightarrow> session_frame \<Rightarrow> frame" where
  "frame_of detail (SF_RESPONSE kind r) =
     \<lparr>fm_kind = kind, fm_flags = 0, fm_payload = encode_response (response_of detail r)\<rparr>"
| "frame_of detail (SF_SUMMARY s) =
     \<lparr>fm_kind = MK_EVALUATE_RESPONSE, fm_flags = 0, fm_payload = encode_evaluation_summary s\<rparr>"
| "frame_of detail (SF_STATUS kind e) =
     \<lparr>fm_kind = kind, fm_flags = 0,
      fm_payload = encode_status \<lparr>sp_code = error_code_value e, sp_detail = detail\<rparr>\<rparr>"
| "frame_of detail SF_END = \<lparr>fm_kind = MK_RESPONSE_END, fm_flags = 0, fm_payload = []\<rparr>"

text \<open>\<open>vxs n\<close> and \<open>details n\<close> are the surroundings and the detail text of the \<open>n\<close>-th frame.\<close>

definition send_to_coordinator ::
  "(nat \<Rightarrow> verb_context) \<Rightarrow> (nat \<Rightarrow> string) \<Rightarrow> message_kind \<Rightarrow> u8 list \<Rightarrow> connection \<Rightarrow> status \<times> connection"
  where
  "send_to_coordinator vxs details kind data l =
     (if \<not> cn_open l then (Inl E_TRANSPORT_IO, l)
      else case session_step (vxs (cn_handled l)) kind data (cn_coordinator l) of
        (None, c) \<Rightarrow> (success, l\<lparr>cn_coordinator := c, cn_open := False, cn_handled := Suc (cn_handled l)\<rparr>)
      | (Some s, c) \<Rightarrow>
          (success, l\<lparr>cn_coordinator := c, cn_open := ss_continue s,
             cn_unread := cn_unread l @ map (frame_of (details (cn_handled l))) (ss_frames s),
             cn_handled := Suc (cn_handled l)\<rparr>))"

definition receive_from_coordinator :: "connection \<Rightarrow> frame result option \<times> connection" where
  "receive_from_coordinator l =
     (case cn_unread l of
        f # rest \<Rightarrow> (Some (Inr f), l\<lparr>cn_unread := rest\<rparr>)
      | [] \<Rightarrow> (if cn_open l then None else Some (Inl E_TRANSPORT_CLOSED), l))"

definition coordinator_channel ::
  "(nat \<Rightarrow> verb_context) \<Rightarrow> (nat \<Rightarrow> string) \<Rightarrow> connection channel" where
  "coordinator_channel vxs details =
     \<lparr>ch_send = send_to_coordinator vxs details, ch_recv = receive_from_coordinator\<rparr>"

text \<open>A fresh connection.\<close>

definition connected_to :: "coordinator \<Rightarrow> connection" where
  "connected_to c = \<lparr>cn_coordinator = c, cn_open = True, cn_unread = [], cn_handled = 0\<rparr>"

section \<open>Groups that wait to be read\<close>

text \<open>Reading a group takes the frames up to the first terminator.\<close>

lemma group_read:
  assumes "\<forall>f \<in> set grp. fm_kind f \<noteq> MK_RESPONSE_END" "fm_kind e = MK_RESPONSE_END"
    and "cn_unread l = grp @ e # rest"
  shows "channel_group (coordinator_channel vxs details) out l = Some (success, out @ grp, l\<lparr>cn_unread := rest\<rparr>)"
  using assms(1,3)
proof (induction grp arbitrary: out l)
  case Nil
  then show ?case
    using assms(2) by (simp add: channel_group.simps coordinator_channel_def receive_from_coordinator_def)
next
  case (Cons f grp)
  have "channel_group (coordinator_channel vxs details) (out @ [f]) (l\<lparr>cn_unread := grp @ e # rest\<rparr>) =
      Some (success, (out @ [f]) @ grp, l\<lparr>cn_unread := grp @ e # rest\<rparr>\<lparr>cn_unread := rest\<rparr>)"
    by (rule Cons.IH) (use Cons.prems in simp_all)
  then show ?case
    using Cons.prems
    by (subst channel_group.simps) (simp add: coordinator_channel_def receive_from_coordinator_def)
qed

text \<open>The acknowledgements of publications among some frames.\<close>

definition acks :: "frame list \<Rightarrow> nat" where
  "acks fs = length (filter (\<lambda>f. fm_kind f = MK_PUBLISH_ACK) fs)"

lemma acks_simps [simp]:
  "acks [] = 0" "acks (fs @ gs) = acks fs + acks gs"
  "acks (f # fs) = (if fm_kind f = MK_PUBLISH_ACK then Suc (acks fs) else acks fs)"
  by (simp_all add: acks_def)

text \<open>
  A group that answers a message of a worker: its frames make the worker do nothing but print, and
  \<open>b\<close> is whether it acknowledges a publication.
\<close>

definition inert :: "frame \<Rightarrow> bool" where
  "inert f \<longleftrightarrow> fm_kind f \<in> {MK_HELLO_ACK, MK_PUBLISH_ACK, MK_EVALUATE_RESPONSE, MK_ERROR_RESPONSE}"

definition answer_group :: "bool \<Rightarrow> frame list \<Rightarrow> bool" where
  "answer_group b g \<longleftrightarrow>
     (\<exists>body e. g = body @ [e] \<and> list_all inert body \<and> fm_kind e = MK_RESPONSE_END \<and> acks body = of_bool b)"

lemma answer_groupI:
  "list_all inert body \<Longrightarrow> fm_kind e = MK_RESPONSE_END \<Longrightarrow> acks body = of_bool b \<Longrightarrow> answer_group b (body @ [e])"
  by (auto simp: answer_group_def)

definition waiting :: "bool list \<Rightarrow> frame list \<Rightarrow> bool" where
  "waiting bs fs \<longleftrightarrow> (\<exists>gs. fs = concat gs \<and> list_all2 answer_group bs gs)"

lemma waiting_Nil [simp]: "waiting [] []"
  by (simp add: waiting_def)

lemma waiting_append: "waiting bs fs \<Longrightarrow> waiting cs gs \<Longrightarrow> waiting (bs @ cs) (fs @ gs)"
  unfolding waiting_def by (metis concat_append list_all2_appendI)

lemma waiting_single: "answer_group b g \<Longrightarrow> waiting [b] g"
  unfolding waiting_def by (intro exI [of _ "[g]"]) simp

lemma waiting_Cons:
  assumes "waiting (b # bs) fs"
  obtains body e rest where "fs = body @ e # rest" "list_all inert body" "fm_kind e = MK_RESPONSE_END"
    "acks body = of_bool b" "waiting bs rest"
proof -
  obtain g gs where g: "fs = g @ concat gs" "answer_group b g" "list_all2 answer_group bs gs"
    using assms by (auto simp: waiting_def list_all2_Cons1)
  then obtain body e where "g = body @ [e]" "list_all inert body" "fm_kind e = MK_RESPONSE_END"
      "acks body = of_bool b" by (auto simp: answer_group_def)
  then show ?thesis using that [of body e "concat gs"] g by (auto simp: waiting_def)
qed

lemma waiting_acks: "waiting bs fs \<Longrightarrow> acks fs = count_list bs True"
proof (induction bs arbitrary: fs)
  case Nil
  then show ?case by (simp add: waiting_def)
next
  case (Cons b bs)
  from Cons.prems obtain body e rest where f: "fs = body @ e # rest" "list_all inert body"
      "fm_kind e = MK_RESPONSE_END" "acks body = of_bool b" "waiting bs rest" by (rule waiting_Cons)
  then show ?case using Cons.IH [OF f(5)] by simp
qed

lemma inert_not_end: "list_all inert body \<Longrightarrow> \<forall>f \<in> set body. fm_kind f \<noteq> MK_RESPONSE_END"
  by (auto simp: list_all_iff inert_def)

section \<open>A worker runs ahead of its acknowledgements\<close>

text \<open>
  The session answers every frame with a group. A client that closes its request with a terminator
  therefore gets two groups for it: the answer, and the complaint about the terminator.
\<close>

lemma terminator_step:
  "session_step vx MK_RESPONSE_END data c =
     (Some \<lparr>ss_frames = [SF_STATUS MK_ERROR_RESPONSE E_PROTOCOL_UNSUPPORTED, SF_END],
        ss_continue = True, ss_stop = False\<rparr>, c)"
  by (simp add: session_step_def)

lemma complaint_group: "answer_group False (map (frame_of detail) [SF_STATUS MK_ERROR_RESPONSE e, SF_END])"
  using answer_groupI [of "[frame_of detail (SF_STATUS MK_ERROR_RESPONSE e)]" "frame_of detail SF_END" False]
  by (simp add: inert_def)

text \<open>A message of a worker is answered with one group, and the session goes on.\<close>

lemma response_group:
  assumes "kind = MK_HELLO_ACK \<and> \<not> b \<and> summary = None \<or> kind = MK_PUBLISH_ACK \<and> b"
  shows "answer_group b (map (frame_of detail)
    ([SF_RESPONSE kind r] @ (case summary of Some s \<Rightarrow> [SF_SUMMARY s] | None \<Rightarrow> []) @ [SF_END]))"
  using assms answer_groupI [of "map (frame_of detail) ([SF_RESPONSE kind r] @
      (case summary of Some s \<Rightarrow> [SF_SUMMARY s] | None \<Rightarrow> []))" "frame_of detail SF_END" b]
  by (cases summary) (auto simp: inert_def)

lemma hello_step:
  "\<exists>s c'. session_step vx MK_HELLO data c = (Some s, c') \<and> ss_continue s \<and>
     answer_group False (map (frame_of detail) (ss_frames s))"
  using response_group [of MK_HELLO_ACK False None]
  by (auto simp: session_step_def step_hello_def reply_step_def Let_def split: sum.split prod.split)

lemma publish_step:
  "\<exists>s c'. session_step vx MK_PUBLISH_EVIDENCE data c = (Some s, c') \<and> ss_continue s \<and>
     answer_group True (map (frame_of detail) (ss_frames s))"
proof -
  have good: "answer_group True (map (frame_of detail) ([SF_RESPONSE MK_PUBLISH_ACK r] @
      (case summary of Some s \<Rightarrow> [SF_SUMMARY s] | None \<Rightarrow> []) @ [SF_END]))" for r summary
    by (rule response_group) simp
  note step = session_step_def step_publish_def reply_step_def
  show ?thesis
  proof (cases "decode_evidence data")
    case (Inl e)
    then show ?thesis using good [of _ None] by (simp add: step)
  next
    case (Inr ev)
    obtain r g where p: "publish_temperature (vx_now vx 0) ev (co_governor c) = (r, g)" by fastforce
    show ?thesis
    proof (cases r)
      case (Inl e)
      then show ?thesis using good [of _ None] p \<open>decode_evidence data = Inr ev\<close> by (simp add: step)
    next
      case (Inr receipt)
      obtain summary g' where "summarise_affected vx (er_affected_domains receipt) g = (summary, g')" by fastforce
      then show ?thesis using good [of _ summary] p \<open>decode_evidence data = Inr ev\<close> Inr by (simp add: step)
    qed
  qed
qed

lemma message_then_end:
  assumes "kind = MK_HELLO \<and> \<not> b \<or> kind = MK_PUBLISH_EVIDENCE \<and> b" "cn_open l" "waiting bs (cn_unread l)"
  shows "\<exists>l'. send_to_coordinator vxs details kind data l = (success, l') \<and>
    cn_open (channel_end (coordinator_channel vxs details) l') \<and>
    waiting (bs @ [b, False]) (cn_unread (channel_end (coordinator_channel vxs details) l'))"
proof -
  obtain s c' where s: "session_step (vxs (cn_handled l)) kind data (cn_coordinator l) = (Some s, c')" "ss_continue s"
      "answer_group b (map (frame_of (details (cn_handled l))) (ss_frames s))"
    using assms(1) hello_step [of _ data] publish_step [of _ data] by metis
  have "waiting [b, False] (map (frame_of (details (cn_handled l))) (ss_frames s) @
      map (frame_of (details (Suc (cn_handled l)))) [SF_STATUS MK_ERROR_RESPONSE E_PROTOCOL_UNSUPPORTED, SF_END])"
    using waiting_append [OF waiting_single [OF s(3)] waiting_single
        [OF complaint_group [of "details (Suc (cn_handled l))" E_PROTOCOL_UNSUPPORTED]]] by simp
  from waiting_append [OF assms(3) this] show ?thesis
    using assms(2) s
    by (simp add: send_to_coordinator_def channel_end_def coordinator_channel_def terminator_step)
qed

text \<open>The message is sent and the group that has waited longest is read.\<close>

lemma exchange:
  assumes "kind = MK_HELLO \<and> \<not> b \<or> kind = MK_PUBLISH_EVIDENCE \<and> b" "cn_open l" "waiting bs (cn_unread l)"
  obtains l' body l'' where "ch_send (coordinator_channel vxs details) kind data l = (success, l')"
    "channel_group (coordinator_channel vxs details) [] (channel_end (coordinator_channel vxs details) l') =
       Some (success, body, l'')"
    "list_all inert body" "cn_open l''" "waiting (tl (bs @ [b, False])) (cn_unread l'')"
proof -
  let ?ch = "coordinator_channel vxs details"
  obtain l' where l': "send_to_coordinator vxs details kind data l = (success, l')" "cn_open (channel_end ?ch l')"
      "waiting (bs @ [b, False]) (cn_unread (channel_end ?ch l'))"
    using message_then_end [OF assms] by blast
  obtain d ds where d: "bs @ [b, False] = d # ds" by (cases "bs @ [b, False]") auto
  from l'(3) [unfolded d] obtain body e rest where g: "cn_unread (channel_end ?ch l') = body @ e # rest"
      "list_all inert body" "fm_kind e = MK_RESPONSE_END" "acks body = of_bool d" "waiting ds rest"
    by (rule waiting_Cons)
  have "channel_group ?ch [] (channel_end ?ch l') = Some (success, body, (channel_end ?ch l')\<lparr>cn_unread := rest\<rparr>)"
    using group_read [OF inert_not_end [OF g(2)] g(3,1), of vxs details "[]"] by simp
  then show ?thesis using that [of l' body] l' g d by (simp add: coordinator_channel_def)
qed

lemma inert_answer:
  "list_all inert frames \<Longrightarrow> \<exists>st'. handle_answer ch w temperature frames st = Some (True, st') \<and>
     wk_channel st' = wk_channel st \<and> wk_sequence st' = wk_sequence st"
proof (induction frames arbitrary: st)
  case (Cons f frames)
  have ih: "\<exists>st'. handle_answer ch w temperature frames s = Some (True, st') \<and>
      wk_channel st' = wk_channel s \<and> wk_sequence st' = wk_sequence s" for s
    using Cons by simp
  show ?case
    using Cons.prems ih [of st] ih [of "print_line x st" for x]
    by (auto simp: print_line_def inert_def split: sum.split)
qed simp

lemma publish_exchange:
  assumes "cn_open (wk_channel st)" "waiting bs (cn_unread (wk_channel st))"
  shows "\<exists>st'. worker_publish (coordinator_channel vxs details) w clock epoch temperature throttle st = Some (True, st') \<and>
    cn_open (wk_channel st') \<and> waiting (tl (bs @ [True, False])) (cn_unread (wk_channel st')) \<and>
    wk_sequence st' = wk_sequence st + 1"
proof -
  define ev where "ev = make_evidence w clock epoch (wk_sequence st + 1) (wk_sequence st + 1) temperature throttle"
  have kind: "MK_PUBLISH_EVIDENCE = MK_HELLO \<and> \<not> True \<or> MK_PUBLISH_EVIDENCE = MK_PUBLISH_EVIDENCE \<and> True" by simp
  obtain l' body l'' where x: "ch_send (coordinator_channel vxs details) MK_PUBLISH_EVIDENCE (encode_evidence ev)
        (wk_channel st) = (success, l')"
      "channel_group (coordinator_channel vxs details) [] (channel_end (coordinator_channel vxs details) l') =
         Some (success, body, l'')"
      "list_all inert body" "cn_open l''" "waiting (tl (bs @ [True, False])) (cn_unread l'')"
    by (rule exchange [OF kind assms])
  from inert_answer [OF x(3), of "coordinator_channel vxs details" w temperature
      "st\<lparr>wk_sequence := wk_sequence st + 1, wk_channel := l''\<rparr>"]
  show ?thesis
    using x by (auto simp: worker_publish_def Let_def ev_def [symmetric] simp del: tl_append2)
qed

text \<open>Each round puts an acknowledgement and a complaint behind the groups that wait and reads one.\<close>

definition round_groups :: "nat \<Rightarrow> bool list" where
  "round_groups n = concat (replicate n [True, False])"

lemma round_groups_Suc: "round_groups (Suc n) = [True, False] @ round_groups n"
  by (simp add: round_groups_def)

lemma publications_exchange:
  assumes "cn_open (wk_channel st)" "waiting bs (cn_unread (wk_channel st))" "bs \<noteq> []"
  shows "\<exists>st'. publish_all (coordinator_channel vxs details) w clock epoch ts st = Some (True, st') \<and>
    cn_open (wk_channel st') \<and>
    waiting (drop (length ts) (bs @ round_groups (length ts))) (cn_unread (wk_channel st')) \<and>
    wk_sequence st' = wk_sequence st + of_nat (length ts)"
  using assms
proof (induction ts arbitrary: st bs)
  case Nil
  then show ?case by (simp add: round_groups_def)
next
  case (Cons t ts)
  obtain st1 where st1:
      "worker_publish (coordinator_channel vxs details) w clock epoch t None (st\<lparr>wk_current := t\<rparr>) = Some (True, st1)"
      "cn_open (wk_channel st1)" "waiting (tl (bs @ [True, False])) (cn_unread (wk_channel st1))"
      "wk_sequence st1 = wk_sequence st + 1"
    using publish_exchange [of "st\<lparr>wk_current := t\<rparr>" bs vxs details w clock epoch t None] Cons.prems by auto
  have "drop (length ts) (tl (bs @ [True, False]) @ round_groups (length ts)) =
      drop (length (t # ts)) (bs @ round_groups (length (t # ts)))"
    using Cons.prems(3) by (cases bs) (simp_all add: round_groups_Suc)
  then show ?case using Cons.IH [OF st1(2,3)] Cons.prems(3) st1(1,4) by (auto simp: algebra_simps)
qed

lemma registration_exchange:
  assumes "cn_open l" "cn_unread l = []"
  shows "\<exists>l' epoch. register_with (coordinator_channel vxs details) w l = Some (epoch, l') \<and>
    cn_open l' \<and> waiting [False] (cn_unread l')"
proof -
  have kind: "MK_HELLO = MK_HELLO \<and> \<not> False \<or> MK_HELLO = MK_PUBLISH_EVIDENCE \<and> False" by simp
  have "waiting [] (cn_unread l)" using assms(2) by simp
  then obtain l' body l'' where "ch_send (coordinator_channel vxs details) MK_HELLO
        (encode_worker_registration (worker_hello w)) l = (success, l')"
      "channel_group (coordinator_channel vxs details) [] (channel_end (coordinator_channel vxs details) l') =
         Some (success, body, l'')"
      "cn_open l''" "waiting (tl ([] @ [False, False])) (cn_unread l'')"
    by (rule exchange [OF kind assms(1)])
  then show ?thesis by (simp add: register_with_def)
qed

text \<open>The registration of a worker with a name of bounded length is decoded as it was sent.\<close>

lemma capabilities_storable_set:
  "capabilities_storable n cs \<Longrightarrow> capabilities_storable n (cap_set cs c st [])"
  by (auto simp: capabilities_storable_def capabilities_ok_set cap_detail_set list_all_iff text_fits_def fits_u32_def)

lemma capabilities_storable_empty: "capabilities_storable n empty_capabilities"
proof -
  have "cap_detail empty_capabilities c = []" for c
    by (simp add: cap_detail_def empty_capabilities_def Let_def)
  then show ?thesis
    by (simp add: capabilities_storable_def capabilities_ok_empty list_all_iff text_fits_def fits_u32_def)
qed

lemma worker_hello_sendable:
  "length (wo_name w) \<le> 64 * 1024 \<Longrightarrow> registration_sendable default_wire_limits (worker_hello w)"
  by (simp add: registration_sendable_def device_sendable_def worker_hello_def worker_device_def Let_def
      capabilities_storable_set capabilities_storable_empty count_fits_def fits_u32_def text_fits_def
      default_wire_limits_def)

text \<open>A registration the coordinator accepts gives the worker an epoch.\<close>

lemma accepted_epoch:
  assumes "response_sendable default_wire_limits (response_of detail r)" "rep_code r = E_NONE"
  shows "hello_epoch [frame_of detail (SF_RESPONSE MK_HELLO_ACK r)] epoch \<noteq> None"
  using response.decoded [OF assms(1)] assms(2) by (simp add: response_of_def)

lemma registration_accepted:
  assumes "registration_sendable default_wire_limits (worker_hello w)"
    and "register_hello (vxs 0) (worker_hello w) (co_governor c) = (success, g)"
    and "response_sendable default_wire_limits
      (response_of (details 0) \<lparr>rep_code = E_NONE, rep_payload = ''epoch='' @ unsigned_decimal (g_epoch g)\<rparr>)"
  shows "\<exists>epoch l. register_with (coordinator_channel vxs details) w (connected_to c) = Some (Some epoch, l)"
proof -
  let ?ch = "coordinator_channel vxs details"
  let ?r = "\<lparr>rep_code = E_NONE, rep_payload = ''epoch='' @ unsigned_decimal (g_epoch g)\<rparr>"
  obtain c' where step: "session_step (vxs 0) MK_HELLO (encode_worker_registration (worker_hello w)) c =
      (Some \<lparr>ss_frames = [SF_RESPONSE MK_HELLO_ACK ?r, SF_END], ss_continue = True, ss_stop = False\<rparr>, c')"
    using registration.decoded [OF assms(1)] assms(2)
    by (simp add: session_step_def step_hello_def reply_step_def Let_def encode_worker_registration_def
        decode_worker_registration_def)
  let ?first = "frame_of (details 0) (SF_RESPONSE MK_HELLO_ACK ?r)" and ?close = "frame_of (details 0) SF_END"
  obtain l where l: "ch_send ?ch MK_HELLO (encode_worker_registration (worker_hello w)) (connected_to c) = (success, l)"
      "cn_open l" "cn_unread l = [?first, ?close]"
    using step by (simp add: coordinator_channel_def send_to_coordinator_def connected_to_def)
  have unread: "cn_unread (channel_end ?ch l) = [?first] @ ?close #
      map (frame_of (details (cn_handled l))) [SF_STATUS MK_ERROR_RESPONSE E_PROTOCOL_UNSUPPORTED, SF_END]"
    using l(2,3) by (simp add: channel_end_def coordinator_channel_def send_to_coordinator_def terminator_step)
  obtain l' where l': "channel_group ?ch [] (channel_end ?ch l) = Some (success, [?first], l')"
    using group_read [OF _ _ unread, of vxs details "[]"] by simp
  obtain epoch where "hello_epoch [?first] 1 = Some epoch"
    using accepted_epoch [OF assms(3), of 1] by (cases "hello_epoch [?first] 1") simp_all
  then show ?thesis using l(1) l' by (simp add: register_with_def)
qed

text \<open>Of the groups \<open>n\<close> rounds leave unread, those that acknowledge are the later half.\<close>

lemma acks_read:
  "n \<le> 2 * m + 1 \<Longrightarrow> count_list (take n (False # round_groups m)) True = n div 2"
proof (induction n arbitrary: m rule: induct_nat_012)
  case (ge2 n)
  then obtain k where m: "m = Suc k" by (cases m) auto
  then show ?case using ge2(1) [of k] ge2(3) by (simp add: round_groups_Suc)
qed simp_all

lemma round_groups_count: "count_list (round_groups m) True = m"
  by (induction m) (simp_all add: round_groups_Suc round_groups_def)

lemma acks_left: "count_list (drop n (False # round_groups n)) True = n - n div 2"
proof -
  have "count_list (take n (False # round_groups n)) True + count_list (drop n (False # round_groups n)) True = n"
    using round_groups_count [of n] by (simp only: count_list_append [symmetric] append_take_drop_id) simp
  then show ?thesis using acks_read [of n n] by simp
qed

lemma ready_ahead:
  assumes "register_with (coordinator_channel vxs details) w (connected_to c) = Some (Some epoch, l)"
    and "\<not> wo_hold w" "n = unat (wo_repeat w) * length (wo_temperatures w)"
  shows "\<exists>st. worker_session (coordinator_channel vxs details) w clock True (connected_to c) = Some (0, st) \<and>
    (\<exists>lines. wk_log st = lines @ [WO_READY (of_nat n), WO_EXIT]) \<and> acks (cn_unread (wk_channel st)) = n - n div 2"
proof -
  let ?ts = "concat (replicate (unat (wo_repeat w)) (wo_temperatures w))"
  have len: "length ?ts = n" using assms(3) by (simp add: length_concat sum_list_replicate)
  have l: "cn_open l" "waiting [False] (cn_unread l)"
    using registration_exchange [of "connected_to c" vxs details w] assms(1) by (auto simp: connected_to_def)
  obtain st where st: "publish_all (coordinator_channel vxs details) w clock epoch ?ts
        \<lparr>wk_channel = l, wk_current = hd (wo_temperatures w), wk_sequence = 0, wk_log = [WO_REGISTERED epoch]\<rparr> =
      Some (True, st)"
      "waiting (drop n ([False] @ round_groups n)) (cn_unread (wk_channel st))" "wk_sequence st = of_nat n"
    using publications_exchange [of "\<lparr>wk_channel = l, wk_current = hd (wo_temperatures w), wk_sequence = 0,
        wk_log = [WO_REGISTERED epoch]\<rparr>" "[False]" vxs details w clock epoch ?ts] l len by auto
  have "acks (cn_unread (wk_channel st)) = n - n div 2"
    using waiting_acks [OF st(2)] acks_left [of n] by simp
  then show ?thesis
    using st(1,3) assms(1,2) by (simp add: worker_session_def print_line_def)
qed

section \<open>The command-line client shows the reply\<close>

definition shown_reply :: "string \<Rightarrow> reply \<Rightarrow> int \<times> string" where
  "shown_reply detail r =
     (if rep_code r = E_NONE
      then (0, c_str (rep_payload r) @
        (if rep_payload r \<noteq> [] \<and> last (rep_payload r) \<noteq> CHR 0x0A then nl else []))
      else (3, ''ERROR '' @ to_string_error_code (rep_code r) @ '' '' @ c_str detail @ nl))"

lemma show_response:
  assumes "response_sendable default_wire_limits (response_of detail r)"
  shows "show_answers [frame_of detail (SF_RESPONSE MK_QUERY_RESPONSE r)] 0 [] = shown_reply detail r"
  using response.decoded [OF assms]
  by (simp add: shown_reply_def error_code_value_zero code_text_value) (simp add: response_of_def
      error_code_value_zero code_text_value)

text \<open>A reply of more than \<open>kMaxCollection\<close> bytes is encoded and sent, and refused by the decoder.\<close>

lemma reader_text_refused:
  assumes "limit < length s" "fits_u32 (length s)"
  shows "\<exists>r. reader_text limit (new_reader (writer_text s @ bs)) = ([], r) \<and> \<not> rd_ok r"
  using assms by (simp add: reader_text_def writer_text_def codec_simps unat_of_fits reader_fail_def)

lemma long_response_refused:
  assumes "text_fits (wl_max_string_bytes limits) (sp_detail (cs_status s))"
    and "kMaxCollection < length (cs_payload s)" "fits_u32 (length (cs_payload s))"
  shows "decode_response limits (encode_response s) = Inl E_FRAME_CORRUPT"
proof -
  obtain r where "reader_text kMaxCollection (new_reader (writer_text (cs_payload s))) = ([], r)" "\<not> rd_ok r"
    using reader_text_refused [OF assms(2,3), of "[]"] by auto
  then show ?thesis using assms(1) by (simp add: decode_response_def encode_response_def codec_simps)
qed

lemma show_long_response:
  assumes "text_fits (wl_max_string_bytes default_wire_limits) detail"
    and "kMaxCollection < length (rep_payload r)" "fits_u32 (length (rep_payload r))"
  shows "show_answers [frame_of detail (SF_RESPONSE MK_QUERY_RESPONSE r)] 0 [] = (1, [])"
  using long_response_refused [of default_wire_limits "response_of detail r"] assms by (simp add: response_of_def)

lemma cli_shutdown:
  assumes "hd positional = ''shutdown''"
  shows "cli_command (coordinator_channel vxs details) positional (connected_to c) =
    Some (0, ''shutdown requested'' @ nl)"
  using assms
  by (auto simp: cli_command_def Let_def coordinator_channel_def send_to_coordinator_def connected_to_def
      split: prod.split option.split)

lemma cli_shown:
  assumes q: "q = \<lparr>cq_verb = hd positional, cq_arguments = tl positional, cq_payload = []\<rparr>"
      "command_sendable default_wire_limits q" "cq_verb q \<noteq> ''shutdown''"
    and r: "handle (vxs 0) q c = (Some r, c')"
  shows "cli_command (coordinator_channel vxs details) positional (connected_to c) =
    Some (show_answers [frame_of (details 0) (SF_RESPONSE MK_QUERY_RESPONSE r)] 0 [])"
proof -
  let ?ch = "coordinator_channel vxs details"
  have step: "session_step (vxs 0) MK_QUERY_REQUEST (encode_command q) c =
      (Some \<lparr>ss_frames = [SF_RESPONSE MK_QUERY_RESPONSE r, SF_END], ss_continue = True, ss_stop = False\<rparr>, c')"
    using command.decoded [OF q(2)] q(3) r
    by (simp add: session_step_def step_query_def reply_step_def)
  let ?first = "frame_of (details 0) (SF_RESPONSE MK_QUERY_RESPONSE r)" and ?close = "frame_of (details 0) SF_END"
  obtain l where l: "ch_send ?ch MK_QUERY_REQUEST (encode_command q) (connected_to c) = (success, l)"
      "cn_open l" "cn_unread l = [?first, ?close]"
    using step by (simp add: coordinator_channel_def send_to_coordinator_def connected_to_def)
  have unread: "cn_unread (channel_end ?ch l) = [?first] @ ?close #
      map (frame_of (details (cn_handled l))) [SF_STATUS MK_ERROR_RESPONSE E_PROTOCOL_UNSUPPORTED, SF_END]"
    using l(2,3) by (simp add: channel_end_def coordinator_channel_def send_to_coordinator_def terminator_step)
  have "\<exists>l'. channel_group ?ch [] (channel_end ?ch l) = Some (success, [?first], l')"
    using group_read [OF _ _ unread, of vxs details "[]"] by simp
  then show ?thesis
    using l(1) q(1,3) by (auto simp: cli_command_def Let_def simp del: frame_of.simps)
qed

end
