(* ===== verification/Backend.thy ===== *)
theory Backend
  imports Evidence Codes
begin

text \<open>
  \<^verbatim>\<open>backend.hpp\<close> and \<^verbatim>\<open>backend.cpp\<close>: the telemetry interface as a table of operations over the state
  \<open>'b\<close> of a back end, with the back end that measures nothing and the programmable synthetic one.
\<close>

section \<open>The interface\<close>

record device_identity =
  di_device :: ident
  di_uuid :: string
  di_pci_bus_id :: string
  di_name :: string
  di_index :: u32

record temperature_reading =
  tr_temperature :: celsius
  tr_source :: measurement_source

record backend_capabilities =
  bc_backend_name :: string
  bc_backend_version :: string
  bc_provenance :: provenance
  bc_capabilities :: capability_set

record 'b backend_ops =
  bk_name :: "'b \<Rightarrow> string"
  bk_capabilities :: "'b \<Rightarrow> backend_capabilities"
  bk_identity :: "'b \<Rightarrow> device_identity list result"
  bk_temperature :: "'b \<Rightarrow> ident \<Rightarrow> temperature_reading result"
  bk_temperature_limit :: "'b \<Rightarrow> ident \<Rightarrow> celsius result"
  bk_shutdown_limit :: "'b \<Rightarrow> ident \<Rightarrow> celsius result"
  bk_throttle_reasons :: "'b \<Rightarrow> ident \<Rightarrow> throttle_observation result"
  bk_current_clock :: "'b \<Rightarrow> ident \<Rightarrow> megahertz result"
  bk_max_clock :: "'b \<Rightarrow> ident \<Rightarrow> megahertz result"
  bk_fan_state :: "'b \<Rightarrow> ident \<Rightarrow> fan_evidence result"
  bk_cooling_state :: "'b \<Rightarrow> ident \<Rightarrow> cooling_evidence result"
  bk_node_temperature :: "'b \<Rightarrow> ident \<Rightarrow> celsius result"
  bk_rack_temperature :: "'b \<Rightarrow> ident \<Rightarrow> celsius result"
  bk_request_clock_ceiling :: "'b \<Rightarrow> ident \<Rightarrow> megahertz \<Rightarrow> status"

text \<open>The default of \<^verbatim>\<open>request_clock_ceiling\<close>, which no back end overrides.\<close>

definition request_clock_ceiling :: "'b \<Rightarrow> ident \<Rightarrow> megahertz \<Rightarrow> status" where
  "request_clock_ceiling b device ceiling_clock = Inl E_CAPABILITY_UNSUPPORTED"

definition unsupported_result :: "'b \<Rightarrow> ident \<Rightarrow> 'a result" where
  "unsupported_result b i = Inl E_CAPABILITY_UNSUPPORTED"

section \<open>The contract\<close>

text \<open>A device is identified when the back end lists it.\<close>

definition identified :: "'b backend_ops \<Rightarrow> 'b \<Rightarrow> ident \<Rightarrow> bool" where
  "identified ops b d \<longleftrightarrow> (\<exists>ids. bk_identity ops b = Inr ids \<and> d \<in> di_device ` set ids)"

text \<open>Whether some telemetry of a device can be read.\<close>

definition readable :: "'b backend_ops \<Rightarrow> 'b \<Rightarrow> ident \<Rightarrow> bool" where
  "readable ops b d \<longleftrightarrow>
     (\<exists>x. bk_temperature ops b d = Inr x) \<or> (\<exists>x. bk_temperature_limit ops b d = Inr x) \<or>
     (\<exists>x. bk_shutdown_limit ops b d = Inr x) \<or> (\<exists>x. bk_throttle_reasons ops b d = Inr x) \<or>
     (\<exists>x. bk_current_clock ops b d = Inr x) \<or> (\<exists>x. bk_max_clock ops b d = Inr x) \<or>
     (\<exists>x. bk_fan_state ops b d = Inr x) \<or> (\<exists>x. bk_cooling_state ops b d = Inr x)"

text \<open>
  What every back end promises: telemetry only of devices it identifies, no temperature of a node or
  a rack, and no enforcement.
\<close>

locale telemetry =
  fixes ops :: "'b backend_ops"
  assumes only_identified: "readable ops b d \<Longrightarrow> identified ops b d"
    and no_node: "bk_node_temperature ops b n = Inl E_CAPABILITY_UNSUPPORTED"
    and no_rack: "bk_rack_temperature ops b r = Inl E_CAPABILITY_UNSUPPORTED"
    and no_enforcement: "bk_request_clock_ceiling ops b d c = Inl E_CAPABILITY_UNSUPPORTED"
begin

lemma unidentified_temperature: "\<not> identified ops b d \<Longrightarrow> \<exists>e. bk_temperature ops b d = Inl e"
  using only_identified [of b d] unfolding readable_def by (cases "bk_temperature ops b d") auto

lemma no_devices_no_telemetry:
  assumes "bk_identity ops b = Inr [] \<or> bk_identity ops b = Inl e"
  shows "\<not> readable ops b d"
  using only_identified [of b d] assms by (auto simp: identified_def)

end

section \<open>No telemetry\<close>

definition unsupported_capabilities :: "unit \<Rightarrow> backend_capabilities" where
  "unsupported_capabilities b =
     \<lparr>bc_backend_name = ''unsupported'', bc_backend_version = ''1.0.0'', bc_provenance = P_UNSUPPORTED,
      bc_capabilities =
        foldl (\<lambda>cs c. cap_set cs c CS_UNSUPPORTED []) empty_capabilities all_thermal_capabilities\<rparr>"

definition unsupported_backend :: "unit backend_ops" where
  "unsupported_backend =
     \<lparr>bk_name = (\<lambda>b. ''unsupported''), bk_capabilities = unsupported_capabilities,
      bk_identity = (\<lambda>b. Inl E_CAPABILITY_UNSUPPORTED), bk_temperature = unsupported_result,
      bk_temperature_limit = unsupported_result, bk_shutdown_limit = unsupported_result,
      bk_throttle_reasons = unsupported_result, bk_current_clock = unsupported_result,
      bk_max_clock = unsupported_result, bk_fan_state = unsupported_result,
      bk_cooling_state = unsupported_result, bk_node_temperature = unsupported_result,
      bk_rack_temperature = unsupported_result, bk_request_clock_ceiling = request_clock_ceiling\<rparr>"

interpretation unsupported: telemetry unsupported_backend
  by unfold_locales
    (simp_all add: readable_def unsupported_backend_def unsupported_result_def request_clock_ceiling_def)

section \<open>The synthetic back end\<close>

record synthetic_entry =
  sy_identity :: device_identity
  sy_temperature :: celsius
  sy_provenance :: provenance
  sy_throttle :: "throttle_observation option"
  sy_limit :: "celsius option"
  sy_shutdown :: "celsius option"
  sy_clock :: "megahertz option"
  sy_max_clock :: "megahertz option"
  sy_fan :: "fan_evidence option"
  sy_cooling :: "cooling_evidence option"

record synthetic_backend =
  sb_entries :: "synthetic_entry list"
  sb_declared :: capability_set
  sb_declared_explicit :: bool

definition new_synthetic_backend :: synthetic_backend where
  "new_synthetic_backend =
     \<lparr>sb_entries = [],
      sb_declared = foldl (\<lambda>cs c. cap_set cs c CS_UNKNOWN []) empty_capabilities all_thermal_capabilities,
      sb_declared_explicit = False\<rparr>"

definition add_device :: "device_identity \<Rightarrow> celsius \<Rightarrow> provenance \<Rightarrow> synthetic_backend \<Rightarrow> synthetic_backend"
  where
  "add_device i t p b =
     b\<lparr>sb_entries := sb_entries b @
        [\<lparr>sy_identity = i, sy_temperature = t, sy_provenance = (if p = P_REAL then P_SYNTHETIC else p),
          sy_throttle = None, sy_limit = None, sy_shutdown = None, sy_clock = None, sy_max_clock = None,
          sy_fan = None, sy_cooling = None\<rparr>]\<rparr>"

definition find_entry :: "synthetic_backend \<Rightarrow> ident \<Rightarrow> synthetic_entry option" where
  "find_entry b d = find (\<lambda>e. di_device (sy_identity e) = d) (sb_entries b)"

text \<open>A setter changes the first entry of the device, if there is one.\<close>

fun change_first :: "('a \<Rightarrow> bool) \<Rightarrow> ('a \<Rightarrow> 'a) \<Rightarrow> 'a list \<Rightarrow> 'a list" where
  "change_first p f [] = []"
| "change_first p f (x # xs) = (if p x then f x # xs else x # change_first p f xs)"

definition change_entry ::
  "ident \<Rightarrow> (synthetic_entry \<Rightarrow> synthetic_entry) \<Rightarrow> synthetic_backend \<Rightarrow> synthetic_backend" where
  "change_entry d f b = b\<lparr>sb_entries := change_first (\<lambda>e. di_device (sy_identity e) = d) f (sb_entries b)\<rparr>"

definition set_temperature :: "ident \<Rightarrow> celsius \<Rightarrow> synthetic_backend \<Rightarrow> synthetic_backend" where
  "set_temperature d t = change_entry d (\<lambda>e. e\<lparr>sy_temperature := t\<rparr>)"

definition set_throttle :: "ident \<Rightarrow> throttle_observation \<Rightarrow> synthetic_backend \<Rightarrow> synthetic_backend" where
  "set_throttle d x = change_entry d (\<lambda>e. e\<lparr>sy_throttle := Some x\<rparr>)"

definition set_temperature_limit :: "ident \<Rightarrow> celsius \<Rightarrow> synthetic_backend \<Rightarrow> synthetic_backend" where
  "set_temperature_limit d t = change_entry d (\<lambda>e. e\<lparr>sy_limit := Some t\<rparr>)"

definition set_current_clock :: "ident \<Rightarrow> megahertz \<Rightarrow> synthetic_backend \<Rightarrow> synthetic_backend" where
  "set_current_clock d c = change_entry d (\<lambda>e. e\<lparr>sy_clock := Some c\<rparr>)"

definition set_max_clock :: "ident \<Rightarrow> megahertz \<Rightarrow> synthetic_backend \<Rightarrow> synthetic_backend" where
  "set_max_clock d c = change_entry d (\<lambda>e. e\<lparr>sy_max_clock := Some c\<rparr>)"

definition set_fan_state :: "ident \<Rightarrow> fan_evidence \<Rightarrow> synthetic_backend \<Rightarrow> synthetic_backend" where
  "set_fan_state d x = change_entry d (\<lambda>e. e\<lparr>sy_fan := Some x\<rparr>)"

definition set_cooling_state :: "ident \<Rightarrow> cooling_evidence \<Rightarrow> synthetic_backend \<Rightarrow> synthetic_backend" where
  "set_cooling_state d x = change_entry d (\<lambda>e. e\<lparr>sy_cooling := Some x\<rparr>)"

definition set_capability :: "thermal_capability \<Rightarrow> capability_state \<Rightarrow> synthetic_backend \<Rightarrow> synthetic_backend"
  where
  "set_capability c st b = b\<lparr>sb_declared_explicit := True, sb_declared := cap_set (sb_declared b) c st []\<rparr>"

definition clear_devices :: "synthetic_backend \<Rightarrow> synthetic_backend" where
  "clear_devices b = b\<lparr>sb_entries := []\<rparr>"

text \<open>What a synthetic device exposes of a capability.\<close>

fun exposes :: "thermal_capability \<Rightarrow> synthetic_entry \<Rightarrow> bool" where
  "exposes TC_DEVICE_IDENTITY e = True"
| "exposes TC_TEMPERATURE e = True"
| "exposes TC_TEMPERATURE_LIMIT e = (sy_limit e \<noteq> None)"
| "exposes TC_TEMPERATURE_THRESHOLD_SHUTDOWN e = (sy_shutdown e \<noteq> None)"
| "exposes TC_TEMPERATURE_THRESHOLD_SLOWDOWN e = False"
| "exposes TC_THROTTLE_REASONS e = (sy_throttle e \<noteq> None)"
| "exposes TC_CURRENT_CLOCK e = (sy_clock e \<noteq> None)"
| "exposes TC_MAX_CLOCK e = (sy_max_clock e \<noteq> None)"
| "exposes TC_FAN_TELEMETRY e = (sy_fan e \<noteq> None)"
| "exposes TC_COOLING_TELEMETRY e = (sy_cooling e \<noteq> None)"
| "exposes TC_THERMAL_DOMAIN_METADATA e = True"
| "exposes TC_NODE_THERMAL_METADATA e = False"
| "exposes TC_RACK_THERMAL_METADATA e = False"
| "exposes TC_ACTUAL_THROTTLE_ENFORCEMENT e = False"
| "exposes TC_CLOCK_REDUCTION_ENFORCEMENT e = False"

definition synthetic_state :: "synthetic_backend \<Rightarrow> thermal_capability \<Rightarrow> capability_state" where
  "synthetic_state b c =
     (if sb_declared_explicit b \<and> cap_get (sb_declared b) c \<noteq> CS_UNKNOWN then cap_get (sb_declared b) c
      else if list_ex (exposes c) (sb_entries b) then CS_SUPPORTED_SYNTHETIC else CS_UNSUPPORTED)"

definition synthetic_capabilities :: "synthetic_backend \<Rightarrow> backend_capabilities" where
  "synthetic_capabilities b =
     \<lparr>bc_backend_name = ''synthetic'', bc_backend_version = ''1.0.0'', bc_provenance = P_SYNTHETIC,
      bc_capabilities =
        foldl (\<lambda>cs c. cap_set cs c (synthetic_state b c) []) empty_capabilities all_thermal_capabilities\<rparr>"

definition synthetic_identity :: "synthetic_backend \<Rightarrow> device_identity list result" where
  "synthetic_identity b = Inr (map sy_identity (sb_entries b))"

definition synthetic_temperature :: "synthetic_backend \<Rightarrow> ident \<Rightarrow> temperature_reading result" where
  "synthetic_temperature b d =
     (case find_entry b d of
        None \<Rightarrow> Inl E_UNKNOWN_DEVICE
      | Some e \<Rightarrow> Inr \<lparr>tr_temperature = sy_temperature e, tr_source = MS_SYNTHETIC_MODEL\<rparr>)"

text \<open>The other queries differ in the field they read.\<close>

definition synthetic_query ::
  "(synthetic_entry \<Rightarrow> 'a option) \<Rightarrow> synthetic_backend \<Rightarrow> ident \<Rightarrow> 'a result" where
  "synthetic_query field b d =
     (case find_entry b d of
        None \<Rightarrow> Inl E_UNKNOWN_DEVICE
      | Some e \<Rightarrow> (case field e of None \<Rightarrow> Inl E_CAPABILITY_UNSUPPORTED | Some x \<Rightarrow> Inr x))"

definition synthetic_ops :: "synthetic_backend backend_ops" where
  "synthetic_ops =
     \<lparr>bk_name = (\<lambda>b. ''synthetic''), bk_capabilities = synthetic_capabilities,
      bk_identity = synthetic_identity, bk_temperature = synthetic_temperature,
      bk_temperature_limit = synthetic_query sy_limit, bk_shutdown_limit = synthetic_query sy_shutdown,
      bk_throttle_reasons = synthetic_query sy_throttle, bk_current_clock = synthetic_query sy_clock,
      bk_max_clock = synthetic_query sy_max_clock, bk_fan_state = synthetic_query sy_fan,
      bk_cooling_state = synthetic_query sy_cooling, bk_node_temperature = unsupported_result,
      bk_rack_temperature = unsupported_result, bk_request_clock_ceiling = request_clock_ceiling\<rparr>"

lemma found_is_identified: "find_entry b d \<noteq> None \<longleftrightarrow> identified synthetic_ops b d"
  by (auto simp: find_entry_def identified_def synthetic_ops_def synthetic_identity_def find_None_iff
      image_iff)

lemma synthetic_query_found: "synthetic_query field b d = Inr x \<Longrightarrow> find_entry b d \<noteq> None"
  by (auto simp: synthetic_query_def split: option.splits)

interpretation synthetic: telemetry synthetic_ops
proof
  fix b d assume "readable synthetic_ops b d"
  then have "find_entry b d \<noteq> None"
    by (auto simp: readable_def synthetic_ops_def synthetic_temperature_def dest: synthetic_query_found
        split: option.splits)
  then show "identified synthetic_ops b d" by (simp only: found_is_identified)
qed (simp_all add: synthetic_ops_def unsupported_result_def request_clock_ceiling_def)

text \<open>A temperature that was set is the one that is read.\<close>

lemma change_first_find:
  assumes "\<And>x. p x \<Longrightarrow> p (f x)"
  shows "find p (change_first p f xs) = map_option f (find p xs)"
  using assms by (induction xs) auto

lemma set_temperature_read:
  "bk_temperature synthetic_ops (set_temperature d t b) d =
     (if identified synthetic_ops b d then Inr \<lparr>tr_temperature = t, tr_source = MS_SYNTHETIC_MODEL\<rparr>
      else Inl E_UNKNOWN_DEVICE)"
  unfolding found_is_identified [symmetric]
  by (auto simp: synthetic_ops_def synthetic_temperature_def find_entry_def set_temperature_def change_entry_def
      change_first_find split: option.split)

lemma synthetic_source:
  "bk_temperature synthetic_ops b d = Inr r \<Longrightarrow> tr_source r = MS_SYNTHETIC_MODEL"
  by (auto simp: synthetic_ops_def synthetic_temperature_def split: option.splits)

text \<open>An answer is the field of the entry the back end holds for the device.\<close>

definition entry_holds :: "synthetic_backend \<Rightarrow> ident \<Rightarrow> (synthetic_entry \<Rightarrow> 'a option) \<Rightarrow> 'a \<Rightarrow> bool" where
  "entry_holds b d field x \<longleftrightarrow> (case find_entry b d of None \<Rightarrow> False | Some e \<Rightarrow> field e = Some x)"

lemma synthetic_query_holds: "synthetic_query field b d = Inr x \<longleftrightarrow> entry_holds b d field x"
  by (auto simp: synthetic_query_def entry_holds_def split: option.splits)

lemma synthetic_answers:
  "bk_temperature synthetic_ops b d = Inr r \<longleftrightarrow> tr_source r = MS_SYNTHETIC_MODEL \<and>
     entry_holds b d (\<lambda>e. Some (sy_temperature e)) (tr_temperature r)"
  "bk_temperature_limit synthetic_ops b d = Inr t \<longleftrightarrow> entry_holds b d sy_limit t"
  "bk_shutdown_limit synthetic_ops b d = Inr t \<longleftrightarrow> entry_holds b d sy_shutdown t"
  "bk_throttle_reasons synthetic_ops b d = Inr x \<longleftrightarrow> entry_holds b d sy_throttle x"
  "bk_current_clock synthetic_ops b d = Inr c \<longleftrightarrow> entry_holds b d sy_clock c"
  "bk_max_clock synthetic_ops b d = Inr c \<longleftrightarrow> entry_holds b d sy_max_clock c"
  "bk_fan_state synthetic_ops b d = Inr y \<longleftrightarrow> entry_holds b d sy_fan y"
  "bk_cooling_state synthetic_ops b d = Inr z \<longleftrightarrow> entry_holds b d sy_cooling z"
proof -
  show "bk_temperature synthetic_ops b d = Inr r \<longleftrightarrow> tr_source r = MS_SYNTHETIC_MODEL \<and>
      entry_holds b d (\<lambda>e. Some (sy_temperature e)) (tr_temperature r)"
    by (cases r) (auto simp: synthetic_ops_def synthetic_temperature_def entry_holds_def split: option.splits)
qed (simp_all add: synthetic_ops_def synthetic_query_holds)

section \<open>Capabilities and queries agree\<close>

lemma cap_get_foldl:
  "capabilities_ok cs \<Longrightarrow> distinct cl \<Longrightarrow>
     capabilities_ok (foldl (\<lambda>cs c. cap_set cs c (f c) []) cs cl) \<and>
     cap_get (foldl (\<lambda>cs c. cap_set cs c (f c) []) cs cl) d = (if d \<in> set cl then f d else cap_get cs d)"
proof (induction cl arbitrary: cs)
  case (Cons c cl)
  then show ?case using Cons.IH [of "cap_set cs c (f c) []"] by (auto simp: capabilities_ok_set cap_get_set)
qed simp

lemma all_thermal_capabilities_distinct: "distinct all_thermal_capabilities"
  by (simp add: all_thermal_capabilities_def)

lemma synthetic_capability: "cap_get (bc_capabilities (synthetic_capabilities b)) c = synthetic_state b c"
  using cap_get_foldl [OF capabilities_ok_empty all_thermal_capabilities_distinct]
  by (simp add: synthetic_capabilities_def)

text \<open>
  When no two devices share an identity, a capability that was not declared is supported exactly
  when the query for it succeeds on some device.
\<close>

lemma find_distinct:
  "distinct (map f xs) \<Longrightarrow> x \<in> set xs \<Longrightarrow> find (\<lambda>y. f y = f x) xs = Some x"
  by (induction xs) auto

lemma synthetic_query_answers:
  assumes "distinct (map (\<lambda>e. di_device (sy_identity e)) (sb_entries b))"
  shows "(\<exists>d x. synthetic_query field b d = Inr x) \<longleftrightarrow> (\<exists>e \<in> set (sb_entries b). field e \<noteq> None)"
proof
  assume "\<exists>d x. synthetic_query field b d = Inr x"
  then obtain d x where x: "synthetic_query field b d = Inr x" by blast
  then obtain e where "find_entry b d = Some e" "field e \<noteq> None"
    by (cases "find_entry b d") (auto simp: synthetic_query_def split: option.splits)
  then show "\<exists>e \<in> set (sb_entries b). field e \<noteq> None"
    unfolding find_entry_def find_Some_iff by (meson nth_mem)
next
  assume "\<exists>e \<in> set (sb_entries b). field e \<noteq> None"
  then obtain e x where e: "e \<in> set (sb_entries b)" "field e = Some x" by auto
  then have "find_entry b (di_device (sy_identity e)) = Some e"
    unfolding find_entry_def by (intro find_distinct [OF assms])
  then show "\<exists>d x. synthetic_query field b d = Inr x"
    using e(2) by (intro exI [of _ "di_device (sy_identity e)"]) (simp add: synthetic_query_def)
qed

lemma synthetic_temperature_answers:
  assumes "distinct (map (\<lambda>e. di_device (sy_identity e)) (sb_entries b))"
  shows "(\<exists>d x. synthetic_temperature b d = Inr x) \<longleftrightarrow> sb_entries b \<noteq> []"
proof -
  have "(\<exists>x. synthetic_temperature b d = Inr x) \<longleftrightarrow> (\<exists>x. synthetic_query (\<lambda>e. Some e) b d = Inr x)" for d
    by (simp add: synthetic_temperature_def synthetic_query_def split: option.split)
  then show ?thesis using synthetic_query_answers [OF assms, of "\<lambda>e. Some e"] by (cases "sb_entries b") auto
qed

text \<open>Whether the query that reads a capability succeeds on some device.\<close>

fun query_answered :: "synthetic_backend \<Rightarrow> thermal_capability \<Rightarrow> bool" where
  "query_answered b TC_DEVICE_IDENTITY = (\<exists>x xs. bk_identity synthetic_ops b = Inr (x # xs))"
| "query_answered b TC_TEMPERATURE = (\<exists>d x. bk_temperature synthetic_ops b d = Inr x)"
| "query_answered b TC_TEMPERATURE_LIMIT = (\<exists>d x. bk_temperature_limit synthetic_ops b d = Inr x)"
| "query_answered b TC_TEMPERATURE_THRESHOLD_SHUTDOWN = (\<exists>d x. bk_shutdown_limit synthetic_ops b d = Inr x)"
| "query_answered b TC_THROTTLE_REASONS = (\<exists>d x. bk_throttle_reasons synthetic_ops b d = Inr x)"
| "query_answered b TC_CURRENT_CLOCK = (\<exists>d x. bk_current_clock synthetic_ops b d = Inr x)"
| "query_answered b TC_MAX_CLOCK = (\<exists>d x. bk_max_clock synthetic_ops b d = Inr x)"
| "query_answered b TC_FAN_TELEMETRY = (\<exists>d x. bk_fan_state synthetic_ops b d = Inr x)"
| "query_answered b TC_COOLING_TELEMETRY = (\<exists>d x. bk_cooling_state synthetic_ops b d = Inr x)"
| "query_answered b TC_NODE_THERMAL_METADATA = (\<exists>n x. bk_node_temperature synthetic_ops b n = Inr x)"
| "query_answered b TC_RACK_THERMAL_METADATA = (\<exists>r x. bk_rack_temperature synthetic_ops b r = Inr x)"
| "query_answered b TC_CLOCK_REDUCTION_ENFORCEMENT = (\<exists>d c. bk_request_clock_ceiling synthetic_ops b d c = success)"
| "query_answered b TC_THERMAL_DOMAIN_METADATA = (sb_entries b \<noteq> [])"
| "query_answered b TC_TEMPERATURE_THRESHOLD_SLOWDOWN = False"
| "query_answered b TC_ACTUAL_THROTTLE_ENFORCEMENT = False"

lemma exposed_iff_answered:
  assumes "distinct (map (\<lambda>e. di_device (sy_identity e)) (sb_entries b))"
  shows "list_ex (exposes c) (sb_entries b) \<longleftrightarrow> query_answered b c"
  by (cases c; cases "sb_entries b") (auto simp: synthetic_ops_def synthetic_query_answers [OF assms] list_ex_iff unsupported_result_def
      request_clock_ceiling_def synthetic_identity_def synthetic_temperature_answers [OF assms])

lemma synthetic_support:
  assumes "distinct (map (\<lambda>e. di_device (sy_identity e)) (sb_entries b))" "\<not> sb_declared_explicit b"
  shows "cap_get (bc_capabilities (synthetic_capabilities b)) c =
    (if query_answered b c then CS_SUPPORTED_SYNTHETIC else CS_UNSUPPORTED)"
  using assms(2) exposed_iff_answered [OF assms(1), of c] by (simp add: synthetic_capability synthetic_state_def)

end
