(* ===== verification/Nvml.thy ===== *)
theory Nvml
  imports Backend
begin

text \<open>
  \<^verbatim>\<open>nvml_backend.cpp\<close>: the back end over the vendor library. The library is a parameter: a record of
  what its entry points answer when they are called, each absent when the library does not export
  it. The answers are functions of the arguments: statements about one query hold of the answers of its
  own calls, and only the comparison of a probe with a later query relies on the library answering twice the same. \<open>'h\<close> is the type of its non-null device handles, a return code is an \<open>int\<close>, and a text is the
  C string its buffer holds after the call.
\<close>

section \<open>The library\<close>

record 'h nvml_library =
  lb_init_v2 :: "int option"
  lb_init :: "int option"
  lb_shutdown :: bool
  lb_error_string :: bool
  lb_driver_version :: "(int \<times> string) option"
  lb_nvml_version :: "(int \<times> string) option"
  lb_count_v2 :: "(int \<times> u32) option"
  lb_count :: "(int \<times> u32) option"
  lb_handle_by_index_v2 :: "(u32 \<Rightarrow> int \<times> 'h option) option"
  lb_handle_by_index :: "(u32 \<Rightarrow> int \<times> 'h option) option"
  lb_uuid :: "('h \<Rightarrow> string) option"
  lb_name :: "('h \<Rightarrow> string) option"
  lb_pci_v3 :: "('h \<Rightarrow> string) option"
  lb_pci :: "('h \<Rightarrow> string) option"
  lb_temperature :: "('h \<Rightarrow> nat \<Rightarrow> int \<times> u32) option"
  lb_threshold :: "('h \<Rightarrow> nat \<Rightarrow> int \<times> u32) option"
  lb_throttle_reasons :: "('h \<Rightarrow> int \<times> u64) option"
  lb_clock :: "('h \<Rightarrow> nat \<Rightarrow> int \<times> u32) option"
  lb_max_clock :: "('h \<Rightarrow> nat \<Rightarrow> int \<times> u32) option"
  lb_num_fans :: "('h \<Rightarrow> int \<times> u32) option"
  lb_fan_speed :: "('h \<Rightarrow> int \<times> u32) option"

text \<open>The entry points as they are resolved, those required without an option.\<close>

record 'h nvml_api =
  ap_init :: int
  ap_driver_version :: "(int \<times> string) option"
  ap_nvml_version :: "(int \<times> string) option"
  ap_count :: "int \<times> u32"
  ap_handle_by_index :: "u32 \<Rightarrow> int \<times> 'h option"
  ap_uuid :: "'h \<Rightarrow> string"
  ap_name :: "'h \<Rightarrow> string"
  ap_pci :: "('h \<Rightarrow> string) option"
  ap_temperature :: "'h \<Rightarrow> nat \<Rightarrow> int \<times> u32"
  ap_threshold :: "('h \<Rightarrow> nat \<Rightarrow> int \<times> u32) option"
  ap_throttle_reasons :: "('h \<Rightarrow> int \<times> u64) option"
  ap_clock :: "('h \<Rightarrow> nat \<Rightarrow> int \<times> u32) option"
  ap_max_clock :: "('h \<Rightarrow> nat \<Rightarrow> int \<times> u32) option"
  ap_num_fans :: "('h \<Rightarrow> int \<times> u32) option"
  ap_fan_speed :: "('h \<Rightarrow> int \<times> u32) option"

definition first_present :: "'a option \<Rightarrow> 'a option \<Rightarrow> 'a option" where
  "first_present a b = (case a of None \<Rightarrow> b | Some x \<Rightarrow> Some x)"

definition resolve_api :: "'h nvml_library \<Rightarrow> 'h nvml_api option" where
  "resolve_api lb =
     (case (first_present (lb_init_v2 lb) (lb_init lb), first_present (lb_count_v2 lb) (lb_count lb),
            first_present (lb_handle_by_index_v2 lb) (lb_handle_by_index lb), lb_uuid lb, lb_name lb,
            lb_temperature lb) of
        (Some start, Some devices, Some handle, Some uuid, Some label, Some temperature) \<Rightarrow>
          (if lb_shutdown lb \<and> lb_error_string lb
           then Some \<lparr>ap_init = start, ap_driver_version = lb_driver_version lb,
             ap_nvml_version = lb_nvml_version lb, ap_count = devices, ap_handle_by_index = handle,
             ap_uuid = uuid, ap_name = label, ap_pci = first_present (lb_pci_v3 lb) (lb_pci lb),
             ap_temperature = temperature, ap_threshold = lb_threshold lb,
             ap_throttle_reasons = lb_throttle_reasons lb, ap_clock = lb_clock lb,
             ap_max_clock = lb_max_clock lb, ap_num_fans = lb_num_fans lb, ap_fan_speed = lb_fan_speed lb\<rparr>
           else None)
      | _ \<Rightarrow> None)"

definition kSuccess :: int where "kSuccess = 0"
definition kErrorNotSupported :: int where "kErrorNotSupported = 3"
definition kTemperatureGpu :: nat where "kTemperatureGpu = 0"
definition kThresholdShutdown :: nat where "kThresholdShutdown = 0"
definition kThresholdSlowdown :: nat where "kThresholdSlowdown = 1"
definition kThresholdGpuMax :: nat where "kThresholdGpuMax = 3"
definition kClockGraphics :: nat where "kClockGraphics = 0"

lemmas nvml_constants = kSuccess_def kErrorNotSupported_def kTemperatureGpu_def kThresholdShutdown_def
  kThresholdSlowdown_def kThresholdGpuMax_def kClockGraphics_def

section \<open>Construction\<close>

record 'h nvml_device =
  nd_handle :: 'h
  nd_uuid :: string
  nd_name :: string
  nd_pci_id :: string

text \<open>The parallel vectors of the implementation are one list of devices.\<close>

record 'h nvml_backend =
  nv_api :: "'h nvml_api"
  nv_devices :: "'h nvml_device list"

definition nvml_enumerate :: "'h nvml_api \<Rightarrow> u32 \<Rightarrow> 'h nvml_device list" where
  "nvml_enumerate api n =
     concat (map (\<lambda>i. case ap_handle_by_index api (of_nat i) of
         (code, handle) \<Rightarrow>
           (case handle of
              None \<Rightarrow> []
            | Some h \<Rightarrow>
                (if code \<noteq> kSuccess then []
                 else [\<lparr>nd_handle = h, nd_uuid = ap_uuid api h, nd_name = ap_name api h,
                    nd_pci_id = (case ap_pci api of None \<Rightarrow> [] | Some pci \<Rightarrow> pci h)\<rparr>])))
       [0..<unat n])"

text \<open>\<open>built\<close> is \<^verbatim>\<open>THERMAL_GOVERNOR_HAS_NVML\<close>; the library is absent when it cannot be loaded.\<close>

definition create_nvml :: "bool \<Rightarrow> 'h nvml_library option \<Rightarrow> 'h nvml_backend result" where
  "create_nvml built library =
     (if \<not> built then Inl E_CAPABILITY_UNSUPPORTED
      else case library of
        None \<Rightarrow> Inl E_CAPABILITY_UNSUPPORTED
      | Some lb \<Rightarrow>
          (case resolve_api lb of
             None \<Rightarrow> Inl E_CAPABILITY_UNSUPPORTED
           | Some api \<Rightarrow>
               (if ap_init api \<noteq> kSuccess then Inl E_CAPABILITY_UNSUPPORTED
                else if fst (ap_count api) \<noteq> kSuccess then Inl E_BACKEND_FAILURE
                else Inr \<lparr>nv_api = api, nv_devices = nvml_enumerate api (snd (ap_count api))\<rparr>)))"

definition nvml_available :: "bool \<Rightarrow> 'h nvml_library option \<Rightarrow> bool" where
  "nvml_available built library = (case create_nvml built library of Inr b \<Rightarrow> True | Inl e \<Rightarrow> False)"

definition device_count :: "'h nvml_backend \<Rightarrow> nat" where
  "device_count b = length (nv_devices b)"

definition version_text :: "(int \<times> string) option \<Rightarrow> string" where
  "version_text answer =
     (case answer of None \<Rightarrow> [] | Some (code, text) \<Rightarrow> (if code = kSuccess then text else []))"

definition nvml_version :: "'h nvml_backend \<Rightarrow> string" where
  "nvml_version b = version_text (ap_nvml_version (nv_api b))"

definition driver_version :: "'h nvml_backend \<Rightarrow> string" where
  "driver_version b = version_text (ap_driver_version (nv_api b))"

section \<open>Capabilities\<close>

definition classify_code :: "int \<Rightarrow> capability_state" where
  "classify_code code =
     (if code = kSuccess then CS_SUPPORTED_REAL
      else if code = kErrorNotSupported then CS_UNSUPPORTED else CS_UNKNOWN)"

definition probe :: "('h \<Rightarrow> int \<times> 'v) option \<Rightarrow> 'h \<Rightarrow> capability_state" where
  "probe entry h = (case entry of None \<Rightarrow> CS_UNSUPPORTED | Some f \<Rightarrow> classify_code (fst (f h)))"

definition probe_fans :: "'h nvml_api \<Rightarrow> 'h \<Rightarrow> capability_state" where
  "probe_fans api h =
     (case (ap_num_fans api, ap_fan_speed api) of
        (Some num_fans, Some fan_speed) \<Rightarrow>
          (case num_fans h of (code, fans) \<Rightarrow>
             (if code = kSuccess \<and> 0 < fans then classify_code (fst (fan_speed h)) else classify_code code))
      | _ \<Rightarrow> CS_UNSUPPORTED)"

text \<open>An entry point that takes a sensor, threshold or clock.\<close>

definition at_sensor :: "('h \<Rightarrow> nat \<Rightarrow> int \<times> 'v) option \<Rightarrow> nat \<Rightarrow> ('h \<Rightarrow> int \<times> 'v) option" where
  "at_sensor entry s = map_option (\<lambda>f h. f h s) entry"

definition set_states ::
  "(thermal_capability \<times> capability_state) list \<Rightarrow> capability_set \<Rightarrow> capability_set" where
  "set_states updates cs = foldl (\<lambda>cs (c, st). cap_set cs c st []) cs updates"

definition nvml_absent :: "(thermal_capability \<times> capability_state) list" where
  "nvml_absent =
     map (\<lambda>c. (c, CS_UNSUPPORTED))
       [TC_THERMAL_DOMAIN_METADATA, TC_NODE_THERMAL_METADATA, TC_RACK_THERMAL_METADATA,
        TC_COOLING_TELEMETRY, TC_ACTUAL_THROTTLE_ENFORCEMENT, TC_CLOCK_REDUCTION_ENFORCEMENT,
        TC_NODE_THERMAL_METADATA]"

definition nvml_probes :: "'h nvml_api \<Rightarrow> 'h \<Rightarrow> (thermal_capability \<times> capability_state) list" where
  "nvml_probes api h =
     [(TC_TEMPERATURE, classify_code (fst (ap_temperature api h kTemperatureGpu))),
      (TC_TEMPERATURE_LIMIT, probe (at_sensor (ap_threshold api) kThresholdGpuMax) h),
      (TC_TEMPERATURE_THRESHOLD_SHUTDOWN, probe (at_sensor (ap_threshold api) kThresholdShutdown) h),
      (TC_TEMPERATURE_THRESHOLD_SLOWDOWN, probe (at_sensor (ap_threshold api) kThresholdSlowdown) h),
      (TC_THROTTLE_REASONS, probe (ap_throttle_reasons api) h),
      (TC_CURRENT_CLOCK, probe (at_sensor (ap_clock api) kClockGraphics) h),
      (TC_MAX_CLOCK, probe (at_sensor (ap_max_clock api) kClockGraphics) h),
      (TC_FAN_TELEMETRY, probe_fans api h)]"

definition nvml_capability_set :: "'h nvml_backend \<Rightarrow> capability_set" where
  "nvml_capability_set b =
     (case nv_devices b of
        [] \<Rightarrow>
          (let cs = set_states ((TC_DEVICE_IDENTITY, CS_UNSUPPORTED) # nvml_absent) empty_capabilities
           in foldl (\<lambda>cs c. if cap_get cs c = CS_UNKNOWN then cap_set cs c CS_UNSUPPORTED [] else cs)
                cs all_thermal_capabilities)
      | d # ds \<Rightarrow>
          (let cs = set_states (nvml_probes (nv_api b) (nd_handle d))
                 (set_states ((TC_DEVICE_IDENTITY, CS_SUPPORTED_REAL) # nvml_absent) empty_capabilities)
           in foldl (\<lambda>cs c. if cap_get cs c = CS_UNKNOWN then cap_set cs c CS_UNKNOWN [] else cs)
                cs all_thermal_capabilities))"

definition nvml_capabilities :: "'h nvml_backend \<Rightarrow> backend_capabilities" where
  "nvml_capabilities b =
     \<lparr>bc_backend_name = ''nvml'', bc_backend_version = nvml_version b, bc_provenance = P_REAL,
      bc_capabilities = nvml_capability_set b\<rparr>"

section \<open>Queries\<close>

definition handle_for :: "'h nvml_backend \<Rightarrow> ident \<Rightarrow> 'h option" where
  "handle_for b d =
     (if d = 0 \<or> length (nv_devices b) < unat d then None
      else Some (nd_handle (nv_devices b ! (unat d - 1))))"

definition nvml_identity :: "'h nvml_backend \<Rightarrow> device_identity list result" where
  "nvml_identity b =
     Inr (map (\<lambda>i. \<lparr>di_device = of_nat (i + 1), di_uuid = nd_uuid (nv_devices b ! i),
                   di_pci_bus_id = nd_pci_id (nv_devices b ! i), di_name = nd_name (nv_devices b ! i),
                   di_index = of_nat i\<rparr>)
        [0..<length (nv_devices b)])"

definition nvml_answer :: "int \<times> 'v \<Rightarrow> 'v result" where
  "nvml_answer answer =
     (case answer of (code, value) \<Rightarrow>
        if code = kErrorNotSupported then Inl E_CAPABILITY_UNSUPPORTED
        else if code \<noteq> kSuccess then Inl E_BACKEND_FAILURE
        else Inr value)"

definition nvml_query :: "('h \<Rightarrow> int \<times> 'v) option \<Rightarrow> 'h nvml_backend \<Rightarrow> ident \<Rightarrow> 'v result" where
  "nvml_query entry b d =
     (case handle_for b d of
        None \<Rightarrow> Inl E_UNKNOWN_DEVICE
      | Some h \<Rightarrow> (case entry of None \<Rightarrow> Inl E_CAPABILITY_UNSUPPORTED | Some f \<Rightarrow> nvml_answer (f h)))"

definition nvml_celsius :: "u32 result \<Rightarrow> celsius result" where
  "nvml_celsius answer = (case answer of Inl e \<Rightarrow> Inl e | Inr v \<Rightarrow> celsius_make (u32_to_f64 v))"

definition nvml_temperature :: "'h nvml_backend \<Rightarrow> ident \<Rightarrow> temperature_reading result" where
  "nvml_temperature b d =
     (case nvml_celsius (nvml_query (at_sensor (Some (ap_temperature (nv_api b))) kTemperatureGpu) b d) of
        Inl e \<Rightarrow> Inl e
      | Inr t \<Rightarrow> Inr \<lparr>tr_temperature = t, tr_source = MS_NVML_GPU_TEMPERATURE\<rparr>)"

definition nvml_temperature_limit :: "'h nvml_backend \<Rightarrow> ident \<Rightarrow> celsius result" where
  "nvml_temperature_limit b d =
     nvml_celsius (nvml_query (at_sensor (ap_threshold (nv_api b)) kThresholdGpuMax) b d)"

definition nvml_shutdown_limit :: "'h nvml_backend \<Rightarrow> ident \<Rightarrow> celsius result" where
  "nvml_shutdown_limit b d =
     nvml_celsius (nvml_query (at_sensor (ap_threshold (nv_api b)) kThresholdShutdown) b d)"

definition nvml_throttle_reasons :: "'h nvml_backend \<Rightarrow> ident \<Rightarrow> throttle_observation result" where
  "nvml_throttle_reasons b d =
     (case nvml_query (ap_throttle_reasons (nv_api b)) b d of
        Inl e \<Rightarrow> Inl e | Inr raw \<Rightarrow> Inr (throttle_from_raw raw))"

definition nvml_current_clock :: "'h nvml_backend \<Rightarrow> ident \<Rightarrow> megahertz result" where
  "nvml_current_clock b d = nvml_query (at_sensor (ap_clock (nv_api b)) kClockGraphics) b d"

definition nvml_max_clock :: "'h nvml_backend \<Rightarrow> ident \<Rightarrow> megahertz result" where
  "nvml_max_clock b d = nvml_query (at_sensor (ap_max_clock (nv_api b)) kClockGraphics) b d"

definition nvml_fan_state :: "'h nvml_backend \<Rightarrow> ident \<Rightarrow> fan_evidence result" where
  "nvml_fan_state b d =
     (case handle_for b d of
        None \<Rightarrow> Inl E_UNKNOWN_DEVICE
      | Some h \<Rightarrow>
          (case (ap_num_fans (nv_api b), ap_fan_speed (nv_api b)) of
             (Some num_fans, Some fan_speed) \<Rightarrow>
               (case num_fans h of (code, fans) \<Rightarrow>
                  if code \<noteq> kSuccess \<or> fans = 0 then Inl E_CAPABILITY_UNSUPPORTED
                  else case nvml_answer (fan_speed h) of
                    Inl e \<Rightarrow> Inl e
                  | Inr speed \<Rightarrow>
                      Inr \<lparr>fan_count = fans, fan_speed_percent = Some (u32_to_f64 speed), fan_speed_rpm = None,
                           fan_provenance = P_REAL\<rparr>)
           | _ \<Rightarrow> Inl E_CAPABILITY_UNSUPPORTED))"

definition nvml_ops :: "'h nvml_backend backend_ops" where
  "nvml_ops =
     \<lparr>bk_name = (\<lambda>b. ''nvml''), bk_capabilities = nvml_capabilities, bk_identity = nvml_identity,
      bk_temperature = nvml_temperature, bk_temperature_limit = nvml_temperature_limit,
      bk_shutdown_limit = nvml_shutdown_limit, bk_throttle_reasons = nvml_throttle_reasons,
      bk_current_clock = nvml_current_clock, bk_max_clock = nvml_max_clock,
      bk_fan_state = nvml_fan_state, bk_cooling_state = unsupported_result,
      bk_node_temperature = unsupported_result, bk_rack_temperature = unsupported_result,
      bk_request_clock_ceiling = request_clock_ceiling\<rparr>"

section \<open>Telemetry only of listed devices\<close>

lemma handle_is_identified:
  assumes "handle_for b d = Some h"
  shows "identified nvml_ops b d"
proof -
  let ?i = "unat d - 1"
  have d: "d \<noteq> 0" "unat d \<le> length (nv_devices b)"
    using assms by (auto simp: handle_for_def split: if_splits)
  have "0 < unat d" using d(1) by (simp add: unat_gt_0)
  then have "?i < length (nv_devices b)" "of_nat (?i + 1) = d" using d(2) by (linarith, simp)
  then have "?i \<in> set [0..<length (nv_devices b)]" "d = of_nat (?i + 1)" by simp_all
  then show ?thesis by (force simp: identified_def nvml_ops_def nvml_identity_def)
qed

lemma nvml_query_handle: "nvml_query entry b d = Inr v \<Longrightarrow> \<exists>h. handle_for b d = Some h"
  by (auto simp: nvml_query_def split: option.splits)

lemma nvml_celsius_handle: "nvml_celsius (nvml_query entry b d) = Inr v \<Longrightarrow> \<exists>h. handle_for b d = Some h"
  by (auto simp: nvml_celsius_def dest: nvml_query_handle split: sum.splits)

lemma nvml_readable_handle: "readable nvml_ops b d \<Longrightarrow> \<exists>h. handle_for b d = Some h"
  by (auto simp: readable_def nvml_ops_def nvml_temperature_def nvml_temperature_limit_def nvml_shutdown_limit_def
      nvml_throttle_reasons_def nvml_current_clock_def nvml_max_clock_def nvml_fan_state_def unsupported_result_def
      dest: nvml_query_handle nvml_celsius_handle split: sum.splits option.splits)

interpretation nvml: telemetry nvml_ops
proof
  fix b :: "'h nvml_backend" and d assume "readable nvml_ops b d"
  then obtain h where "handle_for b d = Some h" using nvml_readable_handle by blast
  then show "identified nvml_ops b d" by (rule handle_is_identified)
qed (simp_all add: nvml_ops_def unsupported_result_def request_clock_ceiling_def)

section \<open>What a probe says and what a query answers\<close>

text \<open>What a capability state promises of the answer of a query.\<close>

fun state_allows :: "capability_state \<Rightarrow> 'a result \<Rightarrow> bool" where
  "state_allows CS_SUPPORTED_REAL (Inr x) = True"
| "state_allows CS_SUPPORTED_REAL (Inl e) = (e = E_TEMPERATURE_INVALID)"
| "state_allows CS_UNSUPPORTED r = (r = Inl E_CAPABILITY_UNSUPPORTED)"
| "state_allows CS_UNKNOWN r = (r = Inl E_BACKEND_FAILURE)"
| "state_allows st r = False"

lemma set_states_ok: "capabilities_ok cs \<Longrightarrow> capabilities_ok (set_states us cs)"
  unfolding set_states_def by (induction us arbitrary: cs) (auto simp: capabilities_ok_set split: prod.splits)

lemma set_states_get:
  "capabilities_ok cs \<Longrightarrow> distinct (map fst us) \<Longrightarrow>
     cap_get (set_states us cs) c = (case map_of us c of None \<Rightarrow> cap_get cs c | Some st \<Rightarrow> st)"
proof (induction us arbitrary: cs)
  case (Cons u us)
  obtain d st where u: "u = (d, st)" by fastforce
  have "map_of us d = None" using Cons.prems(2) u by (simp add: map_of_eq_None_iff)
  then show ?case
    using Cons.IH [OF capabilities_ok_set [OF Cons.prems(1)], of d st "[]"] Cons.prems u
    by (auto simp: set_states_def cap_get_set split: option.splits)
qed (simp add: set_states_def)

lemma fill_unknown:
  "capabilities_ok cs \<Longrightarrow>
     cap_get (foldl (\<lambda>cs c. if cap_get cs c = CS_UNKNOWN then cap_set cs c CS_UNKNOWN [] else cs) cs cl) d = cap_get cs d"
proof (induction cl arbitrary: cs)
  case (Cons c cl)
  then show ?case using Cons.IH [of "cap_set cs c CS_UNKNOWN []"] by (auto simp: cap_get_set capabilities_ok_set)
qed simp

lemma probed_state:
  assumes "nv_devices b = dev # devs" "map_of (nvml_probes (nv_api b) (nd_handle dev)) c = Some st"
  shows "cap_get (bc_capabilities (nvml_capabilities b)) c = st"
proof -
  let ?base = "set_states ((TC_DEVICE_IDENTITY, CS_SUPPORTED_REAL) # nvml_absent) empty_capabilities"
  have ok: "capabilities_ok ?base" by (rule set_states_ok [OF capabilities_ok_empty])
  have "distinct (map fst (nvml_probes (nv_api b) (nd_handle dev)))" by (simp add: nvml_probes_def)
  from set_states_get [OF ok this] show ?thesis
    using assms fill_unknown [OF set_states_ok [OF ok]]
    by (simp add: nvml_capabilities_def nvml_capability_set_def Let_def)
qed

lemma first_handle: "nv_devices b = dev # devs \<Longrightarrow> handle_for b 1 = Some (nd_handle dev)"
  by (simp add: handle_for_def)

lemma probe_query:
  assumes "nv_devices b = dev # devs"
  shows "state_allows (probe entry (nd_handle dev)) (nvml_query entry b 1)"
  by (cases entry) (auto simp: probe_def nvml_query_def first_handle [OF assms] classify_code_def nvml_answer_def
      nvml_constants split: prod.splits)

lemma state_allows_celsius: "state_allows st r \<Longrightarrow> state_allows st (nvml_celsius r)"
  by (cases st; cases r) (auto simp: nvml_celsius_def celsius_make_def split: option.splits)

lemma state_allows_map:
  "state_allows st r \<Longrightarrow> state_allows st (case r of Inl e \<Rightarrow> Inl e | Inr v \<Rightarrow> Inr (f v))"
  by (cases st; cases r) auto

lemma temperature_probe:
  "classify_code (fst (ap_temperature api h s)) = probe (at_sensor (Some (ap_temperature api)) s) h"
  by (simp add: probe_def at_sensor_def)

lemma probes_agree:
  assumes "nv_devices b = dev # devs"
  defines "st \<equiv> cap_get (bc_capabilities (nvml_capabilities b))"
  shows "state_allows (st TC_TEMPERATURE) (nvml_temperature b 1)"
    and "state_allows (st TC_TEMPERATURE_LIMIT) (nvml_temperature_limit b 1)"
    and "state_allows (st TC_TEMPERATURE_THRESHOLD_SHUTDOWN) (nvml_shutdown_limit b 1)"
    and "state_allows (st TC_THROTTLE_REASONS) (nvml_throttle_reasons b 1)"
    and "state_allows (st TC_CURRENT_CLOCK) (nvml_current_clock b 1)"
    and "state_allows (st TC_MAX_CLOCK) (nvml_max_clock b 1)"
proof -
  note q = probe_query [OF assms(1)] and s = probed_state [OF assms(1)]
  show "state_allows (st TC_TEMPERATURE) (nvml_temperature b 1)"
    using state_allows_map [OF state_allows_celsius [OF q]] s [of TC_TEMPERATURE]
    by (simp add: st_def nvml_probes_def temperature_probe nvml_temperature_def)
  show "state_allows (st TC_TEMPERATURE_LIMIT) (nvml_temperature_limit b 1)"
    using state_allows_celsius [OF q] s [of TC_TEMPERATURE_LIMIT]
    by (simp add: st_def nvml_probes_def nvml_temperature_limit_def)
  show "state_allows (st TC_TEMPERATURE_THRESHOLD_SHUTDOWN) (nvml_shutdown_limit b 1)"
    using state_allows_celsius [OF q] s [of TC_TEMPERATURE_THRESHOLD_SHUTDOWN]
    by (simp add: st_def nvml_probes_def nvml_shutdown_limit_def)
  show "state_allows (st TC_THROTTLE_REASONS) (nvml_throttle_reasons b 1)"
    using state_allows_map [OF q] s [of TC_THROTTLE_REASONS]
    by (simp add: st_def nvml_probes_def nvml_throttle_reasons_def)
  show "state_allows (st TC_CURRENT_CLOCK) (nvml_current_clock b 1)"
    using q s [of TC_CURRENT_CLOCK] by (simp add: st_def nvml_probes_def nvml_current_clock_def)
  show "state_allows (st TC_MAX_CLOCK) (nvml_max_clock b 1)"
    using q s [of TC_MAX_CLOCK] by (simp add: st_def nvml_probes_def nvml_max_clock_def)
qed

text \<open>A device without fans is probed as having fan telemetry, which its query then refuses.\<close>

lemma fanless:
  assumes "nv_devices b = dev # devs" "ap_num_fans (nv_api b) = Some num_fans" "ap_fan_speed (nv_api b) \<noteq> None"
    and "num_fans (nd_handle dev) = (kSuccess, 0)"
  shows "cap_get (bc_capabilities (nvml_capabilities b)) TC_FAN_TELEMETRY = CS_SUPPORTED_REAL"
    and "nvml_fan_state b 1 = Inl E_CAPABILITY_UNSUPPORTED"
  using assms probed_state [OF assms(1), of TC_FAN_TELEMETRY]
  by (auto simp: nvml_probes_def probe_fans_def classify_code_def nvml_fan_state_def first_handle [OF assms(1)])

text \<open>
  With fans, without, when the count of fans fails with another error than not supported, and
  without the entry points.
\<close>

lemma fan_probe:
  assumes "nv_devices b = dev # devs"
  defines "st \<equiv> cap_get (bc_capabilities (nvml_capabilities b)) TC_FAN_TELEMETRY"
  shows "case (ap_num_fans (nv_api b), ap_fan_speed (nv_api b)) of
      (Some num_fans, Some speed) \<Rightarrow>
        (case num_fans (nd_handle dev) of (code, fans) \<Rightarrow>
           if code = kSuccess \<and> fans = 0
           then st = CS_SUPPORTED_REAL \<and> nvml_fan_state b 1 = Inl E_CAPABILITY_UNSUPPORTED
           else if code \<noteq> kSuccess \<and> code \<noteq> kErrorNotSupported
           then st = CS_UNKNOWN \<and> nvml_fan_state b 1 = Inl E_CAPABILITY_UNSUPPORTED
           else state_allows st (nvml_fan_state b 1))
    | _ \<Rightarrow> state_allows st (nvml_fan_state b 1)"
proof -
  have st: "st = probe_fans (nv_api b) (nd_handle dev)"
    using probed_state [OF assms(1), of TC_FAN_TELEMETRY] by (simp add: st_def nvml_probes_def)
  show ?thesis
  proof (cases "ap_num_fans (nv_api b) = None \<or> ap_fan_speed (nv_api b) = None")
    case True
    then show ?thesis
      by (auto simp: st probe_fans_def nvml_fan_state_def first_handle [OF assms(1)] split: option.split)
  next
    case False
    then obtain num_fans speed where e: "ap_num_fans (nv_api b) = Some num_fans" "ap_fan_speed (nv_api b) = Some speed"
      by auto
    obtain code fans where n: "num_fans (nd_handle dev) = (code, fans)" by fastforce
    show ?thesis
      by (cases "speed (nd_handle dev)")
        (auto simp: st e n probe_fans_def nvml_fan_state_def first_handle [OF assms(1)] classify_code_def
          nvml_answer_def nvml_constants word_gt_0)
  qed
qed

section \<open>What a reading is\<close>

lemma nvml_answer_success: "nvml_answer a = Inr v \<longleftrightarrow> a = (kSuccess, v)"
  by (cases a) (simp add: nvml_answer_def nvml_constants)

lemma celsius_make_success: "celsius_make v = Inr t \<longleftrightarrow> t = v \<and> celsius_is_valid v"
  by (auto simp: celsius_make_def celsius_valid_iff_try_from celsius_try_from_def split: if_splits)

section \<open>What construction enumerates\<close>

lemma enumerated_handles:
  assumes "create_nvml built library = Inr b" "dev \<in> set (nv_devices b)"
  shows "\<exists>i < snd (ap_count (nv_api b)). ap_handle_by_index (nv_api b) i = (kSuccess, Some (nd_handle dev))"
proof -
  have b: "nv_devices b = nvml_enumerate (nv_api b) (snd (ap_count (nv_api b)))"
    using assms(1) by (auto simp: create_nvml_def split: if_splits option.splits)
  then obtain i where i: "i < unat (snd (ap_count (nv_api b)))"
      "ap_handle_by_index (nv_api b) (of_nat i) = (kSuccess, Some (nd_handle dev))"
    using assms(2) by (auto simp: nvml_enumerate_def split: prod.splits option.splits if_splits)
  then have "(of_nat i :: u32) < snd (ap_count (nv_api b))"
    by (simp add: word_less_nat_alt unat_of_nat take_bit_eq_mod)
  then show ?thesis using i(2) by blast
qed

lemma handle_is_enumerated:
  assumes "create_nvml built library = Inr b" "handle_for b d = Some h"
  shows "\<exists>i < snd (ap_count (nv_api b)). ap_handle_by_index (nv_api b) i = (kSuccess, Some h)"
proof -
  have "d \<noteq> 0" "unat d \<le> length (nv_devices b)" "h = nd_handle (nv_devices b ! (unat d - 1))"
    using assms(2) by (auto simp: handle_for_def split: if_splits)
  moreover from this have "unat d - 1 < length (nv_devices b)" using unat_gt_0 [of d] by linarith
  ultimately show ?thesis using enumerated_handles [OF assms(1)] nth_mem by blast
qed

section \<open>Where an answer comes from\<close>

text \<open>
  The value \<open>v\<close> is what the entry point answered with success for the handle of the device, which the
  library gave at an index below its count.
\<close>

definition vendor_answer :: "'h nvml_backend \<Rightarrow> ident \<Rightarrow> ('h \<Rightarrow> int \<times> 'v) option \<Rightarrow> 'v \<Rightarrow> bool" where
  "vendor_answer b d entry v \<longleftrightarrow>
     (\<exists>i h f. i < snd (ap_count (nv_api b)) \<and> ap_handle_by_index (nv_api b) i = (kSuccess, Some h) \<and>
        handle_for b d = Some h \<and> entry = Some f \<and> f h = (kSuccess, v))"

lemma vendor_answer_known:
  "create_nvml built library = Inr b \<Longrightarrow> handle_for b d = Some h \<Longrightarrow> f h = (kSuccess, v) \<Longrightarrow>
     vendor_answer b d (Some f) v"
  using handle_is_enumerated [of built library b d h] unfolding vendor_answer_def by blast

lemma query_is_vendor_answer:
  "create_nvml built library = Inr b \<Longrightarrow> nvml_query entry b d = Inr v \<Longrightarrow> vendor_answer b d entry v"
  by (auto simp: nvml_query_def nvml_answer_success vendor_answer_known split: option.splits)

lemma celsius_is_vendor_answer:
  assumes "create_nvml built library = Inr b" "nvml_celsius (nvml_query entry b d) = Inr t"
  shows "\<exists>v. vendor_answer b d entry v \<and> t = u32_to_f64 v \<and> celsius_is_valid t"
  using assms(2) query_is_vendor_answer [OF assms(1), of entry d]
  by (auto simp: nvml_celsius_def celsius_make_success split: sum.splits)

text \<open>Every answer of the back end is an answer of the library.\<close>

lemma nvml_answers_genuine:
  assumes "create_nvml built library = Inr b"
  shows "nvml_temperature b d = Inr r \<Longrightarrow> tr_source r = MS_NVML_GPU_TEMPERATURE \<and>
      (\<exists>v. vendor_answer b d (at_sensor (Some (ap_temperature (nv_api b))) kTemperatureGpu) v \<and>
         tr_temperature r = u32_to_f64 v \<and> celsius_is_valid (tr_temperature r))"
    and "nvml_temperature_limit b d = Inr t \<Longrightarrow>
      \<exists>v. vendor_answer b d (at_sensor (ap_threshold (nv_api b)) kThresholdGpuMax) v \<and> t = u32_to_f64 v \<and> celsius_is_valid t"
    and "nvml_shutdown_limit b d = Inr t \<Longrightarrow>
      \<exists>v. vendor_answer b d (at_sensor (ap_threshold (nv_api b)) kThresholdShutdown) v \<and> t = u32_to_f64 v \<and> celsius_is_valid t"
    and "nvml_throttle_reasons b d = Inr x \<Longrightarrow>
      \<exists>raw. vendor_answer b d (ap_throttle_reasons (nv_api b)) raw \<and> x = throttle_from_raw raw"
    and "nvml_current_clock b d = Inr c \<Longrightarrow> vendor_answer b d (at_sensor (ap_clock (nv_api b)) kClockGraphics) c"
    and "nvml_max_clock b d = Inr c \<Longrightarrow> vendor_answer b d (at_sensor (ap_max_clock (nv_api b)) kClockGraphics) c"
  using celsius_is_vendor_answer [OF assms] query_is_vendor_answer [OF assms]
  by (fastforce simp: nvml_temperature_def nvml_temperature_limit_def nvml_shutdown_limit_def nvml_throttle_reasons_def
      nvml_current_clock_def nvml_max_clock_def split: sum.splits)+

lemma nvml_fans_genuine:
  assumes "create_nvml built library = Inr b" "nvml_fan_state b d = Inr x"
  shows "\<exists>fans speed. vendor_answer b d (ap_num_fans (nv_api b)) fans \<and> fans \<noteq> 0 \<and>
    vendor_answer b d (ap_fan_speed (nv_api b)) speed \<and>
    x = \<lparr>fan_count = fans, fan_speed_percent = Some (u32_to_f64 speed), fan_speed_rpm = None, fan_provenance = P_REAL\<rparr>"
proof -
  obtain h num_fans fan_speed where h: "handle_for b d = Some h" "ap_num_fans (nv_api b) = Some num_fans"
      "ap_fan_speed (nv_api b) = Some fan_speed"
    using assms(2) by (auto simp: nvml_fan_state_def split: option.splits)
  then obtain fans speed where "num_fans h = (kSuccess, fans)" "fans \<noteq> 0" "fan_speed h = (kSuccess, speed)"
      "x = \<lparr>fan_count = fans, fan_speed_percent = Some (u32_to_f64 speed), fan_speed_rpm = None, fan_provenance = P_REAL\<rparr>"
    using assms(2) by (auto simp: nvml_fan_state_def nvml_answer_success split: prod.splits sum.splits if_splits)
  then show ?thesis using h by (auto intro: vendor_answer_known [OF assms(1)])
qed

end
