(* ===== verification/Host.thy ===== *)
theory Host
  imports Vocabulary
begin

text \<open>
  What the library asks of its host: the clock that is advanced by hand of \<^verbatim>\<open>time.hpp\<close> and
  \<^verbatim>\<open>cuda_workload.cpp\<close>, which is the configuration without CUDA.
\<close>

section \<open>The manual clock\<close>

text \<open>Readings in nanoseconds. The clocks of the system are the time arguments of the operations.\<close>

record manual_clock =
  mc_now :: time_ns
  mc_wall :: time_ns

definition new_manual_clock :: "time_ns \<Rightarrow> manual_clock" where
  "new_manual_clock start = \<lparr>mc_now = start, mc_wall = 0\<rparr>"

definition clock_advance :: "int \<Rightarrow> manual_clock \<Rightarrow> manual_clock" where
  "clock_advance milliseconds c =
     c\<lparr>mc_now := mc_now c + 1000000 * milliseconds, mc_wall := mc_wall c + 1000000 * milliseconds\<rparr>"

definition clock_set :: "time_ns \<Rightarrow> manual_clock \<Rightarrow> manual_clock" where
  "clock_set v c = c\<lparr>mc_now := v\<rparr>"

text \<open>Advancing keeps the two readings apart by what they were, setting does not.\<close>

lemma clock_advance_offset: "mc_now (clock_advance d c) - mc_wall (clock_advance d c) = mc_now c - mc_wall c"
  by (simp add: clock_advance_def)

lemma clock_advance_twice: "clock_advance d (clock_advance e c) = clock_advance (d + e) c"
  by (simp add: clock_advance_def algebra_simps)

section \<open>The CUDA workload of a build without CUDA\<close>

record cuda_workload_request =
  cw_device_ordinal :: int
  cw_iterations :: u32
  cw_elements :: nat
  cw_seed :: u64

definition default_cuda_request :: cuda_workload_request where
  "default_cuda_request =
     \<lparr>cw_device_ordinal = 0, cw_iterations = 64, cw_elements = push_bit 20 1, cw_seed = 0x9E3779B97F4A7C15\<rparr>"

record cuda_workload_result =
  cy_completed :: bool
  cy_device_name :: string
  cy_device_ordinal :: int
  cy_sm_count :: int
  cy_driver_version :: int
  cy_runtime_version :: int
  cy_device_checksum :: u64
  cy_host_checksum :: u64
  cy_cpu_parity :: bool
  cy_mismatches :: u64
  cy_host_elapsed_ms :: f64
  cy_device_kernel_ms :: f64
  cy_bytes_allocated :: nat
  cy_device_memory_released :: bool
  cy_detail :: string

definition cuda_support_compiled :: bool where
  "cuda_support_compiled = False"

definition cuda_device_count :: "int result" where
  "cuda_device_count = Inl E_CAPABILITY_UNSUPPORTED"

definition run_cuda_workload :: "cuda_workload_request \<Rightarrow> cuda_workload_result result" where
  "run_cuda_workload request = Inl E_CAPABILITY_UNSUPPORTED"

definition cuda_proof_provenance :: provenance where
  "cuda_proof_provenance = P_UNSUPPORTED"

text \<open>A build without CUDA never produces a result, and says so.\<close>

lemma no_cuda_result: "run_cuda_workload request \<noteq> Inr r \<and> \<not> cuda_support_compiled \<and> cuda_proof_provenance \<noteq> P_REAL"
  by (simp add: run_cuda_workload_def cuda_support_compiled_def cuda_proof_provenance_def)

end
