(* ===== verification/Clients.thy ===== *)
theory Clients
  imports Service Connection Nvml Sockets Host
begin

text \<open>
  The properties of the processes and devices around the coordinator: the worker, the command-line
  client, the telemetry back ends and the sockets. Each property is followed by its instance at a concrete input.
\<close>

section \<open>The worker\<close>

definition scripted_worker :: worker_options where
  "scripted_worker = default_worker_options \<lparr>wo_temperatures := [Fin 60, Fin 61]\<rparr>"

lemma scripted_worker_sendable: "registration_sendable default_wire_limits (worker_hello scripted_worker)"
  by (rule worker_hello_sendable) (simp add: scripted_worker_def default_worker_options_def)

lemma scripted_worker_accepted:
  "\<exists>g. register_hello steady (worker_hello scripted_worker) (co_governor listening) = (success, g) \<and> g_epoch g = 1"
  by (simp add: register_hello_def register_worker_def register_device_def listening_def worker_hello_def
      worker_device_def scripted_worker_def default_worker_options_def Let_def initial_governor_def
      coordinator_config_def default_options_def default_config_def id_valid_def)

lemma one_decimal: "unsigned_decimal (1 :: u64) = ''1''"
  by code_simp

lemma listening_epoch: "g_epoch (co_governor listening) = 1"
  by (simp add: listening_def initial_governor_def coordinator_config_def default_options_def default_config_def
      id_valid_def)

lemma scripted_worker_registers:
  "\<exists>epoch l. register_with (coordinator_channel (\<lambda>_. steady) (\<lambda>_. [])) scripted_worker (connected_to listening) =
     Some (Some epoch, l)"
proof -
  obtain g where g: "register_hello steady (worker_hello scripted_worker) (co_governor listening) = (success, g)"
      "g_epoch g = 1" using scripted_worker_accepted by blast
  have "response_sendable default_wire_limits
      (response_of [] \<lparr>rep_code = E_NONE, rep_payload = ''epoch='' @ unsigned_decimal (1 :: u64)\<rparr>)"
    by (simp add: response_sendable_def response_of_def text_fits_def fits_u32_def default_wire_limits_def
        kMaxCollection_def one_decimal)
  then show ?thesis
    using registration_accepted [OF scripted_worker_sendable, of "\<lambda>_. steady" listening g "\<lambda>_. []"] g by simp
qed

text \<open>
  C40: a worker that the coordinator accepted and that does not hold its
  connection always ends normally, and the last line it prints before its exit line announces that its \<open>n\<close> scripted
  observations were published. At that moment the acknowledgements of the later half of them have
  not been read: every request of the worker is closed by a terminator, which the coordinator
  answers as well, so each publication reads an answer further behind.
\<close>

theorem ready_before_acknowledged:
  assumes "register_with (coordinator_channel vxs details) w (connected_to c) = Some (Some epoch, l)"
    and "\<not> wo_hold w" "n = unat (wo_repeat w) * length (wo_temperatures w)"
  shows "\<exists>lines st. worker_session (coordinator_channel vxs details) w clock True (connected_to c) = Some (0, st) \<and>
    wk_log st = lines @ [WO_READY (of_nat n), WO_EXIT] \<and> acks (cn_unread (wk_channel st)) = n - n div 2"
  using ready_ahead [OF assms] by blast

theorem ready_before_acknowledged_witness:
  "\<exists>lines st. worker_session (coordinator_channel (\<lambda>_. steady) (\<lambda>_. [])) scripted_worker (\<lambda>_. (0, 0)) True
      (connected_to listening) = Some (0, st) \<and>
    wk_log st = lines @ [WO_READY 2, WO_EXIT] \<and> acks (cn_unread (wk_channel st)) = 1"
proof -
  obtain epoch l where r: "register_with (coordinator_channel (\<lambda>_. steady) (\<lambda>_. [])) scripted_worker
      (connected_to listening) = Some (Some epoch, l)" using scripted_worker_registers by blast
  have "\<not> wo_hold scripted_worker" "2 = unat (wo_repeat scripted_worker) * length (wo_temperatures scripted_worker)"
    by (simp_all add: scripted_worker_def default_worker_options_def)
  from ready_before_acknowledged [OF r this, of "\<lambda>_. (0, 0)"] show ?thesis by simp
qed

section \<open>The command-line client\<close>

text \<open>
  C25: for every command within the bounds of the wire that is answered, with a detail text within
  them and a payload below 4 GiB, the command-line client ends as follows. For \<open>shutdown\<close> it reads no reply: it prints \<open>shutdown
  requested\<close> and ends with exit code 0. A reply with more than \<open>kMaxCollection\<close> (1 MiB) of payload, which
  the coordinator sends all the same, it cannot decode: it prints no output and ends with exit code 1 (beyond 4 MiB already because the frame
  is refused).
  Otherwise it ends with exit code 0 and the payload of the reply of the coordinator when the reply is a success,
  and with exit code 3 and the name of the refusal when it is none. The complaint the
  coordinator sends about the terminator of the request is never shown.
\<close>

theorem cli_shows_the_reply:
  assumes "q = \<lparr>cq_verb = hd positional, cq_arguments = tl positional, cq_payload = []\<rparr>"
    and "command_sendable default_wire_limits q" "handle (vxs 0) q c = (Some r, c')"
    and "text_fits (wl_max_string_bytes default_wire_limits) (details 0)" "fits_u32 (length (rep_payload r))"
  shows "cli_command (coordinator_channel vxs details) positional (connected_to c) = Some
    (if cq_verb q = ''shutdown'' then (0, ''shutdown requested'' @ nl)
     else if kMaxCollection < length (rep_payload r) then (1, [])
     else shown_reply (details 0) r)"
proof (cases "cq_verb q = ''shutdown''")
  case True
  then show ?thesis using cli_shutdown [of positional vxs details c] assms(1) by simp
next
  case False
  then show ?thesis
    using cli_shown [where vxs = vxs and details = details, OF assms(1,2) False assms(3)]
      show_long_response [OF assms(4) _ assms(5)] show_response [of "details 0" r] assms(4,5)
    by (simp add: response_sendable_def response_of_def text_fits_def not_less del: frame_of.simps)
qed

theorem cli_shows_the_reply_witness:
  "cli_command (coordinator_channel (\<lambda>_. steady) (\<lambda>_. [])) [''epoch''] (connected_to listening) =
     Some (0, ''1'' @ nl)"
proof -
  let ?q = "\<lparr>cq_verb = ''epoch'', cq_arguments = [], cq_payload = []\<rparr>"
  have "?q = \<lparr>cq_verb = hd [''epoch''], cq_arguments = tl [''epoch''], cq_payload = []\<rparr>" by simp
  moreover have "command_sendable default_wire_limits ?q"
    by (simp add: command_sendable_def text_fits_def fits_u32_def count_fits_def default_wire_limits_def)
  moreover have "handle steady ?q listening = (Some \<lparr>rep_code = E_NONE, rep_payload = ''1''\<rparr>, listening)"
    by (simp add: handle_def verb_epoch_def reply_ok_def answered_def listening_epoch one_decimal)
  moreover have "text_fits (wl_max_string_bytes default_wire_limits) []" "fits_u32 (length ''1'')"
    by (simp_all add: text_fits_def fits_u32_def default_wire_limits_def)
  ultimately show ?thesis
    using cli_shows_the_reply [of ?q "[''epoch'']" "\<lambda>_. steady" listening _ listening "\<lambda>_. []"]
    by (simp add: shown_reply_def c_str_def kMaxCollection_def)
qed

section \<open>Telemetry back ends\<close>

text \<open>A library with one fanless device at 61 degrees.\<close>

definition one_gpu :: "unit nvml_library" where
  "one_gpu =
     \<lparr>lb_init_v2 = Some 0, lb_init = None, lb_shutdown = True, lb_error_string = True,
      lb_driver_version = None, lb_nvml_version = None, lb_count_v2 = None, lb_count = Some (0, 1),
      lb_handle_by_index_v2 = Some (\<lambda>i. (0, Some ())), lb_handle_by_index = None,
      lb_uuid = Some (\<lambda>h. ''GPU-0''), lb_name = Some (\<lambda>h. ''gpu''), lb_pci_v3 = None, lb_pci = None,
      lb_temperature = Some (\<lambda>h s. (0, 61)), lb_threshold = Some (\<lambda>h s. (3, 0)),
      lb_throttle_reasons = None, lb_clock = None, lb_max_clock = None,
      lb_num_fans = Some (\<lambda>h. (0, 0)), lb_fan_speed = Some (\<lambda>h. (0, 0))\<rparr>"

definition one_gpu_api :: "unit nvml_api" where
  "one_gpu_api = the (resolve_api one_gpu)"

lemmas one_gpu_simps = one_gpu_api_def one_gpu_def resolve_api_def first_present_def nvml_constants

lemma one_gpu_created:
  "create_nvml True (Some one_gpu) =
     Inr \<lparr>nv_api = one_gpu_api, nv_devices = [\<lparr>nd_handle = (), nd_uuid = ''GPU-0'', nd_name = ''gpu'', nd_pci_id = []\<rparr>]\<rparr>"
  by (simp add: create_nvml_def nvml_enumerate_def one_gpu_simps)

text \<open>
  C23: the back end without telemetry never answers a query. Whatever
  telemetry a synthetic or an NVML back end answers is of a device it lists. A synthetic answer is the value
  the back end holds for that device, and a synthetic temperature is labelled as synthetic. Every NVML
  answer, of temperature, limit, shutdown limit, throttle reasons, clocks and fans, is what the vendor
  library answered with success for the handle of that device, a handle the library gave at some
  index below its count; temperatures and limits are exactly the whole numbers it answered and lie in the plausible
  range. NVML has no cooling telemetry; no back end reports the temperature of a node or a rack, and none
  accepts a clock ceiling.
\<close>

theorem backends_fabricate_nothing:
  assumes "create_nvml built library = Inr b"
  shows "\<not> readable unsupported_backend u d \<and>
   (readable synthetic_ops s d \<longrightarrow> identified synthetic_ops s d) \<and>
   (readable nvml_ops b d \<longrightarrow> identified nvml_ops b d) \<and>
   (bk_temperature synthetic_ops s d = Inr r \<longrightarrow> tr_source r = MS_SYNTHETIC_MODEL \<and>
      entry_holds s d (\<lambda>e. Some (sy_temperature e)) (tr_temperature r)) \<and>
   (bk_temperature_limit synthetic_ops s d = Inr t \<longrightarrow> entry_holds s d sy_limit t) \<and>
   (bk_shutdown_limit synthetic_ops s d = Inr t \<longrightarrow> entry_holds s d sy_shutdown t) \<and>
   (bk_throttle_reasons synthetic_ops s d = Inr x \<longrightarrow> entry_holds s d sy_throttle x) \<and>
   (bk_current_clock synthetic_ops s d = Inr m \<longrightarrow> entry_holds s d sy_clock m) \<and>
   (bk_max_clock synthetic_ops s d = Inr m \<longrightarrow> entry_holds s d sy_max_clock m) \<and>
   (bk_fan_state synthetic_ops s d = Inr fan \<longrightarrow> entry_holds s d sy_fan fan) \<and>
   (bk_cooling_state synthetic_ops s d = Inr cooling \<longrightarrow> entry_holds s d sy_cooling cooling) \<and>
   (bk_temperature nvml_ops b d = Inr r \<longrightarrow> tr_source r = MS_NVML_GPU_TEMPERATURE \<and>
      (\<exists>v. vendor_answer b d (at_sensor (Some (ap_temperature (nv_api b))) 0) v \<and>
         tr_temperature r = u32_to_f64 v \<and> celsius_is_valid (tr_temperature r))) \<and>
   (bk_temperature_limit nvml_ops b d = Inr t \<longrightarrow>
      (\<exists>v. vendor_answer b d (at_sensor (ap_threshold (nv_api b)) 3) v \<and> t = u32_to_f64 v \<and> celsius_is_valid t)) \<and>
   (bk_shutdown_limit nvml_ops b d = Inr t \<longrightarrow>
      (\<exists>v. vendor_answer b d (at_sensor (ap_threshold (nv_api b)) 0) v \<and> t = u32_to_f64 v \<and> celsius_is_valid t)) \<and>
   (bk_throttle_reasons nvml_ops b d = Inr x \<longrightarrow>
      (\<exists>raw. vendor_answer b d (ap_throttle_reasons (nv_api b)) raw \<and> x = throttle_from_raw raw)) \<and>
   (bk_current_clock nvml_ops b d = Inr m \<longrightarrow> vendor_answer b d (at_sensor (ap_clock (nv_api b)) 0) m) \<and>
   (bk_max_clock nvml_ops b d = Inr m \<longrightarrow> vendor_answer b d (at_sensor (ap_max_clock (nv_api b)) 0) m) \<and>
   (bk_fan_state nvml_ops b d = Inr fan \<longrightarrow>
      (\<exists>fans speed. vendor_answer b d (ap_num_fans (nv_api b)) fans \<and> fans \<noteq> 0 \<and>
         vendor_answer b d (ap_fan_speed (nv_api b)) speed \<and>
         fan = \<lparr>fan_count = fans, fan_speed_percent = Some (u32_to_f64 speed), fan_speed_rpm = None,
           fan_provenance = P_REAL\<rparr>)) \<and>
   bk_cooling_state nvml_ops b d = Inl E_CAPABILITY_UNSUPPORTED \<and>
   bk_node_temperature unsupported_backend u n = Inl E_CAPABILITY_UNSUPPORTED \<and>
   bk_node_temperature synthetic_ops s n = Inl E_CAPABILITY_UNSUPPORTED \<and>
   bk_node_temperature nvml_ops b n = Inl E_CAPABILITY_UNSUPPORTED \<and>
   bk_rack_temperature unsupported_backend u n = Inl E_CAPABILITY_UNSUPPORTED \<and>
   bk_rack_temperature synthetic_ops s n = Inl E_CAPABILITY_UNSUPPORTED \<and>
   bk_rack_temperature nvml_ops b n = Inl E_CAPABILITY_UNSUPPORTED \<and>
   bk_request_clock_ceiling unsupported_backend u d c = Inl E_CAPABILITY_UNSUPPORTED \<and>
   bk_request_clock_ceiling synthetic_ops s d c = Inl E_CAPABILITY_UNSUPPORTED \<and>
   bk_request_clock_ceiling nvml_ops b d c = Inl E_CAPABILITY_UNSUPPORTED"
proof -
  have "\<not> readable unsupported_backend u d"
    by (rule unsupported.no_devices_no_telemetry [of _ E_CAPABILITY_UNSUPPORTED]) (simp add: unsupported_backend_def)
  moreover have "readable synthetic_ops s d \<longrightarrow> identified synthetic_ops s d"
    "readable nvml_ops b d \<longrightarrow> identified nvml_ops b d"
    using synthetic.only_identified nvml.only_identified by blast+
  moreover have "bk_temperature nvml_ops b = nvml_temperature b" "bk_temperature_limit nvml_ops b = nvml_temperature_limit b"
    "bk_shutdown_limit nvml_ops b = nvml_shutdown_limit b" "bk_throttle_reasons nvml_ops b = nvml_throttle_reasons b"
    "bk_current_clock nvml_ops b = nvml_current_clock b" "bk_max_clock nvml_ops b = nvml_max_clock b"
    "bk_fan_state nvml_ops b = nvml_fan_state b" "bk_cooling_state nvml_ops b d = Inl E_CAPABILITY_UNSUPPORTED"
    by (simp_all add: nvml_ops_def unsupported_result_def)
  ultimately show ?thesis
    using nvml_answers_genuine [OF assms, of d] nvml_fans_genuine [OF assms, of d]
    by (simp add: synthetic_answers unsupported.no_node synthetic.no_node nvml.no_node unsupported.no_rack
        synthetic.no_rack nvml.no_rack unsupported.no_enforcement synthetic.no_enforcement nvml.no_enforcement
        nvml_constants)
qed

theorem backends_fabricate_nothing_witness:
  "\<exists>b. create_nvml True (Some one_gpu) = Inr b \<and> bk_temperature nvml_ops b 1 =
      Inr \<lparr>tr_temperature = Fin 61, tr_source = MS_NVML_GPU_TEMPERATURE\<rparr> \<and> identified nvml_ops b 1 \<and>
    \<not> readable unsupported_backend () 1"
proof -
  let ?b = "\<lparr>nv_api = one_gpu_api, nv_devices = [\<lparr>nd_handle = (), nd_uuid = ''GPU-0'', nd_name = ''gpu'', nd_pci_id = []\<rparr>]\<rparr>"
  have "celsius_make (Fin 61) = Inr (Fin 61)" by (simp add: celsius_make_success)
  then have t: "bk_temperature nvml_ops ?b 1 = Inr \<lparr>tr_temperature = Fin 61, tr_source = MS_NVML_GPU_TEMPERATURE\<rparr>"
    by (simp add: nvml_ops_def nvml_temperature_def nvml_query_def handle_for_def at_sensor_def nvml_celsius_def
        nvml_answer_def one_gpu_simps u32_to_f64_def)
  show ?thesis
    using backends_fabricate_nothing [OF one_gpu_created, of "()" 1] nvml.only_identified [of ?b 1] one_gpu_created t
    by (auto simp: readable_def)
qed

text \<open>
  C24: for the first device of an NVML back end, the capability
  state the back end reports agrees with what the query of the capability answers when the library
  answers it as it did the probe:
  \<open>SUPPORTED_REAL\<close> with an answer (or an implausible temperature), \<open>UNSUPPORTED\<close> with a refusal as
  unsupported, \<open>UNKNOWN\<close> with a failure of the back end. This holds for the temperature, its limit,
  the shutdown limit, the throttle reasons and both clocks. For fan telemetry it holds with two
  exceptions, in which the query refuses as unsupported: a device without fans is reported as \<open>SUPPORTED_REAL\<close>, and one whose fans cannot
  be counted for another reason than a lack of support as \<open>UNKNOWN\<close>.
\<close>

theorem nvml_capabilities_match_the_queries:
  assumes "nv_devices b = dev # devs"
  shows "(let st = cap_get (bc_capabilities (bk_capabilities nvml_ops b))
     in state_allows (st TC_TEMPERATURE) (bk_temperature nvml_ops b 1) \<and>
        state_allows (st TC_TEMPERATURE_LIMIT) (bk_temperature_limit nvml_ops b 1) \<and>
        state_allows (st TC_TEMPERATURE_THRESHOLD_SHUTDOWN) (bk_shutdown_limit nvml_ops b 1) \<and>
        state_allows (st TC_THROTTLE_REASONS) (bk_throttle_reasons nvml_ops b 1) \<and>
        state_allows (st TC_CURRENT_CLOCK) (bk_current_clock nvml_ops b 1) \<and>
        state_allows (st TC_MAX_CLOCK) (bk_max_clock nvml_ops b 1) \<and>
        (case (ap_num_fans (nv_api b), ap_fan_speed (nv_api b)) of
           (Some num_fans, Some speed) \<Rightarrow>
             (case num_fans (nd_handle dev) of (code, fans) \<Rightarrow>
                if code = 0 \<and> fans = 0
                then st TC_FAN_TELEMETRY = CS_SUPPORTED_REAL \<and> bk_fan_state nvml_ops b 1 = Inl E_CAPABILITY_UNSUPPORTED
                else if code \<noteq> 0 \<and> code \<noteq> 3
                then st TC_FAN_TELEMETRY = CS_UNKNOWN \<and> bk_fan_state nvml_ops b 1 = Inl E_CAPABILITY_UNSUPPORTED
                else state_allows (st TC_FAN_TELEMETRY) (bk_fan_state nvml_ops b 1))
         | _ \<Rightarrow> state_allows (st TC_FAN_TELEMETRY) (bk_fan_state nvml_ops b 1)))"
proof -
  have ops: "bk_capabilities (nvml_ops :: 'a nvml_backend backend_ops) = nvml_capabilities"
    "bk_temperature nvml_ops b = nvml_temperature b" "bk_temperature_limit nvml_ops b = nvml_temperature_limit b"
    "bk_shutdown_limit nvml_ops b = nvml_shutdown_limit b" "bk_throttle_reasons nvml_ops b = nvml_throttle_reasons b"
    "bk_current_clock nvml_ops b = nvml_current_clock b" "bk_max_clock nvml_ops b = nvml_max_clock b"
    "bk_fan_state nvml_ops b = nvml_fan_state b" for b :: "'a nvml_backend"
    by (simp_all add: nvml_ops_def)
  show ?thesis
    unfolding Let_def ops
    using probes_agree [OF assms] fan_probe [OF assms, unfolded nvml_constants] by blast
qed

theorem nvml_capabilities_match_the_queries_witness:
  "\<exists>b. create_nvml True (Some one_gpu) = Inr b \<and>
    cap_get (bc_capabilities (bk_capabilities nvml_ops b)) TC_FAN_TELEMETRY = CS_SUPPORTED_REAL \<and>
    bk_fan_state nvml_ops b 1 = Inl E_CAPABILITY_UNSUPPORTED"
proof -
  let ?d = "\<lparr>nd_handle = (), nd_uuid = ''GPU-0'', nd_name = ''gpu'', nd_pci_id = []\<rparr>"
  let ?b = "\<lparr>nv_api = one_gpu_api, nv_devices = [?d]\<rparr>"
  have "nv_devices ?b = ?d # []" by simp
  note match = nvml_capabilities_match_the_queries [OF this]
  have fans: "ap_num_fans (nv_api ?b) = Some (\<lambda>h. (0, 0))" "ap_fan_speed (nv_api ?b) = Some (\<lambda>h. (0, 0))"
    by (simp_all add: one_gpu_simps)
  show ?thesis
    using match one_gpu_created by (auto simp: Let_def fans simp del: nvml_backend.simps)
qed

section \<open>Sockets\<close>

text \<open>
  C22: whatever sockets and listeners a process creates, connects, binds,
  accepts, moves, assigns and closes, in any order and with any failure of the system calls: every
  valid object and every governor that was not shut down holds exactly one reference of the socket
  runtime and there are no others, the runtime is up exactly while there are some, a descriptor is open exactly when some object owns it, and no two objects
  own the same one, so none is leaked or closed twice. A further reference can be taken whenever
  some object is valid, whatever starting the runtime would return.
\<close>

theorem sockets_have_one_owner:
  assumes "net_reachable p"
  defines "valid \<equiv> filter (\<lambda>x. no_handle x \<noteq> None) (pr_objects p)"
  shows "sk_users (pr_runtime p) = length valid + pr_governors p \<and>
    (sk_ready (pr_runtime p) \<longleftrightarrow> valid \<noteq> [] \<or> 0 < pr_governors p) \<and>
    set (pr_native p) = (the \<circ> no_handle) ` set valid \<and> distinct (pr_native p) \<and>
    (\<forall>i < length (pr_objects p). \<forall>j < length (pr_objects p). no_handle (pr_objects p ! i) \<noteq> None \<longrightarrow>
       no_handle (pr_objects p ! i) = no_handle (pr_objects p ! j) \<longrightarrow> i = j) \<and>
    (valid \<noteq> [] \<longrightarrow> fst (runtime_ensure started (pr_runtime p)) = success)"
proof -
  have o: "owned p" by (rule reachable_owned [OF assms(1)])
  have users: "sk_users (pr_runtime p) = length valid + pr_governors p"
    using owned_users [OF o] by (simp add: valid_def)
  moreover have "sk_ready (pr_runtime p) \<longleftrightarrow> valid \<noteq> [] \<or> 0 < pr_governors p"
    using o users by (auto simp: owned_def)
  moreover have "set (pr_native p) = (the \<circ> no_handle) ` set valid"
    using owned_native [OF o] by (force simp: valid_def image_iff)
  moreover have "distinct (pr_native p)" using o by (simp add: owned_def)
  moreover have "i = j" if "i < length (pr_objects p)" "j < length (pr_objects p)" "no_handle (pr_objects p ! i) \<noteq> None"
      "no_handle (pr_objects p ! i) = no_handle (pr_objects p ! j)" for i j
    using owned_unique [OF o that(1,2)] that(3,4) by auto
  moreover have "valid \<noteq> [] \<longrightarrow> fst (runtime_ensure started (pr_runtime p)) = success"
    using users by (simp add: runtime_ensure_def)
  ultimately show ?thesis by blast
qed

definition dialled :: process where
  "dialled = snd (connect_to True (Some [\<lparr>cd_socket = Some 3, cd_connected = False\<rparr>,
     \<lparr>cd_socket = Some 3, cd_connected = True\<rparr>]) fresh_process)"

theorem sockets_have_one_owner_witness:
  "pr_native dialled = [3] \<and> sk_users (pr_runtime dialled) = 1 \<and> sk_ready (pr_runtime dialled)"
proof -
  let ?cs = "[\<lparr>cd_socket = Some 3, cd_connected = False\<rparr>, \<lparr>cd_socket = Some 3, cd_connected = True\<rparr>]"
  have "net_step fresh_process (snd (connect_to True (Some ?cs) fresh_process))"
    by (rule ns_connect) (simp add: fresh_process_def)
  then have "net_reachable dialled" unfolding dialled_def by (rule nr_step [OF nr_start])
  moreover have "pr_objects dialled = [\<lparr>no_listener = False, no_handle = Some 3, no_port = 0\<rparr>]"
      "pr_native dialled = [3]"
    by (simp_all add: dialled_def connect_to_def fresh_process_def runtime_ensure_def new_object_def)
  ultimately show ?thesis using sockets_have_one_owner [of dialled True]
    by (simp add: dialled_def connect_to_def fresh_process_def runtime_ensure_def new_object_def)
qed

end
