(* ===== verification/Spec2Isabelle.thy ===== *)
theory Spec2Isabelle
  imports Guarantees Durability Service Clients
begin

text \<open>
  Thermal Governor: a verification development.

  The program (C++, \<^verbatim>\<open>src/\<close> and \<^verbatim>\<open>include/thermal_governor/\<close>) is an embedded
  governor for thermal domains. Worker processes publish thermal evidence; the governor fences it,
  keeps the newest evidence per subject, evaluates each domain into a thermal state, a decision and
  a set of permitted and prohibited mitigations, answers admission requests, authorises mitigation
  actions and verifies their effect on later evidence. A restart keeps identities and policies and
  discards every live authority.

  How the parts interact. \<^verbatim>\<open>governance.cpp\<close> owns the state (\<open>governor\<close>) and calls the pure
  components: the evidence checks of \<^verbatim>\<open>evidence.cpp\<close>, the registry of \<^verbatim>\<open>domain.cpp\<close>, the
  coupling graph of \<^verbatim>\<open>coupling.cpp\<close>, the policy look-ups of \<^verbatim>\<open>policy.cpp\<close>, the evaluation
  of \<^verbatim>\<open>evaluation.cpp\<close> (which calls \<^verbatim>\<open>headroom.cpp\<close> and \<^verbatim>\<open>recovery.cpp\<close>), the authority
  checks of \<^verbatim>\<open>action.cpp\<close> and the verification of \<^verbatim>\<open>verification.cpp\<close>. Every public
  operation takes the mutex for its whole body, so an operation is one state transformer here and
  an interleaving of threads is a sequence of operations (\<open>reachable\<close> in \<open>Lifetime\<close>).

  Theories and code.

  \<^item> \<open>Prelude\<close>: widths of the integers, \<open>Result\<close> as a sum, keyed tables for the maps.
  \<^item> \<open>Errors\<close>, \<open>Vocabulary\<close>, \<open>Decision\<close>: \<^verbatim>\<open>error.hpp\<close>, \<^verbatim>\<open>quantity.hpp\<close>,
    \<^verbatim>\<open>provenance.hpp\<close>, \<^verbatim>\<open>capability.hpp\<close>, \<^verbatim>\<open>throttle.hpp\<close>, \<^verbatim>\<open>thermal_state.hpp\<close>,
    \<^verbatim>\<open>decision.hpp\<close>, \<^verbatim>\<open>mitigation.hpp\<close> and the canonical orders of \<^verbatim>\<open>decision.cpp\<close>.
  \<^item> \<open>Float64\<close>: the type \<^verbatim>\<open>double\<close> as binary64 with round to nearest even, signed zeros,
    infinities and NaN; \<open>Format\<close>: the decimal rendering of \<^verbatim>\<open>format.cpp\<close>.
  \<^item> \<open>Policy\<close>, \<open>Headroom\<close>, \<open>Evidence\<close>, \<open>Coupling\<close>, \<open>Domain\<close>, \<open>Recovery\<close>, \<open>Evaluation\<close>,
    \<open>Action\<close>, \<open>Verification\<close>: the source file of the same name. A record has the fields of the
    struct, an operation returns the updated record, and an error code is \<open>Inl\<close>.
  \<^item> \<open>Governor\<close>, \<open>GovernorOps\<close>, \<open>GovernorActions\<close>: \<^verbatim>\<open>governance.cpp\<close>, in its order: the
    \<^verbatim>\<open>Impl\<close> record and its internal steps, the registration, evidence and query operations, and
    the action, durability and shutdown operations. A table is an association list keyed by the
    identity, in the ascending order in which the source visits it whenever the order is visible.
  \<^item> \<open>EvaluationLaws\<close>, \<open>Monotonicity\<close>, \<open>GovernorLaws\<close>, \<open>Lifetime\<close>, \<open>Evolution\<close>, \<open>Restart\<close>, \<open>Fencing\<close>: the
    laws. \<open>Examples\<close>: concrete runs at which hypotheses are shown to be satisfiable.
  \<^item> \<open>Guarantees\<close> states the properties of the components, this theory those of the governor.
  \<^item> \<open>Binary\<close>, \<open>Checksum\<close>, \<open>Codes\<close>: \<^verbatim>\<open>binary.hpp\<close>, the checksum of \<^verbatim>\<open>persistence.cpp\<close>
    and the integer codes of the enumerations. A writer is the bytes it produced; a reader is the
    bytes after its position with the latch; \<open>f64_bits\<close> is the byte image of a \<^verbatim>\<open>double\<close>.
  \<^item> \<open>DurableRecords\<close>, \<open>Durable\<close>, \<open>Store\<close>: the records, the container and the \<^verbatim>\<open>DurableStore\<close>
    of \<^verbatim>\<open>persistence.cpp\<close>; \<open>DurableLaws\<close> and \<open>DurableFile\<close> hold their laws. A file system is a
    map from paths to contents, and what the system calls of one save do is its argument.
  \<^item> \<open>WindowsStore\<close>: the Windows branch of \<^verbatim>\<open>DurableStore\<close>; \<open>SaveGate\<close>: saves of several threads,
    which the mutex of the path puts one after the other.
  \<^item> \<open>Frame\<close>: \<^verbatim>\<open>protocol.cpp\<close>. \<open>Wire\<close>: \<^verbatim>\<open>wire.cpp\<close>; \<open>WireLaws\<close>: what each message keeps.
  \<^item> \<open>Durability\<close> states the properties of files and messages.
  \<^item> \<open>Cycle\<close>: the cycle search of \<^verbatim>\<open>coupling.cpp\<close>. \<open>Explanation\<close>: \<^verbatim>\<open>explanation.cpp\<close>,
    \<^verbatim>\<open>snapshot.cpp\<close> and the renderings of \<^verbatim>\<open>capability.cpp\<close> and \<^verbatim>\<open>throttle.cpp\<close>. \<open>Transport\<close>:
    the transfers of \<^verbatim>\<open>transport.cpp\<close> over what the socket calls return; \<open>Sockets\<close>: its sockets and
    listeners as owners of descriptors and of references of the socket runtime.
  \<^item> \<open>Session\<close>, \<open>Verbs\<close>, \<open>Coordinator\<close>: \<^verbatim>\<open>tools/session.cpp\<close> and \<^verbatim>\<open>tools/tg_coordinator.cpp\<close>,
    the helpers, the commands (\<open>handle\<close>) and the process with its sessions (\<open>run_session\<close>). A command
    returns its reply and the coordinator after it, or no reply where the program reads past its
    arguments. \<open>CoordinatorLaws\<close>: what every operation keeps, every command and session keeps
    (locale \<open>operation_closed\<close>); \<open>ReplyLaws\<close>: what replies mean. The sessions of \<open>run_session\<close> come one
    after the other; calls of concurrent handlers interleave as operations of \<open>reachable\<close> do.
  \<^item> \<open>Threads\<close>: the start of the coordinator process and its threads (the accept loop, the handlers,
    the stop flag, interruption and joining) as a step relation over all interleavings; what a
    handler does with a frame is \<open>session_step\<close>.
  \<^item> \<open>Service\<close> states the properties of the coordinator process.
  \<^item> \<open>ErrorNumbers\<close>: the numbers of the error codes. \<open>Client\<close>: \<^verbatim>\<open>tools/tg_worker.cpp\<close> and
    \<^verbatim>\<open>tools/tg_cli.cpp\<close> over any channel; \<open>Connection\<close> joins a client and the coordinator: the frames a
    client sends are handled by \<open>session_step\<close> and the answers wait to be read.
  \<^item> \<open>Backend\<close>: \<^verbatim>\<open>backend.cpp\<close>; \<open>Nvml\<close>: \<^verbatim>\<open>nvml_backend.cpp\<close> over a record of what the vendor
    library answers; \<open>Host\<close>: the manual clock and the CUDA stub.
  \<^item> \<open>Clients\<close> states the properties of the clients, the back ends and the sockets.
  Contracts as locales. \<open>ranked_choice\<close> (provenance and derating combine towards the worse),
  \<open>rounding_mode\<close> (rounding is monotone and keeps doubles), \<open>bounded_search\<close> (both directions of
  the coupling traversal), \<open>governor_steps\<close> (a predicate that permitted operations keep holds after every
  run of them), \<open>governor_invariant\<close> (the same of all operations: it holds in every reachable state) and
  \<open>evolution_invariant\<close> (predicates of the evaluations and the history), \<open>codec\<close> (a reader placed on a written value returns
  what the format keeps and stops behind it) with \<open>record_section\<close> for the sections of the durable
  file, \<open>message\<close> (a payload is decoded exactly, nothing may follow it) with \<open>payload_format\<close> for
  the readers that return early, \<open>operation_closed\<close> (a predicate every operation keeps is kept by
  every command and session), \<open>telemetry\<close> (what every back end promises). Each is interpreted on the model's own definitions.

  What the lemmas show. \<open>EvaluationLaws\<close>: a restriction is left only through the recovery gate;
  healthy outcomes need admitted fresh evidence; derating, decision and intents agree.
  \<open>Monotonicity\<close>: a hotter reading is never milder. \<open>Coupling\<close>: the breadth-first search computes
  exact bounded distances. \<open>Recovery\<close>: the walk counts the newest qualifying run. \<open>Domain\<close>: the
  membership index is exact. \<open>DurableLaws\<close>, \<open>DurableFile\<close>, \<open>Frame\<close>, \<open>WireLaws\<close>: round trips of every
  record, file, frame and message, and the damage the checksums detect. \<open>GovernorLaws\<close>: frames, fences, the fate of actions.
  \<open>Lifetime\<close> and \<open>Evolution\<close>: the invariants of all reachable states; loading any durable file is one of
  the operations, so what such a file can bring, policies that were never validated and a longer
  history, appears in them. \<open>Restart\<close>: the actions after a load, and files that can never be loaded.
  \<open>Fencing\<close>: a dead worker authorises nothing.

  Bounds and termination. Identities and counters are 64-bit words and wrap; doubles round. Every
  function is total: loops over containers are structural recursions, and the breadth-first search
  terminates because a domain enters the distance map once and depths stay within the bound
  (\<open>depth_room\<close>); the cycle search because a white domain turns grey only once. Fuel is used in one
  place, \<open>read_group\<close>, which a peer can keep busy: one more than the frames a finite stream has room
  for is enough (\<open>read_group_ends\<close>). A client that waits for a peer may wait for ever, so its loops are
  option-valued partial functions (\<open>channel_group\<close>, \<open>hold_connection\<close>); that a client
  of the coordinator gets its answers is part of what is proved of it.

  What is a parameter. The clock is the time argument \<open>now\<close> of the operations that read it; in a
  request that makes several calls it is a sequence of readings. What the socket calls return is a
  script the transport consumes, what the entry points of the NVML library answer is a record,
  and the path operations of Windows are a record of functions with their documented effect as a hypothesis. Maps of
  the source whose iteration order is unspecified are only folded with operations that sort.

  Idealisations. Each operation of the governor reads the clock once; the source reads it several times
  while it holds the lock. Differences of times are unbounded integers, where the source subtracts 64-bit ones
  and is undefined if that overflows (evidence ages and recovery spans). A history bound of 0, with which the source erases past the end,
  drops the history. The removal of a temporary file after a failed save is assumed to succeed. The vendor
  library answers equal calls equally, which only the comparison of capabilities with queries uses.

  Not modelled: the CUDA kernel (\<^verbatim>\<open>cuda_kernel.cu\<close>), socket options and the description of a
  peer; the detail texts of refusals and the standard error output; power failures, after which more than the last
  call may be missing; tests, examples and benchmarks.
\<close>

section \<open>Every reachable state\<close>

text \<open>
  C5: after any run of operations from \<^verbatim>\<open>create\<close>, domains, parents,
  children and couplings refer to registered domains, every piece of held evidence is structurally
  valid and stored under the key of its own subject, every table is keyed by the identity its
  entries carry, every recovery history fits its capacity, the default policy is present, and every
  installed policy is valid unless a durable file loaded during the run brought it, which
  \<^verbatim>\<open>load_durable\<close> does not validate.
\<close>

theorem reachable_states_are_well_formed:
  assumes "create now sockets cf = Inr g0" "g = perform_all run g0"
  shows "topology_ok (g_domains g) (g_couplings g) \<and> evidence_ok (g_evidence g) \<and>
    keyed dr_device (g_devices g) \<and> keyed wo_worker (g_workers g) \<and> keyed ac_id (g_actions g) \<and>
    all_values history_ok (g_recovery_histories g) \<and>
    keyed pol_id (g_policies g) \<and> map_of (g_policies g) kDefaultPolicyId \<noteq> None \<and>
    (\<forall>i p. map_of (g_policies g) i = Some p \<longrightarrow> validate_policy p = success \<or>
       (\<exists>op \<in> snd ` set run. p \<in> set (loaded_policies op)))"
proof -
  let ?L = "{p. \<exists>op \<in> snd ` set run. p \<in> set (loaded_policies op)}"
  have "structure_from ?L g"
    unfolding assms(2) by (rule loading.created_run_inv [OF assms(1)]) blast
  then show ?thesis
    using structure_find_policy(2) [of ?L g] by (auto simp: structure_from_def policies_from_def)
qed

theorem reachable_states_are_well_formed_witness:
  "map_of (g_policies (perform_all [(3, OP_SHUTDOWN)] booted)) kDefaultPolicyId \<noteq> None"
  using reachable_states_are_well_formed [OF booted_created refl, of "[(3, OP_SHUTDOWN)]"] by blast

text \<open>
  C6: whatever operations ran, every stored evaluation that decides
  ALLOW is in a healthy state, requests no mitigation its state prohibits, and lists its reasons
  in canonical order.
\<close>

theorem stored_evaluations_are_sound:
  assumes "reachable g" "map_of (g_evaluations g) i = Some ev"
  shows "(te_decision ev = TD_ALLOW \<longrightarrow> is_healthy_state (te_state ev)) \<and>
    (\<forall>r \<in> set (te_intents ev). ir_intent r \<notin> set (te_prohibited_intents ev)) \<and>
    sorted (te_reasons ev)"
  using all_values_find [OF _ assms(2), of evaluation_sound] sound.reachable_inv [OF assms(1)]
  unfolding evaluations_sound_def evaluation_sound_def by blast

theorem stored_evaluations_are_sound_witness:
  "\<exists>ev. map_of (g_evaluations racked) 7 = Some ev \<and> sorted (te_reasons ev)"
  using racked_evaluated stored_evaluations_are_sound [OF reachable_examples(2)] by blast

text \<open>
  With a positive bound configured, the transition history
  never exceeds it, however many evaluations are recorded, unless a longer history is loaded.
\<close>

theorem transition_history_is_bounded:
  assumes "create now sockets cf = Inr g0" "g = perform_all run g0"
    and "\<forall>op \<in> snd ` set run. loaded_history op \<le> n" "0 < cf_max_history_records (g_config g)"
  shows "length (g_history g) \<le> max n (cf_max_history_records (g_config g))"
  using bounded.created_run_inv [OF assms(1,3)] assms(2,4) by (simp add: history_fits_def)

theorem transition_history_is_bounded_witness: "length (g_history booted) \<le> 200000"
  using transition_history_is_bounded [OF booted_created, of booted "[]" 0] by (simp add: default_config_def)

text \<open>
  C37: in every reachable state the evaluation of a registered
  domain succeeds and is stored, because its policy or the default policy is installed.
\<close>

theorem registered_domains_always_evaluate:
  assumes "reachable g" "registry_find (g_domains g) i = Some d"
  shows "\<exists>ev g'. evaluate_domain now i g = (Inr ev, g') \<and> map_of (g_evaluations g') i = Some ev"
  using evaluate_locked_total [OF structural.reachable_inv [OF assms(1)], of now d] assms(2)
  by (auto simp: evaluate_domain_def table_find_update)

theorem registered_domains_always_evaluate_witness:
  "\<exists>ev g'. evaluate_domain 5 7 racked = (Inr ev, g')"
  using registered_domains_always_evaluate [OF reachable_examples(2) racked_registered(2)] by blast

section \<open>Evidence\<close>

text \<open>A published snapshot is the one of the state it is part of.\<close>

lemma snapshot_of_published [simp]:
  "build_snapshot now (g \<lparr>g_published := x\<rparr>) = build_snapshot now g"
proof -
  have "policy_for (g \<lparr>g_published := x\<rparr>) d = policy_for g d" for d
    by (simp add: policy_for_def split: option.split)
  then have "make_envelope (g \<lparr>g_published := x\<rparr>) d ev = make_envelope g d ev" for d ev
    by (simp add: make_envelope_def)
  then have "snapshot_domain (g \<lparr>g_published := x\<rparr>) = snapshot_domain g"
    by (simp add: fun_eq_iff snapshot_domain_def Let_def split: option.split)
  moreover have "snapshot_device (g \<lparr>g_published := x\<rparr>) = snapshot_device g"
    by (simp add: fun_eq_iff snapshot_device_def Let_def split: list.split)
  ultimately show ?thesis by (simp add: build_snapshot_def cong: option.case_cong)
qed

lemma published_is_current:
  "g_published (publish_locked now g) = Some (build_snapshot now (publish_locked now g))"
  by (simp add: publish_locked_def)

text \<open>
  C8: a publication that is refused or recognised as a duplicate
  leaves the state as it was; an accepted one passed structural validation, every fence and the
  sequence check, is held under its own subject, touches the evidence of no other subject, and is
  visible in a fresh snapshot.
\<close>

theorem publication_is_all_or_nothing:
  "case publish_impl now e g of
     (Inl err, g') \<Rightarrow> g' = g
   | (Inr receipt, g') \<Rightarrow>
       if \<not> er_accepted receipt then g' = g
       else validate_evidence_structure e = success \<and> evidence_fences e g = success \<and>
         sequence_check e g = None \<and>
         g_evidence g' = AList.update (subject_key (ev_subject e)) e (g_evidence g) \<and>
         g_published g' = Some (build_snapshot now g')"
proof (cases rule: publish_impl_cases [of now e g])
  case refused
  then show ?thesis by simp
next
  case duplicate
  then show ?thesis by simp
next
  case accepted
  then show ?thesis
    using published_is_current by (simp add: note_samples_frame accept_evidence_def Let_def)
qed

text \<open>
  An observation passes the fences exactly when the governor is not
  stopping, the epoch is current, a named worker is registered, alive and in the named boot, a
  named device is registered in the named generation, and a named domain is registered in the
  named generation.
\<close>

theorem fences_are_exact:
  "evidence_fences e g = success \<longleftrightarrow>
     \<not> g_stopping g \<and> ev_coordinator_epoch e = g_epoch g \<and>
     (id_valid (ev_worker e) \<longrightarrow>
        (\<exists>w. map_of (g_workers g) (ev_worker e) = Some w \<and> wo_boot w = ev_worker_boot e \<and> wo_alive w)) \<and>
     (sr_kind (ev_subject e) = SK_DEVICE \<longrightarrow>
        (\<exists>r. map_of (g_devices g) (sr_device (ev_subject e)) = Some r \<and>
           dr_generation r = sr_device_generation (ev_subject e))) \<and>
     (id_valid (ev_domain e) \<longrightarrow>
        (\<exists>d. registry_find (g_domains g) (ev_domain e) = Some d \<and>
           dd_generation d = ev_domain_generation e))"
  by (rule evidence_fences_iff)

theorem fences_are_exact_witness: "\<not> g_stopping staffed \<and> g_epoch staffed = 1"
  using fences_are_exact [of "reading 3 62" staffed] reading_fenced by simp

text \<open>
  C4: once a worker incarnation is noted dead, every domain whose governing
  evidence it measured is re-evaluated to an unresolved state that is not ALLOW, and its unfinished
  actions end with an unknown outcome. Governing is the evidence held under the subject the gathered
  evidence names: the domain's own evidence, that of its only member, or that of the member that
  governs an aggregate. The death of a worker that measured another member of an aggregate is not
  covered, and does not change what the domain is evaluated on.
\<close>

theorem worker_death_revokes:
  assumes "reachable g" and death: "note_worker_death now w b why g = (success, g')"
  shows "(\<forall>i d de e. registry_find (g_domains g) i = Some d \<and>
        gather_domain_evidence d (g_evidence g) = Some de \<and>
        map_of (g_evidence g) (subject_key (ev_subject (de_evidence de))) = Some e \<and>
        ev_worker e = w \<and> ev_worker_boot e = b \<longrightarrow>
        (\<exists>ev. map_of (g_evaluations g') i = Some ev \<and> is_unresolved (te_state ev) \<and>
          te_decision ev \<noteq> TD_ALLOW)) \<and>
    (\<forall>i d de. registry_find (g_domains g) i = Some d \<and>
        gather_domain_evidence d (g_evidence g) = Some de \<and> \<not> de_synthesized de \<longrightarrow>
        map_of (g_evidence g) (subject_key (ev_subject (de_evidence de))) = Some (de_evidence de)) \<and>
    (\<forall>i a. map_of (g_actions g) i = Some a \<and> aa_worker (ac_authority a) = w \<and>
        aa_worker_boot (ac_authority a) = b \<and> \<not> is_terminal (ac_lifecycle a) \<longrightarrow>
        (\<exists>a'. map_of (g_actions g') i = Some a' \<and> ac_lifecycle a' = AL_OUTCOME_UNKNOWN))"
proof (intro conjI allI impI; elim conjE)
  fix i d de e
  assume "registry_find (g_domains g) i = Some d" "gather_domain_evidence d (g_evidence g) = Some de"
    "map_of (g_evidence g) (subject_key (ev_subject (de_evidence de))) = Some e"
    "ev_worker e = w" "ev_worker_boot e = b"
  then show "\<exists>ev. map_of (g_evaluations g') i = Some ev \<and> is_unresolved (te_state ev) \<and>
      te_decision ev \<noteq> TD_ALLOW"
    by (rule death_revokes [OF structural.reachable_inv [OF assms(1)] death])
next
  fix d de
  assume "gather_domain_evidence d (g_evidence g) = Some de" "\<not> de_synthesized de"
  then show "map_of (g_evidence g) (subject_key (ev_subject (de_evidence de))) = Some (de_evidence de)"
    by (rule gathered_held [OF structural.reachable_inv [OF assms(1)]])
next
  fix i a
  assume "map_of (g_actions g) i = Some a" "aa_worker (ac_authority a) = w"
    "aa_worker_boot (ac_authority a) = b" "\<not> is_terminal (ac_lifecycle a)"
  then show "\<exists>a'. map_of (g_actions g') i = Some a' \<and> ac_lifecycle a' = AL_OUTCOME_UNKNOWN"
    using death_actions [OF death] by metis
qed

theorem worker_death_revokes_witness:
  "\<exists>g' ev. note_worker_death 5000000000 3 9 ''lost'' measured = (success, g') \<and>
     map_of (g_evaluations g') 7 = Some ev \<and> is_unresolved (te_state ev)"
proof -
  obtain g' where death: "note_worker_death 5000000000 3 9 ''lost'' measured = (success, g')"
    using measured_worker by (auto simp: note_worker_death_def Let_def)
  have "gather_domain_evidence rack_domain (g_evidence measured) =
      Some \<lparr>de_evidence = reading 3 62, de_synthesized = False, de_rule = AR_HOTTEST_MEMBER_GOVERNS\<rparr>"
    by (simp add: gather_domain_evidence_def)
  moreover have "map_of (g_evidence measured) (subject_key (ev_subject (reading 3 62))) = Some (reading 3 62)"
    by simp
  ultimately have "\<exists>ev. map_of (g_evaluations g') 7 = Some ev \<and> is_unresolved (te_state ev) \<and> te_decision ev \<noteq> TD_ALLOW"
    using worker_death_revokes [OF measured_reachable death] racked_registered(2) by (fastforce simp: reading_def)
  then show ?thesis using death by blast
qed

text \<open>
  After the death of a worker incarnation every observation that
  names the worker is refused, whatever boot it claims, and changes nothing.
\<close>

theorem dead_workers_are_fenced:
  assumes "note_worker_death now w b why g = (success, g')"
    and "validate_evidence_structure e = success" "ev_worker e = w" "id_valid w"
    and "ev_coordinator_epoch e = g_epoch g'" "\<not> g_stopping g'"
  shows "publish_impl now' e g' = (Inl E_STALE_WORKER, g')"
  by (rule death_fences [OF assms])

theorem dead_workers_are_fenced_witness:
  "\<exists>g'. note_worker_death 5000000000 3 9 ''lost'' measured = (success, g') \<and>
     publish_impl 6000000000 (reading 3 62) g' = (Inl E_STALE_WORKER, g')"
proof -
  obtain g' where death: "note_worker_death 5000000000 3 9 ''lost'' measured = (success, g')"
    using measured_worker by (auto simp: note_worker_death_def Let_def)
  then obtain r where "g' = (publish_locked 5000000000
      (recompute_all_domains 5000000000 (after_death 5000000000 3 9 r measured)))
      \<lparr>g_history_note := ''lost''\<rparr>" by (rule death_success)
  then show ?thesis
    using dead_workers_are_fenced [OF death reading_valid] death by (simp add: id_valid_def)
qed

section \<open>Admission\<close>

text \<open>
  C10: a workload is admitted only to a registered domain of
  the expected domain and policy generations in the expected epoch, on an evaluation made in this step whose decision is ALLOW or
  ALLOW_DERATED; undiminished admission needs the decision ALLOW, the demanded headroom, and a
  requested concurrency within the ceiling.
\<close>

theorem admission_follows_a_fresh_evaluation:
  assumes "evaluate_admission now rq g = Inr r" "admissible r"
  shows "\<exists>d policy ev. registry_find (g_domains g) (rq_domain rq) = Some d \<and>
    policy_for g d = Some policy \<and> evaluate_locked g now d = Inr ev \<and>
    (id_valid (rq_expected_domain_generation rq) \<longrightarrow>
       rq_expected_domain_generation rq = dd_generation d) \<and>
    (\<forall>x. rq_expected_coordinator_epoch rq = Some x \<longrightarrow> x = g_epoch g) \<and>
    (\<forall>x. rq_expected_policy_generation rq = Some x \<longrightarrow> x = pol_generation policy) \<and>
    (te_decision ev = TD_ALLOW \<or> te_decision ev = TD_ALLOW_DERATED) \<and>
    (ad_decision r = AD_ADMIT \<longrightarrow>
       te_decision ev = TD_ALLOW \<and> meets_demand (te_headroom ev) (ad_required_headroom r) \<and>
       (\<forall>c. rq_requested_concurrency rq = Some c \<longrightarrow> \<not> flt (te_permitted_concurrency ev) c))"
proof -
  obtain d where d: "registry_find (g_domains g) (rq_domain rq) = Some d"
      "id_valid (rq_expected_domain_generation rq) \<longrightarrow>
         rq_expected_domain_generation rq = dd_generation d"
      "\<forall>x. rq_expected_coordinator_epoch rq = Some x \<longrightarrow> x = g_epoch g"
    using assms(1) by (auto simp: evaluate_admission_def split: option.splits if_splits)
  obtain policy ev where ev: "evaluate_locked g now d = Inr ev"
      "r = admission_decide rq policy ev (admission_base rq g d policy ev)"
      "policy_for g d = Some policy" "\<forall>x. rq_expected_policy_generation rq = Some x \<longrightarrow> x = pol_generation policy"
    using assms(1) d(1) by (auto simp: evaluate_admission_def split: option.splits if_splits sum.splits)
  have "(te_decision ev = TD_ALLOW \<or> te_decision ev = TD_ALLOW_DERATED) \<and>
      (ad_decision r = AD_ADMIT \<longrightarrow>
       te_decision ev = TD_ALLOW \<and> meets_demand (te_headroom ev) (ad_required_headroom r) \<and>
       (\<forall>c. rq_requested_concurrency rq = Some c \<longrightarrow> \<not> flt (te_permitted_concurrency ev) c))"
    using assms(2) unfolding ev(2) by (rule admission_decide_admits)
  then show ?thesis using d ev(1,3,4) by blast
qed

theorem admission_follows_a_fresh_evaluation_witness:
  "\<exists>r ev. evaluate_admission 4500000000 calm_request calm = Inr r \<and> admissible r \<and>
     evaluate_locked calm 4500000000 rack_domain = Inr ev \<and>
     (te_decision ev = TD_ALLOW \<or> te_decision ev = TD_ALLOW_DERATED)"
proof -
  obtain r where r: "evaluate_admission 4500000000 calm_request calm = Inr r" "admissible r"
    using calm_admits by blast
  from admission_follows_a_fresh_evaluation [OF r] r racked_registered(2) show ?thesis
    by (auto simp: calm_def calm_request_def)
qed

section \<open>Actions\<close>

text \<open>
  C7: an action is dispatched only from AUTHORIZED and only
  while its authority is current in epoch, worker boot, device, domain, policy, topology and
  capability generation. Of an AUTHORIZED action whose authority is no longer current, the refusal
  makes a SUPERSEDED one, ended at the time of the call, and publishes a snapshot that shows it;
  every other refusal changes nothing.
\<close>

theorem dispatch_needs_current_authority:
  "case record_action_dispatch now i g of
     (Inr l, g') \<Rightarrow> \<exists>a. map_of (g_actions g) i = Some a \<and> ac_lifecycle a = AL_AUTHORIZED \<and>
       authority_current (ac_authority a) (dispatch_authority a g) \<and> l = AL_DISPATCHED \<and>
       map_of (g_actions g') i = Some (a \<lparr>ac_lifecycle := AL_DISPATCHED, ac_dispatched_at := now\<rparr>)
   | (Inl e, g') \<Rightarrow>
       (case map_of (g_actions g) i of
          None \<Rightarrow> e = E_UNKNOWN_ACTION \<and> g' = g
        | Some a \<Rightarrow>
            if ac_lifecycle a = AL_AUTHORIZED
            then \<not> authority_current (ac_authority a) (dispatch_authority a g) \<and>
              (\<exists>why. g_actions g' = AList.update i (a \<lparr>ac_lifecycle := AL_SUPERSEDED,
                 ac_terminal_at := now, ac_detail := why\<rparr>) (g_actions g)) \<and>
              g_published g' = Some (build_snapshot now g')
            else e = (if is_terminal (ac_lifecycle a) then E_ACTION_SUPERSEDED else E_ACTION_INFEASIBLE) \<and>
              g' = g)"
proof (cases "map_of (g_actions g) i")
  case None
  then show ?thesis by (simp add: record_action_dispatch_def)
next
  case (Some a)
  show ?thesis
  proof (cases "ac_lifecycle a = AL_AUTHORIZED")
    case False
    then show ?thesis using Some by (simp add: record_action_dispatch_def)
  next
    case True
    show ?thesis
    proof (cases "revalidate_action_authority (ac_authority a) (dispatch_authority a g)")
      case (Inl e)
      then have "\<not> authority_current (ac_authority a) (dispatch_authority a g)"
        using revalidate_iff [of "ac_authority a" "dispatch_authority a g"] by simp
      then show ?thesis
        using Inl Some True published_is_current
        by (cases e) (auto simp: record_action_dispatch_def put_action_def)
    next
      case (Inr u)
      then have "authority_current (ac_authority a) (dispatch_authority a g)"
        using revalidate_iff [of "ac_authority a" "dispatch_authority a g"] by simp
      then show ?thesis
        using Inr Some True by (simp add: record_action_dispatch_def put_action_def table_find_update)
    qed
  qed
qed

text \<open>
  C35: no dispatch, acknowledgement, cancellation, verification,
  worker death, evidence publication or shutdown changes the lifecycle of an action that has
  reached a terminal state.
\<close>

theorem finished_actions_stay_finished:
  assumes "map_of (g_actions g) i = Some a" "is_terminal (ac_lifecycle a)"
    and "op \<in> {OP_RECORD_ACTION_DISPATCH k, OP_RECORD_ACTION_ACK ack, OP_CANCEL_ACTION k why,
      OP_VERIFY_ACTION k e, OP_NOTE_WORKER_DEATH w b why, OP_PUBLISH_TEMPERATURE e, OP_SHUTDOWN}"
  shows "\<exists>a'. map_of (g_actions (perform now op g)) i = Some a' \<and> ac_lifecycle a' = ac_lifecycle a"
proof -
  have "keeps_terminal g (snd (publish_impl now e g))" by (rule keeps_terminal_same) simp
  then have "keeps_terminal g (perform now op g)"
    using assms(3) unfolding insert_iff empty_iff
    by (elim disjE FalseE; hypsubst)
      (simp_all only: perform.simps publish_temperature_def dispatch_keeps_terminal ack_keeps_terminal
        cancel_keeps_terminal verify_locked_keeps_terminal shutdown_keeps_terminal death_keeps_terminal)
  then show ?thesis using assms(1,2) unfolding keeps_terminal_def by blast
qed

theorem finished_actions_stay_finished_witness:
  "\<exists>a'. map_of (g_actions (perform 9 OP_SHUTDOWN
        (booted \<lparr>g_actions := [(2, empty_action \<lparr>ac_lifecycle := AL_EFFECTIVE\<rparr>)]\<rparr>))) 2 = Some a' \<and>
     ac_lifecycle a' = AL_EFFECTIVE"
  using finished_actions_stay_finished [of "booted \<lparr>g_actions :=
      [(2, empty_action \<lparr>ac_lifecycle := AL_EFFECTIVE\<rparr>)]\<rparr>" 2
      "empty_action \<lparr>ac_lifecycle := AL_EFFECTIVE\<rparr>" OP_SHUTDOWN]
  by simp



text \<open>
  C38: a result that answers an action correctly, in its
  generation, the epoch, the worker boot and the device and domain generations of its authority, but
  whose policy generation is superseded, rewrites the action to SUPERSEDED even after it has reached a terminal
  state, because the policy check precedes the terminal check. The witness is an action authorised on the reading of a
  worker and cancelled.
\<close>

theorem late_results_rewrite_finished_actions:
  assumes "map_of (g_actions g) (rr_action_id r) = Some a" "is_terminal (ac_lifecycle a)"
    and "rr_action_generation r = ac_generation a" "rr_coordinator_epoch r = g_epoch g"
    and "\<not> id_valid (aa_worker (ac_authority a)) \<or> rr_worker_boot r = aa_worker_boot (ac_authority a)"
    and "\<not> id_valid (aa_device (ac_authority a)) \<or>
      rr_device_generation r = aa_device_generation (ac_authority a)"
    and "rr_domain_generation r = aa_domain_generation (ac_authority a)"
    and "policy_superseded r a g"
  shows "\<exists>g' a'. record_action_result now r g = (Inl E_STALE_POLICY, g') \<and>
    map_of (g_actions g') (rr_action_id r) = Some a' \<and> ac_lifecycle a' = AL_SUPERSEDED \<and>
    ac_terminal_at a' = now"
  using assms by (auto simp: record_action_result_def Let_def put_action_def table_find_update)

theorem late_results_rewrite_finished_actions_witness:
  "reachable cancelled \<and>
   (\<exists>a. map_of (g_actions cancelled) 2 = Some a \<and> ac_lifecycle a = AL_CANCELLED) \<and>
   (\<exists>g' a'. record_action_result 4800000000 late_report cancelled = (Inl E_STALE_POLICY, g') \<and>
     map_of (g_actions g') 2 = Some a' \<and> ac_lifecycle a' = AL_SUPERSEDED)"
proof -
  obtain a where a: "map_of (g_actions cancelled) 2 = Some a" "ac_lifecycle a = AL_CANCELLED"
      "ac_generation a = 2" "aa_worker_boot (ac_authority a) = 9" "aa_device (ac_authority a) = 0"
      "aa_domain_generation (ac_authority a) = 1" "aa_policy_generation (ac_authority a) = 1"
      "g_epoch cancelled = 1"
    using cancelled_action by blast
  then show ?thesis
    using late_results_rewrite_finished_actions [of cancelled late_report a 4800000000] cancelled_reachable
    by (auto simp: late_report_def id_valid_def policy_superseded_def)
qed

section \<open>Restart and shutdown\<close>

text \<open>
  C3: a successful load of a durable file advances the epoch, holds
  no evidence and no explicit recovery authorisation, leaves every domain unresolved and none
  allowed to execute, and every action of the file in a terminal state. The restored actions are
  laid over the table of the governor, which is not cleared: an action that is unfinished afterwards
  is one the running governor held and the file does not list, unchanged (none when a new governor
  loads). No action authorised in the epoch before can be dispatched.
\<close>

theorem restart_drops_live_authority:
  assumes "load_durable now (Some (Inr s)) g = (success, g')"
  shows "g_epoch g' = gen_advance (g_epoch g) \<and> g_evidence g' = [] \<and> g_explicit_recovery g' = [] \<and>
    (\<forall>i ev. map_of (g_evaluations g') i = Some ev \<longrightarrow>
       is_unresolved (te_state ev) \<and> te_decision ev \<noteq> TD_ALLOW) \<and>
    (\<forall>i a. map_of (g_actions g') i = Some a \<longrightarrow> is_terminal (ac_lifecycle a) \<or>
       i \<notin> ac_id ` set (du_actions s) \<and> map_of (g_actions g) i = Some a) \<and>
    (\<forall>a. aa_coordinator_epoch (ac_authority a) = g_epoch g \<longrightarrow>
       \<not> authority_current (ac_authority a) (dispatch_authority a g'))"
proof -
  obtain g2 where g2: "g' = restart_state now s g2"
    using load_durable_success [OF assms] by metis
  have "is_unresolved (te_state ev) \<and> te_decision ev \<noteq> TD_ALLOW"
    if "map_of (g_evaluations g') i = Some ev" for i ev
    using restart_evaluations that unfolding g2 by blast
  then show ?thesis
    using restart_epoch [OF assms] restart_actions [OF assms] restart_ends_authority [OF assms]
    by (auto simp: g2 restart_fields)
qed

theorem restart_drops_live_authority_witness:
  "\<exists>g'. load_durable 9 (Some (Inr (durable_of booted))) durable_booted = (success, g') \<and>
     g_epoch g' = 2 \<and> g_evidence g' = []"
proof -
  obtain g' where g': "load_durable 9 (Some (Inr (durable_of booted))) durable_booted = (success, g')"
    using booted_reloads by blast
  then show ?thesis
    using restart_drops_live_authority [OF g'] by (simp add: durable_booted_def gen_advance_def)
qed

text \<open>
  C39: the durable file lists domains by ascending
  identity, but restoring a domain requires its parent and its children to be registered already.
  So the file of a governor in which some domain has a child or a parent with a greater identity is
  refused as corrupt by every governor that does not know that relative yet, in particular by a new
  one, which knows no domain. The witness registers such a domain.
\<close>

theorem children_can_make_a_durable_file_unreadable:
  assumes "reachable g" "registry_find (g_domains g) i = Some d" "relative d c" "i < c"
    and "cf_durable_path (g_config h) \<noteq> []" "\<not> registered (g_domains h) c"
  shows "fst (load_durable now (Some (Inr (durable_of g))) h) = Inl E_PERSISTENCE_CORRUPT"
  by (rule dangling_file_is_refused [OF structure_registry [OF structural.reachable_inv [OF assms(1)]] assms(2-6)])

theorem children_can_make_a_durable_file_unreadable_witness:
  "reachable nested \<and> g_domains durable_booted = empty_registry \<and>
   fst (load_durable 9 (Some (Inr (durable_of nested))) durable_booted) = Inl E_PERSISTENCE_CORRUPT"
proof -
  have "relative parent_domain 9" by (simp add: relative_def parent_domain_def)
  moreover have "\<not> registered (g_domains durable_booted) 9"
    by (simp add: durable_booted_def registered_def empty_registry_def)
  ultimately show ?thesis
    using children_can_make_a_durable_file_unreadable [OF nested_reachable nested_parent] nested_reachable
    by (simp add: durable_booted_def)
qed

text \<open>
  C36: shutdown leaves no action unfinished, every later observation that is
  structurally valid is refused, and a second shutdown changes nothing.
\<close>

theorem shutdown_is_final:
  assumes "\<not> g_stopping g"
  shows "(\<forall>i a. map_of (g_actions (snd (shutdown now g))) i = Some a \<longrightarrow> is_terminal (ac_lifecycle a)) \<and>
    (\<forall>e. validate_evidence_structure e = success \<longrightarrow>
       publish_impl later e (snd (shutdown now g)) = (Inl E_REVALIDATION_REQUIRED, snd (shutdown now g))) \<and>
    shutdown later (snd (shutdown now g)) = (None, snd (shutdown now g))"
proof (intro conjI allI impI)
  have stopping: "g_stopping (snd (shutdown now g))" using assms by (simp add: shutdown_def Let_def)
  show "is_terminal (ac_lifecycle a)" if "map_of (g_actions (snd (shutdown now g))) i = Some a" for i a
    by (rule shutdown_all_terminal [OF assms that])
  show "publish_impl later e (snd (shutdown now g)) = (Inl E_REVALIDATION_REQUIRED, snd (shutdown now g))"
    if "validate_evidence_structure e = success" for e
    using stopping that by (simp add: publish_impl_def evidence_fences_def)
  show "shutdown later (snd (shutdown now g)) = (None, snd (shutdown now g))"
    using stopping by (simp add: shutdown_def [of later])
qed

theorem shutdown_is_final_witness:
  "shutdown 10 (snd (shutdown 9 measured)) = (None, snd (shutdown 9 measured))"
  using shutdown_is_final [of measured 9 10] by simp

end
